(* ===== verification/Prelude.thy ===== *)
theory Prelude
  imports Main "HOL-Library.Word" "HOL-Library.Sublist" "HOL-Library.List_Lexorder" "HOL-Library.Char_ord"
begin

text \<open>
  Shared vocabulary of the development: the result type of fallible operations, sequences of
  checks that stop at the first error (the shape of every validator of \<^verbatim>\<open>crates/domain\<close>),
  bounded integer arithmetic as Rust's checked operations give it, and the generic lemmas on
  lists, enumerated loops and insertion-ordered duplicate detection that the component theories
  share.
\<close>

section \<open>Hint collections\<close>

named_theorems check_simps \<open>when a sequence of checks succeeds\<close>
named_theorems step_defs \<open>definitions of the state-changing operations\<close>

section \<open>Results\<close>

text \<open>Rust's \<^verbatim>\<open>Result<T, E>\<close>: \<open>Inl\<close> is \<^verbatim>\<open>Err\<close>, \<open>Inr\<close> is \<^verbatim>\<open>Ok\<close>.\<close>

abbreviation Err :: "'e \<Rightarrow> 'e + 'a" where "Err \<equiv> Inl"
abbreviation Ok :: "'a \<Rightarrow> 'e + 'a" where "Ok \<equiv> Inr"

definition is_ok :: "'e + 'a \<Rightarrow> bool" where
  "is_ok r = (case r of Inl _ \<Rightarrow> False | Inr _ \<Rightarrow> True)"

text \<open>The \<^verbatim>\<open>?\<close> operator: go on with the value, or return the error.\<close>

definition andThen :: "'e + 'a \<Rightarrow> ('a \<Rightarrow> 'e + 'b) \<Rightarrow> 'e + 'b" where
  "andThen r f = (case r of Inl e \<Rightarrow> Inl e | Inr x \<Rightarrow> f x)"

text \<open>\<^verbatim>\<open>if bad { return Err(e) }\<close>, and \<^verbatim>\<open>option.ok_or(e)\<close>.\<close>

definition refuse_if :: "bool \<Rightarrow> 'e \<Rightarrow> 'e + unit" where
  "refuse_if bad e = (if bad then Inl e else Inr ())"

definition ok_or :: "'a option \<Rightarrow> 'e \<Rightarrow> 'e + 'a" where
  "ok_or x e = (case x of None \<Rightarrow> Inl e | Some v \<Rightarrow> Inr v)"

text \<open>
  A sequence of checks: the first error wins and the later checks are not looked at.
\<close>

fun checks :: "('e + unit) list \<Rightarrow> 'e + unit" where
  "checks [] = Inr ()"
| "checks (c # cs) = (case c of Inl e \<Rightarrow> Inl e | Inr _ \<Rightarrow> checks cs)"

text \<open>\<^verbatim>\<open>for (index, value) in values.iter().enumerate() { check(index, value)?; }\<close>\<close>

definition each_idx :: "(nat \<Rightarrow> 'a \<Rightarrow> 'e + unit) \<Rightarrow> 'a list \<Rightarrow> 'e + unit" where
  "each_idx f xs = checks (map (\<lambda>(i, x). f i x) (List.enumerate 0 xs))"

definition each :: "('a \<Rightarrow> 'e + unit) \<Rightarrow> 'a list \<Rightarrow> 'e + unit" where
  "each f xs = checks (map f xs)"

text \<open>A check that only applies to a value that is present.\<close>

definition each_opt :: "('a \<Rightarrow> 'e + unit) \<Rightarrow> 'a option \<Rightarrow> 'e + unit" where
  "each_opt f x = (case x of None \<Rightarrow> Inr () | Some v \<Rightarrow> f v)"

section \<open>Iterators\<close>

text \<open>\<^verbatim>\<open>values.iter().position(p)\<close>\<close>

fun position :: "('a \<Rightarrow> bool) \<Rightarrow> 'a list \<Rightarrow> nat option" where
  "position p [] = None"
| "position p (x # xs) = (if p x then Some 0 else map_option Suc (position p xs))"

text \<open>
  \<^verbatim>\<open>if let Some(index) = values.iter().position(p) { return Err(e(index)) }\<close>
\<close>

definition refuse_at :: "nat option \<Rightarrow> (nat \<Rightarrow> 'e) \<Rightarrow> 'e + unit" where
  "refuse_at pos e = (case pos of None \<Rightarrow> Inr () | Some i \<Rightarrow> Inl (e i))"

text \<open>
  The index of the first element that is already in the set the elements are inserted
  into: \<^verbatim>\<open>values.position(|value| !seen.insert(value))\<close>.
\<close>

fun first_seen :: "'a set \<Rightarrow> 'a list \<Rightarrow> nat option" where
  "first_seen seen [] = None"
| "first_seen seen (x # xs) =
     (if x \<in> seen then Some 0 else map_option Suc (first_seen (insert x seen) xs))"

definition first_dup :: "'a list \<Rightarrow> nat option" where
  "first_dup xs = first_seen {} xs"

text \<open>
  Inside an enumerated loop whose iterations insert \<open>key x\<close> into a set and stop when it was
  there: the value was inserted by an earlier iteration.
\<close>

definition seen_before :: "('a \<Rightarrow> 'b) \<Rightarrow> 'a list \<Rightarrow> nat \<Rightarrow> 'a \<Rightarrow> bool" where
  "seen_before key xs i x \<longleftrightarrow> key x \<in> key ` set (take i xs)"

text \<open>\<^verbatim>\<open>values.collect::<BTreeSet<_>>().into_iter().collect()\<close>: ascending, each value once.\<close>

definition btree_list :: "'a::linorder list \<Rightarrow> 'a list" where
  "btree_list xs = sort (remdups xs)"

section \<open>Signed 64-bit integers\<close>

text \<open>
  An \<^verbatim>\<open>i64\<close> is an \<open>int\<close> of the range below; \<^verbatim>\<open>checked_add\<close> returns
  \<open>None\<close> where the sum leaves it.
\<close>

definition i64_max :: int where "i64_max = 9223372036854775807"
definition i64_min :: int where "i64_min = - 9223372036854775808"

definition in_i64 :: "int \<Rightarrow> bool" where
  "in_i64 i \<longleftrightarrow> i64_min \<le> i \<and> i \<le> i64_max"

definition checked_add_i64 :: "int \<Rightarrow> int \<Rightarrow> int option" where
  "checked_add_i64 a b = (if in_i64 (a + b) then Some (a + b) else None)"

section \<open>Lemmas on results and checks\<close>

lemma is_ok_simps [simp]: "is_ok (Inr x)" "\<not> is_ok (Inl e)"
  by (simp_all add: is_ok_def)

lemma is_ok_iff: "is_ok r \<longleftrightarrow> (\<exists>x. r = Inr x)"
  by (cases r) auto

lemma is_ok_unit: "is_ok (r :: 'e + unit) \<longleftrightarrow> r = Inr ()"
  by (cases r) auto

lemma andThen_simps [simp]: "andThen (Inl e) f = Inl e" "andThen (Inr x) f = f x"
  by (simp_all add: andThen_def)

lemma andThen_Inr [check_simps]: "andThen r f = Inr y \<longleftrightarrow> (\<exists>x. r = Inr x \<and> f x = Inr y)"
  by (cases r) auto

lemma andThen_Inl: "andThen r f = Inl e \<longleftrightarrow> r = Inl e \<or> (\<exists>x. r = Inr x \<and> f x = Inl e)"
  by (cases r) auto

lemma refuse_if_simps [simp]:
  "refuse_if True e = Inl e" "refuse_if False e = Inr ()"
  by (simp_all add: refuse_if_def)

lemma refuse_if_Inr [check_simps]: "refuse_if b e = Inr u \<longleftrightarrow> \<not> b"
  by (simp add: refuse_if_def)

lemma refuse_if_Inl: "refuse_if b e = Inl e' \<longleftrightarrow> b \<and> e' = e"
  by (auto simp: refuse_if_def)

lemma ok_or_Inr [check_simps]: "ok_or x e = Inr v \<longleftrightarrow> x = Some v"
  by (simp add: ok_or_def split: option.split)

lemma ok_or_simps [simp]: "ok_or None e = Inl e" "ok_or (Some v) e = Inr v"
  by (simp_all add: ok_or_def)

lemma checks_Inr_Cons [check_simps]:
  "checks (c # cs) = Inr u \<longleftrightarrow> c = Inr () \<and> checks cs = Inr u"
  by (cases c) auto

lemma checks_Cons_simps [simp]:
  "checks (Inl e # cs) = Inl e" "checks (Inr u # cs) = checks cs"
  by simp_all

lemma checks_Nil_Inr [check_simps]: "checks [] = Inr u \<longleftrightarrow> True"
  by simp

lemma checks_Inr_iff: "checks cs = Inr u \<longleftrightarrow> (\<forall>c\<in>set cs. c = Inr ())"
  by (induction cs) (auto simp: checks_Inr_Cons simp del: checks.simps(2))

lemma checks_Inl_mem: "checks cs = Inl e \<Longrightarrow> Inl e \<in> set cs"
  by (induction cs) (auto split: sum.splits)

lemma checks_append:
  "checks (xs @ ys) = (case checks xs of Inl e \<Rightarrow> Inl e | Inr _ \<Rightarrow> checks ys)"
  by (induction xs) (auto split: sum.splits)

declare checks.simps(2) [simp del]

lemma enumerate_forall:
  "(\<forall>p\<in>set (List.enumerate 0 xs). P (fst p) (snd p)) \<longleftrightarrow> (\<forall>i<length xs. P i (xs ! i))"
  by (auto simp: in_set_enumerate_eq Ball_def)

lemma each_idx_Inr [check_simps]:
  "each_idx f xs = Inr u \<longleftrightarrow> (\<forall>i<length xs. f i (xs ! i) = Inr ())"
  using enumerate_forall [of xs "\<lambda>i x. f i x = Inr ()"]
  by (simp add: each_idx_def checks_Inr_iff split_beta)

lemma each_Inr [check_simps]: "each f xs = Inr u \<longleftrightarrow> (\<forall>x\<in>set xs. f x = Inr ())"
  by (simp add: each_def checks_Inr_iff)

lemma each_opt_simps [simp]: "each_opt f None = Inr ()" "each_opt f (Some v) = f v"
  by (simp_all add: each_opt_def)

lemma each_opt_Inr [check_simps]: "each_opt f x = Inr u \<longleftrightarrow> (\<forall>v. x = Some v \<longrightarrow> f v = Inr ())"
  by (cases x) auto

lemma each_Inl_mem: "each f xs = Inl e \<Longrightarrow> \<exists>x\<in>set xs. f x = Inl e"
  by (auto simp: each_def image_iff dest!: checks_Inl_mem) (metis)

section \<open>Lemmas on iterators\<close>

lemma position_None [simp]: "position p xs = None \<longleftrightarrow> (\<forall>x\<in>set xs. \<not> p x)"
  by (induction xs) auto

lemma position_Some: "position p xs = Some i \<Longrightarrow> i < length xs \<and> p (xs ! i) \<and> (\<forall>j<i. \<not> p (xs ! j))"
proof (induction xs arbitrary: i)
  case Nil
  then show ?case by simp
next
  case (Cons x xs)
  show ?case
  proof (cases "p x")
    case True
    with Cons.prems show ?thesis by simp
  next
    case False
    with Cons.prems obtain k where k: "position p xs = Some k" "i = Suc k" by auto
    from Cons.IH [OF k(1)] False k(2) show ?thesis
      by (auto simp: less_Suc_eq_0_disj)
  qed
qed

lemma refuse_at_Inr [check_simps]: "refuse_at pos e = Inr u \<longleftrightarrow> pos = None"
  by (simp add: refuse_at_def split: option.split)

lemma first_seen_None: "first_seen S xs = None \<longleftrightarrow> distinct xs \<and> set xs \<inter> S = {}"
  by (induction xs arbitrary: S) auto

lemma first_dup_None [simp]: "first_dup xs = None \<longleftrightarrow> distinct xs"
  by (simp add: first_dup_def first_seen_None)

lemma first_seen_Some:
  "first_seen S xs = Some i \<Longrightarrow> i < length xs \<and> xs ! i \<in> S \<union> set (take i xs)"
proof (induction xs arbitrary: S i)
  case Nil
  then show ?case by simp
next
  case (Cons x xs)
  show ?case
  proof (cases "x \<in> S")
    case True
    with Cons.prems show ?thesis by simp
  next
    case False
    with Cons.prems obtain k where k: "first_seen (insert x S) xs = Some k" "i = Suc k" by auto
    from Cons.IH [OF k(1)] k(2) show ?thesis by auto
  qed
qed

lemma seen_before_nth:
  "i < length xs \<Longrightarrow> seen_before key xs i (xs ! i) \<longleftrightarrow> (\<exists>j<i. key (xs ! j) = key (xs ! i))"
proof -
  assume "i < length xs"
  then have "set (take i xs) = (!) xs ` {0..<i}" by (simp add: nth_image)
  then show ?thesis unfolding seen_before_def by (simp only: image_image image_iff) (metis atLeastLessThan_iff le0)
qed

lemma seen_before_distinct:
  "(\<forall>i<length xs. \<not> seen_before key xs i (xs ! i)) \<longleftrightarrow> distinct (map key xs)"
  by (auto simp: seen_before_nth distinct_conv_nth) (metis linorder_neqE_nat order.strict_trans)+

text \<open>The counting form of the same test: as many distinct values as values.\<close>

lemma card_set_length [simp]: "card (set xs) = length xs \<longleftrightarrow> distinct xs"
  using card_distinct distinct_card by metis

lemma btree_list_props [simp]:
  "set (btree_list xs) = set xs" "distinct (btree_list xs)" "sorted (btree_list xs)"
  by (simp_all add: btree_list_def)

lemma checked_add_i64_Some:
  "checked_add_i64 a b = Some c \<longleftrightarrow> c = a + b \<and> in_i64 (a + b)"
  by (auto simp: checked_add_i64_def)

lemma checked_add_i64_None: "checked_add_i64 a b = None \<longleftrightarrow> \<not> in_i64 (a + b)"
  by (simp add: checked_add_i64_def)

end
