(* ===== verification/RustStr.thy ===== *)
theory RustStr
  imports Prelude
begin

text \<open>
  Rust's \<^verbatim>\<open>String\<close> and \<^verbatim>\<open>&str\<close> as the list of the bytes of their UTF-8 encoding (so
  \<^verbatim>\<open>len()\<close> is \<open>length\<close>), and the operations of the standard library that the modelled code
  uses: byte classes, \<^verbatim>\<open>trim\<close> over Unicode white space, \<^verbatim>\<open>split\<close>, \<^verbatim>\<open>split_once\<close>,
  \<^verbatim>\<open>is_char_boundary\<close>, and decimal rendering.
\<close>

type_synonym str = string

definition byte :: "char \<Rightarrow> nat" where
  "byte c = of_char c"

section \<open>Byte classes\<close>

definition is_ascii_digit :: "char \<Rightarrow> bool" where
  "is_ascii_digit c \<longleftrightarrow> 48 \<le> byte c \<and> byte c \<le> 57"

definition is_ascii_alphanumeric :: "char \<Rightarrow> bool" where
  "is_ascii_alphanumeric c \<longleftrightarrow>
     is_ascii_digit c \<or> (65 \<le> byte c \<and> byte c \<le> 90) \<or> (97 \<le> byte c \<and> byte c \<le> 122)"

definition is_ascii_hexdigit :: "char \<Rightarrow> bool" where
  "is_ascii_hexdigit c \<longleftrightarrow>
     is_ascii_digit c \<or> (65 \<le> byte c \<and> byte c \<le> 70) \<or> (97 \<le> byte c \<and> byte c \<le> 102)"

definition is_lower_hexdigit :: "char \<Rightarrow> bool" where
  "is_lower_hexdigit c \<longleftrightarrow> is_ascii_digit c \<or> (97 \<le> byte c \<and> byte c \<le> 102)"

definition is_ascii_graphic :: "char \<Rightarrow> bool" where
  "is_ascii_graphic c \<longleftrightarrow> 33 \<le> byte c \<and> byte c \<le> 126"

section \<open>White space and trimming\<close>

text \<open>The UTF-8 encodings of the 25 code points with the Unicode property White\_Space.\<close>

definition ws_tokens :: "str list" where
  "ws_tokens =
    [[CHR 0x09], [CHR 0x0A], [CHR 0x0B], [CHR 0x0C], [CHR 0x0D], [CHR 0x20],
     [CHR 0xC2, CHR 0x85], [CHR 0xC2, CHR 0xA0], [CHR 0xE1, CHR 0x9A, CHR 0x80],
     [CHR 0xE2, CHR 0x80, CHR 0x80], [CHR 0xE2, CHR 0x80, CHR 0x81],
     [CHR 0xE2, CHR 0x80, CHR 0x82], [CHR 0xE2, CHR 0x80, CHR 0x83],
     [CHR 0xE2, CHR 0x80, CHR 0x84], [CHR 0xE2, CHR 0x80, CHR 0x85],
     [CHR 0xE2, CHR 0x80, CHR 0x86], [CHR 0xE2, CHR 0x80, CHR 0x87],
     [CHR 0xE2, CHR 0x80, CHR 0x88], [CHR 0xE2, CHR 0x80, CHR 0x89],
     [CHR 0xE2, CHR 0x80, CHR 0x8A], [CHR 0xE2, CHR 0x80, CHR 0xA8],
     [CHR 0xE2, CHR 0x80, CHR 0xA9], [CHR 0xE2, CHR 0x80, CHR 0xAF],
     [CHR 0xE2, CHR 0x81, CHR 0x9F], [CHR 0xE3, CHR 0x80, CHR 0x80]]"

text \<open>One white space character off the front, for a given list of encodings.\<close>

definition strip_token :: "str list \<Rightarrow> str \<Rightarrow> str option" where
  "strip_token ts s =
     map_option (\<lambda>t. drop (length t) s) (find (\<lambda>t. t \<noteq> [] \<and> prefix t s) ts)"

lemma strip_token_shorter: "strip_token ts s = Some r \<Longrightarrow> length r < length s"
proof -
  assume "strip_token ts s = Some r"
  then obtain t where t: "t \<noteq> []" "prefix t s" "r = drop (length t) s"
    by (auto simp: strip_token_def find_Some_iff)
  from t(2) have le: "length t \<le> length s" by (rule prefix_length_le)
  from t(1) have "0 < length t" by simp
  with le t(3) show ?thesis by (simp del: length_greater_0_conv)
qed

function trim_start_with :: "str list \<Rightarrow> str \<Rightarrow> str" where
  "trim_start_with ts s =
     (case strip_token ts s of None \<Rightarrow> s | Some r \<Rightarrow> trim_start_with ts r)"
  by pat_completeness auto
termination
  by (relation "measure (\<lambda>(ts, s). length s)") (auto dest: strip_token_shorter)

declare trim_start_with.simps [simp del]

definition trim :: "str \<Rightarrow> str" where
  "trim s = rev (trim_start_with (map rev ws_tokens) (rev (trim_start_with ws_tokens s)))"

text \<open>\<^verbatim>\<open>s.trim().is_empty()\<close>\<close>

definition blank :: "str \<Rightarrow> bool" where
  "blank s \<longleftrightarrow> trim_start_with ws_tokens s = []"

definition has_nul :: "str \<Rightarrow> bool" where
  "has_nul s \<longleftrightarrow> CHR 0x00 \<in> set s"

section \<open>Splitting\<close>

text \<open>\<^verbatim>\<open>s.split(c)\<close>: always at least one piece.\<close>

fun split_on :: "char \<Rightarrow> str \<Rightarrow> str list" where
  "split_on c [] = [[]]"
| "split_on c (x # xs) =
     (if x = c then [] # split_on c xs
      else (case split_on c xs of [] \<Rightarrow> [[x]] | p # ps \<Rightarrow> (x # p) # ps))"

fun join_with :: "char \<Rightarrow> str list \<Rightarrow> str" where
  "join_with c [] = []"
| "join_with c [p] = p"
| "join_with c (p # ps) = p @ c # join_with c ps"

text \<open>\<^verbatim>\<open>s.split_once(c)\<close>: around the first occurrence.\<close>

fun split_once :: "char \<Rightarrow> str \<Rightarrow> (str \<times> str) option" where
  "split_once c [] = None"
| "split_once c (x # xs) =
     (if x = c then Some ([], xs)
      else map_option (\<lambda>(a, b). (x # a, b)) (split_once c xs))"

definition strip_prefix :: "str \<Rightarrow> str \<Rightarrow> str option" where
  "strip_prefix p s = (if prefix p s then Some (drop (length p) s) else None)"

section \<open>Character boundaries\<close>

definition is_char_boundary :: "str \<Rightarrow> nat \<Rightarrow> bool" where
  "is_char_boundary s i \<longleftrightarrow>
     i = 0 \<or> i = length s \<or> (i < length s \<and> \<not> (128 \<le> byte (s ! i) \<and> byte (s ! i) < 192))"

text \<open>\<^verbatim>\<open>while !s.is_char_boundary(end) { end -= 1; }\<close>\<close>

fun floor_boundary :: "str \<Rightarrow> nat \<Rightarrow> nat" where
  "floor_boundary s 0 = 0"
| "floor_boundary s (Suc n) =
     (if is_char_boundary s (Suc n) then Suc n else floor_boundary s n)"

section \<open>Decimal rendering\<close>

definition digit_char :: "nat \<Rightarrow> char" where
  "digit_char d = char_of (48 + d)"

fun show_nat :: "nat \<Rightarrow> str" where
  "show_nat n = (if n < 10 then [digit_char n] else show_nat (n div 10) @ [digit_char (n mod 10)])"

declare show_nat.simps [simp del]

definition show_int :: "int \<Rightarrow> str" where
  "show_int i = (if i < 0 then CHR ''-'' # show_nat (nat (- i)) else show_nat (nat i))"

definition show_bool :: "bool \<Rightarrow> str" where
  "show_bool b = (if b then ''true'' else ''false'')"

section \<open>Facts\<close>

lemma byte_less_256 [simp]: "byte c < 256"
  by (simp add: byte_def)

lemma graphic_not_token:
  assumes "is_ascii_graphic c" and "t \<in> set ws_tokens"
  shows "\<not> prefix t (c # s)"
  using assms by (auto simp: ws_tokens_def is_ascii_graphic_def byte_def)

lemma strip_token_graphic: "is_ascii_graphic c \<Longrightarrow> strip_token ws_tokens (c # s) = None"
  using graphic_not_token by (auto simp: strip_token_def find_None_iff)

lemma blank_graphic [simp]: "is_ascii_graphic c \<Longrightarrow> \<not> blank (c # s)"
  by (subst blank_def, subst trim_start_with.simps) (simp add: strip_token_graphic)

lemma strip_token_Nil [simp]: "strip_token ts [] = None"
  by (auto simp: strip_token_def find_None_iff)

lemma blank_Nil [simp]: "blank []"
  by (subst blank_def, subst trim_start_with.simps) simp

lemma nonblank_nonempty: "\<not> blank s \<Longrightarrow> s \<noteq> []"
  by auto

lemma split_on_ne [simp]: "split_on c s \<noteq> []"
  by (cases s) (auto split: list.split)

lemma join_split [simp]: "join_with c (split_on c s) = s"
proof (induction s)
  case Nil
  then show ?case by simp
next
  case (Cons x xs)
  obtain p ps where "split_on c xs = p # ps" by (cases "split_on c xs") auto
  with Cons.IH show ?case by (cases ps) auto
qed

lemma split_on_no_sep: "c \<notin> set s \<Longrightarrow> split_on c s = [s]"
  by (induction s) auto

lemma split_on_append:
  "c \<notin> set p \<Longrightarrow> split_on c (p @ c # s) = p # split_on c s"
  by (induction p) auto

lemma split_join: "ps \<noteq> [] \<Longrightarrow> \<forall>p\<in>set ps. c \<notin> set p \<Longrightarrow> split_on c (join_with c ps) = ps"
  by (induction c ps rule: join_with.induct) (auto simp: split_on_no_sep split_on_append)

lemma split_pieces_no_sep: "p \<in> set (split_on c s) \<Longrightarrow> c \<notin> set p"
proof (induction s arbitrary: p)
  case Nil
  then show ?case by simp
next
  case (Cons x xs)
  obtain q qs where "split_on c xs = q # qs" by (cases "split_on c xs") auto
  with Cons show ?case by (auto split: if_splits)
qed

lemma split_once_append: "c \<notin> set p \<Longrightarrow> split_once c (p @ c # s) = Some (p, s)"
  by (induction p) auto

lemma split_once_Some: "split_once c s = Some (a, b) \<Longrightarrow> s = a @ c # b \<and> c \<notin> set a"
  by (induction s arbitrary: a b) (auto split: if_splits)

lemma strip_prefix_Some: "strip_prefix p s = Some r \<longleftrightarrow> s = p @ r"
  by (auto simp: strip_prefix_def prefix_def)

lemma strip_prefix_append [simp]: "strip_prefix p (p @ r) = Some r"
  by (simp add: strip_prefix_def)

lemma floor_boundary_le: "floor_boundary s n \<le> n"
  by (induction n) auto

lemma floor_boundary_is: "is_char_boundary s (floor_boundary s n)"
  by (induction n) (auto simp: is_char_boundary_def)

lemma floor_boundary_id [simp]: "is_char_boundary s n \<Longrightarrow> floor_boundary s n = n"
  by (cases n) auto

lemma boundary_0 [simp]: "is_char_boundary s 0" and boundary_len [simp]: "is_char_boundary s (length s)"
  by (simp_all add: is_char_boundary_def)

lemma boundary_le: "is_char_boundary s i \<Longrightarrow> i \<le> length s"
  by (auto simp: is_char_boundary_def)

lemma digit_char_byte: "d < 10 \<Longrightarrow> byte (digit_char d) = 48 + d"
  by (simp add: byte_def digit_char_def)

lemma show_nat_ne: "show_nat n \<noteq> []"
  by (subst show_nat.simps) simp

lemma show_nat_digits: "c \<in> set (show_nat n) \<Longrightarrow> is_ascii_digit c"
proof (induction n rule: show_nat.induct)
  case (1 n)
  show ?case
  proof (cases "n < 10")
    case True
    with 1 show ?thesis
      by (subst (asm) show_nat.simps) (simp add: is_ascii_digit_def digit_char_byte)
  next
    case False
    with 1 show ?thesis
      by (subst (asm) (2) show_nat.simps) (auto simp: is_ascii_digit_def digit_char_byte)
  qed
qed

end
