(* ===== verification/Errors.thy ===== *)
theory Errors
  imports RustStr
begin

text \<open>
  \<^verbatim>\<open>crates/domain/src/refusal.rs\<close>, \<^verbatim>\<open>error.rs\<close> and \<^verbatim>\<open>error/diagnostic.rs\<close>: the stable public
  errors, the machine-readable refusal attached to them at the pipeline boundary, the bounded
  artifact diagnostic and the argument diagnostic built from a deserializer's reason.
\<close>

section \<open>Identifiers\<close>

text \<open>
  A \<^verbatim>\<open>Uuid\<close> is its 128 bits; its derived order is the order of the 16 big-endian bytes, so the
  unsigned order of the word; \<^verbatim>\<open>is_nil\<close> is being zero. Parsing and printing of UUIDs belong to the
  \<^verbatim>\<open>uuid\<close> crate and are parameters where they are used.
\<close>

type_synonym uuid = "128 word"

abbreviation is_nil :: "uuid \<Rightarrow> bool" where "is_nil u \<equiv> u = 0"

section \<open>Refusals\<close>

datatype refusal_code =
    RC_StaleRevision | RC_IdempotencyConflict | RC_InvalidOutput | RC_PayloadTooLarge
  | RC_EvidenceMissing | RC_ArtifactNotReady | RC_AmbiguousRequirement | RC_InputSchemaInvalid
  | RC_UnknownCause | RC_NoTestTarget | RC_ReviewRequired | RC_AuthorityRequired
  | RC_StateConflict | RC_MethodVersionUnavailable | RC_DeliveryRefreshRequired
  | RC_CoverageIncomplete | RC_DependencyStale | RC_EffectStatusUnknown
  | RC_BackendDerivedProofRequired | RC_LegacyMigrationRequired

fun rc_as_str :: "refusal_code \<Rightarrow> str" where
  "rc_as_str RC_StaleRevision = ''STALE_REVISION''"
| "rc_as_str RC_IdempotencyConflict = ''IDEMPOTENCY_CONFLICT''"
| "rc_as_str RC_InvalidOutput = ''INVALID_OUTPUT''"
| "rc_as_str RC_PayloadTooLarge = ''PAYLOAD_TOO_LARGE''"
| "rc_as_str RC_EvidenceMissing = ''EVIDENCE_MISSING''"
| "rc_as_str RC_ArtifactNotReady = ''ARTIFACT_NOT_READY''"
| "rc_as_str RC_AmbiguousRequirement = ''AMBIGUOUS_REQUIREMENT''"
| "rc_as_str RC_InputSchemaInvalid = ''INPUT_SCHEMA_INVALID''"
| "rc_as_str RC_UnknownCause = ''UNKNOWN_CAUSE''"
| "rc_as_str RC_NoTestTarget = ''NO_TEST_TARGET''"
| "rc_as_str RC_ReviewRequired = ''REVIEW_REQUIRED''"
| "rc_as_str RC_AuthorityRequired = ''AUTHORITY_REQUIRED''"
| "rc_as_str RC_StateConflict = ''STATE_CONFLICT''"
| "rc_as_str RC_MethodVersionUnavailable = ''METHOD_VERSION_UNAVAILABLE''"
| "rc_as_str RC_DeliveryRefreshRequired = ''DELIVERY_REFRESH_REQUIRED''"
| "rc_as_str RC_CoverageIncomplete = ''COVERAGE_INCOMPLETE''"
| "rc_as_str RC_DependencyStale = ''DEPENDENCY_STALE''"
| "rc_as_str RC_EffectStatusUnknown = ''EFFECT_STATUS_UNKNOWN''"
| "rc_as_str RC_BackendDerivedProofRequired = ''BACKEND_DERIVED_PROOF_REQUIRED''"
| "rc_as_str RC_LegacyMigrationRequired = ''LEGACY_MIGRATION_REQUIRED''"

fun rc_message :: "refusal_code \<Rightarrow> str" where
  "rc_message RC_StaleRevision = ''the supplied revision is no longer current''"
| "rc_message RC_IdempotencyConflict = ''the request identity is already bound to different input''"
| "rc_message RC_InvalidOutput = ''the submitted pipeline output violates its contract''"
| "rc_message RC_PayloadTooLarge = ''the submitted pipeline payload exceeds its bounded limit''"
| "rc_message RC_EvidenceMissing = ''required pipeline evidence is missing or outside the required scope''"
| "rc_message RC_ArtifactNotReady = ''a referenced pipeline artifact is not ready for consumption''"
| "rc_message RC_AmbiguousRequirement = ''the request does not identify one valid pipeline requirement''"
| "rc_message RC_InputSchemaInvalid = ''the submitted value does not satisfy the selected input schema''"
| "rc_message RC_UnknownCause = ''the pipeline cannot establish a safe cause for the requested continuation''"
| "rc_message RC_NoTestTarget = ''the pipeline has no executable test target''"
| "rc_message RC_ReviewRequired = ''the required review has not produced a ready decision''"
| "rc_message RC_AuthorityRequired = ''the current principal or environment lacks required authority''"
| "rc_message RC_StateConflict = ''the requested transition conflicts with retained native state''"
| "rc_message RC_MethodVersionUnavailable = ''the requested pipeline method version is unavailable''"
| "rc_message RC_DeliveryRefreshRequired = ''the delivered pipeline context must be refreshed before continuation''"
| "rc_message RC_CoverageIncomplete = ''the pipeline coverage contract is incomplete''"
| "rc_message RC_DependencyStale = ''a consumed pipeline dependency is stale''"
| "rc_message RC_EffectStatusUnknown = ''the protected effect status is unknown''"
| "rc_message RC_BackendDerivedProofRequired = ''pipeline proof must be derived from backend-owned records''"
| "rc_message RC_LegacyMigrationRequired = ''the legacy run requires an explicit successor migration''"

record refusal =
  rf_code :: refusal_code
  rf_message :: "str option"
  rf_next_action :: "str option"
  rf_required :: "str option"
  rf_revision :: "int option"
  rf_resource_id :: "uuid option"
  rf_rule :: "str option"
  rf_path :: "str option"
  rf_expected :: "str option"
  rf_actual :: "str option"

definition refusal_new :: "refusal_code \<Rightarrow> refusal" where
  "refusal_new code = \<lparr>rf_code = code, rf_message = None, rf_next_action = None, rf_required = None,
     rf_revision = None, rf_resource_id = None, rf_rule = None, rf_path = None,
     rf_expected = None, rf_actual = None\<rparr>"

definition with_message :: "str \<Rightarrow> refusal \<Rightarrow> refusal" where
  "with_message m r = r\<lparr>rf_message := Some m\<rparr>"
definition with_next_action :: "str \<Rightarrow> refusal \<Rightarrow> refusal" where
  "with_next_action a r = r\<lparr>rf_next_action := Some a\<rparr>"
definition with_required :: "str \<Rightarrow> refusal \<Rightarrow> refusal" where
  "with_required q r = r\<lparr>rf_required := Some q\<rparr>"
definition with_revision :: "int \<Rightarrow> refusal \<Rightarrow> refusal" where
  "with_revision n r = r\<lparr>rf_revision := Some n\<rparr>"
definition with_resource_id :: "uuid \<Rightarrow> refusal \<Rightarrow> refusal" where
  "with_resource_id u r = r\<lparr>rf_resource_id := Some u\<rparr>"
definition with_rule :: "str \<Rightarrow> refusal \<Rightarrow> refusal" where
  "with_rule x r = r\<lparr>rf_rule := Some x\<rparr>"
definition with_path :: "str \<Rightarrow> refusal \<Rightarrow> refusal" where
  "with_path x r = r\<lparr>rf_path := Some x\<rparr>"
definition with_expected :: "str \<Rightarrow> refusal \<Rightarrow> refusal" where
  "with_expected x r = r\<lparr>rf_expected := Some x\<rparr>"
definition with_actual :: "str \<Rightarrow> refusal \<Rightarrow> refusal" where
  "with_actual x r = r\<lparr>rf_actual := Some x\<rparr>"

lemmas with_defs = with_message_def with_next_action_def with_required_def with_revision_def
  with_resource_id_def with_rule_def with_path_def with_expected_def with_actual_def

text \<open>\<^verbatim>\<open>if self.field.is_none() { self.field = Some(v) }\<close>\<close>

definition or_else :: "'a option \<Rightarrow> 'a \<Rightarrow> 'a option" where
  "or_else x v = (case x of None \<Rightarrow> Some v | Some _ \<Rightarrow> x)"

definition normalize_pipeline ::
  "str \<Rightarrow> str \<Rightarrow> str \<Rightarrow> str \<Rightarrow> str \<Rightarrow> str \<Rightarrow> refusal \<Rightarrow> refusal" where
  "normalize_pipeline rule path expected actual fallback_next_action fallback_required r =
     r\<lparr>rf_message := or_else (rf_message r) (rc_message (rf_code r)),
       rf_rule := or_else (rf_rule r) rule,
       rf_path := or_else (rf_path r) path,
       rf_expected := or_else (rf_expected r) expected,
       rf_actual := or_else (rf_actual r) actual,
       rf_next_action := or_else (rf_next_action r) fallback_next_action,
       rf_required := or_else (rf_required r) fallback_required\<rparr>"

definition filled :: "str option \<Rightarrow> bool" where
  "filled x = (case x of None \<Rightarrow> False | Some v \<Rightarrow> v \<noteq> [])"

definition is_complete_pipeline_refusal :: "refusal \<Rightarrow> bool" where
  "is_complete_pipeline_refusal r \<longleftrightarrow>
     filled (rf_message r) \<and> filled (rf_next_action r) \<and> filled (rf_required r) \<and>
     filled (rf_rule r) \<and> filled (rf_path r) \<and> filled (rf_expected r) \<and> filled (rf_actual r)"

section \<open>Diagnostics\<close>

record argument_diagnostic =
  ad_reason :: str
  ad_violation_code :: str
  ad_pointer :: str
  ad_expected :: str
  ad_actual :: str

record artifact_violation =
  av_code :: str
  av_path :: str
  av_expected :: "str option"
  av_actual :: "str option"

record artifact_diagnostic =
  dg_code :: str
  dg_phase :: str
  dg_artifact :: str
  dg_violations :: "artifact_violation list"
  dg_truncated :: bool
  dg_omitted_violation_count :: nat
  dg_retryable :: bool
  dg_recovery_action :: str

definition MAX_DIAGNOSTIC_VIOLATIONS :: nat where "MAX_DIAGNOSTIC_VIOLATIONS = 24"
definition MAX_DIAGNOSTIC_CODE_BYTES :: nat where "MAX_DIAGNOSTIC_CODE_BYTES = 64"
definition MAX_DIAGNOSTIC_IDENTITY_BYTES :: nat where "MAX_DIAGNOSTIC_IDENTITY_BYTES = 128"
definition MAX_DIAGNOSTIC_PATH_BYTES :: nat where "MAX_DIAGNOSTIC_PATH_BYTES = 192"
definition MAX_DIAGNOSTIC_VALUE_BYTES :: nat where "MAX_DIAGNOSTIC_VALUE_BYTES = 192"
definition MAX_DIAGNOSTIC_RECOVERY_BYTES :: nat where "MAX_DIAGNOSTIC_RECOVERY_BYTES = 512"

lemmas diagnostic_limits = MAX_DIAGNOSTIC_VIOLATIONS_def MAX_DIAGNOSTIC_CODE_BYTES_def
  MAX_DIAGNOSTIC_IDENTITY_BYTES_def MAX_DIAGNOSTIC_PATH_BYTES_def MAX_DIAGNOSTIC_VALUE_BYTES_def
  MAX_DIAGNOSTIC_RECOVERY_BYTES_def

definition truncation_suffix :: str where
  "truncation_suffix = ''...[truncated]''"

definition bounded_text :: "str \<Rightarrow> nat \<Rightarrow> str \<times> bool" where
  "bounded_text value maximum =
     (if length value \<le> maximum then (value, False)
      else (take (floor_boundary value (maximum - length truncation_suffix)) value
              @ truncation_suffix, True))"

text \<open>\<^verbatim>\<open>usize\<close> is 64 bits wide on the platforms the daemon is built for.\<close>

definition usize_max :: nat where "usize_max = 18446744073709551615"

definition saturating_add :: "nat \<Rightarrow> nat \<Rightarrow> nat" where
  "saturating_add a b = min usize_max (a + b)"

definition bounded_opt :: "str option \<Rightarrow> nat \<Rightarrow> str option \<times> bool" where
  "bounded_opt value maximum =
     (case value of None \<Rightarrow> (None, False)
      | Some v \<Rightarrow> (let (t, b) = bounded_text v maximum in (Some t, b)))"

definition bounded_violation :: "artifact_violation \<Rightarrow> artifact_violation \<times> bool" where
  "bounded_violation v =
     (let (code, code_truncated) = bounded_text (av_code v) MAX_DIAGNOSTIC_CODE_BYTES;
          (path, path_truncated) = bounded_text (av_path v) MAX_DIAGNOSTIC_PATH_BYTES;
          (expected, expected_truncated) = bounded_opt (av_expected v) MAX_DIAGNOSTIC_VALUE_BYTES;
          (actual, actual_truncated) = bounded_opt (av_actual v) MAX_DIAGNOSTIC_VALUE_BYTES
      in (\<lparr>av_code = code, av_path = path, av_expected = expected, av_actual = actual\<rparr>,
          code_truncated \<or> path_truncated \<or> expected_truncated \<or> actual_truncated))"

definition bounded_with_omitted ::
  "str \<Rightarrow> str \<Rightarrow> str \<Rightarrow> artifact_violation list \<Rightarrow> nat \<Rightarrow> bool \<Rightarrow> bool \<Rightarrow> str
   \<Rightarrow> artifact_diagnostic" where
  "bounded_with_omitted code phase artifact violations previously_omitted previously_truncated
     retryable recovery_action =
     (let (code', code_truncated) = bounded_text code MAX_DIAGNOSTIC_CODE_BYTES;
          (phase', phase_truncated) = bounded_text phase MAX_DIAGNOSTIC_IDENTITY_BYTES;
          (artifact', artifact_truncated) = bounded_text artifact MAX_DIAGNOSTIC_IDENTITY_BYTES;
          kept = map bounded_violation (take MAX_DIAGNOSTIC_VIOLATIONS violations);
          text_truncated = (previously_truncated \<or> code_truncated \<or> phase_truncated \<or>
                            artifact_truncated \<or> list_ex snd kept);
          omitted = saturating_add previously_omitted (length violations - length kept);
          (recovery, recovery_truncated) =
             bounded_text recovery_action MAX_DIAGNOSTIC_RECOVERY_BYTES
      in \<lparr>dg_code = code', dg_phase = phase', dg_artifact = artifact',
          dg_violations = map fst kept,
          dg_truncated = (text_truncated \<or> recovery_truncated \<or> 0 < omitted),
          dg_omitted_violation_count = omitted,
          dg_retryable = retryable, dg_recovery_action = recovery\<rparr>)"

definition bounded ::
  "str \<Rightarrow> str \<Rightarrow> str \<Rightarrow> artifact_violation list \<Rightarrow> bool \<Rightarrow> str \<Rightarrow> artifact_diagnostic" where
  "bounded code phase artifact violations retryable recovery_action =
     bounded_with_omitted code phase artifact violations 0 False retryable recovery_action"

section \<open>Errors\<close>

datatype error =
    Unauthorized | InvalidNativeSession | InvalidWorkspaceKey | SessionWorkspaceMismatch
  | SessionRevoked | WorkspaceNotOpen | Forbidden | InvalidArguments | InvalidSource
  | InvalidWorktreeSelection | NotFound | StorageUnavailable | InvalidConfiguration
  | TransportUnavailable | OperationTimeout | RequestTooLarge | StaleRevision | StaleContext
  | InputPending | ProgramIncomplete | InputConflict | TaskDirectoryUnbound
  | TaskDirectoryMismatch | SetupUnavailable | SetupExists | SetupIncomplete
  | SetupFileConflict | SetupAlreadyApplied | InternalInvariant | KnowledgeUnavailable
  | ContextChanged | NeedsContext | CapacityExceeded | KnowledgeLifecycleRequired
  | UnsupportedCompletionRequirement | KnowledgePayloadErased
  | Refused refusal
  | PipelineRefused error refusal
  | InvalidPipelineArtifact artifact_diagnostic
  | InvalidArgumentsDetail argument_diagnostic

type_synonym 'a result = "error + 'a"

definition refused :: "refusal_code \<Rightarrow> str \<Rightarrow> str \<Rightarrow> error" where
  "refused code next_action required =
     Refused (with_required required (with_next_action next_action (refusal_new code)))"

definition refused_at :: "refusal_code \<Rightarrow> str \<Rightarrow> str \<Rightarrow> str \<Rightarrow> str \<Rightarrow> str \<Rightarrow> str \<Rightarrow> error" where
  "refused_at code rule path expected actual next_action required =
     Refused (with_required required (with_next_action next_action (with_actual actual
       (with_expected expected (with_path path (with_rule rule
         (with_message (rc_message code) (refusal_new code))))))))"

definition refused_backend_proof :: "str \<Rightarrow> error" where
  "refused_backend_proof path =
     Refused (with_actual ''agent-supplied value''
       (with_expected ''omitted; backend derives the proof'' (with_path path
         (with_rule ''WP3-PROOF-01'' (with_required ''backend_derived_proof''
           (with_next_action ''omit_agent_supplied_proof''
             (with_message (rc_message RC_BackendDerivedProofRequired)
               (refusal_new RC_BackendDerivedProofRequired))))))))"

fun err_code :: "error \<Rightarrow> str" where
  "err_code Unauthorized = ''unauthorized''"
| "err_code InvalidNativeSession = ''invalid_native_session''"
| "err_code InvalidWorkspaceKey = ''invalid_workspace_key''"
| "err_code SessionWorkspaceMismatch = ''session_workspace_mismatch''"
| "err_code SessionRevoked = ''session_revoked''"
| "err_code WorkspaceNotOpen = ''workspace_not_open''"
| "err_code Forbidden = ''forbidden''"
| "err_code InvalidArguments = ''invalid_arguments''"
| "err_code InvalidSource = ''invalid_source''"
| "err_code InvalidWorktreeSelection = ''invalid_worktree_selection''"
| "err_code NotFound = ''not_found''"
| "err_code StorageUnavailable = ''storage_unavailable''"
| "err_code InvalidConfiguration = ''invalid_configuration''"
| "err_code TransportUnavailable = ''transport_unavailable''"
| "err_code OperationTimeout = ''operation_timeout''"
| "err_code RequestTooLarge = ''request_too_large''"
| "err_code StaleRevision = ''stale_revision''"
| "err_code StaleContext = ''stale_context''"
| "err_code InputPending = ''input_pending''"
| "err_code ProgramIncomplete = ''program_incomplete''"
| "err_code InputConflict = ''input_conflict''"
| "err_code TaskDirectoryUnbound = ''task_directory_unbound''"
| "err_code TaskDirectoryMismatch = ''task_directory_mismatch''"
| "err_code SetupUnavailable = ''setup_unavailable''"
| "err_code SetupExists = ''setup_exists''"
| "err_code SetupIncomplete = ''setup_incomplete''"
| "err_code SetupFileConflict = ''setup_file_conflict''"
| "err_code SetupAlreadyApplied = ''setup_already_applied''"
| "err_code InternalInvariant = ''internal_invariant''"
| "err_code KnowledgeUnavailable = ''knowledge_unavailable''"
| "err_code ContextChanged = ''context_changed''"
| "err_code NeedsContext = ''needs_context''"
| "err_code CapacityExceeded = ''capacity_exceeded''"
| "err_code KnowledgeLifecycleRequired = ''knowledge_lifecycle_required''"
| "err_code UnsupportedCompletionRequirement = ''unsupported_completion_requirement''"
| "err_code KnowledgePayloadErased = ''knowledge_payload_erased''"
| "err_code (Refused r) = rc_as_str (rf_code r)"
| "err_code (PipelineRefused src _) = err_code src"
| "err_code (InvalidPipelineArtifact _) = ''invalid_arguments''"
| "err_code (InvalidArgumentsDetail _) = ''invalid_arguments''"

fun pipeline_source :: "error \<Rightarrow> error" where
  "pipeline_source (PipelineRefused src _) = pipeline_source src"
| "pipeline_source e = e"

definition argument_diagnostic_of :: "error \<Rightarrow> argument_diagnostic option" where
  "argument_diagnostic_of e =
     (case pipeline_source e of InvalidArgumentsDetail d \<Rightarrow> Some d | _ \<Rightarrow> None)"

definition pipeline_artifact_diagnostic :: "error \<Rightarrow> artifact_diagnostic option" where
  "pipeline_artifact_diagnostic e =
     (case pipeline_source e of InvalidPipelineArtifact d \<Rightarrow> Some d | _ \<Rightarrow> None)"

text \<open>
  The legacy projection. The arm of the code for a \<^verbatim>\<open>Refused\<close> value with the legacy migration
  code can never be reached: \<^verbatim>\<open>Refused\<close> returned its own refusal first.
\<close>

definition legacy_refusal :: "error \<Rightarrow> (refusal_code \<times> str \<times> str) option" where
  "legacy_refusal e = (case e of
     StaleRevision \<Rightarrow> Some (RC_StaleRevision, ''refresh'', ''revision'')
   | InputConflict \<Rightarrow> Some (RC_IdempotencyConflict, ''reuse_or_replace_request'', ''request_id'')
   | InvalidPipelineArtifact _ \<Rightarrow> Some (RC_InvalidOutput, ''correct_output'', ''output'')
   | RequestTooLarge \<Rightarrow> Some (RC_PayloadTooLarge, ''reduce_payload'', ''payload'')
   | CapacityExceeded \<Rightarrow> Some (RC_PayloadTooLarge, ''reduce_payload'', ''payload'')
   | KnowledgeUnavailable \<Rightarrow> Some (RC_EvidenceMissing, ''refresh_evidence'', ''evidence'')
   | KnowledgeLifecycleRequired \<Rightarrow> Some (RC_ArtifactNotReady, ''complete_owner_lifecycle'', ''artifact'')
   | InvalidArguments \<Rightarrow> Some (RC_InputSchemaInvalid, ''correct_input_and_retry'', ''schema_valid_input'')
   | InvalidArgumentsDetail _ \<Rightarrow> Some (RC_InputSchemaInvalid, ''correct_input_and_retry'', ''schema_valid_input'')
   | InternalInvariant \<Rightarrow> Some (RC_UnknownCause, ''retry_exact_request'', ''cause'')
   | UnsupportedCompletionRequirement \<Rightarrow>
       Some (RC_MethodVersionUnavailable, ''select_supported_method'', ''method_version'')
   | NeedsContext \<Rightarrow> Some (RC_DeliveryRefreshRequired, ''refresh_context'', ''context'')
   | InputPending \<Rightarrow> Some (RC_DeliveryRefreshRequired, ''refresh_context'', ''context'')
   | ContextChanged \<Rightarrow> Some (RC_DependencyStale, ''refresh_dependencies'', ''dependency'')
   | StaleContext \<Rightarrow> Some (RC_DependencyStale, ''refresh_dependencies'', ''dependency'')
   | Unauthorized \<Rightarrow> Some (RC_AuthorityRequired, ''obtain_authority'', ''authority'')
   | Forbidden \<Rightarrow> Some (RC_AuthorityRequired, ''obtain_authority'', ''authority'')
   | _ \<Rightarrow> None)"

definition refusal_of :: "error \<Rightarrow> refusal option" where
  "refusal_of e = (case e of
     Refused r \<Rightarrow> Some r
   | PipelineRefused _ r \<Rightarrow> Some r
   | _ \<Rightarrow> map_option (\<lambda>(code, next_action, required).
            with_required required (with_next_action next_action (refusal_new code)))
          (legacy_refusal e))"

text \<open>The errors of sessions and infrastructure, which the pipeline boundary leaves alone.\<close>

definition is_infrastructure :: "error \<Rightarrow> bool" where
  "is_infrastructure e \<longleftrightarrow> e \<in> {StorageUnavailable, TransportUnavailable, OperationTimeout,
     Unauthorized, InvalidNativeSession, InvalidWorkspaceKey, SessionWorkspaceMismatch,
     SessionRevoked, WorkspaceNotOpen, InvalidConfiguration}"

definition fallback_refusal :: "error \<Rightarrow> refusal" where
  "fallback_refusal e = (case e of
     NotFound \<Rightarrow> refusal_new RC_EvidenceMissing
   | KnowledgePayloadErased \<Rightarrow> refusal_new RC_EvidenceMissing
   | Forbidden \<Rightarrow> refusal_new RC_AuthorityRequired
   | _ \<Rightarrow> refusal_new RC_UnknownCause)"

definition normalize_pipeline_refusal ::
  "error \<Rightarrow> str \<Rightarrow> str \<Rightarrow> str \<Rightarrow> str \<Rightarrow> str \<Rightarrow> error" where
  "normalize_pipeline_refusal e rule path expected next_action required =
     (if is_infrastructure e then e
      else (case e of
        PipelineRefused _ _ \<Rightarrow> e
      | _ \<Rightarrow>
        (let r = normalize_pipeline rule path expected (err_code e) next_action required
                   (case refusal_of e of Some r0 \<Rightarrow> r0 | None \<Rightarrow> fallback_refusal e)
         in case e of Refused _ \<Rightarrow> Refused r | _ \<Rightarrow> PipelineRefused e r)))"

section \<open>Argument diagnostics\<close>

definition ARGUMENT_REASON_LIMIT :: nat where "ARGUMENT_REASON_LIMIT = 600"

definition truncate_reason :: "str \<Rightarrow> str" where
  "truncate_reason reason =
     (if ARGUMENT_REASON_LIMIT < length reason
      then take (floor_boundary reason ARGUMENT_REASON_LIMIT) reason else reason)"

text \<open>\<^verbatim>\<open>s.split(c).nth(1)\<close> after a prefix.\<close>

definition quoted :: "str \<Rightarrow> str \<Rightarrow> str option" where
  "quoted p reason =
     (case strip_prefix p reason of None \<Rightarrow> None
      | Some value \<Rightarrow> (case split_on CHR ''`'' value of _ # q # _ \<Rightarrow> Some q | _ \<Rightarrow> None))"

definition replace_char :: "char \<Rightarrow> str \<Rightarrow> str \<Rightarrow> str" where
  "replace_char c r s = concat (map (\<lambda>x. if x = c then r else [x]) s)"

definition json_pointer_escape :: "str \<Rightarrow> str" where
  "json_pointer_escape field =
     replace_char CHR ''/'' ''~1'' (replace_char CHR ''~'' ''~0'' field)"

definition classify_reason :: "str \<Rightarrow> str \<times> str option \<times> str \<times> str" where
  "classify_reason reason =
     (case quoted ''missing field '' reason of
        Some field \<Rightarrow> (''required_field_missing'', Some field,
                       ''field `'' @ field @ ''`'', ''missing'')
      | None \<Rightarrow>
     (case quoted ''unknown field '' reason of
        Some field \<Rightarrow> (''field_forbidden'', Some field,
                       ''field omitted by current schema'', ''field `'' @ field @ ''` supplied'')
      | None \<Rightarrow>
        if prefix ''unknown variant '' reason
        then (''enum_value_invalid'', None, ''one advertised enum value'', reason)
        else if prefix ''invalid type:'' reason
        then (''type_invalid'', None, ''advertised JSON type'', reason)
        else (''schema_constraint_failed'', None, ''current route schema'', reason)))"

definition invalid_arguments_from :: "str \<Rightarrow> error" where
  "invalid_arguments_from reason0 =
     (let reason = truncate_reason reason0;
          (violation_code, field, expected, actual) = classify_reason reason
      in InvalidArgumentsDetail
         \<lparr>ad_reason = reason, ad_violation_code = violation_code,
          ad_pointer = (case field of Some f \<Rightarrow> ''/params/'' @ json_pointer_escape f
                        | None \<Rightarrow> ''/params''),
          ad_expected = expected, ad_actual = actual\<rparr>)"

definition invalid_arguments_at :: "str \<Rightarrow> str \<Rightarrow> error" where
  "invalid_arguments_at reason pointer =
     (case invalid_arguments_from reason of
        InvalidArgumentsDetail d \<Rightarrow> InvalidArgumentsDetail (d\<lparr>ad_pointer := pointer\<rparr>)
      | e \<Rightarrow> e)"

section \<open>Refusals at the pipeline boundary\<close>

lemma or_else_filled [simp]: "or_else x v \<noteq> None" "or_else (or_else x v) w = or_else x v"
  by (simp_all add: or_else_def split: option.split)

lemma filled_or_else: "(\<And>w. x = Some w \<Longrightarrow> w \<noteq> []) \<Longrightarrow> v \<noteq> [] \<Longrightarrow> filled (or_else x v)"
  by (auto simp: filled_def or_else_def split: option.split)

lemma normalize_pipeline_code [simp]:
  "rf_code (normalize_pipeline rule path expected actual na rq r) = rf_code r"
  by (simp add: normalize_pipeline_def)

lemma normalize_pipeline_idem [simp]:
  "normalize_pipeline rule' path' expected' actual' na' rq'
     (normalize_pipeline rule path expected actual na rq r)
   = normalize_pipeline rule path expected actual na rq r"
  by (simp add: normalize_pipeline_def)

lemma rc_message_ne [simp]: "rc_message c \<noteq> []"
  by (cases c) simp_all

lemma refusal_of_refused [simp]:
  "refusal_of (Refused r) = Some r" "refusal_of (PipelineRefused src r) = Some r"
  by (simp_all add: refusal_of_def)

lemma err_code_normalize [simp]:
  "err_code (normalize_pipeline_refusal e rule path expected na rq) = err_code e"
  by (cases e) (simp_all add: normalize_pipeline_refusal_def Let_def)

lemma infrastructure_not_refused [simp]:
  "\<not> is_infrastructure (Refused r)" "\<not> is_infrastructure (PipelineRefused e r)"
  by (simp_all add: is_infrastructure_def)

lemma normalize_shape:
  assumes "\<not> is_infrastructure e"
  shows "(\<exists>r. normalize_pipeline_refusal e rule path expected na rq = Refused r
              \<and> (\<exists>r0. e = Refused r0 \<and> r = normalize_pipeline rule path expected (err_code e) na rq r0))
       \<or> (\<exists>src r. normalize_pipeline_refusal e rule path expected na rq = PipelineRefused src r)"
  using assms by (cases e) (simp_all add: normalize_pipeline_refusal_def Let_def refusal_of_def)

lemma normalize_idem [simp]:
  "normalize_pipeline_refusal (normalize_pipeline_refusal e rule path expected na rq)
     rule' path' expected' na' rq' = normalize_pipeline_refusal e rule path expected na rq"
proof (cases "is_infrastructure e")
  case True
  then show ?thesis by (simp add: normalize_pipeline_refusal_def)
next
  case False
  from normalize_shape [OF this, of rule path expected na rq] show ?thesis
    by (elim disjE exE conjE)
      (simp_all add: normalize_pipeline_refusal_def [of "Refused _"] refusal_of_def
        normalize_pipeline_refusal_def [of "PipelineRefused _ _"])
qed

lemma pipeline_source_normalize:
  "\<forall>r. e \<noteq> Refused r \<Longrightarrow>
   pipeline_source (normalize_pipeline_refusal e rule path expected na rq) = pipeline_source e"
  by (cases e) (simp_all add: normalize_pipeline_refusal_def Let_def)

lemma refusal_of_normalize:
  assumes "\<not> is_infrastructure e" and "\<forall>src r. e \<noteq> PipelineRefused src r"
  shows "refusal_of (normalize_pipeline_refusal e rule path expected na rq) =
     Some (normalize_pipeline rule path expected (err_code e) na rq
            (case refusal_of e of Some r \<Rightarrow> r | None \<Rightarrow> fallback_refusal e))"
  using assms
  by (cases e; hypsubst) (simp_all add: normalize_pipeline_refusal_def Let_def)

text \<open>No field that an error already carries is the empty string.\<close>

definition no_empty :: "refusal \<Rightarrow> bool" where
  "no_empty r \<longleftrightarrow> rf_message r \<noteq> Some [] \<and> rf_next_action r \<noteq> Some [] \<and> rf_required r \<noteq> Some [] \<and>
     rf_rule r \<noteq> Some [] \<and> rf_path r \<noteq> Some [] \<and> rf_expected r \<noteq> Some [] \<and> rf_actual r \<noteq> Some []"

lemma no_empty_new [simp]: "no_empty (refusal_new c)"
  by (simp add: no_empty_def refusal_new_def)

lemma legacy_refusal_ne: "legacy_refusal e = Some (c, na, rq) \<Longrightarrow> na \<noteq> [] \<and> rq \<noteq> []"
  by (cases e) (auto simp: legacy_refusal_def)

lemma no_empty_legacy:
  assumes "refusal_of e = Some r" and "\<forall>r'. e \<noteq> Refused r'" and "\<forall>s r'. e \<noteq> PipelineRefused s r'"
  shows "no_empty r"
proof -
  have "refusal_of e = map_option (\<lambda>(code, na, rq).
            with_required rq (with_next_action na (refusal_new code))) (legacy_refusal e)"
    using assms(2,3) by (cases e) (simp_all add: refusal_of_def)
  with assms(1) show ?thesis
    by (auto simp: no_empty_def refusal_new_def with_defs dest: legacy_refusal_ne)
qed

lemma no_empty_fallback: "no_empty (fallback_refusal e)"
  by (cases e) (simp_all add: fallback_refusal_def)

lemma rc_as_str_ne [simp]: "rc_as_str c \<noteq> []"
  by (cases c) simp_all

lemma err_code_ne: "err_code e \<noteq> []"
  by (induction e) simp_all

lemma normalize_pipeline_complete:
  assumes "no_empty r" and "rule \<noteq> []" "path \<noteq> []" "expected \<noteq> []" "actual \<noteq> []" "na \<noteq> []" "rq \<noteq> []"
  shows "is_complete_pipeline_refusal (normalize_pipeline rule path expected actual na rq r)"
  using assms
  by (auto simp: is_complete_pipeline_refusal_def normalize_pipeline_def no_empty_def
      intro!: filled_or_else)

section \<open>Bounded text\<close>

lemma bounded_text_length:
  assumes "length truncation_suffix \<le> m"
  shows "length (fst (bounded_text v m)) \<le> m"
proof (cases "length v \<le> m")
  case True
  then show ?thesis by (simp add: bounded_text_def)
next
  case False
  have "floor_boundary v (m - length truncation_suffix) \<le> m - length truncation_suffix"
    by (rule floor_boundary_le)
  with assms False show ?thesis by (simp add: bounded_text_def)
qed

lemma bounded_text_honest: "\<not> snd (bounded_text v m) \<Longrightarrow> fst (bounded_text v m) = v"
  by (simp add: bounded_text_def split: if_splits)

lemma bounded_text_cut:
  "snd (bounded_text v m) \<Longrightarrow>
   \<exists>n. is_char_boundary v n \<and> n < length v \<and> fst (bounded_text v m) = take n v @ truncation_suffix"
  using floor_boundary_is [of v "m - length truncation_suffix"]
    floor_boundary_le [of v "m - length truncation_suffix"]
  by (fastforce simp: bounded_text_def split: if_splits)

lemma bounded_text_id [simp]: "length v \<le> m \<Longrightarrow> bounded_text v m = (v, False)"
  by (simp add: bounded_text_def)

lemma suffix_length [simp]: "length truncation_suffix = 14"
  by (simp add: truncation_suffix_def)

lemma bounded_opt_simps [simp]:
  "bounded_opt None m = (None, False)"
  "bounded_opt (Some v) m = (Some (fst (bounded_text v m)), snd (bounded_text v m))"
  by (simp_all add: bounded_opt_def split_beta)

lemma bounded_opt_honest: "\<not> snd (bounded_opt v m) \<Longrightarrow> fst (bounded_opt v m) = v"
  by (cases v) (auto dest: bounded_text_honest)

lemma bounded_violation_honest: "\<not> snd (bounded_violation v) \<Longrightarrow> fst (bounded_violation v) = v"
  by (cases v) (simp add: bounded_violation_def split_beta bounded_text_honest bounded_opt_honest)

definition violation_within :: "artifact_violation \<Rightarrow> bool" where
  "violation_within v \<longleftrightarrow> length (av_code v) \<le> 64 \<and> length (av_path v) \<le> 192 \<and>
     (\<forall>x. av_expected v = Some x \<longrightarrow> length x \<le> 192) \<and> (\<forall>x. av_actual v = Some x \<longrightarrow> length x \<le> 192)"

lemma bounded_opt_length:
  "fst (bounded_opt v m) = Some x \<Longrightarrow> 14 \<le> m \<Longrightarrow> length x \<le> m"
  by (cases v) (auto intro: bounded_text_length)

lemma bounded_violation_within: "violation_within (fst (bounded_violation v))"
  by (auto simp: violation_within_def bounded_violation_def split_beta diagnostic_limits
      intro: bounded_text_length dest: bounded_opt_length)

text \<open>The limits every published artifact diagnostic obeys.\<close>

definition diagnostic_within :: "artifact_diagnostic \<Rightarrow> bool" where
  "diagnostic_within d \<longleftrightarrow> length (dg_code d) \<le> 64 \<and> length (dg_phase d) \<le> 128 \<and>
     length (dg_artifact d) \<le> 128 \<and> length (dg_recovery_action d) \<le> 512 \<and>
     length (dg_violations d) \<le> 24 \<and> (\<forall>v\<in>set (dg_violations d). violation_within v)"

lemma map_fst_honest:
  "\<not> list_ex snd (map bounded_violation vs) \<Longrightarrow> map (fst \<circ> bounded_violation) vs = vs"
  by (induction vs) (auto simp: bounded_violation_honest)

section \<open>JSON pointers and bounded reasons\<close>

text \<open>The decoding RFC 6901 gives for a pointer segment, as the reference for the escaping.\<close>

fun json_pointer_unescape :: "str \<Rightarrow> str" where
  "json_pointer_unescape [] = []"
| "json_pointer_unescape [c] = [c]"
| "json_pointer_unescape (c # d # s) =
     (if c = CHR ''~'' \<and> d = CHR ''0'' then CHR ''~'' # json_pointer_unescape s
      else if c = CHR ''~'' \<and> d = CHR ''1'' then CHR ''/'' # json_pointer_unescape s
      else c # json_pointer_unescape (d # s))"

lemma escape_Nil [simp]: "json_pointer_escape [] = []"
  by (simp add: json_pointer_escape_def replace_char_def)

lemma escape_Cons [simp]:
  "json_pointer_escape (c # s) =
     (if c = CHR ''~'' then ''~0'' else if c = CHR ''/'' then ''~1'' else [c]) @ json_pointer_escape s"
  by (simp add: json_pointer_escape_def replace_char_def)

lemma unescape_other: "c \<noteq> CHR ''~'' \<Longrightarrow> json_pointer_unescape (c # s) = c # json_pointer_unescape s"
  by (cases s) simp_all

lemma unescape_escape: "json_pointer_unescape (json_pointer_escape s) = s"
  by (induction s) (simp_all add: unescape_other)

lemma escape_no_slash: "CHR ''/'' \<notin> set (json_pointer_escape s)"
  by (induction s) simp_all

lemma truncate_reason_length: "length (truncate_reason s) \<le> 600"
  using floor_boundary_le [of s ARGUMENT_REASON_LIMIT]
  by (simp add: truncate_reason_def ARGUMENT_REASON_LIMIT_def)

section \<open>Properties\<close>

text \<open>
  Putting an error through the common pipeline boundary never changes its stable public
  code, and a second pass (with whatever metadata) changes nothing: the first rejecting branch's
  metadata is kept.
\<close>

theorem pipeline_refusal_stable:
  "err_code (normalize_pipeline_refusal e rule path expected na rq) = err_code e \<and>
   normalize_pipeline_refusal (normalize_pipeline_refusal e rule path expected na rq)
     rule' path' expected' na' rq' = normalize_pipeline_refusal e rule path expected na rq"
  by simp

text \<open>
  Every error other than a session or infrastructure failure leaves the pipeline boundary with
  a complete refusal (message, next action, requirement, rule, path, expected and actual all
  present and non-empty), as long as the boundary's own metadata and the metadata the error already
  carried have no empty strings; an already wrapped error must carry a complete refusal itself.
\<close>

theorem pipeline_refusal_complete:
  assumes "\<not> is_infrastructure e"
    and "\<forall>r. e = Refused r \<longrightarrow> no_empty r"
    and "\<forall>src r. e = PipelineRefused src r \<longrightarrow> is_complete_pipeline_refusal r"
    and "rule \<noteq> []" "path \<noteq> []" "expected \<noteq> []" "na \<noteq> []" "rq \<noteq> []"
  shows "\<exists>r. refusal_of (normalize_pipeline_refusal e rule path expected na rq) = Some r
             \<and> is_complete_pipeline_refusal r"
proof (cases "\<exists>src r. e = PipelineRefused src r")
  case True
  with assms(1,3) show ?thesis by (auto simp: normalize_pipeline_refusal_def)
next
  case False
  define r0 where "r0 = (case refusal_of e of Some r \<Rightarrow> r | None \<Rightarrow> fallback_refusal e)"
  have "no_empty r0"
    using assms(2) False no_empty_legacy [of e] no_empty_fallback [of e]
    by (cases "\<exists>r. e = Refused r") (auto simp: r0_def split: option.split)
  then have "is_complete_pipeline_refusal
      (normalize_pipeline rule path expected (err_code e) na rq r0)"
    using assms(4-) err_code_ne by (intro normalize_pipeline_complete)
  moreover have "refusal_of (normalize_pipeline_refusal e rule path expected na rq)
      = Some (normalize_pipeline rule path expected (err_code e) na rq r0)"
    using assms(1) False by (simp add: refusal_of_normalize r0_def)
  ultimately show ?thesis by blast
qed

theorem pipeline_refusal_complete_witness:
  "\<exists>r. refusal_of (normalize_pipeline_refusal NotFound ''R'' ''p'' ''x'' ''n'' ''q'') = Some r
        \<and> is_complete_pipeline_refusal r"
  by (rule pipeline_refusal_complete) (simp_all add: is_infrastructure_def)

text \<open>
  Whatever the inputs, an artifact diagnostic is within its limits (at most 24 violations and
  the byte limits of each text), its omitted count is exact up to saturation, and it is honest: either
  it is marked truncated, or it holds exactly the texts and violations it was given.
\<close>

theorem artifact_diagnostic_bounded_and_honest:
  "let d = bounded_with_omitted code phase artifact vs omitted truncated retryable recovery in
     diagnostic_within d \<and>
     dg_omitted_violation_count d = saturating_add omitted (length vs - 24) \<and>
     (dg_truncated d \<or>
      (dg_code d = code \<and> dg_phase d = phase \<and> dg_artifact d = artifact \<and>
       dg_recovery_action d = recovery \<and> dg_violations d = vs))"
proof (unfold Let_def, intro conjI)
  let ?d = "bounded_with_omitted code phase artifact vs omitted truncated retryable recovery"
  show "diagnostic_within ?d"
    by (auto simp: diagnostic_within_def bounded_with_omitted_def Let_def split_beta
        diagnostic_limits bounded_violation_within intro: bounded_text_length)
  show "dg_omitted_violation_count ?d = saturating_add omitted (length vs - 24)"
    by (simp add: bounded_with_omitted_def Let_def split_beta diagnostic_limits min_def
        saturating_add_def)
  show "dg_truncated ?d \<or>
      (dg_code ?d = code \<and> dg_phase ?d = phase \<and> dg_artifact ?d = artifact \<and>
       dg_recovery_action ?d = recovery \<and> dg_violations ?d = vs)"
  proof (cases "dg_truncated ?d")
    case False
    let ?kept = "map bounded_violation (take 24 vs)"
    from False have parts: "\<not> snd (bounded_text code 64)" "\<not> snd (bounded_text phase 128)"
      "\<not> snd (bounded_text artifact 128)" "\<not> snd (bounded_text recovery 512)"
      "\<not> list_ex snd ?kept" "saturating_add omitted (length vs - length ?kept) = 0"
      by (simp_all add: bounded_with_omitted_def Let_def split_beta diagnostic_limits)
    from parts(6) have "length vs \<le> 24" by (simp add: saturating_add_def usize_max_def min_def
          split: if_splits)
    with map_fst_honest [OF parts(5)] parts(1-4) show ?thesis
      by (simp add: bounded_with_omitted_def Let_def split_beta diagnostic_limits
          bounded_text_honest)
  qed simp
qed

text \<open>
  A deserializer's reason never yields a diagnostic text over 600 bytes, and a JSON pointer built
  from a quoted field name has exactly the segments \<open>params\<close> and the escaped field: a field name
  cannot add a path segment.
\<close>

theorem argument_pointer_one_field:
  "case invalid_arguments_from reason of
     InvalidArgumentsDetail d \<Rightarrow> length (ad_reason d) \<le> 600 \<and>
       (split_on CHR ''/'' (ad_pointer d) = [[], ''params''] \<or>
        (\<exists>field. split_on CHR ''/'' (ad_pointer d) = [[], ''params'', json_pointer_escape field]
               \<and> json_pointer_unescape (json_pointer_escape field) = field))
   | _ \<Rightarrow> False"
proof -
  have "split_on CHR ''/'' (''/params/'' @ json_pointer_escape f)
        = [[], ''params'', json_pointer_escape f]" for f
    by (simp add: split_on_no_sep escape_no_slash)
  then show ?thesis
    by (auto simp: invalid_arguments_from_def Let_def split_beta truncate_reason_length
        unescape_escape split: option.split)
qed

end
