(* ===== verification/JsonFragments.thy ===== *)
theory JsonFragments
  imports Errors
begin

text \<open>
  Reads larger than one answer: \<^verbatim>\<open>crates/host/src/json_fragment.rs\<close> and \<^verbatim>\<open>validate_pipeline_fragment\<close> of
  \<^verbatim>\<open>crates/domain/src/pipeline_execution/api/instructions.rs\<close>. A value is answered as a whole when it fits, and
  else as byte windows of its JSON text, each with the continuation that reads the next one. What
  \<^verbatim>\<open>serde_json\<close> writes and SHA-256 computes is a \<open>reading\<close>: the text of the value, its digest, and how long an
  answer with the whole value or with a window of it is, or the error that making it has.
\<close>

section \<open>The selector of a window\<close>

definition READ_BUDGET :: nat where "READ_BUDGET = 8192"

record json_window =
  jw_offset_bytes :: "nat option"
  jw_limit_bytes :: "nat option"
  jw_representation_digest :: "str option"

definition explicit_window :: "json_window \<Rightarrow> bool" where
  "explicit_window w \<longleftrightarrow> jw_offset_bytes w \<noteq> None \<or> jw_limit_bytes w \<noteq> None \<or> jw_representation_digest w \<noteq> None"

definition fragment_selector_refusal :: "str \<Rightarrow> str \<Rightarrow> error" where
  "fragment_selector_refusal selector expected = refused_at RC_InputSchemaInvalid ''PIPELINE-JSON-FRAGMENT-QUERY''
     (if selector = ''limit_bytes'' then ''arguments.params.limit_bytes''
      else if selector = ''offset_bytes'' then ''arguments.params.offset_bytes''
      else ''arguments.params.representation_digest'')
     expected ''invalid fragment selector'' ''supply_valid_fragment_selector'' selector"

text \<open>An offset is a \<^verbatim>\<open>u64\<close>, which is a \<^verbatim>\<open>usize\<close> where \<^verbatim>\<open>usize\<close> has 64 bits.\<close>

definition validate_pipeline_fragment :: "nat option \<Rightarrow> nat option \<Rightarrow> str option \<Rightarrow> unit result" where
  "validate_pipeline_fragment offset limit digest =
     (if (case limit of None \<Rightarrow> False | Some n \<Rightarrow> n = 0 \<or> 4096 < n)
      then Inl (fragment_selector_refusal ''limit_bytes'' ''integer in 1..=4096'')
      else if (case offset of None \<Rightarrow> False | Some n \<Rightarrow> usize_max < n)
      then Inl (fragment_selector_refusal ''offset_bytes'' ''representable byte offset'')
      else if (case digest of None \<Rightarrow> False | Some d \<Rightarrow> length d \<noteq> 64 \<or> \<not> list_all is_ascii_hexdigit d) \<or>
        ((case offset of None \<Rightarrow> False | Some n \<Rightarrow> 0 < n) \<and> digest = None)
      then Inl (fragment_selector_refusal ''representation_digest'' ''SHA256 digest required for nonzero offset'')
      else Inr ())"

section \<open>Windows\<close>

record reading =
  rd_bytes :: str
  rd_digest :: str
  rd_full_size :: "nat result"
  rd_page_size :: "nat \<Rightarrow> nat \<Rightarrow> nat \<Rightarrow> nat result"

record json_fragment =
  jf_offset_bytes :: nat
  jf_text :: str
  jf_total_bytes :: nat
  jf_representation_digest :: str
  jf_continuation :: "json_window option"

datatype read_answer = WholeValue | FragmentOf json_fragment

definition representation_refusal :: "str \<Rightarrow> str \<Rightarrow> str \<Rightarrow> error" where
  "representation_refusal selector expected actual = refused_at RC_InputSchemaInvalid ''PIPELINE-JSON-FRAGMENT-REPRESENTATION''
     (if selector = ''offset_bytes'' then ''arguments.params.offset_bytes'' else ''arguments.params.representation_digest'')
     expected actual ''restart_fragment_at_offset_zero'' selector"

text \<open>
  The page of a window. Its continuation repeats the digest and the limit; a page that reaches the end has the
  actions of the whole value instead.
\<close>

definition page_of :: "reading \<Rightarrow> nat \<Rightarrow> nat \<Rightarrow> nat \<Rightarrow> json_fragment" where
  "page_of v limit start stop = \<lparr>jf_offset_bytes = start, jf_text = take (stop - start) (drop start (rd_bytes v)),
     jf_total_bytes = length (rd_bytes v), jf_representation_digest = rd_digest v,
     jf_continuation = (if stop < length (rd_bytes v) then Some \<lparr>jw_offset_bytes = Some stop, jw_limit_bytes = Some limit,
       jw_representation_digest = Some (rd_digest v)\<rparr> else None)\<rparr>"

text \<open>The binary search for the largest window whose page fits\<close>

function fit_search ::
    "(nat \<Rightarrow> nat result) \<Rightarrow> nat \<Rightarrow> nat list \<Rightarrow> nat \<Rightarrow> nat \<Rightarrow> nat option \<Rightarrow> nat option result" where
  "fit_search size_of capacity ends lo hi best =
     (if lo < hi
      then let mid = lo + (hi - lo) div 2 in andThen (size_of (ends ! mid)) (\<lambda>n.
        if n \<le> capacity then fit_search size_of capacity ends (mid + 1) hi (Some (ends ! mid))
        else fit_search size_of capacity ends lo mid best)
      else Inr best)"
  by pat_completeness auto
termination
  by (relation "measure (\<lambda>(size_of, capacity, ends, lo, hi, best). hi - lo)") auto

declare fit_search.simps [simp del]

definition fits :: "nat \<Rightarrow> nat result \<Rightarrow> bool result" where
  "fits capacity r = map_sum id (\<lambda>n. n \<le> capacity) r"

text \<open>
  The page at an offset: the page that says the text has ended has to fit, then the rest of the text is taken when
  it is within the limit and fits, then the largest proper window that fits.
\<close>

definition fragment_at :: "reading \<Rightarrow> nat \<Rightarrow> nat \<Rightarrow> nat \<Rightarrow> json_fragment result" where
  "fragment_at v capacity limit offset = (let total = length (rd_bytes v); size_of = rd_page_size v limit in
     andThen (fits capacity (size_of total total)) (\<lambda>ending.
     if \<not> ending then Inl RequestTooLarge
     else if offset = total then Inr (page_of v limit total total)
     else let upper = floor_boundary (rd_bytes v) (min (saturating_add offset limit) total) in
     andThen (if upper = total then fits capacity (size_of offset upper) else Inr False) (\<lambda>terminal.
     if terminal then Inr (page_of v limit offset upper)
     else let ends = filter (\<lambda>e. e < total \<and> is_char_boundary (rd_bytes v) e) [offset..<Suc upper] in
     andThen (fit_search (size_of offset) capacity ends 0 (length ends) None) (\<lambda>best.
     case best of
         None \<Rightarrow> Inl RequestTooLarge
       | Some e \<Rightarrow> if offset < e then Inr (page_of v limit offset e) else Inl RequestTooLarge))))"

definition window_offset :: "json_window \<Rightarrow> nat" where
  "window_offset w = (case jw_offset_bytes w of None \<Rightarrow> 0 | Some n \<Rightarrow> n)"

definition window_limit :: "json_window \<Rightarrow> nat" where
  "window_limit w = (case jw_limit_bytes w of None \<Rightarrow> 4096 | Some n \<Rightarrow> n)"

definition read_window :: "reading \<Rightarrow> nat \<Rightarrow> json_window \<Rightarrow> read_answer result" where
  "read_window v given w = andThen (validate_pipeline_fragment (jw_offset_bytes w) (jw_limit_bytes w) (jw_representation_digest w)) (\<lambda>_.
     let capacity = min given READ_BUDGET; offset = window_offset w in
     if (case jw_representation_digest w of None \<Rightarrow> False | Some pin \<Rightarrow> pin \<noteq> rd_digest v)
     then Inl (representation_refusal ''representation_digest'' ''digest of the current authorized JSON representation''
       ''representation changed'')
     else if length (rd_bytes v) < offset \<or> \<not> is_char_boundary (rd_bytes v) offset
     then Inl (representation_refusal ''offset_bytes'' ''UTF-8 boundary within 0..=total_bytes'' ''invalid byte offset'')
     else andThen (if explicit_window w then Inr False else fits capacity (rd_full_size v)) (\<lambda>whole.
     if whole then Inr WholeValue else map_sum id FragmentOf (fragment_at v capacity (window_limit w) offset)))"

text \<open>
  A client that follows the continuations and puts the texts together. The number of pages it is ready to read is
  its fuel.
\<close>

fun read_on :: "reading \<Rightarrow> nat \<Rightarrow> nat \<Rightarrow> json_window \<Rightarrow> str result option" where
  "read_on v given 0 w = None"
| "read_on v given (Suc pages) w = (case read_window v given w of
     Inl e \<Rightarrow> Some (Inl e)
   | Inr WholeValue \<Rightarrow> Some (Inr (rd_bytes v))
   | Inr (FragmentOf p) \<Rightarrow> (case jf_continuation p of
       None \<Rightarrow> Some (Inr (jf_text p))
     | Some next \<Rightarrow> map_option (map_sum id (\<lambda>t. jf_text p @ t)) (read_on v given pages next)))"

section \<open>The search\<close>

lemma fit_search_sound:
  "fit_search size_of capacity ends lo hi best = Inr (Some e) \<Longrightarrow>
    best = Some e \<or> (\<exists>i n. lo \<le> i \<and> i < hi \<and> e = ends ! i \<and> size_of e = Inr n \<and> n \<le> capacity)"
proof (induction size_of capacity ends lo hi best rule: fit_search.induct)
  case (1 size_of capacity ends lo hi best)
  show ?case
  proof (cases "lo < hi")
    case True
    let ?mid = "lo + (hi - lo) div 2"
    have mid: "lo \<le> ?mid" "?mid < hi" using True by auto
    from 1(3) True obtain n where n: "size_of (ends ! ?mid) = Inr n"
      by (subst (asm) fit_search.simps) (auto simp: Let_def check_simps)
    show ?thesis
    proof (cases "n \<le> capacity")
      case fit: True
      then have "fit_search size_of capacity ends (?mid + 1) hi (Some (ends ! ?mid)) = Inr (Some e)"
        using 1(3) True n by (subst (asm) fit_search.simps) (simp add: Let_def)
      from 1(1) [OF True refl fit this] consider "e = ends ! ?mid"
        | i m where "?mid + 1 \<le> i" "i < hi" "e = ends ! i" "size_of e = Inr m" "m \<le> capacity" by auto
      then show ?thesis
      proof cases
        case 1
        then show ?thesis using fit n mid by (intro disjI2 exI [of _ ?mid] exI [of _ n]) simp
      next
        case (2 i m)
        then show ?thesis by (intro disjI2 exI [of _ i] exI [of _ m]) simp
      qed
    next
      case False
      then have "fit_search size_of capacity ends lo ?mid best = Inr (Some e)"
        using 1(3) True n by (subst (asm) fit_search.simps) (simp add: Let_def)
      from 1(2) [OF True refl False this] mid show ?thesis by (auto intro: less_trans)
    qed
  next
    case False
    then show ?thesis using 1(3) by (subst (asm) fit_search.simps) simp
  qed
qed

lemma fit_search_total:
  "\<forall>i<length ends. \<exists>n. size_of (ends ! i) = Inr n \<Longrightarrow> hi \<le> length ends \<Longrightarrow>
    fit_search size_of capacity ends lo hi best = Inr best \<or>
    (\<exists>j. lo \<le> j \<and> j < hi \<and> fit_search size_of capacity ends lo hi best = Inr (Some (ends ! j)))"
proof (induction size_of capacity ends lo hi best rule: fit_search.induct)
  case (1 size_of capacity ends lo hi best)
  show ?case
  proof (cases "lo < hi")
    case True
    let ?mid = "lo + (hi - lo) div 2"
    have mid: "lo \<le> ?mid" "?mid < hi" using True by auto
    then obtain m where m: "size_of (ends ! ?mid) = Inr m" using 1(3,4) by (meson less_le_trans)
    show ?thesis
    proof (cases "m \<le> capacity")
      case fit: True
      have "fit_search size_of capacity ends lo hi best = fit_search size_of capacity ends (?mid + 1) hi (Some (ends ! ?mid))"
        using True fit m by (subst fit_search.simps) (simp add: Let_def)
      then show ?thesis using 1(1) [OF True refl fit 1(3,4)] mid by (metis add_leD1 order_trans)
    next
      case False
      have "fit_search size_of capacity ends lo hi best = fit_search size_of capacity ends lo ?mid best"
        using True False m by (subst fit_search.simps) (simp add: Let_def)
      then show ?thesis using 1(2) [OF True refl False 1(3)] 1(4) mid by (metis less_imp_le less_trans order_trans)
    qed
  qed (simp add: fit_search.simps)
qed

text \<open>With sizes that grow with the window, the search finds a window no smaller than any that fits.\<close>

lemma fit_search_finds:
  "\<forall>i<length ends. \<exists>n. size_of (ends ! i) = Inr n \<Longrightarrow> hi \<le> length ends \<Longrightarrow>
    \<forall>i j m n. i \<le> j \<and> j < length ends \<and> size_of (ends ! i) = Inr m \<and> size_of (ends ! j) = Inr n \<longrightarrow> m \<le> n \<Longrightarrow>
    lo \<le> k \<Longrightarrow> k < hi \<Longrightarrow> size_of (ends ! k) = Inr n \<Longrightarrow> n \<le> capacity \<Longrightarrow>
    \<exists>j. k \<le> j \<and> j < hi \<and> fit_search size_of capacity ends lo hi best = Inr (Some (ends ! j))"
proof (induction size_of capacity ends lo hi best rule: fit_search.induct)
  case (1 size_of capacity ends lo hi best)
  let ?mid = "lo + (hi - lo) div 2"
  have lo: "lo < hi" using 1(6,7) by simp
  then have mid: "lo \<le> ?mid" "?mid < hi" by auto
  then obtain m where m: "size_of (ends ! ?mid) = Inr m" using 1(3,4) by (meson less_le_trans)
  show ?case
  proof (cases "m \<le> capacity")
    case fit: True
    have step: "fit_search size_of capacity ends lo hi best = fit_search size_of capacity ends (?mid + 1) hi (Some (ends ! ?mid))"
      using lo fit m by (subst fit_search.simps) (simp add: Let_def)
    show ?thesis
    proof (cases "?mid + 1 \<le> k")
      case True
      then show ?thesis unfolding step using 1(1) [OF lo refl fit 1(3,4,5)] 1(7-9) by blast
    next
      case False
      then have k: "k \<le> ?mid" by simp
      from fit_search_total [OF 1(3,4), of capacity "?mid + 1" "Some (ends ! ?mid)"]
      obtain j where "?mid \<le> j" "j < hi" "fit_search size_of capacity ends (?mid + 1) hi (Some (ends ! ?mid)) = Inr (Some (ends ! j))"
        using mid(2) by (metis add_leD1 order_refl)
      then show ?thesis unfolding step using k by (intro exI [of _ j]) simp
    qed
  next
    case False
    have below: "k < ?mid"
    proof (rule ccontr)
      assume "\<not> k < ?mid"
      then have "m \<le> n" using 1(4,5,7,8) m by (meson less_le_trans not_less)
      with 1(9) False show False by simp
    qed
    have step: "fit_search size_of capacity ends lo hi best = fit_search size_of capacity ends lo ?mid best"
      using lo False m by (subst fit_search.simps) (simp add: Let_def)
    have "?mid \<le> length ends" using mid(2) 1(4) by simp
    from 1(2) [OF lo refl False 1(3) this 1(5,6) below 1(8,9)] obtain j where
      "k \<le> j" "j < ?mid" "fit_search size_of capacity ends lo ?mid best = Inr (Some (ends ! j))" by blast
    then show ?thesis unfolding step using mid(2) by (intro exI [of _ j]) simp
  qed
qed

section \<open>One window\<close>

lemma floor_boundary_ge: "is_char_boundary s b \<Longrightarrow> b \<le> n \<Longrightarrow> b \<le> floor_boundary s n"
  by (induction n) (auto simp: le_Suc_eq)

lemma page_of_simps [simp]:
  "jf_text (page_of v limit start stop) = take (stop - start) (drop start (rd_bytes v))"
  "jf_continuation (page_of v limit start stop) = (if stop < length (rd_bytes v) then Some \<lparr>jw_offset_bytes = Some stop,
     jw_limit_bytes = Some limit, jw_representation_digest = Some (rd_digest v)\<rparr> else None)"
  by (simp_all add: page_of_def)

text \<open>What every page is\<close>

definition page_ok :: "reading \<Rightarrow> nat \<Rightarrow> json_window \<Rightarrow> nat \<Rightarrow> bool" where
  "page_ok v given w stop \<longleftrightarrow> is_char_boundary (rd_bytes v) (window_offset w) \<and> is_char_boundary (rd_bytes v) stop \<and>
     window_offset w \<le> stop \<and> (window_offset w < stop \<or> stop = length (rd_bytes v)) \<and> stop - window_offset w \<le> window_limit w \<and>
     (\<exists>n. rd_page_size v (window_limit w) (window_offset w) stop = Inr n \<and> n \<le> min given READ_BUDGET)"

lemma fits_Inr: "fits capacity r = Inr b \<longleftrightarrow> (\<exists>n. r = Inr n \<and> b = (n \<le> capacity))"
  by (cases r) (auto simp: fits_def)

lemma mapped_Inl: "map_sum id f r = Inl e \<longleftrightarrow> r = Inl e"
  by (cases r) auto

lemma mapped_Inr: "map_sum id f r = Inr b \<longleftrightarrow> (\<exists>a. r = Inr a \<and> b = f a)"
  by (cases r) auto

lemma read_window_page:
  assumes "read_window v given w = Inr (FragmentOf p)"
  obtains stop where "p = page_of v (window_limit w) (window_offset w) stop" "page_ok v given w stop"
proof -
  let ?total = "length (rd_bytes v)" and ?start = "window_offset w" and ?limit = "window_limit w"
  let ?upper = "floor_boundary (rd_bytes v) (min (saturating_add ?start ?limit) ?total)"
  let ?ends = "filter (\<lambda>e. e < ?total \<and> is_char_boundary (rd_bytes v) e) [?start..<Suc ?upper]"
  let ?size = "rd_page_size v ?limit" and ?cap = "min given READ_BUDGET"
  have "?upper \<le> min (saturating_add ?start ?limit) ?total" by (rule floor_boundary_le)
  also have "\<dots> \<le> ?limit + ?start" by (simp add: saturating_add_def min_def)
  finally have within: "e \<le> ?upper \<Longrightarrow> e - ?start \<le> ?limit" for e
    by (simp only: le_diff_conv order_trans)
  from assms have start: "is_char_boundary (rd_bytes v) ?start" "?start \<le> ?total"
    and p: "fragment_at v ?cap ?limit ?start = Inr p"
    by (auto simp: read_window_def Let_def check_simps mapped_Inr split: if_splits)
  from p have ending: "\<exists>n. ?size ?total ?total = Inr n \<and> n \<le> ?cap"
    and cases: "?start = ?total \<and> p = page_of v ?limit ?total ?total \<or> ?start \<noteq> ?total \<and>
      (?upper = ?total \<and> p = page_of v ?limit ?start ?upper \<and> (\<exists>n. ?size ?start ?upper = Inr n \<and> n \<le> ?cap) \<or>
       (\<exists>e. fit_search (?size ?start) ?cap ?ends 0 (length ?ends) None = Inr (Some e) \<and> ?start < e \<and>
         p = page_of v ?limit ?start e))"
    by (auto simp: fragment_at_def Let_def check_simps fits_Inr split: if_splits option.splits)
  from cases show thesis
  proof (elim disjE conjE exE)
    assume "?start = ?total" "p = page_of v ?limit ?total ?total"
    then show thesis using start ending by (intro that [of ?total]) (simp_all add: page_ok_def)
  next
    fix n assume "?start \<noteq> ?total" "?upper = ?total" "p = page_of v ?limit ?start ?upper" "?size ?start ?upper = Inr n" "n \<le> ?cap"
    then show thesis using start within by (intro that [of ?total]) (simp_all add: page_ok_def)
  next
    fix e assume found: "fit_search (?size ?start) ?cap ?ends 0 (length ?ends) None = Inr (Some e)" "?start < e"
      and p: "p = page_of v ?limit ?start e"
    from fit_search_sound [OF found(1)] obtain i n where i: "i < length ?ends" "e = ?ends ! i" "?size ?start e = Inr n" "n \<le> ?cap" by auto
    then have "e \<in> set ?ends" using nth_mem by metis
    then have "is_char_boundary (rd_bytes v) e" "e \<le> ?upper" by auto
    then show thesis using p start found(2) within i(3,4) by (intro that [of e]) (simp_all add: page_ok_def)
  qed
qed

lemma read_window_whole:
  assumes "read_window v given w = Inr WholeValue"
  shows "window_offset w = 0"
  using assms by (auto simp: read_window_def Let_def check_simps mapped_Inr explicit_window_def window_offset_def
      split: if_splits)

section \<open>Following the continuations\<close>

lemma read_on_exact: "read_on v given pages w = Some (Inr t) \<Longrightarrow> t = drop (window_offset w) (rd_bytes v)"
proof (induction pages arbitrary: w t)
  case (Suc pages)
  then obtain a where a: "read_window v given w = Inr a" by (auto split: sum.splits)
  show ?case
  proof (cases a)
    case WholeValue
    then show ?thesis using Suc.prems a read_window_whole by simp
  next
    case (FragmentOf p)
    then obtain stop where p: "p = page_of v (window_limit w) (window_offset w) stop" and ok: "page_ok v given w stop"
      using read_window_page a by blast
    show ?thesis
    proof (cases "stop < length (rd_bytes v)")
      case True
      then obtain r where r: "read_on v given pages \<lparr>jw_offset_bytes = Some stop, jw_limit_bytes = Some (window_limit w),
          jw_representation_digest = Some (rd_digest v)\<rparr> = Some r"
          and out: "map_sum id (\<lambda>t. take (stop - window_offset w) (drop (window_offset w) (rd_bytes v)) @ t) r = Inr t"
        using Suc.prems a FragmentOf p by auto
      then obtain t' where t': "r = Inr t'" and t: "t = take (stop - window_offset w) (drop (window_offset w) (rd_bytes v)) @ t'"
        by (cases r) auto
      have "t' = drop stop (rd_bytes v)" using Suc.IH [OF r [unfolded t']] by (simp add: window_offset_def)
      moreover have "drop stop (rd_bytes v) = drop (stop - window_offset w) (drop (window_offset w) (rd_bytes v))"
        using ok by (simp add: page_ok_def)
      ultimately show ?thesis by (simp add: t del: drop_drop)
    next
      case False
      then have "stop = length (rd_bytes v)" using ok boundary_le [of "rd_bytes v" stop] by (simp add: page_ok_def)
      then show ?thesis using Suc.prems a FragmentOf p by simp
    qed
  qed
qed simp

lemma read_on_ends: "length (rd_bytes v) - window_offset w < pages \<Longrightarrow> read_on v given pages w \<noteq> None"
proof (induction pages arbitrary: w)
  case (Suc pages)
  show ?case
  proof (cases "read_window v given w")
    case (Inr a)
    show ?thesis
    proof (cases a)
      case (FragmentOf p)
      then obtain stop where p: "p = page_of v (window_limit w) (window_offset w) stop" and ok: "page_ok v given w stop"
        using read_window_page Inr by blast
      have "read_on v given pages \<lparr>jw_offset_bytes = Some stop, jw_limit_bytes = Some l, jw_representation_digest = d\<rparr> \<noteq> None"
        if "stop < length (rd_bytes v)" for l d
        using ok that Suc.prems by (intro Suc.IH) (auto simp: window_offset_def page_ok_def)
      then show ?thesis using Inr FragmentOf p by auto
    qed (simp add: Inr)
  qed simp
qed simp

section \<open>When the reading is delivered\<close>

text \<open>
  The answers fit: every page can be made, an intermediate page does not shrink when its text grows, the page that
  only says the text has ended fits, and so does, from every character, some page within the limit.
\<close>

definition pages_fit :: "reading \<Rightarrow> nat \<Rightarrow> nat \<Rightarrow> (nat \<Rightarrow> nat \<Rightarrow> nat) \<Rightarrow> bool" where
  "pages_fit v given limit size_of \<longleftrightarrow> (let s = rd_bytes v; total = length s; capacity = min given READ_BUDGET in
     total \<le> usize_max \<and> (\<forall>a b. rd_page_size v limit a b = Inr (size_of a b)) \<and>
     (\<forall>a b c. b \<le> c \<and> c < total \<longrightarrow> size_of a b \<le> size_of a c) \<and> size_of total total \<le> capacity \<and>
     (\<forall>a<total. is_char_boundary s a \<longrightarrow>
        (\<exists>e. a < e \<and> e \<le> a + limit \<and> e \<le> total \<and> is_char_boundary s e \<and> size_of a e \<le> capacity)))"

lemma sorted_nth_le: "sorted xs \<Longrightarrow> i \<le> j \<Longrightarrow> j < length xs \<Longrightarrow> xs ! i \<le> (xs ! j :: nat)"
  by (rule sorted_nth_mono)

lemma fits_index:
  assumes fit: "pages_fit v given limit size_of" and k: "k < length ends" "size_of offset (ends ! k) \<le> min given READ_BUDGET"
    and ends: "ends = filter (\<lambda>e. e < length (rd_bytes v) \<and> is_char_boundary (rd_bytes v) e) [offset..<Suc upper]"
  shows "\<exists>e. ends ! k \<le> e \<and>
    fit_search (rd_page_size v limit offset) (min given READ_BUDGET) ends 0 (length ends) None = Inr (Some e)"
proof -
  have sized: "rd_page_size v limit a b = Inr (size_of a b)" for a b using fit by (simp add: pages_fit_def Let_def)
  have sorted: "sorted ends" unfolding ends by (rule sorted_wrt_filter) (rule sorted_upt)
  have grows: "m \<le> n" if "i \<le> j \<and> j < length ends \<and> rd_page_size v limit offset (ends ! i) = Inr m \<and>
      rd_page_size v limit offset (ends ! j) = Inr n" for i j m n
  proof -
    have "\<forall>e\<in>set ends. e < length (rd_bytes v)" by (auto simp: ends simp del: upt_Suc)
    then have "ends ! j < length (rd_bytes v)" using that by simp
    moreover have "ends ! i \<le> ends ! j" using that by (intro sorted_nth_le [OF sorted]) simp_all
    ultimately have "size_of offset (ends ! i) \<le> size_of offset (ends ! j)"
      using fit unfolding pages_fit_def Let_def by blast
    then show ?thesis using that by (simp add: sized)
  qed
  have "\<exists>j. k \<le> j \<and> j < length ends \<and>
    fit_search (rd_page_size v limit offset) (min given READ_BUDGET) ends 0 (length ends) None = Inr (Some (ends ! j))"
  proof (rule fit_search_finds [where k = k and n = "size_of offset (ends ! k)"])
    show "\<forall>i<length ends. \<exists>n. rd_page_size v limit offset (ends ! i) = Inr n" by (simp add: sized)
    show "\<forall>i j m n. i \<le> j \<and> j < length ends \<and> rd_page_size v limit offset (ends ! i) = Inr m \<and>
      rd_page_size v limit offset (ends ! j) = Inr n \<longrightarrow> m \<le> n" by (intro allI impI grows)
  qed (use k sized in simp_all)
  then obtain j where j: "k \<le> j" "j < length ends"
    "fit_search (rd_page_size v limit offset) (min given READ_BUDGET) ends 0 (length ends) None = Inr (Some (ends ! j))" by blast
  from sorted_nth_le [OF sorted j(1,2)] j(3) show ?thesis by blast
qed

lemma fragment_at_made:
  assumes fit: "pages_fit v given limit size_of" and offset: "is_char_boundary (rd_bytes v) offset" "offset \<le> length (rd_bytes v)"
  shows "\<exists>p. fragment_at v (min given READ_BUDGET) limit offset = Inr p"
proof -
  let ?s = "rd_bytes v" and ?total = "length (rd_bytes v)" and ?cap = "min given READ_BUDGET"
  define upper where "upper = floor_boundary ?s (min (saturating_add offset limit) ?total)"
  define ends where "ends = filter (\<lambda>e. e < ?total \<and> is_char_boundary ?s e) [offset..<Suc upper]"
  have sized: "rd_page_size v limit a b = Inr (size_of a b)" for a b using fit by (simp add: pages_fit_def Let_def)
  have ending: "size_of ?total ?total \<le> ?cap" using fit by (simp add: pages_fit_def Let_def)
  have unfold: "fragment_at v ?cap limit offset = (if offset = ?total then Inr (page_of v limit ?total ?total)
      else if upper = ?total \<and> size_of offset upper \<le> ?cap then Inr (page_of v limit offset upper)
      else andThen (fit_search (rd_page_size v limit offset) ?cap ends 0 (length ends) None) (\<lambda>best.
        case best of None \<Rightarrow> Inl RequestTooLarge
        | Some e \<Rightarrow> if offset < e then Inr (page_of v limit offset e) else Inl RequestTooLarge))"
    using ending unfolding fragment_at_def Let_def upper_def [symmetric] ends_def [symmetric] sized fits_def by auto
  show ?thesis
  proof (cases "offset = ?total \<or> upper = ?total \<and> size_of offset upper \<le> ?cap")
    case False
    then have "offset < ?total" using offset(2) by simp
    then obtain e where e: "offset < e" "e \<le> offset + limit" "e \<le> ?total" "is_char_boundary ?s e" "size_of offset e \<le> ?cap"
      using fit offset(1) by (auto simp: pages_fit_def Let_def)
    have "?total \<le> usize_max" using fit by (simp add: pages_fit_def Let_def)
    with e have "e \<le> min (saturating_add offset limit) ?total" by (simp add: saturating_add_def)
    then have below: "e \<le> upper" unfolding upper_def by (intro floor_boundary_ge e(4))
    have "upper \<le> ?total" unfolding upper_def using floor_boundary_le min.bounded_iff by blast
    with below False e(3,5) have "e < ?total" by (cases "e = ?total") auto
    with e(1,4) below have "e \<in> set ends" by (simp add: ends_def del: upt_Suc)
    then obtain k where k: "k < length ends" "ends ! k = e" by (auto simp: in_set_conv_nth)
    from fits_index [OF fit k(1) _ ends_def] e(5) k(2) obtain e' where e': "e \<le> e'"
      "fit_search (rd_page_size v limit offset) ?cap ends 0 (length ends) None = Inr (Some e')" by auto
    then have "offset < e'" using e(1) by simp
    with e'(2) False show ?thesis unfolding unfold by auto
  qed (auto simp: unfold)
qed

text \<open>A window the reading accepts\<close>

definition window_accepted :: "reading \<Rightarrow> nat \<Rightarrow> json_window \<Rightarrow> bool" where
  "window_accepted v limit w \<longleftrightarrow> window_limit w = limit \<and> 0 < limit \<and> limit \<le> 4096 \<and> window_offset w \<le> length (rd_bytes v) \<and>
     is_char_boundary (rd_bytes v) (window_offset w) \<and>
     (jw_representation_digest w = None \<and> window_offset w = 0 \<or> jw_representation_digest w = Some (rd_digest v)) \<and>
     length (rd_digest v) = 64 \<and> list_all is_ascii_hexdigit (rd_digest v)"

lemma window_accepted_made:
  assumes fit: "pages_fit v given limit size_of" and ok: "window_accepted v limit w" and full: "rd_full_size v = Inr n"
  shows "\<exists>a. read_window v given w = Inr a"
proof -
  from ok have offset: "window_offset w \<le> length (rd_bytes v)" "is_char_boundary (rd_bytes v) (window_offset w)"
    by (simp_all add: window_accepted_def)
  from fragment_at_made [OF fit offset(2,1)] obtain p where
    p: "fragment_at v (min given READ_BUDGET) limit (window_offset w) = Inr p" by blast
  have "length (rd_bytes v) \<le> usize_max" using fit by (simp add: pages_fit_def Let_def)
  then have "validate_pipeline_fragment (jw_offset_bytes w) (jw_limit_bytes w) (jw_representation_digest w) = Inr ()"
    using ok by (auto simp: validate_pipeline_fragment_def window_accepted_def window_offset_def window_limit_def split: option.splits)
  then show ?thesis using ok p offset full
    by (auto simp: read_window_def Let_def window_accepted_def fits_def)
qed

lemma read_on_not_refused:
  assumes fit: "pages_fit v given limit size_of" and full: "rd_full_size v = Inr n"
  shows "window_accepted v limit w \<Longrightarrow> read_on v given pages w \<noteq> Some (Inl e)"
proof (induction pages arbitrary: w)
  case (Suc pages)
  from window_accepted_made [OF fit Suc.prems full] obtain a where a: "read_window v given w = Inr a" by blast
  show ?case
  proof (cases a)
    case (FragmentOf p)
    then obtain stop where p: "p = page_of v (window_limit w) (window_offset w) stop" and ok: "page_ok v given w stop"
      using read_window_page a by blast
    have "window_accepted v limit \<lparr>jw_offset_bytes = Some stop, jw_limit_bytes = Some (window_limit w),
        jw_representation_digest = Some (rd_digest v)\<rparr>"
      using Suc.prems ok boundary_le [of "rd_bytes v" stop] by (simp add: window_accepted_def page_ok_def window_offset_def window_limit_def)
    from Suc.IH [OF this] show ?thesis using a FragmentOf p by (auto simp: mapped_Inl)
  qed (simp add: a)
qed simp

section \<open>Properties\<close>

text \<open>
  C34: A client that starts without an offset and follows the continuations gets, within as many pages as the JSON text
  has bytes and one more, either a refusal or exactly the text: no page is empty before the end, none overlaps or
  skips, and every page is cut between characters.
\<close>

theorem fragments_reassemble:
  "case read_on v given (Suc (length (rd_bytes v))) \<lparr>jw_offset_bytes = None, jw_limit_bytes = limit, jw_representation_digest = None\<rparr> of
     None \<Rightarrow> False
   | Some (Inl e) \<Rightarrow> True
   | Some (Inr t) \<Rightarrow> t = rd_bytes v"
  using read_on_ends [of v "\<lparr>jw_offset_bytes = None, jw_limit_bytes = limit, jw_representation_digest = None\<rparr>" "Suc (length (rd_bytes v))" given]
    read_on_exact [of v given "Suc (length (rd_bytes v))" "\<lparr>jw_offset_bytes = None, jw_limit_bytes = limit, jw_representation_digest = None\<rparr>"]
  by (auto simp: window_offset_def split: option.splits sum.splits)

text \<open>
  C35: Where the answers fit, the client gets the text: the search for a window never misses one that would have made
  progress, and the pinned digest and offset of a continuation are accepted.
\<close>

theorem fragments_delivered:
  assumes "pages_fit v given limit size_of" "rd_full_size v = Inr n" "0 < limit" "limit \<le> 4096"
    "length (rd_digest v) = 64" "list_all is_ascii_hexdigit (rd_digest v)"
  shows "read_on v given (Suc (length (rd_bytes v)))
    \<lparr>jw_offset_bytes = None, jw_limit_bytes = Some limit, jw_representation_digest = None\<rparr> = Some (Inr (rd_bytes v))"
    (is "read_on v given ?pages ?w = _")
proof -
  have offset: "window_offset ?w = 0" by (simp add: window_offset_def)
  then have "window_accepted v limit ?w" using assms(3-6) by (simp add: window_accepted_def window_limit_def is_char_boundary_def)
  then have "read_on v given ?pages ?w \<noteq> Some (Inl e)" for e by (rule read_on_not_refused [OF assms(1,2)])
  moreover have "read_on v given ?pages ?w \<noteq> None" by (rule read_on_ends) (simp add: offset)
  ultimately obtain t where t: "read_on v given ?pages ?w = Some (Inr t)" by (metis option.exhaust sum.exhaust)
  then show ?thesis using read_on_exact [OF t] offset by simp
qed

definition example_reading :: reading where
  "example_reading = \<lparr>rd_bytes = ''[1,23]'', rd_digest = replicate 64 CHR ''a'', rd_full_size = Inr 100,
     rd_page_size = (\<lambda>limit start stop. Inr (50 + (stop - start)))\<rparr>"

lemma fragments_delivered_witness:
  "read_on example_reading 52 7 \<lparr>jw_offset_bytes = None, jw_limit_bytes = Some 4, jw_representation_digest = None\<rparr> =
     Some (Inr ''[1,23]'')"
proof -
  have "list_all (is_char_boundary ''[1,23]'') [0..<7]" by code_simp
  then have "is_char_boundary ''[1,23]'' e" if "e < 7" for e using that by (simp add: list_all_iff)
  then have step: "a < Suc a \<and> Suc a \<le> a + 4 \<and> Suc a \<le> 6 \<and> is_char_boundary ''[1,23]'' (Suc a) \<and>
      50 + (Suc a - a) \<le> min 52 READ_BUDGET" if "a < 6" for a
    using that by (simp add: READ_BUDGET_def)
  have "pages_fit example_reading 52 4 (\<lambda>a b. 50 + (b - a))"
    unfolding pages_fit_def Let_def
  proof (intro conjI allI impI)
    fix a assume "a < length (rd_bytes example_reading)"
    then have "a < 6" by (simp add: example_reading_def)
    from step [OF this] show "\<exists>e. a < e \<and> e \<le> a + 4 \<and> e \<le> length (rd_bytes example_reading) \<and>
      is_char_boundary (rd_bytes example_reading) e \<and> 50 + (e - a) \<le> min 52 READ_BUDGET"
      by (intro exI [of _ "Suc a"]) (simp add: example_reading_def)
  qed (auto simp: example_reading_def usize_max_def READ_BUDGET_def)
  then have "read_on example_reading 52 (Suc (length (rd_bytes example_reading)))
      \<lparr>jw_offset_bytes = None, jw_limit_bytes = Some 4, jw_representation_digest = None\<rparr> = Some (Inr (rd_bytes example_reading))"
  proof (rule fragments_delivered)
    show "rd_full_size example_reading = Inr 100" "length (rd_digest example_reading) = 64" by (simp_all add: example_reading_def)
    show "list_all is_ascii_hexdigit (rd_digest example_reading)" by code_simp
  qed simp_all
  moreover have "rd_bytes example_reading = ''[1,23]''" "Suc (length (rd_bytes example_reading)) = 7"
    by (simp_all add: example_reading_def)
  ultimately show ?thesis by metis
qed

end
