(* ===== verification/Identity.thy ===== *)
theory Identity
  imports Errors
begin

text \<open>
  \<^verbatim>\<open>crates/domain/src/identity.rs\<close>, \<^verbatim>\<open>sources.rs\<close>, \<^verbatim>\<open>setup_file.rs\<close>, \<^verbatim>\<open>program_page.rs\<close> and
  \<^verbatim>\<open>workspace_collection.rs\<close>: who is calling (native session, workspace key, host credential), which
  worktrees may be selected, which physical paths a host is granted, and the opaque cursors of
  the paged collections. Parsing and printing of UUIDs belong to the \<^verbatim>\<open>uuid\<close> crate: they are the
  parameters \<open>parse_uuid\<close> and \<open>show_uuid\<close> of the definitions that use them.
\<close>

section \<open>The \<^verbatim>\<open>uuid\<close> crate\<close>

text \<open>
  What the code relies on: the hyphenated text a UUID prints as is 36 lower-case hexadecimal
  digits and hyphens, and parses back to the same UUID.
\<close>

definition uuid_crate :: "(str \<Rightarrow> uuid option) \<Rightarrow> (uuid \<Rightarrow> str) \<Rightarrow> bool" where
  "uuid_crate parse_uuid show_uuid \<longleftrightarrow>
     (\<forall>u. parse_uuid (show_uuid u) = Some u) \<and>
     (\<forall>u. length (show_uuid u) = 36) \<and>
     (\<forall>u. \<forall>c\<in>set (show_uuid u). is_lower_hexdigit c \<or> c = CHR ''-'')"

section \<open>Request identity\<close>

record host_auth =
  ha_host_id :: uuid
  ha_credential :: str

record request_context =
  rc_auth :: host_auth
  rc_native_session_id :: str
  rc_workspace_key :: str

record host_identity =
  hi_host_id :: uuid
  hi_tenant_id :: uuid
  hi_principal_id :: uuid
  hi_allowed_source_roots :: "str list"
  hi_allowed_setup_roots :: "str list"

definition validate_native_id ::
  "(str \<Rightarrow> uuid option) \<Rightarrow> (uuid \<Rightarrow> str) \<Rightarrow> str \<Rightarrow> unit result" where
  "validate_native_id parse_uuid show_uuid value =
     (case parse_uuid value of
        None \<Rightarrow> Err InvalidNativeSession
      | Some uid \<Rightarrow> if is_nil uid \<or> show_uuid uid \<noteq> value then Err InvalidNativeSession else Ok ())"

definition key_char :: "char \<Rightarrow> bool" where
  "key_char c \<longleftrightarrow> is_ascii_alphanumeric c \<or> c \<in> {CHR ''.'', CHR ''_'', CHR ''-''}"

definition validate_workspace_key :: "str \<Rightarrow> unit result" where
  "validate_workspace_key value =
     (if value = [] \<or> 128 < length value \<or> \<not> is_ascii_alphanumeric (value ! 0) \<or>
         \<not> list_all key_char value
      then Err InvalidWorkspaceKey else Ok ())"

definition validate_context ::
  "(str \<Rightarrow> uuid option) \<Rightarrow> (uuid \<Rightarrow> str) \<Rightarrow> request_context \<Rightarrow> unit result" where
  "validate_context parse_uuid show_uuid ctx =
     checks
      [validate_native_id parse_uuid show_uuid (rc_native_session_id ctx),
       validate_workspace_key (rc_workspace_key ctx),
       refuse_if (is_nil (ha_host_id (rc_auth ctx)) \<or>
                  length (ha_credential (rc_auth ctx)) \<noteq> 64 \<or>
                  \<not> list_all is_ascii_hexdigit (ha_credential (rc_auth ctx)))
         Unauthorized]"

section \<open>Worktree selection\<close>

definition MAX_WORKTREES :: nat where "MAX_WORKTREES = 100"
definition MAX_SOURCE_PATH_BYTES :: nat where "MAX_SOURCE_PATH_BYTES = 4096"

record source_location =
  sl_common_dir :: str
  sl_worktree_path :: str

record registered_source =
  rs_id :: uuid
  rs_repository_id :: uuid
  rs_path :: str
  rs_common_dir :: str

record source_page =
  sp_items :: "registered_source list"
  sp_next_after :: "uuid option"

definition validate_selection :: "uuid list \<Rightarrow> unit result" where
  "validate_selection ids =
     (if MAX_WORKTREES < length ids \<or> list_ex is_nil ids \<or> card (set ids) \<noteq> length ids
      then Err InvalidWorktreeSelection else Ok ())"

section \<open>Physical setup paths\<close>

record setup_directory =
  sd_path :: str
  sd_device :: int
  sd_inode :: int

definition validate_setup_path :: "str \<Rightarrow> unit result" where
  "validate_setup_path path =
     (if path = [] \<or> MAX_SOURCE_PATH_BYTES < length path \<or> \<not> prefix ''/'' path \<or> has_nul path \<or>
         (path \<noteq> ''/'' \<and>
          list_ex (\<lambda>part. part = [] \<or> part = ''.'' \<or> part = ''..'') (split_on CHR ''/'' (tl path)))
      then Err InvalidArguments else Ok ())"

definition setup_path_is_granted :: "str \<Rightarrow> str list \<Rightarrow> bool" where
  "setup_path_is_granted path roots \<longleftrightarrow>
     is_ok (validate_setup_path path) \<and>
     list_ex (\<lambda>root. is_ok (validate_setup_path root) \<and>
       (root = ''/'' \<or> path = root \<or>
        (case strip_prefix root path of None \<Rightarrow> False | Some rest \<Rightarrow> prefix ''/'' rest))) roots"

datatype setup_file_status = ContextUnknown | Missing | Existing | Unavailable

record file_observation =
  fo_status :: setup_file_status
  fo_byte_length :: "nat option"
  fo_sha256 :: "str option"
  fo_reason :: "str option"

definition observation_missing :: file_observation where
  "observation_missing = \<lparr>fo_status = Missing, fo_byte_length = None, fo_sha256 = None,
     fo_reason = None\<rparr>"

definition observation_unknown :: file_observation where
  "observation_unknown = \<lparr>fo_status = ContextUnknown, fo_byte_length = None, fo_sha256 = None,
     fo_reason = Some ''task_launch_directory_not_supplied''\<rparr>"

definition observation_unavailable :: "str \<Rightarrow> file_observation" where
  "observation_unavailable reason = \<lparr>fo_status = Unavailable, fo_byte_length = None,
     fo_sha256 = None, fo_reason = Some reason\<rparr>"

datatype publication_outcome = Created | AlreadyMatches

record file_publication =
  fp_outcome :: publication_outcome
  fp_sha256 :: str
  fp_byte_length :: nat

section \<open>Cursors\<close>

record program_cursor =
  pc_ready :: bool
  pc_id :: uuid

definition program_cursor_parse :: "(str \<Rightarrow> uuid option) \<Rightarrow> str \<Rightarrow> program_cursor result" where
  "program_cursor_parse parse_uuid value =
     andThen (ok_or (split_once CHR '':'' value) InvalidArguments) (\<lambda>(tier, rest).
     andThen (if tier = ''w'' then Ok False else if tier = ''r'' then Ok True
              else Err InvalidArguments) (\<lambda>ready.
     andThen (ok_or (parse_uuid rest) InvalidArguments) (\<lambda>uid.
       if is_nil uid then Err InvalidArguments else Ok \<lparr>pc_ready = ready, pc_id = uid\<rparr>)))"

definition program_cursor_encode :: "(uuid \<Rightarrow> str) \<Rightarrow> program_cursor \<Rightarrow> str" where
  "program_cursor_encode show_uuid c =
     (if pc_ready c then ''r'' else ''w'') @ '':'' @ show_uuid (pc_id c)"

datatype workspace_collection = CandidateSets | NativePlanning

fun collection_name :: "workspace_collection \<Rightarrow> str" where
  "collection_name CandidateSets = ''candidate_sets''"
| "collection_name NativePlanning = ''native_planning''"

record workspace_cursor =
  wc_workspace_id :: uuid
  wc_collection :: workspace_collection
  wc_anchor_id :: uuid

definition workspace_cursor_encode :: "(uuid \<Rightarrow> str) \<Rightarrow> workspace_cursor \<Rightarrow> str" where
  "workspace_cursor_encode show_uuid c =
     ''w:'' @ show_uuid (wc_workspace_id c) @ ''/c:'' @ collection_name (wc_collection c) @
     ''/r:'' @ show_uuid (wc_anchor_id c)"

text \<open>The optional \<open>n\<close>-th piece of a split, with its tag stripped.\<close>

definition tagged_piece :: "str list \<Rightarrow> nat \<Rightarrow> str \<Rightarrow> str option" where
  "tagged_piece parts n tag =
     (if n < length parts then strip_prefix tag (parts ! n) else None)"

definition workspace_cursor_parse ::
  "(str \<Rightarrow> uuid option) \<Rightarrow> (uuid \<Rightarrow> str) \<Rightarrow> str \<Rightarrow> workspace_cursor result" where
  "workspace_cursor_parse parse_uuid show_uuid value =
     (let parts = split_on CHR ''/'' value;
          workspace = tagged_piece parts 0 ''w:'';
          collection = tagged_piece parts 1 ''c:'';
          anchor = tagged_piece parts 2 ''r:''
      in if 3 < length parts then Err InvalidArguments
         else
           andThen (ok_or workspace InvalidArguments) (\<lambda>w.
           andThen (ok_or (parse_uuid w) InvalidArguments) (\<lambda>workspace_id.
           andThen (ok_or anchor InvalidArguments) (\<lambda>a.
           andThen (ok_or (parse_uuid a) InvalidArguments) (\<lambda>anchor_id.
           andThen (if collection = Some ''candidate_sets'' then Ok CandidateSets
                    else if collection = Some ''native_planning'' then Ok NativePlanning
                    else Err InvalidArguments) (\<lambda>coll.
             (let cursor = \<lparr>wc_workspace_id = workspace_id, wc_collection = coll,
                            wc_anchor_id = anchor_id\<rparr>
              in if is_nil workspace_id \<or> is_nil anchor_id \<or>
                    workspace_cursor_encode show_uuid cursor \<noteq> value
                 then Err InvalidArguments else Ok cursor)))))))"

definition workspace_cursor_validate ::
  "workspace_cursor \<Rightarrow> uuid \<Rightarrow> workspace_collection \<Rightarrow> unit result" where
  "workspace_cursor_validate c workspace_id collection =
     (if wc_workspace_id c \<noteq> workspace_id \<or> wc_collection c \<noteq> collection \<or> is_nil (wc_anchor_id c)
      then Err InvalidArguments else Ok ())"

text \<open>\<^verbatim>\<open>workspace_collections.rs\<close> in the application crate: the guard of every page request.\<close>

definition page_cursor ::
  "(str \<Rightarrow> uuid option) \<Rightarrow> (uuid \<Rightarrow> str) \<Rightarrow> str option \<Rightarrow> nat \<Rightarrow> uuid \<Rightarrow> workspace_collection
   \<Rightarrow> workspace_cursor option result" where
  "page_cursor parse_uuid show_uuid after limit workspace_id collection =
     (if \<not> (1 \<le> limit \<and> limit \<le> 25) then Err InvalidArguments
      else case after of
        None \<Rightarrow> Ok None
      | Some text \<Rightarrow>
          andThen (workspace_cursor_parse parse_uuid show_uuid text) (\<lambda>c.
          andThen (workspace_cursor_validate c workspace_id collection) (\<lambda>_. Ok (Some c))))"

section \<open>An instance of the \<^verbatim>\<open>uuid\<close> crate's contract\<close>

text \<open>
  A concrete codec that satisfies \<open>uuid_crate\<close>, used by the witnesses only: 36 hexadecimal
  digits, most significant first.
\<close>

definition hex_digit :: "nat \<Rightarrow> char" where
  "hex_digit n = char_of (if n < 10 then 48 + n else 87 + n)"

definition hex_value :: "char \<Rightarrow> nat" where
  "hex_value c = (if byte c < 58 then byte c - 48 else byte c - 87)"

fun hex_digits :: "nat \<Rightarrow> nat \<Rightarrow> str" where
  "hex_digits 0 n = []"
| "hex_digits (Suc k) n = hex_digits k (n div 16) @ [hex_digit (n mod 16)]"

definition hex_show :: "uuid \<Rightarrow> str" where
  "hex_show u = hex_digits 36 (unat u)"

definition hex_parse :: "str \<Rightarrow> uuid option" where
  "hex_parse s = (if length s = 36 then Some (of_nat (foldl (\<lambda>a c. a * 16 + hex_value c) 0 s)) else None)"

lemma hex_value_digit [simp]: "n < 16 \<Longrightarrow> hex_value (hex_digit n) = n"
  by (simp add: hex_value_def hex_digit_def byte_def)

lemma hex_digit_class: "n < 16 \<Longrightarrow> is_lower_hexdigit (hex_digit n)"
  by (simp add: is_lower_hexdigit_def is_ascii_digit_def hex_digit_def byte_def)

lemma hex_digits_value:
  "n < 16 ^ k \<Longrightarrow> foldl (\<lambda>a c. a * 16 + hex_value c) 0 (hex_digits k n) = n"
  by (induction k arbitrary: n) (simp_all add: less_mult_imp_div_less mult.commute)

lemma hex_digits_props:
  "length (hex_digits k n) = k" "c \<in> set (hex_digits k n) \<Longrightarrow> is_lower_hexdigit c"
  by (induction k arbitrary: n) (auto simp: hex_digit_class)

lemma unat_uuid_bound: "unat (u :: uuid) < 16 ^ 36"
proof -
  have "unat u < 2 ^ LENGTH(128)" by (rule unsigned_less)
  also have "(2::nat) ^ LENGTH(128) \<le> 16 ^ 36" by simp
  finally show ?thesis .
qed

lemma hex_codec: "uuid_crate hex_parse hex_show"
  using hex_digits_value [OF unat_uuid_bound] hex_digits_props
  by (simp add: uuid_crate_def hex_parse_def hex_show_def)

lemma uuid_no_slash: "uuid_crate p s \<Longrightarrow> CHR ''/'' \<notin> set (s u)"
proof
  assume a: "uuid_crate p s" and "CHR ''/'' \<in> set (s u)"
  then have "is_lower_hexdigit CHR ''/'' \<or> CHR ''/'' = CHR ''-''" by (auto simp: uuid_crate_def)
  then show False by (simp add: is_lower_hexdigit_def is_ascii_digit_def byte_def)
qed

lemma uuid_parse_show: "uuid_crate p s \<Longrightarrow> p (s u) = Some u"
  by (simp add: uuid_crate_def)

section \<open>Cursors\<close>

lemma program_cursor_roundtrip:
  assumes "uuid_crate parse_uuid show_uuid" and "\<not> is_nil (pc_id c)"
  shows "program_cursor_parse parse_uuid (program_cursor_encode show_uuid c) = Ok c"
  using assms split_once_append [of "CHR '':''" "''r''"] split_once_append [of "CHR '':''" "''w''"]
  by (cases c) (simp add: program_cursor_parse_def program_cursor_encode_def uuid_parse_show)

lemma collection_name_no_slash: "CHR ''/'' \<notin> set (collection_name k)"
  by (cases k) simp_all

lemma workspace_cursor_split:
  assumes "uuid_crate parse_uuid show_uuid"
  shows "split_on CHR ''/'' (workspace_cursor_encode show_uuid c) =
     [''w:'' @ show_uuid (wc_workspace_id c), ''c:'' @ collection_name (wc_collection c),
      ''r:'' @ show_uuid (wc_anchor_id c)]"
proof -
  note ns = uuid_no_slash [OF assms] collection_name_no_slash
  have "workspace_cursor_encode show_uuid c =
    join_with CHR ''/'' [''w:'' @ show_uuid (wc_workspace_id c),
      ''c:'' @ collection_name (wc_collection c), ''r:'' @ show_uuid (wc_anchor_id c)]"
    by (simp add: workspace_cursor_encode_def)
  then show ?thesis using ns by (simp only:) (subst split_join, auto)
qed

lemma workspace_cursor_roundtrip:
  assumes "uuid_crate parse_uuid show_uuid" and "\<not> is_nil (wc_workspace_id c)" "\<not> is_nil (wc_anchor_id c)"
  shows "workspace_cursor_parse parse_uuid show_uuid (workspace_cursor_encode show_uuid c) = Ok c"
  using assms(2,3)
  by (cases c; cases "wc_collection c")
    (simp_all add: workspace_cursor_parse_def workspace_cursor_split [OF assms(1)] tagged_piece_def
      uuid_parse_show [OF assms(1)] strip_prefix_def)

lemma workspace_cursor_canonical:
  assumes "workspace_cursor_parse parse_uuid show_uuid value = Ok c"
  shows "workspace_cursor_encode show_uuid c = value \<and> \<not> is_nil (wc_workspace_id c) \<and>
         \<not> is_nil (wc_anchor_id c)"
  using assms
  by (auto simp: workspace_cursor_parse_def Let_def andThen_Inr ok_or_Inr split: if_splits)

section \<open>Paths\<close>

text \<open>The components of an absolute path.\<close>

definition components :: "str \<Rightarrow> str list" where
  "components path = (if path = ''/'' then [] else split_on CHR ''/'' (tl path))"

definition plain_component :: "str \<Rightarrow> bool" where
  "plain_component p \<longleftrightarrow> p \<noteq> [] \<and> p \<noteq> ''.'' \<and> p \<noteq> ''..'' \<and> CHR ''/'' \<notin> set p \<and> CHR 0x00 \<notin> set p"

definition render_path :: "str list \<Rightarrow> str" where
  "render_path ps = CHR ''/'' # join_with CHR ''/'' ps"

lemma set_join: "set (join_with c ps) = (\<Union>p\<in>set ps. set p) \<union> (if length ps \<le> 1 then {} else {c})"
  by (induction c ps rule: join_with.induct) auto

lemma setup_path_components:
  assumes "is_ok (validate_setup_path path)"
  shows "list_all plain_component (components path)" and "path = render_path (components path)"
proof -
  from assms have p: "path \<noteq> []" "prefix ''/'' path" "\<not> has_nul path"
    "path = ''/'' \<or> \<not> list_ex (\<lambda>part. part = [] \<or> part = ''.'' \<or> part = ''..'') (split_on CHR ''/'' (tl path))"
    by (auto simp: validate_setup_path_def split: if_splits)
  then obtain r where r: "path = CHR ''/'' # r" by (auto simp: prefix_def)
  show "path = render_path (components path)"
    using r by (auto simp: render_path_def components_def)
  have nul: "CHR 0x00 \<notin> set p" if "p \<in> set (split_on CHR ''/'' r)" for p
  proof -
    have "set p \<subseteq> set (join_with CHR ''/'' (split_on CHR ''/'' r))"
      using that by (subst set_join) auto
    then show ?thesis using p(3) r by (auto simp: has_nul_def)
  qed
  show "list_all plain_component (components path)"
    using p(4) r nul
    by (auto simp: components_def list_all_iff list_ex_iff plain_component_def
        dest: split_pieces_no_sep)
qed

lemma join_ne: "ps \<noteq> [] \<Longrightarrow> hd ps \<noteq> [] \<Longrightarrow> join_with c ps \<noteq> []"
  by (cases "(c, ps)" rule: join_with.cases) auto

lemma components_render:
  assumes "list_all plain_component ps"
  shows "components (render_path ps) = ps"
proof (cases "ps = []")
  case True
  then show ?thesis by (simp add: components_def render_path_def)
next
  case False
  then have "hd ps \<noteq> []" using assms by (cases ps) (auto simp: plain_component_def)
  with False have "join_with CHR ''/'' ps \<noteq> []" by (rule join_ne)
  moreover have "split_on CHR ''/'' (join_with CHR ''/'' ps) = ps"
    using False assms by (intro split_join) (auto simp: plain_component_def list_all_iff)
  ultimately show ?thesis by (simp add: components_def render_path_def)
qed

lemma join_append:
  "ps \<noteq> [] \<Longrightarrow> qs \<noteq> [] \<Longrightarrow> join_with c (ps @ qs) = join_with c ps @ c # join_with c qs"
proof (induction c ps rule: join_with.induct)
  case (2 c p)
  then show ?case by (cases qs) auto
qed auto

lemma valid_path_ok: "is_ok (validate_setup_path p) \<Longrightarrow> components p = [] \<longleftrightarrow> p = ''/''"
  by (auto simp: components_def)

text \<open>On valid paths, the byte-level test is containment of the component lists.\<close>

lemma granted_iff_components:
  assumes p: "is_ok (validate_setup_path path)" and r: "is_ok (validate_setup_path root)"
  shows "(root = ''/'' \<or> path = root \<or>
          (case strip_prefix root path of None \<Rightarrow> False | Some rest \<Rightarrow> prefix ''/'' rest))
         \<longleftrightarrow> prefix (components root) (components path)" (is "?L \<longleftrightarrow> ?R")
proof
  assume ?R
  then obtain qs where qs: "components path = components root @ qs" by (auto simp: prefix_def)
  note paths = setup_path_components(2) [OF p] setup_path_components(2) [OF r]
  show ?L
  proof (cases "components root = [] \<or> qs = []")
    case True
    with qs paths valid_path_ok [OF r] show ?thesis by auto
  next
    case False
    then have "path = root @ CHR ''/'' # join_with CHR ''/'' qs"
      using paths qs by (metis join_append append_Cons render_path_def)
    then show ?thesis by simp
  qed
next
  assume L: ?L
  show ?R
  proof (cases "root = ''/'' \<or> path = root")
    case True
    then show ?thesis by (auto simp: components_def)
  next
    case False
    with L obtain rest where rest: "path = root @ CHR ''/'' # rest"
      by (auto simp: strip_prefix_Some prefix_def split: option.splits)
    define cr where "cr = components root"
    have cr: "list_all plain_component cr" "root = render_path cr"
      using setup_path_components [OF r] by (simp_all add: cr_def)
    have "cr \<noteq> []" using False cr(2) by (auto simp: render_path_def)
    then have "path = render_path (cr @ split_on CHR ''/'' rest)"
      using rest cr(2) by (simp add: render_path_def join_append)
    then have "components path = split_on CHR ''/'' (join_with CHR ''/'' (cr @ split_on CHR ''/'' rest))"
      using \<open>cr \<noteq> []\<close> rest cr(2) by (auto simp: components_def render_path_def)
    also have "\<dots> = cr @ split_on CHR ''/'' rest"
      using cr(1) \<open>cr \<noteq> []\<close>
      by (intro split_join) (auto simp: plain_component_def list_all_iff dest: split_pieces_no_sep)
    finally show ?thesis by (simp add: cr_def)
  qed
qed

section \<open>Keys and selections\<close>

text \<open>A workspace key is one plain path component: it can name no parent and no nested path.\<close>

lemma special_chars [simp]:
  "\<not> is_ascii_alphanumeric CHR ''.''" "\<not> key_char CHR ''/''" "\<not> key_char CHR 0x00"
  by (simp_all add: key_char_def is_ascii_alphanumeric_def is_ascii_digit_def byte_def)

lemma workspace_key_plain:
  assumes "validate_workspace_key key = Ok ()"
  shows "plain_component key \<and> length key \<le> 128"
proof -
  from assms obtain k ks where k: "key = k # ks" "is_ascii_alphanumeric k" "list_all key_char key"
    "length key \<le> 128"
    by (cases key) (auto simp: validate_workspace_key_def split: if_splits)
  then have "k \<noteq> CHR ''.''" by auto
  moreover have "CHR ''/'' \<notin> set key" "CHR 0x00 \<notin> set key"
    using k(3) by (auto simp only: list_all_iff special_chars)
  ultimately show ?thesis using k(1,4) by (simp add: plain_component_def)
qed

lemma validate_selection_iff:
  "validate_selection ids = Ok () \<longleftrightarrow> length ids \<le> 100 \<and> 0 \<notin> set ids \<and> distinct ids"
  by (auto simp: validate_selection_def MAX_WORKTREES_def list_ex_iff)

lemma validate_context_Ok:
  "validate_context parse_uuid show_uuid ctx = Ok () \<longleftrightarrow>
     validate_native_id parse_uuid show_uuid (rc_native_session_id ctx) = Ok () \<and>
     validate_workspace_key (rc_workspace_key ctx) = Ok () \<and>
     \<not> is_nil (ha_host_id (rc_auth ctx)) \<and> length (ha_credential (rc_auth ctx)) = 64 \<and>
     list_all is_ascii_hexdigit (ha_credential (rc_auth ctx))"
  by (auto simp: validate_context_def check_simps simp del: checks.simps)

section \<open>Properties\<close>

text \<open>
  The lexical grant test on a setup path is containment of paths: it holds exactly when the
  path is a valid absolute path and the component list of some valid granted root is a prefix of its
  own, and then no component is empty, \<open>.\<close> or \<open>..\<close>. A textual prefix that ends inside a
  component (\<open>/srv/app\<close> against \<open>/srv/application\<close>) grants nothing.
\<close>

theorem setup_grant_is_containment:
  "setup_path_is_granted path roots \<longleftrightarrow>
     is_ok (validate_setup_path path) \<and> list_all plain_component (components path) \<and>
     (\<exists>root\<in>set roots. is_ok (validate_setup_path root) \<and>
        prefix (components root) (components path))"
proof -
  have "setup_path_is_granted path roots \<longleftrightarrow> is_ok (validate_setup_path path) \<and>
     (\<exists>root\<in>set roots. is_ok (validate_setup_path root) \<and>
        prefix (components root) (components path))"
    using granted_iff_components [of path] unfolding setup_path_is_granted_def list_ex_iff by blast
  then show ?thesis using setup_path_components(1) by blast
qed

text \<open>
  The text of a workspace collection cursor is canonical: given the \<^verbatim>\<open>uuid\<close> crate's contract,
  a text parses to a cursor exactly when it is the cursor's own encoding and both identifiers are
  non-nil. So distinct texts never name the same page, and a cursor that was handed out always
  parses back.
\<close>

theorem workspace_cursor_parse_iff:
  assumes "uuid_crate parse_uuid show_uuid"
  shows "workspace_cursor_parse parse_uuid show_uuid value = Ok c \<longleftrightarrow>
     value = workspace_cursor_encode show_uuid c \<and> \<not> is_nil (wc_workspace_id c) \<and>
     \<not> is_nil (wc_anchor_id c)"
  using workspace_cursor_roundtrip [OF assms, of c] workspace_cursor_canonical [of _ _ "value" c]
  by auto

theorem workspace_cursor_parse_iff_witness:
  "workspace_cursor_parse hex_parse hex_show (workspace_cursor_encode hex_show
     \<lparr>wc_workspace_id = 1, wc_collection = CandidateSets, wc_anchor_id = 2\<rparr>) =
   Ok \<lparr>wc_workspace_id = 1, wc_collection = CandidateSets, wc_anchor_id = 2\<rparr>"
  by (simp add: workspace_cursor_parse_iff [OF hex_codec])

text \<open>
  A page request that passes the cursor guard asks for 1 to 25 items, and a continuation it
  accepts was issued for this very workspace and collection.
\<close>

theorem page_cursor_bound:
  assumes "uuid_crate parse_uuid show_uuid"
    and "page_cursor parse_uuid show_uuid after limit workspace_id collection = Ok cursor"
  shows "1 \<le> limit \<and> limit \<le> 25 \<and> (cursor = None \<longleftrightarrow> after = None) \<and>
     (\<forall>c. cursor = Some c \<longrightarrow> wc_workspace_id c = workspace_id \<and> wc_collection c = collection \<and>
        after = Some (workspace_cursor_encode show_uuid c))"
proof (cases after)
  case None
  with assms(2) show ?thesis by (auto simp: page_cursor_def split: if_splits)
next
  case (Some t)
  with assms(2) obtain c where c: "workspace_cursor_parse parse_uuid show_uuid t = Ok c"
    "workspace_cursor_validate c workspace_id collection = Ok ()" "cursor = Some c"
    "1 \<le> limit" "limit \<le> 25"
    by (auto simp: page_cursor_def andThen_Inr split: if_splits)
  from c(2) have "wc_workspace_id c = workspace_id" "wc_collection c = collection"
    by (auto simp: workspace_cursor_validate_def split: if_splits)
  with c Some workspace_cursor_canonical [OF c(1)] show ?thesis by simp
qed

theorem page_cursor_bound_witness:
  "let c = \<lparr>wc_workspace_id = 1, wc_collection = NativePlanning, wc_anchor_id = 2\<rparr> in
   page_cursor hex_parse hex_show (Some (workspace_cursor_encode hex_show c)) 25 1 NativePlanning
     = Ok (Some c) \<and> (1::nat) \<le> 25 \<and> (25::nat) \<le> 25"
proof (unfold Let_def)
  let ?c = "\<lparr>wc_workspace_id = 1, wc_collection = NativePlanning, wc_anchor_id = 2\<rparr>"
  have "page_cursor hex_parse hex_show (Some (workspace_cursor_encode hex_show ?c)) 25 1 NativePlanning
     = Ok (Some ?c)"
    using workspace_cursor_roundtrip [OF hex_codec, of ?c]
    by (simp add: page_cursor_def workspace_cursor_validate_def)
  from conjI [OF this page_cursor_bound [OF hex_codec this]]
  show "page_cursor hex_parse hex_show (Some (workspace_cursor_encode hex_show ?c)) 25 1 NativePlanning
     = Ok (Some ?c) \<and> (1::nat) \<le> 25 \<and> (25::nat) \<le> 25" by blast
qed

end
