(* ===== verification/KnowledgeTime.thy ===== *)
theory KnowledgeTime
  imports Errors
begin

text \<open>
  \<^verbatim>\<open>crates/domain/src/knowledge_time.rs\<close>: the strict RFC 3339 parser that validates and orders the
  timestamps of durable knowledge. \<^verbatim>\<open>u32\<close> values are 32-bit words, so a wrap-around would show; the
  day count is an \<^verbatim>\<open>i64\<close> computed from years 1 to 9999, far from its bounds, and is an \<open>int\<close>.
\<close>

type_synonym u32 = "32 word"

section \<open>Digits\<close>

text \<open>\<^verbatim>\<open>value.iter().try_fold(0, ...)\<close>, with the arithmetic of a release build.\<close>

fun digits_from :: "u32 \<Rightarrow> str \<Rightarrow> u32 option" where
  "digits_from number [] = Some number"
| "digits_from number (c # s) =
     (if is_ascii_digit c then digits_from (number * 10 + of_nat (byte c - 48)) s else None)"

definition digits :: "str \<Rightarrow> u32 option" where
  "digits s = digits_from 0 s"

text \<open>
  The same loop where arithmetic overflow is checked (a debug build). \<^verbatim>\<open>bool::then_some\<close> takes its
  argument by value, so \<^verbatim>\<open>byte - b'0'\<close> is computed before the digit test decides anything.
  The outer \<open>None\<close> is a panic.
\<close>

definition checked_digit_step :: "nat \<Rightarrow> char \<Rightarrow> nat option" where
  "checked_digit_step number c =
     (if byte c < 48 then None
      else if number * 10 + (byte c - 48) < 2 ^ 32 then Some (number * 10 + (byte c - 48)) else None)"

fun digits_checked_from :: "nat \<Rightarrow> str \<Rightarrow> nat option option" where
  "digits_checked_from number [] = Some (Some number)"
| "digits_checked_from number (c # s) =
     (case checked_digit_step number c of
        None \<Rightarrow> None
      | Some n \<Rightarrow> if is_ascii_digit c then digits_checked_from n s else Some None)"

definition digits_checked :: "str \<Rightarrow> nat option option" where
  "digits_checked s = digits_checked_from 0 s"

section \<open>Calendar\<close>

definition leap :: "u32 \<Rightarrow> bool" where
  "leap year \<longleftrightarrow> (year mod 4 = 0 \<and> year mod 100 \<noteq> 0) \<or> year mod 400 = 0"

definition days_in_month :: "u32 \<Rightarrow> u32 \<Rightarrow> u32" where
  "days_in_month year month =
     (if month \<in> {1, 3, 5, 7, 8, 10, 12} then 31
      else if month \<in> {4, 6, 9, 11} then 30
      else if month = 2 \<and> leap year then 29
      else if month = 2 then 28
      else 0)"

text \<open>Rust's signed division truncates towards zero.\<close>

definition tdiv :: "int \<Rightarrow> int \<Rightarrow> int" where
  "tdiv a b = sgn a * sgn b * (\<bar>a\<bar> div \<bar>b\<bar>)"

definition days_from_civil :: "int \<Rightarrow> int \<Rightarrow> int \<Rightarrow> int" where
  "days_from_civil year0 month day =
     (let year = year0 - (if month \<le> 2 then 1 else 0);
          era = tdiv (if year \<ge> 0 then year else year - 399) 400;
          year_of_era = year - era * 400;
          adjusted_month = month + (if month > 2 then -3 else 9);
          day_of_year = tdiv (153 * adjusted_month + 2) 5 + day - 1;
          day_of_era = year_of_era * 365 + tdiv year_of_era 4 - tdiv year_of_era 100 + day_of_year
      in era * 146097 + day_of_era - 719468)"

section \<open>Parsing\<close>

text \<open>\<^verbatim>\<open>bytes.get(a..b)\<close> and \<^verbatim>\<open>rposition\<close>\<close>

definition slice :: "str \<Rightarrow> nat \<Rightarrow> nat \<Rightarrow> str option" where
  "slice s a b = (if a \<le> b \<and> b \<le> length s then Some (take (b - a) (drop a s)) else None)"

definition byte_at :: "str \<Rightarrow> nat \<Rightarrow> char option" where
  "byte_at s i = (if i < length s then Some (s ! i) else None)"

definition rposition :: "('a \<Rightarrow> bool) \<Rightarrow> 'a list \<Rightarrow> nat option" where
  "rposition p xs = map_option (\<lambda>i. length xs - 1 - i) (position p (rev xs))"

definition digits_at :: "str \<Rightarrow> nat \<Rightarrow> nat \<Rightarrow> u32 option" where
  "digits_at s a b = Option.bind (slice s a b) digits"

definition ends_in_z :: "str \<Rightarrow> bool" where
  "ends_in_z s \<longleftrightarrow> s \<noteq> [] \<and> (last s = CHR ''Z'' \<or> last s = CHR ''z'')"

definition parse_fraction :: "str \<Rightarrow> u32 option" where
  "parse_fraction fraction =
     (if fraction = [] then Some 0
      else if fraction ! 0 \<noteq> CHR ''.'' \<or> length fraction = 1 \<or> 10 < length fraction \<or>
              \<not> list_all is_ascii_digit (tl fraction)
      then None
      else map_option (\<lambda>number. number * 10 ^ (10 - length fraction)) (digits (tl fraction)))"

definition parse_offset :: "str \<Rightarrow> nat \<Rightarrow> int option" where
  "parse_offset s zone_start =
     (if ends_in_z s
      then (if zone_start + 1 \<noteq> length s then None else Some 0)
      else
        Option.bind (slice s zone_start (length s)) (\<lambda>zone.
          if length zone \<noteq> 6 \<or> zone ! 3 \<noteq> CHR '':'' then None
          else Option.bind (digits_at zone 1 3) (\<lambda>hours.
               Option.bind (digits_at zone 4 6) (\<lambda>minutes.
                 if 23 < hours \<or> 59 < minutes then None
                 else (let seconds = uint (hours * 3600 + minutes * 60)
                       in Some (if zone ! 0 = CHR ''-'' then - seconds else seconds))))))"

definition valid_shape :: "str \<Rightarrow> bool" where
  "valid_shape s \<longleftrightarrow> 20 \<le> length s \<and>
     byte_at s 4 = Some CHR ''-'' \<and> byte_at s 7 = Some CHR ''-'' \<and>
     (byte_at s 10 = Some CHR ''T'' \<or> byte_at s 10 = Some CHR ''t'') \<and>
     byte_at s 13 = Some CHR '':'' \<and> byte_at s 16 = Some CHR '':''"

definition zone_start_of :: "str \<Rightarrow> nat option" where
  "zone_start_of s =
     (if ends_in_z s then Some (length s - 1)
      else rposition (\<lambda>c. c = CHR ''+'' \<or> c = CHR ''-'') s)"

definition parse_rfc3339 :: "str \<Rightarrow> (int \<times> u32) option" where
  "parse_rfc3339 s =
     (if \<not> valid_shape s then None else
      Option.bind (digits_at s 0 4) (\<lambda>year.
      Option.bind (digits_at s 5 7) (\<lambda>month.
      Option.bind (digits_at s 8 10) (\<lambda>day.
      Option.bind (digits_at s 11 13) (\<lambda>hour.
      Option.bind (digits_at s 14 16) (\<lambda>minute.
      Option.bind (digits_at s 17 19) (\<lambda>second.
        if year = 0 \<or> \<not> (1 \<le> month \<and> month \<le> 12) \<or> day = 0 \<or> days_in_month year month < day \<or>
           23 < hour \<or> 59 < minute \<or> 59 < second
        then None else
        Option.bind (zone_start_of s) (\<lambda>zone_start.
          if zone_start < 19 then None else
          Option.bind (slice s 19 zone_start) (\<lambda>fraction.
          Option.bind (parse_fraction fraction) (\<lambda>nanos.
          Option.bind (parse_offset s zone_start) (\<lambda>offset.
            (let local = days_from_civil (uint year) (uint month) (uint day) * 86400
                         + uint (hour * 3600 + minute * 60 + second)
             in Some (local - offset, nanos)))))))))))))"

section \<open>Digits\<close>

definition dec_value :: "str \<Rightarrow> nat" where
  "dec_value s = foldl (\<lambda>a c. a * 10 + (byte c - 48)) 0 s"

lemma digits_from_Some_digits: "digits_from n s = Some w \<Longrightarrow> list_all is_ascii_digit s"
  by (induction s arbitrary: n) (auto split: if_splits)

lemma digits_from_unat:
  assumes "list_all is_ascii_digit s" and "unat n < 10 ^ k" and "k + length s \<le> 9"
  shows "\<exists>w. digits_from n s = Some w \<and> unat w = foldl (\<lambda>a c. a * 10 + (byte c - 48)) (unat n) s
             \<and> unat w < 10 ^ (k + length s)"
  using assms
proof (induction s arbitrary: n k)
  case Nil
  then show ?case by simp
next
  case (Cons c s)
  let ?n = "n * 10 + of_nat (byte c - 48) :: u32"
  have "byte c \<le> 57" using Cons.prems(1) by (simp add: is_ascii_digit_def)
  then have d: "byte c - 48 \<le> 9" by linarith
  have "k \<le> 8" using Cons.prems(3) by simp
  then have "(10::nat) ^ k \<le> 10 ^ 8" by (rule power_increasing) simp
  then have "unat n < 10 ^ 8" using Cons.prems(2) by linarith
  then have big: "unat n * 10 + (byte c - 48) < 2 ^ LENGTH(32)" using d by simp
  have u: "unat ?n = unat n * 10 + (byte c - 48)"
    using big d by (simp add: unat_word_ariths unat_of_nat)
  have lt: "unat ?n < 10 ^ Suc k" using u d Cons.prems(2) by simp
  obtain w where "digits_from ?n s = Some w"
    "unat w = foldl (\<lambda>a c. a * 10 + (byte c - 48)) (unat ?n) s" "unat w < 10 ^ (Suc k + length s)"
    using Cons.IH [OF _ lt] Cons.prems(1,3) by auto
  with u Cons.prems(1) show ?case by simp
qed

text \<open>Up to nine digits, no step of the accumulation wraps around.\<close>

lemma digits_value:
  assumes "digits s = Some w" and "length s \<le> 9"
  shows "unat w = dec_value s \<and> unat w < 10 ^ length s"
proof -
  have "list_all is_ascii_digit s" using assms(1) by (auto simp: digits_def dest: digits_from_Some_digits)
  from digits_from_unat [OF this, of 0 0] assms show ?thesis
    by (auto simp: digits_def dec_value_def)
qed

section \<open>Calendar\<close>

definition leap_year :: "int \<Rightarrow> bool" where
  "leap_year y \<longleftrightarrow> (y mod 4 = 0 \<and> y mod 100 \<noteq> 0) \<or> y mod 400 = 0"

definition month_length :: "int \<Rightarrow> int \<Rightarrow> int" where
  "month_length y m =
     (if m \<in> {4, 6, 9, 11} then 30 else if m = 2 then (if leap_year y then 29 else 28) else 31)"

lemma leap_uint: "leap w \<longleftrightarrow> leap_year (uint w)"
  by (simp add: leap_def leap_year_def word_uint_eq_iff uint_mod)

lemma month_cases:
  assumes "1 \<le> u \<and> u \<le> (12::nat)"
  shows "u \<in> {1, 2, 3, 4, 5, 6, 7, 8, 9, 10, 11, 12}"
proof -
  have "u \<in> set [1..<13]" using assms by simp
  also have "[1..<13] = [1, 2, 3, 4, 5, 6, 7, 8, 9, 10, 11, 12::nat]" by (simp add: upt_rec)
  finally show ?thesis by simp
qed

lemma days_in_month_uint:
  assumes "1 \<le> m" "m \<le> 12"
  shows "uint (days_in_month y m) = month_length (uint y) (uint m)"
proof -
  define u where "u = unat m"
  have "1 \<le> u \<and> u \<le> 12" using assms by (simp add: u_def word_le_nat_alt)
  then have "u \<in> {1, 2, 3, 4, 5, 6, 7, 8, 9, 10, 11, 12}" by (rule month_cases)
  then have "m \<in> {1, 2, 3, 4, 5, 6, 7, 8, 9, 10, 11, 12}"
    by (auto simp: u_def word_unat_eq_iff)
  then show ?thesis by (auto simp: days_in_month_def month_length_def leap_uint)
qed

text \<open>The closed form for years from 1 on: days before the year, plus the day within it.\<close>

definition year_days :: "int \<Rightarrow> int" where
  "year_days y = 365 * y + y div 4 - y div 100 + y div 400"

lemma tdiv_pos [simp]: "0 \<le> a \<Longrightarrow> 0 < b \<Longrightarrow> tdiv a b = a div b"
  by (cases "a = 0") (simp_all add: tdiv_def)

lemma year_days_split:
  "year_days y = (y div 400) * 146097 + (y mod 400) * 365 + (y mod 400) div 4 - (y mod 400) div 100"
proof -
  define e r where "e = y div 400" and "r = y mod 400"
  have y: "y = e * 400 + r" by (simp add: e_def r_def)
  have r: "0 \<le> r" "r < 400" by (simp_all add: r_def)
  have "(r + e * 100 * 4) div 4 = e * 100 + r div 4" "(r + e * 4 * 100) div 100 = e * 4 + r div 100"
    "(r + e * 400) div 400 = e"
    using r by (simp_all only: div_mult_self1 div_pos_pos_trivial zero_neq_numeral not_False_eq_True
        simp_thms add_0_right)
  then have "(e * 400 + r) div 4 = e * 100 + r div 4" "(e * 400 + r) div 100 = e * 4 + r div 100"
    "(e * 400 + r) div 400 = e" by (simp_all add: add.commute mult.assoc)
  then have "year_days (e * 400 + r) =
      365 * (e * 400 + r) + (e * 100 + r div 4) - (e * 4 + r div 100) + e"
    by (simp only: year_days_def)
  also have "\<dots> = e * 146097 + r * 365 + p - q" if "p = r div 4" "q = r div 100" for p q
    unfolding that [symmetric] by simp
  finally have "year_days (e * 400 + r) = e * 146097 + r * 365 + r div 4 - r div 100" by blast
  then show ?thesis unfolding y [symmetric] unfolding e_def r_def .
qed

lemma days_from_civil_closed:
  assumes "1 \<le> y" "1 \<le> m" "m \<le> 12"
  shows "days_from_civil y m d =
     (if m \<le> 2 then year_days (y - 1) + (153 * (m + 9) + 2) div 5
      else year_days y + (153 * (m - 3) + 2) div 5) + d - 719469"
proof -
  have core: "tdiv (if 0 \<le> z then z else z - 399) 400 * 146097 +
      ((z - tdiv (if 0 \<le> z then z else z - 399) 400 * 400) * 365 +
       tdiv (z - tdiv (if 0 \<le> z then z else z - 399) 400 * 400) 4 -
       tdiv (z - tdiv (if 0 \<le> z then z else z - 399) 400 * 400) 100 + q) = year_days z + q"
    if z: "0 \<le> z" for z q :: int
  proof -
    have "z - z div 400 * 400 = z mod 400" by (simp add: minus_div_mult_eq_mod)
    with z year_days_split [of z] show ?thesis by simp
  qed
  have doy: "tdiv (153 * (m + 9) + 2) 5 = (153 * (m + 9) + 2) div 5"
    "2 < m \<Longrightarrow> tdiv (153 * (m - 3) + 2) 5 = (153 * (m - 3) + 2) div 5"
    using assms(2) by simp_all
  show ?thesis
  proof (cases "m \<le> 2")
    case True
    with assms doy(1) core [of "y - 1" "(153 * (m + 9) + 2) div 5 + d - 1"] show ?thesis
      by (simp add: days_from_civil_def Let_def del: tdiv_pos)
  next
    case False
    with assms doy(2) core [of y "(153 * (m - 3) + 2) div 5 + d - 1"] show ?thesis
      by (simp add: days_from_civil_def Let_def del: tdiv_pos)
  qed
qed

lemma div_mod_step:
  fixes k n :: int
  assumes "0 < n"
  shows "(k + 1) div n = (if k mod n = n - 1 then k div n + 1 else k div n)"
    and "(k + 1) mod n = (if k mod n = n - 1 then 0 else k mod n + 1)"
proof -
  define q r where "q = k div n" and "r = k mod n"
  have k: "k = n * q + r" "0 \<le> r" "r < n" using assms by (simp_all add: q_def r_def)
  have "(k + 1) div n = q + 1 \<and> (k + 1) mod n = 0" if "r = n - 1"
    using k(1) that assms int_div_pos_eq [of "k + 1" n "q + 1" 0] int_mod_pos_eq [of "k + 1" n "q + 1" 0]
    by (simp add: algebra_simps)
  moreover have "(k + 1) div n = q \<and> (k + 1) mod n = r + 1" if "r \<noteq> n - 1"
    using k that int_div_pos_eq [of "k + 1" n q "r + 1"] int_mod_pos_eq [of "k + 1" n q "r + 1"] by simp
  ultimately show "(k + 1) div n = (if k mod n = n - 1 then k div n + 1 else k div n)"
    and "(k + 1) mod n = (if k mod n = n - 1 then 0 else k mod n + 1)"
    unfolding q_def r_def by simp_all
qed

lemma div_step:
  fixes y n :: int
  assumes "1 < n"
  shows "y div n = (y - 1) div n + (if y mod n = 0 then 1 else 0)"
proof (cases "(y - 1) mod n = n - 1")
  case True
  with div_mod_step [of n "y - 1"] assms show ?thesis by simp
next
  case False
  with div_mod_step [of n "y - 1"] assms have "y div n = (y - 1) div n" "y mod n = (y - 1) mod n + 1"
    by simp_all
  moreover have "0 \<le> (y - 1) mod n" using assms by (intro pos_mod_sign) simp
  ultimately have "y mod n \<noteq> 0" "y div n = (y - 1) div n" by linarith+
  then show ?thesis by (simp only: if_False simp_thms add_0_right)
qed

lemma year_days_Suc: "year_days y = year_days (y - 1) + 365 + (if leap_year y then 1 else 0)"
proof -
  have m: "y mod 400 mod 100 = y mod 100" "y mod 100 mod 4 = y mod 4"
    by (rule mod_mod_cancel, simp)+
  let ?a = "if y mod 4 = 0 then 1 else 0 :: int" and ?b = "if y mod 100 = 0 then 1 else 0 :: int"
    and ?c = "if y mod 400 = 0 then 1 else 0 :: int"
  have gen: "365 * y + p - q + r = 365 * (y - 1) + p' - q' + r' + 365 + (a - b + c)"
    if "p = p' + a" "q = q' + b" "r = r' + c" for p q r p' q' r' a b c :: int
    using that by simp
  have gen2: "(if P then 1 else 0) - (if Q then 1 else 0) + (if R then 1 else 0)
      = (if (P \<and> \<not> Q) \<or> R then 1 else (0::int))" if "R \<Longrightarrow> Q" "Q \<Longrightarrow> P" for P Q R
    using that by auto
  have "year_days y = year_days (y - 1) + 365 + (?a - ?b + ?c)"
    unfolding year_days_def by (rule gen; rule div_step; simp)
  moreover have "?a - ?b + ?c = (if leap_year y then 1 else 0)"
    unfolding leap_year_def by (rule gen2) (metis m mod_0)+
  ultimately show ?thesis by simp
qed

text \<open>Consecutive months are exactly one month length apart, year ends included.\<close>

lemma month_step:
  assumes "1 \<le> y" "1 \<le> m" "m < 12"
  shows "days_from_civil y (m + 1) 1 = days_from_civil y m 1 + month_length y m"
proof -
  have "nat m \<in> {1, 2, 3, 4, 5, 6, 7, 8, 9, 10, 11, 12}"
    using assms(2,3) by (intro month_cases) linarith
  then have *: "m = 1 \<or> m = 2 \<or> m = 3 \<or> m = 4 \<or> m = 5 \<or> m = 6 \<or> m = 7 \<or> m = 8 \<or> m = 9 \<or> m = 10 \<or> m = 11"
    using assms(2,3) by (auto simp: nat_eq_iff)
  show ?thesis
  proof (cases "m = 2")
    case True
    with assms(1) year_days_Suc [of y] show ?thesis
      by (simp add: days_from_civil_closed month_length_def)
  next
    case False
    with * assms(1) show ?thesis
      by (elim disjE) (simp_all add: days_from_civil_closed month_length_def)
  qed
qed

lemma year_step:
  assumes "1 \<le> y"
  shows "days_from_civil (y + 1) 1 1 = days_from_civil y 12 1 + month_length y 12"
  using assms by (simp add: days_from_civil_closed month_length_def)

lemma days_linear: "1 \<le> y \<Longrightarrow> 1 \<le> m \<Longrightarrow> m \<le> 12 \<Longrightarrow>
  days_from_civil y m d = days_from_civil y m 1 + d - 1"
  by (simp add: days_from_civil_closed)

definition valid_date :: "int \<Rightarrow> int \<Rightarrow> int \<Rightarrow> bool" where
  "valid_date y m d \<longleftrightarrow> 1 \<le> y \<and> 1 \<le> m \<and> m \<le> 12 \<and> 1 \<le> d \<and> d \<le> month_length y m"

definition next_date :: "int \<Rightarrow> int \<Rightarrow> int \<Rightarrow> int \<times> int \<times> int" where
  "next_date y m d =
     (if d < month_length y m then (y, m, d + 1)
      else if m < 12 then (y, m + 1, 1) else (y + 1, 1, 1))"

lemma next_date_days:
  assumes "valid_date y m d" and "next_date y m d = (y', m', d')"
  shows "days_from_civil y' m' d' = days_from_civil y m d + 1"
  using assms month_step [of y m] year_step [of y] days_linear [of y m d] days_linear [of y m "d + 1"]
  by (cases "m = 12") (auto simp: next_date_def valid_date_def split: if_splits)

lemma epoch_day: "days_from_civil 1970 1 1 = 0"
  by (simp add: days_from_civil_closed year_days_def)

text \<open>Month starts, indexed by the month count \<open>12 y + m - 1\<close>.\<close>

definition month_start :: "int \<Rightarrow> int" where
  "month_start k = days_from_civil (k div 12) (k mod 12 + 1) 1"

lemma month_start_step:
  assumes "12 \<le> k"
  shows "month_start (k + 1) = month_start k + month_length (k div 12) (k mod 12 + 1)"
proof (cases "k mod 12 = 11")
  case True
  then have "(k + 1) div 12 = k div 12 + 1" "(k + 1) mod 12 = 0"
    using div_mod_step [of 12 k] by simp_all
  moreover have "1 \<le> k div 12" using zdiv_mono1 [OF assms, of 12] by simp
  ultimately show ?thesis using year_step [of "k div 12"]
    unfolding month_start_def by (simp only: True add_0_left) simp
next
  case False
  then have "(k + 1) div 12 = k div 12" "(k + 1) mod 12 = k mod 12 + 1"
    using div_mod_step [of 12 k] by simp_all
  moreover have "1 \<le> k div 12" using zdiv_mono1 [OF assms, of 12] by simp
  moreover have "0 \<le> k mod 12" "k mod 12 + 1 < 12"
    using False pos_mod_bound [of 12 k] by simp_all
  ultimately show ?thesis using month_step [of "k div 12" "k mod 12 + 1"]
    unfolding month_start_def by (simp only:)
qed

lemma month_start_later:
  assumes "12 \<le> k"
  shows "month_start k + month_length (k div 12) (k mod 12 + 1) \<le> month_start (k + 1 + int n)"
proof (induction n)
  case 0
  then show ?case using month_start_step [OF assms] by simp
next
  case (Suc n)
  have nn: "0 \<le> month_length a b" for a b by (simp add: month_length_def)
  have "month_start (k + 1 + int n) \<le> month_start (k + 1 + int n + 1)"
    using month_start_step [of "k + 1 + int n"] assms nn by simp
  moreover have "k + 1 + int (Suc n) = k + 1 + int n + 1" by simp
  ultimately show ?case using Suc by (simp only:)
qed

lemma month_index:
  fixes m y :: int
  assumes "1 \<le> m" "m \<le> 12"
  shows "(12 * y + (m - 1)) div 12 = y" "(12 * y + (m - 1)) mod 12 = m - 1"
  using assms int_div_pos_eq [of "12 * y + (m - 1)" 12 y "m - 1"]
    int_mod_pos_eq [of "12 * y + (m - 1)" 12 y "m - 1"] by simp_all

lemma days_strict_mono:
  assumes "valid_date y m d" "valid_date y' m' d'"
    and "y < y' \<or> (y = y' \<and> (m < m' \<or> (m = m' \<and> d < d')))"
  shows "days_from_civil y m d < days_from_civil y' m' d'"
proof -
  let ?k = "12 * y + (m - 1)" and ?k' = "12 * y' + (m' - 1)"
  have v: "1 \<le> y" "1 \<le> m" "m \<le> 12" "d \<le> month_length y m" "1 \<le> y'" "1 \<le> m'" "m' \<le> 12" "1 \<le> d'"
    using assms(1,2) by (auto simp: valid_date_def)
  have lin: "days_from_civil y m d = month_start ?k + d - 1"
    "days_from_civil y' m' d' = month_start ?k' + d' - 1"
    using v month_index [of m y] month_index [of m' y'] days_linear [of y m d] days_linear [of y' m' d']
    by (simp_all add: month_start_def)
  consider "y = y'" "m = m'" "d < d'" | "?k < ?k'" using assms(3) v by fastforce
  then show ?thesis
  proof cases
    case 1
    then show ?thesis using lin by simp
  next
    case 2
    define n where "n = nat (?k' - ?k - 1)"
    have "?k' = ?k + 1 + int n" using 2 by (simp add: n_def)
    then have "month_start ?k + month_length y m \<le> month_start ?k'"
      using month_start_later [of ?k n] v month_index [of m y] by simp
    then show ?thesis using lin v by linarith
  qed
qed

section \<open>Reading the fields of a timestamp\<close>

lemma uint_eq_unat: "uint (w :: u32) = int (unat w)"
  by simp

lemma digits_at_value:
  assumes "digits_at s a b = Some w" and "b - a \<le> 9"
  shows "uint w = int (dec_value (take (b - a) (drop a s))) \<and> uint w < 10 ^ (b - a)"
proof -
  from assms have d: "digits (take (b - a) (drop a s)) = Some w" and "b \<le> length s"
    by (auto simp: digits_at_def slice_def Option.bind_eq_Some_conv split: if_splits)
  then have len: "length (take (b - a) (drop a s)) = b - a" by simp
  from digits_value [OF d] len assms(2)
  have "unat w = dec_value (take (b - a) (drop a s))" "unat w < 10 ^ (b - a)" by simp_all
  then show ?thesis by (metis uint_eq_unat of_nat_less_iff of_nat_power of_nat_numeral)
qed

lemma clock_seconds:
  assumes "h \<le> (23 :: u32)" "m \<le> 59" "s \<le> 59"
  shows "uint (h * 3600 + m * 60 + s) = uint h * 3600 + uint m * 60 + uint s"
proof -
  have u: "uint h \<le> 23" "uint m \<le> 59" "uint s \<le> 59" using assms by (simp_all add: word_le_def)
  then have "uint (h * 3600) = uint h * 3600" "uint (m * 60) = uint m * 60"
    by (simp_all add: uint_word_ariths)
  with u show ?thesis by (simp add: uint_word_ariths)
qed

lemma zone_seconds:
  assumes "h \<le> (23 :: u32)" "m \<le> 59"
  shows "uint (h * 3600 + m * 60) = uint h * 3600 + uint m * 60"
  using clock_seconds [OF assms, of 0] by simp

lemma unat_pow10:
  assumes "k \<le> 9"
  shows "unat ((10::u32) ^ k) = 10 ^ k"
proof -
  have "(10::nat) ^ k \<le> 10 ^ 9" using assms by (rule power_increasing) simp
  then have lt: "(10::nat) ^ k < 2 ^ LENGTH(32)" by simp
  have "unat ((10::u32) ^ k) = unat (of_nat (10 ^ k) :: u32)" by simp
  also have "\<dots> = 10 ^ k mod 2 ^ LENGTH(32)" by (rule unat_of_nat)
  also have "\<dots> = 10 ^ k" using lt by (rule mod_less)
  finally show ?thesis .
qed

lemma parse_fraction_bound:
  assumes "parse_fraction f = Some n"
  shows "unat n < 10 ^ 9"
proof (cases "f = []")
  case True
  with assms show ?thesis by (simp add: parse_fraction_def)
next
  case False
  from assms False obtain w where w: "digits (tl f) = Some w" "n = w * 10 ^ (10 - length f)"
    and len: "length f \<noteq> 1" "length f \<le> 10"
    by (auto simp: parse_fraction_def split: if_splits)
  define k where "k = length (tl f)"
  have f: "length f = Suc k" using False by (cases f) (simp_all add: k_def)
  then have k: "k \<le> 9" "10 - length f = 9 - k" using len by simp_all
  have wk: "unat w < 10 ^ k" using digits_value [OF w(1)] k by (simp add: k_def)
  have p: "(10::nat) ^ k * 10 ^ (9 - k) = 10 ^ 9" 
    using k(1) by (simp only: power_add [symmetric] le_add_diff_inverse)
  have "unat w * 10 ^ (9 - k) < 10 ^ k * 10 ^ (9 - k)"
    using wk by (rule mult_less_mono1) simp
  then have lt: "unat w * 10 ^ (9 - k) < 10 ^ 9" by (simp only: p)
  have "unat n = unat w * 10 ^ (9 - k) mod 2 ^ LENGTH(32)"
    using w(2) k unat_pow10 [of "9 - k"] by (simp add: unat_word_ariths)
  also have "\<dots> = unat w * 10 ^ (9 - k)" using order.strict_trans [OF lt, of "2 ^ LENGTH(32)"]
    by (intro mod_less) simp
  finally show ?thesis using lt by (simp only:)
qed

lemma parse_offset_bound:
  assumes "parse_offset s z = Some off"
  shows "\<bar>off\<bar> < 86400"
proof (cases "ends_in_z s")
  case True
  with assms show ?thesis by (auto simp: parse_offset_def split: if_splits)
next
  case False
  with assms obtain h m where hm: "h \<le> (23::u32)" "m \<le> (59::u32)"
    "\<bar>off\<bar> = uint (h * 3600 + m * 60)"
    by (auto simp: parse_offset_def Option.bind_eq_Some_conv Let_def not_less split: if_splits)
  moreover have "uint h \<le> 23" "uint m \<le> 59" using hm(1,2) by (simp_all add: word_le_def)
  ultimately show ?thesis using zone_seconds [OF hm(1,2)] by simp
qed

text \<open>The decimal value of the bytes from \<open>a\<close> up to \<open>b\<close>.\<close>

definition field :: "str \<Rightarrow> nat \<Rightarrow> nat \<Rightarrow> int" where
  "field s a b = int (dec_value (take (b - a) (drop a s)))"

lemma digits_at_field: "digits_at s a b = Some w \<Longrightarrow> b - a \<le> 9 \<Longrightarrow> uint w = field s a b \<and> uint w < 10 ^ (b - a)"
  unfolding field_def by (rule digits_at_value)

section \<open>Properties\<close>

text \<open>
  The day count is the proleptic Gregorian calendar: 1 January 1970 is day 0 and the date after
  any valid date, across month ends, leap days and year ends, is one day later. (Together these fix the
  count of every date.)
\<close>

theorem days_from_civil_counts_days:
  assumes "valid_date y m d" and "next_date y m d = (y', m', d')"
  shows "days_from_civil y' m' d' = days_from_civil y m d + 1 \<and> days_from_civil 1970 1 1 = 0"
  using next_date_days [OF assms] epoch_day by simp

theorem days_from_civil_counts_days_witness:
  "days_from_civil 2024 3 1 = days_from_civil 2024 2 29 + 1 \<and> days_from_civil 1970 1 1 = 0"
  by (rule days_from_civil_counts_days)
    (simp_all add: valid_date_def next_date_def month_length_def leap_year_def)

text \<open>The day count orders dates as the calendar does.\<close>

theorem days_from_civil_chronological:
  assumes "valid_date y m d" "valid_date y' m' d'"
    and "y < y' \<or> (y = y' \<and> (m < m' \<or> (m = m' \<and> d < d')))"
  shows "days_from_civil y m d < days_from_civil y' m' d'"
  by (rule days_strict_mono [OF assms])

theorem days_from_civil_chronological_witness:
  "days_from_civil 2023 12 31 < days_from_civil 2024 1 1"
  by (rule days_from_civil_chronological) (simp_all add: valid_date_def month_length_def)

text \<open>
  An accepted timestamp is a real instant. Its fields are the decimal values of the text, name
  a valid calendar date of a year from 1 to 9999 and a time of day, the zone offset is less than a
  day, the nanoseconds are less than a second, and the result is exactly the UTC second of that
  instant: no 32-bit step wrapped around.
\<close>

theorem parse_rfc3339_sound:
  assumes "parse_rfc3339 s = Some (t, nanos)"
  shows "valid_date (field s 0 4) (field s 5 7) (field s 8 10) \<and> field s 0 4 \<le> 9999 \<and>
     field s 11 13 \<le> 23 \<and> field s 14 16 \<le> 59 \<and> field s 17 19 \<le> 59 \<and> unat nanos < 10 ^ 9 \<and>
     (\<exists>z offset. zone_start_of s = Some z \<and> parse_offset s z = Some offset \<and> \<bar>offset\<bar> < 86400 \<and>
        t = days_from_civil (field s 0 4) (field s 5 7) (field s 8 10) * 86400
            + field s 11 13 * 3600 + field s 14 16 * 60 + field s 17 19 - offset)"
proof -
  from assms obtain y m d h mi se z f off where
    f: "digits_at s 0 4 = Some y" "digits_at s 5 7 = Some m" "digits_at s 8 10 = Some d"
       "digits_at s 11 13 = Some h" "digits_at s 14 16 = Some mi" "digits_at s 17 19 = Some se" and
    v: "y \<noteq> 0" "1 \<le> m" "m \<le> 12" "d \<noteq> 0" "d \<le> days_in_month y m" "h \<le> 23" "mi \<le> 59" "se \<le> 59" and
    z: "zone_start_of s = Some z" "parse_fraction f = Some nanos" "parse_offset s z = Some off" and
    t: "t = days_from_civil (uint y) (uint m) (uint d) * 86400 + uint (h * 3600 + mi * 60 + se) - off"
    by (auto simp: parse_rfc3339_def Option.bind_eq_Some_conv Let_def not_less split: if_splits)
  have u: "uint y = field s 0 4" "uint m = field s 5 7" "uint d = field s 8 10"
    "uint h = field s 11 13" "uint mi = field s 14 16" "uint se = field s 17 19" "uint y < 10 ^ 4"
    using f [THEN digits_at_field] by simp_all
  have pos: "1 \<le> uint y" "1 \<le> uint d"
    using v(1,4) by (simp_all add: word_uint_eq_iff order_le_less) (metis int_one_le_iff_zero_less
        not_le uint_ge_0 order_le_less)+
  have "valid_date (uint y) (uint m) (uint d)"
    using v days_in_month_uint [OF v(2,3), of y] pos by (simp add: valid_date_def word_le_def)
  moreover have "uint h \<le> 23" "uint mi \<le> 59" "uint se \<le> 59" using v by (simp_all add: word_le_def)
  ultimately show ?thesis
    using u z t parse_fraction_bound [OF z(2)] parse_offset_bound [OF z(3)] clock_seconds [OF v(6-8)]
    by simp
qed

theorem parse_rfc3339_sound_witness:
  "parse_rfc3339 ''2026-09-14T08:00:00+08:00'' = Some (1789344000, 0) \<and>
   valid_date 2026 9 14"
proof -
  have p: "parse_rfc3339 ''2026-09-14T08:00:00+08:00'' = Some (1789344000, 0)"
    by code_simp
  have "field ''2026-09-14T08:00:00+08:00'' 0 4 = 2026" "field ''2026-09-14T08:00:00+08:00'' 5 7 = 9"
    "field ''2026-09-14T08:00:00+08:00'' 8 10 = 14" by code_simp+
  with p parse_rfc3339_sound [OF p] show ?thesis by metis
qed

lemma digits_checked_from_digits:
  "list_all is_ascii_digit ds \<Longrightarrow> (number + 1) * 10 ^ length ds \<le> 10 ^ 9 \<Longrightarrow>
   \<exists>n. digits_checked_from number (ds @ s) = digits_checked_from n s \<and>
       digits_from (of_nat number) (ds @ s) = digits_from (of_nat n) s \<and> (n + 1) \<le> 10 ^ 9"
proof (induction ds arbitrary: number)
  case Nil
  then show ?case by auto
next
  case (Cons c ds)
  let ?n = "number * 10 + (byte c - 48)"
  have c: "48 \<le> byte c" "byte c \<le> 57" "is_ascii_digit c" using Cons.prems by (auto simp: is_ascii_digit_def)
  then have "?n + 1 \<le> (number + 1) * 10" by simp
  then have "(?n + 1) * 10 ^ length ds \<le> (number + 1) * 10 * 10 ^ length ds" by (rule mult_le_mono1)
  then have le: "(?n + 1) * 10 ^ length ds \<le> 10 ^ 9" using Cons.prems(2)
    by (simp only: list.size add_Suc_right add_0_right power_Suc mult.assoc [symmetric])
  have "(?n + 1) * 1 \<le> (?n + 1) * 10 ^ length ds" by (rule mult_le_mono2) simp
  with le have "?n + 1 \<le> 10 ^ 9" by simp
  then have "checked_digit_step number c = Some ?n" using c by (simp add: checked_digit_step_def)
  moreover obtain n where "digits_checked_from ?n (ds @ s) = digits_checked_from n s"
      "digits_from (of_nat ?n) (ds @ s) = digits_from (of_nat n) s" "n + 1 \<le> 10 ^ 9"
    using Cons.IH [OF _ le] Cons.prems(1) by auto
  ultimately show ?case using c by (auto simp: algebra_simps intro!: exI [of _ n])
qed

text \<open>
  Where arithmetic overflow is checked, \<^verbatim>\<open>digits\<close> agrees with the release build on a field of at
  most eight decimal digits, and on such a field followed by a byte below \<^verbatim>\<open>'0'\<close> it panics, where the
  release build reports the field as malformed: \<^verbatim>\<open>then_some\<close> evaluates \<^verbatim>\<open>byte - b'0'\<close> before the digit
  test decides.
\<close>

theorem digits_eager_subtraction_panics:
  assumes "list_all is_ascii_digit ds" and "length ds \<le> 8" and "byte c < 48"
  shows "digits (ds @ c # s) = None \<and> digits_checked (ds @ c # s) = None \<and>
     (\<exists>n. digits_checked ds = Some (Some n) \<and> digits ds = Some (of_nat n))"
proof -
  have "10 ^ length ds \<le> (10 ^ 9 :: nat)" by (rule power_increasing) (use assms(2) in simp_all)
  then have b: "(0 + 1) * 10 ^ length ds \<le> (10 ^ 9 :: nat)" by (simp only: add_0_left mult_1_left)
  show ?thesis
    using digits_checked_from_digits [OF assms(1) b, of "c # s"] digits_checked_from_digits [OF assms(1) b, of "[]"]
      assms(3)
    by (auto simp: digits_def digits_checked_def checked_digit_step_def is_ascii_digit_def)
qed

theorem digits_eager_subtraction_panics_witness:
  "digits ''20-4'' = None \<and> digits_checked ''20-4'' = None"
  using digits_eager_subtraction_panics [of "''20''" "CHR ''-''" "''4''"]
  by (simp add: is_ascii_digit_def byte_def)

end
