(* ===== verification/Interfaces.thy ===== *)
theory Interfaces
  imports Errors
begin

text \<open>
  The contracts that several components share, as locales. A \<^emph>\<open>revisioned\<close> resource is
  changed by operations that either return the next state or an error, carry the revision they were
  prepared against, and advance the revision by one (\<^verbatim>\<open>Program\<close> and \<^verbatim>\<open>Setup\<close> of
  \<^verbatim>\<open>crates/domain\<close>); an \<^emph>\<open>inbox\<close> is a revisioned resource with a queue of numbered inputs and
  a cursor over them. The consequences for arbitrary interleavings of requests are proved here once.
\<close>

section \<open>Histories of requests\<close>

text \<open>
  A refused request leaves the state as it was: the adapters commit only the value of an
  accepted operation.
\<close>

definition attempt :: "('o \<Rightarrow> 's \<Rightarrow> 'e + 's) \<Rightarrow> 's \<Rightarrow> 'o \<Rightarrow> 's" where
  "attempt run s request = (case run request s of Inl _ \<Rightarrow> s | Inr s' \<Rightarrow> s')"

fun history :: "('o \<Rightarrow> 's \<Rightarrow> 'e + 's) \<Rightarrow> 's \<Rightarrow> 'o list \<Rightarrow> 's" where
  "history run s [] = s"
| "history run s (request # rest) = history run (attempt run s request) rest"

text \<open>The requests of a history that were accepted, in order.\<close>

fun accepted :: "('o \<Rightarrow> 's \<Rightarrow> 'e + 's) \<Rightarrow> 's \<Rightarrow> 'o list \<Rightarrow> 'o list" where
  "accepted run s [] = []"
| "accepted run s (request # rest) =
     (case run request s of
        Inl _ \<Rightarrow> accepted run s rest
      | Inr s' \<Rightarrow> request # accepted run s' rest)"

lemma attempt_simps [simp]:
  "run r s = Inl e \<Longrightarrow> attempt run s r = s" "run r s = Inr s' \<Longrightarrow> attempt run s r = s'"
  by (simp_all add: attempt_def)

lemma history_append: "history run s (xs @ ys) = history run (history run s xs) ys"
  by (induction xs arbitrary: s) simp_all

section \<open>State machines with an invariant\<close>

locale invariant_machine =
  fixes run :: "'o \<Rightarrow> 's \<Rightarrow> 'e + 's"
    and inv :: "'s \<Rightarrow> bool"
  assumes run_inv: "inv s \<Longrightarrow> run request s = Inr s' \<Longrightarrow> inv s'"
begin

lemma attempt_inv: "inv s \<Longrightarrow> inv (attempt run s request)"
  by (cases "run request s") (auto intro: run_inv)

lemma history_inv: "inv s \<Longrightarrow> inv (history run s requests)"
  by (induction requests arbitrary: s) (auto intro: attempt_inv)

text \<open>A relation that every accepted step keeps, reflexive and transitive, holds of histories.\<close>

lemma history_preserves:
  assumes "inv s" and "\<And>x. R x x" and "\<And>x y z. R x y \<Longrightarrow> R y z \<Longrightarrow> R x z"
    and "\<And>x request y. inv x \<Longrightarrow> run request x = Inr y \<Longrightarrow> R x y"
  shows "R s (history run s requests)"
  using assms(1)
proof (induction requests arbitrary: s)
  case Nil
  show ?case using assms(2) by simp
next
  case (Cons request requests)
  have "R s (attempt run s request)"
    using assms(2,4) Cons.prems by (cases "run request s") auto
  with Cons.IH [OF attempt_inv [OF Cons.prems]] show ?case using assms(3) by auto
qed

end

section \<open>Guarded resources\<close>

text \<open>
  Optimistic concurrency. A step never lowers the revision; a step that was prepared against a revision is accepted
  only at this revision, and raises it. Steps that expect nothing may leave it. So of two steps prepared against
  one revision at most one is accepted, whatever happens in between.
\<close>

locale guarded = invariant_machine run inv
  for run :: "'o \<Rightarrow> 's \<Rightarrow> 'e + 's" and inv :: "'s \<Rightarrow> bool" +
  fixes rev_of :: "'s \<Rightarrow> int"
    and expected :: "'o \<Rightarrow> int option"
  assumes run_mono: "inv s \<Longrightarrow> run request s = Inr s' \<Longrightarrow> rev_of s \<le> rev_of s'"
    and run_guarded: "inv s \<Longrightarrow> run request s = Inr s' \<Longrightarrow> expected request = Some r \<Longrightarrow> r = rev_of s \<and> rev_of s < rev_of s'"
begin

lemma history_mono: "inv s \<Longrightarrow> rev_of s \<le> rev_of (history run s requests)"
  by (rule history_preserves [where R = "\<lambda>x y. rev_of x \<le> rev_of y"]) (auto intro: run_mono)

lemma stale_refused:
  "inv s \<Longrightarrow> expected request = Some r \<Longrightarrow> r \<noteq> rev_of s \<Longrightarrow> \<exists>e. run request s = Inl e"
  using run_guarded by (cases "run request s") auto

lemma no_lost_update:
  assumes "inv s" and "expected a = Some r" and "expected b = Some r"
    and "run a s = Inr s'"
  shows "\<exists>e. run b (history run s' between) = Inl e"
proof (rule stale_refused)
  have inv': "inv s'" using run_inv assms by blast
  then show "inv (history run s' between)" by (rule history_inv)
  have "r = rev_of s" "rev_of s < rev_of s'" using run_guarded assms by blast+
  then show "r \<noteq> rev_of (history run s' between)" using history_mono [OF inv', of between] by simp
qed (fact assms)

end

section \<open>Revisioned resources\<close>

text \<open>Every accepted request on such a resource raises its revision by one.\<close>

locale revisioned = invariant_machine run inv
  for run :: "'o \<Rightarrow> 's \<Rightarrow> 'e + 's" and inv :: "'s \<Rightarrow> bool" +
  fixes rev_of :: "'s \<Rightarrow> int"
    and expected :: "'o \<Rightarrow> int option"
  assumes run_revision: "inv s \<Longrightarrow> run request s = Inr s' \<Longrightarrow> rev_of s' = rev_of s + 1"
    and run_expected: "inv s \<Longrightarrow> run request s = Inr s' \<Longrightarrow> expected request = Some r \<Longrightarrow> r = rev_of s"
begin

lemma history_revision:
  "inv s \<Longrightarrow> rev_of (history run s requests) = rev_of s + int (length (accepted run s requests))"
proof (induction requests arbitrary: s)
  case (Cons request requests)
  show ?case
  proof (cases "run request s")
    case (Inl e)
    with Cons show ?thesis by simp
  next
    case (Inr s')
    with Cons.IH [OF run_inv [OF Cons.prems Inr]] run_revision [OF Cons.prems Inr] show ?thesis by simp
  qed
qed simp

text \<open>
  The revisions that the accepted requests were prepared against are strictly increasing.
\<close>

lemma accepted_expected:
  "inv s \<Longrightarrow> sorted_wrt (<) (List.map_filter expected (accepted run s requests)) \<and>
     (\<forall>r\<in>set (List.map_filter expected (accepted run s requests)). rev_of s \<le> r)"
proof (induction requests arbitrary: s)
  case Nil
  show ?case by (simp add: List.map_filter_def)
next
  case (Cons request requests)
  show ?case
  proof (cases "run request s")
    case (Inl e)
    with Cons show ?thesis by simp
  next
    case (Inr s')
    from Cons.IH [OF run_inv [OF Cons.prems Inr]] run_revision [OF Cons.prems Inr] Inr
    show ?thesis
      using run_expected [OF Cons.prems Inr]
      by (cases "expected request") (fastforce simp: List.map_filter_def)+
  qed
qed

end

sublocale revisioned \<subseteq> guarded run inv rev_of expected
  by unfold_locales (use run_revision run_expected in fastforce)+

section \<open>Inboxes\<close>

text \<open>
  \<^verbatim>\<open>cursor\<close> is the last input the resource has taken into account, \<^verbatim>\<open>latest\<close> the last one
  received. \<open>settled\<close> is the state that claims that nothing is left to read.
\<close>

locale inbox = revisioned run inv rev_of expected
  for run :: "'o \<Rightarrow> 's \<Rightarrow> 'e + 's" and inv :: "'s \<Rightarrow> bool"
    and rev_of :: "'s \<Rightarrow> int" and expected :: "'o \<Rightarrow> int option" +
  fixes cursor latest :: "'s \<Rightarrow> int"
    and settled :: "'s \<Rightarrow> bool"
  assumes cursor_bounds: "inv s \<Longrightarrow> 0 \<le> cursor s \<and> cursor s \<le> latest s"
    and cursor_mono: "inv s \<Longrightarrow> run request s = Inr s' \<Longrightarrow> cursor s \<le> cursor s'"
    and latest_step: "inv s \<Longrightarrow> run request s = Inr s' \<Longrightarrow> latest s' = latest s \<or> latest s' = latest s + 1"
    and settled_read: "inv s \<Longrightarrow> settled s \<Longrightarrow> cursor s = latest s"
begin

lemma history_cursors:
  assumes "inv s"
  shows "cursor s \<le> cursor (history run s requests) \<and> latest s \<le> latest (history run s requests)"
  by (rule history_preserves [where R = "\<lambda>x y. cursor x \<le> cursor y \<and> latest x \<le> latest y"])
    (use assms cursor_mono latest_step in \<open>fastforce\<close>)+

text \<open>
  Whenever the resource is settled, every input that had arrived at any earlier point of the
  history has been read.
\<close>

lemma settled_read_all:
  assumes "inv s" and "settled (history run s (earlier @ later))"
  shows "latest (history run s earlier) \<le> cursor (history run s (earlier @ later))"
proof -
  have i: "inv (history run s earlier)" using assms(1) by (rule history_inv)
  have "inv (history run s (earlier @ later))" using assms(1) by (rule history_inv)
  then have "cursor (history run s (earlier @ later)) = latest (history run s (earlier @ later))"
    using assms(2) by (rule settled_read)
  with history_cursors [OF i, of later] show ?thesis by (simp add: history_append)
qed

end

end
