(* ===== verification/PlanningKnowledge.thy ===== *)
theory PlanningKnowledge
  imports Errors
begin

text \<open>
  \<^verbatim>\<open>crates/domain/src/planning_knowledge.rs\<close>: the knowledge briefs, task contexts and manifests that a
  planning stage consumes, with the validators that bound every text and list in them.
\<close>

definition PLANNING_KNOWLEDGE_POLICY_ID :: str where
  "PLANNING_KNOWLEDGE_POLICY_ID = ''tect:planning-knowledge''"
definition PLANNING_KNOWLEDGE_POLICY_VERSION :: str where
  "PLANNING_KNOWLEDGE_POLICY_VERSION = ''dk-4.1''"

datatype planning_stage = StageProgram | StageScope | StageSliceCandidates

fun stage_as_str :: "planning_stage \<Rightarrow> str" where
  "stage_as_str StageProgram = ''program''"
| "stage_as_str StageScope = ''scope''"
| "stage_as_str StageSliceCandidates = ''slice_candidates''"

text \<open>\<^verbatim>\<open>KnowledgeBindingPurpose\<close> of \<^verbatim>\<open>knowledge_document.rs\<close>\<close>

datatype knowledge_binding_purpose = PurposeRequired | PurposeReference | PurposeProcedure | PurposeProofBasis

record planning_brief_selectors =
  bs_target_iris :: "str list"
  bs_environment_iris :: "str list"
  bs_action_classes :: "str list"

record planning_brief =
  br_local_id :: str
  br_stage :: planning_stage
  br_instruction :: str
  br_conditions :: "str list"
  br_exceptions :: "str list"
  br_purpose :: str
  br_selectors :: planning_brief_selectors

record planning_task_context =
  tc_target_iris :: "str list option"
  tc_environment_iris :: "str list option"
  tc_action_classes :: "str list option"

record planning_method_snapshot =
  pm_id :: str
  pm_version :: str
  pm_digest :: str
  pm_body :: str
  pm_origin_refs :: "str list"

record planning_knowledge_need =
  kn_stage :: planning_stage
  kn_roles :: "knowledge_binding_purpose list"
  kn_expected_abstraction :: str
  kn_policy_id :: str
  kn_policy_version :: str
  kn_method :: planning_method_snapshot

record planning_knowledge_item =
  ki_unit_id :: uuid
  ki_unit_revision :: int
  ki_brief_local_id :: str
  ki_rdf_digest :: str
  ki_purposes :: "knowledge_binding_purpose list"
  ki_why_included :: "str list"
  ki_instruction :: str
  ki_conditions :: "str list"
  ki_exceptions :: "str list"
  ki_declared_purpose :: str
  ki_selectors :: planning_brief_selectors

datatype planning_knowledge_gap_kind = GapNeedsContext | GapRequiredUnavailable | GapNeedsReview

record planning_knowledge_gap =
  kg_kind :: planning_knowledge_gap_kind
  kg_unit_id :: uuid
  kg_unit_revision :: int
  kg_brief_local_id :: "str option"
  kg_reason :: str

record planning_knowledge_manifest =
  pk_id :: uuid
  pk_digest :: str
  pk_stage :: planning_stage
  pk_owner_id :: uuid
  pk_owner_revision :: int
  pk_input_revision :: int
  pk_request_id :: uuid
  pk_policy_id :: str
  pk_policy_version :: str
  pk_task_context_digest :: str
  pk_task_context :: planning_task_context
  pk_workspace_generation :: int
  pk_needs :: planning_knowledge_need
  pk_selected :: "planning_knowledge_item list"
  pk_unresolved_needs :: "planning_knowledge_gap list"

record planning_manifest_guard =
  mg_manifest_id :: uuid
  mg_digest :: str
  mg_workspace_generation :: int

record planning_knowledge_status =
  ks_manifest :: "planning_knowledge_manifest option"
  ks_stale_reasons :: "str list"
  ks_warnings :: "str list"

text \<open>\<^verbatim>\<open>CandidateMethodSnapshot\<close> of \<^verbatim>\<open>scope_candidates.rs\<close>\<close>

record candidate_method_snapshot =
  cm_id :: str
  cm_revision :: str
  cm_digest :: str
  cm_body :: str
  cm_origin_refs :: "str list"

section \<open>Bounded text and lists\<close>

definition bounded_nonblank :: "str \<Rightarrow> nat \<Rightarrow> bool" where
  "bounded_nonblank s limit \<longleftrightarrow> \<not> blank s \<and> length s \<le> limit \<and> \<not> has_nul s"

definition iri :: "str \<Rightarrow> bool" where
  "iri s \<longleftrightarrow> bounded_nonblank s 4096 \<and>
     (prefix ''http://'' s \<or> prefix ''https://'' s \<or> prefix ''urn:'' s)"

definition bounded_list :: "str list \<Rightarrow> nat \<Rightarrow> nat \<Rightarrow> bool" where
  "bounded_list xs max_items max_bytes \<longleftrightarrow> length xs \<le> max_items \<and>
     list_all (\<lambda>s. bounded_nonblank s max_bytes) xs \<and> card (set xs) = length xs"

definition iris :: "str list \<Rightarrow> bool" where
  "iris xs \<longleftrightarrow> length xs \<le> 128 \<and> list_all iri xs \<and> card (set xs) = length xs"

definition opt_all :: "('a \<Rightarrow> bool) \<Rightarrow> 'a option \<Rightarrow> bool" where
  "opt_all p x = (case x of None \<Rightarrow> True | Some v \<Rightarrow> p v)"

section \<open>Validators\<close>

definition brief_validate :: "planning_brief \<Rightarrow> unit result" where
  "brief_validate b = refuse_if
     (\<not> bounded_nonblank (br_local_id b) 128 \<or> \<not> bounded_nonblank (br_instruction b) 65536 \<or>
      \<not> bounded_nonblank (br_purpose b) 4096 \<or> \<not> bounded_list (br_conditions b) 128 4096 \<or>
      \<not> bounded_list (br_exceptions b) 128 4096 \<or> \<not> iris (bs_target_iris (br_selectors b)) \<or>
      \<not> iris (bs_environment_iris (br_selectors b)) \<or>
      \<not> bounded_list (bs_action_classes (br_selectors b)) 128 1024) InvalidArguments"

definition task_context_validate :: "planning_task_context \<Rightarrow> unit result" where
  "task_context_validate c = refuse_if
     (\<not> opt_all iris (tc_target_iris c) \<or> \<not> opt_all iris (tc_environment_iris c) \<or>
      \<not> opt_all (\<lambda>v. bounded_list v 128 1024) (tc_action_classes c)) InvalidArguments"

definition guard_validate :: "planning_manifest_guard \<Rightarrow> unit result" where
  "guard_validate g = refuse_if
     (is_nil (mg_manifest_id g) \<or> \<not> bounded_nonblank (mg_digest g) 256 \<or> mg_workspace_generation g < 0)
     InvalidArguments"

definition method_from_candidate :: "candidate_method_snapshot \<Rightarrow> planning_method_snapshot" where
  "method_from_candidate m = \<lparr>pm_id = cm_id m, pm_version = cm_revision m, pm_digest = cm_digest m,
     pm_body = cm_body m, pm_origin_refs = cm_origin_refs m\<rparr>"

definition method_validate :: "planning_method_snapshot \<Rightarrow> unit result" where
  "method_validate m = refuse_if
     (\<not> bounded_nonblank (pm_id m) 256 \<or> \<not> bounded_nonblank (pm_version m) 128 \<or>
      \<not> bounded_nonblank (pm_digest m) 256 \<or> \<not> bounded_nonblank (pm_body m) 262144 \<or>
      \<not> bounded_list (pm_origin_refs m) 32 4096 \<or> pm_origin_refs m = []) InvalidArguments"

definition planning_knowledge_need_of ::
    "planning_stage \<Rightarrow> planning_method_snapshot \<Rightarrow> planning_knowledge_need" where
  "planning_knowledge_need_of stage method =
     \<lparr>kn_stage = stage,
      kn_roles = [PurposeRequired, PurposeReference, PurposeProcedure, PurposeProofBasis],
      kn_expected_abstraction = stage_as_str stage,
      kn_policy_id = PLANNING_KNOWLEDGE_POLICY_ID,
      kn_policy_version = PLANNING_KNOWLEDGE_POLICY_VERSION, kn_method = method\<rparr>"

section \<open>Lemmas\<close>

lemma opt_all_simps [simp]: "opt_all p None" "opt_all p (Some v) = p v"
  by (simp_all add: opt_all_def)

text \<open>A value within its bounds occupies at most the product of the bounds.\<close>

definition total_bytes :: "str list \<Rightarrow> nat" where
  "total_bytes xs = sum_list (map length xs)"

lemma total_bytes_bound: "list_all (\<lambda>s. length s \<le> m) xs \<Longrightarrow> total_bytes xs \<le> length xs * m"
  by (induction xs) (auto simp: total_bytes_def)

lemma bounded_list_total:
  assumes "bounded_list xs n m" shows "total_bytes xs \<le> n * m \<and> distinct xs"
proof -
  have "list_all (\<lambda>s. length s \<le> m) xs"
    using assms by (auto simp: bounded_list_def bounded_nonblank_def list_all_iff)
  then have "total_bytes xs \<le> length xs * m" by (rule total_bytes_bound)
  also have "\<dots> \<le> n * m" using assms by (simp add: bounded_list_def)
  finally show ?thesis using assms by (simp add: bounded_list_def)
qed

end
