(* ===== verification/Programs.thy ===== *)
theory Programs
  imports Interfaces PlanningKnowledge
begin

text \<open>
  \<^verbatim>\<open>crates/domain/src/program.rs\<close>: the \<^verbatim>\<open>Program\<close> record, its patches, and its three
  state changes \<^verbatim>\<open>saved\<close>, \<^verbatim>\<open>with_new_input\<close> and \<^verbatim>\<open>refreshed\<close>. The record satisfies the
  \<open>inbox\<close> contract.
\<close>

section \<open>Data\<close>

datatype program_status = ProgramDraft | ProgramOpen

datatype program_step = Compose | WaitingInput | Ready

record program =
  pr_id :: uuid
  pr_workspace_id :: uuid
  pr_status :: program_status
  pr_revision :: int
  pr_name :: "str option"
  pr_intent :: "str option"
  pr_basis :: "str option"
  pr_boundaries :: "str option"
  pr_constraints :: "str option"
  pr_success :: "str option"
  pr_working_notes :: "str option"
  pr_pending_question :: "str option"
  pr_current_step :: program_step
  pr_input_cursor :: int
  pr_latest_input :: int
  pr_planning_knowledge :: "planning_knowledge_status option"
  pr_max_input_bytes :: int

datatype text_patch = Unchanged | SetText "str option"

record save_program =
  sp_program_id :: uuid
  sp_revision :: int
  sp_input_cursor :: int
  sp_name :: text_patch
  sp_intent :: text_patch
  sp_basis :: text_patch
  sp_boundaries :: text_patch
  sp_constraints :: text_patch
  sp_success :: text_patch
  sp_working_notes :: text_patch
  sp_pending_question :: text_patch
  sp_complete :: bool
  sp_consumed_knowledge :: "planning_manifest_guard option"

record refresh_program_knowledge =
  rp_program_id :: uuid
  rp_revision :: int
  rp_input_cursor :: int
  rp_request_id :: uuid
  rp_task_context :: "planning_task_context option"

text \<open>\<^verbatim>\<open>ProgramSummary\<close> of \<^verbatim>\<open>program_page.rs\<close>\<close>

record program_summary =
  ps_id :: uuid
  ps_status :: program_status
  ps_revision :: int
  ps_name :: "str option"
  ps_current_step :: program_step

section \<open>Patches\<close>

definition is_unchanged :: "text_patch \<Rightarrow> bool" where
  "is_unchanged p = (case p of Unchanged \<Rightarrow> True | SetText _ \<Rightarrow> False)"

definition patch_apply :: "text_patch \<Rightarrow> str option \<Rightarrow> str option" where
  "patch_apply p field = (case p of Unchanged \<Rightarrow> field | SetText v \<Rightarrow> v)"

text \<open>
  A patch on the wire is a field that may be absent; a present field is \<^verbatim>\<open>null\<close> or a text.
  \<^verbatim>\<open>skip_serializing_if\<close> omits an unchanged patch and \<^verbatim>\<open>#[serde(default)]\<close> reads it back.
\<close>

definition patch_serialize :: "text_patch \<Rightarrow> str option option" where
  "patch_serialize p =
     (if is_unchanged p then None else Some (case p of Unchanged \<Rightarrow> None | SetText v \<Rightarrow> v))"

definition patch_deserialize :: "str option option \<Rightarrow> text_patch" where
  "patch_deserialize field = (case field of None \<Rightarrow> Unchanged | Some v \<Rightarrow> SetText v)"

section \<open>Validation\<close>

definition save_program_validate :: "save_program \<Rightarrow> unit result" where
  "save_program_validate ch = checks
     [refuse_if (is_nil (sp_program_id ch) \<or> sp_revision ch < 1 \<or> sp_input_cursor ch < 0) InvalidArguments,
      each_opt guard_validate (sp_consumed_knowledge ch)]"

definition refresh_program_validate :: "refresh_program_knowledge \<Rightarrow> unit result" where
  "refresh_program_validate r = checks
     [refuse_if (is_nil (rp_program_id r) \<or> is_nil (rp_request_id r) \<or> rp_revision r < 1 \<or>
                 rp_input_cursor r < 0) InvalidArguments,
      each_opt task_context_validate (rp_task_context r)]"

definition validate_program_input :: "uuid \<Rightarrow> str \<Rightarrow> unit result" where
  "validate_program_input request_id input =
     refuse_if (is_nil request_id \<or> blank input \<or> has_nul input) InvalidArguments"

section \<open>State changes\<close>

definition program_draft :: "uuid \<Rightarrow> uuid \<Rightarrow> int \<Rightarrow> program" where
  "program_draft ident workspace_id max_input_bytes =
     \<lparr>pr_id = ident, pr_workspace_id = workspace_id, pr_status = ProgramDraft, pr_revision = 1,
      pr_name = None, pr_intent = None, pr_basis = None, pr_boundaries = None,
      pr_constraints = None, pr_success = None, pr_working_notes = None,
      pr_pending_question = None, pr_current_step = Compose, pr_input_cursor = 0,
      pr_latest_input = 1, pr_planning_knowledge = None, pr_max_input_bytes = max_input_bytes\<rparr>"

definition opt_blank :: "str option \<Rightarrow> bool" where
  "opt_blank x = (case x of None \<Rightarrow> True | Some s \<Rightarrow> blank s)"

definition opt_has_nul :: "str option \<Rightarrow> bool" where
  "opt_has_nul x = (case x of None \<Rightarrow> False | Some s \<Rightarrow> has_nul s)"

definition clear_blank :: "str option \<Rightarrow> str option" where
  "clear_blank x = (if (case x of None \<Rightarrow> False | Some s \<Rightarrow> blank s) then None else x)"

text \<open>The six fields of the contract, in the order of the array \<^verbatim>\<open>fields\<close>.\<close>

definition contract_fields :: "program \<Rightarrow> str option list" where
  "contract_fields p =
     [pr_name p, pr_intent p, pr_basis p, pr_boundaries p, pr_constraints p, pr_success p]"

definition patched :: "save_program \<Rightarrow> program \<Rightarrow> program" where
  "patched ch p = p\<lparr>
     pr_name := patch_apply (sp_name ch) (pr_name p),
     pr_intent := patch_apply (sp_intent ch) (pr_intent p),
     pr_basis := patch_apply (sp_basis ch) (pr_basis p),
     pr_boundaries := patch_apply (sp_boundaries ch) (pr_boundaries p),
     pr_constraints := patch_apply (sp_constraints ch) (pr_constraints p),
     pr_success := patch_apply (sp_success ch) (pr_success p),
     pr_working_notes := patch_apply (sp_working_notes ch) (pr_working_notes p),
     pr_pending_question := clear_blank (patch_apply (sp_pending_question ch) (pr_pending_question p))\<rparr>"

definition saved :: "program \<Rightarrow> save_program \<Rightarrow> program result" where
  "saved p ch =
     andThen (checks
       [save_program_validate ch,
        refuse_if (sp_program_id ch \<noteq> pr_id p) NotFound,
        refuse_if (sp_revision ch \<noteq> pr_revision p) StaleRevision,
        refuse_if (sp_input_cursor ch < pr_input_cursor p \<or> pr_latest_input p < sp_input_cursor ch \<or>
                   (sp_complete ch \<and> sp_input_cursor ch \<noteq> pr_latest_input p)) InputPending]) (\<lambda>_.
     (let next = patched ch p in
      andThen (checks
        [refuse_if (list_ex opt_has_nul
                     (contract_fields next @ [pr_working_notes next, pr_pending_question next]))
           InvalidArguments,
         refuse_if (((sp_complete ch \<or> pr_status p = ProgramOpen) \<and> list_ex opt_blank (contract_fields next))
                    \<or> (sp_complete ch \<and> pr_pending_question next \<noteq> None))
           ProgramIncomplete]) (\<lambda>_.
      andThen (ok_or (checked_add_i64 (pr_revision p) 1) StorageUnavailable) (\<lambda>rev.
      Inr (next\<lparr>
        pr_input_cursor := sp_input_cursor ch,
        pr_revision := rev,
        pr_status := (if sp_complete ch then ProgramOpen else pr_status next),
        pr_current_step :=
          (if sp_complete ch then Ready
           else if pr_pending_question next \<noteq> None then WaitingInput else Compose)\<rparr>)))))"

definition with_new_input :: "program \<Rightarrow> int \<Rightarrow> program result" where
  "with_new_input p encoded_bytes =
     andThen (refuse_if (encoded_bytes < 0) InvalidArguments) (\<lambda>_.
     andThen (ok_or (checked_add_i64 (pr_revision p) 1) StorageUnavailable) (\<lambda>rev.
     andThen (ok_or (checked_add_i64 (pr_latest_input p) 1) StorageUnavailable) (\<lambda>latest.
     Inr (p\<lparr>pr_revision := rev, pr_latest_input := latest,
             pr_max_input_bytes := max (pr_max_input_bytes p) encoded_bytes,
             pr_current_step := Compose\<rparr>))))"

definition refreshed :: "program \<Rightarrow> refresh_program_knowledge \<Rightarrow> program result" where
  "refreshed p r =
     andThen (checks
       [refresh_program_validate r,
        refuse_if (rp_program_id r \<noteq> pr_id p) NotFound,
        refuse_if (rp_revision r \<noteq> pr_revision p) StaleRevision,
        refuse_if (rp_input_cursor r \<noteq> pr_input_cursor p) StaleContext]) (\<lambda>_.
     andThen (ok_or (checked_add_i64 (pr_revision p) 1) StorageUnavailable) (\<lambda>rev.
     Inr (p\<lparr>pr_revision := rev, pr_planning_knowledge := None\<rparr>)))"

definition program_summary_of :: "program \<Rightarrow> program_summary" where
  "program_summary_of p = \<lparr>ps_id = pr_id p, ps_status = pr_status p, ps_revision = pr_revision p,
     ps_name = pr_name p, ps_current_step = pr_current_step p\<rparr>"

section \<open>Requests and the step relation\<close>

datatype program_request =
    SaveRequest save_program
  | InputRequest int
  | RefreshRequest refresh_program_knowledge

fun program_run :: "program_request \<Rightarrow> program \<Rightarrow> program result" where
  "program_run (SaveRequest ch) p = saved p ch"
| "program_run (InputRequest bytes) p = with_new_input p bytes"
| "program_run (RefreshRequest r) p = refreshed p r"

fun program_expected :: "program_request \<Rightarrow> int option" where
  "program_expected (SaveRequest ch) = Some (sp_revision ch)"
| "program_expected (InputRequest _) = None"
| "program_expected (RefreshRequest r) = Some (rp_revision r)"

inductive program_reaches :: "program \<Rightarrow> program \<Rightarrow> bool" where
  program_start: "program_reaches p p"
| program_step: "program_reaches p q \<Longrightarrow> program_run request q = Inr q' \<Longrightarrow> program_reaches p q'"

inductive_cases program_stepE: "program_reaches p q"

section \<open>The invariant\<close>

definition program_texts :: "program \<Rightarrow> str option list" where
  "program_texts p = contract_fields p @ [pr_working_notes p, pr_pending_question p]"

definition program_wf :: "program \<Rightarrow> bool" where
  "program_wf p \<longleftrightarrow>
     1 \<le> pr_revision p \<and> in_i64 (pr_revision p) \<and>
     0 \<le> pr_input_cursor p \<and> pr_input_cursor p \<le> pr_latest_input p \<and> in_i64 (pr_latest_input p) \<and>
     \<not> list_ex opt_has_nul (program_texts p) \<and>
     (pr_status p = ProgramOpen \<longrightarrow> \<not> list_ex opt_blank (contract_fields p)) \<and>
     (pr_pending_question p = None \<or> \<not> opt_blank (pr_pending_question p)) \<and>
     (pr_current_step p = Ready \<longrightarrow> pr_status p = ProgramOpen \<and>
        pr_input_cursor p = pr_latest_input p \<and> pr_pending_question p = None) \<and>
     (pr_current_step p = WaitingInput \<longrightarrow> pr_pending_question p \<noteq> None)"

lemmas program_wf_defs = program_wf_def program_texts_def contract_fields_def

lemma draft_wf: "program_wf (program_draft i w m)"
  by (simp add: program_wf_defs program_draft_def opt_has_nul_def in_i64_def i64_max_def i64_min_def)

lemma clear_blank_cases: "clear_blank x = None \<or> \<not> opt_blank (clear_blank x)"
  by (simp add: clear_blank_def opt_blank_def split: option.split)

text \<open>When a save is accepted, and what it returns.\<close>

lemma saved_Inr:
  "saved p ch = Inr q \<longleftrightarrow>
     save_program_validate ch = Inr () \<and> sp_program_id ch = pr_id p \<and> sp_revision ch = pr_revision p \<and>
     pr_input_cursor p \<le> sp_input_cursor ch \<and> sp_input_cursor ch \<le> pr_latest_input p \<and>
     (sp_complete ch \<longrightarrow> sp_input_cursor ch = pr_latest_input p) \<and>
     \<not> list_ex opt_has_nul (program_texts (patched ch p)) \<and>
     (sp_complete ch \<or> pr_status p = ProgramOpen \<longrightarrow> \<not> list_ex opt_blank (contract_fields (patched ch p))) \<and>
     (sp_complete ch \<longrightarrow> pr_pending_question (patched ch p) = None) \<and>
     in_i64 (pr_revision p + 1) \<and>
     q = (patched ch p)\<lparr>
       pr_input_cursor := sp_input_cursor ch, pr_revision := pr_revision p + 1,
       pr_status := (if sp_complete ch then ProgramOpen else pr_status p),
       pr_current_step := (if sp_complete ch then Ready
          else if pr_pending_question (patched ch p) \<noteq> None then WaitingInput else Compose)\<rparr>"
  (is "?l \<longleftrightarrow> ?r")
proof -
  have st: "pr_status (patched ch p) = pr_status p" by (simp add: patched_def)
  show ?thesis
    by (auto simp: saved_def Let_def check_simps checked_add_i64_Some program_texts_def st)
qed

lemma with_new_input_Inr:
  "with_new_input p bytes = Inr q \<longleftrightarrow> 0 \<le> bytes \<and> in_i64 (pr_revision p + 1) \<and> in_i64 (pr_latest_input p + 1) \<and>
     q = p\<lparr>pr_revision := pr_revision p + 1, pr_latest_input := pr_latest_input p + 1,
           pr_max_input_bytes := max (pr_max_input_bytes p) bytes, pr_current_step := Compose\<rparr>"
  by (auto simp: with_new_input_def check_simps checked_add_i64_Some)

lemma refreshed_Inr:
  "refreshed p r = Inr q \<longleftrightarrow> refresh_program_validate r = Inr () \<and> rp_program_id r = pr_id p \<and>
     rp_revision r = pr_revision p \<and> rp_input_cursor r = pr_input_cursor p \<and> in_i64 (pr_revision p + 1) \<and>
     q = p\<lparr>pr_revision := pr_revision p + 1, pr_planning_knowledge := None\<rparr>"
  by (auto simp: refreshed_def check_simps checked_add_i64_Some)

lemmas program_steps = saved_Inr with_new_input_Inr refreshed_Inr


lemma contract_fields_update [simp]:
  "contract_fields (p\<lparr>pr_input_cursor := a, pr_revision := b, pr_status := c, pr_current_step := d\<rparr>)
     = contract_fields p"
  by (simp add: contract_fields_def)

lemma patched_simps [simp]:
  "pr_id (patched ch p) = pr_id p" "pr_status (patched ch p) = pr_status p"
  "pr_revision (patched ch p) = pr_revision p" "pr_latest_input (patched ch p) = pr_latest_input p"
  by (simp_all add: patched_def)

lemma patched_question:
  "pr_pending_question (patched ch p) = None \<or> \<not> opt_blank (pr_pending_question (patched ch p))"
  using clear_blank_cases by (simp add: patched_def)

lemma saved_wf:
  assumes wf: "program_wf p" and s: "saved p ch = Inr q" shows "program_wf q"
proof -
  have r: "1 \<le> pr_revision p" "0 \<le> pr_input_cursor p" "in_i64 (pr_latest_input p)"
    using wf by (simp_all add: program_wf_def)
  have t: "\<not> list_ex opt_has_nul (program_texts (patched ch p))"
    using s by (simp add: saved_Inr)
  show ?thesis using s r patched_question [of ch p] t
    unfolding saved_Inr program_wf_def program_texts_def by auto
qed

lemma program_run_wf: "program_wf p \<Longrightarrow> program_run request p = Inr q \<Longrightarrow> program_wf q"
proof (cases request)
  case (SaveRequest ch)
  assume "program_wf p" "program_run request p = Inr q"
  with SaveRequest show ?thesis using saved_wf by simp
qed (auto simp: program_steps program_wf_defs)

lemma program_run_revision:
  "program_run request p = Inr q \<Longrightarrow> pr_revision q = pr_revision p + 1"
  by (cases request) (auto simp: program_steps)

lemma program_run_expected:
  "program_run request p = Inr q \<Longrightarrow> program_expected request = Some r \<Longrightarrow> r = pr_revision p"
  by (cases request) (auto simp: program_steps)

lemma program_run_cursor:
  "program_run request p = Inr q \<Longrightarrow> pr_input_cursor p \<le> pr_input_cursor q"
  by (cases request) (auto simp: program_steps)

lemma program_run_latest:
  "program_run request p = Inr q \<Longrightarrow>
     pr_latest_input q = pr_latest_input p \<or> pr_latest_input q = pr_latest_input p + 1"
  by (cases request) (auto simp: program_steps)

lemma program_cursor_bounds: "program_wf p \<Longrightarrow> 0 \<le> pr_input_cursor p \<and> pr_input_cursor p \<le> pr_latest_input p"
  by (simp add: program_wf_def)

lemma program_ready_read: "program_wf p \<Longrightarrow> pr_current_step p = Ready \<Longrightarrow> pr_input_cursor p = pr_latest_input p"
  by (simp add: program_wf_def)

lemmas program_contract = program_run_wf program_run_revision program_run_expected program_cursor_bounds
  program_run_cursor program_run_latest program_ready_read

text \<open>The program satisfies the inbox contract.\<close>

interpretation program_box: inbox program_run program_wf pr_revision program_expected
    pr_input_cursor pr_latest_input "\<lambda>p. pr_current_step p = Ready"
  by unfold_locales (rule program_contract; assumption)+

text \<open>The save that completes a program with six given texts.\<close>

definition completing_save :: "program \<Rightarrow> str list \<Rightarrow> save_program" where
  "completing_save p texts =
     \<lparr>sp_program_id = pr_id p, sp_revision = pr_revision p, sp_input_cursor = pr_latest_input p,
      sp_name = SetText (Some (texts ! 0)), sp_intent = SetText (Some (texts ! 1)),
      sp_basis = SetText (Some (texts ! 2)), sp_boundaries = SetText (Some (texts ! 3)),
      sp_constraints = SetText (Some (texts ! 4)), sp_success = SetText (Some (texts ! 5)),
      sp_working_notes = Unchanged, sp_pending_question = SetText None, sp_complete = True,
      sp_consumed_knowledge = None\<rparr>"

lemma completing_save_accepted:
  assumes "program_wf p" and "\<not> is_nil (pr_id p)" and "pr_revision p < i64_max"
    and "length texts = 6" and "\<forall>t\<in>set texts. \<not> blank t \<and> \<not> has_nul t"
  shows "\<exists>q. program_run (SaveRequest (completing_save p texts)) p = Inr q \<and> pr_status q = ProgramOpen \<and>
     pr_current_step q = Ready \<and> contract_fields q = map Some texts \<and>
     pr_input_cursor q = pr_latest_input q"
proof -
  obtain a b c d e f where t: "texts = [a, b, c, d, e, f]"
    using assms(4) by (auto simp: length_Suc_conv numeral_eq_Suc)
  have "in_i64 (pr_revision p + 1)" "1 \<le> pr_revision p" "0 \<le> pr_input_cursor p"
    "pr_input_cursor p \<le> pr_latest_input p" "\<not> opt_has_nul (pr_working_notes p)"
    using assms(1,3) by (simp_all add: program_wf_defs in_i64_def)
  then show ?thesis using assms(2,5) t
    by (simp add: saved_Inr save_program_validate_def completing_save_def program_texts_def
        contract_fields_def patched_def patch_apply_def clear_blank_def opt_has_nul_def opt_blank_def)
qed

section \<open>Properties\<close>

text \<open>
  Every program reachable from a fresh draft by any accepted requests is well formed: its
  revision is positive, its cursor is within its inputs, no text holds a NUL, a program that was
  ever completed keeps all six contract fields filled, a waiting program has a question and a ready
  one is open, has no question and has read every input.
\<close>

theorem program_reachable_wf:
  assumes "program_reaches (program_draft i w m) q"
  shows "program_wf q \<and> pr_id q = i \<and> pr_workspace_id q = w"
  using assms
proof (induction "program_draft i w m" q rule: program_reaches.induct)
  case program_start
  then show ?case by (simp add: draft_wf) (simp add: program_draft_def)
next
  case (program_step q request q')
  then have "pr_id q' = pr_id q \<and> pr_workspace_id q' = pr_workspace_id q"
    by (cases request) (auto simp: program_steps patched_def)
  with program_step program_run_wf [of q request q'] show ?case by simp
qed

theorem program_reachable_wf_witness:
  "\<exists>q. program_reaches (program_draft 7 9 12) q \<and> pr_revision q = 2 \<and> program_wf q"
proof -
  have r: "program_reaches (program_draft 7 9 12) ((program_draft 7 9 12)\<lparr>pr_revision := 2,
      pr_latest_input := 2, pr_max_input_bytes := 40, pr_current_step := Compose\<rparr>)" (is "program_reaches _ ?q")
    by (rule program_reaches.program_step [OF program_reaches.program_start, of "InputRequest 40"])
      (simp add: with_new_input_Inr program_draft_def in_i64_def i64_max_def i64_min_def)
  then have "program_wf ?q" using program_reachable_wf by blast
  with r show ?thesis by (intro exI [of _ ?q] conjI) simp_all
qed

text \<open>
  C38: no lost update on a program. When one of two requests prepared against the same revision
  has been accepted, the other is refused, whatever requests came in between.
\<close>

theorem program_no_lost_update:
  assumes "program_wf p" and "program_expected a = Some r" and "program_expected b = Some r"
    and "program_run a p = Inr p'"
  shows "\<exists>e. program_run b (history program_run p' between) = Inl e"
  by (rule program_box.no_lost_update [OF assms])

text \<open>
  A program that is ready at the end of any history of requests (accepted and refused ones, in
  any order) has read every input that had arrived at any earlier point of that history.
\<close>

theorem program_ready_read_all:
  assumes "program_wf p" and "pr_current_step (history program_run p (earlier @ later)) = Ready"
  shows "pr_latest_input (history program_run p earlier)
    \<le> pr_input_cursor (history program_run p (earlier @ later))"
  by (rule program_box.settled_read_all [OF assms])

text \<open>
  A program is never stuck. From every well-formed program whose revision can still advance,
  for any six filled texts there is a completing save that is accepted, and it leaves the program
  open and ready with exactly these texts and every input read.
\<close>

theorem program_can_complete:
  assumes "program_wf p" and "\<not> is_nil (pr_id p)" and "pr_revision p < i64_max"
    and "length texts = 6" and "\<forall>t\<in>set texts. \<not> blank t \<and> \<not> has_nul t"
  shows "\<exists>q. program_run (SaveRequest (completing_save p texts)) p = Inr q \<and> pr_status q = ProgramOpen \<and>
     pr_current_step q = Ready \<and> contract_fields q = map Some texts \<and>
     pr_input_cursor q = pr_latest_input q"
  by (rule completing_save_accepted [OF assms])

theorem program_no_lost_update_witness:
  "let save = (\<lambda>notes. SaveRequest \<lparr>sp_program_id = 7, sp_revision = 1, sp_input_cursor = 0, sp_name = Unchanged,
       sp_intent = Unchanged, sp_basis = Unchanged, sp_boundaries = Unchanged, sp_constraints = Unchanged,
       sp_success = Unchanged, sp_working_notes = SetText (Some notes), sp_pending_question = Unchanged,
       sp_complete = False, sp_consumed_knowledge = None\<rparr>)
   in \<exists>p' e. program_run (save ''one'') (program_draft 7 9 12) = Inr p' \<and>
        program_run (save ''two'') (history program_run p' [InputRequest 5]) = Inl e"
proof -
  let ?save = "\<lambda>notes. SaveRequest \<lparr>sp_program_id = 7, sp_revision = 1, sp_input_cursor = 0, sp_name = Unchanged,
       sp_intent = Unchanged, sp_basis = Unchanged, sp_boundaries = Unchanged, sp_constraints = Unchanged,
       sp_success = Unchanged, sp_working_notes = SetText (Some notes), sp_pending_question = Unchanged,
       sp_complete = False, sp_consumed_knowledge = None\<rparr>"
  have "\<exists>p'. program_run (?save ''one'') (program_draft 7 9 12) = Inr p'"
    by (simp add: saved_Inr save_program_validate_def program_draft_def patched_def patch_apply_def
        program_texts_def contract_fields_def clear_blank_def opt_has_nul_def has_nul_def
        in_i64_def i64_max_def i64_min_def)
  then obtain p' where p': "program_run (?save ''one'') (program_draft 7 9 12) = Inr p'" by blast
  have "\<exists>e. program_run (?save ''two'') (history program_run p' [InputRequest 5]) = Inl e"
    by (rule program_no_lost_update [OF draft_wf _ _ p']) simp_all
  with p' show ?thesis unfolding Let_def by blast
qed

theorem program_ready_read_all_witness:
  "\<exists>p. pr_latest_input (history program_run p [InputRequest 3]) \<le>
     pr_input_cursor (history program_run p ([InputRequest 3] @
       [SaveRequest (completing_save (history program_run p [InputRequest 3])
          [''n'', ''i'', ''b'', ''l'', ''c'', ''s''])])) \<and> pr_latest_input (history program_run p [InputRequest 3]) = 2"
proof -
  let ?p = "program_draft 7 9 12"
  let ?h = "history program_run ?p [InputRequest 3]"
  let ?s = "SaveRequest (completing_save ?h [''n'', ''i'', ''b'', ''l'', ''c'', ''s''])"
  have h: "?h = ?p\<lparr>pr_revision := 2, pr_latest_input := 2, pr_current_step := Compose\<rparr>"
    by (simp add: attempt_def with_new_input_def program_draft_def checked_add_i64_def
        in_i64_def i64_max_def i64_min_def)
  have wf: "program_wf ?h" using program_box.history_inv draft_wf by blast
  have "\<not> is_nil (pr_id ?h)" "pr_revision ?h < i64_max"
    unfolding h by (simp_all add: program_draft_def i64_max_def)
  from completing_save_accepted [OF wf this, of "[''n'', ''i'', ''b'', ''l'', ''c'', ''s'']"]
  obtain q where q: "program_run ?s ?h = Inr q" "pr_current_step q = Ready"
    by (simp add: has_nul_def is_ascii_graphic_def byte_def del: history.simps) blast
  have "history program_run ?p ([InputRequest 3] @ [?s]) = q" using q(1) by (simp add: history_append)
  with program_ready_read_all [OF draft_wf, of 7 9 12 "[InputRequest 3]" "[?s]"] q(2) h
  show ?thesis by (intro exI [of _ ?p]) simp
qed

theorem program_can_complete_witness:
  "\<exists>q. program_run (SaveRequest (completing_save (program_draft 7 9 12)
       [''n'', ''i'', ''b'', ''l'', ''c'', ''s''])) (program_draft 7 9 12) = Inr q \<and>
     pr_current_step q = Ready \<and> pr_input_cursor q = pr_latest_input q"
proof -
  let ?t = "[''n'', ''i'', ''b'', ''l'', ''c'', ''s'']"
  have "\<forall>t\<in>set ?t. \<not> blank t \<and> \<not> has_nul t" by (simp add: has_nul_def is_ascii_graphic_def byte_def)
  from program_can_complete [OF draft_wf _ _ _ this, of 7 9 12]
  show ?thesis by (simp add: program_draft_def i64_max_def) blast
qed

end
