(* ===== verification/Setups.thy ===== *)
theory Setups
  imports Programs Identity
begin

text \<open>
  \<^verbatim>\<open>crates/domain/src/setup.rs\<close>: the \<^verbatim>\<open>Setup\<close> record that composes one AGENTS.md, and its
  changes \<^verbatim>\<open>saved\<close>, \<^verbatim>\<open>with_new_input\<close> and \<^verbatim>\<open>applied\<close>. A setup is an \<open>inbox\<close> whose settled
  states are the ones that may be published, and an applied setup is final.
\<close>

section \<open>Data\<close>

datatype setup_status = SetupDraft | SetupApplied

datatype setup_step = SetupCompose | SetupWaitingInput | ReadyToApply | SetupComplete

record setup_rec =
  su_id :: uuid
  su_workspace_id :: uuid
  su_host_id :: uuid
  su_directory :: setup_directory
  su_status :: setup_status
  su_revision :: int
  su_content :: "str option"
  su_working_notes :: "str option"
  su_pending_question :: "str option"
  su_current_step :: setup_step
  su_input_cursor :: int
  su_latest_input :: int
  su_max_input_bytes :: int
  su_applied_from_revision :: "int option"
  su_applied_sha256 :: "str option"

record save_setup =
  ss_setup_id :: uuid
  ss_revision :: int
  ss_input_cursor :: int
  ss_ready :: bool
  ss_content :: text_patch
  ss_working_notes :: text_patch
  ss_pending_question :: text_patch

text \<open>\<^verbatim>\<open>SetupSummary\<close> of \<^verbatim>\<open>setup_page.rs\<close>\<close>

record setup_summary =
  sm_id :: uuid
  sm_status :: setup_status
  sm_revision :: int
  sm_current_step :: setup_step

section \<open>Operations\<close>

definition save_setup_validate :: "save_setup \<Rightarrow> unit result" where
  "save_setup_validate ch =
     refuse_if (is_nil (ss_setup_id ch) \<or> ss_revision ch < 1 \<or> ss_input_cursor ch < 0) InvalidArguments"

definition validate_setup_input :: "uuid \<Rightarrow> str \<Rightarrow> unit result" where
  "validate_setup_input request_id input = validate_program_input request_id input"

definition setup_draft :: "uuid \<Rightarrow> uuid \<Rightarrow> uuid \<Rightarrow> setup_directory \<Rightarrow> int \<Rightarrow> setup_rec" where
  "setup_draft ident workspace_id host_id directory max_input_bytes =
     \<lparr>su_id = ident, su_workspace_id = workspace_id, su_host_id = host_id, su_directory = directory,
      su_status = SetupDraft, su_revision = 1, su_content = None, su_working_notes = None,
      su_pending_question = None, su_current_step = SetupCompose, su_input_cursor = 0,
      su_latest_input = 1, su_max_input_bytes = max_input_bytes, su_applied_from_revision = None,
      su_applied_sha256 = None\<rparr>"

definition editable_revision :: "setup_rec \<Rightarrow> int \<Rightarrow> unit result" where
  "editable_revision s revision = checks
     [refuse_if (su_status s = SetupApplied) SetupAlreadyApplied,
      refuse_if (revision \<noteq> su_revision s) StaleRevision]"

definition setup_patched :: "save_setup \<Rightarrow> setup_rec \<Rightarrow> setup_rec" where
  "setup_patched ch s = s\<lparr>
     su_content := patch_apply (ss_content ch) (su_content s),
     su_working_notes := patch_apply (ss_working_notes ch) (su_working_notes s),
     su_pending_question := clear_blank (patch_apply (ss_pending_question ch) (su_pending_question s))\<rparr>"

definition setup_texts :: "setup_rec \<Rightarrow> str option list" where
  "setup_texts s = [su_content s, su_working_notes s, su_pending_question s]"

definition setup_saved :: "setup_rec \<Rightarrow> save_setup \<Rightarrow> setup_rec result" where
  "setup_saved s ch =
     andThen (checks
       [save_setup_validate ch,
        refuse_if (ss_setup_id ch \<noteq> su_id s) NotFound,
        editable_revision s (ss_revision ch),
        refuse_if (ss_input_cursor ch < su_input_cursor s \<or> su_latest_input s < ss_input_cursor ch \<or>
                   (ss_ready ch \<and> ss_input_cursor ch \<noteq> su_latest_input s)) InputPending]) (\<lambda>_.
     (let next = setup_patched ch s in
      andThen (checks
        [refuse_if (list_ex opt_has_nul (setup_texts next)) InvalidArguments,
         refuse_if (ss_ready ch \<and> (opt_blank (su_content next) \<or> su_pending_question next \<noteq> None))
           SetupIncomplete]) (\<lambda>_.
      andThen (ok_or (checked_add_i64 (su_revision s) 1) StorageUnavailable) (\<lambda>rev.
      Inr (next\<lparr>
        su_input_cursor := ss_input_cursor ch,
        su_revision := rev,
        su_current_step :=
          (if ss_ready ch then ReadyToApply
           else if su_pending_question next \<noteq> None then SetupWaitingInput else SetupCompose)\<rparr>)))))"

definition setup_with_new_input :: "setup_rec \<Rightarrow> int \<Rightarrow> int \<Rightarrow> setup_rec result" where
  "setup_with_new_input s revision encoded_bytes =
     andThen (checks
       [refuse_if (revision < 1 \<or> encoded_bytes < 0) InvalidArguments,
        editable_revision s revision]) (\<lambda>_.
     andThen (ok_or (checked_add_i64 (su_revision s) 1) StorageUnavailable) (\<lambda>rev.
     andThen (ok_or (checked_add_i64 (su_latest_input s) 1) StorageUnavailable) (\<lambda>latest.
     Inr (s\<lparr>su_revision := rev, su_latest_input := latest,
             su_max_input_bytes := max (su_max_input_bytes s) encoded_bytes,
             su_current_step := SetupCompose\<rparr>))))"

definition validate_apply :: "setup_rec \<Rightarrow> int \<Rightarrow> unit result" where
  "validate_apply s revision =
     (if revision < 1 then Inl InvalidArguments
      else if su_status s = SetupApplied then
        (if su_applied_from_revision s = Some revision then Inr () else Inl StaleRevision)
      else checks
        [editable_revision s revision,
         refuse_if (su_input_cursor s \<noteq> su_latest_input s) InputPending,
         refuse_if (su_current_step s \<noteq> ReadyToApply \<or> su_pending_question s \<noteq> None \<or>
                    opt_blank (su_content s)) SetupIncomplete])"

definition setup_applied :: "setup_rec \<Rightarrow> int \<Rightarrow> str \<Rightarrow> setup_rec result" where
  "setup_applied s revision sha256 =
     andThen (checks
       [validate_apply s revision,
        refuse_if (su_status s = SetupApplied) SetupAlreadyApplied,
        refuse_if (length sha256 \<noteq> 64 \<or> \<not> list_all is_lower_hexdigit sha256) InvalidArguments]) (\<lambda>_.
     andThen (ok_or (checked_add_i64 (su_revision s) 1) StorageUnavailable) (\<lambda>rev.
     Inr (s\<lparr>su_status := SetupApplied, su_current_step := SetupComplete,
             su_applied_from_revision := Some revision, su_applied_sha256 := Some sha256,
             su_revision := rev\<rparr>)))"

definition setup_summary_of :: "setup_rec \<Rightarrow> setup_summary" where
  "setup_summary_of s = \<lparr>sm_id = su_id s, sm_status = su_status s, sm_revision = su_revision s,
     sm_current_step = su_current_step s\<rparr>"

section \<open>Requests and the step relation\<close>

datatype setup_request =
    SaveSetupRequest save_setup
  | SetupInputRequest int int
  | ApplyRequest int str

fun setup_run :: "setup_request \<Rightarrow> setup_rec \<Rightarrow> setup_rec result" where
  "setup_run (SaveSetupRequest ch) s = setup_saved s ch"
| "setup_run (SetupInputRequest revision bytes) s = setup_with_new_input s revision bytes"
| "setup_run (ApplyRequest revision sha256) s = setup_applied s revision sha256"

fun setup_expected :: "setup_request \<Rightarrow> int option" where
  "setup_expected (SaveSetupRequest ch) = Some (ss_revision ch)"
| "setup_expected (SetupInputRequest revision _) = Some revision"
| "setup_expected (ApplyRequest revision _) = Some revision"

inductive setup_reaches :: "setup_rec \<Rightarrow> setup_rec \<Rightarrow> bool" where
  setup_start: "setup_reaches s s"
| setup_step: "setup_reaches s t \<Longrightarrow> setup_run request t = Inr t' \<Longrightarrow> setup_reaches s t'"

inductive_cases setup_stepE: "setup_reaches s t"

section \<open>The invariant\<close>

definition sha256_text :: "str \<Rightarrow> bool" where
  "sha256_text s \<longleftrightarrow> length s = 64 \<and> list_all is_lower_hexdigit s"

definition publishable :: "setup_rec \<Rightarrow> bool" where
  "publishable s \<longleftrightarrow> su_input_cursor s = su_latest_input s \<and> su_pending_question s = None \<and>
     \<not> opt_blank (su_content s)"

definition setup_wf :: "setup_rec \<Rightarrow> bool" where
  "setup_wf s \<longleftrightarrow>
     1 \<le> su_revision s \<and> in_i64 (su_revision s) \<and>
     0 \<le> su_input_cursor s \<and> su_input_cursor s \<le> su_latest_input s \<and> in_i64 (su_latest_input s) \<and>
     \<not> list_ex opt_has_nul (setup_texts s) \<and>
     (su_pending_question s = None \<or> \<not> opt_blank (su_pending_question s)) \<and>
     (su_current_step s = SetupComplete \<longleftrightarrow> su_status s = SetupApplied) \<and>
     (su_current_step s \<in> {ReadyToApply, SetupComplete} \<longrightarrow> publishable s) \<and>
     (su_current_step s = SetupWaitingInput \<longrightarrow> su_pending_question s \<noteq> None) \<and>
     (if su_status s = SetupApplied
      then su_applied_from_revision s = Some (su_revision s - 1) \<and> 2 \<le> su_revision s \<and>
           (\<exists>d. su_applied_sha256 s = Some d \<and> sha256_text d)
      else su_applied_from_revision s = None \<and> su_applied_sha256 s = None)"

lemma setup_draft_wf: "setup_wf (setup_draft i w h d m)"
  by (simp add: setup_wf_def setup_draft_def setup_texts_def opt_has_nul_def in_i64_def i64_max_def i64_min_def)

lemma editable_Inr [check_simps]:
  "editable_revision s revision = Inr u \<longleftrightarrow> su_status s = SetupDraft \<and> revision = su_revision s"
  by (cases "su_status s") (auto simp: editable_revision_def check_simps)

lemma setup_patched_simps [simp]:
  "su_id (setup_patched ch s) = su_id s" "su_status (setup_patched ch s) = su_status s"
  "su_revision (setup_patched ch s) = su_revision s"
  "su_latest_input (setup_patched ch s) = su_latest_input s"
  "su_applied_from_revision (setup_patched ch s) = su_applied_from_revision s"
  "su_applied_sha256 (setup_patched ch s) = su_applied_sha256 s"
  "su_workspace_id (setup_patched ch s) = su_workspace_id s" "su_host_id (setup_patched ch s) = su_host_id s"
  "su_directory (setup_patched ch s) = su_directory s"
  by (simp_all add: setup_patched_def)

lemma setup_patched_question:
  "su_pending_question (setup_patched ch s) = None \<or> \<not> opt_blank (su_pending_question (setup_patched ch s))"
  using clear_blank_cases by (simp add: setup_patched_def)

lemma setup_saved_Inr:
  "setup_saved s ch = Inr t \<longleftrightarrow>
     save_setup_validate ch = Inr () \<and> ss_setup_id ch = su_id s \<and> su_status s = SetupDraft \<and>
     ss_revision ch = su_revision s \<and> su_input_cursor s \<le> ss_input_cursor ch \<and>
     ss_input_cursor ch \<le> su_latest_input s \<and> (ss_ready ch \<longrightarrow> ss_input_cursor ch = su_latest_input s) \<and>
     \<not> list_ex opt_has_nul (setup_texts (setup_patched ch s)) \<and>
     (ss_ready ch \<longrightarrow> \<not> opt_blank (su_content (setup_patched ch s)) \<and>
        su_pending_question (setup_patched ch s) = None) \<and>
     in_i64 (su_revision s + 1) \<and>
     t = (setup_patched ch s)\<lparr>
       su_input_cursor := ss_input_cursor ch, su_revision := su_revision s + 1,
       su_current_step := (if ss_ready ch then ReadyToApply
          else if su_pending_question (setup_patched ch s) \<noteq> None then SetupWaitingInput else SetupCompose)\<rparr>"
  by (auto simp: setup_saved_def Let_def check_simps checked_add_i64_Some)

lemma setup_with_new_input_Inr:
  "setup_with_new_input s revision bytes = Inr t \<longleftrightarrow>
     1 \<le> revision \<and> 0 \<le> bytes \<and> su_status s = SetupDraft \<and> revision = su_revision s \<and>
     in_i64 (su_revision s + 1) \<and> in_i64 (su_latest_input s + 1) \<and>
     t = s\<lparr>su_revision := su_revision s + 1, su_latest_input := su_latest_input s + 1,
           su_max_input_bytes := max (su_max_input_bytes s) bytes, su_current_step := SetupCompose\<rparr>"
  by (auto simp: setup_with_new_input_def check_simps checked_add_i64_Some)

lemma validate_apply_draft:
  "su_status s = SetupDraft \<Longrightarrow> validate_apply s revision = Inr () \<longleftrightarrow>
     1 \<le> revision \<and> revision = su_revision s \<and> su_current_step s = ReadyToApply \<and> publishable s"
  by (auto simp: validate_apply_def check_simps publishable_def)

lemma setup_applied_Inr:
  "setup_applied s revision sha256 = Inr t \<longleftrightarrow>
     su_status s = SetupDraft \<and> 1 \<le> revision \<and> revision = su_revision s \<and>
     su_current_step s = ReadyToApply \<and> publishable s \<and> sha256_text sha256 \<and> in_i64 (su_revision s + 1) \<and>
     t = s\<lparr>su_status := SetupApplied, su_current_step := SetupComplete,
           su_applied_from_revision := Some revision, su_applied_sha256 := Some sha256,
           su_revision := su_revision s + 1\<rparr>"
  by (cases "su_status s")
    (auto simp: setup_applied_def validate_apply_draft check_simps checked_add_i64_Some sha256_text_def)

lemmas setup_steps = setup_saved_Inr setup_with_new_input_Inr setup_applied_Inr

lemma setup_saved_wf:
  assumes wf: "setup_wf s" and run: "setup_saved s ch = Inr t" shows "setup_wf t"
proof -
  note s = run [unfolded setup_saved_Inr]
  have d: "su_status s = SetupDraft" "1 \<le> su_revision s" "0 \<le> su_input_cursor s" "in_i64 (su_latest_input s)"
    "su_applied_from_revision s = None" "su_applied_sha256 s = None"
    using wf s by (simp_all add: setup_wf_def)
  show ?thesis using s d setup_patched_question [of ch s]
    by (auto simp: setup_wf_def publishable_def setup_texts_def)
qed

lemma setup_run_wf: "setup_wf s \<Longrightarrow> setup_run request s = Inr t \<Longrightarrow> setup_wf t"
proof (cases request)
  case (SaveSetupRequest ch)
  assume "setup_wf s" "setup_run request s = Inr t"
  with SaveSetupRequest show ?thesis using setup_saved_wf by simp
next
  case (SetupInputRequest r b)
  assume "setup_wf s" "setup_run request s = Inr t"
  with SetupInputRequest show ?thesis
    by (auto simp: setup_with_new_input_Inr setup_wf_def setup_texts_def publishable_def)
next
  case (ApplyRequest r d)
  assume "setup_wf s" "setup_run request s = Inr t"
  with ApplyRequest show ?thesis
    by (auto simp: setup_applied_Inr setup_wf_def setup_texts_def publishable_def)
qed

lemma setup_run_revision: "setup_run request s = Inr t \<Longrightarrow> su_revision t = su_revision s + 1"
  by (cases request) (auto simp: setup_steps)

lemma setup_run_expected:
  "setup_run request s = Inr t \<Longrightarrow> setup_expected request = Some r \<Longrightarrow> r = su_revision s"
  by (cases request) (auto simp: setup_steps)

lemma setup_run_draft: "setup_run request s = Inr t \<Longrightarrow> su_status s = SetupDraft"
  by (cases request) (auto simp: setup_steps)

lemma setup_cursor_bounds: "setup_wf s \<Longrightarrow> 0 \<le> su_input_cursor s \<and> su_input_cursor s \<le> su_latest_input s"
  by (simp add: setup_wf_def)

lemma setup_run_cursor: "setup_run request s = Inr t \<Longrightarrow> su_input_cursor s \<le> su_input_cursor t"
  by (cases request) (auto simp: setup_steps)

lemma setup_run_latest:
  "setup_run request s = Inr t \<Longrightarrow>
     su_latest_input t = su_latest_input s \<or> su_latest_input t = su_latest_input s + 1"
  by (cases request) (auto simp: setup_steps)

lemma setup_settled_read:
  "setup_wf s \<Longrightarrow> su_current_step s \<in> {ReadyToApply, SetupComplete} \<Longrightarrow> su_input_cursor s = su_latest_input s"
  by (auto simp: setup_wf_def publishable_def)

lemmas setup_contract = setup_run_wf setup_run_revision setup_run_expected setup_cursor_bounds
  setup_run_cursor setup_run_latest setup_settled_read

interpretation setup_box: inbox setup_run setup_wf su_revision setup_expected
    su_input_cursor su_latest_input "\<lambda>s. su_current_step s \<in> {ReadyToApply, SetupComplete}"
  by unfold_locales (rule setup_contract; assumption)+

text \<open>An applied setup refuses every request, so no history moves it.\<close>

lemma applied_refuses: "su_status s = SetupApplied \<Longrightarrow> \<exists>e. setup_run request s = Inl e"
  using setup_run_draft [of request s] by (cases "setup_run request s") auto

lemma applied_history: "su_status s = SetupApplied \<Longrightarrow> history setup_run s requests = s"
proof (induction requests)
  case (Cons request requests)
  then obtain e where "setup_run request s = Inl e" using applied_refuses by blast
  with Cons show ?case by simp
qed simp

lemma setup_reaches_wf: "setup_reaches s t \<Longrightarrow> setup_wf s \<Longrightarrow> setup_wf t"
  by (induction rule: setup_reaches.induct) (blast intro: setup_run_wf)+

lemma reaches_ready:
  "setup_reaches s t \<Longrightarrow> su_current_step s = SetupCompose \<Longrightarrow> su_current_step t = ReadyToApply \<Longrightarrow>
     \<exists>u ch. setup_reaches s u \<and> setup_run (SaveSetupRequest ch) u = Inr t \<and> ss_ready ch"
proof (induction rule: setup_reaches.induct)
  case (setup_step s t request t')
  then show ?case by (cases request) (fastforce simp: setup_steps split: if_splits)+
qed simp

section \<open>Properties\<close>

text \<open>
  C39: every setup reachable from a fresh draft by accepted requests is well formed: cursor within
  inputs, no NUL in a text, a setup that is ready to apply or applied has read every input, has filled
  content and no open question, and the applied status, the complete step, the revision applied
  from and a 64 digit lower-case hash occur together or not at all.
\<close>

theorem setup_reachable_wf:
  assumes "setup_reaches (setup_draft i w h d m) t"
  shows "setup_wf t"
  using assms setup_draft_wf by (rule setup_reaches_wf)

definition example_directory :: setup_directory where
  "example_directory = \<lparr>sd_path = ''/w'', sd_device = 1, sd_inode = 2\<rparr>"

theorem setup_reachable_wf_witness:
  "\<exists>t. setup_reaches (setup_draft 1 2 3 example_directory 4) t \<and> su_revision t = 2 \<and> setup_wf t"
proof -
  let ?t = "(setup_draft 1 2 3 example_directory 4)\<lparr>su_revision := 2, su_latest_input := 2, su_max_input_bytes := 9\<rparr>"
  have "setup_run (SetupInputRequest 1 9) (setup_draft 1 2 3 example_directory 4) = Inr ?t"
    by (simp add: setup_with_new_input_Inr setup_draft_def in_i64_def i64_max_def i64_min_def)
  with setup_reaches.intros have r: "setup_reaches (setup_draft 1 2 3 example_directory 4) ?t" by blast
  show ?thesis by (rule exI [of _ ?t]) (simp add: r setup_reachable_wf [OF r])
qed

text \<open>
  An applied setup is final and its publication can be replayed. After any further history of
  requests it is still the same, every request on it is refused, and the apply check accepts exactly the
  revision it was applied from, so a repeated apply succeeds and any other apply is stale.
\<close>

theorem setup_applied_final:
  assumes "setup_wf s" and "su_status s = SetupApplied"
  shows "history setup_run s requests = s \<and> (\<exists>e. setup_run request (history setup_run s requests) = Inl e) \<and>
     (validate_apply (history setup_run s requests) revision = Inr () \<longleftrightarrow> revision = su_revision s - 1)"
  using applied_history [OF assms(2), of requests] applied_refuses [OF assms(2), of request] assms
  by (auto simp: validate_apply_def setup_wf_def)

text \<open>
  C40: only what was declared ready is published. The request accepted last before an accepted apply is a
  save marked ready, made with every input read, and what is published is the content which
  that save left; the applied setup remembers exactly that revision.
\<close>

theorem setup_publishes_ready_save:
  assumes "setup_reaches (setup_draft i w h d m) s" and "setup_run (ApplyRequest revision sha256) s = Inr t"
  shows "\<exists>u ch. setup_reaches (setup_draft i w h d m) u \<and> setup_run (SaveSetupRequest ch) u = Inr s \<and>
     ss_ready ch \<and> ss_input_cursor ch = su_latest_input u \<and>
     su_content t = patch_apply (ss_content ch) (su_content u) \<and>
     su_applied_from_revision t = Some (su_revision s)"
proof -
  note a = assms(2) [simplified, unfolded setup_applied_Inr]
  have "su_current_step (setup_draft i w h d m) = SetupCompose" by (simp add: setup_draft_def)
  from reaches_ready [OF assms(1) this] a obtain u ch where
    u: "setup_reaches (setup_draft i w h d m) u" "setup_run (SaveSetupRequest ch) u = Inr s" "ss_ready ch"
    by blast
  from u(2) have "setup_saved u ch = Inr s" by simp
  then have "su_content s = patch_apply (ss_content ch) (su_content u)" "ss_input_cursor ch = su_latest_input u"
    using u(3) by (auto simp: setup_saved_Inr setup_patched_def)
  with u a show ?thesis by (intro exI [of _ u] exI [of _ ch]) auto
qed


text \<open>A draft, one ready save, one apply.\<close>

definition example_ready_save :: save_setup where
  "example_ready_save = \<lparr>ss_setup_id = 1, ss_revision = 1, ss_input_cursor = 1, ss_ready = True,
     ss_content = SetText (Some ''agents''), ss_working_notes = Unchanged, ss_pending_question = Unchanged\<rparr>"

definition example_hash :: str where "example_hash = replicate 64 CHR ''a''"

lemma example_run:
  obtains s t where "setup_run (SaveSetupRequest example_ready_save) (setup_draft 1 2 3 d 4) = Inr s"
    and "setup_run (ApplyRequest 2 example_hash) s = Inr t" and "su_revision t = 3"
proof -
  have "\<exists>s. setup_saved (setup_draft 1 2 3 d 4) example_ready_save = Inr s \<and>
     (\<exists>t. setup_applied s 2 example_hash = Inr t \<and> su_revision t = 3)"
    by (simp add: setup_steps save_setup_validate_def example_ready_save_def setup_draft_def setup_patched_def
        patch_apply_def clear_blank_def setup_texts_def opt_has_nul_def has_nul_def opt_blank_def
        publishable_def sha256_text_def example_hash_def is_lower_hexdigit_def byte_def
        is_ascii_graphic_def in_i64_def i64_max_def i64_min_def list_all_iff)
  then show thesis using that by (auto simp del: setup_run.simps simp: setup_run.simps [symmetric])
qed

theorem setup_applied_final_witness:
  "\<exists>s. setup_wf s \<and> su_status s = SetupApplied \<and>
     history setup_run s [SaveSetupRequest example_ready_save] = s \<and> validate_apply s 2 = Inr ()"
proof -
  obtain s t where r: "setup_run (SaveSetupRequest example_ready_save) (setup_draft 1 2 3 example_directory 4) = Inr s"
    "setup_run (ApplyRequest 2 example_hash) s = Inr t" "su_revision t = 3" by (rule example_run)
  have wf: "setup_wf t" using r setup_draft_wf setup_run_wf by blast
  have ap: "su_status t = SetupApplied" using r(2) by (auto simp: setup_applied_Inr)
  show ?thesis using setup_applied_final [OF wf ap, of "[SaveSetupRequest example_ready_save]" "ApplyRequest 2 example_hash" 2] wf ap r(3)
    by (intro exI [of _ t] conjI) auto
qed

theorem setup_publishes_ready_save_witness:
  "\<exists>t :: setup_rec. su_content t = Some ''agents'' \<and> su_applied_from_revision t = Some 2"
proof -
  obtain s t where r: "setup_run (SaveSetupRequest example_ready_save) (setup_draft 1 2 3 example_directory 4) = Inr s"
    "setup_run (ApplyRequest 2 example_hash) s = Inr t" "su_revision t = 3" by (rule example_run)
  have reach: "setup_reaches (setup_draft 1 2 3 example_directory 4) s"
    using r(1) setup_reaches.intros by blast
  have "su_content s = Some ''agents''"
    using r(1) by (auto simp: setup_saved_Inr setup_patched_def patch_apply_def example_ready_save_def)
  moreover have "su_content t = su_content s" using r(2) by (auto simp: setup_applied_Inr)
  moreover have "su_applied_from_revision t = Some 2"
    using setup_publishes_ready_save [OF reach r(2)] setup_run_revision [OF r(2)] r(3) by auto
  ultimately have "su_content t = Some ''agents'' \<and> su_applied_from_revision t = Some 2" by simp
  then show ?thesis by blast
qed

end
