(* ===== verification/CandidateDelta.thy ===== *)
theory CandidateDelta
  imports Errors
begin

text \<open>
  \<^verbatim>\<open>crates/domain/src/candidate_delta.rs\<close>: batches of typed mutations of the scope-candidate
  graph, their validation, their replay check and the areas of a review that they make stale.
\<close>

section \<open>Data\<close>

definition MAX_DELTA_OPERATIONS :: nat where "MAX_DELTA_OPERATIONS = 100"
definition MAX_IDEMPOTENCY_KEY_BYTES :: nat where "MAX_IDEMPOTENCY_KEY_BYTES = 128"

datatype delta_target_kind = TargetGoal | TargetCandidate

record goal_delta_value =
  gv_text :: str
  gv_finite :: bool
  gv_source_ref_id :: uuid

record candidate_delta_value =
  cv_title :: str
  cv_outcome :: "str option"

record evidence_delta_value =
  ev_summary :: str
  ev_source_ref_id :: uuid

record blocker_delta_value =
  bv_summary :: str
  bv_source_ref_id :: uuid

datatype delta_operation =
    GoalAdd uuid goal_delta_value
  | GoalResolve uuid int
  | CandidateAdd uuid candidate_delta_value
  | CandidateUpdate uuid int candidate_delta_value
  | CandidateRemove uuid int
  | CandidateSupersede uuid uuid int
  | CoverageLink uuid uuid
  | CoverageUnlink uuid uuid
  | EvidenceAdd uuid delta_target_kind uuid evidence_delta_value
  | EvidenceUpdate uuid int evidence_delta_value
  | EvidenceRemove uuid int
  | BlockerAdd uuid uuid blocker_delta_value
  | BlockerUpdate uuid int blocker_delta_value
  | BlockerRemove uuid int

record delta_batch =
  db_candidate_set_id :: uuid
  db_expected_revision :: int
  db_idempotency_key :: str
  db_operations :: "delta_operation list"

record delta_receipt =
  dr_candidate_set_id :: uuid
  dr_idempotency_key :: str
  dr_from_revision :: int
  dr_to_revision :: int
  dr_stale_reasons :: "str list"

section \<open>Validation\<close>

definition valid_text :: "str \<Rightarrow> bool" where
  "valid_text s \<longleftrightarrow> \<not> blank s \<and> \<not> has_nul s"

definition opt_bad_text :: "str option \<Rightarrow> bool" where
  "opt_bad_text x = (case x of None \<Rightarrow> False | Some s \<Rightarrow> \<not> valid_text s)"

text \<open>The set of created identifiers is threaded through the operations.\<close>

definition require_create :: "uuid set \<Rightarrow> uuid \<Rightarrow> uuid set result" where
  "require_create creates i =
     (if is_nil i \<or> i \<in> creates then Inl InvalidArguments else Inr (insert i creates))"

fun delta_operation_validate :: "delta_operation \<Rightarrow> uuid set \<Rightarrow> uuid set result" where
  "delta_operation_validate (GoalAdd goal v) creates =
     andThen (require_create creates goal) (\<lambda>created.
       if \<not> valid_text (gv_text v) \<or> is_nil (gv_source_ref_id v) then Inl InvalidArguments else Inr created)"
| "delta_operation_validate (CandidateAdd candidate v) creates =
     andThen (require_create creates candidate) (\<lambda>created.
       if \<not> valid_text (cv_title v) \<or> opt_bad_text (cv_outcome v) then Inl InvalidArguments else Inr created)"
| "delta_operation_validate (EvidenceAdd evidence _ target v) creates =
     andThen (require_create creates evidence) (\<lambda>created.
       if is_nil target \<or> is_nil (ev_source_ref_id v) \<or> \<not> valid_text (ev_summary v)
       then Inl InvalidArguments else Inr created)"
| "delta_operation_validate (BlockerAdd blocker goal v) creates =
     andThen (require_create creates blocker) (\<lambda>created.
       if is_nil goal \<or> is_nil (bv_source_ref_id v) \<or> \<not> valid_text (bv_summary v)
       then Inl InvalidArguments else Inr created)"
| "delta_operation_validate (GoalResolve i revision) creates =
     (if is_nil i \<or> revision < 1 then Inl InvalidArguments else Inr creates)"
| "delta_operation_validate (CandidateRemove i revision) creates =
     (if is_nil i \<or> revision < 1 then Inl InvalidArguments else Inr creates)"
| "delta_operation_validate (EvidenceRemove i revision) creates =
     (if is_nil i \<or> revision < 1 then Inl InvalidArguments else Inr creates)"
| "delta_operation_validate (BlockerRemove i revision) creates =
     (if is_nil i \<or> revision < 1 then Inl InvalidArguments else Inr creates)"
| "delta_operation_validate (CandidateUpdate candidate revision v) creates =
     (if is_nil candidate \<or> revision < 1 \<or> \<not> valid_text (cv_title v) \<or> opt_bad_text (cv_outcome v)
      then Inl InvalidArguments else Inr creates)"
| "delta_operation_validate (CandidateSupersede candidate replacement revision) creates =
     (if is_nil candidate \<or> is_nil replacement \<or> candidate = replacement \<or> revision < 1
      then Inl InvalidArguments else Inr creates)"
| "delta_operation_validate (CoverageLink candidate goal) creates =
     (if is_nil candidate \<or> is_nil goal then Inl InvalidArguments else Inr creates)"
| "delta_operation_validate (CoverageUnlink candidate goal) creates =
     (if is_nil candidate \<or> is_nil goal then Inl InvalidArguments else Inr creates)"
| "delta_operation_validate (EvidenceUpdate evidence revision v) creates =
     (if is_nil evidence \<or> revision < 1 \<or> is_nil (ev_source_ref_id v) \<or> \<not> valid_text (ev_summary v)
      then Inl InvalidArguments else Inr creates)"
| "delta_operation_validate (BlockerUpdate blocker revision v) creates =
     (if is_nil blocker \<or> revision < 1 \<or> is_nil (bv_source_ref_id v) \<or> \<not> valid_text (bv_summary v)
      then Inl InvalidArguments else Inr creates)"

fun delta_operations_validate :: "delta_operation list \<Rightarrow> uuid set \<Rightarrow> unit result" where
  "delta_operations_validate [] creates = Inr ()"
| "delta_operations_validate (operation # rest) creates =
     andThen (delta_operation_validate operation creates) (delta_operations_validate rest)"

definition delta_batch_validate :: "delta_batch \<Rightarrow> unit result" where
  "delta_batch_validate b = checks
     [refuse_if
        (is_nil (db_candidate_set_id b) \<or> db_expected_revision b < 1 \<or> db_idempotency_key b = [] \<or>
         MAX_IDEMPOTENCY_KEY_BYTES < length (db_idempotency_key b) \<or> db_operations b = [] \<or>
         MAX_DELTA_OPERATIONS < length (db_operations b) \<or>
         \<not> list_all is_ascii_graphic (db_idempotency_key b)) InvalidArguments,
      delta_operations_validate (db_operations b) {}]"

definition validate_replay :: "delta_batch option \<Rightarrow> delta_batch \<Rightarrow> bool result" where
  "validate_replay stored request =
     andThen (delta_batch_validate request) (\<lambda>_.
       case stored of
         None \<Rightarrow> Inr False
       | Some previous \<Rightarrow> if previous = request then Inr True else Inl InputConflict)"

section \<open>Stale areas\<close>

fun stale_area :: "delta_operation \<Rightarrow> str" where
  "stale_area (GoalAdd _ _) = ''goals''"
| "stale_area (GoalResolve _ _) = ''goals''"
| "stale_area (CandidateAdd _ _) = ''candidates''"
| "stale_area (CandidateUpdate _ _ _) = ''candidates''"
| "stale_area (CandidateRemove _ _) = ''candidates''"
| "stale_area (CandidateSupersede _ _ _) = ''candidates''"
| "stale_area (CoverageLink _ _) = ''coverage''"
| "stale_area (CoverageUnlink _ _) = ''coverage''"
| "stale_area (EvidenceAdd _ _ _ _) = ''evidence''"
| "stale_area (EvidenceUpdate _ _ _) = ''evidence''"
| "stale_area (EvidenceRemove _ _) = ''evidence''"
| "stale_area (BlockerAdd _ _ _) = ''blockers''"
| "stale_area (BlockerUpdate _ _ _) = ''blockers''"
| "stale_area (BlockerRemove _ _) = ''blockers''"

definition stale_reasons :: "delta_operation list \<Rightarrow> str list" where
  "stale_reasons operations = btree_list (map stale_area operations)"

section \<open>What an accepted batch looks like\<close>

text \<open>The identifier that an operation creates, and the conditions on an operation by itself.\<close>

fun created_id :: "delta_operation \<Rightarrow> uuid option" where
  "created_id (GoalAdd i _) = Some i"
| "created_id (CandidateAdd i _) = Some i"
| "created_id (EvidenceAdd i _ _ _) = Some i"
| "created_id (BlockerAdd i _ _) = Some i"
| "created_id _ = None"

text \<open>Every identifier that an operation names, the revisions it was prepared against, its texts.\<close>

fun named_ids :: "delta_operation \<Rightarrow> uuid list" where
  "named_ids (GoalAdd i v) = [i, gv_source_ref_id v]"
| "named_ids (GoalResolve i _) = [i]"
| "named_ids (CandidateAdd i _) = [i]"
| "named_ids (CandidateUpdate i _ _) = [i]"
| "named_ids (CandidateRemove i _) = [i]"
| "named_ids (CandidateSupersede i j _) = [i, j]"
| "named_ids (CoverageLink i j) = [i, j]"
| "named_ids (CoverageUnlink i j) = [i, j]"
| "named_ids (EvidenceAdd i _ j v) = [i, j, ev_source_ref_id v]"
| "named_ids (EvidenceUpdate i _ v) = [i, ev_source_ref_id v]"
| "named_ids (EvidenceRemove i _) = [i]"
| "named_ids (BlockerAdd i j v) = [i, j, bv_source_ref_id v]"
| "named_ids (BlockerUpdate i _ v) = [i, bv_source_ref_id v]"
| "named_ids (BlockerRemove i _) = [i]"

fun named_revision :: "delta_operation \<Rightarrow> int option" where
  "named_revision (GoalResolve _ r) = Some r"
| "named_revision (CandidateUpdate _ r _) = Some r"
| "named_revision (CandidateRemove _ r) = Some r"
| "named_revision (CandidateSupersede _ _ r) = Some r"
| "named_revision (EvidenceUpdate _ r _) = Some r"
| "named_revision (EvidenceRemove _ r) = Some r"
| "named_revision (BlockerUpdate _ r _) = Some r"
| "named_revision (BlockerRemove _ r) = Some r"
| "named_revision _ = None"

fun named_texts :: "delta_operation \<Rightarrow> str list" where
  "named_texts (GoalAdd _ v) = [gv_text v]"
| "named_texts (CandidateAdd _ v) = cv_title v # (case cv_outcome v of None \<Rightarrow> [] | Some s \<Rightarrow> [s])"
| "named_texts (CandidateUpdate _ _ v) = cv_title v # (case cv_outcome v of None \<Rightarrow> [] | Some s \<Rightarrow> [s])"
| "named_texts (EvidenceAdd _ _ _ v) = [ev_summary v]"
| "named_texts (EvidenceUpdate _ _ v) = [ev_summary v]"
| "named_texts (BlockerAdd _ _ v) = [bv_summary v]"
| "named_texts (BlockerUpdate _ _ v) = [bv_summary v]"
| "named_texts _ = []"

definition self_supersession :: "delta_operation \<Rightarrow> bool" where
  "self_supersession operation = (case operation of CandidateSupersede i j _ \<Rightarrow> i = j | _ \<Rightarrow> False)"

definition operation_ok :: "delta_operation \<Rightarrow> bool" where
  "operation_ok operation \<longleftrightarrow> 0 \<notin> set (named_ids operation) \<and>
     (case named_revision operation of None \<Rightarrow> True | Some r \<Rightarrow> 1 \<le> r) \<and>
     list_all valid_text (named_texts operation) \<and> \<not> self_supersession operation"

definition creations :: "delta_operation list \<Rightarrow> uuid list" where
  "creations operations = List.map_filter created_id operations"

lemma creations_simps [simp]:
  "creations [] = []"
  "creations (x # xs) = (case created_id x of None \<Rightarrow> creations xs | Some i \<Rightarrow> i # creations xs)"
  by (simp_all add: creations_def List.map_filter_def split: option.splits)

lemma delta_operation_Inr:
  "delta_operation_validate operation creates = Inr created \<longleftrightarrow>
     operation_ok operation \<and>
     (case created_id operation of None \<Rightarrow> created = creates
      | Some i \<Rightarrow> i \<notin> creates \<and> created = insert i creates)"
  by (cases operation)
    (auto simp: operation_ok_def self_supersession_def require_create_def andThen_Inr opt_bad_text_def
       split: option.splits if_splits)

lemma delta_operations_Inr:
  "delta_operations_validate operations creates = Inr () \<longleftrightarrow>
     list_all operation_ok operations \<and> distinct (creations operations) \<and>
     set (creations operations) \<inter> creates = {}"
  by (induction operations arbitrary: creates)
    (auto simp: andThen_Inr delta_operation_Inr split: option.splits)

section \<open>Properties\<close>

text \<open>
  A batch is accepted exactly when its header is within bounds, each operation by itself names
  no nil identifier, no revision below 1, no blank text and no candidate superseded by itself, and
  no two operations of the batch create the same identifier. The order of the operations is irrelevant.
\<close>

theorem delta_batch_accepts_iff:
  "delta_batch_validate b = Inr () \<longleftrightarrow>
     db_candidate_set_id b \<noteq> 0 \<and> 1 \<le> db_expected_revision b \<and>
     length (db_idempotency_key b) \<in> {1..128} \<and> list_all is_ascii_graphic (db_idempotency_key b) \<and>
     length (db_operations b) \<in> {1..100} \<and>
     list_all operation_ok (db_operations b) \<and> distinct (creations (db_operations b))"
  by (auto simp: delta_batch_validate_def check_simps delta_operations_Inr MAX_DELTA_OPERATIONS_def
      MAX_IDEMPOTENCY_KEY_BYTES_def Suc_le_eq)

text \<open>
  Replay. A request is applied as new only when nothing is stored under its key, is reported as
  a replay exactly when the stored batch equals it, and never replaces a different stored batch; the stale
  areas of a batch are the distinct areas of its operations, in ascending order, and do not
  depend on how the operations are ordered or repeated.
\<close>

theorem delta_replay_exact:
  "(validate_replay stored request = Inr True \<longleftrightarrow> stored = Some request \<and> delta_batch_validate request = Inr ()) \<and>
   (validate_replay stored request = Inr False \<longleftrightarrow> stored = None \<and> delta_batch_validate request = Inr ()) \<and>
   sorted (stale_reasons operations) \<and> distinct (stale_reasons operations) \<and>
   set (stale_reasons operations) = stale_area ` set operations"
  by (auto simp: validate_replay_def stale_reasons_def andThen_Inr split: option.splits if_splits)

end
