(* ===== verification/CandidateDraft.thy ===== *)
theory CandidateDraft
  imports Programs CandidateDelta
begin

text \<open>
  \<^verbatim>\<open>crates/domain/src/scope_candidate_draft.rs\<close> and \<^verbatim>\<open>scope_candidate_validation.rs\<close>: the draft
  of a scope-candidate graph that an agent submits (goals, evidence, candidates, blockers,
  protected changes and supersessions), the resolved graph it becomes, and the draft's validation.
\<close>

section \<open>Identities and references\<close>

record draft_identity =
  di_local :: "str option"
  di_id :: "uuid option"
  di_revision :: "int option"

definition handle_char :: "char \<Rightarrow> bool" where
  "handle_char c \<longleftrightarrow> is_ascii_alphanumeric c \<or> c \<in> {CHR ''.'', CHR ''_'', CHR ''-''}"

definition identity_validate :: "draft_identity \<Rightarrow> unit result" where
  "identity_validate d =
     (case (di_local d, di_id d, di_revision d) of
        (Some label, None, None) \<Rightarrow>
          if label \<noteq> [] \<and> length label \<le> 64 \<and> list_all handle_char label then Inr () else Inl InvalidArguments
      | (None, Some i, Some revision) \<Rightarrow>
          if \<not> is_nil i \<and> 1 \<le> revision then Inr () else Inl InvalidArguments
      | _ \<Rightarrow> Inl InvalidArguments)"

record candidate_ref =
  cr_local :: "str option"
  cr_id :: "uuid option"

definition ref_validate :: "candidate_ref \<Rightarrow> unit result" where
  "ref_validate r =
     (case (cr_local r, cr_id r) of
        (Some label, None) \<Rightarrow> if label \<noteq> [] \<and> length label \<le> 64 then Inr () else Inl InvalidArguments
      | (None, Some i) \<Rightarrow> if \<not> is_nil i then Inr () else Inl InvalidArguments
      | _ \<Rightarrow> Inl InvalidArguments)"

section \<open>Draft entities\<close>

datatype candidate_boundary = Finite | Ongoing

datatype coverage_resolution_kind = ResolveCandidate | ResolveEvidence | ResolveBlocker

record coverage_resolution_draft =
  rd_kind :: coverage_resolution_kind
  rd_reference :: candidate_ref

record coverage_goal_draft =
  gd_identity :: draft_identity
  gd_text :: str
  gd_source_ref_id :: uuid
  gd_exact_quote :: "str option"
  gd_resolution :: coverage_resolution_draft

datatype evidence_kind = VerifiedEvidence | AcceptedWork

record evidence_draft =
  ed_identity :: draft_identity
  ed_kind :: evidence_kind
  ed_summary :: str
  ed_source_ref_id :: uuid
  ed_authority_input_sequence :: "int option"

record candidate_draft =
  cd_identity :: draft_identity
  cd_change_rationale :: "str option"
  cd_title :: str
  cd_outcome :: str
  cd_trigger :: str
  cd_delivered_behavior :: str
  cd_proof :: str
  cd_includes :: "str list"
  cd_excludes :: "str list"
  cd_dependencies :: "candidate_ref list"
  cd_coverage_goals :: "candidate_ref list"
  cd_evidence :: "candidate_ref list"

record blocker_draft =
  bd_identity :: draft_identity
  bd_summary :: str
  bd_source_ref_id :: uuid

record candidate_supersession_draft =
  cs_candidate_id :: uuid
  cs_revision :: int
  cs_reason :: str
  cs_replacements :: "candidate_ref list"

datatype protected_change_disposition = Delete | Replace | Reassociate

record protected_change_draft =
  pc_accepted_evidence_id :: uuid
  pc_prior_candidate_id :: "uuid option"
  pc_disposition :: protected_change_disposition
  pc_rationale :: str
  pc_authority_source_ref_id :: uuid
  pc_replacement_evidence :: "candidate_ref option"
  pc_target_candidate :: "candidate_ref option"

datatype empty_disposition_kind = AllCovered | OutOfBoundary | NeedsInput

record empty_candidate_disposition =
  em_kind :: empty_disposition_kind
  em_reason :: str
  em_source_ref_id :: uuid

record scope_candidate_draft =
  sd_boundary :: candidate_boundary
  sd_goals :: "coverage_goal_draft list"
  sd_evidence :: "evidence_draft list"
  sd_candidates :: "candidate_draft list"
  sd_blockers :: "blocker_draft list"
  sd_pending_question :: "str option"
  sd_empty_disposition :: "empty_candidate_disposition option"
  sd_protected_changes :: "protected_change_draft list"
  sd_supersessions :: "candidate_supersession_draft list"

record save_candidate_draft =
  sc_candidate_set_id :: uuid
  sc_revision :: int
  sc_snapshot_id :: uuid
  sc_input_cursor :: int
  sc_request_id :: uuid
  sc_draft :: scope_candidate_draft
  sc_consumed_knowledge :: "planning_manifest_guard option"

section \<open>Reviews\<close>

datatype review_verdict = VerdictReady | VerdictRevise | VerdictBlocked

datatype candidate_decision_kind = Accept | Revise | Reject

record candidate_decision =
  dc_candidate_id :: uuid
  dc_decision :: candidate_decision_kind
  dc_rationale :: str

datatype candidate_finding_severity = Advisory | Material

record candidate_finding =
  cf_severity :: candidate_finding_severity
  cf_summary :: str
  cf_candidate_ids :: "uuid list"
  cf_coverage_goal_ids :: "uuid list"
  cf_disposition :: str

record protected_change_review =
  pv_accepted_evidence_id :: uuid
  pv_prior_candidate_id :: "uuid option"
  pv_rationale :: str

record scope_candidate_review =
  cw_revision :: int
  cw_verdict :: review_verdict
  cw_summary :: str
  cw_findings :: "candidate_finding list"
  cw_candidate_decisions :: "candidate_decision list"
  cw_protected_change_reviews :: "protected_change_review list"

section \<open>Validation\<close>

definition invalid :: "str \<Rightarrow> error" where
  "invalid reason = invalid_arguments_from reason"

definition required :: "str \<Rightarrow> str \<Rightarrow> unit result" where
  "required v field = refuse_if (blank v \<or> has_nul v) (invalid (field @ '' is blank or contains NUL''))"

definition require_candidate_coverage :: "bool \<Rightarrow> unit result" where
  "require_candidate_coverage has_coverage =
     refuse_if (\<not> has_coverage) (refused RC_CoverageIncomplete ''add_coverage'' ''coverage_goals'')"

definition disposition_shape :: "nat \<Rightarrow> protected_change_draft \<Rightarrow> unit result" where
  "disposition_shape i c =
     (case pc_disposition c of
        Delete \<Rightarrow> refuse_if (pc_replacement_evidence c \<noteq> None \<or> pc_target_candidate c \<noteq> None)
          (invalid (''protected_changes['' @ show_nat i @
             '']: delete takes no replacement_evidence or target_candidate''))
      | Replace \<Rightarrow> refuse_if (pc_replacement_evidence c = None \<or>
            ((pc_prior_candidate_id c \<noteq> None) \<noteq> (pc_target_candidate c \<noteq> None)))
          (invalid (''protected_changes['' @ show_nat i @
             '']: replace needs replacement_evidence, and target_candidate exactly when prior_candidate_id is set''))
      | Reassociate \<Rightarrow> refuse_if (pc_prior_candidate_id c = None \<or> pc_replacement_evidence c \<noteq> None \<or>
            pc_target_candidate c = None)
          (invalid (''protected_changes['' @ show_nat i @
             '']: reassociate needs prior_candidate_id and target_candidate and no replacement_evidence'')))"

definition protected_key :: "protected_change_draft \<Rightarrow> uuid \<times> uuid option" where
  "protected_key c = (pc_accepted_evidence_id c, pc_prior_candidate_id c)"

definition protected_changes_validate :: "protected_change_draft list \<Rightarrow> unit result" where
  "protected_changes_validate cs = each_idx (\<lambda>i c. checks
     [refuse_if (is_nil (pc_accepted_evidence_id c) \<or> pc_prior_candidate_id c = Some 0 \<or>
                 is_nil (pc_authority_source_ref_id c) \<or> seen_before protected_key cs i c)
        (invalid (''protected_changes['' @ show_nat i @ ''] has a nil id or repeats an accepted evidence change'')),
      required (pc_rationale c) ''protected_changes.rationale'',
      disposition_shape i c,
      each_opt ref_validate (pc_replacement_evidence c),
      each_opt ref_validate (pc_target_candidate c)]) cs"

definition draft_identities :: "scope_candidate_draft \<Rightarrow> draft_identity list" where
  "draft_identities d = map gd_identity (sd_goals d) @ map ed_identity (sd_evidence d) @
     map cd_identity (sd_candidates d) @ map bd_identity (sd_blockers d)"

definition identities_validate :: "draft_identity list \<Rightarrow> unit result" where
  "identities_validate ids = each_idx (\<lambda>i d. checks
     [identity_validate d,
      case di_local d of
        None \<Rightarrow> Inr ()
      | Some label \<Rightarrow> refuse_if (seen_before di_local ids i d)
          (invalid (''local label `'' @ label @ ''` is used by more than one draft entity''))]) ids"

definition goals_validate :: "coverage_goal_draft list \<Rightarrow> unit result" where
  "goals_validate gs = each_idx (\<lambda>i g. checks
     [required (gd_text g) ''goals.text'',
      refuse_if (is_nil (gd_source_ref_id g)) (invalid (''goals['' @ show_nat i @ ''].source_ref_id is nil'')),
      ref_validate (rd_reference (gd_resolution g))]) gs"

definition blockers_validate :: "blocker_draft list \<Rightarrow> unit result" where
  "blockers_validate bs = each_idx (\<lambda>i b. checks
     [required (bd_summary b) ''blockers.summary'',
      refuse_if (is_nil (bd_source_ref_id b))
        (invalid (''blockers['' @ show_nat i @ ''].source_ref_id is nil''))]) bs"

definition evidence_validate :: "evidence_draft list \<Rightarrow> unit result" where
  "evidence_validate es = each_idx (\<lambda>i e. checks
     [required (ed_summary e) ''evidence.summary'',
      refuse_if (is_nil (ed_source_ref_id e) \<or>
                 (ed_kind e = AcceptedWork \<and> ed_authority_input_sequence e = None))
        (invalid (''evidence['' @ show_nat i @
           ''] needs a source_ref_id, and accepted_work needs authority_input_sequence''))]) es"

definition candidates_validate :: "candidate_draft list \<Rightarrow> unit result" where
  "candidates_validate cs = each_idx (\<lambda>i c. checks
     [required (cd_title c) ''candidates.title'',
      required (cd_outcome c) ''candidates.outcome'',
      required (cd_trigger c) ''candidates.trigger'',
      required (cd_delivered_behavior c) ''candidates.delivered_behavior'',
      required (cd_proof c) ''candidates.proof'',
      require_candidate_coverage (cd_coverage_goals c \<noteq> []),
      refuse_if (case cd_change_rationale c of None \<Rightarrow> False
                 | Some v \<Rightarrow> \<not> is_ok (required v ''candidates.change_rationale''))
        (invalid (''candidates['' @ show_nat i @
           ''].change_rationale is blank; omit it or explain the change'')),
      each ref_validate (cd_dependencies c @ cd_coverage_goals c @ cd_evidence c)]) cs"

definition supersessions_validate :: "candidate_supersession_draft list \<Rightarrow> unit result" where
  "supersessions_validate ss = each_idx (\<lambda>i v. checks
     [refuse_if (is_nil (cs_candidate_id v) \<or> cs_revision v < 1 \<or> seen_before cs_candidate_id ss i v)
        (invalid (''supersessions['' @ show_nat i @
           ''] has a nil or repeated candidate_id or a revision below 1'')),
      required (cs_reason v) ''supersessions.reason'',
      each ref_validate (cs_replacements v)]) ss"

definition empty_disposition_validate :: "scope_candidate_draft \<Rightarrow> unit result" where
  "empty_disposition_validate d =
     (case sd_empty_disposition d of
        None \<Rightarrow> refuse_if (sd_candidates d = [])
          (invalid ''empty_disposition is required exactly when candidates is empty'')
      | Some e \<Rightarrow>
          if sd_candidates d \<noteq> []
          then Inl (invalid ''empty_disposition is required exactly when candidates is empty'')
          else checks
            [required (em_reason e) ''empty_disposition.reason'',
             refuse_if (is_nil (em_source_ref_id e)) (invalid ''empty_disposition.source_ref_id is nil''),
             case em_kind e of
               AllCovered \<Rightarrow> refuse_if
                 (sd_goals d = [] \<or> sd_evidence d = [] \<or> sd_blockers d \<noteq> [] \<or> sd_pending_question d \<noteq> None \<or>
                  list_ex (\<lambda>g. rd_kind (gd_resolution g) \<noteq> ResolveEvidence) (sd_goals d))
                 (invalid ''all_covered needs goals and evidence, no blockers or pending question, and every goal resolved by evidence'')
             | NeedsInput \<Rightarrow> refuse_if (opt_blank (sd_pending_question d))
                 (invalid ''needs_input needs a pending_question'')
             | OutOfBoundary \<Rightarrow> Inr ()])"

definition candidate_draft_validate :: "scope_candidate_draft \<Rightarrow> unit result" where
  "candidate_draft_validate d = checks
     [refuse_if (100 < length (sd_goals d) \<or> 100 < length (sd_candidates d) \<or> 100 < length (sd_evidence d) \<or>
                 100 < length (sd_blockers d) \<or> 100 < length (sd_protected_changes d) \<or>
                 100 < length (sd_supersessions d))
        (invalid ''a draft list exceeds 100 items''),
      protected_changes_validate (sd_protected_changes d),
      identities_validate (draft_identities d),
      goals_validate (sd_goals d),
      blockers_validate (sd_blockers d),
      evidence_validate (sd_evidence d),
      candidates_validate (sd_candidates d),
      supersessions_validate (sd_supersessions d),
      refuse_if (sd_boundary d = Finite \<and> sd_goals d = []) (invalid ''a finite boundary needs at least one goal''),
      empty_disposition_validate d]"

section \<open>The resolved graph\<close>

record coverage_resolution_entity =
  re_kind :: coverage_resolution_kind
  re_id :: uuid

record coverage_goal_entity =
  ge_id :: uuid
  ge_revision :: int
  ge_text :: str
  ge_source_ref_id :: uuid
  ge_exact_quote :: "str option"
  ge_resolution :: coverage_resolution_entity

record evidence_entity =
  ee_id :: uuid
  ee_revision :: int
  ee_kind :: evidence_kind
  ee_summary :: str
  ee_source_ref_id :: uuid
  ee_authority_input_sequence :: "int option"

record candidate_entity =
  ce_id :: uuid
  ce_revision :: int
  ce_title :: str
  ce_outcome :: str
  ce_trigger :: str
  ce_delivered_behavior :: str
  ce_proof :: str
  ce_includes :: "str list"
  ce_excludes :: "str list"
  ce_dependencies :: "uuid list"
  ce_coverage_goal_ids :: "uuid list"
  ce_evidence_ids :: "uuid list"

record blocker_entity =
  be_id :: uuid
  be_revision :: int
  be_summary :: str
  be_source_ref_id :: uuid

section \<open>What an accepted draft looks like\<close>

lemma required_Inr [check_simps]: "required v field = Inr u \<longleftrightarrow> valid_text v"
  by (simp add: required_def check_simps valid_text_def)

lemma coverage_Inr [check_simps]: "require_candidate_coverage b = Inr u \<longleftrightarrow> b"
  by (simp add: require_candidate_coverage_def check_simps)

text \<open>An identity names either a new entity by its label or a stored one by id and revision.\<close>

definition identity_ok :: "draft_identity \<Rightarrow> bool" where
  "identity_ok d \<longleftrightarrow>
     (\<exists>label. d = \<lparr>di_local = Some label, di_id = None, di_revision = None\<rparr> \<and> label \<noteq> [] \<and>
        length label \<le> 64 \<and> list_all handle_char label) \<or>
     (\<exists>i revision. d = \<lparr>di_local = None, di_id = Some i, di_revision = Some revision\<rparr> \<and> i \<noteq> 0 \<and> 1 \<le> revision)"

lemma identity_Inr [check_simps]: "identity_validate d = Inr u \<longleftrightarrow> identity_ok d"
  by (cases d) (auto simp: identity_validate_def identity_ok_def split: option.splits)

definition ref_ok :: "candidate_ref \<Rightarrow> bool" where
  "ref_ok r \<longleftrightarrow>
     (\<exists>label. r = \<lparr>cr_local = Some label, cr_id = None\<rparr> \<and> label \<noteq> [] \<and> length label \<le> 64) \<or>
     (\<exists>i. r = \<lparr>cr_local = None, cr_id = Some i\<rparr> \<and> i \<noteq> 0)"

lemma ref_Inr [check_simps]: "ref_validate r = Inr u \<longleftrightarrow> ref_ok r"
  by (cases r) (auto simp: ref_validate_def ref_ok_def split: option.splits)

text \<open>The labels of new entities, over all four kinds.\<close>

definition labels :: "draft_identity list \<Rightarrow> str list" where
  "labels ids = List.map_filter di_local ids"

lemma labels_Cons [simp]:
  "labels [] = []" "labels (d # ds) = (case di_local d of None \<Rightarrow> labels ds | Some l \<Rightarrow> l # labels ds)"
  by (simp_all add: labels_def List.map_filter_def split: option.splits)

lemma labels_append: "labels (xs @ ys) = labels xs @ labels ys"
  by (simp add: labels_def List.map_filter_def)

lemma set_labels: "l \<in> set (labels ids) \<longleftrightarrow> Some l \<in> di_local ` set ids"
  by (induction ids) (auto split: option.splits)

lemma labels_distinct:
  "distinct (labels ids) \<longleftrightarrow>
     (\<forall>i<length ids. di_local (ids ! i) = None \<or> (\<forall>j<i. di_local (ids ! j) \<noteq> di_local (ids ! i)))"
proof (induction ids rule: rev_induct)
  case (snoc d ids)
  have "distinct (labels (ids @ [d])) \<longleftrightarrow>
      distinct (labels ids) \<and> (di_local d = None \<or> di_local d \<notin> di_local ` set ids)"
    by (cases "di_local d") (simp_all add: labels_append set_labels)
  also have "di_local d \<notin> di_local ` set ids \<longleftrightarrow> (\<forall>j<length ids. di_local (ids ! j) \<noteq> di_local d)"
    by (simp add: image_iff eq_commute [of "di_local d"] all_set_conv_all_nth)
  finally have "distinct (labels (ids @ [d])) \<longleftrightarrow>
      distinct (labels ids) \<and> (di_local d = None \<or> (\<forall>j<length ids. di_local (ids ! j) \<noteq> di_local d))" .
  with snoc show ?case by (auto simp: nth_append less_Suc_eq)
qed simp

lemma identities_Inr:
  "identities_validate ids = Inr () \<longleftrightarrow> list_all identity_ok ids \<and> distinct (labels ids)"
proof -
  have "identities_validate ids = Inr () \<longleftrightarrow> (\<forall>i<length ids. identity_ok (ids ! i)) \<and>
      (\<forall>i<length ids. di_local (ids ! i) = None \<or> (\<forall>j<i. di_local (ids ! j) \<noteq> di_local (ids ! i)))"
    by (auto simp: identities_validate_def check_simps seen_before_nth split: option.splits)
  then show ?thesis by (simp add: labels_distinct list_all_length)
qed

text \<open>The shape that each disposition of a protected change prescribes.\<close>

definition protected_shape :: "protected_change_draft \<Rightarrow> bool" where
  "protected_shape c \<longleftrightarrow>
     (case pc_disposition c of
        Delete \<Rightarrow> pc_replacement_evidence c = None \<and> pc_target_candidate c = None
      | Replace \<Rightarrow> pc_replacement_evidence c \<noteq> None \<and>
          (pc_target_candidate c = None \<longleftrightarrow> pc_prior_candidate_id c = None)
      | Reassociate \<Rightarrow> pc_replacement_evidence c = None \<and> pc_target_candidate c \<noteq> None \<and>
          pc_prior_candidate_id c \<noteq> None)"

definition protected_ok :: "protected_change_draft \<Rightarrow> bool" where
  "protected_ok c \<longleftrightarrow> pc_accepted_evidence_id c \<noteq> 0 \<and> pc_prior_candidate_id c \<noteq> Some 0 \<and>
     pc_authority_source_ref_id c \<noteq> 0 \<and> valid_text (pc_rationale c) \<and> protected_shape c \<and>
     opt_all ref_ok (pc_replacement_evidence c) \<and> opt_all ref_ok (pc_target_candidate c)"

lemma disposition_Inr: "disposition_shape i c = Inr () \<longleftrightarrow> protected_shape c"
  by (auto simp: disposition_shape_def protected_shape_def check_simps split: protected_change_disposition.splits)

lemma opt_all_iff: "opt_all p x \<longleftrightarrow> (\<forall>v. x = Some v \<longrightarrow> p v)"
  by (cases x) auto

lemma protected_Inr:
  "protected_changes_validate cs = Inr () \<longleftrightarrow> list_all protected_ok cs \<and> distinct (map protected_key cs)"
proof -
  have "protected_changes_validate cs = Inr () \<longleftrightarrow>
      (\<forall>i<length cs. protected_ok (cs ! i)) \<and> (\<forall>i<length cs. \<not> seen_before protected_key cs i (cs ! i))"
    by (auto simp: protected_changes_validate_def check_simps disposition_Inr protected_ok_def opt_all_iff)
  then show ?thesis by (simp add: seen_before_distinct list_all_length)
qed

definition goal_ok :: "coverage_goal_draft \<Rightarrow> bool" where
  "goal_ok g \<longleftrightarrow> valid_text (gd_text g) \<and> gd_source_ref_id g \<noteq> 0 \<and> ref_ok (rd_reference (gd_resolution g))"

definition evidence_ok :: "evidence_draft \<Rightarrow> bool" where
  "evidence_ok e \<longleftrightarrow> valid_text (ed_summary e) \<and> ed_source_ref_id e \<noteq> 0 \<and>
     (ed_kind e = VerifiedEvidence \<or> ed_authority_input_sequence e \<noteq> None)"

definition blocker_ok :: "blocker_draft \<Rightarrow> bool" where
  "blocker_ok b \<longleftrightarrow> valid_text (bd_summary b) \<and> bd_source_ref_id b \<noteq> 0"

definition candidate_ok :: "candidate_draft \<Rightarrow> bool" where
  "candidate_ok c \<longleftrightarrow>
     list_all valid_text [cd_title c, cd_outcome c, cd_trigger c, cd_delivered_behavior c, cd_proof c] \<and>
     cd_coverage_goals c \<noteq> [] \<and> opt_all valid_text (cd_change_rationale c) \<and>
     list_all ref_ok (cd_dependencies c @ cd_coverage_goals c @ cd_evidence c)"

definition supersession_ok :: "candidate_supersession_draft \<Rightarrow> bool" where
  "supersession_ok s \<longleftrightarrow> cs_candidate_id s \<noteq> 0 \<and> 1 \<le> cs_revision s \<and> valid_text (cs_reason s) \<and>
     list_all ref_ok (cs_replacements s)"

lemma goals_Inr: "goals_validate gs = Inr () \<longleftrightarrow> list_all goal_ok gs"
  by (auto simp: goals_validate_def check_simps goal_ok_def list_all_length)

lemma blockers_Inr: "blockers_validate bs = Inr () \<longleftrightarrow> list_all blocker_ok bs"
  by (auto simp: blockers_validate_def check_simps blocker_ok_def list_all_length)

lemma evidence_Inr: "evidence_validate es = Inr () \<longleftrightarrow> list_all evidence_ok es"
proof -
  have "k = VerifiedEvidence \<longleftrightarrow> k \<noteq> AcceptedWork" for k by (cases k) auto
  then show ?thesis by (auto simp: evidence_validate_def check_simps evidence_ok_def list_all_length)
qed

lemma candidates_Inr: "candidates_validate cs = Inr () \<longleftrightarrow> list_all candidate_ok cs"
proof -
  have "(case x of None \<Rightarrow> False | Some v \<Rightarrow> \<not> is_ok (required v f)) \<longleftrightarrow> \<not> opt_all valid_text x" for x f
    by (cases x) (simp_all add: is_ok_unit required_Inr)
  then show ?thesis
    by (simp add: candidates_validate_def check_simps candidate_ok_def list_all_length [of _ cs])
      (auto simp: list_all_iff)
qed

lemma supersessions_Inr:
  "supersessions_validate ss = Inr () \<longleftrightarrow> list_all supersession_ok ss \<and> distinct (map cs_candidate_id ss)"
proof -
  have "supersessions_validate ss = Inr () \<longleftrightarrow>
      (\<forall>i<length ss. supersession_ok (ss ! i)) \<and> (\<forall>i<length ss. \<not> seen_before cs_candidate_id ss i (ss ! i))"
    by (auto simp: supersessions_validate_def check_simps supersession_ok_def list_all_iff)
  then show ?thesis by (simp add: seen_before_distinct list_all_length)
qed

text \<open>A draft without candidates says why.\<close>

definition empty_ok :: "scope_candidate_draft \<Rightarrow> empty_candidate_disposition \<Rightarrow> bool" where
  "empty_ok d e \<longleftrightarrow> valid_text (em_reason e) \<and> em_source_ref_id e \<noteq> 0 \<and>
     (em_kind e = AllCovered \<longrightarrow> sd_goals d \<noteq> [] \<and> sd_evidence d \<noteq> [] \<and> sd_blockers d = [] \<and>
        sd_pending_question d = None \<and> list_all (\<lambda>g. rd_kind (gd_resolution g) = ResolveEvidence) (sd_goals d)) \<and>
     (em_kind e = NeedsInput \<longrightarrow> \<not> opt_blank (sd_pending_question d))"

lemma empty_Inr:
  "empty_disposition_validate d = Inr () \<longleftrightarrow>
     (sd_candidates d = [] \<longleftrightarrow> sd_empty_disposition d \<noteq> None) \<and> opt_all (empty_ok d) (sd_empty_disposition d)"
  by (auto simp: empty_disposition_validate_def empty_ok_def check_simps list_all_iff list_ex_iff
      split: option.splits empty_disposition_kind.splits)

text \<open>
  A draft is accepted exactly when no list exceeds 100 entries; every entity by itself is
  well formed; the labels of new entities are unique across goals, evidence, candidates and
  blockers; no accepted evidence is changed twice and no candidate superseded twice; a finite
  boundary has a goal; and a draft has no candidates exactly when it carries a disposition that explains
  it, where claiming that all is covered needs every goal resolved by evidence and nothing open.
\<close>

theorem candidate_draft_accepts_iff:
  "candidate_draft_validate d = Inr () \<longleftrightarrow>
     (length (sd_goals d) \<le> 100 \<and> length (sd_candidates d) \<le> 100 \<and> length (sd_evidence d) \<le> 100 \<and>
      length (sd_blockers d) \<le> 100 \<and> length (sd_protected_changes d) \<le> 100 \<and> length (sd_supersessions d) \<le> 100) \<and>
     list_all protected_ok (sd_protected_changes d) \<and> distinct (map protected_key (sd_protected_changes d)) \<and>
     list_all identity_ok (draft_identities d) \<and> distinct (labels (draft_identities d)) \<and>
     list_all goal_ok (sd_goals d) \<and> list_all blocker_ok (sd_blockers d) \<and> list_all evidence_ok (sd_evidence d) \<and>
     list_all candidate_ok (sd_candidates d) \<and>
     list_all supersession_ok (sd_supersessions d) \<and> distinct (map cs_candidate_id (sd_supersessions d)) \<and>
     \<not> (sd_boundary d = Finite \<and> sd_goals d = []) \<and>
     (sd_candidates d = [] \<longleftrightarrow> sd_empty_disposition d \<noteq> None) \<and> opt_all (empty_ok d) (sd_empty_disposition d)"
  by (auto simp: candidate_draft_validate_def check_simps protected_Inr identities_Inr goals_Inr blockers_Inr
      evidence_Inr candidates_Inr supersessions_Inr empty_Inr)

end
