(* ===== verification/Pipelines.thy ===== *)
theory Pipelines
  imports PlanningKnowledge
begin

text \<open>
  \<^verbatim>\<open>crates/domain/src/pipelines.rs\<close>, \<^verbatim>\<open>pipeline_inquiry.rs\<close>, \<^verbatim>\<open>pipeline_checkpoint.rs\<close> and
  \<^verbatim>\<open>pipeline_evidence.rs\<close>: the kinds of pipelines and the catalogue that offers them, inquiry
  contracts, research checkpoints and evidence artifacts, with their validators.
\<close>

section \<open>Kinds\<close>

datatype pipeline_kind =
    LightweightTddDevelopment | FullDesignToExecution | DebugRootCause | OperationalPreparation
  | OperationalExecution | Research | DeepBrainstorming | ResearchToDurableKnowledge
  | CustomProcedureCapture | PromoteToDurableKnowledge

definition HISTORICAL_SLICE_RUN_KINDS :: "pipeline_kind list" where
  "HISTORICAL_SLICE_RUN_KINDS =
     [LightweightTddDevelopment, FullDesignToExecution, DebugRootCause, OperationalPreparation,
      OperationalExecution, ResearchToDurableKnowledge, CustomProcedureCapture]"

definition CURRENT_SLICE_RUN_KINDS :: "pipeline_kind list" where
  "CURRENT_SLICE_RUN_KINDS =
     [LightweightTddDevelopment, FullDesignToExecution, DebugRootCause, OperationalPreparation,
      OperationalExecution, Research, DeepBrainstorming, CustomProcedureCapture]"

definition SLICE_RUN_KINDS :: "pipeline_kind list" where
  "SLICE_RUN_KINDS = CURRENT_SLICE_RUN_KINDS @ [ResearchToDurableKnowledge]"

definition ALL_KINDS :: "pipeline_kind list" where
  "ALL_KINDS =
     [LightweightTddDevelopment, FullDesignToExecution, DebugRootCause, OperationalPreparation,
      OperationalExecution, Research, DeepBrainstorming, ResearchToDurableKnowledge,
      CustomProcedureCapture, PromoteToDurableKnowledge]"

fun kind_as_str :: "pipeline_kind \<Rightarrow> str" where
  "kind_as_str LightweightTddDevelopment = ''slice.lightweight-tdd-development''"
| "kind_as_str FullDesignToExecution = ''slice.full-design-to-execution''"
| "kind_as_str DebugRootCause = ''slice.debug-root-cause''"
| "kind_as_str OperationalPreparation = ''slice.operational-preparation''"
| "kind_as_str OperationalExecution = ''slice.operational-execution''"
| "kind_as_str Research = ''slice.research''"
| "kind_as_str DeepBrainstorming = ''slice.deep-brainstorming''"
| "kind_as_str ResearchToDurableKnowledge = ''slice.research-to-durable-knowledge''"
| "kind_as_str CustomProcedureCapture = ''slice.custom-procedure-capture''"
| "kind_as_str PromoteToDurableKnowledge = ''slice.promote-to-durable-knowledge''"

text \<open>The deserializer looks the text up in \<^verbatim>\<open>ALL\<close>.\<close>

definition kind_of_str :: "str \<Rightarrow> pipeline_kind option" where
  "kind_of_str s = find (\<lambda>k. kind_as_str k = s) ALL_KINDS"

datatype execution_owner = SlicePipelineRun | KnowledgeChangeOwner

datatype delivery_mode = Whole | Phasewise

section \<open>Catalogue\<close>

record catalogue_entry =
  en_kind :: pipeline_kind
  en_description :: str
  en_implementation_status :: str
  en_description_status :: str
  en_refinement_required :: bool
  en_choose_when :: str
  en_do_not_choose_when :: str
  en_expected_result :: str
  en_executable :: bool
  en_default_delivery_mode :: "delivery_mode option"
  en_allowed_delivery_modes :: "delivery_mode list"
  en_execution_owner :: execution_owner

record catalogue_snapshot =
  ca_revision :: str
  ca_digest :: str
  ca_entries :: "catalogue_entry list"

definition expected_kinds :: "nat \<Rightarrow> pipeline_kind set option" where
  "expected_kinds n =
     (if n = 7 then Some (set HISTORICAL_SLICE_RUN_KINDS)
      else if n = 8 then Some (set (HISTORICAL_SLICE_RUN_KINDS @ [PromoteToDurableKnowledge]))
      else if n = 9 then Some (set (CURRENT_SLICE_RUN_KINDS @ [PromoteToDurableKnowledge]))
      else None)"

definition entry_invalid :: "catalogue_entry \<Rightarrow> bool" where
  "entry_invalid e \<longleftrightarrow>
     blank (en_description e) \<or>
     en_implementation_status e \<notin> {''stub'', ''executable''} \<or>
     en_description_status e \<notin> {''provisional'', ''refined''} \<or>
     en_executable e \<noteq> (en_implementation_status e = ''executable'') \<or>
     en_executable e \<noteq> (en_description_status e = ''refined'') \<or>
     en_refinement_required e = en_executable e \<or>
     (en_executable e \<and>
       (case en_default_delivery_mode e of
          None \<Rightarrow> True
        | Some m \<Rightarrow> en_allowed_delivery_modes e = [] \<or> m \<notin> set (en_allowed_delivery_modes e))) \<or>
     blank (en_choose_when e) \<or> blank (en_do_not_choose_when e) \<or> blank (en_expected_result e)"

definition catalogue_validate :: "catalogue_snapshot \<Rightarrow> unit result" where
  "catalogue_validate c =
     (case expected_kinds (length (ca_entries c)) of
        None \<Rightarrow> Inl InvalidArguments
      | Some expected \<Rightarrow> checks
          [refuse_if (blank (ca_revision c) \<or> blank (ca_digest c)) InvalidArguments,
           (let kinds = set (map en_kind (ca_entries c)) in
            refuse_if
              (card kinds \<noteq> length (ca_entries c) \<or> kinds \<noteq> expected \<or>
               list_ex (\<lambda>e. (en_kind e = PromoteToDurableKnowledge) \<noteq> (en_execution_owner e = KnowledgeChangeOwner))
                 (ca_entries c) \<or>
               list_ex entry_invalid (ca_entries c)) InvalidArguments)])"

section \<open>Inquiry contracts\<close>

datatype inquiry_topic_level = TopicProgram | TopicScope | TopicSlice

datatype decision_outcome = OutcomeDecision | OutcomeRecommendation

datatype inquiry_completion = ResearchCompletion bool | DecisionCompletion decision_outcome

record inquiry_contract =
  iq_topic_level :: inquiry_topic_level
  iq_task_context :: planning_task_context
  iq_completion :: inquiry_completion

definition inquiry_validate :: "inquiry_contract \<Rightarrow> unit result" where
  "inquiry_validate q = task_context_validate (iq_task_context q)"

definition is_research :: "inquiry_contract \<Rightarrow> bool" where
  "is_research q = (case iq_completion q of ResearchCompletion _ \<Rightarrow> True | _ \<Rightarrow> False)"

definition is_decision :: "inquiry_contract \<Rightarrow> bool" where
  "is_decision q = (case iq_completion q of DecisionCompletion _ \<Rightarrow> True | _ \<Rightarrow> False)"

definition require_research :: "inquiry_contract \<Rightarrow> unit result" where
  "require_research q = checks [inquiry_validate q, refuse_if (\<not> is_research q) InvalidArguments]"

section \<open>Checkpoints\<close>

definition MAX_CHECKPOINT_TEXT_BYTES :: nat where "MAX_CHECKPOINT_TEXT_BYTES = 64 * 1024"

record checkpoint_ref =
  cp_checkpoint_id :: uuid
  cp_digest :: str

record research_checkpoint_draft =
  rk_question :: str
  rk_answer_criteria :: str
  rk_inquiry :: inquiry_contract
  rk_reason :: str

datatype checkpoint_status =
  CheckpointOpen | CheckpointAccepted | CheckpointRejected | CheckpointCancelled | CheckpointSuperseded

datatype resolve_checkpoint_action = AcceptCheckpoint | RejectCheckpoint | CancelCheckpoint

record checkpoint_terminal_ref =
  tr_result_id :: uuid
  tr_output_id :: uuid
  tr_output_digest :: str

record resolve_checkpoint =
  rc_request_id :: uuid
  rc_producer_run_id :: uuid
  rc_producer_run_revision :: int
  rc_checkpoint :: checkpoint_ref
  rc_action :: resolve_checkpoint_action
  rc_reason :: str
  rc_terminal :: "checkpoint_terminal_ref option"

definition checkpoint_text :: "str \<Rightarrow> bool" where
  "checkpoint_text s \<longleftrightarrow> \<not> blank s \<and> length s \<le> MAX_CHECKPOINT_TEXT_BYTES"

definition checkpoint_ref_validate :: "checkpoint_ref \<Rightarrow> unit result" where
  "checkpoint_ref_validate c =
     refuse_if (is_nil (cp_checkpoint_id c) \<or> blank (cp_digest c) \<or> 256 < length (cp_digest c)) InvalidArguments"

definition checkpoint_draft_validate :: "research_checkpoint_draft \<Rightarrow> unit result" where
  "checkpoint_draft_validate d = checks
     [require_research (rk_inquiry d),
      refuse_if (\<not> (checkpoint_text (rk_question d) \<and> checkpoint_text (rk_answer_criteria d) \<and>
                   checkpoint_text (rk_reason d))) InvalidArguments]"

definition terminal_valid :: "resolve_checkpoint \<Rightarrow> bool" where
  "terminal_valid r =
     (case rc_action r of
        CancelCheckpoint \<Rightarrow> rc_terminal r = None
      | _ \<Rightarrow> (case rc_terminal r of
                None \<Rightarrow> False
              | Some t \<Rightarrow> \<not> is_nil (tr_result_id t) \<and> \<not> is_nil (tr_output_id t) \<and>
                  \<not> blank (tr_output_digest t) \<and> length (tr_output_digest t) \<le> 256))"

definition resolve_checkpoint_validate :: "resolve_checkpoint \<Rightarrow> unit result" where
  "resolve_checkpoint_validate r = checks
     [checkpoint_ref_validate (rc_checkpoint r),
      refuse_if (is_nil (rc_request_id r) \<or> is_nil (rc_producer_run_id r) \<or> rc_producer_run_revision r < 1 \<or>
                 \<not> checkpoint_text (rc_reason r) \<or> \<not> terminal_valid r) InvalidArguments]"

section \<open>Evidence artifacts\<close>

definition MAX_PIPELINE_OUTPUT_BYTES :: nat where "MAX_PIPELINE_OUTPUT_BYTES = 2 * 1024 * 1024"
definition MAX_EVIDENCE_ARTIFACT_FORMAT_BYTES :: nat where "MAX_EVIDENCE_ARTIFACT_FORMAT_BYTES = 128"
definition MAX_EVIDENCE_ARTIFACT_PROVENANCE_BYTES :: nat where "MAX_EVIDENCE_ARTIFACT_PROVENANCE_BYTES = 4096"
definition MAX_EVIDENCE_ARTIFACT_TARGET_BYTES :: nat where "MAX_EVIDENCE_ARTIFACT_TARGET_BYTES = 4096"
definition MAX_EVIDENCE_ARTIFACT_PAGE_BYTES :: "32 word" where "MAX_EVIDENCE_ARTIFACT_PAGE_BYTES = 64 * 1024"

datatype evidence_readiness = Uploading | EvidenceReady | EvidenceRejected

record evidence_artifact =
  ea_artifact_id :: uuid
  ea_digest :: str
  ea_size :: int
  ea_format :: str
  ea_provenance :: str
  ea_target :: str
  ea_revision :: int
  ea_readiness :: evidence_readiness

record evidence_artifact_ref =
  ar_artifact_id :: uuid
  ar_revision :: int

record register_evidence =
  rg_request_id :: uuid
  rg_digest :: str
  rg_size :: int
  rg_format :: str
  rg_provenance :: str
  rg_target :: str

record finalize_evidence =
  fz_request_id :: uuid
  fz_artifact_id :: uuid
  fz_revision :: int
  fz_body :: str

record read_evidence =
  rv_artifact_id :: uuid
  rv_revision :: int
  rv_offset :: "32 word"
  rv_limit :: "32 word"

definition register_validate :: "register_evidence \<Rightarrow> unit result" where
  "register_validate r = refuse_if
     (is_nil (rg_request_id r) \<or> length (rg_digest r) \<noteq> 64 \<or> \<not> list_all is_ascii_hexdigit (rg_digest r) \<or>
      rg_size r < 0 \<or> blank (rg_format r) \<or> MAX_EVIDENCE_ARTIFACT_FORMAT_BYTES < length (rg_format r) \<or>
      blank (rg_provenance r) \<or> MAX_EVIDENCE_ARTIFACT_PROVENANCE_BYTES < length (rg_provenance r) \<or>
      blank (rg_target r) \<or> MAX_EVIDENCE_ARTIFACT_TARGET_BYTES < length (rg_target r)) InvalidArguments"

definition finalize_validate :: "finalize_evidence \<Rightarrow> unit result" where
  "finalize_validate f = refuse_if
     (is_nil (fz_request_id f) \<or> is_nil (fz_artifact_id f) \<or> fz_revision f < 1 \<or>
      MAX_PIPELINE_OUTPUT_BYTES < length (fz_body f)) InvalidArguments"

definition read_validate :: "read_evidence \<Rightarrow> unit result" where
  "read_validate r = refuse_if
     (is_nil (rv_artifact_id r) \<or> rv_revision r < 1 \<or> rv_limit r = 0 \<or>
      MAX_EVIDENCE_ARTIFACT_PAGE_BYTES < rv_limit r) InvalidArguments"

section \<open>Lemmas\<close>

lemma kind_of_str_iff: "kind_of_str s = Some k \<longleftrightarrow> s = kind_as_str k"
  by (cases k) (auto simp: kind_of_str_def ALL_KINDS_def)

lemma checkpoint_ref_Inr [check_simps]:
  "checkpoint_ref_validate c = Inr u \<longleftrightarrow> cp_checkpoint_id c \<noteq> 0 \<and> \<not> blank (cp_digest c) \<and> length (cp_digest c) \<le> 256"
  by (auto simp: checkpoint_ref_validate_def check_simps)

section \<open>Properties\<close>

text \<open>
  An accepted catalogue offers one of the three known sets of kinds, each kind once; only the
  promotion pipeline is owned by a knowledge change; and the entries that are executable are
  exactly the ones whose description is refined and needs no further refinement, and they name a default
  delivery mode that they allow.
\<close>

theorem catalogue_accepts_known_sets:
  assumes "catalogue_validate c = Inr ()"
  shows "distinct (map en_kind (ca_entries c)) \<and>
     set (map en_kind (ca_entries c)) \<in>
       {set HISTORICAL_SLICE_RUN_KINDS, insert PromoteToDurableKnowledge (set HISTORICAL_SLICE_RUN_KINDS),
        insert PromoteToDurableKnowledge (set CURRENT_SLICE_RUN_KINDS)} \<and>
     (\<forall>e\<in>set (ca_entries c).
        (en_execution_owner e = KnowledgeChangeOwner \<longleftrightarrow> en_kind e = PromoteToDurableKnowledge) \<and>
        (en_executable e \<longleftrightarrow> en_description_status e = ''refined'') \<and>
        (en_executable e \<longleftrightarrow> \<not> en_refinement_required e) \<and>
        (en_executable e \<longrightarrow> (\<exists>m\<in>set (en_allowed_delivery_modes e). en_default_delivery_mode e = Some m)))"
proof -
  obtain kinds where k: "expected_kinds (length (ca_entries c)) = Some kinds"
    using assms by (auto simp: catalogue_validate_def split: option.splits)
  with assms have v: "card (set (map en_kind (ca_entries c))) = length (map en_kind (ca_entries c))"
    "set (map en_kind (ca_entries c)) = kinds"
    "\<forall>e\<in>set (ca_entries c). (en_kind e = PromoteToDurableKnowledge) = (en_execution_owner e = KnowledgeChangeOwner)"
    "\<forall>e\<in>set (ca_entries c). \<not> entry_invalid e"
    by (auto simp: catalogue_validate_def check_simps Let_def list_ex_iff)
  have "kinds \<in> {set HISTORICAL_SLICE_RUN_KINDS, insert PromoteToDurableKnowledge (set HISTORICAL_SLICE_RUN_KINDS),
      insert PromoteToDurableKnowledge (set CURRENT_SLICE_RUN_KINDS)}"
    using k by (auto simp: expected_kinds_def split: if_splits)
  moreover have "distinct (map en_kind (ca_entries c))" using v(1) by (rule card_distinct)
  moreover have "(en_executable e \<longleftrightarrow> en_description_status e = ''refined'') \<and>
      (en_executable e \<longleftrightarrow> \<not> en_refinement_required e) \<and>
      (en_executable e \<longrightarrow> (\<exists>m\<in>set (en_allowed_delivery_modes e). en_default_delivery_mode e = Some m))"
    if "e \<in> set (ca_entries c)" for e
    using v(4) that by (fastforce simp: entry_invalid_def split: option.splits)
  ultimately show ?thesis using v(2,3) by blast
qed

definition example_entry :: "pipeline_kind \<Rightarrow> catalogue_entry" where
  "example_entry k = \<lparr>en_kind = k, en_description = ''d'', en_implementation_status = ''executable'',
     en_description_status = ''refined'', en_refinement_required = False, en_choose_when = ''c'',
     en_do_not_choose_when = ''a'', en_expected_result = ''r'', en_executable = True,
     en_default_delivery_mode = Some Phasewise, en_allowed_delivery_modes = [Phasewise, Whole],
     en_execution_owner = (if k = PromoteToDurableKnowledge then KnowledgeChangeOwner else SlicePipelineRun)\<rparr>"

definition example_catalogue :: catalogue_snapshot where
  "example_catalogue = \<lparr>ca_revision = ''t'', ca_digest = ''d'',
     ca_entries = map example_entry (CURRENT_SLICE_RUN_KINDS @ [PromoteToDurableKnowledge])\<rparr>"

theorem catalogue_accepts_known_sets_witness:
  "catalogue_validate example_catalogue = Inr () \<and> distinct (map en_kind (ca_entries example_catalogue))"
proof -
  have "catalogue_validate example_catalogue = Inr ()" by code_simp
  with catalogue_accepts_known_sets [of example_catalogue] show ?thesis by blast
qed

end
