(* ===== verification/SliceGraph.thy ===== *)
theory SliceGraph
  imports Pipelines CandidateDraft
begin

text \<open>
  \<^verbatim>\<open>crates/domain/src/native_planning.rs\<close> and \<^verbatim>\<open>native_planning_validation.rs\<close>: drafts of a
  scope's slices, the resolved graph of work and decision nodes, and the depth-first search that
  accepts a graph.
\<close>

section \<open>Data\<close>

record slice_draft_identity =
  sl_local :: "str option"
  sl_candidate_id :: "uuid option"
  sl_revision :: "int option"

datatype slice_ref = LocalRef str | ExistingRef uuid int

record work_draft =
  wd_identity :: slice_draft_identity
  wd_change_rationale :: "str option"
  wd_title :: str
  wd_outcome :: str
  wd_includes :: "str list"
  wd_excludes :: "str list"
  wd_dependencies :: "slice_ref list"
  wd_proof :: "str list"
  wd_pipeline :: pipeline_kind
  wd_pipeline_reason :: str
  wd_why_lightweight_insufficient :: "str option"
  wd_why_further_vertical_split_not_viable :: "str option"
  wd_source_result_ids :: "uuid list"
  wd_source_checkpoint :: "checkpoint_ref option"

record decision_draft =
  dd_identity :: slice_draft_identity
  dd_change_rationale :: "str option"
  dd_title :: str
  dd_question :: str
  dd_resolution_criteria :: "str list"
  dd_dependencies :: "slice_ref list"
  dd_source_result_ids :: "uuid list"

datatype slice_draft_node = WorkDraft work_draft | DecisionDraft decision_draft

record slice_supersession_draft =
  xs_candidate_id :: uuid
  xs_revision :: int
  xs_reason :: str
  xs_source_result_ids :: "uuid list"
  xs_replacements :: "slice_ref list"

record slice_candidate_draft =
  sf_coverage_summary :: str
  sf_nodes :: "slice_draft_node list"
  sf_supersessions :: "slice_supersession_draft list"

record work_node =
  wn_id :: uuid
  wn_revision :: int
  wn_title :: str
  wn_outcome :: str
  wn_includes :: "str list"
  wn_excludes :: "str list"
  wn_dependencies :: "uuid list"
  wn_proof :: "str list"
  wn_pipeline :: pipeline_kind
  wn_pipeline_reason :: str
  wn_why_lightweight_insufficient :: "str option"
  wn_why_further_vertical_split_not_viable :: "str option"
  wn_source_result_ids :: "uuid list"
  wn_source_checkpoint :: "checkpoint_ref option"

record decision_node =
  dn_id :: uuid
  dn_revision :: int
  dn_title :: str
  dn_question :: str
  dn_resolution_criteria :: "str list"
  dn_dependencies :: "uuid list"
  dn_source_result_ids :: "uuid list"

datatype slice_node = Work work_node | Decision decision_node

fun node_id :: "slice_node \<Rightarrow> uuid" where
  "node_id (Work n) = wn_id n" | "node_id (Decision n) = dn_id n"

fun node_revision :: "slice_node \<Rightarrow> int" where
  "node_revision (Work n) = wn_revision n" | "node_revision (Decision n) = dn_revision n"

fun node_title :: "slice_node \<Rightarrow> str" where
  "node_title (Work n) = wn_title n" | "node_title (Decision n) = dn_title n"

fun node_dependencies :: "slice_node \<Rightarrow> uuid list" where
  "node_dependencies (Work n) = wn_dependencies n" | "node_dependencies (Decision n) = dn_dependencies n"

section \<open>Validation of a draft\<close>

definition opt_or_empty :: "str option \<Rightarrow> str" where
  "opt_or_empty x = (case x of None \<Rightarrow> [] | Some s \<Rightarrow> s)"

definition work_draft_check :: "work_draft \<Rightarrow> unit result" where
  "work_draft_check w = checks
     [refuse_if (blank (wd_title w) \<or> blank (wd_outcome w) \<or> blank (wd_pipeline_reason w) \<or>
                 wd_proof w = [] \<or> list_ex blank (wd_proof w)) InvalidArguments,
      refuse_if (wd_pipeline w = FullDesignToExecution \<and>
                 (blank (opt_or_empty (wd_why_lightweight_insufficient w)) \<or>
                  blank (opt_or_empty (wd_why_further_vertical_split_not_viable w)))) InvalidArguments,
      refuse_if ((case wd_source_checkpoint w of None \<Rightarrow> False | Some c \<Rightarrow> \<not> is_ok (checkpoint_ref_validate c)) \<or>
                 (wd_source_checkpoint w \<noteq> None \<and> wd_pipeline w \<noteq> Research)) InvalidArguments]"

definition decision_draft_check :: "decision_draft \<Rightarrow> unit result" where
  "decision_draft_check d =
     refuse_if (blank (dd_title d) \<or> blank (dd_question d) \<or> dd_resolution_criteria d = [] \<or>
                list_ex blank (dd_resolution_criteria d)) InvalidArguments"

fun draft_node_check :: "slice_draft_node \<Rightarrow> unit result" where
  "draft_node_check (WorkDraft w) = work_draft_check w"
| "draft_node_check (DecisionDraft d) = decision_draft_check d"

fun draft_node_identity :: "slice_draft_node \<Rightarrow> slice_draft_identity" where
  "draft_node_identity (WorkDraft w) = wd_identity w"
| "draft_node_identity (DecisionDraft d) = dd_identity d"

fun draft_node_dependencies :: "slice_draft_node \<Rightarrow> slice_ref list" where
  "draft_node_dependencies (WorkDraft w) = wd_dependencies w"
| "draft_node_dependencies (DecisionDraft d) = dd_dependencies d"

fun draft_node_sources :: "slice_draft_node \<Rightarrow> uuid list" where
  "draft_node_sources (WorkDraft w) = wd_source_result_ids w"
| "draft_node_sources (DecisionDraft d) = dd_source_result_ids d"

definition node_local :: "slice_draft_node \<Rightarrow> str option" where
  "node_local n = sl_local (draft_node_identity n)"

fun blank_ref :: "slice_ref \<Rightarrow> bool" where
  "blank_ref (LocalRef label) = blank label" | "blank_ref (ExistingRef _ _) = False"

definition slice_draft_validate :: "slice_candidate_draft \<Rightarrow> unit result" where
  "slice_draft_validate d = checks
     [refuse_if (blank (sf_coverage_summary d) \<or> sf_nodes d = []) InvalidArguments,
      each_idx (\<lambda>i n. checks
        [draft_node_check n,
         (let identity = draft_node_identity n in
          case (sl_local identity, sl_candidate_id identity, sl_revision identity) of
            (Some label, None, None) \<Rightarrow>
              if blank label then Inl InvalidArguments
              else refuse_if (seen_before node_local (sf_nodes d) i n) InvalidArguments
          | (None, Some c, Some revision) \<Rightarrow>
              if \<not> is_nil c \<and> 0 < revision then Inr () else Inl InvalidArguments
          | _ \<Rightarrow> Inl InvalidArguments),
         refuse_if (list_ex is_nil (draft_node_sources n) \<or> list_ex blank_ref (draft_node_dependencies n))
           InvalidArguments]) (sf_nodes d)]"

section \<open>Validation of a resolved graph\<close>

text \<open>
  The recursive \<^verbatim>\<open>visit\<close>, over the map by identifier, with the sets \<^verbatim>\<open>visiting\<close> and
  \<^verbatim>\<open>visited\<close> threaded through. \<open>None\<close> is running out of fuel, which stands for the depth of the
  recursion.
\<close>

type_synonym node_map = "uuid \<Rightarrow> slice_node option"

fun visit :: "node_map \<Rightarrow> nat \<Rightarrow> uuid \<Rightarrow> uuid set \<Rightarrow> uuid set \<Rightarrow> (uuid set \<times> uuid set) result option"
and visit_dependencies ::
  "node_map \<Rightarrow> nat \<Rightarrow> uuid list \<Rightarrow> uuid set \<Rightarrow> uuid set \<Rightarrow> (uuid set \<times> uuid set) result option"
where
  "visit g 0 i visiting visited = None"
| "visit g (Suc fuel) i visiting visited =
     (if i \<in> visited then Some (Inr (visiting, visited))
      else if i \<in> visiting then Some (Inl InvalidArguments)
      else case g i of
        None \<Rightarrow> Some (Inl InvalidArguments)
      | Some node \<Rightarrow>
          (case visit_dependencies g fuel (node_dependencies node) (insert i visiting) visited of
             Some (Inr (visiting', visited')) \<Rightarrow> Some (Inr (visiting' - {i}, insert i visited'))
           | other \<Rightarrow> other))"
| "visit_dependencies g fuel [] visiting visited = Some (Inr (visiting, visited))"
| "visit_dependencies g fuel (d # ds) visiting visited =
     (if g d = None then Some (Inl InvalidArguments)
      else case visit g fuel d visiting visited of
        Some (Inr (visiting', visited')) \<Rightarrow> visit_dependencies g fuel ds visiting' visited'
      | other \<Rightarrow> other)"

fun visit_roots ::
  "node_map \<Rightarrow> nat \<Rightarrow> uuid list \<Rightarrow> uuid set \<Rightarrow> uuid set \<Rightarrow> unit result option" where
  "visit_roots g fuel [] visiting visited = Some (Inr ())"
| "visit_roots g fuel (i # ids) visiting visited =
     (case visit g fuel i visiting visited of
        Some (Inr (visiting', visited')) \<Rightarrow> visit_roots g fuel ids visiting' visited'
      | Some (Inl e) \<Rightarrow> Some (Inl e)
      | None \<Rightarrow> None)"

definition by_id :: "slice_node list \<Rightarrow> node_map" where
  "by_id nodes = map_of (rev (map (\<lambda>n. (node_id n, n)) nodes))"

definition validate_slice_graph :: "slice_node list \<Rightarrow> unit result option" where
  "validate_slice_graph nodes =
     (if card (node_id ` set nodes) \<noteq> length nodes \<or>
         list_ex (\<lambda>n. is_nil (node_id n) \<or> node_revision n < 1) nodes
      then Some (Inl InvalidArguments)
      else visit_roots (by_id nodes) (Suc (length nodes)) (btree_list (map node_id nodes)) {} {})"

section \<open>Correctness of the search\<close>

text \<open>The dependency relation of a graph.\<close>

definition depends :: "node_map \<Rightarrow> (uuid \<times> uuid) set" where
  "depends g = {(i, d). \<exists>n. g i = Some n \<and> d \<in> set (node_dependencies n)}"

text \<open>
  A node is settled when all its dependencies are: the search accepts exactly such nodes. Settled nodes
  exist, so do all their dependencies, and no settled node depends on itself through others.
\<close>

inductive settled :: "node_map \<Rightarrow> uuid \<Rightarrow> bool" for g where
  settle: "g i = Some n \<Longrightarrow> \<forall>d\<in>set (node_dependencies n). settled g d \<Longrightarrow> settled g i"

inductive_cases settledE: "settled g i"

lemma settled_exists: "settled g i \<Longrightarrow> i \<in> dom g"
  by (auto elim: settledE)

lemma settled_closed: "settled g i \<Longrightarrow> (i, d) \<in> depends g \<Longrightarrow> settled g d"
  by (auto simp: depends_def elim!: settledE)

lemma settled_acyclic: "settled g i \<Longrightarrow> (i, i) \<notin> (depends g)\<^sup>+"
proof (induction rule: settled.induct)
  case (settle i n)
  show ?case
  proof
    assume "(i, i) \<in> (depends g)\<^sup>+"
    then obtain d where d: "(i, d) \<in> depends g" "(d, i) \<in> (depends g)\<^sup>*" by (meson tranclD)
    with settle(1) have "d \<in> set (node_dependencies n)" by (auto simp: depends_def)
    moreover have "(d, d) \<in> (depends g)\<^sup>+" using d by (meson rtrancl_into_trancl1)
    ultimately show False using settle(2) by blast
  qed
qed

text \<open>
  The search with enough fuel always ends; when it succeeds, it leaves \<^verbatim>\<open>visiting\<close> as it was, keeps
  what was visited and adds only settled nodes, the given ones among them.
\<close>

definition good_visit ::
    "node_map \<Rightarrow> uuid set \<Rightarrow> uuid set \<Rightarrow> uuid set \<Rightarrow> (uuid set \<times> uuid set) result option \<Rightarrow> bool" where
  "good_visit g visiting visited ids r \<longleftrightarrow>
     (case r of None \<Rightarrow> False | Some (Inl e) \<Rightarrow> True
      | Some (Inr (v', d')) \<Rightarrow> v' = visiting \<and> visited \<subseteq> d' \<and> ids \<subseteq> d' \<and>
          ((\<forall>x\<in>visited. settled g x) \<longrightarrow> (\<forall>x\<in>d'. settled g x)))"

lemma good_visit_simps [simp]:
  "\<not> good_visit g v d ids None" "good_visit g v d ids (Some (Inl e))"
  "good_visit g v d ids (Some (Inr (v', d'))) \<longleftrightarrow> v' = v \<and> d \<subseteq> d' \<and> ids \<subseteq> d' \<and>
     ((\<forall>x\<in>d. settled g x) \<longrightarrow> (\<forall>x\<in>d'. settled g x))"
  by (simp_all add: good_visit_def)

lemma good_visit_cases:
  assumes "good_visit g v d ids r"
  obtains e where "r = Some (Inl e)" | d' where "r = Some (Inr (v, d'))" "d \<subseteq> d'" "ids \<subseteq> d'"
    "(\<forall>x\<in>d. settled g x) \<Longrightarrow> (\<forall>x\<in>d'. settled g x)"
  using assms by (auto simp: good_visit_def split: option.splits sum.splits)

lemma visit_total:
  "finite (dom g) \<Longrightarrow> visiting \<subseteq> dom g \<Longrightarrow> card (dom g - visiting) < fuel \<Longrightarrow>
     good_visit g visiting visited {i} (visit g fuel i visiting visited)"
  "finite (dom g) \<Longrightarrow> visiting \<subseteq> dom g \<Longrightarrow> card (dom g - visiting) < fuel \<Longrightarrow>
     good_visit g visiting visited (set ds) (visit_dependencies g fuel ds visiting visited)"
proof (induction g fuel i visiting visited and g fuel ds visiting visited
    rule: visit_visit_dependencies.induct)
  case (1 g i visiting visited)
  then show ?case by simp
next
  case (2 g fuel i visiting visited)
  show ?case
  proof (cases "i \<in> visited \<or> i \<in> visiting \<or> g i = None")
    case True
    then show ?thesis by auto
  next
    case False
    then obtain n where n: "i \<notin> visited" "i \<notin> visiting" "g i = Some n" by auto
    have less: "card (dom g - insert i visiting) < fuel"
    proof -
      have "dom g - insert i visiting \<subset> dom g - visiting" using n by auto
      with 2(2) have "card (dom g - insert i visiting) < card (dom g - visiting)"
        by (intro psubset_card_mono) auto
      with 2(4) show ?thesis by simp
    qed
    have "good_visit g (insert i visiting) visited (set (node_dependencies n))
        (visit_dependencies g fuel (node_dependencies n) (insert i visiting) visited)"
      using 2(1) [OF n(1,2,3)] 2(2,3) n(3) less by auto
    then show ?thesis
    proof (cases rule: good_visit_cases)
      case (1 e)
      with n show ?thesis by simp
    next
      case (2 d')
      have "settled g i" if "\<forall>x\<in>d'. settled g x"
        using n(3) 2(3) that by (intro settled.settle [where n = n]) auto
      with n 2 show ?thesis by (auto simp: insert_Diff_if)
    qed
  qed
next
  case (3 g fuel visiting visited)
  then show ?case by simp
next
  case (4 g fuel d ds visiting visited)
  show ?case
  proof (cases "g d = None")
    case True
    then show ?thesis by simp
  next
    case False
    from 4(1) [OF False 4(3-5)] show ?thesis
    proof (cases rule: good_visit_cases)
      case (1 e)
      with False show ?thesis by simp
    next
      case (2 d')
      have "good_visit g visiting d' (set ds) (visit_dependencies g fuel ds visiting d')"
        using 4(2) [OF False 2(1) refl refl 4(3-5)] by simp
      then show ?thesis
      proof (cases rule: good_visit_cases)
        case (1 e)
        with False 2(1) show ?thesis by simp
      next
        case (2 d'')
        with False \<open>visit g fuel d visiting visited = Some (Inr (visiting, d'))\<close> \<open>visited \<subseteq> d'\<close> \<open>{d} \<subseteq> d'\<close>
          \<open>(\<forall>x\<in>visited. settled g x) \<Longrightarrow> (\<forall>x\<in>d'. settled g x)\<close>
        show ?thesis by auto
      qed
    qed
  qed
qed

text \<open>
  Where dependencies exist and nothing depends on itself, the search finds no error, as long as
  every node being visited reaches the one that is looked at.
\<close>

definition sound_graph :: "node_map \<Rightarrow> bool" where
  "sound_graph g \<longleftrightarrow> (\<forall>(i, d)\<in>depends g. d \<in> dom g) \<and> acyclic (depends g)"

lemma visit_no_error:
  "sound_graph g \<Longrightarrow> finite (dom g) \<Longrightarrow> visiting \<subseteq> dom g \<Longrightarrow> card (dom g - visiting) < fuel \<Longrightarrow> i \<in> dom g \<Longrightarrow>
     \<forall>v\<in>visiting. (v, i) \<in> (depends g)\<^sup>+ \<Longrightarrow> \<forall>e. visit g fuel i visiting visited \<noteq> Some (Inl e)"
  "sound_graph g \<Longrightarrow> finite (dom g) \<Longrightarrow> visiting \<subseteq> dom g \<Longrightarrow> card (dom g - visiting) < fuel \<Longrightarrow>
     set ds \<subseteq> dom g \<Longrightarrow>
     \<forall>v\<in>visiting. \<forall>d\<in>set ds. (v, d) \<in> (depends g)\<^sup>+ \<Longrightarrow>
     \<forall>e. visit_dependencies g fuel ds visiting visited \<noteq> Some (Inl e)"
proof (induction g fuel i visiting visited and g fuel ds visiting visited
    rule: visit_visit_dependencies.induct)
  case (1 g i visiting visited)
  then show ?case by simp
next
  case (2 g fuel i visiting visited)
  show ?case
  proof (cases "i \<in> visited")
    case True
    then show ?thesis by simp
  next
    case False
    have ni: "i \<notin> visiting" using 2(2,7) by (auto simp: sound_graph_def acyclic_def)
    obtain n where n: "g i = Some n" using 2(6) by auto
    have dep: "(i, d) \<in> depends g" if "d \<in> set (node_dependencies n)" for d
      using n that by (auto simp: depends_def)
    have sub: "set (node_dependencies n) \<subseteq> dom g" using dep 2(2) by (fastforce simp: sound_graph_def)
    have paths: "\<forall>v\<in>insert i visiting. \<forall>d\<in>set (node_dependencies n). (v, d) \<in> (depends g)\<^sup>+"
      using dep 2(7) by (auto intro: trancl.intros)
    have less: "card (dom g - insert i visiting) < fuel"
    proof -
      have "dom g - insert i visiting \<subset> dom g - visiting" using n ni by auto
      with 2(3) have "card (dom g - insert i visiting) < card (dom g - visiting)"
        by (intro psubset_card_mono) auto
      with 2(5) show ?thesis by simp
    qed
    have "\<forall>e. visit_dependencies g fuel (node_dependencies n) (insert i visiting) visited \<noteq> Some (Inl e)"
      using 2(1) [OF False ni n 2(2,3) _ less sub paths] 2(4,6) by auto
    then show ?thesis using False ni n by (auto split: option.splits sum.splits)
  qed
next
  case (3 g fuel visiting visited)
  then show ?case by simp
next
  case (4 g fuel d ds visiting visited)
  have d: "g d \<noteq> None" using 4(7) by auto
  have first: "\<forall>e. visit g fuel d visiting visited \<noteq> Some (Inl e)"
    using 4(1) [OF d 4(3-6)] 4(7,8) by auto
  from visit_total(1) [OF 4(4-6), where i = d and visited = visited] show ?case
  proof (cases rule: good_visit_cases)
    case (1 e')
    with first show ?thesis by simp
  next
    case (2 d')
    from 4(2) [OF d 2(1) refl refl 4(3-6)] 4(7,8) 2(1) d show ?thesis by auto
  qed
qed

text \<open>The loop over the nodes in ascending order of their identifiers.\<close>

lemma visit_roots_total:
  "finite (dom g) \<Longrightarrow> card (dom g) < fuel \<Longrightarrow> \<forall>x\<in>visited. settled g x \<Longrightarrow>
     \<exists>r. visit_roots g fuel ids {} visited = Some r \<and> (r = Inr () \<longrightarrow> (\<forall>i\<in>set ids. settled g i))"
proof (induction ids arbitrary: visited)
  case (Cons i ids)
  have "good_visit g {} visited {i} (visit g fuel i {} visited)"
    using visit_total(1) [where visiting = "{}"] Cons.prems by simp
  then show ?case
  proof (cases rule: good_visit_cases)
    case (1 e)
    then show ?thesis by simp
  next
    case (2 d')
    with Cons.IH [of d'] Cons.prems show ?thesis by auto
  qed
qed simp

lemma visit_roots_no_error:
  "sound_graph g \<Longrightarrow> finite (dom g) \<Longrightarrow> card (dom g) < fuel \<Longrightarrow> set ids \<subseteq> dom g \<Longrightarrow>
     \<forall>e. visit_roots g fuel ids {} visited \<noteq> Some (Inl e)"
proof (induction ids arbitrary: visited)
  case (Cons i ids)
  have "good_visit g {} visited {i} (visit g fuel i {} visited)"
    using visit_total(1) [where visiting = "{}"] Cons.prems by simp
  moreover have "\<forall>e. visit g fuel i {} visited \<noteq> Some (Inl e)"
    using visit_no_error(1) [where visiting = "{}"] Cons.prems by simp
  ultimately obtain d' where "visit g fuel i {} visited = Some (Inr ({}, d'))"
    by (auto elim: good_visit_cases)
  with Cons.IH [of d'] Cons.prems show ?case by simp
qed simp

lemma by_id_dom: "dom (by_id nodes) = node_id ` set nodes"
  by (simp add: by_id_def dom_map_of_conv_image_fst image_image)

lemma by_id_Some:
  assumes "distinct (map node_id nodes)" and "n \<in> set nodes"
  shows "by_id nodes (node_id n) = Some n"
  unfolding by_id_def using assms
  by (intro map_of_is_SomeI) (auto simp: rev_map [symmetric] comp_def image_iff)

text \<open>The edges of a list of nodes, without the map.\<close>

definition edges :: "slice_node list \<Rightarrow> (uuid \<times> uuid) set" where
  "edges nodes = {(node_id n, d) | n d. n \<in> set nodes \<and> d \<in> set (node_dependencies n)}"

lemma edges_depends: "distinct (map node_id nodes) \<Longrightarrow> depends (by_id nodes) = edges nodes"
proof -
  assume d: "distinct (map node_id nodes)"
  have "by_id nodes i = Some n \<longleftrightarrow> n \<in> set nodes \<and> node_id n = i" for i n
    using by_id_Some [OF d] by (auto simp: by_id_def dest!: map_of_SomeD)
  then show ?thesis by (auto simp: depends_def edges_def)
qed

section \<open>Properties\<close>

text \<open>
  C25: the search always ends, and it accepts a graph exactly when the identifiers are distinct and
  not nil, the revisions are positive, every dependency is a node of the graph, and no node depends on itself
  through any chain of dependencies.
\<close>

theorem slice_graph_accepts_iff:
  "\<exists>r. validate_slice_graph nodes = Some r \<and>
     (r = Inr () \<longleftrightarrow> distinct (map node_id nodes) \<and>
        list_all (\<lambda>n. node_id n \<noteq> 0 \<and> 1 \<le> node_revision n) nodes \<and>
        snd ` edges nodes \<subseteq> set (map node_id nodes) \<and> acyclic (edges nodes))"
proof (cases "card (node_id ` set nodes) \<noteq> length nodes \<or>
    list_ex (\<lambda>n. is_nil (node_id n) \<or> node_revision n < 1) nodes")
  case True
  then show ?thesis
    using card_set_length [of "map node_id nodes"]
    by (auto simp: validate_slice_graph_def list_ex_iff list_all_iff not_less [symmetric])
next
  case False
  let ?g = "by_id nodes" and ?ids = "btree_list (map node_id nodes)"
  have dist: "distinct (map node_id nodes)" using False card_set_length [of "map node_id nodes"] by simp
  have basic: "list_all (\<lambda>n. node_id n \<noteq> 0 \<and> 1 \<le> node_revision n) nodes"
    using False by (auto simp: list_ex_iff list_all_iff)
  have fin: "finite (dom ?g)" by (simp add: by_id_dom)
  have card: "card (dom ?g) < Suc (length nodes)"
    using card_image_le [of "set nodes" node_id] card_length [of nodes] by (simp add: by_id_dom)
  obtain r where r: "visit_roots ?g (Suc (length nodes)) ?ids {} {} = Some r"
    "r = Inr () \<Longrightarrow> \<forall>i\<in>set ?ids. settled ?g i"
    using visit_roots_total [OF fin card, of "{}" ?ids] by auto
  have dom: "dom ?g = set (map node_id nodes)" by (simp add: by_id_dom)
  have sound: "sound_graph ?g \<longleftrightarrow> snd ` edges nodes \<subseteq> set (map node_id nodes) \<and> acyclic (edges nodes)"
    by (auto simp: sound_graph_def edges_depends [OF dist] dom)
  have "sound_graph ?g" if "r = Inr ()"
  proof -
    have all: "settled ?g i" if "i \<in> dom ?g" for i using r(2) \<open>r = Inr ()\<close> that dom by auto
    have from_dom: "i \<in> dom ?g" if "(i, d) \<in> depends ?g" for i d using that by (auto simp: depends_def)
    have "acyclic (depends ?g)"
      unfolding acyclic_def using settled_acyclic all from_dom by (metis tranclD)
    moreover have "d \<in> dom ?g" if "(i, d) \<in> depends ?g" for i d
      using settled_exists [OF settled_closed [OF all [OF from_dom [OF that]] that]] .
    ultimately show ?thesis by (auto simp: sound_graph_def)
  qed
  moreover have "r = Inr ()" if "sound_graph ?g"
    using visit_roots_no_error [OF that fin card, of ?ids "{}"] dom r(1) by (cases r) auto
  moreover have "validate_slice_graph nodes = Some r" using False r(1) by (simp add: validate_slice_graph_def)
  ultimately show ?thesis using sound dist basic by blast
qed

end
