(* ===== verification/PipelineTypes.thy ===== *)
theory PipelineTypes
  imports Pipelines CandidateDelta
begin

text \<open>
  \<^verbatim>\<open>crates/domain/src/pipeline_execution.rs\<close> with \<^verbatim>\<open>constraints.rs\<close>, \<^verbatim>\<open>api/commands.rs\<close> and the
  types of \<^verbatim>\<open>pipeline_followups.rs\<close>: pinned pipeline definitions, runs, phase outputs and the
  commands on a run. Field maps (\<^verbatim>\<open>BTreeMap<String, String>\<close>) are partial functions.
\<close>

section \<open>States and transitions\<close>

datatype run_status = RunActive | RunWaitingInput | RunBlocked | RunCompleted | RunEscalated | RunSuperseded

datatype phase_outcome = PhaseCompleted | PhaseWaitingInput | PhaseBlocked

datatype transition = Continue | Complete | Block | Escalate

datatype retry_policy = Repeatable | ExactReplayOnly | ReconciliationRequired

record verdict_route =
  vr_verdict :: str
  vr_outcome :: phase_outcome
  vr_transition :: transition
  vr_dispositions :: "str list"
  vr_revisit_to :: "str list"

record instruction_snapshot =
  in_id :: str
  in_version :: str
  in_digest :: str
  in_body :: str
  in_origin_refs :: "str list"

section \<open>Output constraints\<close>

record engineering_review_constraint =
  er_stage :: str
  er_standards_resource_id :: str
  er_standards_resource_digest :: str
  er_artifact_name :: str
  er_success_verdicts :: "str list"
  er_required_prior_review_phase_ids :: "str list"
  er_required_reconciliation_phase_id :: "str option"

datatype output_constraint =
    EngineeringReview engineering_review_constraint
  | CodeAuthorization str
  | ResolvedKnowledgePublication "str list"
  | ReviewerContextMode str str str
  | FieldRequired str "str option"
  | FieldEquals str str "str option"
  | FieldNotEquals str str "str option"
  | FieldIntegerEquals str int "str option"
  | FieldIntegerNotEquals str int "str option"
  | FieldIntegerMinimum str int "str option"
  | FieldBooleanEquals str bool "str option"
  | FieldOneOf str "str list" "str option"
  | FieldsEqual str str "str option"
  | CommandReceiptRequired str str str bool "str option" "str option"

section \<open>Artifacts and validators\<close>

record artifact_requirement =
  aq_name_pattern :: str
  aq_media_type :: str
  aq_schema_ref :: "str option"
  aq_schema_resource_id :: "str option"
  aq_schema_resource_digest :: "str option"
  aq_required :: bool
  aq_minimum_matches :: nat
  aq_when_verdict :: "str option"

record phase_artifact =
  pa_name :: str
  pa_media_type :: str
  pa_body :: str
  pa_digest :: str
  pa_reference :: "str option"

record artifact_digest_ref =
  ad_name :: str
  ad_digest :: str

record validator_contract =
  vc_resource_id :: str
  vc_version :: str
  vc_digest :: str
  vc_stage :: str
  vc_artifact_patterns :: "str list"
  vc_required_verdicts :: "str list"
  vc_success_verdicts :: "str list"

record validator_receipt =
  vp_resource_id :: str
  vp_version :: str
  vp_digest :: str
  vp_stage :: str
  vp_command :: str
  vp_exit_code :: int
  vp_valid :: bool
  vp_artifacts :: "artifact_digest_ref list"

section \<open>Follow-ups\<close>

record consumed_output =
  co_phase_id :: str
  co_output_revision :: int
  co_digest :: str

record consumed_input =
  ci_input_id :: uuid
  ci_sequence :: int
  ci_digest :: str

datatype followup_node_status = FutureCandidate | SatisfiedByCurrentRun

record followup_node =
  fn_local_id :: str
  fn_pipeline :: pipeline_kind
  fn_status :: followup_node_status
  fn_target :: str
  fn_trigger :: str
  fn_source_outputs :: "consumed_output list"

datatype followup_dependency = Ordered str str str | Unresolved "str list" str str

record followup_proposal =
  fp_nodes :: "followup_node list"
  fp_dependencies :: "followup_dependency list"

record current_run_contract =
  cc_kind :: pipeline_kind
  cc_evidence_phase_ids :: "str list"

record followup_contract =
  fc_verdict :: str
  fc_outcome :: phase_outcome
  fc_transition :: transition
  fc_allowed_kinds :: "pipeline_kind list"
  fc_required_kind_groups :: "pipeline_kind list list"
  fc_minimum_nodes :: nat
  fc_minimum_dependencies :: nat
  fc_current_run :: "current_run_contract option"

section \<open>Definitions\<close>

record phase_definition =
  ph_id :: str
  ph_ordinal :: nat
  ph_title :: str
  ph_required :: bool
  ph_disposition_required :: bool
  ph_instructions :: "instruction_snapshot list"
  ph_skills :: "instruction_snapshot list"
  ph_resources :: "instruction_snapshot list"
  ph_required_artifacts :: "artifact_requirement list"
  ph_validator_contracts :: "validator_contract list"
  ph_required_fields :: "str list"
  ph_allowed_verdicts :: "str list"
  ph_required_dispositions :: "str list"
  ph_allowed_dispositions :: "str list"
  ph_output_constraints :: "output_constraint list"
  ph_verdict_routes :: "verdict_route list"
  ph_followup_contracts :: "followup_contract list"
  ph_allowed_backward_to :: "str list"
  ph_fresh_reviewer_input :: bool
  ph_retry_policy :: retry_policy
  ph_output_contract :: str

record pipeline_definition =
  pd_kind :: pipeline_kind
  pd_version :: str
  pd_digest :: str
  pd_overview :: instruction_snapshot
  pd_default_mode :: delivery_mode
  pd_allowed_modes :: "delivery_mode list"
  pd_phases :: "phase_definition list"
  pd_completion_contract :: str
  pd_escalation_contract :: str
  pd_forbidden_claims :: "str list"

section \<open>Outputs and commands\<close>

record read_receipt =
  rr_instruction_id :: str
  rr_version :: str
  rr_digest :: str

record reviewer_attestation =
  rw_reviewer_identity :: str
  rw_reviewer_context_id :: str
  rw_producer_context_ids :: "str list"
  rw_fresh_input :: bool

text \<open>\<^verbatim>\<open>KnowledgePublicationReference\<close> of \<^verbatim>\<open>knowledge_lifecycle_execution.rs\<close>\<close>

record knowledge_publication_reference =
  kp_change_id :: uuid
  kp_publisher_receipt_id :: uuid
  kp_publisher_receipt_digest :: str
  kp_operation_ids :: "uuid list"

text \<open>\<^verbatim>\<open>ConsumedKnowledgeManifestRef\<close> of \<^verbatim>\<open>durable_knowledge.rs\<close>\<close>

record consumed_knowledge_ref =
  ck_manifest_id :: uuid
  ck_digest :: str

record phase_output_draft =
  po_body :: str
  po_producer_context_id :: str
  po_fields :: "str \<Rightarrow> str option"
  po_verdict :: "str option"
  po_dispositions :: "str list"
  po_skill_reads :: "read_receipt list"
  po_resource_reads :: "read_receipt list"
  po_artifacts :: "phase_artifact list"
  po_evidence_artifacts :: "evidence_artifact_ref list"
  po_validator_receipts :: "validator_receipt list"
  po_followup_proposal :: "followup_proposal option"
  po_reviewer_context :: "reviewer_attestation option"
  po_reference :: "str option"
  po_knowledge_publication :: "knowledge_publication_reference option"

text \<open>\<^verbatim>\<open>SliceResultEvidence\<close> of \<^verbatim>\<open>native_planning/result.rs\<close>\<close>

record slice_result_evidence =
  se_kind :: str
  se_reference :: str
  se_observation :: str

record terminal_result_draft =
  td_summary :: str
  td_evidence :: "slice_result_evidence list"
  td_scope_impact :: str
  td_remaining_work :: str

record complete_phase =
  cx_request_id :: uuid
  cx_run_id :: uuid
  cx_run_revision :: int
  cx_phase_id :: str
  cx_outcome :: phase_outcome
  cx_transition :: transition
  cx_output :: phase_output_draft
  cx_consumed_outputs :: "consumed_output list"
  cx_consumed_inputs :: "consumed_input list"
  cx_revisit_phase_id :: "str option"
  cx_escalation_target :: "pipeline_kind option"
  cx_terminal_result :: "terminal_result_draft option"
  cx_publish_blocked_result :: bool
  cx_consumed_knowledge :: "consumed_knowledge_ref option"
  cx_research_checkpoint :: "research_checkpoint_draft option"

record begin_run =
  bg_request_id :: uuid
  bg_scope_id :: uuid
  bg_slice_id :: uuid
  bg_slice_revision :: int
  bg_delivery_mode :: "delivery_mode option"
  bg_definition_version :: "str option"
  bg_inquiry :: "inquiry_contract option"
  bg_source_checkpoint :: "checkpoint_ref option"
  bg_qualification_reason :: str

record escalate_delivery =
  es_request_id :: uuid
  es_run_id :: uuid
  es_run_revision :: int
  es_phase_id :: str
  es_reason :: str

record pipeline_run =
  rn_id :: uuid
  rn_scope_id :: uuid
  rn_slice_id :: uuid
  rn_slice_revision :: int
  rn_revision :: int
  rn_definition_kind :: pipeline_kind
  rn_definition_version :: str
  rn_definition_digest :: str
  rn_delivery_mode :: delivery_mode
  rn_qualification_reason :: str
  rn_status :: run_status
  rn_current_phase_id :: "str option"
  rn_current_phase_ordinal :: "nat option"

end
