(* ===== verification/PipelineArtifacts.thy ===== *)
theory PipelineArtifacts
  imports PipelineTypes
begin

text \<open>
  \<^verbatim>\<open>crates/domain/src/pipeline_artifacts.rs\<close> and its modules: artifact names and their wildcard
  patterns, the artifact requirements and validator contracts of a phase, and the artifacts and
  validator receipts of a phase output.
\<close>

section \<open>Names and patterns\<close>

definition name_part_ok :: "str \<Rightarrow> bool" where
  "name_part_ok part \<longleftrightarrow> part \<noteq> '''' \<and> part \<noteq> ''.'' \<and> part \<noteq> ''..''"

definition valid_name :: "str \<Rightarrow> bool" where
  "valid_name s \<longleftrightarrow> s \<noteq> [] \<and> \<not> prefix ''/'' s \<and> CHR 0x5C \<notin> set s \<and>
     list_all name_part_ok (split_on CHR ''/'' s)"

definition valid_pattern :: "str \<Rightarrow> bool" where
  "valid_pattern s \<longleftrightarrow>
     length (filter (\<lambda>c. c = CHR ''*'') s) \<le> 1 \<and> valid_name (replace_char CHR ''*'' ''x'' s)"

definition pattern_matches :: "str \<Rightarrow> str \<Rightarrow> bool" where
  "pattern_matches pattern name \<longleftrightarrow> valid_name name \<and>
     (case split_once CHR ''*'' pattern of
        Some (pre, post) \<Rightarrow>
          (let middle_end = length name - length post in
           prefix pre name \<and> suffix post name \<and> length pre + length post \<le> length name \<and>
           CHR ''/'' \<notin> set (take (middle_end - length pre) (drop (length pre) name)))
      | None \<Rightarrow> pattern = name)"

definition requirement_applies :: "artifact_requirement \<Rightarrow> str option \<Rightarrow> bool" where
  "requirement_applies r verdict =
     (case aq_when_verdict r of None \<Rightarrow> True | Some required \<Rightarrow> verdict = Some required)"

section \<open>Refusals\<close>

definition artifact_refusal :: "refusal_code \<Rightarrow> str \<Rightarrow> str \<Rightarrow> str \<Rightarrow> str \<Rightarrow> error" where
  "artifact_refusal code rule path expected actual =
     (let (next_action, req) =
        (if code = RC_InputSchemaInvalid then (''correct_input_and_retry'', ''schema_valid_input'')
         else (''correct_output'', ''output''))
      in Refused (with_required req (with_next_action next_action (with_actual actual (with_expected expected
           (with_path path (with_rule rule (with_message (rc_message code) (refusal_new code)))))))))"

text \<open>\<^verbatim>\<open>format!("{prefix}[{index}]")\<close>\<close>

definition at_index :: "str \<Rightarrow> nat \<Rightarrow> str" where
  "at_index p i = p @ ''['' @ show_nat i @ '']''"

text \<open>The index of the paths of definition refusals is put in front by the caller.\<close>

definition prefix_path :: "nat \<Rightarrow> refusal \<Rightarrow> refusal" where
  "prefix_path phase_index r =
     (case rf_path r of
        None \<Rightarrow> r
      | Some path \<Rightarrow>
          if prefix ''required_artifacts['' path \<or> prefix ''validator_contracts['' path
          then r\<lparr>rf_path := Some (at_index ''pipeline_definition.phases'' phase_index @ ''.'' @ path)\<rparr>
          else r)"

fun prefix_definition_refusal :: "error \<Rightarrow> nat \<Rightarrow> error" where
  "prefix_definition_refusal (Refused r) i = Refused (prefix_path i r)"
| "prefix_definition_refusal (PipelineRefused src r) i =
     PipelineRefused (prefix_definition_refusal src i) (prefix_path i r)"
| "prefix_definition_refusal e i = e"

section \<open>Definitions\<close>

definition schema_valid :: "phase_definition \<Rightarrow> artifact_requirement \<Rightarrow> bool" where
  "schema_valid ph r =
     (case (aq_schema_ref r, aq_schema_resource_id r, aq_schema_resource_digest r) of
        (None, None, None) \<Rightarrow> aq_media_type r \<noteq> ''application/json''
      | (Some schema_ref, Some resource_id, Some resource_digest) \<Rightarrow>
          \<not> blank schema_ref \<and> \<not> blank resource_id \<and> \<not> blank resource_digest \<and>
          sublist resource_digest schema_ref \<and>
          list_ex (\<lambda>x. in_id x = resource_id \<and> in_digest x = resource_digest \<and>
                       list_ex (\<lambda>origin. prefix origin schema_ref) (in_origin_refs x)) (ph_resources ph)
      | _ \<Rightarrow> False)"

definition requirement_key :: "artifact_requirement \<Rightarrow> str \<times> str \<times> str option" where
  "requirement_key r = (aq_name_pattern r, aq_media_type r, aq_when_verdict r)"

definition requirement_check :: "phase_definition \<Rightarrow> nat \<Rightarrow> artifact_requirement \<Rightarrow> unit result" where
  "requirement_check ph i r =
     (let fail = (\<lambda>rule field expected actual. artifact_refusal RC_InputSchemaInvalid rule
                    (at_index ''required_artifacts'' i @ ''.'' @ field) expected actual) in
      checks
       [refuse_if (\<not> valid_pattern (aq_name_pattern r))
          (fail ''WP6-ARTIFACT-DEFINITION-NAME'' ''name_pattern''
             ''safe relative pattern with at most one wildcard'' ''invalid pattern''),
        refuse_if (blank (aq_media_type r))
          (fail ''WP6-ARTIFACT-DEFINITION-MEDIA'' ''media_type'' ''nonblank media type'' ''blank''),
        refuse_if (\<not> schema_valid ph r)
          (fail ''WP6-ARTIFACT-DEFINITION-SCHEMA'' ''schema_ref''
             ''JSON schema resource trio with matching digest and origin; optional for other media''
             ''missing, incomplete or mismatched''),
        refuse_if (aq_minimum_matches r = 0)
          (fail ''WP6-ARTIFACT-DEFINITION-COUNT'' ''minimum_matches'' ''positive minimum count'' ''0''),
        refuse_if (seen_before requirement_key (ph_required_artifacts ph) i r)
          (fail ''WP6-ARTIFACT-DEFINITION-DUPLICATE'' ''name_pattern''
             ''unique name/media/verdict requirement'' ''duplicate''),
        refuse_if (case aq_when_verdict r of None \<Rightarrow> False | Some v \<Rightarrow> v \<notin> set (ph_allowed_verdicts ph))
          (fail ''WP6-ARTIFACT-DEFINITION-VERDICT'' ''when_verdict'' ''allowed phase verdict'' ''unknown verdict'')])"

definition contract_key :: "validator_contract \<Rightarrow> str \<times> str" where
  "contract_key c = (vc_resource_id c, vc_stage c)"

definition contract_check :: "phase_definition \<Rightarrow> nat \<Rightarrow> validator_contract \<Rightarrow> unit result" where
  "contract_check ph i c =
     (let fail = (\<lambda>rule field expected actual.
                    artifact_refusal RC_InputSchemaInvalid (''WP6-VALIDATOR-RECEIPT-DEFINITION-'' @ rule)
                    (at_index ''validator_contracts'' i @ ''.'' @ field) expected actual) in
      checks
       [refuse_if (blank (vc_resource_id c)) (fail ''RESOURCE'' ''resource_id'' ''nonblank resource_id'' ''blank''),
        refuse_if (blank (vc_version c)) (fail ''VERSION'' ''version'' ''nonblank version'' ''blank''),
        refuse_if (blank (vc_digest c)) (fail ''DIGEST'' ''digest'' ''nonblank digest'' ''blank''),
        refuse_if (blank (vc_stage c)) (fail ''STAGE'' ''stage'' ''nonblank stage'' ''blank''),
        refuse_if (vc_artifact_patterns c = [])
          (fail ''PATTERNS'' ''artifact_patterns'' ''nonempty list'' ''count=0''),
        refuse_if (vc_success_verdicts c = [])
          (fail ''SUCCESS'' ''success_verdicts'' ''nonempty list'' ''count=0''),
        refuse_at (first_dup (vc_artifact_patterns c)) (\<lambda>k.
          fail ''PATTERN-DUPLICATE'' (at_index ''artifact_patterns'' k) ''unique list entry'' ''duplicate''),
        refuse_at (first_dup (vc_required_verdicts c)) (\<lambda>k.
          fail ''REQUIRED-DUPLICATE'' (at_index ''required_verdicts'' k) ''unique list entry'' ''duplicate''),
        refuse_at (first_dup (vc_success_verdicts c)) (\<lambda>k.
          fail ''SUCCESS-DUPLICATE'' (at_index ''success_verdicts'' k) ''unique list entry'' ''duplicate''),
        refuse_if (seen_before contract_key (ph_validator_contracts ph) i c)
          (fail ''DUPLICATE'' ''resource_id'' ''unique resource/stage identity'' ''duplicate''),
        each_idx (\<lambda>k pattern. checks
          [refuse_if (\<not> valid_pattern pattern)
             (fail ''PATTERN'' (at_index ''artifact_patterns'' k) ''safe bounded artifact pattern'' ''invalid pattern''),
           refuse_if (\<not> list_ex (\<lambda>r. aq_name_pattern r = pattern) (ph_required_artifacts ph))
             (fail ''PATTERN-REQUIREMENT'' (at_index ''artifact_patterns'' k)
                ''pattern declared by phase artifact requirement'' ''undeclared'')]) (vc_artifact_patterns c),
        each_idx (\<lambda>k verdict. refuse_if (verdict \<notin> set (ph_allowed_verdicts ph))
          (fail ''SUCCESS-VERDICT'' (at_index ''success_verdicts'' k) ''allowed phase verdict'' ''unknown''))
          (vc_success_verdicts c),
        each_idx (\<lambda>k verdict. refuse_if (verdict \<notin> set (ph_allowed_verdicts ph))
          (fail ''REQUIRED-VERDICT'' (at_index ''required_verdicts'' k) ''allowed phase verdict'' ''unknown''))
          (vc_required_verdicts c),
        (if vc_required_verdicts c = [] then Inr ()
         else refuse_at (position (\<lambda>v. v \<notin> set (vc_required_verdicts c)) (vc_success_verdicts c)) (\<lambda>k.
           fail ''SUCCESS-REQUIRED'' (at_index ''success_verdicts'' k)
             ''success verdict included in required_verdicts'' ''absent'')),
        refuse_if (\<not> list_ex (\<lambda>x. in_id x = vc_resource_id c \<and> in_version x = vc_version c \<and>
                               in_digest x = vc_digest c) (ph_resources ph))
          (fail ''RESOURCE-MATCH'' ''resource_id'' ''phase resource with matching ID/version/digest''
             ''absent or mismatched'')])"

definition validate_validator_definition :: "phase_definition \<Rightarrow> unit result" where
  "validate_validator_definition ph = each_idx (contract_check ph) (ph_validator_contracts ph)"

definition validate_artifact_definition :: "phase_definition \<Rightarrow> unit result" where
  "validate_artifact_definition ph = checks
     [each_idx (requirement_check ph) (ph_required_artifacts ph), validate_validator_definition ph]"

section \<open>Receipts\<close>

definition receipt_key :: "validator_receipt \<Rightarrow> str \<times> str" where
  "receipt_key r = (vp_resource_id r, vp_stage r)"

text \<open>\<^verbatim>\<open>iter().enumerate().find(p)\<close>\<close>

definition find_idx :: "('a \<Rightarrow> bool) \<Rightarrow> 'a list \<Rightarrow> (nat \<times> 'a) option" where
  "find_idx p xs = map_option (\<lambda>i. (i, xs ! i)) (position p xs)"

definition receipt_check ::
    "phase_output_draft \<Rightarrow> validator_contract \<Rightarrow> bool \<Rightarrow> nat \<Rightarrow> validator_receipt \<Rightarrow> unit result" where
  "receipt_check out c req i r =
     (let path = at_index ''output.validator_receipts'' i;
          fail = (\<lambda>rule field expected actual. artifact_refusal RC_InvalidOutput
                    (''WP6-VALIDATOR-RECEIPT-'' @ rule) (path @ ''.'' @ field) expected actual);
          expected = set (map (\<lambda>a. (pa_name a, pa_digest a))
             (filter (\<lambda>a. list_ex (\<lambda>p. pattern_matches p (pa_name a)) (vc_artifact_patterns c)) (po_artifacts out)));
          pairs = map (\<lambda>a. (ad_name a, ad_digest a)) (vp_artifacts r);
          success = (case po_verdict out of None \<Rightarrow> False | Some v \<Rightarrow> v \<in> set (vc_success_verdicts c));
          not_run = (vp_command r = ''not_run'') in
      checks
       [refuse_if (vp_version r \<noteq> vc_version c) (fail ''VERSION'' ''version'' ''contract version'' ''mismatched''),
        refuse_if (vp_digest r \<noteq> vc_digest c) (fail ''DIGEST'' ''digest'' ''contract digest'' ''mismatched''),
        refuse_if (blank (vp_command r)) (fail ''COMMAND'' ''command'' ''nonblank validator command'' ''blank''),
        (if not_run then Inr () else checks
          [refuse_at (first_dup pairs) (\<lambda>k.
             fail ''ARTIFACT-DUPLICATE'' (at_index ''artifacts'' k) ''unique artifact name/digest tuple'' ''duplicate''),
           refuse_if (set pairs \<noteq> expected)
             (fail ''ARTIFACT-SET'' ''artifacts'' ''exact set of matching output artifact names and digests''
                ''mismatched'')]),
        (if \<not> not_run then Inr () else checks
          [refuse_if req (fail ''NOT-RUN-REQUIRED'' ''command'' ''executed validator when required'' ''not_run''),
           refuse_if (vp_valid r) (fail ''NOT-RUN-VALID'' ''valid'' ''false for not_run'' ''true''),
           refuse_if (vp_artifacts r \<noteq> []) (fail ''NOT-RUN-ARTIFACTS'' ''artifacts'' ''empty for not_run'' ''nonempty'')]),
        (if \<not> success then Inr () else checks
          [refuse_if (vp_exit_code r \<noteq> 0)
             (artifact_refusal RC_InvalidOutput ''WP6-VALIDATOR-RECEIPT-SUCCESS-EXIT'' (path @ ''.exit_code'')
                ''0 for success verdict'' (show_int (vp_exit_code r))),
           refuse_if (\<not> vp_valid r) (fail ''SUCCESS-VALID'' ''valid'' ''true for success verdict'' ''false'')])])"

definition contract_receipt_check :: "phase_output_draft \<Rightarrow> nat \<Rightarrow> validator_contract \<Rightarrow> unit result" where
  "contract_receipt_check out i c =
     (let receipt = find_idx (\<lambda>r. receipt_key r = contract_key c) (po_validator_receipts out);
          req = (vc_required_verdicts c = [] \<or>
                 (case po_verdict out of None \<Rightarrow> False | Some v \<Rightarrow> v \<in> set (vc_required_verdicts c))) in
      checks
       [refuse_if (req \<and> receipt = None)
          (artifact_refusal RC_InvalidOutput ''WP6-VALIDATOR-RECEIPT-MISSING'' ''output.validator_receipts''
             (''receipt for '' @ at_index ''validator_contracts'' i) ''missing''),
        (case receipt of None \<Rightarrow> Inr () | Some (k, r) \<Rightarrow> receipt_check out c req k r)])"

definition validate_validator_receipts :: "phase_definition \<Rightarrow> phase_output_draft \<Rightarrow> unit result" where
  "validate_validator_receipts ph out = checks
     [refuse_at (first_dup (map receipt_key (po_validator_receipts out))) (\<lambda>i.
        artifact_refusal RC_InvalidOutput ''WP6-VALIDATOR-RECEIPT-DUPLICATE''
          (at_index ''output.validator_receipts'' i @ ''.resource_id'') ''unique resource/stage receipt'' ''duplicate''),
      refuse_at (position (\<lambda>r. receipt_key r \<notin> contract_key ` set (ph_validator_contracts ph))
          (po_validator_receipts out)) (\<lambda>i.
        artifact_refusal RC_InvalidOutput ''WP6-VALIDATOR-RECEIPT-UNKNOWN''
          (at_index ''output.validator_receipts'' i @ ''.resource_id'')
          ''receipt for declared resource/stage contract'' ''unknown identity''),
      each_idx (contract_receipt_check out) (ph_validator_contracts ph)]"

section \<open>Artifacts of an output\<close>

definition artifact_check ::
    "phase_definition \<Rightarrow> phase_output_draft \<Rightarrow> nat \<Rightarrow> phase_artifact \<Rightarrow> unit result" where
  "artifact_check ph out i a =
     (let fail = (\<lambda>rule field expected actual. artifact_refusal RC_InvalidOutput (''WP6-ARTIFACT-'' @ rule)
                    (at_index ''output.artifacts'' i @ ''.'' @ field) expected actual);
          requirements = filter (\<lambda>r. pattern_matches (aq_name_pattern r) (pa_name a))
            (filter (\<lambda>r. requirement_applies r (po_verdict out)) (ph_required_artifacts ph)) in
      checks
       [refuse_if (\<not> valid_name (pa_name a))
          (fail ''NAME'' ''name'' ''safe repository-relative artifact name'' ''unsafe name''),
        refuse_if (blank (pa_media_type a)) (fail ''MEDIA'' ''media_type'' ''nonblank media type'' ''blank''),
        refuse_if (pa_body a = []) (fail ''BODY'' ''body'' ''nonempty artifact body'' ''length=0''),
        refuse_if (blank (pa_digest a)) (fail ''DIGEST'' ''digest'' ''nonblank digest'' ''blank''),
        refuse_if (case pa_reference a of None \<Rightarrow> False | Some v \<Rightarrow> blank v)
          (fail ''REFERENCE'' ''reference'' ''nonblank reference when present'' ''blank''),
        refuse_if (seen_before pa_name (po_artifacts out) i a)
          (fail ''DUPLICATE'' ''name'' ''unique artifact name'' ''duplicate''),
        refuse_if (requirements = [])
          (fail ''REQUIREMENT'' ''name'' ''artifact matching an applicable phase requirement''
             ''no matching requirement''),
        refuse_if (list_ex (\<lambda>r. aq_media_type r \<noteq> pa_media_type a) requirements)
          (fail ''REQUIREMENT-MEDIA'' ''media_type'' ''media type matching every applicable requirement''
             ''mismatched'')])"

definition matching_artifacts :: "phase_output_draft \<Rightarrow> artifact_requirement \<Rightarrow> nat" where
  "matching_artifacts out r = length (filter (\<lambda>a. pattern_matches (aq_name_pattern r) (pa_name a)) (po_artifacts out))"

definition requirement_count_check :: "phase_output_draft \<Rightarrow> nat \<Rightarrow> artifact_requirement \<Rightarrow> unit result" where
  "requirement_count_check out i r =
     (if aq_required r \<and> requirement_applies r (po_verdict out)
      then refuse_if (matching_artifacts out r < aq_minimum_matches r)
        (artifact_refusal RC_InvalidOutput ''WP6-ARTIFACT-REQUIRED-COUNT'' ''output.artifacts''
           (''at least '' @ show_nat (aq_minimum_matches r) @ '' matches for '' @ at_index ''required_artifacts'' i)
           (''count='' @ show_nat (matching_artifacts out r)))
      else Inr ())"

definition validate_artifacts :: "phase_definition \<Rightarrow> phase_output_draft \<Rightarrow> unit result" where
  "validate_artifacts ph out = checks
     [each_idx (artifact_check ph out) (po_artifacts out),
      each_idx (requirement_count_check out) (ph_required_artifacts ph),
      validate_validator_receipts ph out]"

section \<open>Names and patterns\<close>

text \<open>What lies between a prefix and a suffix of a long enough text.\<close>

lemma between:
  "prefix pre s \<and> suffix post s \<and> length pre + length post \<le> length s \<and>
     P (take (length s - length post - length pre) (drop (length pre) s)) \<longleftrightarrow>
   (\<exists>mid. s = pre @ mid @ post \<and> P mid)"
proof
  assume l: "prefix pre s \<and> suffix post s \<and> length pre + length post \<le> length s \<and>
     P (take (length s - length post - length pre) (drop (length pre) s))"
  then obtain t where t: "s = pre @ t" "suffix post (pre @ t)" "length post \<le> length t"
    by (auto simp: prefix_def)
  then have "suffix post t" by (auto simp: suffix_append)
  then obtain mid where "t = mid @ post" by (auto simp: suffix_def)
  with l t show "\<exists>mid. s = pre @ mid @ post \<and> P mid" by (intro exI [of _ mid]) simp
next
  assume "\<exists>mid. s = pre @ mid @ post \<and> P mid"
  then show "prefix pre s \<and> suffix post s \<and> length pre + length post \<le> length s \<and>
     P (take (length s - length post - length pre) (drop (length pre) s))"
    by (auto simp: suffix_def)
qed

lemma split_once_None: "split_once c s = None \<longleftrightarrow> c \<notin> set s"
  by (induction s) auto

lemma single_star:
  assumes "length (filter (\<lambda>x. x = c) (pre @ c # post)) \<le> 1"
  shows "c \<notin> set pre \<and> c \<notin> set post"
  using assms by (auto simp: filter_empty_conv)

text \<open>
  A valid pattern matches exactly the safe names that equal it or arise from it by putting text
  without a slash for its one wildcard, so a wildcard never crosses a directory.
\<close>

theorem pattern_matches_iff:
  assumes "valid_pattern p"
  shows "pattern_matches p name \<longleftrightarrow> valid_name name \<and>
     (p = name \<or> (\<exists>pre mid post. p = pre @ CHR ''*'' # post \<and> name = pre @ mid @ post \<and> CHR ''/'' \<notin> set mid))"
proof (cases "split_once CHR ''*'' p")
  case None
  then have "CHR ''*'' \<notin> set p" by (simp add: split_once_None)
  then show ?thesis using None by (auto simp: pattern_matches_def)
next
  case (Some pp)
  obtain pre post where pp: "pp = (pre, post)" by (cases pp)
  with Some have p: "p = pre @ CHR ''*'' # post" by (auto dest: split_once_Some)
  have once: "CHR ''*'' \<notin> set pre" "CHR ''*'' \<notin> set post"
    using single_star [of "CHR ''*''" pre post] assms p by (auto simp: valid_pattern_def)
  have unique: "a = pre \<and> b = post" if "p = a @ CHR ''*'' # b" for a b
  proof -
    have "CHR ''*'' \<notin> set a" using single_star [of "CHR ''*''" a b] assms that by (auto simp: valid_pattern_def)
    then have "split_once CHR ''*'' p = Some (a, b)" using that split_once_append by simp
    with Some pp show ?thesis by simp
  qed
  have "pattern_matches p name \<longleftrightarrow> valid_name name \<and> (\<exists>mid. name = pre @ mid @ post \<and> CHR ''/'' \<notin> set mid)"
    using between [of pre name post "\<lambda>mid. CHR ''/'' \<notin> set mid"] Some pp
    by (simp add: pattern_matches_def Let_def)
  moreover have "\<exists>mid. p = pre @ mid @ post \<and> CHR ''/'' \<notin> set mid"
    using p by (intro exI [of _ "''*''"]) simp
  ultimately show ?thesis using p unique by blast
qed

theorem pattern_matches_iff_witness:
  "pattern_matches ''reports/*.json'' ''reports/a.json'' \<and> \<not> pattern_matches ''reports/*.json'' ''reports/a/b.json''"
proof -
  have "valid_pattern ''reports/*.json''" by code_simp
  note m = pattern_matches_iff [OF this]
  have "valid_name ''reports/a.json''" by code_simp
  moreover have "\<exists>pre mid post. ''reports/*.json'' = pre @ CHR ''*'' # post \<and> ''reports/a.json'' = pre @ mid @ post \<and>
      CHR ''/'' \<notin> set mid"
    by (rule exI [of _ "''reports/''"], rule exI [of _ "''a''"], rule exI [of _ "''.json''"]) simp
  ultimately have "pattern_matches ''reports/*.json'' ''reports/a.json''" using m by blast
  moreover have "\<not> pattern_matches ''reports/*.json'' ''reports/a/b.json''" by code_simp
  ultimately show ?thesis by blast
qed

section \<open>Accepted outputs\<close>

text \<open>A safe name has no empty, \<^verbatim>\<open>.\<close> or \<^verbatim>\<open>..\<close> component and is not absolute.\<close>

lemma valid_name_components:
  "valid_name s \<Longrightarrow> part \<in> set (split_on CHR ''/'' s) \<Longrightarrow> part \<notin> {[], ''.'', ''..''}"
  by (auto simp: valid_name_def list_all_iff name_part_ok_def)

definition artifact_accepted :: "phase_definition \<Rightarrow> phase_output_draft \<Rightarrow> phase_artifact \<Rightarrow> bool" where
  "artifact_accepted ph out a \<longleftrightarrow> valid_name (pa_name a) \<and> pa_body a \<noteq> [] \<and> \<not> blank (pa_digest a) \<and>
     (\<exists>r\<in>set (ph_required_artifacts ph). requirement_applies r (po_verdict out) \<and>
        pattern_matches (aq_name_pattern r) (pa_name a)) \<and>
     (\<forall>r\<in>set (ph_required_artifacts ph). requirement_applies r (po_verdict out) \<longrightarrow>
        pattern_matches (aq_name_pattern r) (pa_name a) \<longrightarrow> aq_media_type r = pa_media_type a)"

lemma artifact_check_Inr:
  "artifact_check ph out i a = Inr () \<Longrightarrow> artifact_accepted ph out a \<and> \<not> seen_before pa_name (po_artifacts out) i a"
  by (auto simp: artifact_check_def Let_def check_simps artifact_accepted_def list_ex_iff filter_empty_conv)

text \<open>
  A validator contract is honoured: when the verdict requires it, the validator has run, over exactly the
  artifacts that its patterns select, at the pinned version; a success verdict has a zero exit code.
\<close>

definition selected_artifacts :: "validator_contract \<Rightarrow> phase_output_draft \<Rightarrow> (str \<times> str) set" where
  "selected_artifacts c out = {(pa_name a, pa_digest a) | a. a \<in> set (po_artifacts out) \<and>
     (\<exists>p\<in>set (vc_artifact_patterns c). pattern_matches p (pa_name a))}"

definition contract_requires :: "validator_contract \<Rightarrow> phase_output_draft \<Rightarrow> bool" where
  "contract_requires c out \<longleftrightarrow> vc_required_verdicts c = [] \<or>
     (\<exists>v\<in>set (vc_required_verdicts c). po_verdict out = Some v)"

definition contract_honoured :: "validator_contract \<Rightarrow> phase_output_draft \<Rightarrow> bool" where
  "contract_honoured c out \<longleftrightarrow>
     (\<exists>r\<in>set (po_validator_receipts out). receipt_key r = contract_key c \<and>
        vp_version r = vc_version c \<and> vp_digest r = vc_digest c \<and> vp_command r \<noteq> ''not_run'' \<and>
        (\<lambda>a. (ad_name a, ad_digest a)) ` set (vp_artifacts r) = selected_artifacts c out \<and>
        ((\<exists>v\<in>set (vc_success_verdicts c). po_verdict out = Some v) \<longrightarrow> vp_exit_code r = 0 \<and> vp_valid r))"

lemma find_idx_Some: "find_idx p xs = Some (i, x) \<Longrightarrow> x \<in> set xs \<and> p x"
  by (auto simp: find_idx_def dest: position_Some)

lemma receipt_check_Inr:
  assumes "receipt_check out c req i r = Inr ()" and "req"
  shows "vp_version r = vc_version c \<and> vp_digest r = vc_digest c \<and> vp_command r \<noteq> ''not_run'' \<and>
     (\<lambda>a. (ad_name a, ad_digest a)) ` set (vp_artifacts r) = selected_artifacts c out \<and>
     ((\<exists>v\<in>set (vc_success_verdicts c). po_verdict out = Some v) \<longrightarrow> vp_exit_code r = 0 \<and> vp_valid r)"
proof -
  have sel: "(\<lambda>a. (pa_name a, pa_digest a)) `
      {a \<in> set (po_artifacts out). list_ex (\<lambda>p. pattern_matches p (pa_name a)) (vc_artifact_patterns c)}
      = selected_artifacts c out"
    by (auto simp: selected_artifacts_def list_ex_iff)
  have facts: "vp_version r = vc_version c" "vp_digest r = vc_digest c" "vp_command r \<noteq> ''not_run''"
    "(\<lambda>a. (ad_name a, ad_digest a)) ` set (vp_artifacts r) = selected_artifacts c out"
    using assms by (auto simp: receipt_check_def Let_def check_simps sel split: if_splits)
  have "vp_exit_code r = 0 \<and> vp_valid r" if "v \<in> set (vc_success_verdicts c)" "po_verdict out = Some v" for v
    using assms that facts(3) by (simp add: receipt_check_def Let_def check_simps)
  with facts show ?thesis by blast
qed

lemma contract_receipt_Inr:
  assumes "contract_receipt_check out i c = Inr ()" and "contract_requires c out"
  shows "contract_honoured c out"
proof -
  let ?f = "find_idx (\<lambda>r. receipt_key r = contract_key c) (po_validator_receipts out)"
  have req: "(vc_required_verdicts c = [] \<or>
      (case po_verdict out of None \<Rightarrow> False | Some v \<Rightarrow> v \<in> set (vc_required_verdicts c))) = True"
    using assms(2) by (auto simp: contract_requires_def)
  have "?f \<noteq> None" using assms(1) unfolding contract_receipt_check_def Let_def req by (simp add: check_simps)
  then obtain k r where f: "?f = Some (k, r)" by auto
  have "receipt_check out c True k r = Inr ()"
    using assms(1) f unfolding contract_receipt_check_def Let_def req by (simp add: check_simps)
  from receipt_check_Inr [OF this] find_idx_Some [OF f] show ?thesis
    unfolding contract_honoured_def by blast
qed

text \<open>
  C27: the artifacts of an accepted output are safe and complete. Their names are distinct, relative and
  without parent components; each answers an applicable requirement of the phase and has its media
  type; every applicable required artifact is there as often as demanded; and every validator that the
  verdict requires has run on exactly the artifacts it is meant for, successfully where the verdict says so.
\<close>

theorem accepted_artifacts_sound:
  assumes "validate_artifacts ph out = Inr ()"
  shows "distinct (map pa_name (po_artifacts out)) \<and>
     (\<forall>a\<in>set (po_artifacts out). artifact_accepted ph out a \<and>
        set (split_on CHR ''/'' (pa_name a)) \<inter> {[], ''.'', ''..''} = {}) \<and>
     (\<forall>r\<in>set (ph_required_artifacts ph). aq_required r \<longrightarrow> requirement_applies r (po_verdict out) \<longrightarrow>
        aq_minimum_matches r \<le> matching_artifacts out r) \<and>
     (\<forall>c\<in>set (ph_validator_contracts ph). contract_requires c out \<longrightarrow> contract_honoured c out)"
proof -
  have parts: "each_idx (artifact_check ph out) (po_artifacts out) = Inr ()"
    "each_idx (requirement_count_check out) (ph_required_artifacts ph) = Inr ()"
    "each_idx (contract_receipt_check out) (ph_validator_contracts ph) = Inr ()"
    using assms by (simp_all add: validate_artifacts_def validate_validator_receipts_def checks_Inr_Cons)
  from parts(1) have a: "\<forall>i<length (po_artifacts out). artifact_accepted ph out (po_artifacts out ! i) \<and>
      \<not> seen_before pa_name (po_artifacts out) i (po_artifacts out ! i)"
    by (auto simp: each_idx_Inr dest!: artifact_check_Inr)
  then have d: "distinct (map pa_name (po_artifacts out))" by (simp add: seen_before_distinct [symmetric])
  have acc: "artifact_accepted ph out x" if "x \<in> set (po_artifacts out)" for x
    using a that by (metis in_set_conv_nth)
  have parts_ok: "set (split_on CHR ''/'' (pa_name x)) \<inter> {[], ''.'', ''..''} = {}"
    if "x \<in> set (po_artifacts out)" for x
    using acc [OF that] valid_name_components unfolding artifact_accepted_def by blast
  have minimum: "aq_minimum_matches r \<le> matching_artifacts out r"
    if "r \<in> set (ph_required_artifacts ph)" "aq_required r" "requirement_applies r (po_verdict out)" for r
    using parts(2) that unfolding each_idx_Inr in_set_conv_nth
    by (auto simp: requirement_count_check_def check_simps)
  have honoured: "contract_honoured c out"
    if "c \<in> set (ph_validator_contracts ph)" "contract_requires c out" for c
    using parts(3) that contract_receipt_Inr unfolding each_idx_Inr in_set_conv_nth by blast
  show ?thesis
    by (intro conjI ballI impI d acc parts_ok minimum honoured)
qed

definition example_phase :: phase_definition where
  "example_phase = \<lparr>ph_id = ''build'', ph_ordinal = 1, ph_title = ''Build'', ph_required = True,
     ph_disposition_required = False, ph_instructions = [], ph_skills = [], ph_resources = [],
     ph_required_artifacts = [\<lparr>aq_name_pattern = ''out/*.md'', aq_media_type = ''text/markdown'',
       aq_schema_ref = None, aq_schema_resource_id = None, aq_schema_resource_digest = None,
       aq_required = True, aq_minimum_matches = 1, aq_when_verdict = None\<rparr>],
     ph_validator_contracts = [\<lparr>vc_resource_id = ''check'', vc_version = ''1'', vc_digest = ''d'', vc_stage = ''s'',
       vc_artifact_patterns = [''out/*.md''], vc_required_verdicts = [], vc_success_verdicts = [''done'']\<rparr>],
     ph_required_fields = [], ph_allowed_verdicts = [''done''], ph_required_dispositions = [],
     ph_allowed_dispositions = [], ph_output_constraints = [], ph_verdict_routes = [],
     ph_followup_contracts = [], ph_allowed_backward_to = [], ph_fresh_reviewer_input = False,
     ph_retry_policy = Repeatable, ph_output_contract = ''text''\<rparr>"

definition example_output :: phase_output_draft where
  "example_output = \<lparr>po_body = ''b'', po_producer_context_id = ''p'', po_fields = (\<lambda>_. None),
     po_verdict = Some ''done'', po_dispositions = [], po_skill_reads = [], po_resource_reads = [],
     po_artifacts = [\<lparr>pa_name = ''out/a.md'', pa_media_type = ''text/markdown'', pa_body = ''x'',
       pa_digest = ''h'', pa_reference = None\<rparr>],
     po_evidence_artifacts = [],
     po_validator_receipts = [\<lparr>vp_resource_id = ''check'', vp_version = ''1'', vp_digest = ''d'', vp_stage = ''s'',
       vp_command = ''run'', vp_exit_code = 0, vp_valid = True,
       vp_artifacts = [\<lparr>ad_name = ''out/a.md'', ad_digest = ''h''\<rparr>]\<rparr>],
     po_followup_proposal = None, po_reviewer_context = None, po_reference = None, po_knowledge_publication = None\<rparr>"

theorem accepted_artifacts_sound_witness:
  "validate_artifacts example_phase example_output = Inr () \<and>
   contract_honoured (hd (ph_validator_contracts example_phase)) example_output"
proof -
  have accepted: "validate_artifacts example_phase example_output = Inr ()" by code_simp
  have "hd (ph_validator_contracts example_phase) \<in> set (ph_validator_contracts example_phase)"
    by (simp add: example_phase_def)
  moreover have "contract_requires (hd (ph_validator_contracts example_phase)) example_output" by code_simp
  ultimately show ?thesis using accepted_artifacts_sound [OF accepted] accepted by blast
qed

end
