(* ===== verification/PipelineFollowups.thy ===== *)
theory PipelineFollowups
  imports PipelineTypes
begin

text \<open>
  \<^verbatim>\<open>crates/domain/src/pipeline_followups.rs\<close>: the follow-up contracts of a phase, the proposal of
  further work that a phase output carries, and the check that the ordered dependencies of a
  proposal have no cycle.
\<close>

section \<open>Kahn's algorithm\<close>

text \<open>
  \<^verbatim>\<open>has_cycle\<close>. The map of counters is the list of its entries in key order; the vector
  \<open>ready\<close> is a list with its last element first, so that \<^verbatim>\<open>pop\<close> takes the head. \<open>None\<close> is the
  panic of \<^verbatim>\<open>expect("known node")\<close> or of the decrement of a zero counter.
\<close>

definition bump :: "'a \<Rightarrow> ('a \<times> nat) list \<Rightarrow> ('a \<times> nat) list" where
  "bump k = map (\<lambda>(i, c). if i = k then (i, Suc c) else (i, c))"

fun lower :: "'a \<Rightarrow> ('a \<times> nat) list \<Rightarrow> (('a \<times> nat) list \<times> nat) option" where
  "lower k [] = None"
| "lower k ((i, c) # rest) =
     (if i = k then (case c of 0 \<Rightarrow> None | Suc c' \<Rightarrow> Some ((i, c') # rest, c'))
      else map_option (\<lambda>(rest', n). ((i, c) # rest', n)) (lower k rest))"

fun relax :: "'a list \<Rightarrow> ('a \<times> nat) list \<Rightarrow> 'a list \<Rightarrow> (('a \<times> nat) list \<times> 'a list) option" where
  "relax [] inc ready = Some (inc, ready)"
| "relax (s # ss) inc ready =
     (case lower s inc of
        None \<Rightarrow> None
      | Some (inc', n) \<Rightarrow> relax ss inc' (if n = 0 then s # ready else ready))"

definition total_count :: "('a \<times> nat) list \<Rightarrow> nat" where
  "total_count inc = sum_list (map snd inc)"

lemma lower_total: "lower k inc = Some (inc', n) \<Longrightarrow> Suc (total_count inc') = total_count inc"
  by (induction k inc arbitrary: inc' n rule: lower.induct)
    (auto simp: total_count_def split: if_splits nat.splits)

lemma relax_total:
  "relax ss inc ready = Some (inc', ready') \<Longrightarrow>
   total_count inc' + length ready' \<le> total_count inc + length ready"
  by (induction ss inc ready rule: relax.induct)
    (fastforce split: option.splits if_splits dest: lower_total)+

definition successors :: "('a \<times> 'a) list \<Rightarrow> 'a \<Rightarrow> 'a list" where
  "successors edges x = map snd (filter (\<lambda>e. fst e = x) edges)"

text \<open>Each round takes one node from \<open>ready\<close> and every node it adds has used up a counter.\<close>

function kahn :: "('a \<times> 'a) list \<Rightarrow> ('a \<times> nat) list \<Rightarrow> 'a list \<Rightarrow> nat \<Rightarrow> nat option" where
  "kahn edges inc [] visited = Some visited"
| "kahn edges inc (x # ready) visited =
     (case relax (successors edges x) inc ready of
        None \<Rightarrow> None
      | Some (inc', ready') \<Rightarrow> kahn edges inc' ready' (Suc visited))"
  by pat_completeness auto
termination
  by (relation "measure (\<lambda>(edges, inc, ready, visited). total_count inc + length ready)")
    (auto dest!: relax_total)

definition has_cycle :: "'a list \<Rightarrow> ('a \<times> 'a) list \<Rightarrow> bool option" where
  "has_cycle node_ids edges =
     (let incoming = fold bump (map snd edges) (map (\<lambda>i. (i, 0)) node_ids);
          ready = rev (map fst (filter (\<lambda>(i, c). c = 0) incoming)) in
      map_option (\<lambda>visited. visited \<noteq> length node_ids) (kahn edges incoming ready 0))"

section \<open>The counters\<close>

definition keys :: "('a \<times> nat) list \<Rightarrow> 'a set" where
  "keys inc = fst ` set inc"

lemma bump_keys [simp]: "map fst (bump k inc) = map fst inc"
  by (auto simp: bump_def)

lemma bump_count: "map_of (bump k inc) n = map_option (\<lambda>c. if n = k then Suc c else c) (map_of inc n)"
  by (induction inc) (auto simp: bump_def)

lemma fold_bump_keys [simp]: "map fst (fold bump ks inc) = map fst inc"
  by (induction ks arbitrary: inc) auto

lemma fold_bump_count:
  "map_of (fold bump ks inc) n = map_option (\<lambda>c. c + count_list ks n) (map_of inc n)"
  by (induction ks arbitrary: inc) (auto simp: bump_count option.map_comp comp_def option.map_ident intro!: option.map_cong)

lemma lower_Some:
  assumes "map_of inc k = Some (Suc c)"
  shows "\<exists>inc'. lower k inc = Some (inc', c) \<and> map fst inc' = map fst inc \<and> map_of inc' = (map_of inc)(k \<mapsto> c)"
  using assms
proof (induction k inc rule: lower.induct)
  case (1 k)
  then show ?case by simp
next
  case (2 k i d rest)
  then show ?case
    by (cases "i = k") (auto simp: fun_eq_iff)
qed

text \<open>
  Lowering the counters of a list of successors: the counters drop by the number of occurrences, and
  exactly the nodes whose counter reaches zero become ready.
\<close>

lemma relax_Some:
  assumes "\<forall>n\<in>set ss. \<exists>c. map_of inc n = Some c \<and> count_list ss n \<le> c"
  shows "\<exists>inc' new. relax ss inc ready = Some (inc', new @ ready) \<and> map fst inc' = map fst inc \<and>
     (\<forall>n. map_of inc' n = map_option (\<lambda>c. c - count_list ss n) (map_of inc n)) \<and>
     distinct new \<and> set new = {n \<in> set ss. map_of inc' n = Some 0}"
  using assms
proof (induction ss arbitrary: inc ready)
  case Nil
  then show ?case by (simp add: option.map_ident)
next
  case (Cons s ss)
  from Cons.prems obtain d where "map_of inc s = Some d" "Suc (count_list ss s) \<le> d" by auto
  then obtain c where c: "map_of inc s = Some (Suc c)" "count_list ss s \<le> c"
    by (cases d) auto
  from lower_Some [OF c(1)] obtain inc1 where inc1: "lower s inc = Some (inc1, c)"
    "map fst inc1 = map fst inc" "map_of inc1 = (map_of inc)(s \<mapsto> c)" by blast
  have pre: "\<forall>n\<in>set ss. \<exists>d. map_of inc1 n = Some d \<and> count_list ss n \<le> d"
  proof
    fix n
    assume n: "n \<in> set ss"
    with Cons.prems obtain d where "map_of inc n = Some d" "count_list (s # ss) n \<le> d" by fastforce
    then show "\<exists>d. map_of inc1 n = Some d \<and> count_list ss n \<le> d"
      using c inc1(3) by (cases "n = s") auto
  qed
  let ?r1 = "if c = 0 then s # ready else ready"
  from Cons.IH [OF pre, of ?r1] obtain inc' new where
    r: "relax ss inc1 ?r1 = Some (inc', new @ ?r1)" "map fst inc' = map fst inc1"
    "\<And>n. map_of inc' n = map_option (\<lambda>c. c - count_list ss n) (map_of inc1 n)"
    "distinct new" "set new = {n \<in> set ss. map_of inc' n = Some 0}" by blast
  have counts: "map_of inc' n = map_option (\<lambda>d. d - count_list (s # ss) n) (map_of inc n)" for n
    using r(3) [of n] inc1(3) c(1) by (cases "n = s") auto
  have notin: "s \<notin> set ss" if "c = 0"
    using c(2) that by (simp add: count_list_0_iff)
  show ?case
  proof (cases "c = 0")
    case True
    then have "map_of inc' s = Some 0" using counts [of s] c(1) by simp
    then have "set (new @ [s]) = {n \<in> set (s # ss). map_of inc' n = Some 0}" using r(5) by auto
    moreover have "distinct (new @ [s])" using r(4,5) notin [OF True] by auto
    moreover have "relax (s # ss) inc ready = Some (inc', (new @ [s]) @ ready)"
      using inc1(1) r(1) True by simp
    ultimately show ?thesis using r(2) inc1(2) counts by (intro exI [of _ inc'] exI [of _ "new @ [s]"] conjI allI) simp_all
  next
    case False
    have "map_of inc' s \<noteq> Some 0 \<or> s \<in> set ss"
      using counts [of s] c(1) False by (cases "s \<in> set ss") auto
    then have "set new = {n \<in> set (s # ss). map_of inc' n = Some 0}" using r(5) by auto
    moreover have "relax (s # ss) inc ready = Some (inc', new @ ready)"
      using inc1(1) r(1) False by simp
    ultimately show ?thesis using r(2,4) inc1(2) counts by (intro exI [of _ inc'] exI [of _ new] conjI allI) simp_all
  qed
qed

section \<open>Correctness\<close>

text \<open>The number of edges into a node whose source has not been taken yet.\<close>

definition pending :: "('a \<times> 'a) list \<Rightarrow> 'a set \<Rightarrow> 'a \<Rightarrow> nat" where
  "pending edges taken n = length (filter (\<lambda>e. snd e = n \<and> fst e \<notin> taken) edges)"

lemma pending_0: "pending edges taken n = 0 \<longleftrightarrow> (\<forall>p. (p, n) \<in> set edges \<longrightarrow> p \<in> taken)"
  by (auto simp: pending_def filter_empty_conv)

lemma pending_insert:
  "x \<notin> taken \<Longrightarrow> pending edges taken n = pending edges (insert x taken) n + count_list (successors edges x) n"
  by (induction edges) (auto simp: pending_def successors_def)

text \<open>A list in which every node comes after all its predecessors.\<close>

fun topological :: "('a \<times> 'a) set \<Rightarrow> 'a list \<Rightarrow> bool" where
  "topological E [] \<longleftrightarrow> True"
| "topological E (x # xs) \<longleftrightarrow> x \<notin> set xs \<and> (\<forall>p. (p, x) \<in> E \<longrightarrow> p \<in> set xs) \<and> topological E xs"

lemma topological_rank:
  "topological E xs \<Longrightarrow> \<exists>f :: 'a \<Rightarrow> nat. \<forall>p n. (p, n) \<in> E \<longrightarrow> n \<in> set xs \<longrightarrow> p \<in> set xs \<and> f p < f n"
proof (induction xs)
  case Nil
  then show ?case by simp
next
  case (Cons x xs)
  then obtain f :: "'a \<Rightarrow> nat" where f: "\<forall>p n. (p, n) \<in> E \<longrightarrow> n \<in> set xs \<longrightarrow> p \<in> set xs \<and> f p < f n" by auto
  let ?g = "f(x := Suc (sum_list (map f xs)))"
  have le: "f p \<le> sum_list (map f xs)" if "p \<in> set xs" for p
    using that by (simp add: member_le_sum_list)
  have "\<forall>p n. (p, n) \<in> E \<longrightarrow> n \<in> set (x # xs) \<longrightarrow> p \<in> set (x # xs) \<and> ?g p < ?g n"
    using Cons.prems f le by (fastforce simp: less_Suc_eq_le)
  then show ?case by blast
qed

lemma topological_acyclic:
  assumes "topological E xs" and "E \<subseteq> UNIV \<times> set xs"
  shows "acyclic E"
proof -
  obtain f :: "'a \<Rightarrow> nat" where "\<forall>p n. (p, n) \<in> E \<longrightarrow> n \<in> set xs \<longrightarrow> p \<in> set xs \<and> f p < f n"
    using topological_rank [OF assms(1)] by blast
  with assms(2) have "E \<subseteq> measure f" by (auto simp: measure_def inv_image_def)
  then show ?thesis using wf_measure wf_subset wf_acyclic by blast
qed

text \<open>The invariant of the loop: \<open>taken\<close> lists the nodes taken so far, the last one first.\<close>

definition kahn_inv :: "('a \<times> 'a) list \<Rightarrow> 'a set \<Rightarrow> 'a list \<Rightarrow> ('a \<times> nat) list \<Rightarrow> 'a list \<Rightarrow> bool" where
  "kahn_inv edges nodes taken inc ready \<longleftrightarrow>
     topological (set edges) taken \<and> distinct (taken @ ready) \<and> set taken \<subseteq> nodes \<and>
     (\<forall>n. map_of inc n = (if n \<in> nodes then Some (pending edges (set taken) n) else None)) \<and>
     (\<forall>n\<in>nodes. n \<in> set taken \<union> set ready \<longleftrightarrow> pending edges (set taken) n = 0) \<and> set ready \<subseteq> nodes"

lemma kahn_inv_step:
  assumes inv: "kahn_inv edges nodes taken inc (x # ready)" and edges: "set edges \<subseteq> nodes \<times> nodes"
  shows "\<exists>inc' new. relax (successors edges x) inc ready = Some (inc', new @ ready) \<and>
     kahn_inv edges nodes (x # taken) inc' (new @ ready)"
proof -
  note inv' = inv [unfolded kahn_inv_def]
  have x: "x \<notin> set taken" "x \<in> nodes" "x \<notin> set ready" using inv' by auto
  have p: "pending edges (set taken) n = pending edges (insert x (set taken)) n + count_list (successors edges x) n" for n
    by (rule pending_insert [OF x(1)])
  have succ: "set (successors edges x) \<subseteq> nodes" using edges by (auto simp: successors_def)
  have "\<forall>n\<in>set (successors edges x). \<exists>c. map_of inc n = Some c \<and> count_list (successors edges x) n \<le> c"
    using inv' succ p by (auto simp: subset_iff)
  from relax_Some [OF this, of ready] obtain inc' new where r:
    "relax (successors edges x) inc ready = Some (inc', new @ ready)"
    "\<And>n. map_of inc' n = map_option (\<lambda>c. c - count_list (successors edges x) n) (map_of inc n)"
    "distinct new" "set new = {n \<in> set (successors edges x). map_of inc' n = Some 0}" by blast
  have counts: "map_of inc' n = (if n \<in> nodes then Some (pending edges (set (x # taken)) n) else None)" for n
    using r(2) [of n] inv' p [of n] by auto
  have new: "n \<in> set new \<longleftrightarrow> n \<in> set (successors edges x) \<and> pending edges (set (x # taken)) n = 0" for n
    using r(4) counts succ by auto
  have zero: "pending edges (set taken) n = 0 \<longleftrightarrow>
      pending edges (set (x # taken)) n = 0 \<and> n \<notin> set (successors edges x)" for n
    using p [of n] by (auto simp: count_list_0_iff)
  have taken0: "n \<in> set taken \<union> set (x # ready) \<longleftrightarrow> pending edges (set taken) n = 0" if "n \<in> nodes" for n
    using inv' that by blast
  have "kahn_inv edges nodes (x # taken) inc' (new @ ready)"
    unfolding kahn_inv_def
  proof (intro conjI ballI allI)
    have "pending edges (set taken) x = 0" using taken0 [OF x(2)] by simp
    then show "topological (set edges) (x # taken)" using inv' x by (auto simp: pending_0)
    have "set new \<inter> (set taken \<union> set (x # ready)) = {}"
      using new zero taken0 succ by blast
    then show "distinct ((x # taken) @ new @ ready)" using inv' r(3) x by auto
    show "set (x # taken) \<subseteq> nodes" "set (new @ ready) \<subseteq> nodes" using inv' new succ by auto
    show "map_of inc' n = (if n \<in> nodes then Some (pending edges (set (x # taken)) n) else None)" for n
      by (rule counts)
    show "n \<in> set (x # taken) \<union> set (new @ ready) \<longleftrightarrow> pending edges (set (x # taken)) n = 0"
      if "n \<in> nodes" for n
      using taken0 [OF that] zero new by auto
  qed
  with r(1) show ?thesis by blast
qed

text \<open>The loop ends, takes nodes in topological order, and leaves out only nodes that wait for left out nodes.\<close>

lemma kahn_result:
  assumes "kahn_inv edges nodes taken inc ready" and "set edges \<subseteq> nodes \<times> nodes"
  shows "\<exists>order. kahn edges inc ready (length taken) = Some (length order) \<and> topological (set edges) order \<and>
     set order \<subseteq> nodes \<and> (\<forall>n\<in>nodes - set order. \<exists>p\<in>nodes - set order. (p, n) \<in> set edges)"
  using assms
proof (induction edges inc ready "length taken" arbitrary: taken rule: kahn.induct)
  case (1 edges inc)
  then have "\<forall>n\<in>nodes - set taken. \<exists>p. (p, n) \<in> set edges \<and> p \<notin> set taken"
    unfolding kahn_inv_def by (auto simp: pending_0)
  then have "\<forall>n\<in>nodes - set taken. \<exists>p\<in>nodes - set taken. (p, n) \<in> set edges"
    using 1(2) by blast
  with 1(1) show ?case unfolding kahn_inv_def by (intro exI [of _ taken]) simp
next
  case (2 edges inc x ready)
  from kahn_inv_step [OF 2(2,3)] obtain inc' new where
    "relax (successors edges x) inc ready = Some (inc', new @ ready)"
    "kahn_inv edges nodes (x # taken) inc' (new @ ready)" by blast
  with 2(1) [of "(inc', new @ ready)" inc' "new @ ready" "x # taken"] 2(3) show ?case by simp
qed

lemma has_cycle_correct:
  assumes "distinct node_ids" and "set edges \<subseteq> set node_ids \<times> set node_ids"
  shows "has_cycle node_ids edges = Some (\<not> acyclic (set edges))"
proof -
  let ?inc = "fold bump (map snd edges) (map (\<lambda>i. (i, 0)) node_ids)"
  let ?ready = "rev (map fst (filter (\<lambda>(i, c). c = 0) ?inc))"
  have keys: "map fst ?inc = node_ids" by (simp add: comp_def)
  have "map_of (map (\<lambda>i. (i, 0)) node_ids) n = (if n \<in> set node_ids then Some (0::nat) else None)" for n
    by (induction node_ids) auto
  moreover have "count_list (map snd edges) n = pending edges {} n" for n
    by (induction edges) (auto simp: pending_def)
  ultimately have counts: "map_of ?inc n = (if n \<in> set node_ids then Some (pending edges {} n) else None)" for n
    by (simp add: fold_bump_count)
  have "distinct (map fst ?inc)" using assms(1) keys by simp
  then have ready: "set ?ready = {n. map_of ?inc n = Some 0}" "distinct ?ready"
    by (auto simp: image_iff distinct_map_filter split_beta)
  have "kahn_inv edges (set node_ids) [] ?inc ?ready"
    unfolding kahn_inv_def using ready counts by (auto split: if_splits)
  from kahn_result [OF this assms(2)] obtain order where order:
    "kahn edges ?inc ?ready 0 = Some (length order)" "topological (set edges) order"
    "set order \<subseteq> set node_ids"
    "\<forall>n\<in>set node_ids - set order. \<exists>p\<in>set node_ids - set order. (p, n) \<in> set edges" by auto
  have "distinct order" using order(2) by (induction order) auto
  then have full: "length order = length node_ids \<longleftrightarrow> set order = set node_ids"
    using assms(1) order(3) by (metis card_subset_eq distinct_card List.finite_set)
  have "acyclic (set edges) \<longleftrightarrow> set order = set node_ids"
  proof
    assume "acyclic (set edges)"
    then have wf: "wf (set edges)" by (simp add: finite_acyclic_wf)
    show "set order = set node_ids"
    proof (rule ccontr)
      assume "set order \<noteq> set node_ids"
      then obtain z where "z \<in> set node_ids - set order" using order(3) by blast
      from wfE_min [OF wf this] order(4) show False by metis
    qed
  next
    assume "set order = set node_ids"
    with assms(2) show "acyclic (set edges)" by (intro topological_acyclic [OF order(2)]) auto
  qed
  with order(1) full show ?thesis by (simp add: has_cycle_def Let_def)
qed

section \<open>Follow-up contracts\<close>

definition MAX_FOLLOWUP_NODES :: nat where "MAX_FOLLOWUP_NODES = 16"
definition MAX_FOLLOWUP_DEPENDENCIES :: nat where "MAX_FOLLOWUP_DEPENDENCIES = 32"
definition MAX_FOLLOWUP_TEXT_BYTES :: nat where "MAX_FOLLOWUP_TEXT_BYTES = 4096"

definition followup_text :: "str \<Rightarrow> bool" where
  "followup_text s \<longleftrightarrow> s \<noteq> [] \<and> trim s = s \<and> length s \<le> MAX_FOLLOWUP_TEXT_BYTES"

definition current_contract_valid :: "pipeline_definition \<Rightarrow> phase_definition \<Rightarrow> current_run_contract \<Rightarrow> bool" where
  "current_contract_valid d ph current \<longleftrightarrow>
     cc_kind current = pd_kind d \<and> cc_evidence_phase_ids current \<noteq> [] \<and>
     card (set (cc_evidence_phase_ids current)) = length (cc_evidence_phase_ids current) \<and>
     list_all (\<lambda>i. list_ex (\<lambda>c. ph_id c = i \<and> ph_ordinal c < ph_ordinal ph) (pd_phases d))
       (cc_evidence_phase_ids current)"

definition contract_identity :: "followup_contract \<Rightarrow> str \<times> phase_outcome \<times> transition" where
  "contract_identity c = (fc_verdict c, fc_outcome c, fc_transition c)"

definition followup_contract_valid :: "pipeline_definition \<Rightarrow> phase_definition \<Rightarrow> followup_contract \<Rightarrow> bool" where
  "followup_contract_valid d ph c \<longleftrightarrow>
     (let allowed = set (fc_allowed_kinds c);
          groups = set (map set (fc_required_kind_groups c));
          route_exists = list_ex (\<lambda>r. vr_verdict r = fc_verdict c \<and> vr_outcome r = fc_outcome c \<and>
             vr_transition r = fc_transition c) (ph_verdict_routes ph);
          groups_valid = (groups \<noteq> {} \<and> card groups = length (fc_required_kind_groups c) \<and>
             (\<forall>g\<in>groups. g \<noteq> {} \<and> g \<subseteq> allowed));
          current_valid = (case fc_current_run c of None \<Rightarrow> True | Some current \<Rightarrow> current_contract_valid d ph current) in
      \<not> (blank (fc_verdict c) \<or> \<not> route_exists \<or> card allowed \<noteq> length (fc_allowed_kinds c) \<or> allowed = {} \<or>
         \<not> groups_valid \<or> fc_minimum_nodes c < 2 \<or> MAX_FOLLOWUP_NODES < fc_minimum_nodes c \<or>
         fc_minimum_dependencies c = 0 \<or> MAX_FOLLOWUP_DEPENDENCIES < fc_minimum_dependencies c \<or> \<not> current_valid))"

definition validate_followup_definitions :: "pipeline_definition \<Rightarrow> phase_definition \<Rightarrow> unit result" where
  "validate_followup_definitions d ph = checks
     [refuse_if (card (set (map contract_identity (ph_followup_contracts ph))) \<noteq> length (ph_followup_contracts ph))
        InvalidArguments,
      each (\<lambda>c. refuse_if (\<not> followup_contract_valid d ph c) InvalidArguments) (ph_followup_contracts ph)]"

section \<open>Proposals\<close>

definition ordered_check :: "str set \<Rightarrow> str option \<Rightarrow> str \<Rightarrow> str \<Rightarrow> str \<Rightarrow> unit result" where
  "ordered_check node_ids current predecessor successor condition =
     refuse_if (predecessor = successor \<or> predecessor \<notin> node_ids \<or> successor \<notin> node_ids \<or>
        \<not> followup_text condition \<or> current = Some successor) InvalidArguments"

definition unresolved_check :: "str set \<Rightarrow> str option \<Rightarrow> str list \<Rightarrow> str \<Rightarrow> str \<Rightarrow> unit result" where
  "unresolved_check node_ids current unresolved condition owner =
     refuse_if (length unresolved < 2 \<or> card (set unresolved) \<noteq> length unresolved \<or>
        list_ex (\<lambda>i. i \<notin> node_ids) unresolved \<or> \<not> followup_text condition \<or> \<not> followup_text owner \<or>
        (case current of None \<Rightarrow> False | Some c \<Rightarrow> c \<in> set unresolved)) InvalidArguments"

fun dependency_check :: "str set \<Rightarrow> str option \<Rightarrow> followup_dependency \<Rightarrow> unit result" where
  "dependency_check ids current (Ordered p s c) = ordered_check ids current p s c"
| "dependency_check ids current (Unresolved us c w) = unresolved_check ids current us c w"

fun ordered_edges :: "followup_dependency list \<Rightarrow> (str \<times> str) list" where
  "ordered_edges [] = []"
| "ordered_edges (Ordered p s c # ds) = (p, s) # ordered_edges ds"
| "ordered_edges (Unresolved us c w # ds) = ordered_edges ds"

definition validate_dependencies :: "followup_proposal \<Rightarrow> str list \<Rightarrow> str option \<Rightarrow> unit result option" where
  "validate_dependencies p node_ids current =
     (case each (dependency_check (set node_ids) current) (fp_dependencies p) of
        Inl e \<Rightarrow> Some (Inl e)
      | Inr _ \<Rightarrow> map_option (\<lambda>cyclic. refuse_if cyclic InvalidArguments)
          (has_cycle node_ids (ordered_edges (fp_dependencies p))))"

definition node_refused :: "followup_contract \<Rightarrow> consumed_output list \<Rightarrow> followup_node \<Rightarrow> bool" where
  "node_refused c consumed n \<longleftrightarrow>
     \<not> followup_text (fn_local_id n) \<or> \<not> followup_text (fn_target n) \<or> \<not> followup_text (fn_trigger n) \<or>
     fn_pipeline n \<notin> set (fc_allowed_kinds c) \<or>
     card (set (fn_source_outputs n)) \<noteq> length (fn_source_outputs n) \<or>
     list_ex (\<lambda>s. s \<notin> set consumed) (fn_source_outputs n)"

definition current_nodes :: "followup_proposal \<Rightarrow> followup_node list" where
  "current_nodes p = filter (\<lambda>n. fn_status n = SatisfiedByCurrentRun) (fp_nodes p)"

text \<open>\<^verbatim>\<open>iter().find(p)\<close>, and the outputs found for the evidence phases.\<close>

definition evidence_outputs :: "str list \<Rightarrow> consumed_output list \<Rightarrow> consumed_output list" where
  "evidence_outputs ids consumed = List.map_filter (\<lambda>i. List.find (\<lambda>s. co_phase_id s = i) consumed) ids"

definition current_run_check ::
    "pipeline_kind \<Rightarrow> followup_contract \<Rightarrow> followup_node list \<Rightarrow> consumed_output list \<Rightarrow> unit result" where
  "current_run_check kind c currents consumed =
     (case fc_current_run c of
        Some current \<Rightarrow> checks
          [refuse_if (length currents \<noteq> 1 \<or> fn_pipeline (currents ! 0) \<noteq> kind \<or>
             fn_pipeline (currents ! 0) \<noteq> cc_kind current) InvalidArguments,
           (let expected = evidence_outputs (cc_evidence_phase_ids current) consumed in
            refuse_if (length expected \<noteq> length (cc_evidence_phase_ids current) \<or>
               fn_source_outputs (currents ! 0) \<noteq> expected) InvalidArguments)]
      | None \<Rightarrow> refuse_if (currents \<noteq> []) InvalidArguments)"

definition proposal_shape_check ::
    "followup_contract \<Rightarrow> followup_proposal \<Rightarrow> consumed_output list \<Rightarrow> unit result" where
  "proposal_shape_check c p consumed = checks
     [refuse_if (length (fp_nodes p) < fc_minimum_nodes c \<or> MAX_FOLLOWUP_NODES < length (fp_nodes p) \<or>
        length (fp_dependencies p) < fc_minimum_dependencies c \<or>
        MAX_FOLLOWUP_DEPENDENCIES < length (fp_dependencies p)) InvalidArguments,
      refuse_if (card (set (map fn_local_id (fp_nodes p))) \<noteq> length (fp_nodes p) \<or>
        card (set (fp_dependencies p)) \<noteq> length (fp_dependencies p) \<or>
        list_ex (node_refused c consumed) (fp_nodes p) \<or>
        list_ex (\<lambda>g. \<not> list_ex (\<lambda>n. fn_pipeline n \<in> set g) (fp_nodes p)) (fc_required_kind_groups c))
        InvalidArguments]"

definition first_local_id :: "followup_node list \<Rightarrow> str option" where
  "first_local_id ns = (case ns of [] \<Rightarrow> None | n # _ \<Rightarrow> Some (fn_local_id n))"

definition validate_proposal ::
    "pipeline_kind \<Rightarrow> followup_contract \<Rightarrow> followup_proposal \<Rightarrow> consumed_output list \<Rightarrow> unit result option" where
  "validate_proposal kind c p consumed =
     (case checks [proposal_shape_check c p consumed, current_run_check kind c (current_nodes p) consumed] of
        Inl e \<Rightarrow> Some (Inl e)
      | Inr _ \<Rightarrow> validate_dependencies p (btree_list (map fn_local_id (fp_nodes p)))
          (first_local_id (current_nodes p)))"

definition followup_contract_for ::
    "phase_definition \<Rightarrow> str option \<Rightarrow> phase_outcome \<Rightarrow> transition \<Rightarrow> followup_contract option" where
  "followup_contract_for ph verdict outcome move =
     (case verdict of
        None \<Rightarrow> None
      | Some v \<Rightarrow> List.find (\<lambda>c. fc_verdict c = v \<and> fc_outcome c = outcome \<and> fc_transition c = move)
          (ph_followup_contracts ph))"

definition validate_followup_proposal ::
    "pipeline_definition \<Rightarrow> phase_definition \<Rightarrow> phase_output_draft \<Rightarrow> phase_outcome \<Rightarrow> transition \<Rightarrow>
     consumed_output list \<Rightarrow> unit result option" where
  "validate_followup_proposal d ph out outcome move consumed =
     (case followup_contract_for ph (po_verdict out) outcome move of
        None \<Rightarrow> Some (if po_followup_proposal out = None then Inr () else Inl InvalidArguments)
      | Some c \<Rightarrow>
          (case po_followup_proposal out of
             None \<Rightarrow> Some (Inl InvalidArguments)
           | Some p \<Rightarrow> validate_proposal (pd_kind d) c p consumed))"

section \<open>Accepted proposals\<close>

lemma ordered_edges_iff: "(p, s) \<in> set (ordered_edges ds) \<longleftrightarrow> (\<exists>c. Ordered p s c \<in> set ds)"
  by (induction ds rule: ordered_edges.induct) auto

lemma dependency_check_edges:
  "each (dependency_check ids current) ds = Inr () \<Longrightarrow>
   set (ordered_edges ds) \<subseteq> ids \<times> ids \<and> (\<forall>p s. (p, s) \<in> set (ordered_edges ds) \<longrightarrow> current \<noteq> Some s)"
  by (fastforce simp: each_Inr ordered_edges_iff ordered_check_def check_simps)

lemma validate_dependencies_Some:
  assumes "distinct node_ids"
  shows "\<exists>r. validate_dependencies p node_ids current = Some r \<and>
    (r = Inr () \<longleftrightarrow> each (dependency_check (set node_ids) current) (fp_dependencies p) = Inr () \<and>
       acyclic (set (ordered_edges (fp_dependencies p))))"
proof (cases "each (dependency_check (set node_ids) current) (fp_dependencies p)")
  case (Inl e)
  then show ?thesis by (simp add: validate_dependencies_def)
next
  case (Inr u)
  then have ok: "each (dependency_check (set node_ids) current) (fp_dependencies p) = Inr ()" by simp
  from has_cycle_correct [OF assms conjunct1 [OF dependency_check_edges [OF ok]]] ok
  show ?thesis by (simp add: validate_dependencies_def refuse_if_def)
qed

text \<open>
  The evidence of the node that the current run satisfies: the outputs, in the contract's order, that
  this completion consumed from the evidence phases.
\<close>

definition current_evidence_exact ::
    "pipeline_kind \<Rightarrow> followup_contract \<Rightarrow> followup_proposal \<Rightarrow> consumed_output list \<Rightarrow> bool" where
  "current_evidence_exact kind c p consumed \<longleftrightarrow>
     (case fc_current_run c of
        None \<Rightarrow> current_nodes p = []
      | Some current \<Rightarrow> (\<exists>n. current_nodes p = [n] \<and> fn_pipeline n = kind \<and> cc_kind current = kind \<and>
          map co_phase_id (fn_source_outputs n) = cc_evidence_phase_ids current \<and>
          set (fn_source_outputs n) \<subseteq> set consumed))"

lemma map_filter_find:
  "length (List.map_filter (\<lambda>i. List.find (\<lambda>s. f s = i) xs) is) = length is \<Longrightarrow>
   map f (List.map_filter (\<lambda>i. List.find (\<lambda>s. f s = i) xs) is) = is \<and>
   set (List.map_filter (\<lambda>i. List.find (\<lambda>s. f s = i) xs) is) \<subseteq> set xs"
proof (induction "is")
  case Nil
  then show ?case by (simp add: map_filter_simps)
next
  case (Cons i "is")
  have le: "length (List.map_filter g js) \<le> length js" for g :: "'b \<Rightarrow> 'a option" and js
    by (induction js) (auto simp: map_filter_simps split: option.split)
  show ?case
  proof (cases "List.find (\<lambda>s. f s = i) xs")
    case None
    then show ?thesis using Cons.prems le [of "\<lambda>i. List.find (\<lambda>s. f s = i) xs" "is"] by (simp add: map_filter_simps)
  next
    case (Some s)
    then have "s \<in> set xs" "f s = i" by (auto simp: find_Some_iff)
    then show ?thesis using Cons Some by (simp add: map_filter_simps)
  qed
qed

lemma current_run_check_exact:
  "current_run_check kind c (current_nodes p) consumed = Inr () \<Longrightarrow> current_evidence_exact kind c p consumed"
  using map_filter_find [of co_phase_id consumed]
  by (auto simp: current_run_check_def current_evidence_exact_def evidence_outputs_def check_simps Let_def
      length_Suc_conv split: option.splits)

text \<open>
  C26: checking a follow-up proposal always ends without panic, and an accepted proposal has 2 to 16
  nodes as its contract demands with distinct names, its ordered dependencies stay inside the proposal,
  never point at the node the current run satisfies and have no cycle, and that node's evidence is exactly
  what this completion consumed from the contract's evidence phases.
\<close>

theorem followup_proposal_total_and_acyclic:
  "\<exists>r. validate_proposal kind c p consumed = Some r \<and>
     \<not> (r = Inr () \<and> \<not>
       (fc_minimum_nodes c \<le> length (fp_nodes p) \<and> length (fp_nodes p) \<le> 16 \<and>
        distinct (map fn_local_id (fp_nodes p)) \<and>
        set (ordered_edges (fp_dependencies p)) \<subseteq>
          fn_local_id ` set (fp_nodes p) \<times> fn_local_id ` (set (fp_nodes p) - set (current_nodes p)) \<and>
        acyclic (set (ordered_edges (fp_dependencies p))) \<and>
        current_evidence_exact kind c p consumed))"
proof (cases "checks [proposal_shape_check c p consumed, current_run_check kind c (current_nodes p) consumed]")
  case (Inl e)
  then show ?thesis by (simp add: validate_proposal_def)
next
  case (Inr u)
  then have ok: "proposal_shape_check c p consumed = Inr ()"
    "current_run_check kind c (current_nodes p) consumed = Inr ()" by (simp_all add: check_simps)
  let ?ids = "btree_list (map fn_local_id (fp_nodes p))"
  let ?cur = "first_local_id (current_nodes p)"
  obtain r where r: "validate_dependencies p ?ids ?cur = Some r"
    "r = Inr () \<longleftrightarrow> each (dependency_check (set ?ids) ?cur) (fp_dependencies p) = Inr () \<and>
       acyclic (set (ordered_edges (fp_dependencies p)))"
    using validate_dependencies_Some [of ?ids p ?cur] by auto
  have exact: "current_evidence_exact kind c p consumed" by (rule current_run_check_exact [OF ok(2)])
  have shape: "fc_minimum_nodes c \<le> length (fp_nodes p)" "length (fp_nodes p) \<le> 16"
    "distinct (map fn_local_id (fp_nodes p))"
    using ok(1) card_set_length [of "map fn_local_id (fp_nodes p)"]
    by (auto simp: proposal_shape_check_def check_simps MAX_FOLLOWUP_NODES_def)
  have at_most_one: "\<exists>n. set (current_nodes p) \<subseteq> {n} \<and> (n \<in> set (current_nodes p) \<longrightarrow> ?cur = Some (fn_local_id n))"
    using exact by (auto simp: current_evidence_exact_def first_local_id_def split: option.splits)
  have edges: "set (ordered_edges (fp_dependencies p)) \<subseteq>
      fn_local_id ` set (fp_nodes p) \<times> fn_local_id ` (set (fp_nodes p) - set (current_nodes p))"
    if "r = Inr ()"
  proof -
    from that r(2) have "each (dependency_check (set ?ids) ?cur) (fp_dependencies p) = Inr ()" by blast
    from dependency_check_edges [OF this] at_most_one show ?thesis by fastforce
  qed
  have "validate_proposal kind c p consumed = Some r"
    using Inr r(1) by (simp add: validate_proposal_def)
  with shape edges r(2) exact show ?thesis by blast
qed

end
