(* ===== verification/PipelineConstraints.thy ===== *)
theory PipelineConstraints
  imports PipelineArtifacts
begin

text \<open>
  \<^verbatim>\<open>crates/domain/src/pipeline_constraints.rs\<close>, the refusals of \<^verbatim>\<open>pipeline_execution_validation.rs\<close>
  and \<^verbatim>\<open>engineering_review.rs\<close>, and the part of \<^verbatim>\<open>engineering_review/constraints.rs\<close> that checks
  definitions: which output constraints a phase may declare and when an output satisfies them.
\<close>

section \<open>Refusals\<close>

definition schema_refusal :: "str \<Rightarrow> str \<Rightarrow> str \<Rightarrow> str \<Rightarrow> error" where
  "schema_refusal rule path expected actual =
     (let (next_action, req) =
        (if prefix ''pipeline_definition.'' path then (''select_valid_pinned_definition'', ''pipeline_definition'')
         else (''correct_input_and_retry'', ''schema_valid_input''))
      in Refused (with_required req (with_next_action next_action (with_actual actual (with_expected expected
           (with_path path (with_rule rule (with_message (rc_message RC_InputSchemaInvalid)
              (refusal_new RC_InputSchemaInvalid)))))))))"

definition engineering_refusal :: "refusal_code \<Rightarrow> str \<Rightarrow> str \<Rightarrow> str \<Rightarrow> str \<Rightarrow> error" where
  "engineering_refusal code rule path expected actual =
     (let (next_action, req) =
        (if code = RC_InputSchemaInvalid then (''correct_input_and_retry'', ''schema_valid_input'')
         else (''correct_output'', ''output''))
      in Refused (with_required req (with_next_action next_action (with_actual actual (with_expected expected
           (with_path path (with_rule rule (with_message (rc_message code) (refusal_new code)))))))))"

section \<open>Integers in fields\<close>

text \<open>
  \<^verbatim>\<open>str::parse::<i64>()\<close>: an optional sign, then at least one decimal digit and nothing else, in range.
\<close>

definition digits_value :: "str \<Rightarrow> nat option" where
  "digits_value s = (if s \<noteq> [] \<and> list_all is_ascii_digit s
     then Some (foldl (\<lambda>acc c. acc * 10 + (byte c - 48)) 0 s) else None)"

definition parse_i64 :: "str \<Rightarrow> int option" where
  "parse_i64 s =
     (let (negative, digits) =
        (case s of
           [] \<Rightarrow> (False, [])
         | c # rest \<Rightarrow> if c = CHR ''-'' then (True, rest) else if c = CHR ''+'' then (False, rest) else (False, s)) in
      case digits_value digits of
        None \<Rightarrow> None
      | Some n \<Rightarrow> (let i = (if negative then - int n else int n) in if in_i64 i then Some i else None))"

definition parse_bool :: "str \<Rightarrow> bool option" where
  "parse_bool s = (if s = ''true'' then Some True else if s = ''false'' then Some False else None)"

section \<open>Declared constraints\<close>

definition field_declared :: "phase_definition \<Rightarrow> str \<Rightarrow> bool" where
  "field_declared ph field \<longleftrightarrow> \<not> blank field \<and> length field \<le> 256 \<and>
     (field \<in> set (ph_required_fields ph) \<or>
      list_ex (\<lambda>c. case c of FieldRequired declared _ \<Rightarrow> declared = field | _ \<Rightarrow> False) (ph_output_constraints ph))"

definition verdict_declared :: "phase_definition \<Rightarrow> str option \<Rightarrow> bool" where
  "verdict_declared ph v = (case v of None \<Rightarrow> True | Some x \<Rightarrow> x \<in> set (ph_allowed_verdicts ph))"

definition engineering_constraint_valid :: "phase_definition \<Rightarrow> engineering_review_constraint \<Rightarrow> bool" where
  "engineering_constraint_valid ph c \<longleftrightarrow>
     er_stage c \<in> {''specification'', ''plan'', ''implementation''} \<and>
     \<not> blank (er_standards_resource_id c) \<and> \<not> blank (er_standards_resource_digest c) \<and>
     er_artifact_name c = ''engineering-review.json'' \<and> er_success_verdicts c \<noteq> [] \<and>
     list_all (\<lambda>v. v \<in> set (ph_allowed_verdicts ph)) (er_success_verdicts c) \<and>
     card (set (er_success_verdicts c)) = length (er_success_verdicts c) \<and>
     list_all (\<lambda>v. \<not> blank v) (er_required_prior_review_phase_ids c) \<and>
     card (set (er_required_prior_review_phase_ids c)) = length (er_required_prior_review_phase_ids c) \<and>
     (case er_required_reconciliation_phase_id c of None \<Rightarrow> True | Some v \<Rightarrow> \<not> blank v)"

fun constraint_valid :: "phase_definition \<Rightarrow> output_constraint \<Rightarrow> bool" where
  "constraint_valid ph (EngineeringReview c) = engineering_constraint_valid ph c"
| "constraint_valid ph (CodeAuthorization i) = (\<not> blank i)"
| "constraint_valid ph (ResolvedKnowledgePublication vs) =
     (vs \<noteq> [] \<and> list_all (\<lambda>v. v \<in> set (ph_allowed_verdicts ph)) vs)"
| "constraint_valid ph (ReviewerContextMode f i s) =
     (field_declared ph f \<and> i \<noteq> [] \<and> s \<noteq> [] \<and> i \<noteq> s)"
| "constraint_valid ph (FieldRequired f w) = (\<not> blank f \<and> length f \<le> 256 \<and> verdict_declared ph w)"
| "constraint_valid ph (FieldEquals f v w) = (field_declared ph f \<and> v \<noteq> [] \<and> verdict_declared ph w)"
| "constraint_valid ph (FieldNotEquals f v w) = (field_declared ph f \<and> v \<noteq> [] \<and> verdict_declared ph w)"
| "constraint_valid ph (FieldIntegerEquals f v w) = (field_declared ph f \<and> verdict_declared ph w)"
| "constraint_valid ph (FieldIntegerNotEquals f v w) = (field_declared ph f \<and> verdict_declared ph w)"
| "constraint_valid ph (FieldIntegerMinimum f v w) = (field_declared ph f \<and> verdict_declared ph w)"
| "constraint_valid ph (FieldBooleanEquals f v w) = (field_declared ph f \<and> verdict_declared ph w)"
| "constraint_valid ph (FieldOneOf f vs w) =
     (field_declared ph f \<and> vs \<noteq> [] \<and> list_all (\<lambda>v. v \<noteq> []) vs \<and> verdict_declared ph w)"
| "constraint_valid ph (FieldsEqual f g w) = (field_declared ph f \<and> field_declared ph g \<and> verdict_declared ph w)"
| "constraint_valid ph (CommandReceiptRequired f status scope nonzero target w) =
     (field_declared ph f \<and> \<not> blank status \<and> \<not> blank scope \<and>
      (case target of None \<Rightarrow> True | Some g \<Rightarrow> field_declared ph g) \<and> verdict_declared ph w)"

definition validate_output_constraint :: "phase_definition \<Rightarrow> output_constraint \<Rightarrow> unit result" where
  "validate_output_constraint ph c = refuse_if (\<not> constraint_valid ph c) InvalidArguments"

section \<open>Satisfied constraints\<close>

text \<open>
  \<^verbatim>\<open>CommandReceipt\<close>, as \<^verbatim>\<open>serde_json\<close> reads it from a field; the reader is a parameter of the
  definitions below, since \<^verbatim>\<open>serde_json\<close> is not part of the repository.
\<close>

record command_receipt =
  cr_command :: str
  cr_target :: str
  cr_status :: str
  cr_exit_code :: int
  cr_fresh :: bool
  cr_skipped :: bool
  cr_scopes :: "str list"

definition applies :: "phase_output_draft \<Rightarrow> str option \<Rightarrow> bool" where
  "applies out w = (case w of None \<Rightarrow> True | Some v \<Rightarrow> po_verdict out = Some v)"

definition receipt_satisfies ::
    "command_receipt \<Rightarrow> str \<Rightarrow> str \<Rightarrow> bool \<Rightarrow> str option \<Rightarrow> phase_output_draft \<Rightarrow> bool" where
  "receipt_satisfies r status scope nonzero target out \<longleftrightarrow>
     \<not> blank (cr_command r) \<and> \<not> blank (cr_target r) \<and> cr_status r = status \<and> cr_fresh r \<and> \<not> cr_skipped r \<and>
     (if nonzero then cr_exit_code r \<noteq> 0 else cr_exit_code r = 0) \<and>
     list_all (\<lambda>s. \<not> blank s) (cr_scopes r) \<and> card (set (cr_scopes r)) = length (cr_scopes r) \<and>
     scope \<in> set (cr_scopes r) \<and>
     (case target of None \<Rightarrow> True | Some g \<Rightarrow> po_fields out g = Some (cr_target r))"

fun constraint_satisfied ::
    "(str \<Rightarrow> command_receipt option) \<Rightarrow> phase_output_draft \<Rightarrow> output_constraint \<Rightarrow> bool" where
  "constraint_satisfied read out (EngineeringReview c) = True"
| "constraint_satisfied read out (CodeAuthorization i) = True"
| "constraint_satisfied read out (ResolvedKnowledgePublication vs) =
     ((case po_verdict out of None \<Rightarrow> False | Some v \<Rightarrow> v \<in> set vs) = (po_knowledge_publication out \<noteq> None))"
| "constraint_satisfied read out (ReviewerContextMode f i s) =
     (case po_fields out f of
        None \<Rightarrow> False
      | Some v \<Rightarrow> if v = i then po_reviewer_context out \<noteq> None
                else if v = s then po_reviewer_context out = None else False)"
| "constraint_satisfied read out (FieldRequired f w) =
     (\<not> applies out w \<or> (case po_fields out f of None \<Rightarrow> False | Some v \<Rightarrow> \<not> blank v))"
| "constraint_satisfied read out (FieldEquals f v w) = (\<not> applies out w \<or> po_fields out f = Some v)"
| "constraint_satisfied read out (FieldNotEquals f v w) =
     (\<not> applies out w \<or> (case po_fields out f of None \<Rightarrow> False | Some a \<Rightarrow> a \<noteq> v))"
| "constraint_satisfied read out (FieldIntegerEquals f i w) =
     (\<not> applies out w \<or> Option.bind (po_fields out f) parse_i64 = Some i)"
| "constraint_satisfied read out (FieldIntegerNotEquals f i w) =
     (\<not> applies out w \<or> (case Option.bind (po_fields out f) parse_i64 of None \<Rightarrow> False | Some a \<Rightarrow> a \<noteq> i))"
| "constraint_satisfied read out (FieldIntegerMinimum f i w) =
     (\<not> applies out w \<or> (case Option.bind (po_fields out f) parse_i64 of None \<Rightarrow> False | Some a \<Rightarrow> i \<le> a))"
| "constraint_satisfied read out (FieldBooleanEquals f b w) =
     (\<not> applies out w \<or> Option.bind (po_fields out f) parse_bool = Some b)"
| "constraint_satisfied read out (FieldOneOf f vs w) =
     (\<not> applies out w \<or> (case po_fields out f of None \<Rightarrow> False | Some a \<Rightarrow> a \<in> set vs))"
| "constraint_satisfied read out (FieldsEqual f g w) =
     (\<not> applies out w \<or> po_fields out f \<noteq> None \<and> po_fields out f = po_fields out g)"
| "constraint_satisfied read out (CommandReceiptRequired f status scope nonzero target w) =
     (if \<not> applies out w then True
      else (case Option.bind (po_fields out f) read of
              None \<Rightarrow> False
            | Some r \<Rightarrow> receipt_satisfies r status scope nonzero target out))"

section \<open>Constraints that name other phases\<close>

definition earlier_phase :: "pipeline_definition \<Rightarrow> phase_definition \<Rightarrow> str \<Rightarrow> phase_definition option" where
  "earlier_phase d ph i = List.find (\<lambda>c. ph_id c = i \<and> ph_ordinal c < ph_ordinal ph) (pd_phases d)"

definition RECONCILIATION_FIELDS :: "str list" where
  "RECONCILIATION_FIELDS = [''engineering_finding_ids'', ''resolved_engineering_finding_ids'',
     ''deferred_engineering_finding_ids'', ''unresolved_engineering_finding_count'']"

definition constraint_path :: "nat \<Rightarrow> nat \<Rightarrow> str" where
  "constraint_path phase_index constraint_index =
     at_index (at_index ''pipeline_definition.phases'' phase_index @ ''.output_constraints'') constraint_index"

definition is_engineering_review :: "output_constraint \<Rightarrow> bool" where
  "is_engineering_review c = (case c of EngineeringReview _ \<Rightarrow> True | _ \<Rightarrow> False)"

definition is_plan_review :: "output_constraint \<Rightarrow> bool" where
  "is_plan_review c = (case c of EngineeringReview e \<Rightarrow> er_stage e = ''plan'' | _ \<Rightarrow> False)"

definition prior_review_check ::
    "pipeline_definition \<Rightarrow> phase_definition \<Rightarrow> str \<Rightarrow> nat \<Rightarrow> str \<Rightarrow> unit result" where
  "prior_review_check d ph path i prior_id =
     (let at = at_index (path @ ''.required_prior_review_phase_ids'') i in
      case earlier_phase d ph prior_id of
        None \<Rightarrow> Inl (engineering_refusal RC_InputSchemaInvalid ''WP6-ENGINEERING-REPORT-DEFINITION-PRIOR-PHASE''
                  at ''existing earlier phase'' ''missing or not earlier'')
      | Some prior \<Rightarrow> refuse_if (\<not> list_ex is_engineering_review (ph_output_constraints prior))
          (engineering_refusal RC_InputSchemaInvalid ''WP6-ENGINEERING-REPORT-DEFINITION-PRIOR-CONSTRAINT''
             at ''earlier engineering review phase'' ''constraint absent''))"

definition reconciliation_check ::
    "pipeline_definition \<Rightarrow> phase_definition \<Rightarrow> str \<Rightarrow> str \<Rightarrow> unit result" where
  "reconciliation_check d ph path reconciliation_id =
     (let at = path @ ''.required_reconciliation_phase_id'' in
      case earlier_phase d ph reconciliation_id of
        None \<Rightarrow> Inl (engineering_refusal RC_InputSchemaInvalid
                  ''WP6-ENGINEERING-REPORT-DEFINITION-RECONCILIATION-PHASE'' at
                  ''existing earlier phase'' ''missing or not earlier'')
      | Some reconciliation \<Rightarrow> refuse_if
          (list_ex (\<lambda>f. f \<notin> set (ph_required_fields reconciliation)) RECONCILIATION_FIELDS)
          (engineering_refusal RC_InputSchemaInvalid
             ''WP6-ENGINEERING-REPORT-DEFINITION-RECONCILIATION-FIELDS'' at
             ''reconciliation phase with all four engineering finding fields'' ''required field absent''))"

definition engineering_definition_check ::
    "pipeline_definition \<Rightarrow> phase_definition \<Rightarrow> str \<Rightarrow> engineering_review_constraint \<Rightarrow> unit result" where
  "engineering_definition_check d ph path c =
     (let fail = (\<lambda>rule expected. engineering_refusal RC_InputSchemaInvalid rule path expected ''missing or mismatched'');
          standards = list_ex (\<lambda>r. in_id r = er_standards_resource_id c \<and> in_version r = ''1.0.0'' \<and>
             in_digest r = er_standards_resource_digest c) (ph_resources ph);
          review_skill = list_ex (\<lambda>r. in_id r = ''tect:engineering-review'' \<and> in_version r = ''1.0.0'') (ph_resources ph);
          report = list_ex (\<lambda>a. aq_name_pattern a = er_artifact_name c \<and> aq_media_type a = ''application/json'' \<and>
             aq_required a \<and> aq_minimum_matches a = 1 \<and>
             aq_schema_resource_id a = Some ''tect:engineering-review-schema'') (ph_required_artifacts ph) in
      checks
       [refuse_if (\<not> standards) (fail ''WP6-ENGINEERING-REPORT-DEFINITION-STANDARDS''
          ''matching version 1.0.0 standards resource''),
        refuse_if (\<not> review_skill) (fail ''WP6-ENGINEERING-REPORT-DEFINITION-SKILL''
          ''engineering review skill version 1.0.0''),
        refuse_if (\<not> report) (fail ''WP6-ENGINEERING-REPORT-DEFINITION-ARTIFACT''
          ''required JSON report artifact with schema and minimum_matches=1''),
        each_idx (prior_review_check d ph path) (er_required_prior_review_phase_ids c),
        each_opt (reconciliation_check d ph path) (er_required_reconciliation_phase_id c)])"

definition code_authorization_check ::
    "pipeline_definition \<Rightarrow> phase_definition \<Rightarrow> str \<Rightarrow> str \<Rightarrow> unit result" where
  "code_authorization_check d ph path plan_id =
     (let at = path @ ''.required_plan_review_phase_id'' in
      case earlier_phase d ph plan_id of
        None \<Rightarrow> Inl (engineering_refusal RC_InputSchemaInvalid ''WP6-ENGINEERING-REPORT-DEFINITION-PLAN-PHASE''
                  at ''existing earlier phase'' ''missing or not earlier'')
      | Some prior \<Rightarrow> refuse_if (\<not> list_ex is_plan_review (ph_output_constraints prior))
          (engineering_refusal RC_InputSchemaInvalid ''WP6-ENGINEERING-REPORT-DEFINITION-PLAN-CONSTRAINT''
             at ''earlier plan engineering review phase'' ''constraint absent''))"

definition definition_constraint_check ::
    "pipeline_definition \<Rightarrow> nat \<Rightarrow> phase_definition \<Rightarrow> nat \<Rightarrow> output_constraint \<Rightarrow> unit result" where
  "definition_constraint_check d pi ph ci c =
     (case c of
        EngineeringReview e \<Rightarrow> engineering_definition_check d ph (constraint_path pi ci) e
      | CodeAuthorization plan_id \<Rightarrow> code_authorization_check d ph (constraint_path pi ci) plan_id
      | _ \<Rightarrow> Inr ())"

definition validate_definition_constraints :: "pipeline_definition \<Rightarrow> unit result" where
  "validate_definition_constraints d =
     each_idx (\<lambda>pi ph. each_idx (definition_constraint_check d pi ph) (ph_output_constraints ph)) (pd_phases d)"

end
