(* ===== verification/PipelineDefinition.thy ===== *)
theory PipelineDefinition
  imports PipelineConstraints PipelineFollowups
begin

text \<open>
  \<^verbatim>\<open>crates/domain/src/pipeline_execution_validation/definition.rs\<close>, \<^verbatim>\<open>begin.rs\<close> and \<^verbatim>\<open>escalation.rs\<close>:
  when a pinned pipeline definition is valid, and the checks on the commands that begin a run and
  escalate its delivery.
\<close>

section \<open>Instructions\<close>

definition validate_instruction :: "instruction_snapshot \<Rightarrow> str \<Rightarrow> unit result" where
  "validate_instruction v path = checks
     [refuse_if (blank (in_id v)) (schema_refusal ''WP6-INSTRUCTION-ID'' (path @ ''.id'') ''nonblank id'' ''blank''),
      refuse_if (blank (in_version v))
        (schema_refusal ''WP6-INSTRUCTION-VERSION'' (path @ ''.version'') ''nonblank version'' ''blank''),
      refuse_if (blank (in_digest v))
        (schema_refusal ''WP6-INSTRUCTION-DIGEST'' (path @ ''.digest'') ''nonblank digest'' ''blank''),
      refuse_if (blank (in_body v))
        (schema_refusal ''WP6-INSTRUCTION-BODY'' (path @ ''.body'') ''nonblank body'' ''blank''),
      refuse_if (in_origin_refs v = [])
        (schema_refusal ''WP6-INSTRUCTION-ORIGINS'' (path @ ''.origin_refs'') ''at least one origin reference'' ''count=0''),
      refuse_at (position blank (in_origin_refs v)) (\<lambda>k.
        schema_refusal ''WP6-INSTRUCTION-ORIGIN-BLANK'' (at_index (path @ ''.origin_refs'') k)
          ''nonblank origin reference'' ''blank'')]"

definition is_07 :: "pipeline_definition \<Rightarrow> bool" where
  "is_07 d \<longleftrightarrow> prefix ''0.7'' (pd_version d)"

definition instruction_check :: "pipeline_definition \<Rightarrow> str \<Rightarrow> str \<Rightarrow> nat \<Rightarrow> instruction_snapshot \<Rightarrow> unit result" where
  "instruction_check d path collection k v =
     (let instruction_path = at_index (path @ ''.'' @ collection) k in
      checks
       [refuse_if (is_07 d \<and> 4 * 1024 < length (in_body v))
          (Refused (with_required ''instruction_body'' (with_next_action ''reduce_instruction_body''
             (with_actual (show_nat (length (in_body v))) (with_expected ''at most 4096 UTF-8 bytes''
             (with_path (instruction_path @ ''.body'') (with_rule ''WP6-INSTRUCTION-SIZE-01''
             (with_message (rc_message RC_PayloadTooLarge) (refusal_new RC_PayloadTooLarge))))))))),
        validate_instruction v instruction_path])"

section \<open>Verdict routes\<close>

definition route_transition_check ::
    "pipeline_definition \<Rightarrow> phase_definition \<Rightarrow> str \<Rightarrow> (str \<Rightarrow> str \<Rightarrow> str \<Rightarrow> str \<Rightarrow> error) \<Rightarrow> verdict_route \<Rightarrow> unit result" where
  "route_transition_check d ph path route_fail r =
     (case vr_transition r of
        Complete \<Rightarrow> checks
          [refuse_if (vr_outcome r \<noteq> PhaseCompleted)
             (route_fail ''WP6-PHASE-ROUTE-COMPLETE-OUTCOME'' ''outcome'' ''completed for complete transition''
                ''different outcome''),
           refuse_if (ph_ordinal ph \<noteq> length (pd_phases d))
             (schema_refusal ''WP6-PHASE-ROUTE-COMPLETE-ORDINAL'' (path @ ''.ordinal'')
                ''terminal phase for complete transition''
                (''ordinal='' @ show_nat (ph_ordinal ph) @ ''; phases='' @ show_nat (length (pd_phases d))))]
      | Block \<Rightarrow> refuse_if (vr_outcome r \<noteq> PhaseBlocked)
          (route_fail ''WP6-PHASE-ROUTE-BLOCK-OUTCOME'' ''outcome'' ''blocked for block transition''
             ''different outcome'')
      | Escalate \<Rightarrow> refuse_if (vr_outcome r = PhaseWaitingInput)
          (route_fail ''WP6-PHASE-ROUTE-ESCALATE-OUTCOME'' ''outcome''
             ''completed or blocked for escalate transition'' ''waiting_input'')
      | Continue \<Rightarrow> Inr ())"

definition route_check :: "pipeline_definition \<Rightarrow> phase_definition \<Rightarrow> str \<Rightarrow> nat \<Rightarrow> verdict_route \<Rightarrow> unit result" where
  "route_check d ph path ri r =
     (let route_path = at_index (path @ ''.verdict_routes'') ri;
          fail = (\<lambda>rule field expected actual. schema_refusal rule (route_path @ ''.'' @ field) expected actual) in
      checks
       [refuse_if (blank (vr_verdict r)) (fail ''WP6-PHASE-ROUTE-VERDICT-BLANK'' ''verdict'' ''nonblank verdict'' ''blank''),
        refuse_if (vr_verdict r \<notin> set (ph_allowed_verdicts ph))
          (fail ''WP6-PHASE-ROUTE-VERDICT-MEMBERSHIP'' ''verdict'' ''member of allowed_verdicts'' ''not allowed''),
        refuse_at (first_dup (vr_dispositions r)) (\<lambda>k.
          fail ''WP6-PHASE-ROUTE-DISPOSITION-DUPLICATE'' (at_index ''dispositions'' k) ''unique disposition'' ''duplicate''),
        refuse_at (first_dup (vr_revisit_to r)) (\<lambda>k.
          fail ''WP6-PHASE-ROUTE-REVISIT-DUPLICATE'' (at_index ''revisit_to'' k) ''unique revisit target'' ''duplicate''),
        (if vr_revisit_to r = [] then Inr () else checks
          [refuse_if (vr_transition r \<noteq> Continue)
             (fail ''WP6-PHASE-ROUTE-REVISIT-TRANSITION'' ''transition'' ''continue for nonempty revisit_to''
                ''different transition''),
           refuse_at (position (\<lambda>i. i \<notin> set (ph_allowed_backward_to ph)) (vr_revisit_to r)) (\<lambda>k.
             fail ''WP6-PHASE-ROUTE-REVISIT-MEMBERSHIP'' (at_index ''revisit_to'' k)
               ''member of allowed_backward_to'' ''not allowed'')]),
        refuse_if (ph_disposition_required ph \<and> vr_dispositions r = [])
          (fail ''WP6-PHASE-ROUTE-DISPOSITION-REQUIRED'' ''dispositions'' ''at least one disposition'' ''count=0''),
        each_idx (\<lambda>k v. checks
          [refuse_if (blank v)
             (fail ''WP6-PHASE-ROUTE-DISPOSITION-BLANK'' (at_index ''dispositions'' k) ''nonblank disposition'' ''blank''),
           refuse_if (ph_allowed_dispositions ph \<noteq> [] \<and> v \<notin> set (ph_allowed_dispositions ph))
             (fail ''WP6-PHASE-ROUTE-DISPOSITION-MEMBERSHIP'' (at_index ''dispositions'' k)
                ''member of allowed_dispositions'' ''not allowed'')]) (vr_dispositions r),
        (if is_07 d \<and> vr_outcome r = PhaseCompleted
         then refuse_at (position (\<lambda>v. v \<notin> set (vr_dispositions r)) (ph_required_dispositions ph)) (\<lambda>k.
           fail ''WP6-PHASE-ROUTE-COMPLETED-DISPOSITION'' ''dispositions''
             (''include '' @ at_index ''required_dispositions'' k @ '' for completed 0.7 route'')
             ''required disposition absent'')
         else Inr ()),
        route_transition_check d ph path fail r])"

section \<open>Phases\<close>

text \<open>\<^verbatim>\<open>phase_ordinal\<close>: one more than the index, while that is a \<^verbatim>\<open>u32\<close>.\<close>

definition phase_ordinal :: "nat \<Rightarrow> nat result" where
  "phase_ordinal i =
     (if i + 1 < 2 ^ 32 then Inr (i + 1)
      else Inl (schema_refusal ''WP6-PHASE-ORDINAL-RANGE'' (at_index ''pipeline_definition.phases'' i @ ''.ordinal'')
        ''one-based ordinal representable as u32'' ''index outside ordinal range''))"

definition ordinal_check :: "str \<Rightarrow> nat \<Rightarrow> phase_definition \<Rightarrow> unit result" where
  "ordinal_check path i ph =
     andThen (phase_ordinal i) (\<lambda>expected. refuse_if (ph_ordinal ph \<noteq> expected)
       (schema_refusal ''WP6-PHASE-ORDINAL'' (path @ ''.ordinal'') (show_nat expected) (show_nat (ph_ordinal ph))))"

definition list_duplicates_check :: "str \<Rightarrow> phase_definition \<Rightarrow> unit result" where
  "list_duplicates_check path ph =
     (let fail = (\<lambda>rule field k. schema_refusal rule (path @ ''.'' @ at_index field k) ''unique list entry'' ''duplicate'') in
      checks
       [refuse_at (first_dup (ph_required_fields ph)) (fail ''WP6-PHASE-REQUIRED-FIELD-DUPLICATE'' ''required_fields''),
        refuse_at (first_dup (ph_allowed_verdicts ph)) (fail ''WP6-PHASE-ALLOWED-VERDICT-DUPLICATE'' ''allowed_verdicts''),
        refuse_at (first_dup (ph_required_dispositions ph))
          (fail ''WP6-PHASE-REQUIRED-DISPOSITION-DUPLICATE'' ''required_dispositions''),
        refuse_at (first_dup (ph_allowed_dispositions ph))
          (fail ''WP6-PHASE-ALLOWED-DISPOSITION-DUPLICATE'' ''allowed_dispositions''),
        refuse_at (first_dup (ph_verdict_routes ph)) (fail ''WP6-PHASE-VERDICT-ROUTE-DUPLICATE'' ''verdict_routes'')])"

definition list_blanks_check :: "str \<Rightarrow> phase_definition \<Rightarrow> unit result" where
  "list_blanks_check path ph =
     each (\<lambda>(field, vs, rule). refuse_at (position blank vs) (\<lambda>k.
       schema_refusal rule (path @ ''.'' @ at_index field k) ''nonblank list entry'' ''blank''))
     [(''required_fields'', ph_required_fields ph, ''WP6-PHASE-REQUIRED-FIELD-BLANK''),
      (''allowed_verdicts'', ph_allowed_verdicts ph, ''WP6-PHASE-ALLOWED-VERDICT-BLANK''),
      (''required_dispositions'', ph_required_dispositions ph, ''WP6-PHASE-REQUIRED-DISPOSITION-BLANK''),
      (''allowed_dispositions'', ph_allowed_dispositions ph, ''WP6-PHASE-ALLOWED-DISPOSITION-BLANK'')]"

definition map_err :: "('e \<Rightarrow> 'e) \<Rightarrow> 'e + 'a \<Rightarrow> 'e + 'a" where
  "map_err f r = (case r of Inl e \<Rightarrow> Inl (f e) | Inr x \<Rightarrow> Inr x)"

definition phase_check :: "pipeline_definition \<Rightarrow> nat \<Rightarrow> phase_definition \<Rightarrow> unit result" where
  "phase_check d i ph =
     (let path = at_index ''pipeline_definition.phases'' i;
          fail = (\<lambda>rule field expected actual. schema_refusal rule (path @ ''.'' @ field) expected actual) in
      checks
       [refuse_if (blank (ph_id ph)) (fail ''WP6-PHASE-ID'' ''id'' ''nonblank id'' ''blank''),
        refuse_if (blank (ph_title ph)) (fail ''WP6-PHASE-TITLE'' ''title'' ''nonblank title'' ''blank''),
        refuse_if (blank (ph_output_contract ph))
          (fail ''WP6-PHASE-OUTPUT-CONTRACT'' ''output_contract'' ''nonblank output_contract'' ''blank''),
        ordinal_check path i ph,
        refuse_if (seen_before ph_id (pd_phases d) i ph)
          (fail ''WP6-PHASE-ID-DUPLICATE'' ''id'' ''unique phase ID'' ''duplicate''),
        refuse_if (ph_instructions ph = [] \<and> ph_skills ph = [])
          (fail ''WP6-PHASE-INSTRUCTION-OR-SKILL'' ''instructions'' ''at least one instruction or skill''
             ''instructions=0; skills=0''),
        list_duplicates_check path ph,
        refuse_if (ph_disposition_required ph \<and> ph_allowed_dispositions ph = [])
          (fail ''WP6-PHASE-DISPOSITION-REQUIRED'' ''allowed_dispositions'' ''nonempty when disposition_required'' ''count=0''),
        refuse_if (is_07 d \<and> 8 < length (ph_required_fields ph))
          (fail ''WP6-PHASE-REQUIRED-FIELD-LIMIT'' ''required_fields'' ''at most 8 fields for 0.7 definitions''
             (''count='' @ show_nat (length (ph_required_fields ph)))),
        list_blanks_check path ph,
        (if ph_allowed_dispositions ph = [] then Inr ()
         else refuse_at (position (\<lambda>v. v \<notin> set (ph_allowed_dispositions ph)) (ph_required_dispositions ph)) (\<lambda>k.
           fail ''WP6-PHASE-REQUIRED-DISPOSITION-MEMBERSHIP'' (at_index ''required_dispositions'' k)
             ''member of allowed_dispositions'' ''not allowed'')),
        (if ph_allowed_verdicts ph = [] then Inr () else checks
          [refuse_if (ph_verdict_routes ph = [])
             (fail ''WP6-PHASE-VERDICT-ROUTES-MISSING'' ''verdict_routes'' ''routes for every allowed verdict'' ''count=0''),
           refuse_at (position (\<lambda>v. \<not> list_ex (\<lambda>r. vr_verdict r = v) (ph_verdict_routes ph)) (ph_allowed_verdicts ph)) (\<lambda>k.
             fail ''WP6-PHASE-VERDICT-COVERAGE'' (at_index ''allowed_verdicts'' k) ''verdict with a route'' ''route missing'')]),
        each_idx (route_check d ph path) (ph_verdict_routes ph),
        each_idx (instruction_check d path ''instructions'') (ph_instructions ph),
        each_idx (instruction_check d path ''skills'') (ph_skills ph),
        each_idx (instruction_check d path ''resources'') (ph_resources ph),
        map_err (\<lambda>e. prefix_definition_refusal e i) (validate_artifact_definition ph),
        validate_followup_definitions d ph,
        each (validate_output_constraint ph) (ph_output_constraints ph)])"

definition backward_check :: "pipeline_definition \<Rightarrow> nat \<Rightarrow> phase_definition \<Rightarrow> unit result" where
  "backward_check d i ph =
     refuse_at (position (\<lambda>target. case List.find (\<lambda>c. ph_id c = target) (pd_phases d) of
         None \<Rightarrow> True | Some t \<Rightarrow> ph_ordinal ph \<le> ph_ordinal t) (ph_allowed_backward_to ph)) (\<lambda>k.
       schema_refusal ''WP6-PHASE-BACKWARD-TARGET''
         (at_index (at_index ''pipeline_definition.phases'' i @ ''.allowed_backward_to'') k)
         ''existing strictly earlier phase'' ''missing or not earlier'')"

section \<open>Definitions\<close>

fun show_mode :: "delivery_mode \<Rightarrow> str" where
  "show_mode Whole = ''Whole''"
| "show_mode Phasewise = ''Phasewise''"

definition definition_header_check :: "pipeline_definition \<Rightarrow> unit result" where
  "definition_header_check d = checks
     [refuse_if (blank (pd_version d))
        (schema_refusal ''WP6-DEFINITION-VERSION'' ''pipeline_definition.version'' ''nonblank version'' ''blank''),
      refuse_if (blank (pd_digest d))
        (schema_refusal ''WP6-DEFINITION-DIGEST'' ''pipeline_definition.digest'' ''nonblank digest'' ''blank''),
      refuse_if (blank (pd_completion_contract d))
        (schema_refusal ''WP6-DEFINITION-COMPLETION-CONTRACT'' ''pipeline_definition.completion_contract''
           ''nonblank completion_contract'' ''blank''),
      refuse_if (blank (pd_escalation_contract d))
        (schema_refusal ''WP6-DEFINITION-ESCALATION-CONTRACT'' ''pipeline_definition.escalation_contract''
           ''nonblank escalation_contract'' ''blank''),
      refuse_if (pd_phases d = [])
        (schema_refusal ''WP6-DEFINITION-PHASES'' ''pipeline_definition.phases'' ''at least one phase'' ''count=0''),
      refuse_if (pd_default_mode d \<notin> set (pd_allowed_modes d))
        (schema_refusal ''WP6-DEFINITION-DEFAULT-MODE'' ''pipeline_definition.default_mode''
           ''mode included in allowed_modes'' (show_mode (pd_default_mode d))),
      validate_instruction (pd_overview d) ''pipeline_definition.overview'']"

definition definition_validate :: "pipeline_definition \<Rightarrow> unit result" where
  "definition_validate d = checks
     [definition_header_check d,
      each_idx (phase_check d) (pd_phases d),
      each_idx (backward_check d) (pd_phases d),
      validate_definition_constraints d]"

section \<open>Beginning and escalating\<close>

definition begin_inquiry_valid :: "pipeline_kind \<Rightarrow> inquiry_contract option \<Rightarrow> bool" where
  "begin_inquiry_valid kind inquiry =
     (case kind of
        Research \<Rightarrow> (case inquiry of None \<Rightarrow> False | Some i \<Rightarrow> is_ok (require_research i))
      | DeepBrainstorming \<Rightarrow> (case inquiry of None \<Rightarrow> False | Some i \<Rightarrow> is_ok (inquiry_validate i) \<and> is_decision i)
      | _ \<Rightarrow> inquiry = None)"

definition begin_checkpoint_valid :: "pipeline_kind \<Rightarrow> checkpoint_ref option \<Rightarrow> bool" where
  "begin_checkpoint_valid kind checkpoint =
     (case kind of
        Research \<Rightarrow> (case checkpoint of None \<Rightarrow> True | Some c \<Rightarrow> is_ok (checkpoint_ref_validate c))
      | _ \<Rightarrow> checkpoint = None)"

definition begin_version_check :: "pipeline_definition \<Rightarrow> str \<Rightarrow> unit result" where
  "begin_version_check d version = checks
     [refuse_if (blank version) (schema_refusal ''WP6-BEGIN-DEFINITION-VERSION-BLANK''
        ''arguments.params.definition_version'' ''nonblank pinned definition version'' ''blank''),
      refuse_if (128 < length version) (schema_refusal ''WP6-BEGIN-DEFINITION-VERSION-LIMIT''
        ''arguments.params.definition_version'' ''at most 128 UTF-8 bytes'' (''bytes='' @ show_nat (length version))),
      refuse_if (version \<noteq> pd_version d) (schema_refusal ''WP6-BEGIN-DEFINITION-VERSION-PIN''
        ''arguments.params.definition_version'' ''version of selected pinned definition'' ''mismatched'')]"

definition chosen_mode :: "begin_run \<Rightarrow> pipeline_definition \<Rightarrow> delivery_mode" where
  "chosen_mode b d = (case bg_delivery_mode b of None \<Rightarrow> pd_default_mode d | Some m \<Rightarrow> m)"

definition begin_validate :: "begin_run \<Rightarrow> pipeline_definition \<Rightarrow> unit result" where
  "begin_validate b d = checks
     [refuse_if (is_nil (bg_request_id b)) (schema_refusal ''WP6-BEGIN-REQUEST-ID''
        ''arguments.params.request_id'' ''non-nil request UUID'' ''nil UUID''),
      refuse_if (is_nil (bg_scope_id b)) (schema_refusal ''WP6-BEGIN-SCOPE-ID''
        ''arguments.params.scope_id'' ''non-nil scope UUID'' ''nil UUID''),
      refuse_if (is_nil (bg_slice_id b)) (schema_refusal ''WP6-BEGIN-SLICE-ID''
        ''arguments.params.slice_id'' ''non-nil slice UUID'' ''nil UUID''),
      refuse_if (bg_slice_revision b < 1) (schema_refusal ''WP6-BEGIN-SLICE-REVISION''
        ''arguments.params.slice_revision'' ''positive slice revision'' ''nonpositive''),
      refuse_if (blank (bg_qualification_reason b)) (schema_refusal ''WP6-BEGIN-QUALIFICATION''
        ''arguments.params.qualification_reason'' ''nonblank qualification reason'' ''blank''),
      each_opt (begin_version_check d) (bg_definition_version b),
      refuse_if (chosen_mode b d \<notin> set (pd_allowed_modes d)) (schema_refusal ''WP6-BEGIN-DELIVERY-MODE''
        ''arguments.params.delivery_mode'' ''mode allowed by selected definition'' (show_mode (chosen_mode b d))),
      refuse_if (\<not> begin_inquiry_valid (pd_kind d) (bg_inquiry b)) (schema_refusal ''WP6-BEGIN-INQUIRY''
        ''arguments.params.inquiry'' ''inquiry satisfying selected kind's contract; omitted for other kinds''
        (if bg_inquiry b = None then ''missing'' else ''present but not valid for selected kind'')),
      refuse_if (\<not> begin_checkpoint_valid (pd_kind d) (bg_source_checkpoint b))
        (schema_refusal ''WP6-BEGIN-SOURCE-CHECKPOINT'' ''arguments.params.source_checkpoint''
          ''valid optional checkpoint for research; omitted for other kinds''
          ''present but invalid for selected kind'')]"

definition escalate_validate :: "escalate_delivery \<Rightarrow> unit result" where
  "escalate_validate e = checks
     [refuse_if (is_nil (es_request_id e)) (schema_refusal ''WP6-DELIVERY-ESCALATE-REQUEST-ID''
        ''arguments.params.request_id'' ''non-nil request UUID'' ''nil UUID''),
      refuse_if (is_nil (es_run_id e)) (schema_refusal ''WP6-DELIVERY-ESCALATE-RUN-ID''
        ''arguments.params.run_id'' ''non-nil run UUID'' ''nil UUID''),
      refuse_if (es_run_revision e < 1) (schema_refusal ''WP6-DELIVERY-ESCALATE-REVISION''
        ''arguments.params.run_revision'' ''positive run revision'' ''nonpositive''),
      refuse_if (blank (es_phase_id e)) (schema_refusal ''WP6-DELIVERY-ESCALATE-PHASE-ID''
        ''arguments.params.phase_id'' ''nonblank phase ID'' ''blank''),
      refuse_if (blank (es_reason e)) (schema_refusal ''WP6-DELIVERY-ESCALATE-REASON''
        ''arguments.params.reason'' ''nonblank reason'' ''blank'')]"

section \<open>Accepted definitions\<close>

text \<open>
  The flow of a phase: where its verdicts may lead. A route that revisits or whose transition leaves
  the phase is tied to the order of the phases.
\<close>

definition earlier_in :: "pipeline_definition \<Rightarrow> phase_definition \<Rightarrow> str \<Rightarrow> bool" where
  "earlier_in d ph i \<longleftrightarrow> (\<exists>t\<in>set (pd_phases d). ph_id t = i \<and> ph_ordinal t < ph_ordinal ph)"

definition route_flow_ok :: "pipeline_definition \<Rightarrow> phase_definition \<Rightarrow> verdict_route \<Rightarrow> bool" where
  "route_flow_ok d ph r \<longleftrightarrow>
     vr_verdict r \<in> set (ph_allowed_verdicts ph) \<and>
     (vr_transition r = Complete \<longrightarrow> vr_outcome r = PhaseCompleted \<and> ph_ordinal ph = length (pd_phases d)) \<and>
     (vr_transition r = Block \<longrightarrow> vr_outcome r = PhaseBlocked) \<and>
     (vr_transition r = Escalate \<longrightarrow> vr_outcome r \<noteq> PhaseWaitingInput) \<and>
     (vr_revisit_to r \<noteq> [] \<longrightarrow> vr_transition r = Continue) \<and>
     set (vr_revisit_to r) \<subseteq> set (ph_allowed_backward_to ph)"

definition phase_flow_ok :: "pipeline_definition \<Rightarrow> phase_definition \<Rightarrow> bool" where
  "phase_flow_ok d ph \<longleftrightarrow>
     (\<forall>v\<in>set (ph_allowed_verdicts ph). \<exists>r\<in>set (ph_verdict_routes ph). vr_verdict r = v) \<and>
     (\<forall>r\<in>set (ph_verdict_routes ph). route_flow_ok d ph r) \<and>
     (\<forall>i\<in>set (ph_allowed_backward_to ph). earlier_in d ph i)"

definition reviews_earlier :: "pipeline_definition \<Rightarrow> phase_definition \<Rightarrow> output_constraint \<Rightarrow> bool" where
  "reviews_earlier d ph c \<longleftrightarrow>
     (case c of
        EngineeringReview e \<Rightarrow>
          (\<forall>i\<in>set (er_required_prior_review_phase_ids e). earlier_in d ph i) \<and>
          (\<forall>i. er_required_reconciliation_phase_id e = Some i \<longrightarrow> earlier_in d ph i)
      | CodeAuthorization i \<Rightarrow> earlier_in d ph i
      | _ \<Rightarrow> True)"

lemma map_err_Inr [check_simps]: "map_err f r = Inr x \<longleftrightarrow> r = Inr x"
  by (simp add: map_err_def split: sum.split)

lemma route_check_Inr:
  assumes "route_check d ph path ri r = Inr ()"
  shows "route_flow_ok d ph r"
proof -
  have "vr_verdict r \<in> set (ph_allowed_verdicts ph)"
    "vr_revisit_to r = [] \<or> vr_transition r = Continue" "set (vr_revisit_to r) \<subseteq> set (ph_allowed_backward_to ph)"
    "route_transition_check d ph path (\<lambda>rule field. schema_refusal rule
       (at_index (path @ ''.verdict_routes'') ri @ ''.'' @ field)) r = Inr ()"
    using assms by (auto simp: route_check_def Let_def check_simps split: if_splits)
  then show ?thesis
    by (auto simp: subset_iff route_flow_ok_def route_transition_check_def check_simps split: transition.splits)
qed

lemma backward_check_Inr:
  "backward_check d i ph = Inr () \<Longrightarrow> \<forall>t\<in>set (ph_allowed_backward_to ph). earlier_in d ph t"
  by (fastforce simp: backward_check_def check_simps earlier_in_def find_Some_iff not_le
      split: option.splits)

lemma phase_check_Inr:
  assumes "phase_check d i ph = Inr ()"
  shows "ph_ordinal ph = Suc i" "\<not> seen_before ph_id (pd_phases d) i ph" "\<not> blank (ph_id ph)"
    "each_idx (route_check d ph (at_index ''pipeline_definition.phases'' i)) (ph_verdict_routes ph) = Inr ()"
    "\<forall>v\<in>set (ph_allowed_verdicts ph). \<exists>r\<in>set (ph_verdict_routes ph). vr_verdict r = v"
  using assms
  by (auto simp: phase_check_def Let_def checks_Inr_Cons checks_Nil_Inr refuse_if_Inr refuse_at_Inr ordinal_check_def
      andThen_Inr phase_ordinal_def list_ex_iff split: if_splits)

lemma definition_validate_parts:
  assumes "definition_validate d = Inr ()" and "i < length (pd_phases d)"
  shows "phase_check d i (pd_phases d ! i) = Inr ()" "backward_check d i (pd_phases d ! i) = Inr ()"
    "\<forall>k<length (ph_output_constraints (pd_phases d ! i)).
       definition_constraint_check d i (pd_phases d ! i) k (ph_output_constraints (pd_phases d ! i) ! k) = Inr ()"
  using assms by (auto simp: definition_validate_def validate_definition_constraints_def check_simps)

lemma definition_nonempty: "definition_validate d = Inr () \<Longrightarrow> pd_phases d \<noteq> []"
  by (simp add: definition_validate_def definition_header_check_def checks_Inr_Cons refuse_if_Inr)

lemma earlier_phase_Some: "earlier_phase d ph i = Some t \<Longrightarrow> earlier_in d ph i"
  by (auto simp: earlier_phase_def earlier_in_def find_Some_iff)

lemma definition_constraint_check_Inr:
  "definition_constraint_check d pi ph ci c = Inr () \<Longrightarrow> reviews_earlier d ph c"
  by (auto simp: definition_constraint_check_def reviews_earlier_def engineering_definition_check_def Let_def
      checks_Inr_Cons checks_Nil_Inr each_idx_Inr each_opt_Inr prior_review_check_def reconciliation_check_def
      code_authorization_check_def in_set_conv_nth split: output_constraint.splits option.splits
      dest!: earlier_phase_Some)

lemma definition_validate_ordinals:
  assumes "definition_validate d = Inr ()"
  shows "\<forall>i<length (pd_phases d). ph_ordinal (pd_phases d ! i) = Suc i" "distinct (map ph_id (pd_phases d))"
proof -
  show "\<forall>i<length (pd_phases d). ph_ordinal (pd_phases d ! i) = Suc i"
    using definition_validate_parts(1) [OF assms] phase_check_Inr(1) by blast
  have "\<forall>i<length (pd_phases d). \<not> seen_before ph_id (pd_phases d) i (pd_phases d ! i)"
    using definition_validate_parts(1) [OF assms] phase_check_Inr(2) by blast
  then show "distinct (map ph_id (pd_phases d))" by (simp only: seen_before_distinct)
qed

lemma definition_validate_flow:
  assumes "definition_validate d = Inr ()" and "ph \<in> set (pd_phases d)"
  shows "phase_flow_ok d ph" "list_all (reviews_earlier d ph) (ph_output_constraints ph)"
proof -
  from assms(2) obtain i where i: "i < length (pd_phases d)" "ph = pd_phases d ! i" by (auto simp: in_set_conv_nth)
  note parts = definition_validate_parts [OF assms(1) i(1), folded i(2)]
  from backward_check_Inr [OF parts(2)] have bw: "\<forall>t\<in>set (ph_allowed_backward_to ph). earlier_in d ph t" .
  have "route_flow_ok d ph r" if "r \<in> set (ph_verdict_routes ph)" for r
    using phase_check_Inr(4) [OF parts(1)] route_check_Inr that
    unfolding each_idx_Inr in_set_conv_nth by metis
  with bw phase_check_Inr(5) [OF parts(1)] show "phase_flow_ok d ph" by (simp add: phase_flow_ok_def)
  show "list_all (reviews_earlier d ph) (ph_output_constraints ph)"
    using parts(3) definition_constraint_check_Inr unfolding list_all_length by blast
qed

text \<open>
  C22: the phases of an accepted definition are numbered 1 to n in their order and have distinct
  names, every allowed verdict has a route, backward targets always name strictly earlier phases and
  revisits name backward targets, only the last phase can complete the run, and every review that a constraint relies on
  belongs to an earlier phase.
\<close>

theorem accepted_definition_well_ordered:
  assumes "definition_validate d = Inr ()"
  shows "map ph_ordinal (pd_phases d) = [1..<Suc (length (pd_phases d))] \<and> pd_phases d \<noteq> [] \<and>
     distinct (map ph_id (pd_phases d)) \<and>
     (\<forall>ph\<in>set (pd_phases d). phase_flow_ok d ph \<and> list_all (reviews_earlier d ph) (ph_output_constraints ph))"
proof -
  have "map ph_ordinal (pd_phases d) = [1..<Suc (length (pd_phases d))]"
    using definition_validate_ordinals(1) [OF assms] by (intro nth_equalityI) (auto simp del: upt_Suc)
  with definition_validate_ordinals(2) [OF assms] definition_nonempty [OF assms] definition_validate_flow [OF assms]
  show ?thesis by blast
qed

text \<open>A definition of two phases whose second may send the work back to the first.\<close>

definition example_instruction :: instruction_snapshot where
  "example_instruction = \<lparr>in_id = ''i'', in_version = ''1'', in_digest = ''d'', in_body = ''b'', in_origin_refs = [''o'']\<rparr>"

definition plain_phase :: "str \<Rightarrow> nat \<Rightarrow> str list \<Rightarrow> verdict_route list \<Rightarrow> str list \<Rightarrow> phase_definition" where
  "plain_phase i n verdicts routes bw = \<lparr>ph_id = i, ph_ordinal = n, ph_title = i, ph_required = True,
     ph_disposition_required = False, ph_instructions = [example_instruction], ph_skills = [], ph_resources = [],
     ph_required_artifacts = [], ph_validator_contracts = [], ph_required_fields = [],
     ph_allowed_verdicts = verdicts, ph_required_dispositions = [], ph_allowed_dispositions = [],
     ph_output_constraints = [], ph_verdict_routes = routes, ph_followup_contracts = [],
     ph_allowed_backward_to = bw, ph_fresh_reviewer_input = False, ph_retry_policy = Repeatable,
     ph_output_contract = ''text''\<rparr>"

definition example_definition :: pipeline_definition where
  "example_definition = \<lparr>pd_kind = LightweightTddDevelopment, pd_version = ''1'', pd_digest = ''d'',
     pd_overview = example_instruction, pd_default_mode = Whole, pd_allowed_modes = [Whole],
     pd_phases =
      [plain_phase ''plan'' 1 [''ready'']
         [\<lparr>vr_verdict = ''ready'', vr_outcome = PhaseCompleted, vr_transition = Continue, vr_dispositions = [],
           vr_revisit_to = []\<rparr>] [],
       plain_phase ''build'' 2 [''done'', ''again'']
         [\<lparr>vr_verdict = ''done'', vr_outcome = PhaseCompleted, vr_transition = Complete, vr_dispositions = [],
           vr_revisit_to = []\<rparr>,
          \<lparr>vr_verdict = ''again'', vr_outcome = PhaseCompleted, vr_transition = Continue, vr_dispositions = [],
           vr_revisit_to = [''plan'']\<rparr>] [''plan'']],
     pd_completion_contract = ''c'', pd_escalation_contract = ''e'', pd_forbidden_claims = []\<rparr>"

lemma example_definition_valid: "definition_validate example_definition = Inr ()"
  unfolding definition_validate_def
  by (simp add: check_simps definition_header_check_def validate_instruction_def example_definition_def
      example_instruction_def plain_phase_def is_ascii_graphic_def byte_def phase_check_def ordinal_check_def
      phase_ordinal_def list_duplicates_check_def list_blanks_check_def route_check_def route_transition_check_def
      instruction_check_def is_07_def validate_artifact_definition_def validate_validator_definition_def
      validate_followup_definitions_def backward_check_def validate_definition_constraints_def
      All_less_Suc seen_before_def Let_def)

theorem accepted_definition_well_ordered_witness:
  "map ph_ordinal (pd_phases example_definition) = [1, 2] \<and> distinct (map ph_id (pd_phases example_definition))"
proof -
  have "[1..<Suc (length (pd_phases example_definition))] = [1, 2]"
    by (simp add: example_definition_def)
  with accepted_definition_well_ordered [OF example_definition_valid] show ?thesis by simp
qed

end
