(* ===== verification/PipelineMigration.thy ===== *)
theory PipelineMigration
  imports PipelineDefinition Identity
begin

text \<open>
  \<^verbatim>\<open>crates/domain/src/pipeline_migration.rs\<close>: which definitions are retired, which runs may still
  change, and the request that moves a run to a successor definition. The serializer and the hash
  function behind a definition's digest are not part of the repository and are parameters.
\<close>

section \<open>Retirement\<close>

definition CURRENT_LIGHTWEIGHT_VERSION :: str where
  "CURRENT_LIGHTWEIGHT_VERSION = ''0.7.1-native.k1k5''"

definition CURRENT_LIGHTWEIGHT_DEFINITION_DIGEST :: str where
  "CURRENT_LIGHTWEIGHT_DEFINITION_DIGEST =
     ''93df97f4cb4458a18411b76005b29025a56234dc47650e4147ac5fdab3d30d89''"

definition hex_byte :: "8 word \<Rightarrow> str" where
  "hex_byte b = hex_digits 2 (unat b)"

definition pipeline_definition_digest ::
    "(pipeline_definition \<Rightarrow> str option) \<Rightarrow> (str \<Rightarrow> 8 word list) \<Rightarrow> pipeline_definition \<Rightarrow> str result" where
  "pipeline_definition_digest to_vec sha256 d =
     (case to_vec (d\<lparr>pd_digest := []\<rparr>) of
        None \<Rightarrow> Inl InvalidConfiguration
      | Some bytes \<Rightarrow> Inr (concat (map hex_byte (sha256 bytes))))"

definition is_current_lightweight_retirement_successor ::
    "(pipeline_definition \<Rightarrow> str option) \<Rightarrow> (str \<Rightarrow> 8 word list) \<Rightarrow> pipeline_definition \<Rightarrow> bool" where
  "is_current_lightweight_retirement_successor to_vec sha256 d \<longleftrightarrow>
     pd_kind d = LightweightTddDevelopment \<and> pd_version d = CURRENT_LIGHTWEIGHT_VERSION \<and>
     length (pd_phases d) = 5 \<and> pd_digest d = CURRENT_LIGHTWEIGHT_DEFINITION_DIGEST \<and>
     pipeline_definition_digest to_vec sha256 d = Inr CURRENT_LIGHTWEIGHT_DEFINITION_DIGEST"

definition retag :: "refusal \<Rightarrow> refusal" where
  "retag r =
     (if rf_rule r = Some ''WP6-LIGHTWEIGHT-RETIRED-01''
      then r\<lparr>rf_path := Some ''arguments.params.successor_definition_version'',
             rf_next_action := Some ''get_current_context_and_use_exact_migration_action''\<rparr>
      else r)"

fun migration_successor_retirement_error :: "error \<Rightarrow> error" where
  "migration_successor_retirement_error (Refused r) = Refused (retag r)"
| "migration_successor_retirement_error (PipelineRefused src r) =
     PipelineRefused (migration_successor_retirement_error src) (retag r)"
| "migration_successor_retirement_error e = e"

definition is_retired_lightweight :: "pipeline_definition \<Rightarrow> bool" where
  "is_retired_lightweight d \<longleftrightarrow> pd_kind d = LightweightTddDevelopment \<and>
     (length (pd_phases d) = 15 \<or>
      pd_version d \<in> {''0.6.0-native.engineering.2'', ''0.4.0-native.skills.1'', ''0.1.0-native.1''})"

definition lightweight_retirement_error :: "str \<Rightarrow> str \<Rightarrow> str \<Rightarrow> error" where
  "lightweight_retirement_error path actual next_step =
     refused_at RC_LegacyMigrationRequired ''WP6-LIGHTWEIGHT-RETIRED-01'' path
       ''current Lightweight K1-K5 0.7.1-native.k1k5'' actual next_step ''current_lightweight_k1k5''"

definition ensure_pipeline_definition_selectable :: "pipeline_definition \<Rightarrow> unit result" where
  "ensure_pipeline_definition_selectable d =
     refuse_if (is_retired_lightweight d)
       (lightweight_retirement_error ''arguments.params.definition_version'' (pd_version d)
          ''begin_current_lightweight_k1k5'')"

text \<open>The text of a run status, as the enum is serialized and stored.\<close>

fun status_text :: "run_status \<Rightarrow> str" where
  "status_text RunActive = ''active''"
| "status_text RunWaitingInput = ''waiting_input''"
| "status_text RunBlocked = ''blocked''"
| "status_text RunCompleted = ''completed''"
| "status_text RunEscalated = ''escalated''"
| "status_text RunSuperseded = ''superseded''"

definition ensure_pipeline_run_mutable :: "pipeline_definition \<Rightarrow> run_status \<Rightarrow> unit result" where
  "ensure_pipeline_run_mutable d status =
     refuse_if (status = RunSuperseded \<or> is_retired_lightweight d)
       (lightweight_retirement_error ''arguments.params.run_id'' (status_text status)
          ''get_current_context_and_use_exact_migration_action'')"

section \<open>Migration requests\<close>

record migration_evidence_ref =
  me_reference :: str
  me_digest :: str

record obligation_mapping =
  om_legacy_obligation_id :: str
  om_successor_obligation_id :: str
  om_evidence_refs :: "migration_evidence_ref list"

record migration_command =
  mc_request_id :: uuid
  mc_predecessor_run_id :: uuid
  mc_expected_revision :: int
  mc_idempotency_key :: str
  mc_successor_definition_version :: str
  mc_mappings :: "obligation_mapping list"

record migration_request =
  mr_request_id :: uuid
  mr_predecessor_run_id :: uuid
  mr_predecessor_definition_version :: str
  mr_predecessor_definition_digest :: str
  mr_successor_definition_version :: str
  mr_successor_definition_digest :: str
  mr_mappings :: "obligation_mapping list"

definition mapping_ok :: "obligation_mapping \<Rightarrow> bool" where
  "mapping_ok m \<longleftrightarrow> om_legacy_obligation_id m \<noteq> [] \<and> om_successor_obligation_id m \<noteq> [] \<and>
     om_evidence_refs m \<noteq> [] \<and> list_all (\<lambda>e. me_reference e \<noteq> [] \<and> me_digest e \<noteq> []) (om_evidence_refs m)"

definition validate_mappings :: "obligation_mapping list \<Rightarrow> unit result" where
  "validate_mappings ms =
     (if ms \<noteq> [] \<and> card (set (map om_legacy_obligation_id ms)) = length ms \<and> list_all mapping_ok ms then Inr ()
      else Inl (refused_at RC_LegacyMigrationRequired ''WP6-MIGRATION-MAPPING-01'' ''arguments.params.mappings''
        ''unique predecessor and successor obligations with non-empty evidence refs''
        ''duplicate or incomplete mapping'' ''provide_explicit_successor_mapping''
        ''predecessor_successor_obligation_evidence_metadata''))"

definition migration_command_validate :: "migration_command \<Rightarrow> unit result" where
  "migration_command_validate c = checks
     [refuse_if (is_nil (mc_request_id c) \<or> is_nil (mc_predecessor_run_id c) \<or> mc_expected_revision c < 1 \<or>
        mc_idempotency_key c = [] \<or> 128 < length (mc_idempotency_key c) \<or>
        blank (mc_successor_definition_version c)) InvalidArguments,
      (if mc_mappings c = [] then Inr () else validate_mappings (mc_mappings c))]"

definition validate_metadata :: "migration_request \<Rightarrow> unit result" where
  "validate_metadata r =
     (if \<not> is_nil (mr_request_id r) \<and> \<not> is_nil (mr_predecessor_run_id r) \<and>
         mr_predecessor_definition_version r \<noteq> [] \<and> mr_predecessor_definition_digest r \<noteq> [] \<and>
         mr_successor_definition_version r \<noteq> [] \<and> mr_successor_definition_digest r \<noteq> [] \<and>
         mr_predecessor_definition_version r \<noteq> mr_successor_definition_version r \<and>
         mr_predecessor_definition_digest r \<noteq> mr_successor_definition_digest r
      then Inr ()
      else Inl (refused_at RC_LegacyMigrationRequired ''WP6-MIGRATION-CONTRACT-01'' ''arguments.params''
        ''distinct predecessor/successor identities and complete obligation/evidence mappings''
        ''invalid or incomplete migration contract'' ''provide_explicit_successor_mapping''
        ''predecessor_successor_obligation_evidence_metadata''))"

definition migration_request_validate :: "migration_request \<Rightarrow> unit result" where
  "migration_request_validate r = checks [validate_metadata r, validate_mappings (mr_mappings r)]"

definition retirement_restart_refusal :: "str \<Rightarrow> str \<Rightarrow> str \<Rightarrow> error" where
  "retirement_restart_refusal rule path actual =
     refused_at RC_LegacyMigrationRequired rule path
       ''canonical current Lightweight K1-K5 0.7.1-native.k1k5 with empty mappings'' actual
       ''get_current_context_and_use_exact_migration_action'' ''canonical_current_lightweight_k1k5_empty_mappings''"

definition validate_retirement_restart ::
    "(pipeline_definition \<Rightarrow> str option) \<Rightarrow> (str \<Rightarrow> 8 word list) \<Rightarrow> migration_request \<Rightarrow>
     pipeline_definition \<Rightarrow> pipeline_definition \<Rightarrow> unit result" where
  "validate_retirement_restart to_vec sha256 r predecessor successor =
     (if \<not> is_retired_lightweight predecessor then migration_request_validate r
      else checks
       [refuse_if (\<not> is_current_lightweight_retirement_successor to_vec sha256 successor)
          (retirement_restart_refusal ''WP6-MIGRATION-CONTRACT-01''
             ''arguments.params.successor_definition_version'' ''noncanonical retirement successor''),
        refuse_if (\<not> is_ok (validate_metadata r) \<or>
             mr_predecessor_definition_version r \<noteq> pd_version predecessor \<or>
             mr_predecessor_definition_digest r \<noteq> pd_digest predecessor \<or>
             mr_successor_definition_version r \<noteq> pd_version successor \<or>
             mr_successor_definition_digest r \<noteq> pd_digest successor)
          (retirement_restart_refusal ''WP6-MIGRATION-CONTRACT-01'' ''arguments.params''
             ''invalid retirement contract''),
        refuse_if (mr_mappings r \<noteq> [])
          (retirement_restart_refusal ''WP6-MIGRATION-MAPPING-01'' ''arguments.params.mappings''
             (show_nat (length (mr_mappings r))))])"

section \<open>Facts\<close>

lemma retag_idem [simp]: "retag (retag r) = retag r"
  by (simp add: retag_def)

lemma migration_successor_retirement_error_idem [simp]:
  "migration_successor_retirement_error (migration_successor_retirement_error e) =
   migration_successor_retirement_error e"
  by (induction e rule: migration_successor_retirement_error.induct) simp_all

text \<open>The current definition is not itself retired, so a migration always ends on a mutable run.\<close>

lemma successor_not_retired:
  "is_current_lightweight_retirement_successor to_vec sha256 d \<Longrightarrow> \<not> is_retired_lightweight d"
  by (simp add: is_current_lightweight_retirement_successor_def is_retired_lightweight_def
      CURRENT_LIGHTWEIGHT_VERSION_def)

lemma ensure_mutable_Inr:
  "ensure_pipeline_run_mutable d status = Inr () \<longleftrightarrow> status \<noteq> RunSuperseded \<and> \<not> is_retired_lightweight d"
  by (simp add: ensure_pipeline_run_mutable_def refuse_if_Inr)

text \<open>
  A migration away from a definition is accepted only towards a different definition, and when the
  old one is retired only towards the canonical current definition, which is not retired, with no
  obligations carried over; otherwise each legacy obligation is mapped once, with evidence.
\<close>

theorem accepted_migration_leaves_retirement:
  assumes "validate_retirement_restart to_vec sha256 r predecessor successor = Inr ()"
  shows "mr_predecessor_definition_version r \<noteq> mr_successor_definition_version r \<and>
     mr_predecessor_definition_digest r \<noteq> mr_successor_definition_digest r \<and>
     (if is_retired_lightweight predecessor
      then \<not> is_retired_lightweight successor \<and> mr_mappings r = [] \<and>
        pipeline_definition_digest to_vec sha256 successor = Inr (mr_successor_definition_digest r)
      else mr_mappings r \<noteq> [] \<and> distinct (map om_legacy_obligation_id (mr_mappings r)) \<and>
        list_all mapping_ok (mr_mappings r))"
proof (cases "is_retired_lightweight predecessor")
  case True
  then have parts: "is_current_lightweight_retirement_successor to_vec sha256 successor"
    "is_ok (validate_metadata r)" "mr_successor_definition_digest r = pd_digest successor" "mr_mappings r = []"
    using assms by (simp_all add: validate_retirement_restart_def check_simps)
  then show ?thesis
    using True successor_not_retired [OF parts(1)]
    by (auto simp: validate_metadata_def is_current_lightweight_retirement_successor_def split: if_splits)
next
  case False
  then have "validate_metadata r = Inr ()" "validate_mappings (mr_mappings r) = Inr ()"
    using assms by (simp_all add: validate_retirement_restart_def migration_request_validate_def check_simps)
  then show ?thesis
    using False card_set_length [of "map om_legacy_obligation_id (mr_mappings r)"]
    by (auto simp: validate_metadata_def validate_mappings_def split: if_splits)
qed

definition example_migration :: migration_request where
  "example_migration = \<lparr>mr_request_id = 1, mr_predecessor_run_id = 2, mr_predecessor_definition_version = ''1'',
     mr_predecessor_definition_digest = ''d'', mr_successor_definition_version = ''2'',
     mr_successor_definition_digest = ''e'',
     mr_mappings = [\<lparr>om_legacy_obligation_id = ''a'', om_successor_obligation_id = ''b'',
       om_evidence_refs = [\<lparr>me_reference = ''r'', me_digest = ''x''\<rparr>]\<rparr>]\<rparr>"

theorem accepted_migration_leaves_retirement_witness:
  "distinct (map om_legacy_obligation_id (mr_mappings example_migration)) \<and>
   mr_predecessor_definition_version example_migration \<noteq> mr_successor_definition_version example_migration"
proof -
  have kept: "\<not> is_retired_lightweight example_definition"
    by (simp add: is_retired_lightweight_def example_definition_def)
  have "validate_retirement_restart (\<lambda>_. None) (\<lambda>_. []) example_migration example_definition example_definition = Inr ()"
    using kept by (simp add: validate_retirement_restart_def migration_request_validate_def validate_metadata_def
        validate_mappings_def mapping_ok_def example_migration_def check_simps)
  from accepted_migration_leaves_retirement [OF this] kept show ?thesis by simp
qed

end
