(* ===== verification/PipelineReview.thy ===== *)
theory PipelineReview
  imports PipelineConstraints
begin

text \<open>
  The checks of \<^verbatim>\<open>crates/postgres/src/pipeline_execution/phase/helpers/validation.rs\<close> that need only
  values already read: whether the session that completes a review phase is independent of the
  producers of the outputs it reviews, and the gate on a locally verified result.
\<close>

section \<open>Reviewer independence\<close>

fun independent_field :: "phase_output_draft \<Rightarrow> output_constraint \<Rightarrow> str option" where
  "independent_field out (ReviewerContextMode f independent self) =
     (if po_fields out f = Some independent then Some (''arguments.params.output.fields.'' @ f) else None)"
| "independent_field out c = None"

definition reviewer_independence_path :: "phase_definition \<Rightarrow> phase_output_draft \<Rightarrow> str option" where
  "reviewer_independence_path ph out =
     (case List.map_filter (independent_field out) (ph_output_constraints ph) of
        path # _ \<Rightarrow> Some path
      | [] \<Rightarrow> if ph_fresh_reviewer_input ph \<or> po_reviewer_context out \<noteq> None
              then Some ''arguments.params.output.reviewer_context'' else None)"

definition is_reviewer_mode :: "output_constraint \<Rightarrow> bool" where
  "is_reviewer_mode c = (case c of ReviewerContextMode _ _ _ \<Rightarrow> True | _ \<Rightarrow> False)"

definition review_label_refusal :: "refusal_code \<Rightarrow> str \<Rightarrow> str \<Rightarrow> str \<Rightarrow> str \<Rightarrow> str \<Rightarrow> str \<Rightarrow> error" where
  "review_label_refusal code rule path expected actual next_action req =
     Refused (with_required req (with_next_action next_action (with_actual actual (with_expected expected
       (with_path path (with_rule rule (with_message (rc_message code) (refusal_new code))))))))"

text \<open>\<^verbatim>\<open>sort_unstable(); dedup()\<close>\<close>

definition attestation_check :: "phase_output_draft \<Rightarrow> reviewer_attestation \<Rightarrow> str list \<Rightarrow> unit result" where
  "attestation_check out a labels =
     (let expected = btree_list labels;
          supplied = btree_list (rw_producer_context_ids a);
          fail = (\<lambda>rule field want. review_label_refusal RC_InvalidOutput rule
             (''arguments.params.output.reviewer_context.'' @ field) want
             (''expected_count='' @ show_nat (length expected) @ ''; submitted_count='' @
              show_nat (length (rw_producer_context_ids a)) @ ''; unique_count='' @ show_nat (length supplied))
             ''correct_reviewer_attestation'' ''valid_reviewer_attestation'') in
      checks
       [refuse_if (rw_reviewer_context_id a \<noteq> po_producer_context_id out)
          (fail ''WP6-REVIEW-CONTEXT-05'' ''reviewer_context_id'' ''reviewer label equal to output producer label''),
        refuse_if (expected \<noteq> supplied)
          (fail ''WP6-REVIEW-PRODUCERS-07'' ''producer_context_ids'' ''exact current backend producer label set''),
        refuse_if (po_producer_context_id out \<in> set expected)
          (fail ''WP6-REVIEW-PRODUCERS-05'' ''producer_context_ids'' ''producer labels exclude reviewer label''),
        refuse_if (length supplied \<noteq> length (rw_producer_context_ids a))
          (fail ''WP6-REVIEW-PRODUCERS-06'' ''producer_context_ids'' ''unique producer labels'')])"

text \<open>A producer is the label and the session of a current preceding output, where still available.\<close>

type_synonym producer = "str option \<times> uuid option"

definition validate_reviewer_provenance ::
    "uuid \<Rightarrow> phase_definition \<Rightarrow> phase_output_draft \<Rightarrow> producer list \<Rightarrow> unit result" where
  "validate_reviewer_provenance session ph out producers =
     (case reviewer_independence_path ph out of
        None \<Rightarrow> Inr ()
      | Some path \<Rightarrow> checks
         [refuse_if (producers = [] \<or> list_ex (\<lambda>(label, actor). label = None \<or> actor = None) producers)
            (review_label_refusal RC_EvidenceMissing ''WP6-REVIEW-PROVENANCE-01'' path
               ''available backend producer provenance for every current preceding output''
               ''backend producer provenance is missing or unavailable''
               ''restore_backend_producer_proof'' ''backend_producer_provenance''),
          refuse_if (list_ex (\<lambda>(label, actor). actor = Some session) producers)
            (review_label_refusal RC_InvalidOutput ''WP6-REVIEW-INDEPENDENCE-01'' path
               ''a native reviewer actor different from every current producer actor''
               ''current authenticated session produced at least one output''
               (if \<not> ph_fresh_reviewer_input ph \<and> list_ex is_reviewer_mode (ph_output_constraints ph)
                then ''use_another_native_session_for_independent_review_or_select_permitted_self_review''
                else ''use_another_native_session_for_independent_review'')
               ''independent_native_reviewer''),
          (case po_reviewer_context out of
             Some a \<Rightarrow> attestation_check out a (List.map_filter fst producers)
           | None \<Rightarrow> Inl (refused_at RC_InvalidOutput ''WP6-REVIEW-CONTEXT-07''
               ''arguments.params.output.reviewer_context'' ''reviewer attestation for independent review''
               ''missing'' ''supply_reviewer_attestation'' ''reviewer_attestation''))])"

section \<open>Locally verified results\<close>

text \<open>\<^verbatim>\<open>str::parse::<u64>()\<close>: an optional plus sign and at least one digit, in range.\<close>

definition parse_u64 :: "str \<Rightarrow> nat option" where
  "parse_u64 s =
     (let digits = (case s of [] \<Rightarrow> [] | c # rest \<Rightarrow> if c = CHR ''+'' then rest else s) in
      case digits_value digits of None \<Rightarrow> None | Some n \<Rightarrow> if n < 2 ^ 64 then Some n else None)"

definition local_result_refusal :: error where
  "local_result_refusal = refused_at RC_InvalidOutput ''WP6-LOCAL-RESULT-01'' ''arguments.params.consumed_outputs''
     ''current successful local verification and deployment-not-required policy consuming that exact verification''
     ''local proof or policy is missing, stale, incomplete or contradictory''
     ''refresh_current_local_proof_and_deployment_policy'' ''local_result_gate''"

text \<open>An earlier output as bound now, with the completion request that produced it.\<close>

type_synonym prior_attempt = "consumed_output \<times> complete_phase"

definition field_is :: "phase_output_draft \<Rightarrow> str \<Rightarrow> str \<Rightarrow> bool" where
  "field_is out key v \<longleftrightarrow> po_fields out key = Some v"

definition forward_completion :: "complete_phase \<Rightarrow> bool" where
  "forward_completion a \<longleftrightarrow> cx_outcome a = PhaseCompleted \<and> cx_transition a = Continue \<and> cx_revisit_phase_id a = None"

definition validate_local_result_pair :: "complete_phase \<Rightarrow> prior_attempt \<Rightarrow> prior_attempt \<Rightarrow> unit result" where
  "validate_local_result_pair request verification policy =
     (let verified = snd verification; shaped = snd policy in
      refuse_if
       (\<not> forward_completion verified \<or> \<not> forward_completion shaped \<or>
        cx_run_id verified \<noteq> cx_run_id request \<or> cx_run_id shaped \<noteq> cx_run_id request \<or>
        co_phase_id (fst verification) \<noteq> ''slice-verification-runner'' \<or>
        co_phase_id (fst policy) \<noteq> ''slice-validation-deployment-contract-shaper'' \<or>
        po_verdict (cx_output verified) \<noteq> Some ''completed_local_verified'' \<or>
        po_dispositions (cx_output verified) \<noteq> [''proof_gate''] \<or>
        \<not> field_is (cx_output verified) ''verification_complete'' ''true'' \<or>
        \<not> field_is (cx_output verified) ''failed_check_count'' ''0'' \<or>
        \<not> field_is (cx_output verified) ''focused_exit_code'' ''0'' \<or>
        \<not> field_is (cx_output verified) ''affected_exit_code'' ''0'' \<or>
        list_ex (\<lambda>k. case po_fields (cx_output verified) k of None \<Rightarrow> True | Some v \<Rightarrow> blank v \<or> v = ''not_run'')
          [''focused_command'', ''affected_command''] \<or>
        po_verdict (cx_output shaped) \<noteq> Some ''deployment_not_required'' \<or>
        po_dispositions (cx_output shaped) = [] \<or>
        list_ex (\<lambda>d. d \<notin> {''deployment_contract_gate'', ''deployment_not_required''}) (po_dispositions (cx_output shaped)) \<or>
        \<not> field_is (cx_output shaped) ''deployment_required'' ''false'' \<or>
        \<not> field_is (cx_output request) ''deployment_required'' ''false'' \<or>
        fst verification \<notin> set (cx_consumed_outputs request) \<or> fst policy \<notin> set (cx_consumed_outputs request) \<or>
        fst verification \<notin> set (cx_consumed_outputs shaped))
       local_result_refusal)"

definition count_field :: "phase_output_draft \<Rightarrow> str \<Rightarrow> nat option" where
  "count_field out key = Option.bind (po_fields out key) parse_u64"

definition validate_local_execution :: "prior_attempt \<Rightarrow> prior_attempt \<Rightarrow> prior_attempt \<Rightarrow> unit result" where
  "validate_local_execution plan execution verification =
     (let attempt = snd execution;
          expected = count_field (cx_output (snd plan)) ''task_count'';
          count = count_field (cx_output attempt) in
      refuse_if
       (co_phase_id (fst plan) \<noteq> ''slice-plan-builder'' \<or> \<not> forward_completion (snd plan) \<or>
        po_verdict (cx_output (snd plan)) \<noteq> Some ''planned'' \<or>
        po_dispositions (cx_output (snd plan)) \<noteq> [''plan_gate''] \<or>
        (case expected of None \<Rightarrow> True | Some n \<Rightarrow> n = 0) \<or> expected \<noteq> count ''task_count'' \<or>
        fst plan \<notin> set (cx_consumed_outputs attempt) \<or>
        co_phase_id (fst execution) \<noteq> ''slice-execution-runner'' \<or> \<not> forward_completion attempt \<or>
        po_verdict (cx_output attempt) \<noteq> Some ''implemented_locally'' \<or>
        (case count ''task_count'' of None \<Rightarrow> True | Some n \<Rightarrow> n = 0) \<or>
        count ''task_count'' \<noteq> count ''completed_task_count'' \<or> count ''blocked_task_count'' \<noteq> Some 0 \<or>
        \<not> field_is (cx_output attempt) ''reviews_complete'' ''true'' \<or>
        \<not> field_is (cx_output attempt) ''no_hidden_lifecycle'' ''true'' \<or>
        fst execution \<notin> set (cx_consumed_outputs (snd verification)))
       local_result_refusal)"

section \<open>Facts\<close>

definition reviewed_independently :: "uuid \<Rightarrow> phase_output_draft \<Rightarrow> producer list \<Rightarrow> bool" where
  "reviewed_independently session out producers \<longleftrightarrow>
     producers \<noteq> [] \<and> (\<forall>p\<in>set producers. fst p \<noteq> None \<and> snd p \<noteq> None \<and> snd p \<noteq> Some session) \<and>
     (\<exists>a. po_reviewer_context out = Some a \<and> rw_reviewer_context_id a = po_producer_context_id out \<and>
        set (rw_producer_context_ids a) = {l. \<exists>x. (Some l, x) \<in> set producers} \<and>
        distinct (rw_producer_context_ids a) \<and> rw_reviewer_context_id a \<notin> set (rw_producer_context_ids a))"

lemma map_filter_fst_set: "set (List.map_filter fst producers) = {l. \<exists>x. (Some l, x) \<in> set producers}"
  by (force simp: List.map_filter_def)

lemma btree_list_eq_set: "btree_list xs = btree_list ys \<longleftrightarrow> set xs = set ys"
  by (metis btree_list_props(1,2,3) sorted_distinct_set_unique)

lemma btree_list_length: "length (btree_list xs) = length xs \<longleftrightarrow> distinct xs"
  by (simp add: btree_list_def length_remdups_card_conv)

lemma validate_reviewer_provenance_Inr:
  assumes "validate_reviewer_provenance session ph out producers = Inr ()"
    and "reviewer_independence_path ph out \<noteq> None"
  shows "reviewed_independently session out producers"
proof -
  have "producers \<noteq> [] \<and> (\<forall>p\<in>set producers. fst p \<noteq> None \<and> snd p \<noteq> None \<and> snd p \<noteq> Some session)"
    using assms by (auto simp: validate_reviewer_provenance_def check_simps list_ex_iff split: option.splits)
  moreover obtain a where a: "po_reviewer_context out = Some a"
    "attestation_check out a (List.map_filter fst producers) = Inr ()"
    using assms by (auto simp: validate_reviewer_provenance_def check_simps split: option.splits)
  ultimately show ?thesis
    unfolding reviewed_independently_def
    by (auto simp: attestation_check_def Let_def check_simps btree_list_eq_set btree_list_length map_filter_fst_set)
qed

text \<open>The result gate accepts only a verification with no failed check that the policy consumed.\<close>

lemma local_result_pair_Inr:
  "validate_local_result_pair request verification policy = Inr () \<Longrightarrow>
   fst verification \<in> set (cx_consumed_outputs request) \<inter> set (cx_consumed_outputs (snd policy)) \<and>
   field_is (cx_output (snd verification)) ''failed_check_count'' ''0''"
  by (simp add: validate_local_result_pair_def Let_def refuse_if_Inr)

lemma digits_value_0: "digits_value ''0'' = Some 0"
  by (simp add: digits_value_def is_ascii_digit_def byte_def)

lemma local_execution_Inr:
  assumes "validate_local_execution plan execution verification = Inr ()"
  shows "\<exists>n>0. count_field (cx_output (snd plan)) ''task_count'' = Some n \<and>
     count_field (cx_output (snd execution)) ''completed_task_count'' = Some n \<and>
     count_field (cx_output (snd execution)) ''blocked_task_count'' = Some 0"
  using assms by (auto simp: validate_local_execution_def Let_def refuse_if_Inr split: option.splits)

text \<open>
  C28: a phase output that has to be reviewed independently is accepted only from a session that
  produced none of the current preceding outputs, with an attestation that names exactly the labels
  of their producers, each once and not the reviewer's own.
\<close>

theorem independent_review_is_independent:
  assumes "validate_reviewer_provenance session ph out producers = Inr ()"
    and "reviewer_independence_path ph out \<noteq> None"
  shows "(\<forall>p\<in>set producers. snd p \<noteq> None \<and> snd p \<noteq> Some session) \<and>
     (\<exists>a. po_reviewer_context out = Some a \<and> rw_reviewer_context_id a = po_producer_context_id out \<and>
        set (rw_producer_context_ids a) = {l. \<exists>x. (Some l, x) \<in> set producers} \<and>
        distinct (rw_producer_context_ids a) \<and> rw_reviewer_context_id a \<notin> set (rw_producer_context_ids a))"
  using validate_reviewer_provenance_Inr [OF assms] unfolding reviewed_independently_def by blast

definition example_review :: phase_output_draft where
  "example_review = example_output\<lparr>po_reviewer_context := Some \<lparr>rw_reviewer_identity = ''r'',
     rw_reviewer_context_id = ''p'', rw_producer_context_ids = [''x''], rw_fresh_input = True\<rparr>\<rparr>"

theorem independent_review_is_independent_witness:
  "validate_reviewer_provenance 7 example_phase example_review [(Some ''x'', Some 8)] = Inr () \<and>
   (8 :: uuid) \<noteq> 7"
proof -
  have accepted: "validate_reviewer_provenance 7 example_phase example_review [(Some ''x'', Some 8)] = Inr ()"
    by (simp add: validate_reviewer_provenance_def example_phase_def example_review_def example_output_def
        reviewer_independence_path_def attestation_check_def Let_def check_simps btree_list_def
        List.map_filter_def)
  have "reviewer_independence_path example_phase example_review \<noteq> None"
    by (simp add: example_phase_def example_review_def reviewer_independence_path_def List.map_filter_def)
  from independent_review_is_independent [OF accepted this] accepted show ?thesis by simp
qed

end
