(* ===== verification/RequirementsLedger.thy ===== *)
theory RequirementsLedger
  imports PipelineMigration "HOL-Library.AList"
begin

text \<open>
  \<^verbatim>\<open>crates/postgres/src/pipeline_execution/phase/helpers/ledger.rs\<close>: the requirements ledger that
  the decision phase writes and the reconciliation phase must carry forward, and
  \<^verbatim>\<open>source_from_ledger\<close> of \<^verbatim>\<open>input.rs\<close>. The text of a JSON document is turned into a value by
  \<^verbatim>\<open>serde_json\<close>, a parameter \<open>from_str\<close> of the definitions; a number is kept as its text, an object
  as its entries in key order.
\<close>

section \<open>JSON values\<close>

datatype json = JNull | JBool bool | JNumber str | JString str | JArray "json list" | JObject "(str \<times> json) list"

fun json_object :: "json \<Rightarrow> (str \<times> json) list option" where
  "json_object (JObject es) = Some es"
| "json_object v = None"

fun json_str :: "json \<Rightarrow> str option" where
  "json_str (JString s) = Some s"
| "json_str v = None"

fun json_array :: "json \<Rightarrow> json list option" where
  "json_array (JArray vs) = Some vs"
| "json_array v = None"

definition json_get :: "str \<Rightarrow> json \<Rightarrow> json option" where
  "json_get k v = Option.bind (json_object v) (\<lambda>es. map_of es k)"

definition json_get_str :: "str \<Rightarrow> json \<Rightarrow> str option" where
  "json_get_str k v = Option.bind (json_get k v) json_str"

definition source_from_ledger :: "(str \<Rightarrow> json option) \<Rightarrow> str \<Rightarrow> (str \<times> str) option" where
  "source_from_ledger from_str body =
     Option.bind (from_str body) (\<lambda>v. Option.bind (json_get ''source'' v) (\<lambda>src.
       Option.bind (json_get_str ''path'' src) (\<lambda>path.
       map_option (\<lambda>digest. (path, digest)) (json_get_str ''digest'' src))))"

section \<open>Violations within a budget\<close>

record ledger_violations =
  lv_retained :: "artifact_violation list"
  lv_omitted :: nat
  lv_truncated :: bool

definition no_violations :: ledger_violations where
  "no_violations = \<lparr>lv_retained = [], lv_omitted = 0, lv_truncated = False\<rparr>"

definition push_violation :: "artifact_violation \<Rightarrow> ledger_violations \<Rightarrow> ledger_violations" where
  "push_violation v b =
     (if length (lv_retained b) < MAX_DIAGNOSTIC_VIOLATIONS then b\<lparr>lv_retained := lv_retained b @ [v]\<rparr>
      else b\<lparr>lv_omitted := saturating_add (lv_omitted b) 1\<rparr>)"

definition violations_empty :: "ledger_violations \<Rightarrow> bool" where
  "violations_empty b \<longleftrightarrow> lv_retained b = [] \<and> lv_omitted b = 0"

definition text_preview :: "str \<Rightarrow> str" where
  "text_preview s =
     (if length s \<le> 96 then s
      else take (floor_boundary s 96) s @ ''...['' @ show_nat (length s) @ '' bytes]'')"

fun value_summary :: "json \<Rightarrow> str" where
  "value_summary JNull = ''null''"
| "value_summary (JBool b) = ''boolean:'' @ show_bool b"
| "value_summary (JNumber n) = ''number:'' @ n"
| "value_summary (JString s) = ''string:'' @ text_preview s"
| "value_summary (JArray vs) = ''array(items='' @ show_nat (length vs) @ '')''"
| "value_summary (JObject es) = ''object(keys='' @ show_nat (length es) @ '')''"

definition violation :: "str \<Rightarrow> str \<Rightarrow> str option \<Rightarrow> str option \<Rightarrow> artifact_violation" where
  "violation code path expected actual =
     \<lparr>av_code = code, av_path = path, av_expected = expected, av_actual = actual\<rparr>"

definition ledger_error_with_budget :: "str \<Rightarrow> str \<Rightarrow> ledger_violations \<Rightarrow> str \<Rightarrow> error" where
  "ledger_error_with_budget phase code b recovery =
     InvalidPipelineArtifact (bounded_with_omitted code phase ''requirements-ledger.json'' (lv_retained b)
       (lv_omitted b) (lv_truncated b) True recovery)"

definition ledger_recovery :: "str \<Rightarrow> str" where
  "ledger_recovery phase = ''Correct requirements-ledger.json for '' @ phase @
     '' and retry the same phase completion request with a new request_id.''"

definition ledger_error :: "str \<Rightarrow> str \<Rightarrow> artifact_violation list \<Rightarrow> error" where
  "ledger_error phase code vs =
     ledger_error_with_budget phase code (no_violations\<lparr>lv_retained := vs\<rparr>) (ledger_recovery phase)"

section \<open>Parsing a ledger\<close>

record requirements_ledger =
  rl_source :: "str \<times> str"
  rl_rows :: "(str \<times> str) list"

definition trimmed_text :: "str \<Rightarrow> bool" where
  "trimmed_text s \<longleftrightarrow> \<not> blank s \<and> s = trim s"

definition source_value :: "json \<Rightarrow> str \<Rightarrow> str option" where
  "source_value ledger name =
     Option.bind (json_get ''source'' ledger) (\<lambda>src. Option.bind (json_get_str name src)
       (\<lambda>s. if trimmed_text s then Some s else None))"

definition source_violation :: "json \<Rightarrow> str \<Rightarrow> artifact_violation list" where
  "source_violation ledger name =
     (if source_value ledger name = None
      then [violation (''source_'' @ name @ ''_required'') (''$.source.'' @ name) (Some ''non-empty trimmed string'')
              (map_option value_summary (Option.bind (json_get ''source'' ledger) (json_get name)))]
      else [])"

definition requirement_id :: "json \<Rightarrow> str option" where
  "requirement_id v = Option.bind (json_str v) (\<lambda>s. if trimmed_text s then Some s else None)"

fun inventory_scan :: "nat \<Rightarrow> str list \<Rightarrow> json list \<Rightarrow> str list \<times> artifact_violation list" where
  "inventory_scan i seen [] = (seen, [])"
| "inventory_scan i seen (v # vs) =
     (let path = ''$.sourceRequirementIds['' @ show_nat i @ '']'' in
      case requirement_id v of
        Some r \<Rightarrow>
          if r \<in> set seen
          then (let (seen', bad) = inventory_scan (Suc i) seen vs in
            (seen', violation ''source_requirement_id_duplicate'' path (Some ''unique requirement ID'')
               (Some (text_preview r)) # bad))
          else inventory_scan (Suc i) (seen @ [r]) vs
      | None \<Rightarrow> (let (seen', bad) = inventory_scan (Suc i) seen vs in
            (seen', violation ''source_requirement_id_invalid'' path (Some ''non-empty trimmed string'')
               (Some (value_summary v)) # bad)))"

definition source_inventory :: "json \<Rightarrow> str list \<times> artifact_violation list" where
  "source_inventory ledger =
     (case Option.bind (json_get ''sourceRequirementIds'' ledger) json_array of
        Some vs \<Rightarrow> inventory_scan 0 [] vs
      | None \<Rightarrow> ([], [violation ''source_requirement_ids_required'' ''$.sourceRequirementIds'' (Some ''array'')
          (map_option value_summary (json_get ''sourceRequirementIds'' ledger))]))"

definition MODALITIES :: "str list" where
  "MODALITIES = [''MUST'', ''SHOULD'', ''MAY'']"

fun row_scan :: "nat \<Rightarrow> (str \<times> str) list \<Rightarrow> json list \<Rightarrow> (str \<times> str) list \<times> artifact_violation list" where
  "row_scan i rows [] = (rows, [])"
| "row_scan i rows (v # vs) =
     (let path = ''$.requirements['' @ show_nat i @ '']'';
          r = Option.bind (json_get ''id'' v) requirement_id;
          m = json_get_str ''modality'' v;
          no_id = (if r = None then [violation ''requirement_id_required'' (path @ ''.id'')
             (Some ''non-empty trimmed string'') (map_option value_summary (json_get ''id'' v))] else []);
          bad_modality = (if m \<in> Some ` set MODALITIES then [] else [violation ''requirement_modality_invalid''
             (path @ ''.modality'') (Some ''MUST, SHOULD, or MAY'') (map_option value_summary (json_get ''modality'' v))]);
          (rows', duplicate) = (case (r, m) of
             (Some rid, Some modality) \<Rightarrow>
               if modality \<in> set MODALITIES
               then (AList.update rid modality rows,
                     if rid \<in> fst ` set rows then [violation ''requirement_id_duplicate'' (path @ ''.id'')
                       (Some ''unique requirement ID'') (Some (text_preview rid))] else [])
               else (rows, [])
           | _ \<Rightarrow> (rows, []));
          (rows'', bad) = row_scan (Suc i) rows' vs
      in (rows'', no_id @ bad_modality @ duplicate @ bad))"

definition requirement_rows :: "json \<Rightarrow> (str \<times> str) list \<times> artifact_violation list" where
  "requirement_rows ledger =
     (case Option.bind (json_get ''requirements'' ledger) json_array of
        Some vs \<Rightarrow> row_scan 0 [] vs
      | None \<Rightarrow> ([], [violation ''requirements_required'' ''$.requirements'' (Some ''array'')
          (map_option value_summary (json_get ''requirements'' ledger))]))"

definition inventory_mismatches :: "str list \<Rightarrow> (str \<times> str) list \<Rightarrow> artifact_violation list" where
  "inventory_mismatches inventory rows =
     map (\<lambda>r. violation ''source_requirement_missing_row'' ''$.requirements'' (Some (''row for '' @ text_preview r)) None)
       (filter (\<lambda>r. r \<notin> fst ` set rows) (btree_list inventory)) @
     map (\<lambda>r. violation ''requirement_id_not_in_source_inventory'' ''$.sourceRequirementIds''
         (Some (''source inventory entry for '' @ text_preview r)) None)
       (filter (\<lambda>r. r \<notin> set inventory) (btree_list (map fst rows)))"

definition parse_requirements_ledger :: "(str \<Rightarrow> json option) \<Rightarrow> str \<Rightarrow> str \<Rightarrow> requirements_ledger result" where
  "parse_requirements_ledger from_str body phase =
     (case from_str body of
        None \<Rightarrow> Inl (ledger_error phase ''requirement_ledger_invalid''
          [violation ''invalid_json'' ''$'' (Some ''valid JSON object'') (Some ''malformed_json'')])
      | Some ledger \<Rightarrow>
          (let (inventory, bad_ids) = source_inventory ledger;
               (rows, bad_rows) = requirement_rows ledger;
               found = source_violation ledger ''path'' @ source_violation ledger ''digest'' @ bad_ids @ bad_rows @
                 inventory_mismatches inventory rows;
               budget = fold push_violation found no_violations
           in if violations_empty budget
              then Inr \<lparr>rl_source = (the (source_value ledger ''path''), the (source_value ledger ''digest'')),
                     rl_rows = rows\<rparr>
              else Inl (ledger_error_with_budget phase ''requirement_ledger_invalid'' budget (ledger_recovery phase))))"

section \<open>The ledgers of the two phases\<close>

definition DECISION_PHASE :: str where "DECISION_PHASE = ''slice-component-decision-interrogator''"
definition RECONCILIATION_PHASE :: str where "RECONCILIATION_PHASE = ''slice-reconciliation-runner''"
definition LEDGER_NAME :: str where "LEDGER_NAME = ''requirements-ledger.json''"

definition ledger_body :: "phase_output_draft \<Rightarrow> str option" where
  "ledger_body out = map_option pa_body (List.find (\<lambda>a. pa_name a = LEDGER_NAME) (po_artifacts out))"

definition missing_ledger :: "str \<Rightarrow> error" where
  "missing_ledger phase = ledger_error phase ''requirement_ledger_missing''
     [violation ''required_artifact_missing'' ''$.output.artifacts'' (Some LEDGER_NAME) None]"

definition validate_requirements_ledger :: "(str \<Rightarrow> json option) \<Rightarrow> str \<Rightarrow> phase_output_draft \<Rightarrow> unit result" where
  "validate_requirements_ledger from_str phase out =
     andThen (ok_or (ledger_body out) (missing_ledger phase)) (\<lambda>body.
     andThen (parse_requirements_ledger from_str body phase) (\<lambda>_. Inr ()))"

abbreviation validate_decision_requirements_ledger where
  "validate_decision_requirements_ledger from_str \<equiv> validate_requirements_ledger from_str DECISION_PHASE"

abbreviation validate_reconciliation_requirements_ledger where
  "validate_reconciliation_requirements_ledger from_str \<equiv> validate_requirements_ledger from_str RECONCILIATION_PHASE"

fun wrap_prior_ledger_error :: "error \<Rightarrow> error" where
  "wrap_prior_ledger_error (InvalidPipelineArtifact dg) =
     ledger_error_with_budget RECONCILIATION_PHASE ''requirement_ledger_lineage_invalid''
       (fold push_violation (map (\<lambda>v. v\<lparr>av_path := ''phase5:'' @ av_path v\<rparr>) (dg_violations dg))
          \<lparr>lv_retained = [], lv_omitted = dg_omitted_violation_count dg, lv_truncated = dg_truncated dg\<rparr>)
       ''Submit a valid phase 7 output with completed/continue and revisit_phase_id slice-component-decision-interrogator; then rework phase 5 and rerun phases 6 and 7.''"
| "wrap_prior_ledger_error e = e"

definition row_lineage :: "(str \<times> str) list \<Rightarrow> str \<times> str \<Rightarrow> artifact_violation list" where
  "row_lineage current = (\<lambda>(r, modality).
     (case map_of current r of
        None \<Rightarrow> [violation ''prior_requirement_missing'' (''$.requirements['' @ text_preview r @ '']'')
          (Some (''preserved '' @ modality @ '' requirement'')) None]
      | Some m \<Rightarrow> if modality = ''MUST'' \<and> m \<noteq> ''MUST''
          then [violation ''must_modality_changed'' (''$.requirements['' @ text_preview r @ ''].modality'')
            (Some ''MUST'') (Some m)] else []))"

definition lineage_violations :: "requirements_ledger \<Rightarrow> requirements_ledger \<Rightarrow> artifact_violation list" where
  "lineage_violations prior current =
     (if fst (rl_source prior) \<noteq> fst (rl_source current)
      then [violation ''source_path_mismatch'' ''$.source.path'' (Some (text_preview (fst (rl_source prior))))
        (Some (text_preview (fst (rl_source current))))] else []) @
     (if snd (rl_source prior) \<noteq> snd (rl_source current)
      then [violation ''source_digest_mismatch'' ''$.source.digest'' (Some (text_preview (snd (rl_source prior))))
        (Some (text_preview (snd (rl_source current))))] else []) @
     concat (map (row_lineage (rl_rows current)) (sort_key fst (rl_rows prior)))"

text \<open>\<open>prior\<close> is the non-stale, unerased output bound to the decision phase, if there is one.\<close>

definition validate_reconciliation_ledger_lineage ::
    "(str \<Rightarrow> json option) \<Rightarrow> phase_output_draft option \<Rightarrow> phase_output_draft \<Rightarrow> unit result" where
  "validate_reconciliation_ledger_lineage from_str prior out =
     andThen (ok_or prior Forbidden) (\<lambda>p.
     andThen (ok_or (ledger_body p) (ledger_error RECONCILIATION_PHASE ''requirement_ledger_lineage_unavailable''
       [violation ''prior_requirement_ledger_missing''
          ''phase:slice-component-decision-interrogator/requirements-ledger.json''
          (Some ''non-stale phase 5 requirements ledger'') None])) (\<lambda>prior_body.
     andThen (ok_or (ledger_body out) (missing_ledger RECONCILIATION_PHASE)) (\<lambda>current_body.
     andThen (map_err wrap_prior_ledger_error (parse_requirements_ledger from_str prior_body DECISION_PHASE)) (\<lambda>before.
     andThen (parse_requirements_ledger from_str current_body RECONCILIATION_PHASE) (\<lambda>now.
     (let budget = fold push_violation (lineage_violations before now) no_violations in
      if violations_empty budget then Inr ()
      else Inl (ledger_error_with_budget RECONCILIATION_PHASE ''requirement_ledger_lineage_invalid'' budget
        (ledger_recovery RECONCILIATION_PHASE))))))))"

section \<open>Facts\<close>

lemma push_all_empty:
  "violations_empty (fold push_violation vs b) \<longleftrightarrow> vs = [] \<and> violations_empty b"
proof -
  have grown: "\<not> violations_empty b \<Longrightarrow> \<not> violations_empty (push_violation v b)" for v b
    by (auto simp: push_violation_def violations_empty_def saturating_add_def usize_max_def MAX_DIAGNOSTIC_VIOLATIONS_def)
  have pushed: "\<not> violations_empty (push_violation v b)" for v b
    by (auto simp: push_violation_def violations_empty_def saturating_add_def usize_max_def MAX_DIAGNOSTIC_VIOLATIONS_def)
  have kept: "\<not> violations_empty b \<Longrightarrow> \<not> violations_empty (fold push_violation vs b)" for vs b
    by (induction vs arbitrary: b) (auto dest: grown)
  show ?thesis by (cases vs) (use pushed kept in auto)
qed

lemma push_all_none [simp]: "violations_empty (fold push_violation vs no_violations) \<longleftrightarrow> vs = []"
  by (simp add: push_all_empty) (simp add: violations_empty_def no_violations_def)

lemma inventory_scan_clean:
  "inventory_scan i seen vs = (seen', []) \<Longrightarrow>
     \<exists>ns. seen' = seen @ ns \<and> vs = map JString ns \<and> (distinct seen \<longrightarrow> distinct seen') \<and> list_all trimmed_text ns"
proof (induction vs arbitrary: i seen)
  case Nil
  then show ?case by simp
next
  case (Cons v vs)
  then obtain r where r: "v = JString r" "trimmed_text r" "r \<notin> set seen"
    and "inventory_scan (Suc i) (seen @ [r]) vs = (seen', [])"
    by (cases v) (auto simp: requirement_id_def Let_def split: if_splits prod.splits)
  with Cons.IH [of "Suc i" "seen @ [r]"] obtain ns where "seen' = seen @ [r] @ ns" "vs = map JString ns"
    "distinct (seen @ [r]) \<longrightarrow> distinct seen'" "list_all trimmed_text ns" by auto
  with r show ?case by (intro exI [of _ "r # ns"]) auto
qed

text \<open>The row of a requirement that the scan takes over.\<close>

definition row_of :: "json \<Rightarrow> str \<times> str \<Rightarrow> bool" where
  "row_of v = (\<lambda>(r, m). json_get ''id'' v = Some (JString r) \<and> trimmed_text r \<and>
     json_get ''modality'' v = Some (JString m) \<and> m \<in> set MODALITIES)"

lemma row_scan_clean:
  "row_scan i rows vs = (rows', []) \<Longrightarrow>
     \<exists>ns. rows' = rows @ ns \<and> list_all2 row_of vs ns \<and> (distinct (map fst rows) \<longrightarrow> distinct (map fst rows'))"
proof (induction vs arbitrary: i rows)
  case Nil
  then show ?case by simp
next
  case (Cons v vs)
  then obtain r m where r: "json_get ''id'' v = Some (JString r)" "trimmed_text r"
      "json_get_str ''modality'' v = Some m" "m \<in> set MODALITIES" "r \<notin> fst ` set rows"
      "row_scan (Suc i) (AList.update r m rows) vs = (rows', [])"
    by (auto simp: Let_def requirement_id_def bind_eq_Some_conv split: if_splits prod.splits option.splits
        elim!: json_str.elims)
  moreover have "AList.update r m rows = rows @ [(r, m)]"
    using r(5) by (induction rows) auto
  ultimately obtain ns where ns: "rows' = rows @ [(r, m)] @ ns" "list_all2 row_of vs ns"
      "distinct (map fst (rows @ [(r, m)])) \<longrightarrow> distinct (map fst rows')"
    using Cons.IH [of "Suc i" "rows @ [(r, m)]"] by auto
  have "json_get ''modality'' v = Some (JString m)"
    using r(3) by (auto simp: json_get_str_def bind_eq_Some_conv elim!: json_str.elims)
  with r have "row_of v (r, m)" by (simp add: row_of_def)
  with r(5) ns show ?case by (intro exI [of _ "(r, m) # ns"]) auto
qed

lemma inventory_mismatches_none:
  "inventory_mismatches inventory rows = [] \<longleftrightarrow> set inventory = fst ` set rows"
  by (auto simp: inventory_mismatches_def filter_empty_conv)

lemma parse_requirements_ledger_Inr:
  assumes "parse_requirements_ledger from_str body phase = Inr l"
  obtains v ids reqs where "from_str body = Some v" and "json_get ''sourceRequirementIds'' v = Some (JArray (map JString ids))"
    and "json_get ''requirements'' v = Some (JArray reqs)" and "list_all2 row_of reqs (rl_rows l)"
    and "distinct ids" and "distinct (map fst (rl_rows l))" and "set ids = fst ` set (rl_rows l)"
    and "source_value v ''path'' = Some (fst (rl_source l))" and "source_value v ''digest'' = Some (snd (rl_source l))"
proof -
  from assms obtain v inventory rows where v: "from_str body = Some v"
    and parts: "source_inventory v = (inventory, [])" "requirement_rows v = (rows, [])"
      "source_violation v ''path'' = []" "source_violation v ''digest'' = []" "inventory_mismatches inventory rows = []"
    and l: "l = \<lparr>rl_source = (the (source_value v ''path''), the (source_value v ''digest'')), rl_rows = rows\<rparr>"
    by (auto simp: parse_requirements_ledger_def Let_def split: option.splits prod.splits if_splits)
  from parts(1) obtain vs where "json_get ''sourceRequirementIds'' v = Some (JArray vs)"
    "inventory_scan 0 [] vs = (inventory, [])"
    by (auto simp: source_inventory_def bind_eq_Some_conv split: option.splits elim!: json_array.elims)
  with inventory_scan_clean [of 0 "[]" vs inventory]
  have ids: "json_get ''sourceRequirementIds'' v = Some (JArray (map JString inventory))" "distinct inventory"
    by auto
  from parts(2) obtain reqs where reqs: "json_get ''requirements'' v = Some (JArray reqs)"
    "row_scan 0 [] reqs = (rows, [])"
    by (auto simp: requirement_rows_def bind_eq_Some_conv split: option.splits elim!: json_array.elims)
  from row_scan_clean [OF reqs(2)] have "list_all2 row_of reqs rows" "distinct (map fst rows)" by auto
  moreover have "source_value v ''path'' = Some (fst (rl_source l))" "source_value v ''digest'' = Some (snd (rl_source l))"
    using parts(3,4) l by (auto simp: source_violation_def split: if_splits)
  moreover have "rl_rows l = rows" using l by simp
  moreover have "set inventory = fst ` set rows" using parts(5) by (simp only: inventory_mismatches_none)
  ultimately show thesis using that v ids reqs(1) by blast
qed

lemma row_lineage_none:
  assumes "distinct (map fst now)"
  shows "row_lineage now (r, m) = [] \<longleftrightarrow> (if m = ''MUST'' then (r, ''MUST'') \<in> set now else r \<in> fst ` set now)"
proof (cases "map_of now r")
  case None
  then have "r \<notin> fst ` set now" by (simp add: map_of_eq_None_iff)
  moreover from this have "(r, ''MUST'') \<notin> set now" by force
  ultimately show ?thesis using None by (simp add: row_lineage_def)
next
  case (Some m')
  then have "r \<in> fst ` set now" by (force dest: map_of_SomeD)
  moreover have "(r, ''MUST'') \<in> set now \<longleftrightarrow> m' = ''MUST''"
    using Some map_of_eq_Some_iff [OF assms, of r "''MUST''"] by auto
  ultimately show ?thesis using Some by (simp add: row_lineage_def)
qed

lemma lineage_violations_none:
  assumes "distinct (map fst (rl_rows now))"
  shows "lineage_violations before now = [] \<longleftrightarrow>
    rl_source before = rl_source now \<and> fst ` set (rl_rows before) \<subseteq> fst ` set (rl_rows now) \<and>
    {r. (r, ''MUST'') \<in> set (rl_rows before)} \<subseteq> {r. (r, ''MUST'') \<in> set (rl_rows now)}"
proof -
  have "concat (map (row_lineage (rl_rows now)) (sort_key fst (rl_rows before))) = [] \<longleftrightarrow>
      (\<forall>x\<in>set (rl_rows before). row_lineage (rl_rows now) x = [])"
    by (simp only: concat_eq_Nil_conv set_map ball_simps set_sort)
  also have "\<dots> \<longleftrightarrow>
      (\<forall>(r, m)\<in>set (rl_rows before). if m = ''MUST'' then (r, ''MUST'') \<in> set (rl_rows now) else r \<in> fst ` set (rl_rows now))"
    by (rule ball_cong) (simp_all add: row_lineage_none [OF assms] split: prod.splits)
  also have "\<dots> \<longleftrightarrow> fst ` set (rl_rows before) \<subseteq> fst ` set (rl_rows now) \<and>
      {r. (r, ''MUST'') \<in> set (rl_rows before)} \<subseteq> {r. (r, ''MUST'') \<in> set (rl_rows now)}"
    by (force split: if_splits)
  finally show ?thesis by (auto simp: lineage_violations_def prod_eq_iff)
qed

text \<open>
  C30: completing the reconciliation phase forward is accepted exactly when the decision phase's output is
  still bound and both ledgers are well formed, name the same source, and the new one keeps every
  requirement of the old one and every MUST as a MUST.
\<close>

theorem reconciliation_keeps_requirements:
  "validate_reconciliation_ledger_lineage from_str prior out = Inr () \<longleftrightarrow>
     (\<exists>p prior_body body before now. prior = Some p \<and> ledger_body p = Some prior_body \<and> ledger_body out = Some body \<and>
        parse_requirements_ledger from_str prior_body DECISION_PHASE = Inr before \<and>
        parse_requirements_ledger from_str body RECONCILIATION_PHASE = Inr now \<and>
        rl_source before = rl_source now \<and> fst ` set (rl_rows before) \<subseteq> fst ` set (rl_rows now) \<and>
        {r. (r, ''MUST'') \<in> set (rl_rows before)} \<subseteq> {r. (r, ''MUST'') \<in> set (rl_rows now)})"
proof -
  have rows: "distinct (map fst (rl_rows now))" if "parse_requirements_ledger from_str body phase = Inr now" for body phase now
    using that by (rule parse_requirements_ledger_Inr)
  show ?thesis
    by (simp add: validate_reconciliation_ledger_lineage_def check_simps Let_def rows lineage_violations_none cong: conj_cong)
      blast
qed

text \<open>
  C31: a ledger is accepted only when its inventory and its rows name the same requirements, once each, and
  every row, in the order of the document, has a modality of MUST, SHOULD or MAY.
\<close>

theorem parsed_ledger_complete:
  assumes "parse_requirements_ledger from_str body phase = Inr l"
  shows "\<exists>v ids reqs. from_str body = Some v \<and> json_get ''sourceRequirementIds'' v = Some (JArray (map JString ids)) \<and>
     json_get ''requirements'' v = Some (JArray reqs) \<and> list_all2 row_of reqs (rl_rows l) \<and>
     distinct ids \<and> distinct (map fst (rl_rows l)) \<and> set ids = fst ` set (rl_rows l)"
  using assms by (rule parse_requirements_ledger_Inr) blast

definition example_ledger :: json where
  "example_ledger = JObject
     [(''source'', JObject [(''path'', JString ''a.md''), (''digest'', JString ''d'')]),
      (''sourceRequirementIds'', JArray [JString ''R1'', JString ''R2'']),
      (''requirements'', JArray
        [JObject [(''id'', JString ''R2''), (''modality'', JString ''MUST'')],
         JObject [(''id'', JString ''R1''), (''modality'', JString ''MAY'')]])]"

theorem parsed_ledger_complete_witness:
  "\<exists>l. parse_requirements_ledger (\<lambda>_. Some example_ledger) [] DECISION_PHASE = Inr l \<and>
     rl_rows l = [(''R2'', ''MUST''), (''R1'', ''MAY'')] \<and> distinct (map fst (rl_rows l))"
proof -
  have "parse_requirements_ledger (\<lambda>_. Some example_ledger) [] DECISION_PHASE =
      Inr \<lparr>rl_source = (''a.md'', ''d''), rl_rows = [(''R2'', ''MUST''), (''R1'', ''MAY'')]\<rparr>"
    by code_simp
  with parsed_ledger_complete [OF this] show ?thesis by auto
qed

end
