(* ===== verification/PipelineInputs.thy ===== *)
theory PipelineInputs
  imports RequirementsLedger
begin

text \<open>
  Inputs to a run and amendments of its source: the commands of \<^verbatim>\<open>api/commands.rs\<close>, their validation in
  \<^verbatim>\<open>pipeline_execution_validation/input_amendment.rs\<close>, the digest proof of
  \<^verbatim>\<open>crates/application/src/pipeline_execution.rs\<close> and the checks of \<^verbatim>\<open>apply_source_amendment\<close> and
  \<^verbatim>\<open>validate_source_amendment_ledger\<close> of \<^verbatim>\<open>crates/postgres/src/pipeline_execution/input.rs\<close>.
\<close>

section \<open>Commands\<close>

record source_predecessor =
  sd_output_id :: uuid
  sd_output_revision :: int
  sd_output_digest :: str
  sd_artifact_name :: str
  sd_artifact_digest :: str
  sd_source_path :: str
  sd_source_digest :: str

record source_artifact_draft =
  sr_name :: str
  sr_media_type :: str
  sr_body :: str
  sr_digest :: str
  sr_reference :: "str option"

record source_successor =
  ss_path :: str
  ss_artifact :: source_artifact_draft

record source_amendment =
  sm_target_phase_id :: str
  sm_predecessor :: source_predecessor
  sm_successor :: source_successor
  sm_authorization_scope :: str
  sm_authorization_provenance :: str

record record_input =
  ri_request_id :: uuid
  ri_run_id :: uuid
  ri_run_revision :: int
  ri_phase_id :: str
  ri_input :: str
  ri_source_amendment :: "source_amendment option"

section \<open>Validation\<close>

definition MAX_PIPELINE_INPUT_BYTES :: nat where "MAX_PIPELINE_INPUT_BYTES = 64 * 1024"

definition valid_relative_source_path :: "str \<Rightarrow> bool" where
  "valid_relative_source_path s \<longleftrightarrow> s \<noteq> [] \<and> trim s = s \<and> length s \<le> MAX_SOURCE_PATH_BYTES \<and>
     \<not> prefix ''/'' s \<and> CHR 0x5C \<notin> set s \<and> CHR 0x00 \<notin> set s \<and>
     list_all (\<lambda>part. part \<notin> {'''', ''.'', ''..''}) (split_on CHR ''/'' s)"

definition media_byte :: "char \<Rightarrow> bool" where
  "media_byte c \<longleftrightarrow> is_ascii_alphanumeric c \<or> c \<in> set ''!#$&^_.+-/''"

definition valid_media_type :: "str \<Rightarrow> bool" where
  "valid_media_type s \<longleftrightarrow> trim s = s \<and> length s \<le> 255 \<and>
     (case split_once CHR ''/'' s of
        None \<Rightarrow> False
      | Some (kind, subtype) \<Rightarrow> kind \<noteq> [] \<and> subtype \<noteq> [] \<and> list_all media_byte s)"

definition bytes_text :: "str \<Rightarrow> str" where
  "bytes_text s = ''bytes='' @ show_nat (length s)"

definition amendment_refusal :: "str \<Rightarrow> str \<Rightarrow> str \<Rightarrow> str \<Rightarrow> error" where
  "amendment_refusal rule name expected actual =
     schema_refusal (''WP6-SOURCE-AMENDMENT-'' @ rule) (''arguments.params.source_amendment.'' @ name) expected actual"

definition predecessor_check :: "source_predecessor \<Rightarrow> unit result" where
  "predecessor_check p =
     (let refusal = (\<lambda>rule name expected actual.
        amendment_refusal (''PREDECESSOR-'' @ rule) (''predecessor.'' @ name) expected actual) in checks
     [refuse_if (is_nil (sd_output_id p)) (refusal ''OUTPUT-ID'' ''output_id'' ''non-nil output UUID'' ''nil UUID''),
      refuse_if (sd_output_revision p < 1)
        (refusal ''REVISION'' ''output_revision'' ''positive output revision'' ''nonpositive''),
      refuse_if (blank (sd_output_digest p))
        (refusal ''OUTPUT-DIGEST-BLANK'' ''output_digest'' ''nonblank predecessor output_digest'' ''blank''),
      refuse_if (128 < length (sd_output_digest p))
        (refusal ''OUTPUT-DIGEST-LIMIT'' ''output_digest'' ''at most 128 UTF-8 bytes'' (bytes_text (sd_output_digest p))),
      refuse_if (blank (sd_artifact_name p))
        (refusal ''ARTIFACT-NAME-BLANK'' ''artifact_name'' ''nonblank predecessor artifact_name'' ''blank''),
      refuse_if (MAX_SOURCE_PATH_BYTES < length (sd_artifact_name p))
        (refusal ''ARTIFACT-NAME-LIMIT'' ''artifact_name'' ''at most 4096 UTF-8 bytes'' (bytes_text (sd_artifact_name p))),
      refuse_if (blank (sd_artifact_digest p))
        (refusal ''ARTIFACT-DIGEST-BLANK'' ''artifact_digest'' ''nonblank predecessor artifact_digest'' ''blank''),
      refuse_if (128 < length (sd_artifact_digest p))
        (refusal ''ARTIFACT-DIGEST-LIMIT'' ''artifact_digest'' ''at most 128 UTF-8 bytes''
           (bytes_text (sd_artifact_digest p))),
      refuse_if (\<not> valid_relative_source_path (sd_source_path p))
        (refusal ''PATH'' ''source_path'' ''safe bounded repository-relative path'' ''invalid path''),
      refuse_if (blank (sd_source_digest p))
        (refusal ''SOURCE-DIGEST-BLANK'' ''source_digest'' ''nonblank predecessor source_digest'' ''blank''),
      refuse_if (128 < length (sd_source_digest p))
        (refusal ''SOURCE-DIGEST-LIMIT'' ''source_digest'' ''at most 128 UTF-8 bytes'' (bytes_text (sd_source_digest p)))])"

definition successor_check :: "source_successor \<Rightarrow> unit result" where
  "successor_check s =
     (let a = ss_artifact s in checks
     [refuse_if (\<not> valid_relative_source_path (ss_path s)) (amendment_refusal ''SUCCESSOR-PATH'' ''successor.path''
        ''safe bounded repository-relative path'' ''invalid path''),
      refuse_if (\<not> valid_relative_source_path (sr_name a)) (amendment_refusal ''ARTIFACT-PATH''
        ''successor.artifact.name'' ''safe bounded repository-relative artifact name'' ''invalid path''),
      refuse_if (ss_path s \<noteq> sr_name a) (amendment_refusal ''PATH-NAME-MATCH'' ''successor.artifact.name''
        ''name matching successor path'' ''mismatched''),
      refuse_if (\<not> valid_media_type (sr_media_type a)) (amendment_refusal ''MEDIA'' ''successor.artifact.media_type''
        ''valid bounded media type'' ''invalid media type''),
      refuse_if (blank (sr_body a)) (amendment_refusal ''BODY-BLANK'' ''successor.artifact.body''
        ''nonblank artifact body'' ''blank''),
      refuse_if (MAX_PIPELINE_OUTPUT_BYTES < length (sr_body a)) (amendment_refusal ''BODY-SIZE''
        ''successor.artifact.body'' ''at most 2097152 UTF-8 bytes'' (bytes_text (sr_body a))),
      refuse_if (length (sr_digest a) \<noteq> 64) (amendment_refusal ''DIGEST-SIZE'' ''successor.artifact.digest''
        ''64 bytes'' (bytes_text (sr_digest a))),
      refuse_if (\<not> list_all is_lower_hexdigit (sr_digest a)) (amendment_refusal ''DIGEST-HEX''
        ''successor.artifact.digest'' ''lowercase hexadecimal SHA256'' ''invalid characters''),
      each_opt (\<lambda>reference. checks
        [refuse_if (blank reference) (amendment_refusal ''REFERENCE-BLANK'' ''successor.artifact.reference''
           ''nonblank reference when present'' ''blank''),
         refuse_if (MAX_SOURCE_PATH_BYTES < length reference) (amendment_refusal ''REFERENCE-SIZE''
           ''successor.artifact.reference'' (''at most '' @ show_nat MAX_SOURCE_PATH_BYTES @ '' UTF-8 bytes'')
           (bytes_text reference))]) (sr_reference a)])"

definition validate_source_amendment :: "source_amendment \<Rightarrow> unit result" where
  "validate_source_amendment m = checks
     [refuse_if (blank (sm_target_phase_id m))
        (amendment_refusal ''TARGET-PHASE'' ''target_phase_id'' ''nonblank target phase'' ''blank''),
      predecessor_check (sm_predecessor m),
      successor_check (sm_successor m),
      refuse_if (blank (sm_authorization_scope m)) (amendment_refusal ''AUTHORIZATION-SCOPE-BLANK''
        ''authorization_scope'' ''nonblank authorization_scope'' ''blank''),
      refuse_if (MAX_PIPELINE_INPUT_BYTES < length (sm_authorization_scope m))
        (amendment_refusal ''AUTHORIZATION-SCOPE-SIZE'' ''authorization_scope'' ''at most 65536 UTF-8 bytes''
          (bytes_text (sm_authorization_scope m))),
      refuse_if (blank (sm_authorization_provenance m)) (amendment_refusal ''AUTHORIZATION-PROVENANCE-BLANK''
        ''authorization_provenance'' ''nonblank authorization_provenance'' ''blank''),
      refuse_if (MAX_PIPELINE_INPUT_BYTES < length (sm_authorization_provenance m))
        (amendment_refusal ''AUTHORIZATION-PROVENANCE-SIZE'' ''authorization_provenance''
          ''at most 65536 UTF-8 bytes'' (bytes_text (sm_authorization_provenance m)))]"

definition record_input_validate :: "record_input \<Rightarrow> unit result" where
  "record_input_validate r = checks
     [refuse_if (is_nil (ri_request_id r))
        (schema_refusal ''WP6-INPUT-REQUEST-ID'' ''arguments.params.request_id'' ''non-nil request UUID'' ''nil UUID''),
      refuse_if (is_nil (ri_run_id r))
        (schema_refusal ''WP6-INPUT-RUN-ID'' ''arguments.params.run_id'' ''non-nil run UUID'' ''nil UUID''),
      refuse_if (ri_run_revision r < 1)
        (schema_refusal ''WP6-INPUT-REVISION'' ''arguments.params.run_revision'' ''positive run revision'' ''nonpositive''),
      refuse_if (blank (ri_phase_id r))
        (schema_refusal ''WP6-INPUT-PHASE-ID'' ''arguments.params.phase_id'' ''nonblank phase ID'' ''blank''),
      refuse_if (blank (ri_input r))
        (schema_refusal ''WP6-INPUT-BODY'' ''arguments.params.input'' ''nonblank input'' ''blank''),
      refuse_if (MAX_PIPELINE_INPUT_BYTES < length (ri_input r))
        (schema_refusal ''WP6-INPUT-SIZE'' ''arguments.params.input'' ''at most 65536 UTF-8 bytes'' (bytes_text (ri_input r))),
      each_opt validate_source_amendment (ri_source_amendment r)]"

section \<open>The digest of the successor source\<close>

record verified_digest =
  vd_request_id :: uuid
  vd_digest :: str

definition verified_digest_new :: "uuid \<Rightarrow> str \<Rightarrow> str \<Rightarrow> verified_digest result" where
  "verified_digest_new request declared actual =
     (if declared \<noteq> actual then Inl InvalidArguments else Inr \<lparr>vd_request_id = request, vd_digest = actual\<rparr>)"

text \<open>The part of \<^verbatim>\<open>pipeline_input_record\<close> before the transaction.\<close>

definition verify_source :: "(str \<Rightarrow> 8 word list) \<Rightarrow> record_input \<Rightarrow> verified_digest option result" where
  "verify_source sha256 r =
     andThen (record_input_validate r) (\<lambda>_.
     (case ri_source_amendment r of
        None \<Rightarrow> Inr None
      | Some m \<Rightarrow> andThen (verified_digest_new (ri_request_id r) (sr_digest (ss_artifact (sm_successor m)))
            (concat (map hex_byte (sha256 (sr_body (ss_artifact (sm_successor m))))))) (\<lambda>v. Inr (Some v))))"

definition digest_proof_check :: "record_input \<Rightarrow> verified_digest option \<Rightarrow> unit result" where
  "digest_proof_check r evidence =
     (case (ri_source_amendment r, evidence) of
        (Some m, Some v) \<Rightarrow> refuse_if (vd_request_id v \<noteq> ri_request_id r \<or>
          vd_digest v \<noteq> sr_digest (ss_artifact (sm_successor m))) InvalidArguments
      | (None, None) \<Rightarrow> Inr ()
      | _ \<Rightarrow> Inl InvalidArguments)"

section \<open>Amending the source of a run\<close>

definition amendment_error :: "str \<Rightarrow> artifact_violation list \<Rightarrow> error" where
  "amendment_error code vs = InvalidPipelineArtifact (bounded code DECISION_PHASE ''source_amendment'' vs True
     ''Reload the current run and phase-5 output, then submit a new request_id with exact current predecessor lineage, a changed hash-valid successor source, and the direct authority text and provenance.'')"

definition when_violated :: "bool \<Rightarrow> artifact_violation \<Rightarrow> artifact_violation list" where
  "when_violated bad v = (if bad then [v] else [])"

definition amendment_violations ::
    "record_input \<Rightarrow> source_amendment \<Rightarrow> verified_digest \<Rightarrow> nat option \<Rightarrow> pipeline_definition \<Rightarrow> artifact_violation list" where
  "amendment_violations r m evidence current d =
     (let kind = FullDesignToExecution; p = sm_predecessor m; s = sm_successor m; a = ss_artifact s in concat
     [when_violated (pd_kind d \<noteq> kind) (violation ''pipeline_out_of_scope'' ''$.source_amendment''
        (Some (kind_as_str kind)) (Some (kind_as_str (pd_kind d)))),
      when_violated (sm_target_phase_id m \<noteq> DECISION_PHASE) (violation ''target_phase_invalid''
        ''$.source_amendment.target_phase_id'' (Some DECISION_PHASE) (Some (sm_target_phase_id m))),
      when_violated (sd_artifact_name p \<noteq> LEDGER_NAME) (violation ''predecessor_artifact_invalid''
        ''$.source_amendment.predecessor.artifact_name'' (Some LEDGER_NAME) (Some (sd_artifact_name p))),
      when_violated ((case current of None \<Rightarrow> True | Some n \<Rightarrow> n < 5) \<or>
          \<not> list_ex (\<lambda>ph. ph_id ph = DECISION_PHASE \<and> ph_ordinal ph = 5) (pd_phases d))
        (violation ''current_phase_out_of_scope'' ''$.phase_id''
          (Some ''current Full Design phase at ordinal 5 or later'') (Some (ri_phase_id r))),
      when_violated (blank (sm_authorization_scope m) \<or> blank (sm_authorization_provenance m))
        (violation ''authority_required'' ''$.source_amendment.authorization_scope''
          (Some ''direct source-amendment authority scope and provenance'') None),
      when_violated (blank (ri_input r)) (violation ''authority_text_required'' ''$.input''
        (Some ''exact direct operator instruction'') None),
      when_violated (ss_path s \<noteq> sr_name a) (violation ''successor_identity_mismatch''
        ''$.source_amendment.successor.artifact.name'' (Some (ss_path s)) (Some (sr_name a))),
      when_violated (vd_digest evidence \<noteq> sr_digest a) (violation ''successor_digest_mismatch''
        ''$.source_amendment.successor.artifact.digest'' (Some (vd_digest evidence)) (Some (sr_digest a))),
      when_violated (sr_digest a = sd_source_digest p) (violation ''source_unchanged''
        ''$.source_amendment.successor.artifact.digest'' (Some ''digest different from predecessor source'')
        (Some (sr_digest a)))])"

text \<open>The row joined from the binding and the output of the decision phase.\<close>

record bound_source =
  bo_id :: uuid
  bo_revision :: int
  bo_digest :: str
  bo_artifacts :: "phase_artifact list"
  bo_stale :: bool

definition predecessor_matches :: "(str \<Rightarrow> json option) \<Rightarrow> source_predecessor \<Rightarrow> bound_source \<Rightarrow> bool" where
  "predecessor_matches from_str p b \<longleftrightarrow>
     (let ledger = List.find (\<lambda>a. pa_name a = LEDGER_NAME) (bo_artifacts b) in
     \<not> bo_stale b \<and> bo_id b = sd_output_id p \<and> bo_revision b = sd_output_revision p \<and>
     bo_digest b = sd_output_digest p \<and> map_option pa_digest ledger = Some (sd_artifact_digest p) \<and>
     Option.bind ledger (\<lambda>a. source_from_ledger from_str (pa_body a)) = Some (sd_source_path p, sd_source_digest p))"

definition apply_source_amendment_checks ::
    "(str \<Rightarrow> json option) \<Rightarrow> (uuid \<Rightarrow> str) \<Rightarrow> record_input \<Rightarrow> source_amendment \<Rightarrow> verified_digest \<Rightarrow>
     nat option \<Rightarrow> pipeline_definition \<Rightarrow> bound_source option result \<Rightarrow> unit result" where
  "apply_source_amendment_checks from_str show_uuid r m evidence current d bound = checks
     [(case amendment_violations r m evidence current d of
         [] \<Rightarrow> Inr () | vs \<Rightarrow> Inl (amendment_error ''source_amendment_invalid'' vs)),
      andThen bound (\<lambda>bound. case bound of
         None \<Rightarrow> Inl (amendment_error ''source_amendment_predecessor_missing''
           [violation ''predecessor_binding_missing'' ''$.source_amendment.predecessor''
              (Some ''current non-stale phase-5 binding'') None])
       | Some b \<Rightarrow> refuse_if (\<not> predecessor_matches from_str (sm_predecessor m) b)
           (amendment_error ''source_amendment_predecessor_stale''
             [violation ''predecessor_not_current'' ''$.source_amendment.predecessor''
                (Some ''exact current non-stale phase-5 output, binding, artifact and source lineage'')
                (Some (''output_id='' @ show_uuid (bo_id b) @ '',revision='' @ show_int (bo_revision b) @ '',stale='' @
                   show_bool (bo_stale b)))]))]"

text \<open>After an amendment the ledger of the decision phase must name the successor.\<close>

definition validate_source_amendment_ledger ::
    "(str \<Rightarrow> json option) \<Rightarrow> source_amendment option \<Rightarrow> phase_output_draft \<Rightarrow> unit result" where
  "validate_source_amendment_ledger from_str last_amendment out =
     (case last_amendment of
        None \<Rightarrow> Inr ()
      | Some m \<Rightarrow>
          andThen (ok_or (Option.bind (ledger_body out) (source_from_ledger from_str))
            (amendment_error ''source_amendment_ledger_invalid'' [violation ''source_lineage_missing''
               ''$.output.artifacts[requirements-ledger.json].body.source'' (Some ''successor path and digest'') None]))
          (\<lambda>(path, digest).
            (let s = sm_successor m;
                 vs = when_violated (path \<noteq> ss_path s) (violation ''source_path_mismatch'' ''$.source.path''
                        (Some (ss_path s)) (Some path)) @
                      when_violated (digest \<noteq> sr_digest (ss_artifact s)) (violation ''source_digest_mismatch''
                        ''$.source.digest'' (Some (sr_digest (ss_artifact s))) (Some digest))
             in refuse_if (vs \<noteq> []) (amendment_error ''source_amendment_lineage_invalid'' vs))))"

section \<open>Facts\<close>

lemma verify_source_Some:
  assumes "verify_source sha256 r = Inr (Some v)"
  obtains m where "ri_source_amendment r = Some m" and "validate_source_amendment m = Inr ()"
    and "vd_digest v = sr_digest (ss_artifact (sm_successor m))"
    and "concat (map hex_byte (sha256 (sr_body (ss_artifact (sm_successor m))))) = sr_digest (ss_artifact (sm_successor m))"
proof -
  from assms obtain m where m: "ri_source_amendment r = Some m" and "record_input_validate r = Inr ()"
    and new: "verified_digest_new (ri_request_id r) (sr_digest (ss_artifact (sm_successor m)))
            (concat (map hex_byte (sha256 (sr_body (ss_artifact (sm_successor m)))))) = Inr v"
    by (cases "ri_source_amendment r") (simp_all add: verify_source_def andThen_Inr)
  then have "validate_source_amendment m = Inr ()"
    by (simp add: record_input_validate_def checks_Inr_Cons checks_Nil_Inr each_opt_Inr)
  moreover have "concat (map hex_byte (sha256 (sr_body (ss_artifact (sm_successor m))))) = sr_digest (ss_artifact (sm_successor m))"
    using new by (simp add: verified_digest_new_def split: if_splits)
  moreover have "vd_digest v = concat (map hex_byte (sha256 (sr_body (ss_artifact (sm_successor m)))))"
    using new by (auto simp only: verified_digest_new_def verified_digest.simps sum.simps split: if_splits)
  ultimately show thesis using m that by simp
qed

lemma when_violated_Nil [simp]: "when_violated bad v = [] \<longleftrightarrow> \<not> bad"
  by (simp add: when_violated_def)

lemma apply_source_amendment_Inr:
  assumes "apply_source_amendment_checks from_str show_uuid r m v current d bound = Inr ()"
  obtains b where "bound = Inr (Some b)" and "predecessor_matches from_str (sm_predecessor m) b"
    and "pd_kind d = FullDesignToExecution"
    and "sr_digest (ss_artifact (sm_successor m)) \<noteq> sd_source_digest (sm_predecessor m)"
proof -
  have "amendment_violations r m v current d = []"
    using assms by (auto simp: apply_source_amendment_checks_def checks_Inr_Cons split: list.splits)
  then have "pd_kind d = FullDesignToExecution" "sr_digest (ss_artifact (sm_successor m)) \<noteq> sd_source_digest (sm_predecessor m)"
    by (simp_all add: amendment_violations_def Let_def)
  with assms that show thesis
    by (auto simp: apply_source_amendment_checks_def checks_Inr_Cons checks_Nil_Inr refuse_if_Inr andThen_Inr
        split: option.splits)
qed

text \<open>
  An amendment that is accepted replaces the source that the current, non-stale decision output was
  made from by a different one: the new text hashes to the declared digest, the digest differs from the old
  one, and its path is relative and stays inside the repository.
\<close>

theorem amended_source_is_new_and_hashed:
  assumes "verify_source sha256 r = Inr (Some v)" and "ri_source_amendment r = Some m"
    and "apply_source_amendment_checks from_str show_uuid r m v current d bound = Inr ()"
  shows "concat (map hex_byte (sha256 (sr_body (ss_artifact (sm_successor m))))) = sr_digest (ss_artifact (sm_successor m)) \<and>
     sr_digest (ss_artifact (sm_successor m)) \<noteq> sd_source_digest (sm_predecessor m) \<and>
     \<not> prefix ''/'' (ss_path (sm_successor m)) \<and> ''..'' \<notin> set (split_on CHR ''/'' (ss_path (sm_successor m))) \<and>
     (\<exists>b. bound = Inr (Some b) \<and> \<not> bo_stale b \<and> bo_id b = sd_output_id (sm_predecessor m) \<and>
        bo_revision b = sd_output_revision (sm_predecessor m) \<and>
        Option.bind (List.find (\<lambda>a. pa_name a = LEDGER_NAME) (bo_artifacts b)) (\<lambda>a. source_from_ledger from_str (pa_body a)) =
          Some (sd_source_path (sm_predecessor m), sd_source_digest (sm_predecessor m)))"
proof -
  from verify_source_Some [OF assms(1)] assms(2) have
    hashed: "concat (map hex_byte (sha256 (sr_body (ss_artifact (sm_successor m))))) = sr_digest (ss_artifact (sm_successor m))"
    and "validate_source_amendment m = Inr ()" by auto
  then have "valid_relative_source_path (ss_path (sm_successor m))"
    by (simp add: validate_source_amendment_def successor_check_def Let_def checks_Inr_Cons refuse_if_Inr)
  then have "\<not> prefix ''/'' (ss_path (sm_successor m))" "''..'' \<notin> set (split_on CHR ''/'' (ss_path (sm_successor m)))"
    by (auto simp: valid_relative_source_path_def list_all_iff)
  with hashed apply_source_amendment_Inr [OF assms(3)] show ?thesis
    unfolding predecessor_matches_def Let_def by metis
qed

text \<open>An amendment of the source \<open>old.md\<close> by \<open>new.md\<close>, with a hash function that maps every text to zeros.\<close>

definition example_amendment :: source_amendment where
  "example_amendment = \<lparr>sm_target_phase_id = DECISION_PHASE,
     sm_predecessor = \<lparr>sd_output_id = 1, sd_output_revision = 1, sd_output_digest = ''x'', sd_artifact_name = LEDGER_NAME,
       sd_artifact_digest = ''y'', sd_source_path = ''old.md'', sd_source_digest = ''z''\<rparr>,
     sm_successor = \<lparr>ss_path = ''new.md'', ss_artifact = \<lparr>sr_name = ''new.md'', sr_media_type = ''text/markdown'',
       sr_body = ''b'', sr_digest = replicate 64 CHR ''0'', sr_reference = None\<rparr>\<rparr>,
     sm_authorization_scope = ''s'', sm_authorization_provenance = ''p''\<rparr>"

definition example_input :: record_input where
  "example_input = \<lparr>ri_request_id = 1, ri_run_id = 1, ri_run_revision = 1, ri_phase_id = ''p'', ri_input = ''i'',
     ri_source_amendment = Some example_amendment\<rparr>"

definition example_bound :: bound_source where
  "example_bound = \<lparr>bo_id = 1, bo_revision = 1, bo_digest = ''x'', bo_artifacts = [\<lparr>pa_name = LEDGER_NAME,
     pa_media_type = ''application/json'', pa_body = [], pa_digest = ''y'', pa_reference = None\<rparr>], bo_stale = False\<rparr>"

definition example_source :: "str \<Rightarrow> json option" where
  "example_source body = Some (JObject [(''source'', JObject [(''path'', JString ''old.md''), (''digest'', JString ''z'')])])"

definition example_design :: pipeline_definition where
  "example_design = example_definition\<lparr>pd_kind := FullDesignToExecution, pd_phases := [plain_phase DECISION_PHASE 5 [] [] []]\<rparr>"

lemma example_paths: "valid_relative_source_path ''new.md''" "valid_relative_source_path ''old.md''"
    "valid_media_type ''text/markdown''"
  by code_simp+

lemma example_verified:
  "verify_source (\<lambda>_. replicate 32 0) example_input = Inr (Some \<lparr>vd_request_id = 1, vd_digest = replicate 64 CHR ''0''\<rparr>)"
proof -
  have "hex_byte 0 = ''00''" by code_simp
  then have hex: "concat (map hex_byte (replicate 32 0)) = replicate 64 CHR ''0''"
    by (simp add: numeral_eq_Suc)
  have digits: "is_lower_hexdigit CHR ''0''" by code_simp
  have "validate_source_amendment example_amendment = Inr ()"
    using digits by (simp add: validate_source_amendment_def predecessor_check_def successor_check_def Let_def
        example_amendment_def example_paths check_simps DECISION_PHASE_def LEDGER_NAME_def MAX_SOURCE_PATH_BYTES_def
        MAX_PIPELINE_OUTPUT_BYTES_def MAX_PIPELINE_INPUT_BYTES_def is_ascii_graphic_def byte_def list_all_length)
  then have "record_input_validate example_input = Inr ()"
    by (simp add: record_input_validate_def example_input_def check_simps is_ascii_graphic_def byte_def
        MAX_PIPELINE_INPUT_BYTES_def)
  then show ?thesis
    unfolding verify_source_def
    using hex by (simp add: example_input_def example_amendment_def verified_digest_new_def)
qed

lemma example_applied:
  "apply_source_amendment_checks example_source (\<lambda>_. []) example_input example_amendment
     \<lparr>vd_request_id = 1, vd_digest = replicate 64 CHR ''0''\<rparr> (Some 5) example_design (Inr (Some example_bound)) = Inr ()"
proof -
  have "replicate 64 CHR ''0'' \<noteq> ''z''" by (simp add: numeral_eq_Suc)
  then have "amendment_violations example_input example_amendment
     \<lparr>vd_request_id = 1, vd_digest = replicate 64 CHR ''0''\<rparr> (Some 5) example_design = []"
    by (simp add: amendment_violations_def Let_def example_input_def example_amendment_def example_design_def
        plain_phase_def is_ascii_graphic_def byte_def)
  moreover have "predecessor_matches example_source (sm_predecessor example_amendment) example_bound"
    by (simp add: predecessor_matches_def example_amendment_def example_bound_def example_source_def
        source_from_ledger_def json_get_def json_get_str_def)
  ultimately show ?thesis by (simp add: apply_source_amendment_checks_def check_simps)
qed

theorem amended_source_is_new_and_hashed_witness:
  "sr_digest (ss_artifact (sm_successor example_amendment)) \<noteq> sd_source_digest (sm_predecessor example_amendment) \<and>
   ''..'' \<notin> set (split_on CHR ''/'' (ss_path (sm_successor example_amendment)))"
proof -
  have "ri_source_amendment example_input = Some example_amendment" by (simp add: example_input_def)
  from amended_source_is_new_and_hashed [OF example_verified this example_applied] show ?thesis by blast
qed

end
