(* ===== verification/PipelineRuns.thy ===== *)
theory PipelineRuns
  imports PipelineInputs PipelineReview Interfaces
begin

text \<open>
  A pipeline run as the adapters of \<^verbatim>\<open>crates/postgres/src/pipeline_execution\<close> store it, and the
  operations that move it: \<^verbatim>\<open>run.rs\<close> begins it, \<^verbatim>\<open>phase.rs\<close> with \<^verbatim>\<open>phase/helpers/transitions.rs\<close> and
  \<^verbatim>\<open>validation.rs\<close> completes phases, \<^verbatim>\<open>input.rs\<close> records inputs, amends the source and switches the
  delivery mode, \<^verbatim>\<open>migration.rs\<close> supersedes it, \<^verbatim>\<open>durable_knowledge/manifest.rs\<close> refreshes
  its knowledge, and \<^verbatim>\<open>knowledge_lifecycle/erase/redact.rs\<close> clears rows of it. The rows of a table are a list in insertion order;
  identifiers, digests and clock readings made on the way are arguments of an operation. Checks on other tables
  are values of \<open>outside_checks\<close>, looked at in the order of the code. What \<^verbatim>\<open>serde_json\<close>, \<^verbatim>\<open>sha2\<close> and
  \<^verbatim>\<open>uuid\<close> compute is a \<open>codec\<close>.
\<close>

record codec =
  cd_from_str :: "str \<Rightarrow> json option"
  cd_output_length :: "phase_output_draft \<Rightarrow> nat option"
  cd_definition_bytes :: "pipeline_definition \<Rightarrow> str option"
  cd_sha256 :: "str \<Rightarrow> 8 word list"
  cd_show_uuid :: "uuid \<Rightarrow> str"

section \<open>Rows\<close>

record attempt_row =
  at_id :: uuid
  at_phase_id :: str
  at_ordinal :: nat
  at_number :: int
  at_request_id :: uuid
  at_request :: "complete_phase option"
  at_actor :: uuid
  at_created :: int
  at_erased :: bool

record output_row =
  or_id :: uuid
  or_attempt :: uuid
  or_phase_id :: str
  or_ordinal :: nat
  or_revision :: int
  or_draft :: phase_output_draft
  or_digest :: "str option"
  or_erased :: bool

record binding =
  bd_ordinal :: nat
  bd_output :: uuid
  bd_revision :: int
  bd_stale :: bool

record input_row =
  ir_id :: uuid
  ir_sequence :: int
  ir_phase_id :: str
  ir_digest :: "str option"
  ir_request :: "record_input option"
  ir_created :: int
  ir_erased :: bool

text \<open>The origin and the outcome of a published result; its other columns copy the request.\<close>

record result_row =
  rr_id :: uuid
  rr_erased :: bool
  rr_origin :: str
  rr_completed :: bool
  rr_attempt :: uuid

record run_state =
  rs_definition :: pipeline_definition
  rs_revision :: int
  rs_status :: run_status
  rs_mode :: delivery_mode
  rs_phase :: "str option"
  rs_ordinal :: "nat option"
  rs_attempts :: "attempt_row list"
  rs_outputs :: "output_row list"
  rs_bindings :: "(str \<times> binding) list"
  rs_inputs :: "input_row list"
  rs_results :: "result_row list"
  rs_erased :: bool

definition begin_run_state :: "pipeline_definition \<Rightarrow> begin_run \<Rightarrow> run_state result" where
  "begin_run_state d b =
     (case pd_phases d of
        [] \<Rightarrow> Inl InternalInvariant
      | first # _ \<Rightarrow> Inr \<lparr>rs_definition = d, rs_revision = 1, rs_status = RunActive, rs_mode = chosen_mode b d,
          rs_phase = Some (ph_id first), rs_ordinal = Some (ph_ordinal first), rs_attempts = [], rs_outputs = [],
          rs_bindings = [], rs_inputs = [], rs_results = [], rs_erased = False\<rparr>)"

section \<open>Queries\<close>

text \<open>\<^verbatim>\<open>SELECT COALESCE(MAX(n),0)+1\<close>\<close>

definition next_number :: "int list \<Rightarrow> int" where
  "next_number ns = fold max ns 0 + 1"

definition phase_attempts :: "run_state \<Rightarrow> str \<Rightarrow> attempt_row list" where
  "phase_attempts s i = filter (\<lambda>a. at_phase_id a = i) (rs_attempts s)"

definition phase_outputs :: "run_state \<Rightarrow> str \<Rightarrow> output_row list" where
  "phase_outputs s i = filter (\<lambda>r. or_phase_id r = i) (rs_outputs s)"

definition output_of :: "run_state \<Rightarrow> binding \<Rightarrow> output_row option" where
  "output_of s b = List.find (\<lambda>r. or_id r = bd_output b) (rs_outputs s)"

text \<open>The bindings that a query with \<^verbatim>\<open>phase_ordinal < $4 AND stale = false ORDER BY phase_ordinal\<close> reads.\<close>

definition fresh_before :: "run_state \<Rightarrow> nat \<Rightarrow> (str \<times> binding) list" where
  "fresh_before s n =
     sort_key (\<lambda>(i, b). bd_ordinal b) (filter (\<lambda>(i, b). bd_ordinal b < n \<and> \<not> bd_stale b) (rs_bindings s))"

definition expected_outputs :: "run_state \<Rightarrow> nat \<Rightarrow> consumed_output list" where
  "expected_outputs s n = List.map_filter (\<lambda>(i, b). Option.bind (output_of s b) (\<lambda>r. map_option (\<lambda>digest.
     \<lparr>co_phase_id = i, co_output_revision = bd_revision b, co_digest = digest\<rparr>) (or_digest r))) (fresh_before s n)"

text \<open>The digest of an erased row is \<^verbatim>\<open>NULL\<close>, which the query cannot decode.\<close>

definition validate_consumed_outputs :: "run_state \<Rightarrow> nat \<Rightarrow> consumed_output list \<Rightarrow> unit result" where
  "validate_consumed_outputs s n supplied = checks
     [refuse_if (list_ex (\<lambda>(i, b). case output_of s b of None \<Rightarrow> False | Some r \<Rightarrow> or_digest r = None) (fresh_before s n))
        StorageUnavailable,
      refuse_if (expected_outputs s n \<noteq> supplied) StaleContext]"

definition phase_inputs :: "run_state \<Rightarrow> str \<Rightarrow> input_row list" where
  "phase_inputs s i = sort_key ir_sequence (filter (\<lambda>r. ir_phase_id r = i) (rs_inputs s))"

definition expected_inputs :: "run_state \<Rightarrow> str \<Rightarrow> consumed_input list" where
  "expected_inputs s i = List.map_filter (\<lambda>r. map_option (\<lambda>digest.
     \<lparr>ci_input_id = ir_id r, ci_sequence = ir_sequence r, ci_digest = digest\<rparr>) (ir_digest r)) (phase_inputs s i)"

definition validate_consumed_inputs :: "run_state \<Rightarrow> str \<Rightarrow> consumed_input list \<Rightarrow> unit result" where
  "validate_consumed_inputs s i supplied = checks
     [refuse_if (list_ex (\<lambda>r. ir_digest r = None) (phase_inputs s i)) StorageUnavailable,
      refuse_if (expected_inputs s i \<noteq> supplied) StaleContext]"

definition producers_before :: "run_state \<Rightarrow> nat \<Rightarrow> producer list" where
  "producers_before s n = map (\<lambda>(i, b).
     (case output_of s b of
        Some r \<Rightarrow> if or_erased r then (None, None)
          else (Some (po_producer_context_id (or_draft r)),
            map_option at_actor (List.find (\<lambda>a. at_id a = or_attempt r \<and> \<not> at_erased a) (rs_attempts s)))
      | None \<Rightarrow> (None, None))) (fresh_before s n)"

definition validate_reviewer_boundary ::
    "run_state \<Rightarrow> uuid \<Rightarrow> phase_definition \<Rightarrow> complete_phase \<Rightarrow> unit result" where
  "validate_reviewer_boundary s session ph req =
     (if reviewer_independence_path ph (cx_output req) = None then Inr ()
      else validate_reviewer_provenance session ph (cx_output req) (producers_before s (ph_ordinal ph)))"

section \<open>Review authorization\<close>

definition verdict_succeeds :: "phase_output_draft \<Rightarrow> str list \<Rightarrow> bool" where
  "verdict_succeeds out success = (case po_verdict out of None \<Rightarrow> False | Some v \<Rightarrow> v \<in> set success)"

fun required_reviews :: "phase_output_draft \<Rightarrow> output_constraint \<Rightarrow> str list" where
  "required_reviews out (EngineeringReview e) =
     (if verdict_succeeds out (er_success_verdicts e) then er_required_prior_review_phase_ids e else [])"
| "required_reviews out (CodeAuthorization i) = [i]"
| "required_reviews out c = []"

definition review_success_verdicts :: "phase_definition \<Rightarrow> str list option" where
  "review_success_verdicts ph =
     (case List.map_filter (\<lambda>c. case c of EngineeringReview e \<Rightarrow> Some (er_success_verdicts e) | _ \<Rightarrow> None)
        (ph_output_constraints ph) of
        [] \<Rightarrow> None | vs # _ \<Rightarrow> Some vs)"

text \<open>The output bound to a phase, when the binding is not stale and the payload is still there.\<close>

definition bound_draft :: "run_state \<Rightarrow> str \<Rightarrow> phase_output_draft option" where
  "bound_draft s i =
     (case map_of (rs_bindings s) i of
        None \<Rightarrow> None
      | Some b \<Rightarrow> if bd_stale b then None
          else (case output_of s b of None \<Rightarrow> None
                | Some r \<Rightarrow> if or_erased r then None else Some (or_draft r)))"

definition bound_verdict :: "run_state \<Rightarrow> str \<Rightarrow> str option" where
  "bound_verdict s i = Option.bind (bound_draft s i) po_verdict"

definition required_review_check :: "run_state \<Rightarrow> str \<Rightarrow> unit result" where
  "required_review_check s i =
     andThen (ok_or (List.find (\<lambda>c. ph_id c = i) (pd_phases (rs_definition s))) InternalInvariant) (\<lambda>prior.
     andThen (ok_or (review_success_verdicts prior) InternalInvariant) (\<lambda>accepted.
     refuse_if (case bound_verdict s i of None \<Rightarrow> True | Some v \<Rightarrow> v \<notin> set accepted) Forbidden))"

text \<open>
  The lineage of the findings of a specification review is read from output bodies and is the last
  check, given by its outcome.
\<close>

definition validate_review_authorization ::
    "run_state \<Rightarrow> phase_definition \<Rightarrow> phase_output_draft \<Rightarrow> unit result \<Rightarrow> unit result" where
  "validate_review_authorization s ph out lineage =
     checks [each (required_review_check s) (btree_list (concat (map (required_reviews out) (ph_output_constraints ph)))),
             lineage]"

section \<open>Retries\<close>

definition enforce_retry_policy :: "run_state \<Rightarrow> phase_definition \<Rightarrow> unit result" where
  "enforce_retry_policy s ph =
     (if phase_attempts s (ph_id ph) = [] then Inr ()
      else (case ph_retry_policy ph of
              Repeatable \<Rightarrow> Inr ()
            | ExactReplayOnly \<Rightarrow> Inl Forbidden
            | ReconciliationRequired \<Rightarrow>
                refuse_if (\<not> list_ex (\<lambda>r. ir_phase_id r = ph_id ph \<and>
                    list_all (\<lambda>a. at_created a < ir_created r) (phase_attempts s (ph_id ph))) (rs_inputs s))
                  InputPending))"

section \<open>Navigation\<close>

record planned_next =
  pn_status :: run_status
  pn_next :: "(str \<times> nat) option"
  pn_revisit :: "nat option"

definition resolve_revisit ::
    "complete_phase \<Rightarrow> pipeline_definition \<Rightarrow> phase_definition \<Rightarrow> phase_definition option result" where
  "resolve_revisit req d ph =
     (case cx_revisit_phase_id req of
        None \<Rightarrow> Inr None
      | Some i \<Rightarrow>
          if i \<notin> set (ph_allowed_backward_to ph) then Inl Forbidden
          else (case List.find (\<lambda>c. ph_id c = i) (pd_phases d) of
                  None \<Rightarrow> Inl InvalidArguments
                | Some t \<Rightarrow> if ph_ordinal ph \<le> ph_ordinal t then Inl Forbidden else Inr (Some t)))"

definition go_to :: "run_status \<Rightarrow> phase_definition \<Rightarrow> nat option \<Rightarrow> planned_next" where
  "go_to status t revisit = \<lparr>pn_status = status, pn_next = Some (ph_id t, ph_ordinal t), pn_revisit = revisit\<rparr>"

definition finish_as :: "run_status \<Rightarrow> planned_next" where
  "finish_as status = \<lparr>pn_status = status, pn_next = None, pn_revisit = None\<rparr>"

definition plan_next_state ::
    "complete_phase \<Rightarrow> pipeline_definition \<Rightarrow> phase_definition \<Rightarrow> planned_next result" where
  "plan_next_state req d ph =
     (if cx_outcome req = PhaseWaitingInput then
        (if cx_transition req \<noteq> Continue then Inl InvalidArguments
         else andThen (resolve_revisit req d ph) (\<lambda>target.
           case target of
             Some t \<Rightarrow> Inr (go_to RunActive t (Some (ph_ordinal t)))
           | None \<Rightarrow> Inr (go_to RunWaitingInput ph None)))
      else if cx_outcome req = PhaseBlocked \<and> cx_transition req = Continue then Inr (go_to RunBlocked ph None)
      else (case cx_transition req of
         Continue \<Rightarrow>
           if cx_outcome req \<noteq> PhaseCompleted then Inl InvalidArguments
           else andThen (resolve_revisit req d ph) (\<lambda>revisit.
             case revisit of
               Some t \<Rightarrow> Inr (go_to RunActive t (Some (ph_ordinal t)))
             | None \<Rightarrow>
                 (case List.find (\<lambda>c. ph_ordinal c = ph_ordinal ph + 1) (pd_phases d) of
                    None \<Rightarrow> Inl InvalidArguments
                  | Some t \<Rightarrow> Inr (go_to RunActive t None)))
       | Complete \<Rightarrow>
           if cx_outcome req \<noteq> PhaseCompleted \<or> ph_ordinal ph \<noteq> length (pd_phases d) then Inl Forbidden
           else Inr (finish_as RunCompleted)
       | Block \<Rightarrow>
           if cx_outcome req \<noteq> PhaseBlocked then Inl InvalidArguments else Inr (go_to RunBlocked ph None)
       | Escalate \<Rightarrow>
           if cx_outcome req = PhaseWaitingInput then Inl InvalidArguments else Inr (finish_as RunEscalated)))"

section \<open>The context of a run\<close>

text \<open>
  \<^verbatim>\<open>load_context\<close> and its variants: the caller is authorized for the copies in the context, an erased run
  has none, then it is assembled. Authorization and assembly look at other tables.
\<close>

record context_reading =
  ct_authorized :: "unit result"
  ct_assembled :: "unit result"

definition load_run_context :: "context_reading \<Rightarrow> run_state \<Rightarrow> unit result" where
  "load_run_context t s = checks [ct_authorized t, refuse_if (rs_erased s) KnowledgePayloadErased, ct_assembled t]"

section \<open>Completing a phase\<close>

record outside_checks =
  ox_session :: "unit result"
  ox_source_open :: "unit result"
  ox_readiness :: "evidence_artifact_ref \<Rightarrow> bool option"
  ox_native_contract :: "unit result"
  ox_open_checkpoint :: bool
  ox_inquiry :: "unit result"
  ox_knowledge :: "unit result"
  ox_local_gate :: "unit result"
  ox_lineage :: "unit result"
  ox_backend_evidence :: "unit result"
  ox_checkpoint :: "unit result"
  ox_capture :: "unit result"
  ox_publish :: "unit result"
  ox_copies :: "unit result"
  ox_returned :: context_reading

record stamp =
  sp_session :: uuid
  sp_attempt_id :: uuid
  sp_output_id :: uuid
  sp_result_id :: uuid
  sp_digest :: str
  sp_now :: int

definition checkpoint_rework :: "complete_phase \<Rightarrow> pipeline_definition \<Rightarrow> phase_definition \<Rightarrow> bool" where
  "checkpoint_rework req d ph \<longleftrightarrow>
     pd_kind d = DeepBrainstorming \<and> ph_ordinal ph = 5 \<and> cx_outcome req = PhaseCompleted \<and>
     cx_transition req = Continue \<and> cx_research_checkpoint req = None \<and>
     (case cx_revisit_phase_id req of None \<Rightarrow> False
      | Some target \<Rightarrow> list_ex (\<lambda>c. ph_id c = target \<and> ph_ordinal c \<le> 4) (pd_phases d))"

definition phase_guards :: "outside_checks \<Rightarrow> complete_phase \<Rightarrow> run_state \<Rightarrow> unit result" where
  "phase_guards ox req s = checks
     [ensure_pipeline_run_mutable (rs_definition s) (rs_status s),
      refuse_if (rs_revision s \<noteq> cx_run_revision req) StaleRevision,
      refuse_if (rs_status s \<in> {RunCompleted, RunEscalated}) Forbidden,
      refuse_if (rs_phase s \<noteq> Some (cx_phase_id req)) StaleContext,
      ox_source_open ox]"

text \<open>\<^verbatim>\<open>phase_validation.rs\<close>\<close>

definition readiness_check :: "outside_checks \<Rightarrow> evidence_artifact_ref \<Rightarrow> unit result" where
  "readiness_check ox reference =
     (let ready = ox_readiness ox reference in
      refuse_if (ready \<noteq> Some True)
        (refused_at RC_ArtifactNotReady ''WP6-EVIDENCE-READINESS-01'' ''arguments.params.output.evidence_artifacts''
           ''an existing artifact revision with readiness ready''
           (if ready = None then ''artifact revision not found'' else ''artifact revision not ready'')
           ''finalize_evidence_artifact'' ''ready_evidence_artifact''))"

definition sha256_hex :: "codec \<Rightarrow> str \<Rightarrow> str" where
  "sha256_hex c body = concat (map hex_byte (cd_sha256 c body))"

definition artifact_intact :: "codec \<Rightarrow> phase_artifact \<Rightarrow> bool" where
  "artifact_intact c a \<longleftrightarrow> sha256_hex c (pa_body a) = pa_digest a \<and>
     (pa_media_type a \<noteq> ''application/json'' \<or> cd_from_str c (pa_body a) \<noteq> None)"

definition validate_output_integrity :: "codec \<Rightarrow> phase_output_draft \<Rightarrow> str \<Rightarrow> unit result" where
  "validate_output_integrity c out version =
     andThen (ok_or (cd_output_length c out) StorageUnavailable) (\<lambda>n. checks
     [refuse_if (MAX_PIPELINE_OUTPUT_BYTES < n)
        (if prefix ''0.6'' version then InvalidArguments
         else refused_at RC_PayloadTooLarge ''WP6-OUTPUT-SIZE-01'' ''arguments.params.output''
           (''at most '' @ show_nat MAX_PIPELINE_OUTPUT_BYTES @ '' encoded bytes'') ''encoded output exceeds limit''
           ''reduce_output'' ''pipeline_output''),
      each (\<lambda>a. refuse_if (\<not> artifact_intact c a)
        (refused_at RC_InvalidOutput ''WP6-ARTIFACT-INTEGRITY-01'' ''arguments.params.output.artifacts''
           ''digest matching exact body and valid declared media type'' ''digest mismatch or invalid media body''
           ''correct_artifact'' ''artifact_digest_and_media_type'')) (po_artifacts out),
      refuse_if (list_ex (\<lambda>reference. is_nil (ar_artifact_id reference) \<or> ar_revision reference < 1) (po_evidence_artifacts out))
        (refused_at RC_InvalidOutput ''WP6-EVIDENCE-REFERENCE-01'' ''arguments.params.output.evidence_artifacts''
           ''non-nil artifact id and positive revision'' ''nil artifact id or non-positive revision''
           ''correct_evidence_reference'' ''evidence_artifact_reference'')])"

text \<open>The amendment that was recorded last for the decision phase.\<close>

definition last_amendment :: "run_state \<Rightarrow> source_amendment option" where
  "last_amendment s =
     (case rev (sort_key ir_sequence (filter (\<lambda>r. ir_phase_id r = DECISION_PHASE \<and> \<not> ir_erased r \<and>
         Option.bind (ir_request r) ri_source_amendment \<noteq> None) (rs_inputs s))) of
        [] \<Rightarrow> None | r # _ \<Rightarrow> Option.bind (ir_request r) ri_source_amendment)"

definition ledger_checks ::
    "codec \<Rightarrow> run_state \<Rightarrow> phase_definition \<Rightarrow> planned_next \<Rightarrow> phase_output_draft \<Rightarrow> unit result" where
  "ledger_checks c s ph plan out =
     (if pd_kind (rs_definition s) = FullDesignToExecution \<and> ph_id ph \<in> {DECISION_PHASE, RECONCILIATION_PHASE} \<and>
         list_ex (\<lambda>q. aq_name_pattern q = LEDGER_NAME) (ph_required_artifacts ph)
      then (if ph_id ph = DECISION_PHASE
            then checks [validate_decision_requirements_ledger (cd_from_str c) out,
                         validate_source_amendment_ledger (cd_from_str c) (last_amendment s) out]
            else if pn_revisit plan \<noteq> None then validate_reconciliation_requirements_ledger (cd_from_str c) out
            else validate_reconciliation_ledger_lineage (cd_from_str c) (bound_draft s DECISION_PHASE) out)
      else Inr ())"

definition phase_checks ::
    "codec \<Rightarrow> outside_checks \<Rightarrow> stamp \<Rightarrow> complete_phase \<Rightarrow> phase_definition \<Rightarrow> planned_next \<Rightarrow> run_state \<Rightarrow> unit result" where
  "phase_checks c ox sp req ph plan s =
     (let d = rs_definition s in checks
     [ledger_checks c s ph plan (cx_output req),
      validate_output_integrity c (cx_output req) (pd_version d),
      ox_native_contract ox,
      refuse_if (ox_open_checkpoint ox \<and> \<not> checkpoint_rework req d ph) InputPending,
      ox_inquiry ox, ox_knowledge ox,
      (if is_07 d then Inr () else validate_consumed_outputs s (ph_ordinal ph) (cx_consumed_outputs req)),
      ox_local_gate ox,
      validate_review_authorization s ph (cx_output req) (ox_lineage ox),
      (if is_07 d then Inr () else validate_consumed_inputs s (cx_phase_id req) (cx_consumed_inputs req)),
      ox_backend_evidence ox,
      validate_reviewer_boundary s (sp_session sp) ph req,
      enforce_retry_policy s ph])"

definition stale_from :: "nat \<Rightarrow> (str \<times> binding) list \<Rightarrow> (str \<times> binding) list" where
  "stale_from n bs = map (\<lambda>(i, b). (i, if n \<le> bd_ordinal b then b\<lparr>bd_stale := True\<rparr> else b)) bs"

definition apply_rework :: "planned_next \<Rightarrow> (str \<times> binding) list \<Rightarrow> (str \<times> binding) list" where
  "apply_rework plan bs = (case pn_revisit plan of None \<Rightarrow> bs | Some n \<Rightarrow> stale_from n bs)"

definition published :: "stamp \<Rightarrow> complete_phase \<Rightarrow> result_row list" where
  "published sp req =
     (case cx_transition req of
        Complete \<Rightarrow> [\<lparr>rr_id = sp_result_id sp, rr_erased = False, rr_origin = ''managed_completed'', rr_completed = True, rr_attempt = sp_attempt_id sp\<rparr>]
      | Escalate \<Rightarrow> [\<lparr>rr_id = sp_result_id sp, rr_erased = False, rr_origin = ''managed_escalated'', rr_completed = False, rr_attempt = sp_attempt_id sp\<rparr>]
      | Block \<Rightarrow> if cx_publish_blocked_result req
          then [\<lparr>rr_id = sp_result_id sp, rr_erased = False, rr_origin = ''managed_blocked'', rr_completed = False, rr_attempt = sp_attempt_id sp\<rparr>] else []
      | Continue \<Rightarrow> [])"

definition record_attempt :: "stamp \<Rightarrow> complete_phase \<Rightarrow> phase_definition \<Rightarrow> run_state \<Rightarrow> run_state" where
  "record_attempt sp req ph s =
     (let revision = next_number (map or_revision (phase_outputs s (ph_id ph))) in
      s\<lparr>rs_attempts := rs_attempts s @ [\<lparr>at_id = sp_attempt_id sp, at_phase_id = ph_id ph, at_ordinal = ph_ordinal ph,
            at_number = next_number (map at_number (phase_attempts s (ph_id ph))),
            at_request_id = cx_request_id req, at_request = Some req,
            at_actor = sp_session sp, at_created = sp_now sp, at_erased = False\<rparr>],
        rs_outputs := rs_outputs s @ [\<lparr>or_id = sp_output_id sp, or_attempt = sp_attempt_id sp, or_phase_id = ph_id ph,
            or_ordinal = ph_ordinal ph, or_revision = revision, or_draft = cx_output req, or_digest = Some (sp_digest sp),
            or_erased = False\<rparr>],
        rs_bindings := AList.update (ph_id ph) \<lparr>bd_ordinal = ph_ordinal ph, bd_output = sp_output_id sp,
            bd_revision = revision, bd_stale = False\<rparr> (rs_bindings s)\<rparr>)"

definition move_to :: "planned_next \<Rightarrow> int \<Rightarrow> result_row list \<Rightarrow> run_state \<Rightarrow> run_state" where
  "move_to plan revision results s =
     s\<lparr>rs_revision := revision, rs_status := pn_status plan, rs_phase := map_option fst (pn_next plan),
       rs_ordinal := map_option snd (pn_next plan), rs_bindings := apply_rework plan (rs_bindings s),
       rs_results := rs_results s @ results\<rparr>"

definition complete_run_phase ::
    "codec \<Rightarrow> outside_checks \<Rightarrow> stamp \<Rightarrow> complete_phase \<Rightarrow> run_state \<Rightarrow> run_state result" where
  "complete_run_phase c ox sp req s =
     andThen (phase_guards ox req s) (\<lambda>_.
     andThen (ok_or (List.find (\<lambda>ph. ph_id ph = cx_phase_id req) (pd_phases (rs_definition s))) InternalInvariant) (\<lambda>ph.
     andThen (each (readiness_check ox) (po_evidence_artifacts (cx_output req))) (\<lambda>_.
     andThen (plan_next_state req (rs_definition s) ph) (\<lambda>plan.
     andThen (phase_checks c ox sp req ph plan s) (\<lambda>_.
     andThen (ok_or (checked_add_i64 (rs_revision s) 1) StorageUnavailable) (\<lambda>revision.
     andThen (checks [ox_checkpoint ox, ox_capture ox,
       (if published sp req = [] then Inr ()
        else checks [refuse_if (cx_terminal_result req = None) InvalidArguments, ox_publish ox]),
       ox_copies ox, load_run_context (ox_returned ox) s]) (\<lambda>_.
     Inr (move_to plan revision (published sp req) (record_attempt sp req ph s)))))))))"

text \<open>
  A request that was already carried out, on whatever run of the workspace, is answered from its attempt: the
  state does not change, and the flag tells that the answer is a replay. The context of the run is read again, with
  every error that this has; an answer whose payload was erased is refused. \<open>elsewhere\<close> are the attempts on the other
  runs of the workspace.
\<close>

definition submit_phase ::
    "codec \<Rightarrow> outside_checks \<Rightarrow> stamp \<Rightarrow> attempt_row list \<Rightarrow> complete_phase \<Rightarrow> run_state \<Rightarrow> (run_state \<times> bool) result" where
  "submit_phase c ox sp elsewhere req s =
     (case List.find (\<lambda>a. at_request_id a = cx_request_id req) (rs_attempts s @ elsewhere) of
        Some a \<Rightarrow> andThen (checks
          [refuse_if (at_erased a) KnowledgePayloadErased,
           refuse_if (at_request a \<noteq> Some req) InputConflict,
           ox_session ox, load_run_context (ox_returned ox) s]) (\<lambda>_. Inr (s, True))
      | None \<Rightarrow> andThen (ox_session ox) (\<lambda>_.
          andThen (complete_run_phase c ox sp req s) (\<lambda>s'. Inr (s', False))))"

section \<open>Inputs\<close>

record input_checks =
  ix_evidence :: "verified_digest option"
  ix_session :: "unit result"
  ix_preflight :: context_reading
  ix_context :: context_reading
  ix_returned :: context_reading
  ix_source_open :: "unit result"
  ix_open_checkpoint :: bool
  ix_capture :: "unit result"
  ix_id :: uuid
  ix_digest :: str
  ix_now :: int

definition bound_source_of :: "run_state \<Rightarrow> str \<Rightarrow> bound_source option result" where
  "bound_source_of s i =
     (case Option.bind (map_of (rs_bindings s) i) (\<lambda>b. map_option (\<lambda>r. (b, r)) (output_of s b)) of
        None \<Rightarrow> Inr None
      | Some (b, r) \<Rightarrow> andThen (ok_or (or_digest r) StorageUnavailable) (\<lambda>digest. Inr (Some
          \<lparr>bo_id = or_id r, bo_revision = bd_revision b, bo_digest = digest, bo_artifacts = po_artifacts (or_draft r),
           bo_stale = bd_stale b\<rparr>)))"

definition input_guards :: "input_checks \<Rightarrow> record_input \<Rightarrow> run_state \<Rightarrow> unit result" where
  "input_guards ix req s = checks
     [digest_proof_check req (ix_evidence ix),
      ix_session ix, load_run_context (ix_preflight ix) s, load_run_context (ix_context ix) s,
      ensure_pipeline_run_mutable (rs_definition s) (rs_status s),
      refuse_if (rs_revision s \<noteq> ri_run_revision req) StaleRevision,
      refuse_if (checked_add_i64 (rs_revision s) 1 = None) StorageUnavailable,
      ix_source_open ix,
      refuse_if (ix_open_checkpoint ix) InputPending,
      refuse_if (rs_phase s \<noteq> Some (ri_phase_id req) \<or> rs_status s \<in> {RunCompleted, RunEscalated}) StaleContext]"

definition add_input :: "uuid \<Rightarrow> str \<Rightarrow> str \<Rightarrow> record_input option \<Rightarrow> int \<Rightarrow> run_state \<Rightarrow> run_state" where
  "add_input i phase digest request now s =
     s\<lparr>rs_revision := rs_revision s + 1, rs_status := RunActive,
       rs_inputs := rs_inputs s @ [\<lparr>ir_id = i, ir_sequence = next_number (map ir_sequence (rs_inputs s)),
         ir_phase_id = phase, ir_digest = Some digest, ir_request = request, ir_created = now, ir_erased = False\<rparr>]\<rparr>"

definition record_run_input :: "codec \<Rightarrow> input_checks \<Rightarrow> record_input \<Rightarrow> run_state \<Rightarrow> run_state result" where
  "record_run_input c ix req s =
     andThen (input_guards ix req s) (\<lambda>_.
     (case (ri_source_amendment req, ix_evidence ix) of
        (Some m, Some evidence) \<Rightarrow>
          andThen (checks [apply_source_amendment_checks (cd_from_str c) (cd_show_uuid c) req m evidence (rs_ordinal s)
            (rs_definition s) (bound_source_of s DECISION_PHASE), load_run_context (ix_returned ix) s]) (\<lambda>_.
          Inr ((add_input (ix_id ix) DECISION_PHASE (ix_digest ix) (Some req) (ix_now ix) s)
            \<lparr>rs_phase := Some DECISION_PHASE, rs_ordinal := Some 5, rs_bindings := stale_from 5 (rs_bindings s)\<rparr>))
      | (Some m, None) \<Rightarrow> Inl InvalidArguments
      | (None, _) \<Rightarrow>
          andThen (checks [ix_capture ix, load_run_context (ix_returned ix) s]) (\<lambda>_.
          Inr (add_input (ix_id ix) (ri_phase_id req) (ix_digest ix) (Some req) (ix_now ix) s))))"

text \<open>\<^verbatim>\<open>checkpoint_resolution.rs\<close>: the answer to a research checkpoint arrives as an input of its producer.\<close>

record checkpoint_resolution =
  cz_run_revision :: int
  cz_basis :: "unit result"
  cz_row :: "unit result"
  cz_capture :: "unit result"
  cz_returned :: context_reading
  cz_id :: uuid
  cz_digest :: str
  cz_now :: int

definition resolve_run_checkpoint :: "checkpoint_resolution \<Rightarrow> run_state \<Rightarrow> run_state result" where
  "resolve_run_checkpoint z s =
     andThen (checks
       [cz_basis z,
        refuse_if (rs_erased s) KnowledgePayloadErased,
        refuse_if (rs_revision s \<noteq> cz_run_revision z) StaleRevision,
        refuse_if (checked_add_i64 (rs_revision s) 1 = None) StorageUnavailable]) (\<lambda>_.
     andThen (ok_or (rs_phase s) InternalInvariant) (\<lambda>phase.
     andThen (checks
       [refuse_if (rs_status s \<noteq> RunWaitingInput \<or> rs_ordinal s \<noteq> Some 5 \<or>
          pd_kind (rs_definition s) \<noteq> DeepBrainstorming) Forbidden,
        cz_row z, cz_capture z, load_run_context (cz_returned z) s]) (\<lambda>_.
     Inr (add_input (cz_id z) phase (cz_digest z) None (cz_now z) s))))"

section \<open>Delivery mode and migration\<close>

definition escalate_run_delivery :: "context_reading \<Rightarrow> context_reading \<Rightarrow> escalate_delivery \<Rightarrow> run_state \<Rightarrow> run_state result" where
  "escalate_run_delivery before returned req s =
     andThen (checks
       [load_run_context before s,
        ensure_pipeline_run_mutable (rs_definition s) (rs_status s),
        refuse_if (rs_revision s \<noteq> es_run_revision req) StaleRevision,
        refuse_if (rs_status s = RunCompleted \<or> rs_status s = RunEscalated \<or> rs_mode s \<noteq> Whole \<or>
          rs_phase s \<noteq> Some (es_phase_id req)) Forbidden]) (\<lambda>_.
     andThen (ok_or (checked_add_i64 (rs_revision s) 1) StorageUnavailable) (\<lambda>revision.
     andThen (load_run_context returned s) (\<lambda>_.
     Inr (s\<lparr>rs_revision := revision, rs_mode := Phasewise\<rparr>))))"

definition migration_guards ::
    "codec \<Rightarrow> context_reading \<Rightarrow> bool \<Rightarrow> migration_command \<Rightarrow> pipeline_definition \<Rightarrow> run_state \<Rightarrow> unit result" where
  "migration_guards c before migrated cmd d s =
     (let old = rs_definition s in checks
     [migration_command_validate cmd,
      load_run_context before s,
      map_err migration_successor_retirement_error (ensure_pipeline_definition_selectable d),
      refuse_if (mc_successor_definition_version cmd \<noteq> pd_version d) InvalidArguments,
      refuse_if (rs_status s \<notin> {RunActive, RunWaitingInput, RunBlocked}) Forbidden,
      refuse_if (is_retired_lightweight old \<and>
          \<not> is_current_lightweight_retirement_successor (cd_definition_bytes c) (cd_sha256 c) d)
        (lightweight_retirement_error ''arguments.params.successor_definition_version'' (pd_version d)
           ''get_current_context_and_use_exact_migration_action''),
      refuse_if (rs_revision s \<noteq> mc_expected_revision cmd) StaleRevision,
      refuse_if (pd_version old = mc_successor_definition_version cmd)
        (refused_at RC_LegacyMigrationRequired ''WP6-MIGRATION-VERSION-02''
           ''arguments.params.successor_definition_version''
           ''a definition version different from the predecessor'' (pd_version old) ''select_successor_definition''
           ''new_definition_version''),
      refuse_if migrated
        (refused_at RC_LegacyMigrationRequired ''WP6-MIGRATION-IDEMPOTENCY-01'' ''arguments.params.idempotency_key''
           ''unused key or exact replay of the same successor mapping'' ''key already bound to a different migration''
           ''reuse_migration_idempotency_key'' ''explicit_successor_mapping''),
      validate_retirement_restart (cd_definition_bytes c) (cd_sha256 c)
        \<lparr>mr_request_id = mc_request_id cmd, mr_predecessor_run_id = mc_predecessor_run_id cmd,
         mr_predecessor_definition_version = pd_version old, mr_predecessor_definition_digest = pd_digest old,
         mr_successor_definition_version = pd_version d, mr_successor_definition_digest = pd_digest d,
         mr_mappings = mc_mappings cmd\<rparr> old d])"

text \<open>The superseded predecessor and the fresh successor.\<close>

definition migrate_run :: "codec \<Rightarrow> context_reading \<Rightarrow> bool \<Rightarrow> migration_command \<Rightarrow> pipeline_definition \<Rightarrow> run_state \<Rightarrow>
    (run_state \<times> run_state) result" where
  "migrate_run c before migrated cmd d s =
     andThen (migration_guards c before migrated cmd d s) (\<lambda>_.
     (case pd_phases d of
        [] \<Rightarrow> Inl InternalInvariant
      | first # _ \<Rightarrow>
          andThen (ok_or (checked_add_i64 (rs_revision s) 1) StorageUnavailable) (\<lambda>revision.
          Inr (s\<lparr>rs_revision := revision, rs_status := RunSuperseded\<rparr>,
            \<lparr>rs_definition = d, rs_revision = 1, rs_status = RunActive, rs_mode = pd_default_mode d,
             rs_phase = Some (ph_id first), rs_ordinal = Some (ph_ordinal first), rs_attempts = [], rs_outputs = [],
             rs_bindings = [], rs_inputs = [], rs_results = [], rs_erased = False\<rparr>))))"

section \<open>The knowledge of a run\<close>

text \<open>
  \<^verbatim>\<open>refresh\<close> of \<^verbatim>\<open>durable_knowledge/manifest.rs\<close>: the run takes a new manifest of its knowledge, which is kept in
  tables of its own, at a new revision. \<open>kx_state\<close> is the state of the workspace's knowledge, whether it is ready;
  \<open>kx_capture\<close> whether there is a manifest, and \<open>kx_unresolved\<close> the needs it leaves open.
\<close>

record knowledge_refresh =
  kx_run_revision :: int
  kx_phase_id :: str
  kx_state :: "bool result"
  kx_capture :: "bool result"
  kx_unresolved :: "str list"

definition refresh_run_knowledge :: "knowledge_refresh \<Rightarrow> run_state \<Rightarrow> run_state result" where
  "refresh_run_knowledge k s =
     andThen (kx_state k) (\<lambda>ready.
     andThen (checks
       [refuse_if (\<not> ready) KnowledgeUnavailable,
        ensure_pipeline_run_mutable (rs_definition s) (rs_status s),
        refuse_if (rs_revision s \<noteq> kx_run_revision k \<or> rs_phase s \<noteq> Some (kx_phase_id k)) StaleRevision]) (\<lambda>_.
     andThen (ok_or (checked_add_i64 (rs_revision s) 1) StorageUnavailable) (\<lambda>revision.
     andThen (kx_capture k) (\<lambda>captured.
     andThen (checks
       [refuse_if (\<not> captured) KnowledgeUnavailable, refuse_if (kx_unresolved k \<noteq> []) NeedsContext]) (\<lambda>_.
     Inr (s\<lparr>rs_revision := revision\<rparr>))))))"

section \<open>Requests on a run\<close>

datatype run_request =
    CompletePhase outside_checks stamp complete_phase
  | RecordInput input_checks record_input
  | ResolveCheckpoint checkpoint_resolution
  | EscalateDelivery context_reading context_reading escalate_delivery
  | MigrateRun context_reading bool migration_command pipeline_definition
  | RefreshKnowledge knowledge_refresh

fun run_step :: "codec \<Rightarrow> run_request \<Rightarrow> run_state \<Rightarrow> run_state result" where
  "run_step c (CompletePhase ox sp req) s = complete_run_phase c ox sp req s"
| "run_step c (RecordInput ix req) s = record_run_input c ix req s"
| "run_step c (ResolveCheckpoint z) s = resolve_run_checkpoint z s"
| "run_step c (EscalateDelivery before returned req) s = escalate_run_delivery before returned req s"
| "run_step c (MigrateRun before migrated cmd d) s = andThen (migrate_run c before migrated cmd d s) (\<lambda>(old, new). Inr old)"
| "run_step c (RefreshKnowledge k) s = refresh_run_knowledge k s"

fun run_expects :: "run_request \<Rightarrow> int option" where
  "run_expects (CompletePhase ox sp req) = Some (cx_run_revision req)"
| "run_expects (RecordInput ix req) = Some (ri_run_revision req)"
| "run_expects (ResolveCheckpoint z) = Some (cz_run_revision z)"
| "run_expects (EscalateDelivery before returned req) = Some (es_run_revision req)"
| "run_expects (MigrateRun before migrated cmd d) = Some (mc_expected_revision cmd)"
| "run_expects (RefreshKnowledge k) = Some (kx_run_revision k)"

section \<open>Erasure\<close>

text \<open>
  When a unit of knowledge is erased, the rows that are registered as its copies are cleared in place
  (\<^verbatim>\<open>erase/redact.rs\<close>); their keys and numbers stay, and so does the revision of the run. A row of an output has
  no column for the attestation of the reviewer, which is one of the attempt, and keeps the references of its
  evidence artifacts.
\<close>

definition erased_draft :: "phase_output_draft \<Rightarrow> phase_output_draft" where
  "erased_draft out = out\<lparr>po_body := ''[erased]'', po_producer_context_id := ''[erased]'', po_fields := (\<lambda>_. None),
     po_verdict := None, po_dispositions := [], po_skill_reads := [], po_resource_reads := [], po_artifacts := [],
     po_validator_receipts := [], po_followup_proposal := None, po_reviewer_context := None, po_reference := None,
     po_knowledge_publication := None\<rparr>"

definition erased_attempt :: "attempt_row \<Rightarrow> attempt_row" where
  "erased_attempt a = a\<lparr>at_request := None, at_erased := True\<rparr>"

definition erased_output :: "output_row \<Rightarrow> output_row" where
  "erased_output r = r\<lparr>or_draft := erased_draft (or_draft r), or_digest := None, or_erased := True\<rparr>"

definition erased_input :: "input_row \<Rightarrow> input_row" where
  "erased_input r = r\<lparr>ir_digest := None, ir_request := None, ir_erased := True\<rparr>"

definition erased_result_row :: "result_row \<Rightarrow> result_row" where
  "erased_result_row r = r\<lparr>rr_erased := True\<rparr>"

record row_erasure =
  ez_run :: bool
  ez_attempts :: "uuid list"
  ez_outputs :: "uuid list"
  ez_inputs :: "uuid list"
  ez_results :: "uuid list"

definition erase_where :: "('a \<Rightarrow> bool) \<Rightarrow> ('a \<Rightarrow> 'a) \<Rightarrow> 'a list \<Rightarrow> 'a list" where
  "erase_where p f xs = map (\<lambda>x. if p x then f x else x) xs"

definition erase_run_rows :: "row_erasure \<Rightarrow> run_state \<Rightarrow> run_state" where
  "erase_run_rows e s = s\<lparr>
     rs_attempts := erase_where (\<lambda>a. at_id a \<in> set (ez_attempts e)) erased_attempt (rs_attempts s),
     rs_outputs := erase_where (\<lambda>r. or_id r \<in> set (ez_outputs e)) erased_output (rs_outputs s),
     rs_inputs := erase_where (\<lambda>r. ir_id r \<in> set (ez_inputs e)) erased_input (rs_inputs s),
     rs_results := erase_where (\<lambda>r. rr_id r \<in> set (ez_results e)) erased_result_row (rs_results s),
     rs_erased := (rs_erased s \<or> ez_run e)\<rparr>"

text \<open>What happens to a run: requests on it, and erasures by the commit of a knowledge change.\<close>

datatype run_event = RunRequested run_request | RowsErased row_erasure

fun run_event_step :: "codec \<Rightarrow> run_event \<Rightarrow> run_state \<Rightarrow> run_state result" where
  "run_event_step c (RunRequested r) s = run_step c r s"
| "run_event_step c (RowsErased e) s = Inr (erase_run_rows e s)"

fun event_expects :: "run_event \<Rightarrow> int option" where
  "event_expects (RunRequested r) = run_expects r"
| "event_expects (RowsErased e) = None"

end
