(* ===== verification/RunInvariant.thy ===== *)
theory RunInvariant
  imports PipelineRuns
begin

text \<open>
  What every run keeps: where it stands in its pinned definition, which outputs are bound and fresh, and
  the numbering of attempts, outputs and inputs. The step lemmas here carry the properties of \<open>RunSafety\<close>.
\<close>

section \<open>Numbering\<close>

definition consecutive :: "int list \<Rightarrow> bool" where
  "consecutive ns \<longleftrightarrow> ns = map int [1..<Suc (length ns)]"

lemma consecutive_Nil [simp]: "consecutive []"
  by (simp add: consecutive_def)

lemma fold_max_map_int: "fold max (map int [1..<Suc n]) 0 = int n"
  by (induction n) simp_all

lemma next_number_consecutive: "consecutive ns \<Longrightarrow> next_number ns = int (length ns) + 1"
  unfolding next_number_def consecutive_def by (metis fold_max_map_int)

lemma consecutive_snoc:
  assumes "consecutive ns"
  shows "consecutive (ns @ [next_number ns])"
  using assms next_number_consecutive [OF assms] by (simp add: consecutive_def)

section \<open>The invariant\<close>

definition fresh :: "run_state \<Rightarrow> str \<Rightarrow> bool" where
  "fresh s i \<longleftrightarrow> (case map_of (rs_bindings s) i of None \<Rightarrow> False | Some b \<Rightarrow> \<not> bd_stale b)"

text \<open>The current phase, with every earlier phase done and every later binding stale.\<close>

definition stands_at :: "run_state \<Rightarrow> phase_definition \<Rightarrow> bool" where
  "stands_at s ph \<longleftrightarrow> ph \<in> set (pd_phases (rs_definition s)) \<and>
     rs_phase s = Some (ph_id ph) \<and> rs_ordinal s = Some (ph_ordinal ph) \<and>
     (\<forall>p\<in>set (pd_phases (rs_definition s)). ph_ordinal p < ph_ordinal ph \<longrightarrow> fresh s (ph_id p)) \<and>
     (\<forall>(i, b)\<in>set (rs_bindings s). ph_ordinal ph < bd_ordinal b \<longrightarrow> bd_stale b)"

definition position_ok :: "run_state \<Rightarrow> bool" where
  "position_ok s \<longleftrightarrow>
     (if rs_status s \<in> {RunCompleted, RunEscalated}
      then rs_phase s = None \<and> rs_ordinal s = None \<and>
        (rs_status s = RunCompleted \<longrightarrow> (\<forall>p\<in>set (pd_phases (rs_definition s)). fresh s (ph_id p)))
      else \<exists>ph. stands_at s ph)"

text \<open>A binding belongs to a phase of the definition and points to the newest output of that phase.\<close>

definition binding_ok :: "run_state \<Rightarrow> str \<Rightarrow> binding \<Rightarrow> bool" where
  "binding_ok s i b \<longleftrightarrow>
     (\<exists>p\<in>set (pd_phases (rs_definition s)). ph_id p = i \<and> ph_ordinal p = bd_ordinal b) \<and>
     phase_outputs s i \<noteq> [] \<and> or_id (last (phase_outputs s i)) = bd_output b \<and>
     or_revision (last (phase_outputs s i)) = bd_revision b"

definition bindings_ok :: "run_state \<Rightarrow> bool" where
  "bindings_ok s \<longleftrightarrow> distinct (map fst (rs_bindings s)) \<and> (\<forall>(i, b)\<in>set (rs_bindings s). binding_ok s i b)"

definition numbers_ok :: "run_state \<Rightarrow> bool" where
  "numbers_ok s \<longleftrightarrow>
     (\<forall>i. consecutive (map at_number (phase_attempts s i)) \<and> consecutive (map or_revision (phase_outputs s i)) \<and>
       map or_attempt (phase_outputs s i) = map at_id (phase_attempts s i)) \<and>
     consecutive (map ir_sequence (rs_inputs s))"

definition run_ok :: "run_state \<Rightarrow> bool" where
  "run_ok s \<longleftrightarrow> definition_validate (rs_definition s) = Inr () \<and> 1 \<le> rs_revision s \<and>
     position_ok s \<and> bindings_ok s \<and> numbers_ok s"

section \<open>What an accepted request does\<close>

lemma phase_unique:
  assumes "definition_validate d = Inr ()" and "p \<in> set (pd_phases d)" and "q \<in> set (pd_phases d)"
    and "ph_id p = ph_id q \<or> ph_ordinal p = ph_ordinal q"
  shows "p = q"
proof -
  have "inj_on ph_id (set (pd_phases d))" using definition_validate_ordinals(2) [OF assms(1)] by (simp add: distinct_map)
  moreover have "inj_on ph_ordinal (set (pd_phases d))"
    using definition_validate_ordinals(1) [OF assms(1)] by (auto simp: inj_on_def in_set_conv_nth)
  ultimately show ?thesis using assms(2-4) by (auto dest: inj_onD)
qed

lemma phase_ordinal_range:
  assumes "definition_validate d = Inr ()" and "p \<in> set (pd_phases d)"
  shows "1 \<le> ph_ordinal p" "ph_ordinal p \<le> length (pd_phases d)"
  using definition_validate_ordinals(1) [OF assms(1)] assms(2) by (auto simp: in_set_conv_nth)

lemma find_phase: "List.find (\<lambda>p. P p) ps = Some p \<Longrightarrow> p \<in> set ps \<and> P p"
  by (auto simp: find_Some_iff)

text \<open>The five ways a phase can end.\<close>

lemma plan_next_state_cases:
  assumes "plan_next_state req d ph = Inr plan"
  obtains (stay) status where "status \<in> {RunWaitingInput, RunBlocked}" "plan = go_to status ph None"
  | (rework) t where "t \<in> set (pd_phases d)" "ph_id t \<in> set (ph_allowed_backward_to ph)" "ph_ordinal t < ph_ordinal ph"
      "cx_revisit_phase_id req = Some (ph_id t)" "plan = go_to RunActive t (Some (ph_ordinal t))"
  | (forward) t where "t \<in> set (pd_phases d)" "ph_ordinal t = ph_ordinal ph + 1" "cx_outcome req = PhaseCompleted"
      "plan = go_to RunActive t None"
  | (finish) "ph_ordinal ph = length (pd_phases d)" "cx_outcome req = PhaseCompleted" "cx_transition req = Complete"
      "plan = finish_as RunCompleted"
  | (escalate) "cx_transition req = Escalate" "plan = finish_as RunEscalated"
  using assms
  by (auto simp: plan_next_state_def resolve_revisit_def andThen_Inr not_le split: if_splits transition.splits option.splits
      dest!: find_phase)

lemma complete_run_phase_Inr:
  assumes "complete_run_phase c ox sp req s = Inr s'"
  obtains ph plan where "ph \<in> set (pd_phases (rs_definition s))" and "ph_id ph = cx_phase_id req"
    and "rs_phase s = Some (ph_id ph)" and "rs_status s \<notin> {RunCompleted, RunEscalated, RunSuperseded}"
    and "cx_run_revision req = rs_revision s" and "plan_next_state req (rs_definition s) ph = Inr plan"
    and "phase_checks c ox sp req ph plan s = Inr ()"
    and "s' = move_to plan (rs_revision s + 1) (published sp req) (record_attempt sp req ph s)"
proof -
  from assms obtain ph plan where
    parts: "phase_guards ox req s = Inr ()" "List.find (\<lambda>ph. ph_id ph = cx_phase_id req) (pd_phases (rs_definition s)) = Some ph"
      "plan_next_state req (rs_definition s) ph = Inr plan" "phase_checks c ox sp req ph plan s = Inr ()"
      "s' = move_to plan (rs_revision s + 1) (published sp req) (record_attempt sp req ph s)"
    unfolding complete_run_phase_def andThen_Inr ok_or_Inr checked_add_i64_Some by auto
  from find_phase [OF parts(2)] parts(1) that [OF _ _ _ _ _ parts(3-5)] show thesis
    by (auto simp: phase_guards_def checks_Inr_Cons refuse_if_Inr ensure_mutable_Inr)
qed

lemma record_run_input_Inr:
  assumes "record_run_input c ix req s = Inr s'"
  obtains (plain) "s' = add_input (ix_id ix) (ri_phase_id req) (ix_digest ix) (Some req) (ix_now ix) s"
      "ri_run_revision req = rs_revision s" "rs_phase s = Some (ri_phase_id req)"
      "rs_status s \<notin> {RunCompleted, RunEscalated, RunSuperseded}"
  | (amend) m evidence k ph where "ri_source_amendment req = Some m"
      "s' = (add_input (ix_id ix) DECISION_PHASE (ix_digest ix) (Some req) (ix_now ix) s)
            \<lparr>rs_phase := Some DECISION_PHASE, rs_ordinal := Some 5, rs_bindings := stale_from 5 (rs_bindings s)\<rparr>"
      "apply_source_amendment_checks (cd_from_str c) (cd_show_uuid c) req m evidence (rs_ordinal s)
            (rs_definition s) (bound_source_of s DECISION_PHASE) = Inr ()"
      "ri_run_revision req = rs_revision s" "rs_ordinal s = Some k" "5 \<le> k"
      "ph \<in> set (pd_phases (rs_definition s))" "ph_id ph = DECISION_PHASE" "ph_ordinal ph = 5"
      "rs_status s \<notin> {RunCompleted, RunEscalated, RunSuperseded}"
proof -
  have guards: "ri_run_revision req = rs_revision s" "rs_phase s = Some (ri_phase_id req)"
      "rs_status s \<notin> {RunCompleted, RunEscalated, RunSuperseded}"
    using assms by (auto simp: record_run_input_def input_guards_def check_simps ensure_mutable_Inr)
  show thesis
  proof (cases "ri_source_amendment req")
    case None
    with assms plain guards show thesis by (auto simp: record_run_input_def check_simps)
  next
    case (Some m)
    with assms obtain evidence where
      checks: "apply_source_amendment_checks (cd_from_str c) (cd_show_uuid c) req m evidence (rs_ordinal s)
            (rs_definition s) (bound_source_of s DECISION_PHASE) = Inr ()"
      and s': "s' = (add_input (ix_id ix) DECISION_PHASE (ix_digest ix) (Some req) (ix_now ix) s)
            \<lparr>rs_phase := Some DECISION_PHASE, rs_ordinal := Some 5, rs_bindings := stale_from 5 (rs_bindings s)\<rparr>"
      by (auto simp: record_run_input_def check_simps split: option.splits)
    from checks have "amendment_violations req m evidence (rs_ordinal s) (rs_definition s) = []"
      by (auto simp: apply_source_amendment_checks_def check_simps split: list.splits)
    then obtain k ph where "rs_ordinal s = Some k" "5 \<le> k" "ph \<in> set (pd_phases (rs_definition s))"
        "ph_id ph = DECISION_PHASE" "ph_ordinal ph = 5"
      by (auto simp: amendment_violations_def Let_def when_violated_def list_ex_iff not_less
          split: if_splits option.splits)
    with amend [OF Some s' checks] guards show thesis by blast
  qed
qed

section \<open>Bindings under the updates\<close>

lemma map_of_stale_from:
  "map_of (stale_from n bs) i = map_option (\<lambda>b. if n \<le> bd_ordinal b then b\<lparr>bd_stale := True\<rparr> else b) (map_of bs i)"
  unfolding stale_from_def by (induction bs) auto

lemma stale_from_keys [simp]: "map fst (stale_from n bs) = map fst bs"
  by (simp add: stale_from_def comp_def split_beta)

lemma stale_from_mem: "(i, b) \<in> set (stale_from n bs) \<Longrightarrow>
    \<exists>b'. (i, b') \<in> set bs \<and> bd_ordinal b = bd_ordinal b' \<and> bd_output b = bd_output b' \<and> bd_revision b = bd_revision b' \<and>
      (bd_stale b \<longleftrightarrow> bd_stale b' \<or> n \<le> bd_ordinal b')"
  by (auto simp: stale_from_def)

lemma bindings_ok_map_of:
  "bindings_ok s \<longleftrightarrow> distinct (map fst (rs_bindings s)) \<and> (\<forall>i b. map_of (rs_bindings s) i = Some b \<longrightarrow> binding_ok s i b)"
  by (auto simp: bindings_ok_def dest: map_of_SomeD)

lemma bindings_ok_stale_from:
  "bindings_ok s \<Longrightarrow> bindings_ok (s\<lparr>rs_bindings := stale_from n (rs_bindings s)\<rparr>)"
  by (auto simp: bindings_ok_map_of map_of_stale_from binding_ok_def phase_outputs_def)

lemma fresh_stale_from:
  "fresh (s\<lparr>rs_bindings := stale_from n (rs_bindings s)\<rparr>) i \<longleftrightarrow>
     (case map_of (rs_bindings s) i of None \<Rightarrow> False | Some b \<Rightarrow> \<not> bd_stale b \<and> bd_ordinal b < n)"
  by (auto simp: fresh_def map_of_stale_from split: option.split)

lemma fresh_stale_from_below:
  assumes "definition_validate (rs_definition s) = Inr ()" and "bindings_ok s"
    and "p \<in> set (pd_phases (rs_definition s))" and "ph_ordinal p < n" and "fresh s (ph_id p)"
  shows "fresh (s\<lparr>rs_bindings := stale_from n (rs_bindings s)\<rparr>) (ph_id p)"
proof -
  from assms(5) obtain b where b: "map_of (rs_bindings s) (ph_id p) = Some b" "\<not> bd_stale b"
    by (auto simp: fresh_def split: option.splits)
  then have "binding_ok s (ph_id p) b" using assms(2) by (simp only: bindings_ok_map_of)
  then obtain q where "q \<in> set (pd_phases (rs_definition s))" "ph_id q = ph_id p" "ph_ordinal q = bd_ordinal b"
    unfolding binding_ok_def by blast
  with phase_unique [OF assms(1,3)] have "bd_ordinal b = ph_ordinal p" by metis
  with b assms(4) show ?thesis by (simp add: fresh_stale_from)
qed

lemma record_attempt_simps [simp]:
  "rs_definition (record_attempt sp req ph s) = rs_definition s"
  "rs_inputs (record_attempt sp req ph s) = rs_inputs s"
  "rs_status (record_attempt sp req ph s) = rs_status s"
  "rs_revision (record_attempt sp req ph s) = rs_revision s"
  by (simp_all add: record_attempt_def Let_def)

lemma record_attempt_fresh: "fresh (record_attempt sp req ph s) i \<longleftrightarrow> i = ph_id ph \<or> fresh s i"
  by (auto simp: fresh_def record_attempt_def Let_def update_conv)

lemma record_attempt_outputs:
  "phase_outputs (record_attempt sp req ph s) i = phase_outputs s i @
     (if i = ph_id ph then [\<lparr>or_id = sp_output_id sp, or_attempt = sp_attempt_id sp, or_phase_id = ph_id ph,
        or_ordinal = ph_ordinal ph, or_revision = next_number (map or_revision (phase_outputs s (ph_id ph))),
        or_draft = cx_output req, or_digest = Some (sp_digest sp), or_erased = False\<rparr>] else [])"
  by (simp add: record_attempt_def phase_outputs_def Let_def)

lemma record_attempt_attempts:
  "phase_attempts (record_attempt sp req ph s) i = phase_attempts s i @
     (if i = ph_id ph then [\<lparr>at_id = sp_attempt_id sp, at_phase_id = ph_id ph, at_ordinal = ph_ordinal ph,
        at_number = next_number (map at_number (phase_attempts s (ph_id ph))), at_request_id = cx_request_id req,
        at_request = Some req,
        at_actor = sp_session sp, at_created = sp_now sp, at_erased = False\<rparr>] else [])"
  by (simp add: record_attempt_def phase_attempts_def Let_def)

lemma record_attempt_numbers: "numbers_ok s \<Longrightarrow> numbers_ok (record_attempt sp req ph s)"
  by (simp add: numbers_ok_def record_attempt_outputs record_attempt_attempts consecutive_snoc)

lemma record_attempt_bound:
  "map_of (rs_bindings (record_attempt sp req ph s)) = (map_of (rs_bindings s))(ph_id ph \<mapsto>
     \<lparr>bd_ordinal = ph_ordinal ph, bd_output = sp_output_id sp,
      bd_revision = next_number (map or_revision (phase_outputs s (ph_id ph))), bd_stale = False\<rparr>)"
  by (simp add: record_attempt_def Let_def update_conv')

lemma record_attempt_bindings:
  assumes "bindings_ok s" and "ph \<in> set (pd_phases (rs_definition s))"
  shows "bindings_ok (record_attempt sp req ph s)"
  unfolding bindings_ok_map_of
proof (intro conjI allI impI)
  show "distinct (map fst (rs_bindings (record_attempt sp req ph s)))"
    using assms(1) by (simp add: bindings_ok_def record_attempt_def Let_def distinct_update)
  fix i b assume "map_of (rs_bindings (record_attempt sp req ph s)) i = Some b"
  then show "binding_ok (record_attempt sp req ph s) i b"
    using assms by (auto simp: record_attempt_bound binding_ok_def record_attempt_outputs bindings_ok_map_of split: if_splits)
qed

section \<open>Moving\<close>

text \<open>After the attempt is recorded, every phase up to the current one is fresh and no later one is.\<close>

lemma stands_at_recorded:
  assumes "run_ok s" and "stands_at s ph"
  shows "\<forall>p\<in>set (pd_phases (rs_definition s)). ph_ordinal p \<le> ph_ordinal ph \<longrightarrow> fresh (record_attempt sp req ph s) (ph_id p)"
    and "\<forall>(i, b)\<in>set (rs_bindings (record_attempt sp req ph s)). ph_ordinal ph < bd_ordinal b \<longrightarrow> bd_stale b"
proof -
  have d: "definition_validate (rs_definition s) = Inr ()" and b: "bindings_ok s" using assms(1) by (simp_all add: run_ok_def)
  show "\<forall>p\<in>set (pd_phases (rs_definition s)). ph_ordinal p \<le> ph_ordinal ph \<longrightarrow> fresh (record_attempt sp req ph s) (ph_id p)"
    using assms(2) phase_unique [OF d] by (auto simp: stands_at_def record_attempt_fresh le_less)
  have "bd_stale b" if "map_of (rs_bindings (record_attempt sp req ph s)) i = Some b" "ph_ordinal ph < bd_ordinal b" for i b
    using that assms(2) by (auto simp: record_attempt_bound stands_at_def split: if_splits dest: map_of_SomeD)
  moreover have "distinct (map fst (rs_bindings (record_attempt sp req ph s)))"
    using record_attempt_bindings [OF b] assms(2) by (simp add: stands_at_def bindings_ok_def)
  ultimately show "\<forall>(i, b)\<in>set (rs_bindings (record_attempt sp req ph s)). ph_ordinal ph < bd_ordinal b \<longrightarrow> bd_stale b"
    by (auto simp: map_of_eq_Some_iff)
qed

lemma move_to_simps [simp]:
  "rs_definition (move_to plan revision results s) = rs_definition s"
  "rs_revision (move_to plan revision results s) = revision"
  "rs_status (move_to plan revision results s) = pn_status plan"
  "rs_phase (move_to plan revision results s) = map_option fst (pn_next plan)"
  "rs_ordinal (move_to plan revision results s) = map_option snd (pn_next plan)"
  "rs_bindings (move_to plan revision results s) = apply_rework plan (rs_bindings s)"
  "rs_attempts (move_to plan revision results s) = rs_attempts s"
  "rs_outputs (move_to plan revision results s) = rs_outputs s"
  "rs_inputs (move_to plan revision results s) = rs_inputs s"
  by (simp_all add: move_to_def)

lemma fresh_cong: "rs_bindings s = rs_bindings s' \<Longrightarrow> fresh s i = fresh s' i"
  by (simp add: fresh_def)

lemma move_to_bindings: "bindings_ok s \<Longrightarrow> bindings_ok (move_to plan revision results s)"
  using bindings_ok_stale_from [of s]
  by (cases "pn_revisit plan") (auto simp: bindings_ok_def binding_ok_def phase_outputs_def apply_rework_def)

lemma move_to_numbers: "numbers_ok s \<Longrightarrow> numbers_ok (move_to plan revision results s)"
  by (simp add: numbers_ok_def phase_attempts_def phase_outputs_def)

lemma move_to_position:
  assumes ok: "run_ok s" and at: "stands_at s ph" and plan: "plan_next_state req (rs_definition s) ph = Inr plan"
  shows "position_ok (move_to plan revision results (record_attempt sp req ph s))" (is "position_ok ?s'")
proof -
  let ?s1 = "record_attempt sp req ph s"
  note recorded = stands_at_recorded [OF ok at, of sp req]
  have d: "definition_validate (rs_definition s) = Inr ()" and b: "bindings_ok ?s1" and ph: "ph \<in> set (pd_phases (rs_definition s))"
    using ok at by (simp_all add: run_ok_def record_attempt_bindings stands_at_def)
  show ?thesis using plan
  proof (cases rule: plan_next_state_cases)
    case (stay status)
    then have same: "rs_bindings ?s' = rs_bindings ?s1" by (simp add: go_to_def apply_rework_def)
    have "stands_at ?s' ph"
      using recorded ph stay(2) unfolding stands_at_def fresh_cong [OF same] same by (auto simp: go_to_def)
    then show ?thesis using stay by (auto simp: position_ok_def go_to_def)
  next
    case (rework t)
    then have eq: "rs_bindings ?s' = stale_from (ph_ordinal t) (rs_bindings ?s1)"
      by (simp add: go_to_def apply_rework_def)
    have "fresh ?s' (ph_id p)" if "p \<in> set (pd_phases (rs_definition s))" "ph_ordinal p < ph_ordinal t" for p
      using fresh_stale_from_below [of ?s1 p "ph_ordinal t"] d b that recorded(1) rework(3) eq by (simp add: fresh_def)
    moreover have "\<forall>(i, b)\<in>set (rs_bindings ?s'). ph_ordinal t < bd_ordinal b \<longrightarrow> bd_stale b"
      unfolding eq by (auto dest!: stale_from_mem)
    ultimately have "stands_at ?s' t" using rework by (simp add: stands_at_def go_to_def)
    then show ?thesis using rework by (auto simp: position_ok_def go_to_def)
  next
    case (forward t)
    then have same: "rs_bindings ?s' = rs_bindings ?s1" by (simp add: go_to_def apply_rework_def)
    have "stands_at ?s' t"
      using recorded forward(1,2,4) unfolding stands_at_def fresh_cong [OF same] same by (auto simp: go_to_def)
    then show ?thesis using forward by (auto simp: position_ok_def go_to_def)
  next
    case finish
    then have same: "rs_bindings ?s' = rs_bindings ?s1" by (simp add: finish_as_def apply_rework_def)
    have "fresh ?s' (ph_id p)" if "p \<in> set (pd_phases (rs_definition s))" for p
      using recorded(1) that phase_ordinal_range(2) [OF d that] finish(1) by (simp add: fresh_cong [OF same])
    then show ?thesis using finish by (simp add: position_ok_def finish_as_def)
  next
    case escalate
    then show ?thesis by (simp add: position_ok_def finish_as_def)
  qed
qed

section \<open>Every request keeps the invariant\<close>

lemma live_stands_at:
  "run_ok s \<Longrightarrow> rs_status s \<notin> {RunCompleted, RunEscalated} \<Longrightarrow> \<exists>ph. stands_at s ph"
  by (simp add: run_ok_def position_ok_def)

lemma stands_at_unique:
  "run_ok s \<Longrightarrow> stands_at s ph \<Longrightarrow> q \<in> set (pd_phases (rs_definition s)) \<Longrightarrow> rs_phase s = Some (ph_id q) \<Longrightarrow> q = ph"
  using phase_unique by (auto simp: run_ok_def stands_at_def)

lemma complete_run_phase_ok:
  assumes "run_ok s" and "complete_run_phase c ox sp req s = Inr s'"
  shows "run_ok s' \<and> rs_revision s' = rs_revision s + 1 \<and> rs_definition s' = rs_definition s"
  using assms(2)
proof (cases rule: complete_run_phase_Inr)
  case (1 ph plan)
  have at: "stands_at s ph"
    using live_stands_at [OF assms(1)] stands_at_unique [OF assms(1)] 1(1,3,4) by auto
  have parts: "bindings_ok s" "numbers_ok s" "1 \<le> rs_revision s" "definition_validate (rs_definition s) = Inr ()"
    using assms(1) by (simp_all add: run_ok_def)
  have "position_ok s'" unfolding 1(8) by (rule move_to_position [OF assms(1) at 1(6)])
  moreover have "bindings_ok s'" unfolding 1(8) by (intro move_to_bindings record_attempt_bindings parts 1)
  moreover have "numbers_ok s'" unfolding 1(8) by (intro move_to_numbers record_attempt_numbers parts)
  ultimately show ?thesis using parts 1(8) by (simp add: run_ok_def)
qed

lemma add_input_simps [simp]:
  "rs_definition (add_input i phase digest request now s) = rs_definition s"
  "rs_revision (add_input i phase digest request now s) = rs_revision s + 1"
  "rs_status (add_input i phase digest request now s) = RunActive"
  "rs_phase (add_input i phase digest request now s) = rs_phase s"
  "rs_ordinal (add_input i phase digest request now s) = rs_ordinal s"
  "rs_bindings (add_input i phase digest request now s) = rs_bindings s"
  "rs_attempts (add_input i phase digest request now s) = rs_attempts s"
  "rs_outputs (add_input i phase digest request now s) = rs_outputs s"
  by (simp_all add: add_input_def)

lemma add_input_numbers: "numbers_ok s \<Longrightarrow> numbers_ok (add_input i phase digest request now s)"
  by (simp add: numbers_ok_def phase_attempts_def phase_outputs_def) (simp add: add_input_def consecutive_snoc)

lemma stands_at_cong:
  assumes "rs_definition s' = rs_definition s" "rs_phase s' = rs_phase s" "rs_ordinal s' = rs_ordinal s"
    "rs_bindings s' = rs_bindings s"
  shows "stands_at s' ph \<longleftrightarrow> stands_at s ph"
  using assms by (simp add: stands_at_def fresh_def)

lemma bindings_ok_cong:
  assumes "rs_definition s' = rs_definition s" "rs_outputs s' = rs_outputs s" "rs_bindings s' = rs_bindings s"
  shows "bindings_ok s' \<longleftrightarrow> bindings_ok s"
  using assms by (simp add: bindings_ok_def binding_ok_def phase_outputs_def)

lemma add_input_ok:
  assumes "run_ok s" and "rs_status s \<notin> {RunCompleted, RunEscalated}"
  shows "run_ok (add_input i phase digest request now s)"
proof -
  let ?s1 = "add_input i phase digest request now s"
  from live_stands_at [OF assms] obtain ph where "stands_at s ph" ..
  then have "stands_at ?s1 ph" using stands_at_cong [of ?s1 s] by simp
  moreover have "bindings_ok ?s1 \<longleftrightarrow> bindings_ok s" by (rule bindings_ok_cong) simp_all
  ultimately show ?thesis
    using assms(1) add_input_numbers [of s] by (auto simp: run_ok_def position_ok_def)
qed

lemma record_run_input_ok:
  assumes "run_ok s" and "record_run_input c ix req s = Inr s'"
  shows "run_ok s' \<and> rs_revision s' = rs_revision s + 1 \<and> rs_definition s' = rs_definition s"
  using assms(2)
proof (cases rule: record_run_input_Inr)
  case plain
  with add_input_ok [OF assms(1)] show ?thesis by simp
next
  case (amend m evidence k ph)
  let ?s1 = "add_input (ix_id ix) DECISION_PHASE (ix_digest ix) (Some req) (ix_now ix) s"
  have ok1: "run_ok ?s1" using add_input_ok [OF assms(1)] amend(10) by simp
  then have parts: "bindings_ok ?s1" "numbers_ok ?s1" "definition_validate (rs_definition s) = Inr ()" "1 \<le> rs_revision s + 1"
    by (simp_all add: run_ok_def)
  from live_stands_at [OF assms(1)] amend(10) obtain q where q: "stands_at s q" by auto
  have below: "fresh s' (ph_id p)" if "p \<in> set (pd_phases (rs_definition s))" "ph_ordinal p < 5" for p
  proof -
    have "fresh ?s1 (ph_id p)" using q that amend(5,6) by (auto simp: stands_at_def fresh_def)
    with fresh_stale_from_below [of ?s1 p 5] parts that show ?thesis by (simp add: amend(2) fresh_def)
  qed
  have "stands_at s' ph"
    using below amend(7-9) by (auto simp: stands_at_def amend(2) dest!: stale_from_mem)
  then have "position_ok s'" by (auto simp: position_ok_def amend(2))
  moreover have "bindings_ok s'"
    using bindings_ok_stale_from [OF parts(1), of 5] by (simp add: amend(2) bindings_ok_def binding_ok_def phase_outputs_def)
  moreover have "numbers_ok s'"
    using parts(2) by (simp add: amend(2) numbers_ok_def phase_attempts_def phase_outputs_def)
  ultimately show ?thesis using parts(3,4) by (simp add: run_ok_def amend(2))
qed

lemma resolve_run_checkpoint_Inr:
  "resolve_run_checkpoint z s = Inr s' \<Longrightarrow> \<exists>phase. s' = add_input (cz_id z) phase (cz_digest z) None (cz_now z) s \<and>
     cz_run_revision z = rs_revision s \<and> rs_phase s = Some phase \<and> rs_status s = RunWaitingInput"
  by (auto simp: resolve_run_checkpoint_def check_simps)

lemma escalate_run_delivery_Inr:
  "escalate_run_delivery before returned req s = Inr s' \<Longrightarrow> s' = s\<lparr>rs_revision := rs_revision s + 1, rs_mode := Phasewise\<rparr> \<and>
     es_run_revision req = rs_revision s \<and> rs_status s \<notin> {RunCompleted, RunEscalated, RunSuperseded}"
  by (auto simp: escalate_run_delivery_def check_simps ensure_mutable_Inr checked_add_i64_Some)

lemma migrate_run_Inr:
  "migrate_run c before migrated cmd d s = Inr (old, new) \<Longrightarrow> old = s\<lparr>rs_revision := rs_revision s + 1, rs_status := RunSuperseded\<rparr> \<and>
     mc_expected_revision cmd = rs_revision s \<and> rs_status s \<in> {RunActive, RunWaitingInput, RunBlocked}"
  by (auto simp: migrate_run_def migration_guards_def Let_def check_simps checked_add_i64_Some split: list.splits)

lemma refresh_run_knowledge_Inr:
  "refresh_run_knowledge k s = Inr s' \<Longrightarrow> s' = s\<lparr>rs_revision := rs_revision s + 1\<rparr> \<and>
     kx_run_revision k = rs_revision s \<and> rs_phase s = Some (kx_phase_id k) \<and> rs_status s \<noteq> RunSuperseded"
  by (auto simp: refresh_run_knowledge_def check_simps ensure_mutable_Inr checked_add_i64_Some)

text \<open>A run that still has a current phase has not ended.\<close>

lemma phase_live: "run_ok s \<Longrightarrow> rs_phase s = Some i \<Longrightarrow> rs_status s \<notin> {RunCompleted, RunEscalated}"
  by (auto simp: run_ok_def position_ok_def)

lemma moved_ok:
  assumes "run_ok s" and "rs_status s \<notin> {RunCompleted, RunEscalated}" and "rs_status s' \<notin> {RunCompleted, RunEscalated}"
    and "rs_definition s' = rs_definition s" "rs_phase s' = rs_phase s" "rs_ordinal s' = rs_ordinal s"
    "rs_bindings s' = rs_bindings s" "rs_outputs s' = rs_outputs s" "rs_attempts s' = rs_attempts s"
    "rs_inputs s' = rs_inputs s" "rs_revision s' = rs_revision s + 1"
  shows "run_ok s'"
proof -
  from live_stands_at [OF assms(1,2)] obtain ph where "stands_at s ph" ..
  then have "stands_at s' ph" using stands_at_cong [of s' s] assms(4-7) by simp
  moreover have "bindings_ok s' \<longleftrightarrow> bindings_ok s" by (rule bindings_ok_cong) fact+
  moreover have "numbers_ok s' \<longleftrightarrow> numbers_ok s"
    by (simp add: numbers_ok_def phase_attempts_def phase_outputs_def assms)
  ultimately show ?thesis using assms(1,3,4,11) by (auto simp: run_ok_def position_ok_def)
qed

lemma run_step_ok:
  assumes "run_ok s" and "run_step c r s = Inr s'"
  shows "run_ok s' \<and> rs_revision s' = rs_revision s + 1 \<and> rs_definition s' = rs_definition s"
proof (cases r)
  case (CompletePhase ox sp req)
  with assms complete_run_phase_ok show ?thesis by simp
next
  case (RecordInput ix req)
  with assms record_run_input_ok show ?thesis by simp
next
  case (ResolveCheckpoint z)
  with assms resolve_run_checkpoint_Inr [of z s s'] add_input_ok [OF assms(1)] show ?thesis by auto
next
  case (EscalateDelivery before returned req)
  with assms(2) escalate_run_delivery_Inr [of before returned req s s'] have "s' = s\<lparr>rs_revision := rs_revision s + 1, rs_mode := Phasewise\<rparr>"
    "rs_status s \<notin> {RunCompleted, RunEscalated, RunSuperseded}" by auto
  with moved_ok [OF assms(1), of s'] show ?thesis by simp
next
  case (MigrateRun before migrated cmd d)
  with assms(2) obtain new where "migrate_run c before migrated cmd d s = Inr (s', new)" by (auto simp: andThen_Inr)
  from migrate_run_Inr [OF this] moved_ok [OF assms(1), of s'] show ?thesis by auto
next
  case (RefreshKnowledge k)
  with assms(2) refresh_run_knowledge_Inr [of k s s'] have s': "s' = s\<lparr>rs_revision := rs_revision s + 1\<rparr>"
    "rs_phase s = Some (kx_phase_id k)" by auto
  with moved_ok [OF assms(1), of s'] phase_live [OF assms(1)] show ?thesis by simp
qed

lemma run_step_expects: "run_step c r s = Inr s' \<Longrightarrow> run_expects r = Some n \<Longrightarrow> n = rs_revision s"
  by (cases r) (auto simp: andThen_Inr elim!: complete_run_phase_Inr record_run_input_Inr
      dest!: resolve_run_checkpoint_Inr escalate_run_delivery_Inr migrate_run_Inr refresh_run_knowledge_Inr)

interpretation run: revisioned "run_step c" run_ok rs_revision run_expects
  by unfold_locales (use run_step_ok run_step_expects in blast)+

section \<open>Erasure\<close>

lemma map_erase_where:
  assumes "\<And>x. f (g x) = f x"
  shows "map f (erase_where p g xs) = map f xs"
  using assms by (simp add: erase_where_def)

lemma filter_erase_where:
  assumes "\<And>x. q (g x) = q x"
  shows "filter q (erase_where p g xs) = erase_where p g (filter q xs)"
  using assms by (induction xs) (auto simp: erase_where_def)

lemma erase_where_empty [simp]: "erase_where p g xs = [] \<longleftrightarrow> xs = []"
  by (simp add: erase_where_def)

lemma last_erase_where:
  assumes "xs \<noteq> []" and "\<And>x. f (g x) = f x"
  shows "f (last (erase_where p g xs)) = f (last xs)"
  using assms by (simp add: erase_where_def last_map)

lemma erased_simps [simp]:
  "at_id (erased_attempt a) = at_id a" "at_phase_id (erased_attempt a) = at_phase_id a"
  "at_number (erased_attempt a) = at_number a" "at_request_id (erased_attempt a) = at_request_id a"
  "at_erased (erased_attempt a)" "erased_attempt (erased_attempt a) = erased_attempt a"
  "or_id (erased_output r) = or_id r" "or_phase_id (erased_output r) = or_phase_id r"
  "or_revision (erased_output r) = or_revision r" "or_attempt (erased_output r) = or_attempt r"
  "erased_output (erased_output r) = erased_output r"
  "ir_id (erased_input i) = ir_id i" "ir_sequence (erased_input i) = ir_sequence i" "erased_input (erased_input i) = erased_input i"
  "rr_id (erased_result_row u) = rr_id u" "erased_result_row (erased_result_row u) = erased_result_row u"
  by (simp_all add: erased_attempt_def erased_output_def erased_input_def erased_result_row_def erased_draft_def)

lemma erase_run_rows_simps [simp]:
  "rs_definition (erase_run_rows e s) = rs_definition s" "rs_revision (erase_run_rows e s) = rs_revision s"
  "rs_status (erase_run_rows e s) = rs_status s" "rs_phase (erase_run_rows e s) = rs_phase s"
  "rs_ordinal (erase_run_rows e s) = rs_ordinal s" "rs_bindings (erase_run_rows e s) = rs_bindings s"
  by (simp_all add: erase_run_rows_def)

lemma erase_phase_outputs: "phase_outputs (erase_run_rows e s) i = erase_where (\<lambda>r. or_id r \<in> set (ez_outputs e)) erased_output (phase_outputs s i)"
  unfolding phase_outputs_def by (simp add: erase_run_rows_def filter_erase_where)

lemma erase_phase_attempts: "phase_attempts (erase_run_rows e s) i = erase_where (\<lambda>a. at_id a \<in> set (ez_attempts e)) erased_attempt (phase_attempts s i)"
  unfolding phase_attempts_def by (simp add: erase_run_rows_def filter_erase_where)

lemma erase_numbers: "numbers_ok (erase_run_rows e s) = numbers_ok s"
  unfolding numbers_ok_def erase_phase_outputs erase_phase_attempts
  by (simp add: map_erase_where erase_run_rows_def)

lemma erase_binding: "binding_ok (erase_run_rows e s) i b = binding_ok s i b"
proof (cases "phase_outputs s i = []")
  case False
  then show ?thesis unfolding binding_ok_def erase_phase_outputs by (simp add: last_erase_where [OF False])
qed (simp add: binding_ok_def erase_phase_outputs)

lemma erase_stands_at: "stands_at (erase_run_rows e s) = stands_at s"
  by (rule ext) (rule stands_at_cong; simp)

lemma erase_run_rows_ok: "run_ok (erase_run_rows e s) = run_ok s"
  by (simp add: run_ok_def erase_numbers bindings_ok_def erase_binding position_ok_def erase_stands_at fresh_def)

lemma run_event_ok: "run_ok s \<Longrightarrow> run_event_step c v s = Inr s' \<Longrightarrow> run_ok s' \<and> rs_definition s' = rs_definition s"
  using run_step_ok by (cases v) (auto simp: erase_run_rows_ok)

interpretation event: guarded "run_event_step c" run_ok rs_revision event_expects
proof unfold_locales
  fix s v s' assume ok: "run_ok s" and step: "run_event_step c v s = Inr s'"
  show "run_ok s'" using run_event_ok [OF ok step] by simp
  show "rs_revision s \<le> rs_revision s'" using step run_step_ok [OF ok] by (cases v) auto
  show "r = rs_revision s \<and> rs_revision s < rs_revision s'" if "event_expects v = Some r" for r
    using that step run_step_ok [OF ok] run_step_expects by (cases v) auto
qed

lemma begin_run_ok:
  assumes "definition_validate d = Inr ()" and "begin_run_state d b = Inr s"
  shows "run_ok s \<and> rs_revision s = 1 \<and> rs_definition s = d"
proof -
  from assms(2) obtain first rest where d: "pd_phases d = first # rest"
    and s: "s = \<lparr>rs_definition = d, rs_revision = 1, rs_status = RunActive, rs_mode = chosen_mode b d,
        rs_phase = Some (ph_id first), rs_ordinal = Some (ph_ordinal first), rs_attempts = [], rs_outputs = [],
        rs_bindings = [], rs_inputs = [], rs_results = [], rs_erased = False\<rparr>"
    by (auto simp: begin_run_state_def split: list.splits)
  have "ph_ordinal first = 1" using definition_validate_ordinals(1) [OF assms(1)] d by force
  then have "\<not> ph_ordinal p < ph_ordinal first" if "p \<in> set (pd_phases d)" for p
    using phase_ordinal_range(1) [OF assms(1) that] by simp
  then have "stands_at s first" using d by (simp add: s stands_at_def)
  then have "position_ok s" by (auto simp: position_ok_def s)
  then show ?thesis using assms(1) s
    by (auto simp: run_ok_def bindings_ok_def numbers_ok_def phase_attempts_def phase_outputs_def)
qed

end
