(* ===== verification/RunExample.thy ===== *)
theory RunExample
  imports RunInvariant
begin

text \<open>
  Requests that move a run forward over phases that ask for nothing outside their output, and a run over two
  phases: the requests of the liveness property and the inputs of the witnesses about runs.
\<close>

section \<open>Forward completions\<close>

definition clear_context :: context_reading where
  "clear_context = \<lparr>ct_authorized = Inr (), ct_assembled = Inr ()\<rparr>"

definition all_clear :: outside_checks where
  "all_clear = \<lparr>ox_session = Inr (), ox_source_open = Inr (), ox_readiness = (\<lambda>_. None), ox_native_contract = Inr (),
     ox_open_checkpoint = False, ox_inquiry = Inr (), ox_knowledge = Inr (), ox_local_gate = Inr (), ox_lineage = Inr (),
     ox_backend_evidence = Inr (), ox_checkpoint = Inr (), ox_capture = Inr (), ox_publish = Inr (), ox_copies = Inr (),
     ox_returned = clear_context\<rparr>"

text \<open>
  An output that the checks on the run itself accept for its phase whatever the run holds: it needs no earlier
  review and no other reviewer, and the phase may be repeated.
\<close>

definition self_contained :: "codec \<Rightarrow> pipeline_definition \<Rightarrow> phase_definition \<Rightarrow> phase_output_draft \<Rightarrow> bool" where
  "self_contained c d ph out \<longleftrightarrow> pd_kind d \<noteq> FullDesignToExecution \<and> po_evidence_artifacts out = [] \<and>
     validate_output_integrity c out (pd_version d) = Inr () \<and>
     concat (map (required_reviews out) (ph_output_constraints ph)) = [] \<and>
     reviewer_independence_path ph out = None \<and> ph_retry_policy ph = Repeatable"

text \<open>The completion of a phase that goes on to the next one, or completes the run. A 0.7 version derives what was consumed.\<close>

definition onward_completion ::
    "pipeline_definition \<Rightarrow> phase_definition \<Rightarrow> uuid \<Rightarrow> uuid \<Rightarrow> int \<Rightarrow> phase_output_draft \<Rightarrow> complete_phase" where
  "onward_completion d ph request run revision out =
     (let final = (ph_ordinal ph = length (pd_phases d)) in
      \<lparr>cx_request_id = request, cx_run_id = run, cx_run_revision = revision, cx_phase_id = ph_id ph,
       cx_outcome = PhaseCompleted, cx_transition = (if final then Complete else Continue), cx_output = out,
       cx_consumed_outputs = [], cx_consumed_inputs = [], cx_revisit_phase_id = None, cx_escalation_target = None,
       cx_terminal_result = (if final then Some \<lparr>td_summary = ''s'', td_evidence = [\<lparr>se_kind = ''k'', se_reference = ''r'',
         se_observation = ''o''\<rparr>], td_scope_impact = ''i'', td_remaining_work = ''w''\<rparr> else None),
       cx_publish_blocked_result = False, cx_consumed_knowledge = None, cx_research_checkpoint = None\<rparr>)"

lemma onward_completion_simps [simp]:
  "cx_request_id (onward_completion d ph i r n out) = i" "cx_run_revision (onward_completion d ph i r n out) = n"
  "cx_phase_id (onward_completion d ph i r n out) = ph_id ph" "cx_output (onward_completion d ph i r n out) = out"
  "cx_outcome (onward_completion d ph i r n out) = PhaseCompleted"
  "cx_revisit_phase_id (onward_completion d ph i r n out) = None"
  "cx_transition (onward_completion d ph i r n out) = (if ph_ordinal ph = length (pd_phases d) then Complete else Continue)"
  "cx_terminal_result (onward_completion d ph i r n out) = None \<longleftrightarrow> ph_ordinal ph \<noteq> length (pd_phases d)"
  by (simp_all add: onward_completion_def Let_def)

lemma phase_checks_self_contained:
  assumes "self_contained c (rs_definition s) ph (cx_output req)" and "is_07 (rs_definition s)"
  shows "phase_checks c all_clear sp req ph plan s = Inr ()"
proof -
  have "validate_review_authorization s ph (cx_output req) (Inr ()) = Inr ()"
    using assms(1) by (simp add: validate_review_authorization_def self_contained_def check_simps btree_list_def)
  then show ?thesis
    using assms
    by (simp add: phase_checks_def Let_def all_clear_def self_contained_def checks_Inr_Cons refuse_if_Inr
        ledger_checks_def validate_reviewer_boundary_def enforce_retry_policy_def)
qed

text \<open>A request at the current phase, with a self-contained output and a plan, is accepted.\<close>

lemma self_contained_accepted:
  assumes ok: "run_ok s" and ph: "ph \<in> set (pd_phases (rs_definition s))" "rs_phase s = Some (ph_id ph)"
    and live: "rs_status s \<in> {RunActive, RunWaitingInput, RunBlocked}" "\<not> rs_erased s"
    and current: "is_07 (rs_definition s)" "\<not> is_retired_lightweight (rs_definition s)"
    and req: "cx_run_revision req = rs_revision s" "cx_phase_id req = ph_id ph"
      "published sp req \<noteq> [] \<Longrightarrow> cx_terminal_result req \<noteq> None"
    and out: "self_contained c (rs_definition s) ph (cx_output req)" and room: "rs_revision s < i64_max"
    and plan: "plan_next_state req (rs_definition s) ph = Inr plan"
  shows "complete_run_phase c all_clear sp req s =
     Inr (move_to plan (rs_revision s + 1) (published sp req) (record_attempt sp req ph s))"
proof -
  have d: "definition_validate (rs_definition s) = Inr ()" and rev: "1 \<le> rs_revision s" using ok by (simp_all add: run_ok_def)
  have guards: "phase_guards all_clear req s = Inr ()"
    using live current(2) req ph(2)
    by (auto simp: phase_guards_def all_clear_def checks_Inr_Cons refuse_if_Inr ensure_mutable_Inr)
  have found: "List.find (\<lambda>p. ph_id p = cx_phase_id req) (pd_phases (rs_definition s)) = Some ph"
  proof (cases "List.find (\<lambda>p. ph_id p = cx_phase_id req) (pd_phases (rs_definition s))")
    case None
    with ph(1) req(2) show ?thesis by (auto simp: find_None_iff)
  next
    case (Some p)
    with find_phase [OF Some] phase_unique [OF d _ ph(1)] req(2) show ?thesis by simp
  qed
  have next_revision: "checked_add_i64 (rs_revision s) 1 = Some (rs_revision s + 1)"
    using rev room by (simp add: checked_add_i64_def in_i64_def i64_min_def i64_max_def)
  have rest: "each (readiness_check all_clear) (po_evidence_artifacts (cx_output req)) = Inr ()"
    "checks [ox_checkpoint all_clear, ox_capture all_clear,
       (if published sp req = [] then Inr ()
        else checks [refuse_if (cx_terminal_result req = None) InvalidArguments, ox_publish all_clear]),
       ox_copies all_clear, load_run_context (ox_returned all_clear) s] = Inr ()"
    using out req(3) live(2)
    by (simp_all add: self_contained_def all_clear_def clear_context_def load_run_context_def each_def checks_Inr_Cons refuse_if_Inr)
  show ?thesis
    unfolding complete_run_phase_def guards found rest plan next_revision
      phase_checks_self_contained [OF out current(1), of sp plan] andThen_simps ok_or_simps ..
qed

lemma forward_plan:
  assumes d: "definition_validate d = Inr ()" and ph: "ph \<in> set (pd_phases d)"
  obtains "ph_ordinal ph = length (pd_phases d)"
      "plan_next_state (onward_completion d ph i r n out) d ph = Inr (finish_as RunCompleted)"
  | t where "ph_ordinal ph \<noteq> length (pd_phases d)" "t \<in> set (pd_phases d)" "ph_ordinal t = ph_ordinal ph + 1"
      "plan_next_state (onward_completion d ph i r n out) d ph = Inr (go_to RunActive t None)"
proof (cases "ph_ordinal ph = length (pd_phases d)")
  case True
  then show thesis by (intro that(1)) (simp_all add: plan_next_state_def)
next
  case False
  with phase_ordinal_range [OF d ph] have "ph_ordinal ph < length (pd_phases d)" by simp
  then have "ph_ordinal (pd_phases d ! ph_ordinal ph) = ph_ordinal ph + 1" "pd_phases d ! ph_ordinal ph \<in> set (pd_phases d)"
    using definition_validate_ordinals(1) [OF d] by auto
  then obtain t where t: "List.find (\<lambda>p. ph_ordinal p = ph_ordinal ph + 1) (pd_phases d) = Some t"
    by (cases "List.find (\<lambda>p. ph_ordinal p = ph_ordinal ph + 1) (pd_phases d)") (auto simp: find_None_iff)
  with find_phase [OF t] False show thesis by (intro that(2) [of t]) (simp_all add: plan_next_state_def resolve_revisit_def)
qed

lemma forward_published:
  "published sp (onward_completion d ph i r n out) \<noteq> [] \<Longrightarrow> cx_terminal_result (onward_completion d ph i r n out) \<noteq> None"
  by (auto simp: published_def split: if_splits)

section \<open>A run over two phases\<close>

definition plain_output :: phase_output_draft where
  "plain_output = \<lparr>po_body = ''b'', po_producer_context_id = ''p'', po_fields = (\<lambda>_. None), po_verdict = None,
     po_dispositions = [], po_skill_reads = [], po_resource_reads = [], po_artifacts = [], po_evidence_artifacts = [],
     po_validator_receipts = [], po_followup_proposal = None, po_reviewer_context = None, po_reference = None,
     po_knowledge_publication = None\<rparr>"

definition next_stamp :: stamp where
  "next_stamp = \<lparr>sp_session = 1, sp_attempt_id = 2, sp_output_id = 3, sp_result_id = 4, sp_digest = ''d'', sp_now = 0\<rparr>"

definition current_definition :: pipeline_definition where
  "current_definition = example_definition\<lparr>pd_version := ''0.7.0''\<rparr>"

lemma current_definition_valid: "definition_validate current_definition = Inr ()"
  unfolding definition_validate_def
  by (simp add: check_simps definition_header_check_def validate_instruction_def example_definition_def
      current_definition_def example_instruction_def plain_phase_def is_ascii_graphic_def byte_def phase_check_def
      ordinal_check_def phase_ordinal_def list_duplicates_check_def list_blanks_check_def route_check_def
      route_transition_check_def instruction_check_def is_07_def validate_artifact_definition_def
      validate_validator_definition_def validate_followup_definitions_def backward_check_def
      validate_definition_constraints_def All_less_Suc seen_before_def Let_def)

definition example_codec :: codec where
  "example_codec = \<lparr>cd_from_str = (\<lambda>_. None), cd_output_length = (\<lambda>_. Some 1), cd_definition_bytes = (\<lambda>_. None),
     cd_sha256 = (\<lambda>_. []), cd_show_uuid = (\<lambda>_. [])\<rparr>"

definition example_begin :: begin_run where
  "example_begin = \<lparr>bg_request_id = 1, bg_scope_id = 2, bg_slice_id = 3, bg_slice_revision = 1, bg_delivery_mode = None,
     bg_definition_version = None, bg_inquiry = None, bg_source_checkpoint = None, bg_qualification_reason = ''q''\<rparr>"

definition example_run :: run_state where
  "example_run = \<lparr>rs_definition = current_definition, rs_revision = 1, rs_status = RunActive, rs_mode = Whole,
     rs_phase = Some ''plan'', rs_ordinal = Some 1, rs_attempts = [], rs_outputs = [], rs_bindings = [],
     rs_inputs = [], rs_results = [], rs_erased = False\<rparr>"

lemma example_begun: "begin_run_state current_definition example_begin = Inr example_run"
  by (simp add: begin_run_state_def current_definition_def example_definition_def example_run_def chosen_mode_def
      example_begin_def plain_phase_def)

definition plan_phase :: phase_definition where "plan_phase = pd_phases current_definition ! 0"
definition build_phase :: phase_definition where "build_phase = pd_phases current_definition ! 1"

definition plan_completion :: complete_phase where
  "plan_completion = onward_completion current_definition plan_phase 1 1 1 (plain_output\<lparr>po_verdict := Some ''ready''\<rparr>)"

definition build_completion :: complete_phase where
  "build_completion = onward_completion current_definition build_phase 2 1 2 (plain_output\<lparr>po_verdict := Some ''done''\<rparr>)"

text \<open>The second phase sends the work back to the first.\<close>

definition back_to_plan :: complete_phase where
  "back_to_plan = build_completion\<lparr>cx_output := plain_output\<lparr>po_verdict := Some ''again''\<rparr>, cx_transition := Continue,
     cx_terminal_result := None, cx_revisit_phase_id := Some ''plan''\<rparr>"

definition after_plan :: run_state where
  "after_plan = move_to (go_to RunActive build_phase None) 2 [] (record_attempt next_stamp plan_completion plan_phase example_run)"

definition example_requests :: "run_request list" where
  "example_requests = [CompletePhase all_clear next_stamp plan_completion, CompletePhase all_clear next_stamp build_completion]"

lemma example_phases: "pd_phases current_definition = [plan_phase, build_phase]" "ph_id plan_phase = ''plan''"
    "ph_ordinal plan_phase = 1" "ph_id build_phase = ''build''" "ph_ordinal build_phase = 2"
    "ph_allowed_backward_to build_phase = [''plan'']"
  by (simp_all add: current_definition_def example_definition_def plain_phase_def plan_phase_def build_phase_def)

lemma example_current: "is_07 current_definition" "\<not> is_retired_lightweight current_definition"
  by (simp_all add: current_definition_def example_definition_def is_07_def is_retired_lightweight_def)

lemma example_self_contained:
  assumes "ph \<in> set (pd_phases current_definition)"
  shows "self_contained example_codec current_definition ph (plain_output\<lparr>po_verdict := Some v\<rparr>)"
  using assms
  by (auto simp: self_contained_def current_definition_def example_definition_def plain_phase_def plain_output_def example_codec_def
      validate_output_integrity_def reviewer_independence_path_def List.map_filter_def check_simps MAX_PIPELINE_OUTPUT_BYTES_def)

lemma example_run_ok: "run_ok example_run"
  using begin_run_ok [OF current_definition_valid example_begun] by simp

lemma example_plan_done: "complete_run_phase example_codec all_clear next_stamp plan_completion example_run = Inr after_plan"
proof -
  have "plan_next_state plan_completion current_definition plan_phase = Inr (go_to RunActive build_phase None)"
    by (simp add: plan_next_state_def plan_completion_def example_phases resolve_revisit_def)
  moreover have "published next_stamp plan_completion = []"
    by (simp add: published_def plan_completion_def example_phases)
  ultimately show ?thesis
    using self_contained_accepted [OF example_run_ok, of plan_phase plan_completion next_stamp example_codec]
      example_self_contained [of plan_phase "''ready''"]
    by (simp add: example_run_def example_phases example_current i64_max_def after_plan_def plan_completion_def)
qed

lemma after_plan_ok: "run_ok after_plan"
  using complete_run_phase_ok [OF example_run_ok example_plan_done] by simp

lemma after_plan_simps:
  "rs_definition after_plan = current_definition" "rs_phase after_plan = Some ''build''" "rs_status after_plan = RunActive"
  "rs_revision after_plan = 2" "rs_ordinal after_plan = Some 2" "\<not> rs_erased after_plan"
  by (simp_all add: after_plan_def go_to_def example_run_def example_phases) (simp add: move_to_def record_attempt_def Let_def)

lemma after_plan_accepts:
  assumes "cx_run_revision req = 2" "cx_phase_id req = ''build''" "cx_output req = plain_output\<lparr>po_verdict := Some v\<rparr>"
    and "published next_stamp req \<noteq> [] \<Longrightarrow> cx_terminal_result req \<noteq> None"
    and "plan_next_state req current_definition build_phase = Inr plan"
  shows "complete_run_phase example_codec all_clear next_stamp req after_plan =
    Inr (move_to plan 3 (published next_stamp req) (record_attempt next_stamp req build_phase after_plan))"
  using self_contained_accepted [OF after_plan_ok, of build_phase req next_stamp example_codec plan] assms
    example_self_contained [of build_phase v]
  by (simp add: after_plan_simps example_phases example_current i64_max_def)

lemma example_completed:
  "rs_status (history (run_step example_codec) example_run example_requests) = RunCompleted"
proof -
  have "plan_next_state build_completion current_definition build_phase = Inr (finish_as RunCompleted)"
    by (simp add: plan_next_state_def build_completion_def example_phases)
  then show ?thesis
    using example_plan_done after_plan_accepts [of build_completion "''done''"] forward_published
    by (simp add: example_requests_def build_completion_def finish_as_def example_phases)
qed

lemma example_rework:
  "\<exists>s'. complete_run_phase example_codec all_clear next_stamp back_to_plan after_plan = Inr s'"
proof -
  have "plan_next_state back_to_plan current_definition build_phase = Inr (go_to RunActive plan_phase (Some 1))"
    by (simp add: plan_next_state_def back_to_plan_def build_completion_def example_phases resolve_revisit_def)
  moreover have "published next_stamp back_to_plan = []" by (simp add: published_def back_to_plan_def)
  ultimately show ?thesis
    using after_plan_accepts [of back_to_plan "''again''"] by (simp add: back_to_plan_def build_completion_def example_phases)
qed

end
