(* ===== verification/RunSafety.thy ===== *)
theory RunSafety
  imports RunExample
begin

text \<open>
  The properties of pipeline runs under arbitrary sequences of requests and erasures: the invariant, concurrency,
  what becomes of the rows of a run, what rework invalidates, and exact replay.
\<close>

section \<open>Invariant and concurrency\<close>

text \<open>
  C1: from its beginning on a validated definition, and under any sequence of requests, accepted or refused, and of
  erasures of its rows, a run stands at a phase of its definition with every earlier phase done and no later output
  fresh, or has ended; each phase is bound to its newest output; and attempts, outputs and inputs are numbered
  without gaps.
\<close>

theorem runs_keep_invariant:
  assumes "definition_validate d = Inr ()" and "begin_run_state d b = Inr s"
  shows "run_ok (history (run_event_step c) s events)"
  using begin_run_ok [OF assms] event.history_inv by blast

text \<open>
  C4: of two requests prepared against the same revision of a run at most one is ever accepted, whatever
  requests and erasures come in between.
\<close>

theorem run_update_never_lost:
  assumes "run_ok s" and "run_expects a = Some n" and "run_expects b = Some n" and "run_step c a s = Inr s'"
  shows "\<exists>e. run_step c b (history (run_event_step c) s' between) = Inl e"
  using event.no_lost_update [of s "RunRequested a" n "RunRequested b" c s' between] assms by simp

lemma accepted_live:
  assumes "run_ok s \<or> (\<forall>k. r \<noteq> RefreshKnowledge k)" and "run_step c r s = Inr s'"
  shows "rs_status s \<notin> {RunCompleted, RunEscalated, RunSuperseded}"
proof (cases r)
  case (RefreshKnowledge k)
  with assms refresh_run_knowledge_Inr [of k s s'] phase_live [of s] show ?thesis by auto
qed (use assms(2) in \<open>auto simp: andThen_Inr elim!: complete_run_phase_Inr record_run_input_Inr
    dest!: resolve_run_checkpoint_Inr escalate_run_delivery_Inr migrate_run_Inr\<close>)

text \<open>
  C7: a run that is completed, escalated or superseded refuses every request that would change it, whatever the
  other tables say. A completed or escalated run refuses the refresh of its knowledge because it stands at no
  phase, which the invariant tells; all else is refused for the status itself.
\<close>

theorem ended_run_refuses_everything:
  assumes "rs_status s \<in> {RunCompleted, RunEscalated, RunSuperseded}"
    and "run_ok s \<or> (\<forall>k. r \<noteq> RefreshKnowledge k)"
  shows "\<exists>e. run_step c r s = Inl e"
  using accepted_live [OF assms(2), of c] assms(1) by (cases "run_step c r s") auto

section \<open>History\<close>

text \<open>
  What becomes of rows: those that were there stay at their places, as they are or, when they are named, erased; rows
  are added at the end.
\<close>

definition rows_kept :: "('a \<Rightarrow> bool) \<Rightarrow> ('a \<Rightarrow> 'a) \<Rightarrow> 'a list \<Rightarrow> 'a list \<Rightarrow> bool" where
  "rows_kept named f xs ys \<longleftrightarrow> length xs \<le> length ys \<and>
     list_all2 (\<lambda>x y. y = x \<or> named x \<and> y = f x) xs (take (length xs) ys)"

lemma rows_kept_iff:
  "rows_kept named f xs ys \<longleftrightarrow> length xs \<le> length ys \<and> (\<forall>n<length xs. ys ! n = xs ! n \<or> named (xs ! n) \<and> ys ! n = f (xs ! n))"
  by (auto simp: rows_kept_def list_all2_conv_all_nth)

lemma rows_kept_prefix: "prefix xs ys \<Longrightarrow> rows_kept named f xs ys"
  by (auto simp: rows_kept_iff prefix_def nth_append)

lemma rows_kept_erase: "(\<And>x. p x \<Longrightarrow> named x) \<Longrightarrow> rows_kept named f xs (erase_where p f xs)"
  by (auto simp: rows_kept_iff erase_where_def)

lemma rows_kept_trans:
  assumes "rows_kept p f xs ys" and "rows_kept q f ys zs" and "\<And>x. f (f x) = f x"
    and "\<And>x. q (f x) = q x" and "\<And>x. p x \<or> q x \<Longrightarrow> named x"
  shows "rows_kept named f xs zs"
  unfolding rows_kept_iff
proof (intro conjI allI impI)
  show "length xs \<le> length zs" using assms(1,2) by (simp add: rows_kept_iff)
  fix n assume n: "n < length xs"
  then have "n < length ys" using assms(1) by (simp add: rows_kept_iff)
  with n have "ys ! n = xs ! n \<or> p (xs ! n) \<and> ys ! n = f (xs ! n)" "zs ! n = ys ! n \<or> q (ys ! n) \<and> zs ! n = f (ys ! n)"
    using assms(1,2) by (simp_all add: rows_kept_iff)
  then show "zs ! n = xs ! n \<or> named (xs ! n) \<and> zs ! n = f (xs ! n)" using assms(3-5) by metis
qed

text \<open>The rows that the erasures among some events name\<close>

fun erasure_of :: "run_event \<Rightarrow> row_erasure option" where
  "erasure_of (RunRequested r) = None"
| "erasure_of (RowsErased e) = Some e"

definition erased_in :: "(row_erasure \<Rightarrow> uuid list) \<Rightarrow> run_event list \<Rightarrow> uuid \<Rightarrow> bool" where
  "erased_in ids events i \<longleftrightarrow> list_ex (\<lambda>e. i \<in> set (ids e)) (List.map_filter erasure_of events)"

lemma erased_in_simps [simp]:
  "\<not> erased_in ids [] i" "erased_in ids (RunRequested r # events) i = erased_in ids events i"
  "erased_in ids (RowsErased e # events) i \<longleftrightarrow> i \<in> set (ids e) \<or> erased_in ids events i"
  by (simp_all add: erased_in_def List.map_filter_simps)

definition run_kept :: "run_event list \<Rightarrow> run_state \<Rightarrow> run_state \<Rightarrow> bool" where
  "run_kept events s s' \<longleftrightarrow> rs_definition s' = rs_definition s \<and>
     rows_kept (erased_in ez_attempts events \<circ> at_id) erased_attempt (rs_attempts s) (rs_attempts s') \<and>
     rows_kept (erased_in ez_outputs events \<circ> or_id) erased_output (rs_outputs s) (rs_outputs s') \<and>
     rows_kept (erased_in ez_inputs events \<circ> ir_id) erased_input (rs_inputs s) (rs_inputs s') \<and>
     rows_kept (erased_in ez_results events \<circ> rr_id) erased_result_row (rs_results s) (rs_results s')"

lemma run_kept_refl: "run_kept events s s"
  by (simp add: run_kept_def rows_kept_prefix)

lemma run_kept_step:
  assumes "run_kept [v] s s1" and "run_kept events s1 s2"
  shows "run_kept (v # events) s s2"
proof -
  have named: "erased_in ids [v] i \<or> erased_in ids events i \<Longrightarrow> erased_in ids (v # events) i" for ids i
    by (cases v) auto
  note trans = rows_kept_trans [where p = "erased_in ids [v] \<circ> key" and q = "erased_in ids events \<circ> key"
      and named = "erased_in ids (v # events) \<circ> key" for ids key]
  show ?thesis unfolding run_kept_def
    by (intro conjI; (rule trans [where ys = "rs_attempts s1"] trans [where ys = "rs_outputs s1"]
        trans [where ys = "rs_inputs s1"] trans [where ys = "rs_results s1"])?)
      (use assms in \<open>simp_all add: run_kept_def named\<close>)
qed

definition extends :: "run_state \<Rightarrow> run_state \<Rightarrow> bool" where
  "extends s s' \<longleftrightarrow> rs_definition s' = rs_definition s \<and> prefix (rs_attempts s) (rs_attempts s') \<and>
     prefix (rs_outputs s) (rs_outputs s') \<and> prefix (rs_inputs s) (rs_inputs s') \<and> prefix (rs_results s) (rs_results s')"

lemma record_attempt_extends: "extends s (move_to plan revision results (record_attempt sp req ph s))"
  by (simp add: extends_def move_to_def record_attempt_def Let_def)

lemma add_input_extends: "extends s (add_input i phase digest request now s)"
  by (simp add: extends_def add_input_def)

lemma run_step_extends:
  assumes "run_step c r s = Inr s'"
  shows "extends s s'"
proof (cases r)
  case (CompletePhase ox sp req)
  with assms show ?thesis by (auto elim!: complete_run_phase_Inr simp: record_attempt_extends)
next
  case (RecordInput ix req)
  with assms have "record_run_input c ix req s = Inr s'" by simp
  then show ?thesis
    by (cases rule: record_run_input_Inr)
      (use add_input_extends [of s] in \<open>auto simp: extends_def\<close>)
next
  case (ResolveCheckpoint z)
  with assms show ?thesis by (auto dest!: resolve_run_checkpoint_Inr simp: add_input_extends)
next
  case (EscalateDelivery before returned req)
  with assms show ?thesis by (auto dest!: escalate_run_delivery_Inr simp: extends_def)
next
  case (MigrateRun before migrated cmd d)
  with assms show ?thesis by (auto simp: andThen_Inr extends_def dest!: migrate_run_Inr)
next
  case (RefreshKnowledge k)
  with assms show ?thesis by (auto dest!: refresh_run_knowledge_Inr simp: extends_def)
qed

lemma event_kept: "run_event_step c v s = Inr s' \<Longrightarrow> run_kept [v] s s'"
proof (cases v)
  case (RunRequested r)
  assume "run_event_step c v s = Inr s'"
  with RunRequested have "extends s s'" using run_step_extends by simp
  then show ?thesis by (simp add: run_kept_def extends_def rows_kept_prefix)
next
  case (RowsErased e)
  assume "run_event_step c v s = Inr s'"
  with RowsErased have "s' = erase_run_rows e s" by simp
  then show ?thesis by (simp add: run_kept_def erase_run_rows_def RowsErased rows_kept_erase)
qed

lemma history_kept: "run_kept events s (history (run_event_step c) s events)"
proof (induction events arbitrary: s)
  case Nil
  show ?case by (simp add: run_kept_refl)
next
  case (Cons v events)
  have "run_kept [v] s (attempt (run_event_step c) s v)"
    using event_kept by (cases "run_event_step c v s") (auto simp: run_kept_refl)
  with Cons.IH show ?case using run_kept_step by simp
qed

lemma requests_history: "history (run_event_step c) s (map RunRequested requests) = history (run_step c) s requests"
  by (induction requests arbitrary: s) (simp_all add: attempt_def)

text \<open>
  C20: what a run has recorded stays: its pinned definition never changes, and its attempts, outputs, inputs and
  published results stay at their places, each as it was recorded or, if an erasure named it, with its payload
  cleared and its keys and numbers kept; everything else is only ever appended.
\<close>

theorem run_history_append_only:
  "rs_definition (history (run_event_step c) s events) = rs_definition s \<and>
   rows_kept (erased_in ez_attempts events \<circ> at_id) erased_attempt (rs_attempts s)
     (rs_attempts (history (run_event_step c) s events)) \<and>
   rows_kept (erased_in ez_outputs events \<circ> or_id) erased_output (rs_outputs s)
     (rs_outputs (history (run_event_step c) s events)) \<and>
   rows_kept (erased_in ez_inputs events \<circ> ir_id) erased_input (rs_inputs s)
     (rs_inputs (history (run_event_step c) s events)) \<and>
   rows_kept (erased_in ez_results events \<circ> rr_id) erased_result_row (rs_results s)
     (rs_results (history (run_event_step c) s events))"
  using history_kept [of events s c] by (simp add: run_kept_def)

lemma history_definition: "rs_definition (history (run_event_step c) s events) = rs_definition s"
  using history_kept [of events s c] by (simp add: run_kept_def)

text \<open>
  C3: a run that was begun on a validated definition and has completed carries, for every phase of the
  definition, an attempt and a fresh binding to the newest output of that phase, which that attempt produced.
\<close>

theorem completed_run_did_every_phase:
  assumes "definition_validate d = Inr ()" and "begin_run_state d b = Inr s"
    and "rs_status (history (run_event_step c) s events) = RunCompleted" and "ph \<in> set (pd_phases d)"
  shows "\<exists>bd out a. map_of (rs_bindings (history (run_event_step c) s events)) (ph_id ph) = Some bd \<and> \<not> bd_stale bd \<and>
     out = last (phase_outputs (history (run_event_step c) s events) (ph_id ph)) \<and>
     out \<in> set (rs_outputs (history (run_event_step c) s events)) \<and> or_id out = bd_output bd \<and>
     a \<in> set (phase_attempts (history (run_event_step c) s events) (ph_id ph)) \<and> at_id a = or_attempt out"
proof -
  let ?h = "history (run_event_step c) s events"
  have ok: "run_ok ?h" using begin_run_ok [OF assms(1,2)] event.history_inv by blast
  have d: "rs_definition ?h = d"
    using begin_run_ok [OF assms(1,2)] by (simp add: history_definition)
  have "fresh ?h (ph_id ph)"
    using ok d assms(3,4) by (simp add: run_ok_def position_ok_def)
  then obtain bd where bd: "map_of (rs_bindings ?h) (ph_id ph) = Some bd" "\<not> bd_stale bd"
    by (auto simp: fresh_def split: option.splits)
  with ok have "binding_ok ?h (ph_id ph) bd" by (simp add: run_ok_def bindings_ok_map_of)
  then have out: "phase_outputs ?h (ph_id ph) \<noteq> []" "or_id (last (phase_outputs ?h (ph_id ph))) = bd_output bd"
    by (simp_all add: binding_ok_def)
  then have mem: "last (phase_outputs ?h (ph_id ph)) \<in> set (phase_outputs ?h (ph_id ph))" by (rule_tac last_in_set)
  have "map or_attempt (phase_outputs ?h (ph_id ph)) = map at_id (phase_attempts ?h (ph_id ph))"
    using ok by (simp add: run_ok_def numbers_ok_def)
  then have "or_attempt ` set (phase_outputs ?h (ph_id ph)) = at_id ` set (phase_attempts ?h (ph_id ph))"
    by (metis set_map)
  with mem obtain a where "a \<in> set (phase_attempts ?h (ph_id ph))" "at_id a = or_attempt (last (phase_outputs ?h (ph_id ph)))"
    by (metis (mono_tags, lifting) image_iff)
  with bd out mem show ?thesis by (auto simp: phase_outputs_def)
qed

section \<open>Rework\<close>

text \<open>
  C5: going back to an earlier phase keeps exactly the work before it: the run stands at the target, and the
  phases that still have a fresh output are those before the target, no others.
\<close>

theorem rework_keeps_exactly_earlier_work:
  assumes "run_ok s" and "complete_run_phase c ox sp req s = Inr s'" and "cx_revisit_phase_id req = Some target"
    and "cx_transition req = Continue" and "cx_outcome req \<noteq> PhaseBlocked"
  shows "\<exists>t\<in>set (pd_phases (rs_definition s)). ph_id t = target \<and> rs_phase s' = Some target \<and> rs_status s' = RunActive \<and>
     rs_ordinal s' = Some (ph_ordinal t) \<and>
     {p \<in> set (pd_phases (rs_definition s)). fresh s' (ph_id p)} = {p \<in> set (pd_phases (rs_definition s)). ph_ordinal p < ph_ordinal t}"
  using assms(2)
proof (cases rule: complete_run_phase_Inr)
  case (1 ph plan)
  note ok' = complete_run_phase_ok [OF assms(1,2)]
  from 1(6) assms(3-5) obtain t where t: "t \<in> set (pd_phases (rs_definition s))" "ph_id t = target"
      "plan = go_to RunActive t (Some (ph_ordinal t))"
    by (auto simp: plan_next_state_def resolve_revisit_def andThen_Inr split: if_splits option.splits dest!: find_phase)
  have "rs_status s' = RunActive" "rs_phase s' = Some (ph_id t)" "rs_ordinal s' = Some (ph_ordinal t)"
    by (simp_all add: 1(8) t(3) go_to_def)
  with ok' t(1) have at: "stands_at s' t"
    using live_stands_at [of s'] stands_at_unique [of s'] by auto
  have bs: "rs_bindings s' = stale_from (ph_ordinal t) (rs_bindings (record_attempt sp req ph s))"
    by (simp add: 1(8) t(3) go_to_def apply_rework_def)
  have "\<not> fresh s' (ph_id p)" if "p \<in> set (pd_phases (rs_definition s))" "ph_ordinal t \<le> ph_ordinal p" for p
  proof
    assume "fresh s' (ph_id p)"
    then obtain b where b: "map_of (rs_bindings s') (ph_id p) = Some b" "\<not> bd_stale b"
      by (auto simp: fresh_def split: option.splits)
    from ok' b(1) have "binding_ok s' (ph_id p) b" by (simp add: run_ok_def bindings_ok_map_of)
    then obtain q where "q \<in> set (pd_phases (rs_definition s))" "ph_id q = ph_id p" "ph_ordinal q = bd_ordinal b"
      using ok' unfolding binding_ok_def by auto
    with phase_unique [of "rs_definition s" q p] assms(1) that(1) have "bd_ordinal b = ph_ordinal p" by (simp add: run_ok_def)
    moreover obtain b0 where "b = (if ph_ordinal t \<le> bd_ordinal b0 then b0\<lparr>bd_stale := True\<rparr> else b0)"
      using b(1) by (auto simp: bs map_of_stale_from)
    ultimately show False using b(2) that(2) by (simp split: if_splits)
  qed
  moreover have "fresh s' (ph_id p)" if "p \<in> set (pd_phases (rs_definition s))" "ph_ordinal p < ph_ordinal t" for p
    using at that ok' by (simp add: stands_at_def)
  ultimately have "{p \<in> set (pd_phases (rs_definition s)). fresh s' (ph_id p)} =
      {p \<in> set (pd_phases (rs_definition s)). ph_ordinal p < ph_ordinal t}"
    by (auto simp: not_le [symmetric])
  with t \<open>rs_status s' = RunActive\<close> \<open>rs_phase s' = Some (ph_id t)\<close> \<open>rs_ordinal s' = Some (ph_ordinal t)\<close>
  show ?thesis by auto
qed

section \<open>Exact replay\<close>

lemma find_append: "List.find P (xs @ ys) = (case List.find P xs of None \<Rightarrow> List.find P ys | Some x \<Rightarrow> Some x)"
  by (induction xs) simp_all

lemma find_kept:
  assumes "rows_kept named f xs ys" and "List.find P xs = Some x" and "\<And>x. P (f x) = P x"
  obtains y where "List.find P ys = Some y" "y = x \<or> y = f x"
proof -
  from assms(2) obtain n where n: "n < length xs" "x = xs ! n" "P (xs ! n)" "\<forall>m<n. \<not> P (xs ! m)"
    by (auto simp: find_Some_iff)
  have kept: "n < length ys" "ys ! m = xs ! m \<or> ys ! m = f (xs ! m)" if "m \<le> n" for m
    using assms(1) n(1) that by (auto simp: rows_kept_iff dest!: spec [of _ m])
  have P: "P (ys ! m) = P (xs ! m)" if "m \<le> n" for m using kept(2) [OF that] assms(3) by metis
  have "List.find P ys = Some (ys ! n)"
    using n kept(1) [of n] P by (auto simp: find_Some_iff intro!: exI [of _ n])
  with kept(2) [of n] n(2) show thesis by (intro that) auto
qed

text \<open>
  C6: a phase completion takes effect once. After it was carried out, and whatever requests and erasures came since,
  the run keeps an attempt of this request, and sending it again changes nothing: it is answered from that attempt
  after the context of the run was read again, with the errors that this may have, or refused because the attempt
  was erased.
\<close>

theorem completion_takes_effect_once:
  assumes "submit_phase c ox sp elsewhere req s = Inr (s', False)"
    and "h = history (run_event_step c) s' events"
  shows "\<exists>a\<in>set (rs_attempts h). at_request_id a = cx_request_id req \<and> (at_erased a \<or> at_request a = Some req) \<and>
     submit_phase c ox' sp' elsewhere' req h =
       (if at_erased a then Inl KnowledgePayloadErased
        else andThen (checks [ox_session ox', load_run_context (ox_returned ox') h]) (\<lambda>_. Inr (h, True)))"
proof -
  let ?same = "\<lambda>a. at_request_id a = cx_request_id req"
  from assms(1) have none: "List.find ?same (rs_attempts s) = None" and done_once: "complete_run_phase c ox sp req s = Inr s'"
    by (auto simp: submit_phase_def check_simps find_append split: option.splits)
  from done_once obtain a where a: "rs_attempts s' = rs_attempts s @ [a]" "?same a" "at_request a = Some req" "\<not> at_erased a"
    by (cases rule: complete_run_phase_Inr) (auto simp: record_attempt_def Let_def)
  then have found: "List.find ?same (rs_attempts s') = Some a" using none by (simp add: find_append)
  have "rows_kept (erased_in ez_attempts events \<circ> at_id) erased_attempt (rs_attempts s') (rs_attempts h)"
    using history_kept [of events s' c] by (simp add: run_kept_def assms(2))
  then obtain b where b: "List.find ?same (rs_attempts h) = Some b" "b = a \<or> b = erased_attempt a"
    by (rule find_kept [OF _ found]) auto
  have mem: "b \<in> set (rs_attempts h)" "?same b" using find_phase [OF b(1)] by simp_all
  have "at_erased b \<or> at_request b = Some req" using b(2) a(3) by auto
  with mem b(1) show ?thesis
    by (intro bexI [of _ b]) (auto simp: submit_phase_def find_append refuse_if_def)
qed

section \<open>Witnesses\<close>

definition example_escalation :: run_request where
  "example_escalation = EscalateDelivery clear_context clear_context
     \<lparr>es_request_id = 1, es_run_id = 1, es_run_revision = 1, es_phase_id = ''plan'', es_reason = ''r''\<rparr>"

theorem runs_keep_invariant_witness: "run_ok (history (run_event_step example_codec) example_run (map RunRequested example_requests))"
  by (rule runs_keep_invariant [OF current_definition_valid example_begun])

theorem run_update_never_lost_witness:
  "\<exists>e. run_step example_codec example_escalation after_plan = Inl e"
proof -
  have accepted: "run_step example_codec (CompletePhase all_clear next_stamp plan_completion) example_run = Inr after_plan"
    using example_plan_done by simp
  have expected: "run_expects (CompletePhase all_clear next_stamp plan_completion) = Some 1"
    by (simp add: plan_completion_def)
  have "run_expects example_escalation = Some 1" by (simp add: example_escalation_def)
  from run_update_never_lost [OF example_run_ok expected this accepted, of "[]"] show ?thesis by simp
qed

lemma example_requests_history:
  "history (run_event_step example_codec) example_run (map RunRequested example_requests) =
   history (run_step example_codec) example_run example_requests"
  by (rule requests_history)

theorem ended_run_refuses_everything_witness:
  "\<exists>e. run_step example_codec example_escalation (history (run_step example_codec) example_run example_requests) = Inl e"
  by (rule ended_run_refuses_everything) (use run.history_inv [OF example_run_ok] example_completed in auto)

theorem completed_run_did_every_phase_witness:
  "\<exists>bd. map_of (rs_bindings (history (run_step example_codec) example_run example_requests)) ''build'' = Some bd \<and> \<not> bd_stale bd"
  using completed_run_did_every_phase [OF current_definition_valid example_begun, of example_codec "map RunRequested example_requests"
      build_phase] example_completed
  by (auto simp: example_phases example_requests_history)

theorem rework_keeps_exactly_earlier_work_witness:
  "\<exists>s'. complete_run_phase example_codec all_clear next_stamp back_to_plan after_plan = Inr s' \<and>
     rs_phase s' = Some ''plan'' \<and> rs_ordinal s' = Some 1"
proof -
  from example_rework obtain s' where
    s': "complete_run_phase example_codec all_clear next_stamp back_to_plan after_plan = Inr s'" ..
  have "\<exists>t\<in>set (pd_phases (rs_definition after_plan)). ph_id t = ''plan'' \<and> rs_phase s' = Some ''plan'' \<and>
      rs_ordinal s' = Some (ph_ordinal t)"
    using rework_keeps_exactly_earlier_work [OF after_plan_ok s', of "''plan''"]
    by (auto simp: back_to_plan_def build_completion_def)
  with s' show ?thesis by (auto simp: after_plan_simps example_phases)
qed

text \<open>A repeated completion is answered again, and refused once its attempt is erased.\<close>

theorem completion_takes_effect_once_witness:
  "submit_phase example_codec all_clear next_stamp [] plan_completion after_plan = Inr (after_plan, True) \<and>
   submit_phase example_codec all_clear next_stamp [] plan_completion
     (erase_run_rows \<lparr>ez_run = False, ez_attempts = [2], ez_outputs = [3], ez_inputs = [], ez_results = []\<rparr> after_plan) =
       Inl KnowledgePayloadErased"
proof -
  let ?e = "\<lparr>ez_run = False, ez_attempts = [2], ez_outputs = [3], ez_inputs = [], ez_results = []\<rparr>"
  have submitted: "submit_phase example_codec all_clear next_stamp [] plan_completion example_run = Inr (after_plan, False)"
    using example_plan_done by (simp add: submit_phase_def example_run_def all_clear_def)
  have attempts: "rs_attempts after_plan = [\<lparr>at_id = 2, at_phase_id = ph_id plan_phase, at_ordinal = ph_ordinal plan_phase,
      at_number = 1, at_request_id = 1, at_request = Some plan_completion, at_actor = 1, at_created = 0, at_erased = False\<rparr>]"
    by (simp add: after_plan_def record_attempt_def Let_def example_run_def next_stamp_def plan_completion_def
        phase_attempts_def next_number_def)
  have clear: "checks [ox_session all_clear, load_run_context (ox_returned all_clear) after_plan] = Inr ()"
    by (simp add: all_clear_def clear_context_def load_run_context_def after_plan_simps check_simps)
  from completion_takes_effect_once [OF submitted, of after_plan "[]" all_clear next_stamp "[]"] attempts clear
  have "submit_phase example_codec all_clear next_stamp [] plan_completion after_plan = Inr (after_plan, True)" by simp
  moreover from completion_takes_effect_once [OF submitted, of "erase_run_rows ?e after_plan" "[RowsErased ?e]" all_clear next_stamp "[]"] attempts
  have "submit_phase example_codec all_clear next_stamp [] plan_completion (erase_run_rows ?e after_plan) = Inl KnowledgePayloadErased"
    by (simp add: erase_run_rows_def erase_where_def)
  ultimately show ?thesis ..
qed

end
