(* ===== verification/EngineeringReview.thy ===== *)
theory EngineeringReview
  imports PipelineConstraints "HOL-Library.Multiset"
begin

text \<open>
  \<^verbatim>\<open>crates/domain/src/engineering_review.rs\<close> with \<^verbatim>\<open>report.rs\<close>, \<^verbatim>\<open>report/structure.rs\<close>,
  \<^verbatim>\<open>report/verdict.rs\<close> and \<^verbatim>\<open>constraints.rs\<close>: the report that an engineering review phase attaches to its output
  and when the completion of the phase accepts it. The JSON reader of reports is a parameter.
\<close>

section \<open>Reports\<close>

datatype review_stage = Specification | Plan | Implementation

datatype engineering_verdict = ReviewPass | ReviewRework | ReviewBlocked

datatype assessment_status = Satisfied | NotApplicable | Violation | Unassessed

datatype finding_status = FindingOpen | FindingResolved

datatype content_kind = Behavioral | Mixed | Declarative

datatype count_basis = Estimate | Observed

record rule_assessment =
  ra_rule_id :: str
  ra_status :: assessment_status
  ra_rationale :: str
  ra_evidence_refs :: "str list"

record engineering_finding =
  ef_id :: str
  ef_rule_id :: str
  ef_status :: finding_status
  ef_evidence :: "str option"
  ef_resolution :: "str option"

record engineering_file =
  fl_path :: str
  fl_content_kind :: content_kind
  fl_line_count :: nat
  fl_count_basis :: count_basis
  fl_content_digest :: "str option"
  fl_responsibility :: str
  fl_justification :: "str option"

record review_report =
  rp_stage :: review_stage
  rp_rules_digest :: str
  rp_verdict :: engineering_verdict
  rp_reviewed_outputs :: "consumed_output list"
  rp_source_basis :: "str option"
  rp_prior_finding_ids :: "str list option"
  rp_resolved_finding_ids :: "str list option"
  rp_assessments :: "rule_assessment list"
  rp_findings :: "engineering_finding list"
  rp_files :: "engineering_file list"
  rp_summary :: str

definition ENG_RULES :: "str list" where
  "ENG_RULES = [''ENG-01'', ''ENG-02'', ''ENG-03'', ''ENG-04'', ''ENG-05'', ''ENG-06'', ''ENG-07'', ''ENG-08'',
     ''ENG-09'', ''ENG-10'']"

fun review_stage_as_str :: "review_stage \<Rightarrow> str" where
  "review_stage_as_str Specification = ''specification''"
| "review_stage_as_str Plan = ''plan''"
| "review_stage_as_str Implementation = ''implementation''"

definition report_refusal :: "nat \<Rightarrow> str \<Rightarrow> str \<Rightarrow> str \<Rightarrow> str \<Rightarrow> error" where
  "report_refusal i rule pointer expected actual =
     engineering_refusal RC_InvalidOutput rule (''output.artifacts['' @ show_nat i @ ''].body'')
       (''decoded JSON '' @ pointer @ '': '' @ expected) actual"

section \<open>File paths\<close>

text \<open>
  \<^verbatim>\<open>std::path::Path::components\<close> on Unix: empty parts and all but a leading \<^verbatim>\<open>.\<close> are normalised away.
\<close>

datatype path_component = RootDir | CurDir | ParentDir | Normal str

definition part_component :: "nat \<Rightarrow> str \<Rightarrow> path_component list" where
  "part_component i part =
     (if part = [] then [] else if part = ''.'' then (if i = 0 then [CurDir] else [])
      else if part = ''..'' then [ParentDir] else [Normal part])"

definition path_components :: "str \<Rightarrow> path_component list" where
  "path_components s = (if prefix ''/'' s then [RootDir] else []) @
     concat (map (\<lambda>(i, part). part_component i part) (List.enumerate 0 (split_on CHR ''/'' s)))"

definition is_normal :: "path_component \<Rightarrow> bool" where
  "is_normal p = (case p of Normal _ \<Rightarrow> True | _ \<Rightarrow> False)"

definition unsafe_file_path :: "str \<Rightarrow> bool" where
  "unsafe_file_path s \<longleftrightarrow> blank s \<or> CHR 0x5C \<in> set s \<or> list_ex (\<lambda>p. \<not> is_normal p) (path_components s)"

definition lower_sha256 :: "str \<Rightarrow> bool" where
  "lower_sha256 s \<longleftrightarrow> length s = 64 \<and> list_all is_lower_hexdigit s"

section \<open>Structure\<close>

definition present_blank :: "str option \<Rightarrow> bool" where
  "present_blank x = (case x of None \<Rightarrow> False | Some s \<Rightarrow> blank s)"

definition finding_ids_check :: "nat \<Rightarrow> str \<Rightarrow> str \<Rightarrow> str list option \<Rightarrow> unit result" where
  "finding_ids_check i name rule ids =
     each_opt (\<lambda>vs. checks
       [refuse_at (position blank vs) (\<lambda>k. report_refusal i rule (''/'' @ name @ ''/'' @ show_nat k)
          ''nonblank finding ID'' ''blank''),
        refuse_at (first_dup vs) (\<lambda>k. report_refusal i (rule @ ''-DUPLICATE'') (''/'' @ name @ ''/'' @ show_nat k)
          ''unique finding ID'' ''duplicate'')]) ids"

definition assessment_check :: "nat \<Rightarrow> nat \<Rightarrow> rule_assessment \<Rightarrow> unit result" where
  "assessment_check i k a =
     (let at = (\<lambda>name. ''/assessments/'' @ show_nat k @ ''/'' @ name) in checks
     [refuse_if (ra_rule_id a \<notin> set ENG_RULES) (report_refusal i ''WP6-ENGINEERING-REPORT-ASSESSMENT-RULE''
        (at ''rule_id'') ''ENG-01 through ENG-10'' ''invalid''),
      refuse_if (blank (ra_rationale a)) (report_refusal i ''WP6-ENGINEERING-REPORT-ASSESSMENT-RATIONALE''
        (at ''rationale'') ''nonblank rationale'' ''invalid''),
      refuse_at (position blank (ra_evidence_refs a)) (\<lambda>n. report_refusal i
        ''WP6-ENGINEERING-REPORT-ASSESSMENT-EVIDENCE'' (at ''evidence_refs/'' @ show_nat n)
        ''nonblank evidence reference'' ''blank''),
      refuse_if (ra_evidence_refs a = []) (report_refusal i ''WP6-ENGINEERING-REPORT-ASSESSMENT-EVIDENCE-MISSING''
        (at ''evidence_refs'') ''at least one evidence reference'' ''count=0'')])"

definition finding_check :: "nat \<Rightarrow> nat \<Rightarrow> engineering_finding \<Rightarrow> unit result" where
  "finding_check i k f =
     (let fail = (\<lambda>name rule expected actual. report_refusal i (''WP6-ENGINEERING-REPORT-FINDING-'' @ rule)
        (''/findings/'' @ show_nat k @ ''/'' @ name) expected actual) in checks
     [refuse_if (blank (ef_id f)) (fail ''id'' ''ID'' ''nonblank finding ID'' ''blank''),
      refuse_if (ef_rule_id f \<notin> set ENG_RULES) (fail ''rule_id'' ''RULE'' ''ENG-01 through ENG-10'' ''invalid''),
      refuse_if (present_blank (ef_evidence f)) (fail ''evidence'' ''EVIDENCE'' ''nonblank evidence when present'' ''blank''),
      refuse_if (present_blank (ef_resolution f))
        (fail ''resolution'' ''RESOLUTION'' ''nonblank resolution when present'' ''blank''),
      refuse_if (ef_status f = FindingOpen \<and> ef_evidence f = None)
        (fail ''evidence'' ''OPEN-EVIDENCE'' ''evidence for open finding'' ''missing''),
      refuse_if (ef_status f = FindingResolved \<and> ef_resolution f = None)
        (fail ''resolution'' ''RESOLVED-RESOLUTION'' ''resolution for resolved finding'' ''missing'')])"

definition file_check :: "nat \<Rightarrow> nat \<Rightarrow> engineering_file \<Rightarrow> unit result" where
  "file_check i k f =
     (let fail = (\<lambda>name rule expected actual. report_refusal i (''WP6-ENGINEERING-REPORT-FILE-'' @ rule)
        (''/files/'' @ show_nat k @ ''/'' @ name) expected actual) in checks
     [refuse_if (blank (fl_responsibility f))
        (fail ''responsibility'' ''RESPONSIBILITY'' ''nonblank responsibility'' ''blank''),
      refuse_if (present_blank (fl_justification f))
        (fail ''justification'' ''JUSTIFICATION'' ''nonblank justification when present'' ''blank''),
      refuse_if (1500 < fl_line_count f) (fail ''line_count'' ''MAX-LINES'' ''at most 1500 lines'' ''over threshold''),
      refuse_if (1000 < fl_line_count f \<and> fl_content_kind f \<noteq> Declarative)
        (fail ''content_kind'' ''DECLARATIVE'' ''declarative content above 1000 lines'' ''non-declarative''),
      refuse_if (500 < fl_line_count f \<and> fl_justification f = None)
        (fail ''justification'' ''LINE-JUSTIFICATION'' ''justification above 500 lines'' ''missing''),
      refuse_if (case fl_content_digest f of None \<Rightarrow> False | Some s \<Rightarrow> \<not> lower_sha256 s)
        (fail ''content_digest'' ''DIGEST'' ''64 lowercase hexadecimal characters when present'' ''invalid format'')])"

definition validate_structure :: "review_report \<Rightarrow> nat \<Rightarrow> unit result" where
  "validate_structure r i =
     (let fail = (\<lambda>rule pointer expected. report_refusal i (''WP6-ENGINEERING-REPORT-'' @ rule @ ''-DUPLICATE'')
        pointer expected ''duplicate'') in checks
     [finding_ids_check i ''prior_finding_ids'' ''WP6-ENGINEERING-REPORT-PRIOR-ID'' (rp_prior_finding_ids r),
      finding_ids_check i ''resolved_finding_ids'' ''WP6-ENGINEERING-REPORT-RESOLVED-ID'' (rp_resolved_finding_ids r),
      each_idx (assessment_check i) (rp_assessments r),
      each_idx (finding_check i) (rp_findings r),
      each_idx (file_check i) (rp_files r),
      refuse_at (first_dup (rp_reviewed_outputs r)) (\<lambda>k. fail ''REVIEWED-OUTPUT'' (''/reviewed_outputs/'' @ show_nat k)
        ''unique phase/revision/digest tuple''),
      refuse_at (first_dup (map ra_rule_id (rp_assessments r))) (\<lambda>k. fail ''ASSESSMENT''
        (''/assessments/'' @ show_nat k @ ''/rule_id'') ''unique assessment rule''),
      refuse_at (first_dup (map ef_id (rp_findings r))) (\<lambda>k. fail ''FINDING''
        (''/findings/'' @ show_nat k @ ''/id'') ''unique finding ID''),
      refuse_at (first_dup (map fl_path (rp_files r))) (\<lambda>k. fail ''FILE''
        (''/files/'' @ show_nat k @ ''/path'') ''unique file path'')])"

section \<open>Verdicts\<close>

definition problem_status :: "assessment_status \<Rightarrow> bool" where
  "problem_status s \<longleftrightarrow> s = Violation \<or> s = Unassessed"

definition lineage_check :: "review_report \<Rightarrow> nat \<Rightarrow> unit result" where
  "lineage_check r i =
     andThen (ok_or (rp_prior_finding_ids r) (report_refusal i ''WP6-ENGINEERING-REPORT-LINEAGE-PRIOR''
       ''/prior_finding_ids'' ''prior finding IDs when prior review required'' ''missing'')) (\<lambda>prior.
     andThen (ok_or (rp_resolved_finding_ids r) (report_refusal i ''WP6-ENGINEERING-REPORT-LINEAGE-RESOLVED''
       ''/resolved_finding_ids'' ''resolved finding IDs when prior review required'' ''missing'')) (\<lambda>resolved.
     (case rp_stage r of
        Specification \<Rightarrow> refuse_if (prior \<noteq> resolved) (report_refusal i ''WP6-ENGINEERING-REPORT-LINEAGE-SPECIFICATION''
          ''/resolved_finding_ids'' ''ordered equality with prior_finding_ids'' ''mismatched'')
      | Plan \<Rightarrow> refuse_if (list_ex (\<lambda>x. x \<notin> set resolved) prior) (report_refusal i
          ''WP6-ENGINEERING-REPORT-LINEAGE-PLAN'' ''/resolved_finding_ids'' ''all prior finding IDs resolved''
          ''prior ID absent'')
      | Implementation \<Rightarrow> Inr ())))"

definition pass_check :: "review_report \<Rightarrow> nat \<Rightarrow> bool \<Rightarrow> unit result" where
  "pass_check r i requires_finding_lineage =
     (let fail = (\<lambda>rule. report_refusal i (''WP6-ENGINEERING-REPORT-PASS-'' @ rule)) in checks
     [refuse_if (rp_source_basis r = None) (fail ''SOURCE'' ''/source_basis'' ''source basis for pass'' ''missing''),
      refuse_if (set (map ra_rule_id (rp_assessments r)) \<noteq> set ENG_RULES)
        (fail ''COVERAGE'' ''/assessments'' ''all ten ENG rules assessed'' ''incomplete coverage''),
      refuse_at (position (\<lambda>a. problem_status (ra_status a)) (rp_assessments r)) (\<lambda>k. fail ''ASSESSMENT''
        (''/assessments/'' @ show_nat k @ ''/status'') ''satisfied or not_applicable for pass'' ''problem assessment''),
      refuse_at (position (\<lambda>f. ef_status f = FindingOpen) (rp_findings r)) (\<lambda>k. fail ''OPEN-FINDING''
        (''/findings/'' @ show_nat k @ ''/status'') ''no open findings for pass'' ''open''),
      refuse_if (rp_stage r \<noteq> Specification \<and> rp_files r = [])
        (fail ''FILES'' ''/files'' ''at least one file for plan or implementation pass'' ''count=0''),
      (if requires_finding_lineage then lineage_check r i else Inr ())])"

definition nonpass_check :: "review_report \<Rightarrow> nat \<Rightarrow> unit result" where
  "nonpass_check r i =
     (let open_finding = list_ex (\<lambda>f. ef_status f = FindingOpen) (rp_findings r) in checks
     [refuse_if (rp_assessments r = []) (report_refusal i ''WP6-ENGINEERING-REPORT-NONPASS-ASSESSMENTS''
        ''/assessments'' ''at least one assessment'' ''count=0''),
      refuse_at (position (\<lambda>f. ef_status f = FindingOpen \<and> \<not> list_ex (\<lambda>a. ra_rule_id a = ef_rule_id f \<and>
          problem_status (ra_status a)) (rp_assessments r)) (rp_findings r)) (\<lambda>k. report_refusal i
        ''WP6-ENGINEERING-REPORT-OPEN-FINDING-ASSESSMENT'' (''/findings/'' @ show_nat k @ ''/rule_id'')
        ''matching violation or unassessed assessment'' ''absent''),
      (case rp_verdict r of
         ReviewRework \<Rightarrow> refuse_if (\<not> list_ex (\<lambda>a. problem_status (ra_status a)) (rp_assessments r) \<and> \<not> open_finding)
           (report_refusal i ''WP6-ENGINEERING-REPORT-REWORK-BASIS'' ''/verdict''
              ''problem assessment or open finding for rework'' ''both absent'')
       | ReviewBlocked \<Rightarrow> refuse_if (\<not> list_ex (\<lambda>a. ra_status a = Unassessed) (rp_assessments r) \<and> \<not> open_finding)
           (report_refusal i ''WP6-ENGINEERING-REPORT-BLOCKED-BASIS'' ''/verdict''
              ''unassessed assessment or open finding for blocked'' ''both absent'')
       | ReviewPass \<Rightarrow> Inr ())])"

definition validate_verdict :: "review_report \<Rightarrow> nat \<Rightarrow> bool \<Rightarrow> bool \<Rightarrow> unit result" where
  "validate_verdict r i pass requires_finding_lineage =
     (if pass then pass_check r i requires_finding_lineage else nonpass_check r i)"

section \<open>Accepting a report\<close>

definition implementation_file_check :: "nat \<Rightarrow> nat \<Rightarrow> engineering_file \<Rightarrow> unit result" where
  "implementation_file_check i k f = checks
     [refuse_if (fl_count_basis f \<noteq> Observed) (report_refusal i ''WP6-ENGINEERING-REPORT-IMPLEMENTATION-COUNT-BASIS''
        (''/files/'' @ show_nat k @ ''/count_basis'') ''observed line count for implementation'' ''estimate''),
      refuse_if (case fl_content_digest f of None \<Rightarrow> True | Some s \<Rightarrow> \<not> lower_sha256 s)
        (report_refusal i ''WP6-ENGINEERING-REPORT-IMPLEMENTATION-DIGEST'' (''/files/'' @ show_nat k @ ''/content_digest'')
           ''64 lowercase hexadecimal characters for implementation'' ''missing or invalid format'')]"

definition unsafe_file_refusal :: "nat \<Rightarrow> error" where
  "unsafe_file_refusal k = PipelineRefused InvalidArguments
     (with_required ''schema_valid_input'' (with_next_action ''correct_input_and_retry'' (with_actual ''unsafe path''
       (with_expected ''safe repository-relative path'' (with_path (''engineering-review.json/files/'' @ show_nat k @ ''/path'')
         (with_rule ''ENG-REVIEW-FILE-PATH-01'' (with_message (rc_message RC_InputSchemaInvalid)
           (refusal_new RC_InputSchemaInvalid))))))))"

definition expected_report_verdict :: "bool \<Rightarrow> phase_outcome \<Rightarrow> engineering_verdict" where
  "expected_report_verdict pass outcome =
     (if pass then ReviewPass else if outcome \<noteq> PhaseCompleted then ReviewBlocked else ReviewRework)"

definition validate_report ::
    "review_report \<Rightarrow> complete_phase \<Rightarrow> nat \<Rightarrow> str \<Rightarrow> str \<Rightarrow> str list \<Rightarrow> bool \<Rightarrow> unit result" where
  "validate_report r req i stage rules_digest success requires_finding_lineage =
     andThen (ok_or (po_verdict (cx_output req)) (engineering_refusal RC_InvalidOutput
       ''WP6-ENGINEERING-REPORT-OUTPUT-VERDICT'' ''output.verdict'' ''phase verdict'' ''missing'')) (\<lambda>verdict.
     (let pass = verdict \<in> set success;
          fail = (\<lambda>rule. report_refusal i (''WP6-ENGINEERING-REPORT-'' @ rule)) in checks
     [refuse_at (position (\<lambda>f. unsafe_file_path (fl_path f)) (rp_files r)) unsafe_file_refusal,
      refuse_if (review_stage_as_str (rp_stage r) \<noteq> stage) (fail ''STAGE'' ''/stage'' ''phase review stage'' ''mismatched''),
      refuse_if (rp_rules_digest r \<noteq> rules_digest)
        (fail ''RULES-DIGEST'' ''/rules_digest'' ''phase standards digest'' ''mismatched''),
      refuse_if (rp_verdict r \<noteq> expected_report_verdict pass (cx_outcome req))
        (fail ''VERDICT'' ''/verdict'' ''verdict matching phase outcome and output verdict'' ''mismatched''),
      refuse_if (rp_reviewed_outputs r \<noteq> cx_consumed_outputs req) (fail ''REVIEWED-OUTPUTS'' ''/reviewed_outputs''
        ''ordered consumed_outputs including revisions and digests'' ''mismatched''),
      refuse_if (blank (rp_summary r)) (fail ''SUMMARY'' ''/summary'' ''nonblank summary'' ''blank''),
      refuse_if (present_blank (rp_source_basis r))
        (fail ''SOURCE-BASIS'' ''/source_basis'' ''nonblank source basis when present'' ''blank''),
      validate_structure r i,
      validate_verdict r i pass requires_finding_lineage,
      (if rp_stage r = Implementation then each_idx (implementation_file_check i) (rp_files r) else Inr ())]))"

definition report_constraint_check ::
    "(str \<Rightarrow> review_report option) \<Rightarrow> complete_phase \<Rightarrow> engineering_review_constraint \<Rightarrow> unit result" where
  "report_constraint_check parse_report req e =
     andThen (ok_or (position (\<lambda>a. pa_name a = er_artifact_name e) (po_artifacts (cx_output req)))
       (engineering_refusal RC_InvalidOutput ''WP6-ENGINEERING-REPORT-ARTIFACT-MISSING'' ''output.artifacts''
          ''engineering review artifact required by phase'' ''missing'')) (\<lambda>i.
     andThen (ok_or (parse_report (pa_body (po_artifacts (cx_output req) ! i)))
       (report_refusal i ''WP6-ENGINEERING-REPORT-JSON'' ''/'' ''JSON matching engineering review report schema''
          ''invalid JSON or report schema'')) (\<lambda>r. checks
     [validate_report r req i (er_stage e) (er_standards_resource_digest e) (er_success_verdicts e)
        (er_required_prior_review_phase_ids e \<noteq> []),
      refuse_if (rp_verdict r = ReviewPass \<and> list_ex (\<lambda>required. \<not> list_ex (\<lambda>o1. co_phase_id o1 = required)
          (cx_consumed_outputs req)) (er_required_prior_review_phase_ids e))
        (engineering_refusal RC_InvalidOutput ''WP6-ENGINEERING-REPORT-PRIOR-CONSUMED'' ''consumed_outputs''
           ''all required prior review phases consumed for pass'' ''required phase absent'')]))"

definition validate_completion_constraints ::
    "(str \<Rightarrow> review_report option) \<Rightarrow> complete_phase \<Rightarrow> phase_definition \<Rightarrow> unit result" where
  "validate_completion_constraints parse_report req ph =
     each (\<lambda>c. case c of
         EngineeringReview e \<Rightarrow> report_constraint_check parse_report req e
       | CodeAuthorization required \<Rightarrow>
           refuse_if (\<not> list_ex (\<lambda>o1. co_phase_id o1 = required) (cx_consumed_outputs req))
             (engineering_refusal RC_InvalidOutput ''WP6-ENGINEERING-REPORT-CODE-AUTHORIZATION'' ''consumed_outputs''
                ''required plan review phase consumed'' ''required phase absent'')
       | _ \<Rightarrow> Inr ()) (ph_output_constraints ph)"

section \<open>Facts\<close>

definition file_ok :: "review_stage \<Rightarrow> engineering_file \<Rightarrow> bool" where
  "file_ok stage f \<longleftrightarrow> fl_line_count f \<le> 1500 \<and>
     (1000 < fl_line_count f \<longrightarrow> fl_content_kind f = Declarative) \<and>
     (500 < fl_line_count f \<longrightarrow> fl_justification f \<noteq> None) \<and>
     (stage = Implementation \<longrightarrow> fl_count_basis f = Observed \<and> fl_content_digest f \<noteq> None)"

definition rule_satisfied :: "rule_assessment \<Rightarrow> bool" where
  "rule_satisfied a \<longleftrightarrow> ra_status a \<in> {Satisfied, NotApplicable} \<and> ra_evidence_refs a \<noteq> []"

lemma safe_path_parts:
  assumes "\<not> unsafe_file_path p"
  shows "p \<noteq> [] \<and> \<not> prefix ''/'' p \<and> ''..'' \<notin> set (split_on CHR ''/'' p)"
proof -
  have safe: "\<forall>c\<in>set (path_components p). is_normal c" "\<not> blank p"
    using assms by (auto simp: unsafe_file_path_def list_ex_iff)
  have "\<not> prefix ''/'' p"
    using safe(1) by (auto simp: path_components_def is_normal_def)
  moreover have "''..'' \<notin> set (split_on CHR ''/'' p)"
  proof
    assume "''..'' \<in> set (split_on CHR ''/'' p)"
    then obtain i where i: "i < length (split_on CHR ''/'' p)" "split_on CHR ''/'' p ! i = ''..''"
      by (auto simp: in_set_conv_nth)
    then have "(i, ''..'') \<in> set (List.enumerate 0 (split_on CHR ''/'' p))"
      by (simp add: in_set_enumerate_eq)
    then have "ParentDir \<in> set (path_components p)"
      by (force simp: path_components_def part_component_def)
    with safe(1) show False by (auto simp: is_normal_def)
  qed
  ultimately show ?thesis using safe(2) by auto
qed

lemma validate_structure_Inr:
  assumes "validate_structure r i = Inr ()"
  shows "distinct (map ra_rule_id (rp_assessments r))" "distinct (map ef_id (rp_findings r))"
    "distinct (map fl_path (rp_files r))"
    "\<forall>k<length (rp_assessments r). assessment_check i k (rp_assessments r ! k) = Inr ()"
    "\<forall>k<length (rp_files r). file_check i k (rp_files r ! k) = Inr ()"
  using assms by (simp_all add: validate_structure_def Let_def checks_Inr_Cons checks_Nil_Inr refuse_at_Inr each_idx_Inr)

lemma each_item:
  assumes "\<forall>k<length xs. check k (xs ! k) = Inr ()" and "\<And>k x. check k x = Inr () \<Longrightarrow> Q x"
  shows "\<forall>x\<in>set xs. Q x"
  using assms by (fastforce simp: in_set_conv_nth)

lemma validate_report_Inr:
  assumes "validate_report r req i stage digest success lineage = Inr ()"
  obtains verdict where "po_verdict (cx_output req) = Some verdict"
    and "\<forall>f\<in>set (rp_files r). \<not> unsafe_file_path (fl_path f)" and "review_stage_as_str (rp_stage r) = stage"
    and "rp_rules_digest r = digest" and "rp_verdict r = expected_report_verdict (verdict \<in> set success) (cx_outcome req)"
    and "rp_reviewed_outputs r = cx_consumed_outputs req" and "validate_structure r i = Inr ()"
    and "validate_verdict r i (verdict \<in> set success) lineage = Inr ()"
    and "rp_stage r = Implementation \<longrightarrow> (\<forall>k<length (rp_files r). implementation_file_check i k (rp_files r ! k) = Inr ())"
  using assms
  by (auto simp: validate_report_def Let_def andThen_Inr ok_or_Inr checks_Inr_Cons checks_Nil_Inr refuse_if_Inr refuse_at_Inr
      each_idx_Inr split: if_splits)

text \<open>
  C29: a review that reports success is clean: its report covers each of the ten rules exactly once, with
  evidence, no violation and no open finding, reviews exactly the outputs the phase consumed, and
  names only files inside the repository that keep to the size limits, measured for an implementation.
\<close>

theorem passing_review_is_clean:
  assumes "validate_report r req i stage digest success lineage = Inr ()"
    and "po_verdict (cx_output req) = Some verdict" and "verdict \<in> set success"
  shows "rp_verdict r = ReviewPass \<and> review_stage_as_str (rp_stage r) = stage \<and> rp_reviewed_outputs r = cx_consumed_outputs req \<and>
     mset (map ra_rule_id (rp_assessments r)) = mset ENG_RULES \<and> list_all rule_satisfied (rp_assessments r) \<and>
     list_all (\<lambda>f. ef_status f = FindingResolved) (rp_findings r) \<and>
     list_all (\<lambda>f. file_ok (rp_stage r) f \<and> \<not> prefix ''/'' (fl_path f) \<and> ''..'' \<notin> set (split_on CHR ''/'' (fl_path f)))
       (rp_files r) \<and>
     (rp_stage r = Specification \<or> rp_files r \<noteq> [])"
proof -
  from validate_report_Inr [OF assms(1)] assms(2,3) have
    parts: "\<forall>f\<in>set (rp_files r). \<not> unsafe_file_path (fl_path f)" "review_stage_as_str (rp_stage r) = stage"
      "rp_verdict r = ReviewPass" "rp_reviewed_outputs r = cx_consumed_outputs req" "validate_structure r i = Inr ()"
      "pass_check r i lineage = Inr ()"
    and impl: "rp_stage r = Implementation \<longrightarrow> (\<forall>k<length (rp_files r). implementation_file_check i k (rp_files r ! k) = Inr ())"
    by (auto simp: expected_report_verdict_def validate_verdict_def)
  note shape = validate_structure_Inr [OF parts(5)]
  from parts(6) have pass: "set (map ra_rule_id (rp_assessments r)) = set ENG_RULES"
      "\<forall>a\<in>set (rp_assessments r). \<not> problem_status (ra_status a)" "\<forall>f\<in>set (rp_findings r). ef_status f \<noteq> FindingOpen"
      "rp_stage r = Specification \<or> rp_files r \<noteq> []"
    by (auto simp: pass_check_def Let_def checks_Inr_Cons refuse_if_Inr refuse_at_Inr)
  have "distinct ENG_RULES" by (simp add: ENG_RULES_def)
  with shape(1) pass(1) have rules: "mset (map ra_rule_id (rp_assessments r)) = mset ENG_RULES"
    by (metis set_eq_iff_mset_eq_distinct)
  have "\<forall>a\<in>set (rp_assessments r). ra_evidence_refs a \<noteq> []"
    using shape(4) by (rule each_item [where check = "assessment_check i"])
      (simp add: assessment_check_def Let_def checks_Inr_Cons refuse_if_Inr)
  moreover have "ra_status a \<in> {Satisfied, NotApplicable}" if "a \<in> set (rp_assessments r)" for a
    using pass(2) that by (cases "ra_status a") (auto simp: problem_status_def)
  ultimately have satisfied: "list_all rule_satisfied (rp_assessments r)"
    by (simp add: list_all_iff rule_satisfied_def)
  have resolved: "list_all (\<lambda>f. ef_status f = FindingResolved) (rp_findings r)"
    using pass(3) finding_status.exhaust by (auto simp: list_all_iff)
  have "\<forall>f\<in>set (rp_files r). fl_line_count f \<le> 1500 \<and> (1000 < fl_line_count f \<longrightarrow> fl_content_kind f = Declarative) \<and>
      (500 < fl_line_count f \<longrightarrow> fl_justification f \<noteq> None)"
    using shape(5) by (rule each_item [where check = "file_check i"])
      (simp add: file_check_def Let_def checks_Inr_Cons refuse_if_Inr)
  moreover have "\<forall>f\<in>set (rp_files r). fl_count_basis f = Observed \<and> fl_content_digest f \<noteq> None" if "rp_stage r = Implementation"
    using impl [rule_format, OF that] by (intro each_item [where check = "implementation_file_check i"])
      (auto simp: implementation_file_check_def checks_Inr_Cons refuse_if_Inr split: option.splits)
  ultimately have "list_all (\<lambda>f. file_ok (rp_stage r) f) (rp_files r)" by (simp add: list_all_iff file_ok_def)
  with parts(1) safe_path_parts have "list_all (\<lambda>f. file_ok (rp_stage r) f \<and> \<not> prefix ''/'' (fl_path f) \<and>
      ''..'' \<notin> set (split_on CHR ''/'' (fl_path f))) (rp_files r)" by (simp add: list_all_iff)
  with parts(2-4) rules satisfied resolved pass(4) show ?thesis by blast
qed

definition example_report :: review_report where
  "example_report = \<lparr>rp_stage = Plan, rp_rules_digest = ''d'', rp_verdict = ReviewPass, rp_reviewed_outputs = [],
     rp_source_basis = Some ''b'', rp_prior_finding_ids = None, rp_resolved_finding_ids = None,
     rp_assessments = map (\<lambda>i. \<lparr>ra_rule_id = i, ra_status = Satisfied, ra_rationale = ''r'', ra_evidence_refs = [''e'']\<rparr>) ENG_RULES,
     rp_findings = [], rp_files = [\<lparr>fl_path = ''src'', fl_content_kind = Behavioral, fl_line_count = 500,
       fl_count_basis = Estimate, fl_content_digest = None, fl_responsibility = ''r'', fl_justification = None\<rparr>],
     rp_summary = ''s''\<rparr>"

definition example_completion :: complete_phase where
  "example_completion = \<lparr>cx_request_id = 1, cx_run_id = 1, cx_run_revision = 1, cx_phase_id = ''p'',
     cx_outcome = PhaseCompleted, cx_transition = Continue, cx_output = \<lparr>po_body = ''b'', po_producer_context_id = ''p'',
       po_fields = (\<lambda>_. None), po_verdict = Some ''ok'', po_dispositions = [], po_skill_reads = [], po_resource_reads = [],
       po_artifacts = [], po_evidence_artifacts = [], po_validator_receipts = [], po_followup_proposal = None,
       po_reviewer_context = None, po_reference = None, po_knowledge_publication = None\<rparr>,
     cx_consumed_outputs = [], cx_consumed_inputs = [], cx_revisit_phase_id = None, cx_escalation_target = None,
     cx_terminal_result = None, cx_publish_blocked_result = False, cx_consumed_knowledge = None,
     cx_research_checkpoint = None\<rparr>"

lemma example_report_accepted: "validate_report example_report example_completion 0 ''plan'' ''d'' [''ok''] False = Inr ()"
proof -
  have "\<not> unsafe_file_path ''src''" by code_simp
  moreover have "distinct ENG_RULES" by (simp add: ENG_RULES_def)
  moreover have "ENG_RULES \<noteq> []" by (simp add: ENG_RULES_def)
  ultimately show ?thesis
    by (simp add: validate_report_def Let_def checks_Inr_Cons checks_Nil_Inr refuse_if_Inr refuse_at_Inr each_idx_Inr
        example_report_def example_completion_def expected_report_verdict_def present_blank_def validate_structure_def
        validate_verdict_def pass_check_def finding_ids_check_def assessment_check_def file_check_def problem_status_def
        is_ascii_graphic_def byte_def comp_def image_image)
qed

theorem passing_review_is_clean_witness:
  "mset (map ra_rule_id (rp_assessments example_report)) = mset ENG_RULES \<and>
   list_all (file_ok Plan) (rp_files example_report)"
  using passing_review_is_clean [OF example_report_accepted, of "''ok''"]
  by (simp add: example_completion_def example_report_def)

end
