(* ===== verification/NativeContract.thy ===== *)
theory NativeContract
  imports PipelineArtifacts Identity
begin

text \<open>
  \<^verbatim>\<open>crates/domain/src/native_slice_work_contract.rs\<close> and its \<^verbatim>\<open>paths.rs\<close>: the contract that a design phase
  writes before work on the sources begins, and the lexical boundaries of the paths it may write. Reading
  the JSON text of a contract (with its canonical UUIDs) and writing that of a reference belong to
  \<^verbatim>\<open>serde_json\<close> and \<^verbatim>\<open>uuid\<close> and are parameters.
\<close>

section \<open>Contracts\<close>

definition NATIVE_WORK_CONTRACT_VERSION :: str where
  "NATIVE_WORK_CONTRACT_VERSION = ''0.6.0-native.engineering.3''"

definition NATIVE_WORK_CONTRACT_SUCCESSOR_VERSION :: str where
  "NATIVE_WORK_CONTRACT_SUCCESSOR_VERSION = ''0.6.0-native.engineering.4''"

definition native_work_contract_version :: "str \<Rightarrow> bool" where
  "native_work_contract_version v \<longleftrightarrow> v \<in> {NATIVE_WORK_CONTRACT_VERSION, NATIVE_WORK_CONTRACT_SUCCESSOR_VERSION}"

definition NATIVE_WORK_CONTRACT_SCHEMA :: str where
  "NATIVE_WORK_CONTRACT_SCHEMA = ''tect:native-slice-work-contract-schema''"

definition NATIVE_WORK_CONTRACT_PHASE :: str where "NATIVE_WORK_CONTRACT_PHASE = ''slice-contract-writer''"

definition NATIVE_WORK_CONTRACT_ARTIFACT :: str where "NATIVE_WORK_CONTRACT_ARTIFACT = ''work-order-contract.json''"

record work_checkpoint =
  wc_checkpoint_id :: uuid
  wc_digest :: str

record work_target =
  wt_scope_id :: uuid
  wt_slice_id :: uuid
  wt_slice_revision :: int
  wt_run_id :: uuid
  wt_run_revision :: int
  wt_phase_id :: str
  wt_definition_kind :: str
  wt_definition_version :: str
  wt_definition_digest :: str

record work_session =
  ws_workspace_id :: uuid
  ws_session_id :: uuid
  ws_host_id :: uuid
  ws_native_session_id :: str

datatype work_reference =
    NativeOutput str int str
  | NativeInput uuid int str
  | NativeEvidenceArtifact uuid int str
  | SourceFile uuid str str

record work_read =
  wr_reference :: work_reference
  wr_required :: bool

record source_path =
  sp_source_id :: uuid
  sp_path :: str

record write_scope =
  wk_allowed_roots :: "source_path list"
  wk_allowed_paths :: "source_path list"
  wk_denied_roots :: "source_path list"
  wk_before_hash_required :: bool

datatype authority_status = Authorized | AuthorityMissing | AuthorityUnknown | AuthorityExpired

datatype source_action = SourcePlan | SourceEdit | SourceTest

record source_authority =
  sa_action :: source_action
  sa_targets :: "source_path list"

record work_authority =
  wa_status :: authority_status
  wa_source :: "work_reference option"
  wa_scope :: "source_authority list"
  wa_limitations :: str

datatype proof_kind = ProofNativeOutput | ProofNativeInput | ProofNativeEvidenceArtifact | ProofSourceFile

record work_proof =
  wp_id :: str
  wp_obligation :: str
  wp_evidence_kind :: proof_kind
  wp_completion_required :: bool

record work_validation =
  wv_id :: str
  wv_obligation :: str
  wv_proof_requirement_ids :: "str list"
  wv_completion_required :: bool

record work_closure =
  cl_native_result_required :: bool
  cl_summary_required :: bool
  cl_evidence_required :: bool
  cl_scope_impact_required :: bool
  cl_remaining_work_required :: bool
  cl_handoff_when_blocked :: bool

record work_refresh =
  wf_refresh_before_write :: bool
  wf_recheck_authority :: bool
  wf_rehash_required_reads :: bool
  wf_verify_before_hash :: bool
  wf_reconcile_unknown_outcome :: bool
  wf_resume_from_current_native_context :: bool

record work_contract =
  nc_contract_kind :: str
  nc_target :: work_target
  nc_session_declaration :: "work_session option"
  nc_source_checkpoint :: "work_checkpoint option"
  nc_required_reads :: "work_read list"
  nc_write_scope :: write_scope
  nc_authority :: work_authority
  nc_proof_requirements :: "work_proof list"
  nc_validation_requirements :: "work_validation list"
  nc_result_closure :: work_closure
  nc_refresh_resume :: work_refresh

section \<open>Paths\<close>

definition normalized_path :: "str \<Rightarrow> bool \<Rightarrow> bool" where
  "normalized_path s root \<longleftrightarrow> root \<and> s = ''.'' \<or>
     s \<noteq> [] \<and> \<not> prefix ''/'' s \<and> set s \<inter> {CHR 0x5C, CHR 0x00, CHR '':''} = {} \<and>
     list_all (\<lambda>p. p \<notin> {'''', ''.'', ''..''}) (split_on CHR ''/'' s)"

definition beneath :: "str \<Rightarrow> str \<Rightarrow> bool" where
  "beneath path root \<longleftrightarrow> root = ''.'' \<or> path = root \<or>
     (case strip_prefix root path of None \<Rightarrow> False | Some s \<Rightarrow> prefix ''/'' s)"

definition work_path :: "str \<Rightarrow> bool \<Rightarrow> bool" where
  "work_path s root \<longleftrightarrow> normalized_path s root \<and>
     \<not> list_ex (\<lambda>p. p \<in> {''.git'', ''.tect''}) (split_on CHR ''/'' s) \<and> \<not> beneath s ''tect/workspace''"

definition path_contains :: "source_path \<Rightarrow> source_path \<Rightarrow> bool" where
  "path_contains path root \<longleftrightarrow> sp_source_id path = sp_source_id root \<and> beneath (sp_path path) (sp_path root)"

section \<open>Validation\<close>

definition native_work_contract_refusal :: "str \<Rightarrow> error" where
  "native_work_contract_refusal reason = refused_at RC_InvalidOutput ''WP6-NATIVE-CONTRACT-01''
     ''arguments.params.output.artifacts'' ''a current bounded native Slice planning contract'' reason
     ''correct_native_work_contract'' ''native_slice_work_contract''"

definition native_work_contract_definition :: "pipeline_definition \<Rightarrow> bool" where
  "native_work_contract_definition d \<longleftrightarrow> pd_kind d = FullDesignToExecution \<and> native_work_contract_version (pd_version d)"

definition native_work_contract_phase :: "pipeline_definition \<Rightarrow> phase_definition \<Rightarrow> bool" where
  "native_work_contract_phase d ph \<longleftrightarrow> native_work_contract_definition d \<and> ph_id ph = NATIVE_WORK_CONTRACT_PHASE \<and>
     list_ex (\<lambda>q. aq_name_pattern q = NATIVE_WORK_CONTRACT_ARTIFACT \<and>
       aq_schema_resource_id q = Some NATIVE_WORK_CONTRACT_SCHEMA) (ph_required_artifacts ph)"

definition sha_text :: "str \<Rightarrow> bool" where
  "sha_text s \<longleftrightarrow> length s = 64 \<and> list_all is_lower_hexdigit s"

fun reference_valid :: "work_reference \<Rightarrow> bool" where
  "reference_valid (NativeOutput phase revision digest) \<longleftrightarrow> \<not> blank phase \<and> 0 < revision \<and> sha_text digest"
| "reference_valid (NativeInput i sequence digest) \<longleftrightarrow> 0 < sequence \<and> sha_text digest"
| "reference_valid (NativeEvidenceArtifact i revision digest) \<longleftrightarrow> 0 < revision \<and> sha_text digest"
| "reference_valid (SourceFile i path digest) \<longleftrightarrow> work_path path False \<and> sha_text digest"

definition target_valid :: "work_contract \<Rightarrow> bool" where
  "target_valid c \<longleftrightarrow> (let t = nc_target c in
     nc_contract_kind c = ''native_slice_work_contract_v1'' \<and> wt_phase_id t = NATIVE_WORK_CONTRACT_PHASE \<and>
     wt_definition_kind t = kind_as_str FullDesignToExecution \<and> native_work_contract_version (wt_definition_version t) \<and>
     1 \<le> wt_slice_revision t \<and> 1 \<le> wt_run_revision t \<and> sha_text (wt_definition_digest t))"

definition reads_output :: "str \<Rightarrow> work_read \<Rightarrow> bool" where
  "reads_output phase r = (case wr_reference r of NativeOutput i _ _ \<Rightarrow> i = phase | _ \<Rightarrow> False)"

definition write_scope_valid :: "write_scope \<Rightarrow> bool" where
  "write_scope_valid w \<longleftrightarrow> wk_before_hash_required w \<and> wk_allowed_roots w \<noteq> [] \<and> wk_denied_roots w \<noteq> [] \<and>
     list_all (\<lambda>p. work_path (sp_path p) True) (wk_allowed_roots w) \<and>
     list_all (\<lambda>p. normalized_path (sp_path p) True) (wk_denied_roots w) \<and>
     list_all (\<lambda>p. work_path (sp_path p) False) (wk_allowed_paths w)"

definition PRIVATE_ROOTS :: "str list" where "PRIVATE_ROOTS = [''.git'', ''.tect'', ''tect/workspace'']"

definition write_path_check :: "write_scope \<Rightarrow> source_path \<Rightarrow> unit result" where
  "write_path_check w p = checks
     [refuse_if (\<not> list_ex (path_contains p) (wk_allowed_roots w) \<or>
          list_ex (\<lambda>r. path_contains p r \<or> path_contains r p) (wk_denied_roots w))
        (native_work_contract_refusal ''write path outside roots or overlaps denial''),
      each (\<lambda>private. refuse_if (\<not> list_ex (\<lambda>r. sp_source_id r = sp_source_id p \<and> beneath private (sp_path r))
          (wk_denied_roots w)) (native_work_contract_refusal ''private runtime roots must be denied'')) PRIVATE_ROOTS]"

definition source_context :: "work_contract \<Rightarrow> uuid list" where
  "source_context c = List.map_filter (\<lambda>r. case wr_reference r of SourceFile i _ _ \<Rightarrow> Some i | _ \<Rightarrow> None) (nc_required_reads c) @
     map sp_source_id (wk_allowed_roots (nc_write_scope c))"

definition authority_valid :: "work_authority \<Rightarrow> bool" where
  "authority_valid a \<longleftrightarrow> wa_status a = Authorized \<and>
     (case wa_source a of None \<Rightarrow> False | Some r \<Rightarrow> reference_valid r) \<and> wa_scope a \<noteq> [] \<and> \<not> blank (wa_limitations a)"

definition authority_scope_ok :: "work_contract \<Rightarrow> source_authority \<Rightarrow> bool" where
  "authority_scope_ok c s \<longleftrightarrow> sa_targets s \<noteq> [] \<and>
     list_all (\<lambda>p. work_path (sp_path p) False \<and> sp_source_id p \<in> set (source_context c) \<and>
       (sa_action s \<noteq> SourceEdit \<or> list_ex (path_contains p) (wk_allowed_paths (nc_write_scope c)))) (sa_targets s)"

definition proofs_valid :: "work_proof list \<Rightarrow> bool" where
  "proofs_valid ps \<longleftrightarrow> ps \<noteq> [] \<and>
     list_all (\<lambda>p. \<not> blank (wp_id p) \<and> \<not> blank (wp_obligation p) \<and> wp_completion_required p) ps \<and>
     distinct (map wp_id ps)"

definition validations_valid :: "work_proof list \<Rightarrow> work_validation list \<Rightarrow> bool" where
  "validations_valid ps vs \<longleftrightarrow> vs \<noteq> [] \<and>
     list_all (\<lambda>v. \<not> blank (wv_id v) \<and> \<not> blank (wv_obligation v) \<and> wv_completion_required v \<and>
       wv_proof_requirement_ids v \<noteq> [] \<and> distinct (wv_proof_requirement_ids v) \<and>
       set (wv_proof_requirement_ids v) \<subseteq> wp_id ` set ps) vs \<and>
     distinct (map wv_id vs)"

definition obligations_kept :: "work_closure \<Rightarrow> work_refresh \<Rightarrow> bool" where
  "obligations_kept c r \<longleftrightarrow> list_all (\<lambda>v. v)
     [cl_native_result_required c, cl_summary_required c, cl_evidence_required c, cl_scope_impact_required c,
      cl_remaining_work_required c, cl_handoff_when_blocked c, wf_refresh_before_write r, wf_recheck_authority r,
      wf_rehash_required_reads r, wf_verify_before_hash r, wf_reconcile_unknown_outcome r,
      wf_resume_from_current_native_context r]"

definition work_contract_validate ::
    "(str \<Rightarrow> uuid option) \<Rightarrow> (uuid \<Rightarrow> str) \<Rightarrow> (work_reference \<Rightarrow> str) \<Rightarrow> work_contract \<Rightarrow> unit result" where
  "work_contract_validate parse_uuid show_uuid to_string c =
     (let fail = native_work_contract_refusal; w = nc_write_scope c; reads = nc_required_reads c in checks
     [refuse_if (\<not> target_valid c) (fail ''invalid target pins''),
      (case nc_session_declaration c of
         None \<Rightarrow> Inl (fail ''authenticated session declaration required'')
       | Some s \<Rightarrow> refuse_if (\<not> is_ok (validate_native_id parse_uuid show_uuid (ws_native_session_id s)))
           (fail ''invalid native session identity'')),
      refuse_if (case nc_source_checkpoint c of None \<Rightarrow> False
          | Some cp \<Rightarrow> is_nil (wc_checkpoint_id cp) \<or> \<not> sha_text (wc_digest cp)) (fail ''invalid source checkpoint''),
      refuse_if (reads = [] \<or> list_ex (\<lambda>r. \<not> wr_required r \<or> \<not> reference_valid (wr_reference r)) reads)
        (fail ''invalid required reads''),
      refuse_if (\<not> distinct (map (\<lambda>r. to_string (wr_reference r)) reads)) (fail ''duplicate required read references''),
      each (\<lambda>phase. refuse_if (length (filter (reads_output phase) reads) \<noteq> 1)
          (fail ''exact Phase1 and Phase3 output reads required''))
        [''slice-full-dev-entry-gate'', ''slice-design-spec-shaper''],
      refuse_if (\<not> write_scope_valid w) (fail ''invalid write scope''),
      each (write_path_check w) (wk_allowed_paths w),
      refuse_if (\<not> authority_valid (nc_authority c)) (fail ''current explicit source authority required''),
      each (\<lambda>s. refuse_if (\<not> authority_scope_ok c s)
        (fail ''authority targets must be bounded to declared source context'')) (wa_scope (nc_authority c)),
      refuse_if (\<not> proofs_valid (nc_proof_requirements c)) (fail ''invalid or duplicate proof obligations''),
      refuse_if (\<not> validations_valid (nc_proof_requirements c) (nc_validation_requirements c))
        (fail ''invalid validation proof links''),
      refuse_if (\<not> obligations_kept (nc_result_closure c) (nc_refresh_resume c))
        (fail ''closure and refresh obligations cannot be weakened'')])"

text \<open>What reading a contract needs from \<^verbatim>\<open>serde_json\<close> and \<^verbatim>\<open>uuid\<close>.\<close>

record contract_codec =
  kc_from_str :: "str \<Rightarrow> work_contract option"
  kc_parse_uuid :: "str \<Rightarrow> uuid option"
  kc_show_uuid :: "uuid \<Rightarrow> str"
  kc_reference_text :: "work_reference \<Rightarrow> str"

definition work_contract_parse :: "contract_codec \<Rightarrow> str \<Rightarrow> work_contract result" where
  "work_contract_parse k body =
     andThen (ok_or (kc_from_str k body) (native_work_contract_refusal ''invalid closed contract shape'')) (\<lambda>c.
     andThen (work_contract_validate (kc_parse_uuid k) (kc_show_uuid k) (kc_reference_text k) c) (\<lambda>_. Inr c))"

definition late_reference :: "pipeline_definition \<Rightarrow> work_reference \<Rightarrow> bool" where
  "late_reference d r = (case r of
      NativeOutput phase _ _ \<Rightarrow>
        (case List.find (\<lambda>p. ph_id p = phase) (pd_phases d) of None \<Rightarrow> True | Some p \<Rightarrow> 4 \<le> ph_ordinal p)
    | _ \<Rightarrow> False)"

definition validate_native_work_contract_output ::
    "contract_codec \<Rightarrow> complete_phase \<Rightarrow> pipeline_definition \<Rightarrow> phase_definition \<Rightarrow> unit result" where
  "validate_native_work_contract_output k req d ph =
     (if \<not> native_work_contract_phase d ph then Inr ()
      else (let artifact = List.find (\<lambda>a. pa_name a = NATIVE_WORK_CONTRACT_ARTIFACT) (po_artifacts (cx_output req)) in
        if po_verdict (cx_output req) \<noteq> Some ''contract_ready''
        then refuse_if (artifact \<noteq> None)
          (native_work_contract_refusal ''canonical contract artifact is only allowed for contract_ready'')
        else andThen (ok_or artifact (native_work_contract_refusal ''required artifact missing'')) (\<lambda>a.
          andThen (work_contract_parse k (pa_body a)) (\<lambda>c. checks
            [refuse_if (list_ex (late_reference d) (map wr_reference (nc_required_reads c) @
                 (case wa_source (nc_authority c) of None \<Rightarrow> [] | Some r \<Rightarrow> [r])))
               (native_work_contract_refusal ''authoring read cannot depend on current or later phase outputs''),
             refuse_if (wt_run_id (nc_target c) \<noteq> cx_run_id req \<or> wt_run_revision (nc_target c) \<noteq> cx_run_revision req \<or>
                 wt_definition_version (nc_target c) \<noteq> pd_version d \<or> wt_definition_digest (nc_target c) \<noteq> pd_digest d)
               (native_work_contract_refusal ''authoring request pins mismatch'')]))))"

section \<open>Containment of paths\<close>

lemma beneath_iff: "root \<noteq> ''.'' \<Longrightarrow> beneath path root \<longleftrightarrow> path = root \<or> (\<exists>s. path = root @ CHR ''/'' # s)"
  by (auto simp: beneath_def strip_prefix_Some prefix_def split: option.splits)

lemma beneath_dot [simp]: "beneath path ''.''"
  by (simp add: beneath_def)

lemma beneath_refl [simp]: "beneath path path"
  by (simp add: beneath_def)

lemma beneath_trans: "beneath q p \<Longrightarrow> beneath p r \<Longrightarrow> p \<noteq> ''.'' \<Longrightarrow> beneath q r"
  by (cases "r = ''.''") (auto simp: beneath_iff)

text \<open>Two roots of one path are comparable.\<close>

lemma beneath_comparable: "beneath q p \<Longrightarrow> beneath q r \<Longrightarrow> beneath p r \<or> beneath r p"
proof (cases "p = ''.'' \<or> r = ''.''")
  case False
  assume q: "beneath q p" "beneath q r"
  with False have "(q = p \<or> (\<exists>s. q = p @ CHR ''/'' # s)) \<and> (q = r \<or> (\<exists>s. q = r @ CHR ''/'' # s))"
    by (simp add: beneath_iff)
  then show ?thesis using False by (auto simp: beneath_iff append_eq_append_conv2 append_eq_Cons_conv Cons_eq_append_conv)
qed auto

lemma path_contains_comparable:
  assumes "beneath q (sp_path p)" "beneath q (sp_path r)" "sp_source_id p = sp_source_id r"
  shows "path_contains p r \<or> path_contains r p"
  using beneath_comparable[OF assms(1,2)] assms(3) by (auto simp: path_contains_def)

text \<open>What an accepted contract says of each path that may be written.\<close>

lemma work_contract_validate_write:
  assumes "work_contract_validate pu su ts c = Inr ()" "p \<in> set (wk_allowed_paths (nc_write_scope c))"
  shows "work_path (sp_path p) False" "write_path_check (nc_write_scope c) p = Inr ()"
  using assms by (auto simp: work_contract_validate_def Let_def check_simps write_scope_valid_def list_all_iff
      simp del: checks.simps)

lemma write_path_checkD:
  assumes "write_path_check w p = Inr ()"
  shows "\<exists>r\<in>set (wk_allowed_roots w). path_contains p r"
    and "r \<in> set (wk_denied_roots w) \<Longrightarrow> \<not> path_contains p r \<and> \<not> path_contains r p"
    and "private \<in> set PRIVATE_ROOTS \<Longrightarrow>
      \<exists>r\<in>set (wk_denied_roots w). sp_source_id r = sp_source_id p \<and> beneath private (sp_path r)"
  using assms by (auto simp: write_path_check_def check_simps list_ex_iff simp del: checks.simps)

lemma work_contract_validate_edit:
  assumes "work_contract_validate pu su ts c = Inr ()" "s \<in> set (wa_scope (nc_authority c))"
    "sa_action s = SourceEdit" "p \<in> set (sa_targets s)"
  shows "\<exists>r\<in>set (wk_allowed_paths (nc_write_scope c)). path_contains p r"
  using assms by (auto simp: work_contract_validate_def Let_def check_simps authority_scope_ok_def list_all_iff
      list_ex_iff simp del: checks.simps)

lemma work_path_not_dot: "work_path s False \<Longrightarrow> s \<noteq> ''.''"
  by (auto simp: work_path_def normalized_path_def)

lemma work_contract_validate_authority:
  assumes "work_contract_validate pu su ts c = Inr ()" "s \<in> set (wa_scope (nc_authority c))" "p \<in> set (sa_targets s)"
  shows "sp_path p \<noteq> ''.''"
  using assms by (auto simp: work_contract_validate_def Let_def check_simps authority_scope_ok_def list_all_iff
      dest!: work_path_not_dot simp del: checks.simps)

section \<open>What a contract lets the executor edit\<close>

definition confined :: "write_scope \<Rightarrow> uuid \<Rightarrow> str \<Rightarrow> bool" where
  "confined w source q \<longleftrightarrow>
     (\<exists>r\<in>set (wk_allowed_roots w). sp_source_id r = source \<and> beneath q (sp_path r)) \<and>
     \<not> (\<exists>r\<in>set (wk_denied_roots w). sp_source_id r = source \<and> beneath q (sp_path r)) \<and>
     \<not> (\<exists>private\<in>set PRIVATE_ROOTS. beneath q private)"

lemma write_path_confined:
  assumes "work_path (sp_path p) False" "write_path_check w p = Inr ()" "beneath q (sp_path p)"
  shows "confined w (sp_source_id p) q"
proof -
  note dot = work_path_not_dot[OF assms(1)]
  have allowed: "\<exists>r\<in>set (wk_allowed_roots w). sp_source_id r = sp_source_id p \<and> beneath q (sp_path r)"
    using write_path_checkD(1)[OF assms(2)] beneath_trans[OF assms(3) _ dot] by (auto simp: path_contains_def)
  have denied: "\<not> beneath q (sp_path r)"
    if "r \<in> set (wk_denied_roots w)" "sp_source_id r = sp_source_id p" for r
    using path_contains_comparable[OF assms(3), of r] write_path_checkD(2)[OF assms(2) that(1)] that(2) by force
  have "\<not> beneath q dir" if hidden: "dir \<in> set PRIVATE_ROOTS" for dir
  proof
    assume q: "beneath q dir"
    obtain r where r: "r \<in> set (wk_denied_roots w)" "sp_source_id r = sp_source_id p" "beneath dir (sp_path r)"
      using write_path_checkD(3)[OF assms(2) hidden] by blast
    have "dir \<noteq> ''.''" using hidden by (auto simp: PRIVATE_ROOTS_def)
    then show False using denied[OF r(1,2)] beneath_trans[OF q r(3)] by blast
  qed
  with allowed denied show ?thesis by (auto simp: confined_def)
qed

lemma edit_target_confined:
  assumes "work_contract_validate pu su ts c = Inr ()" "s \<in> set (wa_scope (nc_authority c))"
    "sa_action s = SourceEdit" "p \<in> set (sa_targets s)" "beneath q (sp_path p)"
  shows "confined (nc_write_scope c) (sp_source_id p) q"
proof -
  obtain r where r: "r \<in> set (wk_allowed_paths (nc_write_scope c))" "path_contains p r"
    using work_contract_validate_edit[OF assms(1-4)] by blast
  then have "beneath q (sp_path r)" "sp_source_id r = sp_source_id p"
    using beneath_trans[OF assms(5)] work_contract_validate_authority[OF assms(1,2,4)]
    by (auto simp: path_contains_def)
  then show ?thesis using write_path_confined work_contract_validate_write[OF assms(1) r(1)] by metis
qed

section \<open>Properties\<close>

text \<open>A contract that is accepted, for the witness.\<close>

definition example_digest :: str where "example_digest = replicate 64 CHR ''a''"

definition example_contract :: work_contract where
  "example_contract = \<lparr>nc_contract_kind = ''native_slice_work_contract_v1'',
     nc_target = \<lparr>wt_scope_id = 1, wt_slice_id = 2, wt_slice_revision = 1, wt_run_id = 3, wt_run_revision = 1,
       wt_phase_id = NATIVE_WORK_CONTRACT_PHASE, wt_definition_kind = kind_as_str FullDesignToExecution,
       wt_definition_version = NATIVE_WORK_CONTRACT_VERSION, wt_definition_digest = example_digest\<rparr>,
     nc_session_declaration = Some \<lparr>ws_workspace_id = 4, ws_session_id = 5, ws_host_id = 6, ws_native_session_id = []\<rparr>,
     nc_source_checkpoint = None,
     nc_required_reads =
       [\<lparr>wr_reference = NativeOutput ''slice-full-dev-entry-gate'' 1 example_digest, wr_required = True\<rparr>,
        \<lparr>wr_reference = NativeOutput ''slice-design-spec-shaper'' 1 example_digest, wr_required = True\<rparr>],
     nc_write_scope = \<lparr>wk_allowed_roots = [\<lparr>sp_source_id = 7, sp_path = ''.''\<rparr>],
       wk_allowed_paths = [\<lparr>sp_source_id = 7, sp_path = ''src''\<rparr>],
       wk_denied_roots = [\<lparr>sp_source_id = 7, sp_path = ''.git''\<rparr>, \<lparr>sp_source_id = 7, sp_path = ''.tect''\<rparr>,
         \<lparr>sp_source_id = 7, sp_path = ''tect''\<rparr>],
       wk_before_hash_required = True\<rparr>,
     nc_authority = \<lparr>wa_status = Authorized, wa_source = Some (NativeInput 8 1 example_digest),
       wa_scope = [\<lparr>sa_action = SourceEdit, sa_targets = [\<lparr>sp_source_id = 7, sp_path = ''src/a''\<rparr>]\<rparr>],
       wa_limitations = ''none''\<rparr>,
     nc_proof_requirements = [\<lparr>wp_id = ''p'', wp_obligation = ''o'', wp_evidence_kind = ProofSourceFile, wp_completion_required = True\<rparr>],
     nc_validation_requirements = [\<lparr>wv_id = ''v'', wv_obligation = ''o'', wv_proof_requirement_ids = [''p''], wv_completion_required = True\<rparr>],
     nc_result_closure = \<lparr>cl_native_result_required = True, cl_summary_required = True, cl_evidence_required = True,
       cl_scope_impact_required = True, cl_remaining_work_required = True, cl_handoff_when_blocked = True\<rparr>,
     nc_refresh_resume = \<lparr>wf_refresh_before_write = True, wf_recheck_authority = True, wf_rehash_required_reads = True,
       wf_verify_before_hash = True, wf_reconcile_unknown_outcome = True, wf_resume_from_current_native_context = True\<rparr>\<rparr>"

definition example_reference_text :: "work_reference \<Rightarrow> str" where
  "example_reference_text r = (case r of NativeOutput i _ _ \<Rightarrow> i | _ \<Rightarrow> [])"

lemma example_contract_accepted:
  "work_contract_validate (\<lambda>_. Some 1) (\<lambda>_. []) example_reference_text example_contract = Inr ()"
  by code_simp

text \<open>
  C32: an accepted contract confines the executor. Whatever path lies at or below a target that it
  authorises for editing lies below an allowed root of its source, below no denied root of that source, and
  below none of the private roots \<open>.git\<close>, \<open>.tect\<close> and \<open>tect/workspace\<close>.
\<close>

theorem accepted_contract_confines_edits:
  assumes "work_contract_validate parse_uuid show_uuid to_string c = Inr ()"
    "s \<in> set (wa_scope (nc_authority c))" "sa_action s = SourceEdit" "p \<in> set (sa_targets s)"
    "beneath q (sp_path p)"
  shows "confined (nc_write_scope c) (sp_source_id p) q"
  using assms by (rule edit_target_confined)

theorem accepted_contract_confines_edits_witness:
  "confined (nc_write_scope example_contract) 7 ''src/a/b.rs''"
  using accepted_contract_confines_edits[OF example_contract_accepted,
      where s = "\<lparr>sa_action = SourceEdit, sa_targets = [\<lparr>sp_source_id = 7, sp_path = ''src/a''\<rparr>]\<rparr>"
        and p = "\<lparr>sp_source_id = 7, sp_path = ''src/a''\<rparr>" and q = "''src/a/b.rs''"]
  by (simp add: example_contract_def beneath_def strip_prefix_def)

end
