(* ===== verification/PipelineCompletion.thy ===== *)
theory PipelineCompletion
  imports PipelineDefinition PipelineFollowups EngineeringReview NativeContract RunExample
    "HOL-Library.Product_Lexorder"
begin

text \<open>
  \<^verbatim>\<open>CompletePipelinePhase::validate\<close> of
  \<^verbatim>\<open>crates/domain/src/pipeline_execution_validation/completion.rs\<close>, with \<^verbatim>\<open>completion/aggregate.rs\<close>,
  \<^verbatim>\<open>completion/tail.rs\<close>, \<^verbatim>\<open>completion_helpers.rs\<close> and the receipt difference of
  \<^verbatim>\<open>pipeline_receipt_diff.rs\<close>: when the submission of a phase is acceptable for its pinned definition. What
  \<^verbatim>\<open>serde_json\<close>, \<^verbatim>\<open>uuid\<close> and the derived \<^verbatim>\<open>Debug\<close> of a constraint compute is a \<open>completion_codec\<close>.
\<close>

section \<open>Refusals\<close>

definition completion_refusal :: "refusal_code \<Rightarrow> str \<Rightarrow> str \<Rightarrow> str \<Rightarrow> str \<Rightarrow> str \<Rightarrow> str \<Rightarrow> error" where
  "completion_refusal code rule path expected actual next_action req =
     Refused (with_required req (with_next_action next_action (with_actual actual (with_expected expected
       (with_path path (with_rule rule (with_message (rc_message code) (refusal_new code))))))))"

definition MAX_PIPELINE_CONTEXT_ID_BYTES :: nat where "MAX_PIPELINE_CONTEXT_ID_BYTES = 1024"

definition bounded_refusal_detail :: "str \<Rightarrow> str" where
  "bounded_refusal_detail s =
     (if length s \<le> 240 then s
      else take (floor_boundary s (240 - length truncation_suffix)) s @ truncation_suffix)"

definition missing_test_target :: "phase_definition \<Rightarrow> phase_output_draft \<Rightarrow> bool" where
  "missing_test_target ph out \<longleftrightarrow> list_ex (\<lambda>key. sublist ''test_target'' key \<and>
     (case po_fields out key of None \<Rightarrow> True | Some v \<Rightarrow> blank v)) (ph_required_fields ph)"

definition reject_agent_supplied_proof :: "complete_phase \<Rightarrow> unit result" where
  "reject_agent_supplied_proof req = checks
     [refuse_if (cx_consumed_outputs req \<noteq> []) (refused_backend_proof ''arguments.params.consumed_outputs''),
      refuse_if (cx_consumed_inputs req \<noteq> []) (refused_backend_proof ''arguments.params.consumed_inputs''),
      refuse_if (cx_consumed_knowledge req \<noteq> None) (refused_backend_proof ''arguments.params.consumed_knowledge''),
      refuse_if (po_skill_reads (cx_output req) \<noteq> []) (refused_backend_proof ''arguments.params.output.skill_reads''),
      refuse_if (po_resource_reads (cx_output req) \<noteq> [])
        (refused_backend_proof ''arguments.params.output.resource_reads'')]"

section \<open>Receipt differences\<close>

type_synonym read_key = "str \<times> str \<times> str"

record receipt_diff =
  fd_expected_unique_count :: nat
  fd_submitted_count :: nat
  fd_submitted_unique_count :: nat
  fd_missing :: "read_receipt list"
  fd_unexpected :: "read_receipt list"
  fd_duplicates :: "(read_receipt \<times> nat) list"

definition receipt_of :: "read_key \<Rightarrow> read_receipt" where
  "receipt_of = (\<lambda>(i, v, g). \<lparr>rr_instruction_id = i, rr_version = v, rr_digest = g\<rparr>)"

definition diff_between :: "read_key list \<Rightarrow> read_key list \<Rightarrow> receipt_diff" where
  "diff_between expected submitted =
     (let e = btree_list expected; s = btree_list submitted in
      \<lparr>fd_expected_unique_count = length e, fd_submitted_count = length submitted,
       fd_submitted_unique_count = length s,
       fd_missing = map receipt_of (filter (\<lambda>k. k \<notin> set s) e),
       fd_unexpected = map receipt_of (filter (\<lambda>k. k \<notin> set e) s),
       fd_duplicates = map (\<lambda>k. (receipt_of k, count_list submitted k)) (filter (\<lambda>k. 1 < count_list submitted k) s)\<rparr>)"

record completion_codec =
  cv_sections :: "receipt_diff \<Rightarrow> (str \<times> str) option"
  cv_show_constraint :: "output_constraint \<Rightarrow> str"
  cv_command_receipt :: "str \<Rightarrow> command_receipt option"
  cv_report :: "str \<Rightarrow> review_report option"
  cv_contract :: contract_codec

definition phase_read_receipt_refusal :: "completion_codec \<Rightarrow> str \<Rightarrow> str \<Rightarrow> str \<Rightarrow> receipt_diff \<Rightarrow> error" where
  "phase_read_receipt_refusal v kind rule path diff =
     (let (next_action, req) = (if kind = ''skill'' then (''supply_exact_phase_skill_reads'', ''exact_phase_skill_reads'')
            else (''supply_exact_phase_resource_reads'', ''exact_phase_resource_reads'')) in
      case cv_sections v diff of
        None \<Rightarrow> InternalInvariant
      | Some (expected, actual) \<Rightarrow> completion_refusal RC_InvalidOutput rule path expected actual next_action req)"

definition read_key_of :: "read_receipt \<Rightarrow> read_key" where
  "read_key_of r = (rr_instruction_id r, rr_version r, rr_digest r)"

definition snapshot_key :: "instruction_snapshot \<Rightarrow> read_key" where
  "snapshot_key s = (in_id s, in_version s, in_digest s)"

definition reads_check ::
    "completion_codec \<Rightarrow> str \<Rightarrow> str \<Rightarrow> str \<Rightarrow> read_receipt list \<Rightarrow> instruction_snapshot list \<Rightarrow> unit result" where
  "reads_check v kind rule path reads expected =
     (let submitted = map read_key_of reads; pinned = map snapshot_key expected in
      refuse_if (set submitted \<noteq> set pinned \<or> card (set submitted) \<noteq> length reads)
        (phase_read_receipt_refusal v kind rule path (diff_between (btree_list pinned) submitted)))"

section \<open>Unsatisfied constraints\<close>

text \<open>\<^verbatim>\<open>values.join(", ")\<close>\<close>

fun join_text :: "str \<Rightarrow> str list \<Rightarrow> str" where
  "join_text sep [] = []"
| "join_text sep [s] = s"
| "join_text sep (s # t # ss) = s @ sep @ join_text sep (t # ss)"

fun constraint_detail :: "output_constraint \<Rightarrow> (str \<times> str \<times> str) option" where
  "constraint_detail (CommandReceiptRequired f status scope nonzero target w) = Some (f,
     ''JSON string {command,target,status:'' @ status @ '',exit_code:'' @ (if nonzero then ''nonzero'' else ''0'') @
     '',fresh:true,skipped:false,scopes:[...'' @ scope @ ''...]}'' @
     (case target of None \<Rightarrow> '''' | Some t \<Rightarrow> '' with target equal to output.fields.'' @ t), ''replace_command_receipt'')"
| "constraint_detail (ReviewerContextMode f i s) = Some (f,
     i @ '' with fresh independent reviewer_context, or '' @ s @ '' without reviewer_context'',
     ''correct_current_plan_review'')"
| "constraint_detail (FieldEquals f v w) = Some (f, ''exact string `'' @ v @ ''`'', ''correct_field'')"
| "constraint_detail (FieldOneOf f vs w) =
     Some (f, ''one of ['' @ join_text '', '' vs @ '']'', ''correct_field'')"
| "constraint_detail (FieldsEqual f g w) = Some (f, ''same value as output.fields.'' @ g, ''correct_field'')"
| "constraint_detail c = None"

definition output_constraint_refusal :: "completion_codec \<Rightarrow> output_constraint \<Rightarrow> phase_output_draft \<Rightarrow> error" where
  "output_constraint_refusal v c out =
     (case constraint_detail c of
        None \<Rightarrow> completion_refusal RC_InvalidOutput ''WP6-OUTPUT-CONSTRAINT-01'' ''arguments.params.output.fields''
          (''current phase constraint '' @ cv_show_constraint v c) ''constraint not satisfied'' ''correct_phase_output''
          ''valid_output''
      | Some (f, expected, next_action) \<Rightarrow>
          completion_refusal RC_InvalidOutput ''WP6-OUTPUT-CONSTRAINT-01'' (''arguments.params.output.fields.'' @ f)
            expected (case po_fields out f of None \<Rightarrow> ''missing'' | Some s \<Rightarrow> bounded_refusal_detail s) next_action f)"

section \<open>The aggregate of an output\<close>

definition aggregate_refusal :: "str \<Rightarrow> str \<Rightarrow> str \<Rightarrow> str \<Rightarrow> error" where
  "aggregate_refusal rule path expected actual = completion_refusal RC_InvalidOutput rule (''arguments.params.output.'' @ path)
     expected actual ''correct_phase_completion'' ''valid_phase_completion''"

definition dispositions_check :: "complete_phase \<Rightarrow> pipeline_definition \<Rightarrow> phase_definition \<Rightarrow> unit result" where
  "dispositions_check req d ph =
     (let ds = po_dispositions (cx_output req);
          fail = (\<lambda>rule. aggregate_refusal (''WP6-COMPLETE-OUTPUT-'' @ rule) ''dispositions'');
          foreign = filter (\<lambda>x. x \<notin> set (ph_allowed_dispositions ph)) ds;
          unique = show_nat (card (set ds)) in
      checks
       [refuse_if ((\<not> is_07 d \<or> ph_verdict_routes ph = [] \<or> cx_outcome req = PhaseCompleted) \<and>
            list_ex (\<lambda>x. x \<notin> set ds) (ph_required_dispositions ph))
          (fail ''06'' ''every required disposition''
            (''required='' @ show_nat (length (ph_required_dispositions ph)) @ ''; supplied='' @ show_nat (length ds))),
        refuse_if (ph_disposition_required ph \<and> ds = [])
          (fail ''07'' ''at least one required disposition'' ''count=0''),
        refuse_if (ph_allowed_dispositions ph \<noteq> [] \<and> foreign \<noteq> [])
          (fail ''08'' ''only allowed phase dispositions'' (''disallowed_count='' @ show_nat (length foreign))),
        refuse_if (ph_allowed_dispositions ph \<noteq> [] \<and> ph_required_dispositions ph = [] \<and> ph_verdict_routes ph = [] \<and>
            ph_disposition_required ph \<and> length ds \<noteq> 1)
          (fail ''09'' ''exactly one disposition'' (show_nat (length ds))),
        refuse_if (card (set ds) \<noteq> length ds)
          (fail ''10'' ''unique dispositions'' (''submitted='' @ show_nat (length ds) @ ''; unique='' @ unique))])"

definition reviewer_context_check :: "phase_output_draft \<Rightarrow> reviewer_attestation \<Rightarrow> unit result" where
  "reviewer_context_check out a =
     (let ids = rw_producer_context_ids a;
          context = (\<lambda>rule path. aggregate_refusal (''WP6-REVIEW-CONTEXT-'' @ rule) (''reviewer_context.'' @ path));
          producers = (\<lambda>rule path. aggregate_refusal (''WP6-REVIEW-PRODUCERS-'' @ rule)
            (''reviewer_context.producer_context_ids'' @ path)) in
      checks
       [refuse_if (blank (rw_reviewer_identity a))
          (context ''01'' ''reviewer_identity'' ''non-empty reviewer identity'' ''empty''),
        refuse_if (MAX_PIPELINE_CONTEXT_ID_BYTES < length (rw_reviewer_identity a))
          (context ''02'' ''reviewer_identity'' ''reviewer identity within the byte limit''
            (show_nat (length (rw_reviewer_identity a)))),
        refuse_if (blank (rw_reviewer_context_id a))
          (context ''03'' ''reviewer_context_id'' ''non-empty reviewer context label'' ''empty''),
        refuse_if (MAX_PIPELINE_CONTEXT_ID_BYTES < length (rw_reviewer_context_id a))
          (context ''04'' ''reviewer_context_id'' ''reviewer context within the byte limit''
            (show_nat (length (rw_reviewer_context_id a)))),
        refuse_if (rw_reviewer_context_id a \<noteq> po_producer_context_id out)
          (context ''05'' ''reviewer_context_id'' ''same label as output producer_context_id'' ''labels_equal=false''),
        refuse_if (ids = []) (producers ''01'' '''' ''at least one producer label'' ''count=0''),
        refuse_if (100 < length ids) (producers ''02'' '''' ''at most 100 producer labels'' (show_nat (length ids))),
        each_idx (\<lambda>k i. checks
          [refuse_if (blank i) (producers ''03'' (''['' @ show_nat k @ '']'') ''non-empty producer label'' ''empty''),
           refuse_if (MAX_PIPELINE_CONTEXT_ID_BYTES < length i) (producers ''04'' (''['' @ show_nat k @ '']'')
             ''producer label within the byte limit'' (show_nat (length i)))]) ids,
        refuse_if (rw_reviewer_context_id a \<in> set ids)
          (producers ''05'' '''' ''producer labels exclude reviewer label'' ''reviewer_included=true''),
        refuse_if (card (set ids) \<noteq> length ids) (producers ''06'' '''' ''unique producer labels''
          (''submitted='' @ show_nat (length ids) @ ''; unique='' @ show_nat (card (set ids)))),
        refuse_if (\<not> rw_fresh_input a) (context ''06'' ''fresh_input'' ''fresh_input true'' ''fresh_input=false'')])"

definition verdict_allowed :: "phase_definition \<Rightarrow> phase_output_draft \<Rightarrow> bool" where
  "verdict_allowed ph out \<longleftrightarrow> ph_allowed_verdicts ph = [] \<or>
     (case po_verdict out of None \<Rightarrow> False | Some v \<Rightarrow> v \<in> set (ph_allowed_verdicts ph))"

definition first_aggregate_refusal :: "complete_phase \<Rightarrow> pipeline_definition \<Rightarrow> phase_definition \<Rightarrow> unit result" where
  "first_aggregate_refusal req d ph =
     (let out = cx_output req in checks
     [refuse_if (\<not> verdict_allowed ph out) (aggregate_refusal ''WP6-COMPLETE-OUTPUT-05'' ''verdict''
        ''allowed phase verdict'' (''present='' @ show_bool (po_verdict out \<noteq> None))),
      dispositions_check req d ph,
      each_opt (reviewer_context_check out) (po_reviewer_context out),
      refuse_if (ph_fresh_reviewer_input ph \<and> po_reviewer_context out = None) (aggregate_refusal ''WP6-REVIEW-CONTEXT-07''
        ''reviewer_context'' ''fresh reviewer context required by current phase'' ''missing'')])"

section \<open>Route, follow-ups, reads and terminal fields\<close>

definition matching_route :: "complete_phase \<Rightarrow> phase_definition \<Rightarrow> str \<Rightarrow> verdict_route option" where
  "matching_route req ph verdict =
     List.find (\<lambda>r. vr_verdict r = verdict \<and> vr_outcome r = cx_outcome req \<and> vr_transition r = cx_transition req \<and>
       (case cx_revisit_phase_id req of Some i \<Rightarrow> i \<in> set (vr_revisit_to r) | None \<Rightarrow> vr_revisit_to r = []))
     (ph_verdict_routes ph)"

definition route_match_check :: "complete_phase \<Rightarrow> phase_definition \<Rightarrow> unit result" where
  "route_match_check req ph =
     each_opt (\<lambda>verdict.
       andThen (ok_or (matching_route req ph verdict) (completion_refusal RC_InvalidOutput ''WP6-COMPLETE-OUTPUT-11''
         ''arguments.params.output.verdict'' ''verdict route matching outcome, transition and revisit phase''
         ''no matching route'' ''align_completion_with_verdict_route'' ''valid_verdict_route'')) (\<lambda>r.
       refuse_if (set (po_dispositions (cx_output req)) \<noteq> set (vr_dispositions r))
         (aggregate_refusal ''WP6-COMPLETE-OUTPUT-12'' ''dispositions'' ''exact disposition set of matched verdict route''
           ''set mismatch''))) (po_verdict (cx_output req))"

fun show_outcome :: "phase_outcome \<Rightarrow> str" where
  "show_outcome PhaseCompleted = ''Completed''"
| "show_outcome PhaseWaitingInput = ''WaitingInput''"
| "show_outcome PhaseBlocked = ''Blocked''"

fun show_transition :: "transition \<Rightarrow> str" where
  "show_transition Continue = ''Continue''"
| "show_transition Complete = ''Complete''"
| "show_transition Block = ''Block''"
| "show_transition Escalate = ''Escalate''"

definition transition_refusal :: "complete_phase \<Rightarrow> str \<Rightarrow> str \<Rightarrow> str \<Rightarrow> error" where
  "transition_refusal req rule path expected =
     completion_refusal RC_InvalidOutput (''WP6-COMPLETE-OUTPUT-'' @ rule) (''arguments.params.'' @ path) expected
       (''terminal_present='' @ show_bool (cx_terminal_result req \<noteq> None) @
        ''; escalation_present='' @ show_bool (cx_escalation_target req \<noteq> None) @
        ''; publish='' @ show_bool (cx_publish_blocked_result req) @
        ''; outcome='' @ show_outcome (cx_outcome req) @ ''; transition='' @ show_transition (cx_transition req))
       ''align_transition_result_fields'' ''valid_transition_result''"

definition transition_fields_check :: "complete_phase \<Rightarrow> unit result" where
  "transition_fields_check req =
     (let terminal = cx_terminal_result req \<noteq> None; escalation = cx_escalation_target req \<noteq> None in
      case cx_transition req of
        Continue \<Rightarrow> refuse_if (terminal \<or> escalation)
          (transition_refusal req ''14'' (if terminal then ''terminal_result'' else ''escalation_target'')
             ''continue has no terminal result or escalation target'')
      | Complete \<Rightarrow> refuse_if (\<not> terminal \<or> escalation)
          (transition_refusal req ''15'' (if \<not> terminal then ''terminal_result'' else ''escalation_target'')
             ''complete has terminal result and no escalation target'')
      | Block \<Rightarrow> refuse_if (escalation \<or> cx_publish_blocked_result req \<noteq> terminal)
          (transition_refusal req ''16'' (if escalation then ''escalation_target'' else ''terminal_result'')
             ''block has no escalation target and terminal presence equals publication flag'')
      | Escalate \<Rightarrow> refuse_if (\<not> terminal \<or> \<not> escalation)
          (transition_refusal req ''17'' (if \<not> terminal then ''terminal_result'' else ''escalation_target'')
             ''escalate has terminal result and escalation target''))"

definition validate_terminal :: "terminal_result_draft \<Rightarrow> unit result" where
  "validate_terminal t = checks
     [each (\<lambda>(name, empty). refuse_if empty (completion_refusal RC_InvalidOutput ''WP6-COMPLETE-OUTPUT-20''
        (''arguments.params.terminal_result.'' @ name) ''non-empty terminal result field'' ''empty''
        ''supply_terminal_result_field'' name))
        [(''summary'', blank (td_summary t)), (''scope_impact'', blank (td_scope_impact t)),
         (''remaining_work'', blank (td_remaining_work t)), (''evidence'', td_evidence t = [])],
      each_idx (\<lambda>k e. each (\<lambda>(name, empty). refuse_if empty (completion_refusal RC_InvalidOutput
        ''WP6-COMPLETE-OUTPUT-21'' (''arguments.params.terminal_result.evidence['' @ show_nat k @ ''].'' @ name)
        ''non-empty evidence field'' ''empty'' ''supply_terminal_evidence'' ''terminal_evidence''))
        [(''kind'', blank (se_kind e)), (''reference'', blank (se_reference e)),
         (''observation'', blank (se_observation e))]) (td_evidence t)]"

definition after_followups_check :: "completion_codec \<Rightarrow> complete_phase \<Rightarrow> phase_definition \<Rightarrow> unit result" where
  "after_followups_check v req ph = checks
     [reads_check v ''skill'' ''WP6-SKILL-READ-01'' ''arguments.params.output.skill_reads''
        (po_skill_reads (cx_output req)) (ph_skills ph),
      reads_check v ''resource'' ''WP6-RESOURCE-READ-01'' ''arguments.params.output.resource_reads''
        (po_resource_reads (cx_output req)) (ph_resources ph),
      transition_fields_check req,
      refuse_if (cx_publish_blocked_result req \<and> (cx_outcome req \<noteq> PhaseBlocked \<or> cx_transition req \<noteq> Block))
        (transition_refusal req ''18'' ''publish_blocked_result''
           ''publication requires blocked outcome and block transition''),
      each_opt validate_terminal (cx_terminal_result req)]"

text \<open>\<open>None\<close> stands for a panic while the follow-up proposal is checked.\<close>

definition validate_completion_tail ::
    "completion_codec \<Rightarrow> complete_phase \<Rightarrow> pipeline_definition \<Rightarrow> phase_definition \<Rightarrow> unit result option" where
  "validate_completion_tail v req d ph =
     (case route_match_check req ph of
        Inl e \<Rightarrow> Some (Inl e)
      | Inr _ \<Rightarrow>
          (case validate_followup_proposal d ph (cx_output req) (cx_outcome req) (cx_transition req) (cx_consumed_outputs req) of
             None \<Rightarrow> None
           | Some (Inl e) \<Rightarrow> Some (Inl e)
           | Some (Inr _) \<Rightarrow> Some (after_followups_check v req ph)))"

section \<open>The whole request\<close>

definition request_refusal :: "refusal_code \<Rightarrow> str \<Rightarrow> str \<Rightarrow> str \<Rightarrow> str \<Rightarrow> error" where
  "request_refusal code rule path expected actual = completion_refusal code (''WP6-COMPLETE-'' @ rule)
     (''arguments.params.'' @ path) expected actual ''correct_phase_completion'' ''valid_phase_completion''"

definition consumed_output_check :: "nat \<Rightarrow> consumed_output \<Rightarrow> unit result" where
  "consumed_output_check k o1 =
     (let fail = (\<lambda>rule name. request_refusal RC_InputSchemaInvalid (''REQUEST-04-'' @ rule)
        (''consumed_outputs['' @ show_nat k @ ''].'' @ name)) in checks
     [refuse_if (blank (co_phase_id o1)) (fail ''1'' ''phase_id'' ''non-empty phase id'' ''empty''),
      refuse_if (co_output_revision o1 < 1)
        (fail ''2'' ''output_revision'' ''positive output revision'' (show_int (co_output_revision o1))),
      refuse_if (blank (co_digest o1)) (fail ''3'' ''digest'' ''non-empty output digest'' ''empty'')])"

definition consumed_input_check :: "nat \<Rightarrow> consumed_input \<Rightarrow> unit result" where
  "consumed_input_check k i =
     (let fail = (\<lambda>rule name. request_refusal RC_InputSchemaInvalid (''REQUEST-05-'' @ rule)
        (''consumed_inputs['' @ show_nat k @ ''].'' @ name)) in checks
     [refuse_if (is_nil (ci_input_id i)) (fail ''1'' ''input_id'' ''non-nil input UUID'' ''nil UUID''),
      refuse_if (ci_sequence i < 1) (fail ''2'' ''sequence'' ''positive input sequence'' (show_int (ci_sequence i))),
      refuse_if (blank (ci_digest i)) (fail ''3'' ''digest'' ''non-empty input digest'' ''empty'')])"

definition request_check :: "complete_phase \<Rightarrow> pipeline_definition \<Rightarrow> unit result" where
  "request_check req d =
     (let out = cx_output req; schema = request_refusal RC_InputSchemaInvalid; output = request_refusal RC_InvalidOutput in
      checks
       [(if is_07 d then reject_agent_supplied_proof req else Inr ()),
        refuse_if (is_nil (cx_request_id req)) (schema ''REQUEST-01'' ''request_id'' ''non-nil request UUID'' ''nil UUID''),
        refuse_if (is_nil (cx_run_id req)) (schema ''REQUEST-02'' ''run_id'' ''non-nil run UUID'' ''nil UUID''),
        refuse_if (cx_run_revision req < 1)
          (schema ''REQUEST-03'' ''run_revision'' ''positive revision'' (show_int (cx_run_revision req))),
        refuse_if (\<not> is_07 d \<and> blank (po_body out))
          (output ''OUTPUT-01'' ''output.body'' ''non-empty legacy output body'' ''empty''),
        refuse_if (blank (po_producer_context_id out))
          (output ''OUTPUT-02'' ''output.producer_context_id'' ''non-empty producer context label'' ''empty''),
        refuse_if (MAX_PIPELINE_CONTEXT_ID_BYTES < length (po_producer_context_id out))
          (output ''OUTPUT-03'' ''output.producer_context_id'' ''producer label within the context byte limit''
            (show_nat (length (po_producer_context_id out)))),
        refuse_if (case po_reference out of None \<Rightarrow> False | Some s \<Rightarrow> blank s)
          (output ''OUTPUT-04'' ''output.reference'' ''non-empty reference when supplied'' ''empty''),
        each_idx consumed_output_check (cx_consumed_outputs req),
        each_idx consumed_input_check (cx_consumed_inputs req)])"

definition completed_phase :: "complete_phase \<Rightarrow> pipeline_definition \<Rightarrow> phase_definition result" where
  "completed_phase req d =
     ok_or (List.find (\<lambda>ph. ph_id ph = cx_phase_id req) (pd_phases d))
       (completion_refusal RC_InputSchemaInvalid ''WP6-COMPLETE-REQUEST-06'' ''arguments.params.phase_id''
         ''phase id present in the pinned definition'' ''no matching phase'' ''select_current_phase'' ''current_phase_id'')"

definition checkpoint_check :: "complete_phase \<Rightarrow> pipeline_definition \<Rightarrow> phase_definition \<Rightarrow> unit result" where
  "checkpoint_check req d ph =
     (let waiting = po_verdict (cx_output req) = Some ''waiting_research'';
          creates = (pd_kind d = DeepBrainstorming \<and> ph_ordinal ph = 5 \<and> waiting);
          supplied = cx_research_checkpoint req \<noteq> None in
      checks
       [refuse_if (creates \<noteq> supplied) (request_refusal RC_InputSchemaInvalid ''REQUEST-07'' ''research_checkpoint''
          ''checkpoint presence matching waiting_research verdict''
          (''expected_presence='' @ show_bool creates @ ''; supplied_presence='' @ show_bool supplied)),
        each_opt (\<lambda>checkpoint. checks
          [checkpoint_draft_validate checkpoint,
           refuse_if (pd_kind d \<noteq> DeepBrainstorming \<or> ph_ordinal ph \<noteq> 5 \<or> cx_outcome req \<noteq> PhaseWaitingInput \<or>
               cx_transition req \<noteq> Continue \<or> \<not> waiting)
             (completion_refusal RC_InvalidOutput ''WP6-COMPLETE-OUTPUT-13'' ''arguments.params.research_checkpoint''
                ''deep brainstorming phase 5 waiting-input continue waiting_research completion''
                ''checkpoint completion predicates differ'' ''align_research_checkpoint_completion''
                ''valid_research_checkpoint_completion'')]) (cx_research_checkpoint req)])"

definition required_fields_check :: "phase_definition \<Rightarrow> phase_output_draft \<Rightarrow> unit result" where
  "required_fields_check ph out =
     (case List.find (\<lambda>key. case po_fields out key of None \<Rightarrow> True | Some v \<Rightarrow> blank v) (ph_required_fields ph) of
        None \<Rightarrow> Inr ()
      | Some key \<Rightarrow> Inl (completion_refusal RC_InvalidOutput ''WP6-OUTPUT-FIELD-01''
          (''arguments.params.output.fields.'' @ key) ''non-empty string required by the current phase contract''
          ''missing or empty'' ''supply_required_phase_field'' key))"

definition aggregate_check :: "complete_phase \<Rightarrow> pipeline_definition \<Rightarrow> phase_definition \<Rightarrow> unit result" where
  "aggregate_check req d ph =
     map_err (\<lambda>e. if is_07 d \<and> missing_test_target ph (cx_output req)
         then completion_refusal RC_NoTestTarget ''WP6-TEST-TARGET-01''
           ''arguments.params.output.fields.selected_test_target'' ''a non-empty executable test target''
           ''missing or empty'' ''select_test_target'' ''selected_test_target''
         else e)
       (first_aggregate_refusal req d ph)"

definition completed_phase_check ::
    "completion_codec \<Rightarrow> complete_phase \<Rightarrow> pipeline_definition \<Rightarrow> phase_definition \<Rightarrow> unit result" where
  "completed_phase_check v req d ph = checks
     [checkpoint_check req d ph,
      required_fields_check ph (cx_output req),
      aggregate_check req d ph,
      each (\<lambda>c. refuse_if (\<not> constraint_satisfied (cv_command_receipt v) (cx_output req) c)
        (output_constraint_refusal v c (cx_output req))) (ph_output_constraints ph),
      validate_completion_constraints (cv_report v) req ph,
      validate_artifacts ph (cx_output req),
      validate_native_work_contract_output (cv_contract v) req d ph]"

definition completion_validate :: "completion_codec \<Rightarrow> complete_phase \<Rightarrow> pipeline_definition \<Rightarrow> unit result option" where
  "completion_validate v req d =
     (case andThen (request_check req d) (\<lambda>_. andThen (completed_phase req d) (\<lambda>ph.
          andThen (completed_phase_check v req d ph) (\<lambda>_. Inr ph))) of
        Inl e \<Rightarrow> Some (Inl e)
      | Inr ph \<Rightarrow> validate_completion_tail v req d ph)"

section \<open>Facts\<close>

lemma validate_proposal_total: "validate_proposal kind c p consumed \<noteq> None"
proof (cases "checks [proposal_shape_check c p consumed, current_run_check kind c (current_nodes p) consumed]")
  case (Inl e)
  then show ?thesis by (simp add: validate_proposal_def)
next
  case (Inr u)
  then show ?thesis
    using validate_dependencies_Some[of "btree_list (map fn_local_id (fp_nodes p))" p "first_local_id (current_nodes p)"]
    by (auto simp: validate_proposal_def)
qed

lemma validate_followup_proposal_total: "validate_followup_proposal d ph out outcome move consumed \<noteq> None"
  using validate_proposal_total by (auto simp: validate_followup_proposal_def split: option.splits)

lemma completion_validate_total: "completion_validate v req d \<noteq> None"
proof -
  have "validate_completion_tail v req d ph \<noteq> None" for ph
    using validate_followup_proposal_total [of d ph "cx_output req" "cx_outcome req" "cx_transition req" "cx_consumed_outputs req"]
    by (auto simp: validate_completion_tail_def split: sum.splits option.splits)
  then show ?thesis by (auto simp: completion_validate_def split: sum.splits)
qed

lemma completion_validate_Inr:
  "completion_validate v req d = Some (Inr ()) \<longleftrightarrow>
     request_check req d = Inr () \<and>
     (\<exists>ph. List.find (\<lambda>ph. ph_id ph = cx_phase_id req) (pd_phases d) = Some ph \<and>
        completed_phase_check v req d ph = Inr () \<and> route_match_check req ph = Inr () \<and>
        validate_followup_proposal d ph (cx_output req) (cx_outcome req) (cx_transition req) (cx_consumed_outputs req) =
          Some (Inr ()) \<and>
        after_followups_check v req ph = Inr ())"
  by (auto simp: completion_validate_def validate_completion_tail_def completed_phase_def andThen_Inr andThen_Inl ok_or_Inr
      split: sum.splits option.splits)

lemma required_fields_check_Inr:
  "required_fields_check ph out = Inr () \<longleftrightarrow>
     list_all (\<lambda>key. \<exists>s. po_fields out key = Some s \<and> \<not> blank s) (ph_required_fields ph)"
proof -
  let ?bad = "\<lambda>key. case po_fields out key of None \<Rightarrow> True | Some v \<Rightarrow> blank v"
  have "required_fields_check ph out = Inr () \<longleftrightarrow> List.find ?bad (ph_required_fields ph) = None"
    by (simp add: required_fields_check_def split: option.split)
  also have "\<dots> \<longleftrightarrow> (\<forall>key\<in>set (ph_required_fields ph). \<not> ?bad key)" by (auto simp: find_None_iff)
  also have "\<dots> \<longleftrightarrow> list_all (\<lambda>key. \<exists>s. po_fields out key = Some s \<and> \<not> blank s) (ph_required_fields ph)"
    unfolding list_all_iff by (intro ball_cong refl) (simp split: option.split)
  finally show ?thesis .
qed

text \<open>The refusal for a missing test target cannot be reached: a blank required field was refused before.\<close>

lemma test_target_refusal_unreachable:
  assumes "required_fields_check ph out = Inr ()"
  shows "\<not> missing_test_target ph out"
  using assms by (auto simp: required_fields_check_Inr missing_test_target_def list_all_iff list_ex_iff split: option.splits)

lemma reads_check_Inr:
  "reads_check v kind rule path reads expected = Inr () \<longleftrightarrow>
     set (map read_key_of reads) = set (map snapshot_key expected) \<and> distinct (map read_key_of reads)"
proof -
  have "card (set (map read_key_of reads)) = length reads \<longleftrightarrow> distinct (map read_key_of reads)"
    using card_set_length[of "map read_key_of reads"] by simp
  then show ?thesis unfolding reads_check_def Let_def refuse_if_Inr by auto
qed

text \<open>Navigation of an accepted route.\<close>

lemma matching_route_Some:
  assumes "matching_route req ph verdict = Some r"
  shows "r \<in> set (ph_verdict_routes ph)" "vr_verdict r = verdict" "vr_outcome r = cx_outcome req"
    "vr_transition r = cx_transition req" "cx_revisit_phase_id req = None \<longleftrightarrow> vr_revisit_to r = []"
    "cx_revisit_phase_id req = Some i \<Longrightarrow> i \<in> set (vr_revisit_to r)"
  using assms by (auto simp: matching_route_def find_Some_iff split: option.splits)

lemma resolve_revisit_earlier:
  assumes d: "definition_validate d = Inr ()" and ph: "ph \<in> set (pd_phases d)"
    and target: "i \<in> set (ph_allowed_backward_to ph)" "cx_revisit_phase_id req = Some i"
  shows "\<exists>t. resolve_revisit req d ph = Inr (Some t) \<and> t \<in> set (pd_phases d) \<and> ph_id t = i \<and> ph_ordinal t < ph_ordinal ph"
proof -
  obtain t where t: "t \<in> set (pd_phases d)" "ph_id t = i" "ph_ordinal t < ph_ordinal ph"
    using definition_validate_flow(1) [OF d ph] target(1) by (auto simp: phase_flow_ok_def earlier_in_def)
  obtain u where u: "List.find (\<lambda>c. ph_id c = i) (pd_phases d) = Some u"
    using t(1,2) by (cases "List.find (\<lambda>c. ph_id c = i) (pd_phases d)") (auto simp: find_None_iff)
  have "u = t" using find_phase [OF u] phase_unique [OF d _ t(1)] t(2) by simp
  with t u target show ?thesis by (auto simp: resolve_revisit_def)
qed

lemma next_phase_exists:
  assumes d: "definition_validate d = Inr ()" and ph: "ph \<in> set (pd_phases d)" "ph_ordinal ph < length (pd_phases d)"
  shows "\<exists>t. List.find (\<lambda>c. ph_ordinal c = ph_ordinal ph + 1) (pd_phases d) = Some t"
proof -
  have "pd_phases d ! ph_ordinal ph \<in> set (pd_phases d)" "ph_ordinal (pd_phases d ! ph_ordinal ph) = ph_ordinal ph + 1"
    using ph(2) definition_validate_ordinals(1) [OF d] by auto
  then show ?thesis
    by (cases "List.find (\<lambda>c. ph_ordinal c = ph_ordinal ph + 1) (pd_phases d)") (auto simp: find_None_iff)
qed

definition forward_past_the_end :: "complete_phase \<Rightarrow> pipeline_definition \<Rightarrow> phase_definition \<Rightarrow> bool" where
  "forward_past_the_end req d ph \<longleftrightarrow> cx_outcome req = PhaseCompleted \<and> cx_transition req = Continue \<and>
     cx_revisit_phase_id req = None \<and> ph_ordinal ph = length (pd_phases d)"

lemma route_navigates:
  assumes d: "definition_validate d = Inr ()" and ph: "ph \<in> set (pd_phases d)"
    and route: "matching_route req ph verdict = Some r" and inside: "\<not> forward_past_the_end req d ph"
  shows "\<exists>plan. plan_next_state req d ph = Inr plan"
proof -
  note r = matching_route_Some [OF route]
  have flow: "route_flow_ok d ph r" using definition_validate_flow(1) [OF d ph] r(1) by (simp add: phase_flow_ok_def)
  show ?thesis
  proof (cases "cx_transition req = Continue")
    case True
    have revisit: "\<exists>t. resolve_revisit req d ph = Inr (Some t)" if "cx_revisit_phase_id req = Some i" for i
      using resolve_revisit_earlier [OF d ph _ that] r(6) [OF that] flow by (auto simp: route_flow_ok_def)
    have forward: "\<exists>t. List.find (\<lambda>c. ph_ordinal c = ph_ordinal ph + 1) (pd_phases d) = Some t"
      if "cx_outcome req = PhaseCompleted" "cx_revisit_phase_id req = None"
      using next_phase_exists [OF d ph] phase_ordinal_range [OF d ph] inside that True
      by (fastforce simp: forward_past_the_end_def)
    show ?thesis
    proof (cases "cx_revisit_phase_id req")
      case None
      then show ?thesis using True forward
        by (cases "cx_outcome req") (auto simp: plan_next_state_def resolve_revisit_def)
    next
      case (Some i)
      then show ?thesis using True revisit by (cases "cx_outcome req") (auto simp: plan_next_state_def)
    qed
  next
    case False
    then show ?thesis using flow r(3,4)
      by (cases "cx_transition req"; cases "cx_outcome req") (auto simp: plan_next_state_def route_flow_ok_def)
  qed
qed

lemma past_the_end_refused:
  assumes d: "definition_validate d = Inr ()" and past: "forward_past_the_end req d ph"
  shows "plan_next_state req d ph = Inl InvalidArguments"
proof -
  have "List.find (\<lambda>c. ph_ordinal c = ph_ordinal ph + 1) (pd_phases d) = None"
    using phase_ordinal_range(2) [OF d] past by (fastforce simp: find_None_iff forward_past_the_end_def)
  then show ?thesis using past by (simp add: plan_next_state_def resolve_revisit_def forward_past_the_end_def)
qed

lemma published_iff:
  "transition_fields_check req = Inr () \<Longrightarrow> published sp req = [] \<longleftrightarrow> cx_terminal_result req = None"
  by (cases "cx_transition req") (auto simp: transition_fields_check_def Let_def refuse_if_Inr published_def)

section \<open>Examples\<close>

definition example_completion_codec :: completion_codec where
  "example_completion_codec = \<lparr>cv_sections = (\<lambda>_. None), cv_show_constraint = (\<lambda>_. []), cv_command_receipt = (\<lambda>_. None),
     cv_report = (\<lambda>_. None), cv_contract = \<lparr>kc_from_str = (\<lambda>_. None), kc_parse_uuid = (\<lambda>_. None),
       kc_show_uuid = (\<lambda>_. []), kc_reference_text = (\<lambda>_. [])\<rparr>\<rparr>"

text \<open>The completion of the first phase of \<open>example_definition\<close>.\<close>

definition example_submission :: complete_phase where
  "example_submission = \<lparr>cx_request_id = 1, cx_run_id = 1, cx_run_revision = 1, cx_phase_id = ''plan'',
     cx_outcome = PhaseCompleted, cx_transition = Continue, cx_output = plain_output\<lparr>po_verdict := Some ''ready''\<rparr>,
     cx_consumed_outputs = [], cx_consumed_inputs = [], cx_revisit_phase_id = None, cx_escalation_target = None,
     cx_terminal_result = None, cx_publish_blocked_result = False, cx_consumed_knowledge = None,
     cx_research_checkpoint = None\<rparr>"

definition example_plan :: phase_definition where
  "example_plan = hd (pd_phases example_definition)"

lemma example_submission_phase:
  "List.find (\<lambda>ph. ph_id ph = cx_phase_id example_submission) (pd_phases example_definition) = Some example_plan"
  by (simp add: example_submission_def example_plan_def example_definition_def plain_phase_def)

lemma example_submission_accepted:
  "completion_validate example_completion_codec example_submission example_definition = Some (Inr ())"
proof -
  note parts = example_submission_def plain_output_def example_plan_def example_definition_def plain_phase_def
  have "request_check example_submission example_definition = Inr ()"
    by (simp add: request_check_def parts is_07_def check_simps MAX_PIPELINE_CONTEXT_ID_BYTES_def Let_def
        is_ascii_graphic_def byte_def)
  moreover have "completed_phase_check example_completion_codec example_submission example_definition example_plan = Inr ()"
    by (simp add: completed_phase_check_def parts checkpoint_check_def required_fields_check_def aggregate_check_def
        first_aggregate_refusal_def verdict_allowed_def dispositions_check_def is_07_def check_simps map_err_Inr
        validate_completion_constraints_def validate_artifacts_def validate_validator_receipts_def
        validate_native_work_contract_output_def native_work_contract_phase_def native_work_contract_definition_def Let_def)
  moreover have "route_match_check example_submission example_plan = Inr ()"
    by (simp add: route_match_check_def matching_route_def parts check_simps)
  moreover have "validate_followup_proposal example_definition example_plan (cx_output example_submission)
      (cx_outcome example_submission) (cx_transition example_submission) (cx_consumed_outputs example_submission) =
      Some (Inr ())"
    by (simp add: validate_followup_proposal_def followup_contract_for_def parts)
  moreover have "after_followups_check example_completion_codec example_submission example_plan = Inr ()"
    by (simp add: after_followups_check_def reads_check_Inr transition_fields_check_def parts check_simps)
  ultimately show ?thesis using example_submission_phase by (auto simp: completion_validate_Inr)
qed

text \<open>A definition of a current version whose phases name a skill.\<close>

definition skilled_definition :: pipeline_definition where
  "skilled_definition = example_definition\<lparr>pd_version := ''0.7.0'',
     pd_phases := map (\<lambda>ph. ph\<lparr>ph_skills := [example_instruction]\<rparr>) (pd_phases example_definition)\<rparr>"

lemma skilled_definition_valid: "definition_validate skilled_definition = Inr ()"
  unfolding definition_validate_def
  by (simp add: check_simps definition_header_check_def validate_instruction_def example_definition_def
      skilled_definition_def example_instruction_def plain_phase_def is_ascii_graphic_def byte_def phase_check_def
      ordinal_check_def phase_ordinal_def list_duplicates_check_def list_blanks_check_def route_check_def
      route_transition_check_def instruction_check_def is_07_def validate_artifact_definition_def
      validate_validator_definition_def validate_followup_definitions_def backward_check_def
      validate_definition_constraints_def All_less_Suc seen_before_def Let_def)

section \<open>Properties\<close>

definition contract_met :: "completion_codec \<Rightarrow> complete_phase \<Rightarrow> phase_definition \<Rightarrow> bool" where
  "contract_met v req ph \<longleftrightarrow> (let out = cx_output req in
     list_all (\<lambda>key. \<exists>s. po_fields out key = Some s \<and> \<not> blank s) (ph_required_fields ph) \<and>
     verdict_allowed ph out \<and>
     list_all (constraint_satisfied (cv_command_receipt v) out) (ph_output_constraints ph) \<and>
     validate_artifacts ph out = Inr () \<and>
     distinct (map read_key_of (po_skill_reads out)) \<and> distinct (map read_key_of (po_resource_reads out)) \<and>
     set (map read_key_of (po_skill_reads out)) = set (map snapshot_key (ph_skills ph)) \<and>
     set (map read_key_of (po_resource_reads out)) = set (map snapshot_key (ph_resources ph)) \<and>
     (case po_verdict out of None \<Rightarrow> True | Some w \<Rightarrow> \<exists>r\<in>set (ph_verdict_routes ph). vr_verdict r = w \<and>
        vr_outcome r = cx_outcome req \<and> vr_transition r = cx_transition req \<and>
        set (po_dispositions out) = set (vr_dispositions r)))"

lemma completed_contract_met:
  assumes "completed_phase_check v req d ph = Inr ()" "route_match_check req ph = Inr ()"
    "after_followups_check v req ph = Inr ()"
  shows "contract_met v req ph"
proof -
  have checked: "required_fields_check ph (cx_output req) = Inr ()" "first_aggregate_refusal req d ph = Inr ()"
    "list_all (constraint_satisfied (cv_command_receipt v) (cx_output req)) (ph_output_constraints ph)"
    "validate_artifacts ph (cx_output req) = Inr ()"
    using assms(1) by (simp_all add: completed_phase_check_def aggregate_check_def checks_Inr_Cons map_err_Inr each_Inr
        refuse_if_Inr list_all_iff)
  have verdict: "verdict_allowed ph (cx_output req)"
    using checked(2) by (simp add: first_aggregate_refusal_def Let_def checks_Inr_Cons refuse_if_Inr)
  have reads: "reads_check v ''skill'' ''WP6-SKILL-READ-01'' ''arguments.params.output.skill_reads''
        (po_skill_reads (cx_output req)) (ph_skills ph) = Inr ()"
    "reads_check v ''resource'' ''WP6-RESOURCE-READ-01'' ''arguments.params.output.resource_reads''
        (po_resource_reads (cx_output req)) (ph_resources ph) = Inr ()"
    using assms(3) by (simp_all add: after_followups_check_def checks_Inr_Cons)
  have route: "case po_verdict (cx_output req) of None \<Rightarrow> True | Some w \<Rightarrow> \<exists>r\<in>set (ph_verdict_routes ph).
      vr_verdict r = w \<and> vr_outcome r = cx_outcome req \<and> vr_transition r = cx_transition req \<and>
      set (po_dispositions (cx_output req)) = set (vr_dispositions r)"
    using assms(2) matching_route_Some(1-4)
    by (cases "po_verdict (cx_output req)") (fastforce simp: route_match_check_def andThen_Inr ok_or_Inr refuse_if_Inr)+
  show ?thesis
    using checked(1,3,4) verdict reads route
    by (simp add: contract_met_def Let_def required_fields_check_Inr reads_check_Inr)
qed

text \<open>
  C23: checking a completion never panics, and an accepted one meets the contract of its phase: every required
  field is there and not blank, the verdict is allowed and has a route with this outcome and transition and exactly
  these dispositions, every output constraint and artifact requirement holds, and exactly the skills and resources
  of the phase were read, each once.
\<close>

theorem accepted_completion_meets_contract:
  "completion_validate v req d \<noteq> None \<and>
   (completion_validate v req d = Some (Inr ()) \<longrightarrow>
     (\<exists>ph\<in>set (pd_phases d). ph_id ph = cx_phase_id req \<and> contract_met v req ph))"
proof (intro conjI impI)
  assume accepted: "completion_validate v req d = Some (Inr ())"
  obtain ph where ph: "List.find (\<lambda>ph. ph_id ph = cx_phase_id req) (pd_phases d) = Some ph"
    and parts: "completed_phase_check v req d ph = Inr ()" "route_match_check req ph = Inr ()"
      "after_followups_check v req ph = Inr ()"
    using accepted unfolding completion_validate_Inr by blast
  show "\<exists>ph\<in>set (pd_phases d). ph_id ph = cx_phase_id req \<and> contract_met v req ph"
    using find_phase [OF ph] completed_contract_met [OF parts] by blast
qed (rule completion_validate_total)

theorem accepted_completion_meets_contract_witness:
  "contract_met example_completion_codec example_submission example_plan"
proof -
  from accepted_completion_meets_contract example_submission_accepted obtain ph where
    ph: "ph \<in> set (pd_phases example_definition)" "ph_id ph = cx_phase_id example_submission"
      "contract_met example_completion_codec example_submission ph" by blast
  have "ph = example_plan"
    using ph(1,2) by (auto simp: example_definition_def example_submission_def example_plan_def plain_phase_def)
  with ph(3) show ?thesis by simp
qed

text \<open>
  C24: under an accepted definition, the storage layer finds the state that a run moves to with an accepted completion
  that reports a verdict, with one exception: a completion that continues forward from the last phase is accepted,
  but has no next state and is refused. A result is published exactly when the completion carries one.
\<close>

theorem accepted_completion_navigates:
  assumes "definition_validate d = Inr ()" and "completion_validate v req d = Some (Inr ())"
    and "List.find (\<lambda>ph. ph_id ph = cx_phase_id req) (pd_phases d) = Some ph"
    and "po_verdict (cx_output req) = Some verdict"
  shows "(if forward_past_the_end req d ph then plan_next_state req d ph = Inl InvalidArguments
      else (\<exists>plan. plan_next_state req d ph = Inr plan)) \<and>
     (published sp req = [] \<longleftrightarrow> cx_terminal_result req = None)"
proof
  have checked: "route_match_check req ph = Inr ()" "after_followups_check v req ph = Inr ()"
    using assms(2,3) by (auto simp: completion_validate_Inr)
  obtain r where "matching_route req ph verdict = Some r"
    using checked(1) assms(4) by (auto simp: route_match_check_def andThen_Inr ok_or_Inr)
  then have "\<exists>plan. plan_next_state req d ph = Inr plan" if "\<not> forward_past_the_end req d ph"
    using route_navigates [OF assms(1) _ _ that] find_phase [OF assms(3)] by blast
  then show "if forward_past_the_end req d ph then plan_next_state req d ph = Inl InvalidArguments
      else (\<exists>plan. plan_next_state req d ph = Inr plan)"
    using past_the_end_refused [OF assms(1)] by simp
  have "transition_fields_check req = Inr ()"
    using checked(2) by (simp add: after_followups_check_def checks_Inr_Cons)
  then show "published sp req = [] \<longleftrightarrow> cx_terminal_result req = None" by (rule published_iff)
qed

theorem accepted_completion_navigates_witness:
  "\<exists>plan. plan_next_state example_submission example_definition example_plan = Inr plan"
proof -
  have "po_verdict (cx_output example_submission) = Some ''ready''"
    "\<not> forward_past_the_end example_submission example_definition example_plan"
    by (simp_all add: example_submission_def forward_past_the_end_def example_plan_def example_definition_def plain_phase_def)
  then show ?thesis
    using accepted_completion_navigates [OF example_definition_valid example_submission_accepted example_submission_phase]
    by simp
qed

text \<open>
  C33: a phase of a definition whose version starts with 0.7 that names a skill or a resource can never be
  completed: the request must not list reads, which the backend is said to derive, and must list exactly those
  of the phase. Such definitions are accepted.
\<close>

theorem skilled_phase_of_current_version_is_stuck:
  assumes "is_07 d" and "List.find (\<lambda>ph. ph_id ph = cx_phase_id req) (pd_phases d) = Some ph"
    and "ph_skills ph @ ph_resources ph \<noteq> []"
  shows "\<exists>e. completion_validate v req d = Some (Inl e)"
proof -
  have "completion_validate v req d \<noteq> Some (Inr ())"
  proof
    assume "completion_validate v req d = Some (Inr ())"
    with assms(2) have parts: "request_check req d = Inr ()" "after_followups_check v req ph = Inr ()"
      by (auto simp: completion_validate_Inr)
    from parts(1) assms(1) have "po_skill_reads (cx_output req) = []" "po_resource_reads (cx_output req) = []"
      by (auto simp: request_check_def reject_agent_supplied_proof_def Let_def checks_Inr_Cons refuse_if_Inr)
    with parts(2) have "ph_skills ph = []" "ph_resources ph = []"
      by (auto simp: after_followups_check_def checks_Inr_Cons reads_check_Inr)
    with assms(3) show False by simp
  qed
  then show ?thesis using completion_validate_total [of v req d] by (metis not_None_eq old.unit.exhaust sum.exhaust)
qed

theorem skilled_phase_of_current_version_is_stuck_witness:
  "definition_validate skilled_definition = Inr () \<and>
   (\<exists>e. completion_validate example_completion_codec example_submission skilled_definition = Some (Inl e))"
proof (intro conjI)
  have "is_07 skilled_definition"
    "List.find (\<lambda>ph. ph_id ph = cx_phase_id example_submission) (pd_phases skilled_definition) =
       Some (example_plan\<lparr>ph_skills := [example_instruction]\<rparr>)"
    by (simp_all add: is_07_def skilled_definition_def example_submission_def example_plan_def example_definition_def
        plain_phase_def)
  then show "\<exists>e. completion_validate example_completion_codec example_submission skilled_definition = Some (Inl e)"
    using skilled_phase_of_current_version_is_stuck by simp
qed (rule skilled_definition_valid)

end
