(* ===== verification/KnowledgeTypes.thy ===== *)
theory KnowledgeTypes
  imports PipelineTypes PlanningKnowledge
begin

text \<open>
  The data of a knowledge document: \<^verbatim>\<open>knowledge_document.rs\<close>, a document with the sections
  its profiles ask for, and the enumerations of \<^verbatim>\<open>knowledge_lifecycle.rs\<close> for the operations and the
  twelve phases of a change. Enumerations that the code compares with \<^verbatim>\<open><\<close> are linear orders, by the
  order of their variants.
\<close>

section \<open>Documents\<close>

datatype knowledge_kind =
    KindConstraint
  | KindClaim
  | KindDecision
  | KindHypothesis
  | KindProcedure
  | KindProtocol
  | KindInfrastructure
  | KindOperatingModel
  | KindProductResearch
  | KindSecurity

datatype profile_id =
    ProfileGeneral
  | ProfileRunbook
  | ProfileProtocol
  | ProfileDevops
  | ProfileOperations
  | ProfileProductResearch
  | ProfileSecurity

datatype epistemic_state =
    StateNormative
  | StateDecision
  | StateDeclared
  | StateObserved
  | StateHypothesis
  | StateNegativeKnowledge

datatype knowledge_evidence_kind =
    EvidenceDocument
  | EvidenceDeclaration
  | EvidenceObservation
  | EvidenceDecisionRecord
  | EvidenceResearch
  | EvidenceStaticVerification
  | EvidenceRuntimeVerification
  | EvidenceNegativeEvidence

datatype access_scope = WorkspaceMembers | OwnersOnly

datatype sensitivity = Public | Internal | Sensitive | Restricted

record saved_source =
  ks_title :: str
  ks_uri :: str
  ks_text :: str
  ks_observed_at :: "str option"
  ks_evidence_kind :: knowledge_evidence_kind

record pipeline_output_ref =
  ko_run_id :: uuid
  ko_output_id :: uuid
  ko_digest :: str
  ko_evidence_kind :: knowledge_evidence_kind
  ko_observed_at :: "str option"
  ko_evidence_scope :: str
  ko_artifact :: "artifact_digest_ref option"

datatype source_ref = SourceSnapshot saved_source | SourcePipelineOutput pipeline_output_ref

datatype binding_target =
    BindWorkspace
  | BindProgram uuid
  | BindScope uuid
  | BindSlice uuid uuid
  | BindSlicePhase uuid uuid str

datatype binding_version = CurrentAccepted | PinnedRevision int

record document_binding =
  kdb_target :: binding_target
  kdb_purpose :: knowledge_binding_purpose
  kdb_version_resolution :: binding_version

datatype graph_predicate = BroaderConcept | ClassifiedAs | HasEnvironment | AppliesTo

record graph_assertion =
  kga_subject_iri :: str
  kga_predicate :: graph_predicate
  kga_object_iri :: str

datatype proof_status = Documented | StaticVerified | RuntimeVerified

datatype knowledge_modality = Must | MustNot

record constraint_section =
  kct_modality :: knowledge_modality
  kct_action :: str
  kct_target_iri :: str

record general_section =
  kge_statement :: str
  kge_assumptions :: "str list"
  kge_evidence_scope :: str
  kge_rationale :: str
  kge_alternatives :: "str list"
  kge_negative_limits :: "str list"
  kge_unknown_limits :: "str list"

record parameter_definition =
  kp_name :: str
  kp_description :: str
  kp_required :: bool

record runbook_step =
  krt_ordinal :: nat
  krt_action :: str
  krt_expected_result :: str
  krt_verification :: str

record runbook_section =
  krb_purpose_and_fit :: str
  krb_target_environment_iris :: "str list"
  krb_parameters :: "parameter_definition list"
  krb_prerequisites :: "str list"
  krb_required_authority :: str
  krb_steps :: "runbook_step list"
  krb_failure_and_recovery :: str
  krb_proof_status :: proof_status
  krb_proof_evidence_refs :: "nat list"
  krb_dependency_iris :: "str list"

record protocol_assertion =
  kpt_statement :: str
  kpt_observed :: bool
  kpt_evidence_refs :: "nat list"

record protocol_section =
  kpl_specification_uri :: str
  kpl_specification_version :: str
  kpl_provider_scope :: "str list"
  kpl_network_scope :: "str list"
  kpl_assertions :: "protocol_assertion list"
  kpl_capabilities :: "str list"
  kpl_compatibility_constraints :: "str list"
  kpl_negative_states_and_quirks :: "str list"
  kpl_observation_bounds :: str

record dated_observation =
  kob_observed_at :: str
  kob_status :: str
  kob_limits :: "str list"
  kob_evidence_refs :: "nat list"

record devops_section =
  kdv_asset_iris :: "str list"
  kdv_environment_iris :: "str list"
  kdv_topology_links :: "str list"
  kdv_ownership :: "str list"
  kdv_configuration_refs :: "str list"
  kdv_observations :: "dated_observation list"
  kdv_deployment_surfaces :: "str list"
  kdv_configuration_custody :: str

record role_responsibility =
  kro_role :: str
  kro_responsibilities :: "str list"

record metric_definition =
  kme_name :: str
  kme_meaning :: str
  kme_objective :: str
  kme_signal_source :: str

record operations_section =
  kos_operating_purpose :: str
  kos_roles :: "role_responsibility list"
  kos_cadence :: str
  kos_handoffs :: "str list"
  kos_escalation :: "str list"
  kos_status_semantics :: "str list"
  kos_metrics :: "metric_definition list"
  kos_signal_sources :: "str list"
  kos_exceptions :: "str list"
  kos_ownership_gaps :: "str list"

record research_evidence =
  kre_claim :: str
  kre_source_refs :: "nat list"
  kre_synthetic :: bool

record product_research_section =
  krs_question :: str
  krs_evidence_map :: "research_evidence list"
  krs_assumptions :: "str list"
  krs_segments :: "str list"
  krs_alternatives :: "str list"
  krs_conclusions_and_decisions :: "str list"
  krs_observation_limits :: "str list"
  krs_negative_evidence :: "str list"

record security_section =
  ksc_asset_iris :: "str list"
  ksc_trust_boundaries :: "str list"
  ksc_threats :: "str list"
  ksc_controls :: "str list"
  ksc_evidence_refs :: "nat list"
  ksc_verification_status :: str
  ksc_sensitivity :: sensitivity
  ksc_applicable_authority :: str
  ksc_exceptions :: "str list"
  ksc_finding_state :: str
  ksc_remediation_proof_refs :: "nat list"

record profile_sections =
  kse_constraint :: "constraint_section option"
  kse_general :: "general_section option"
  kse_runbook :: "runbook_section option"
  kse_protocol :: "protocol_section option"
  kse_devops :: "devops_section option"
  kse_operations :: "operations_section option"
  kse_product_research :: "product_research_section option"
  kse_security :: "security_section option"

record document_draft =
  kdd_title :: str
  kdd_canonical_text :: str
  kdd_knowledge_kind :: knowledge_kind
  kdd_epistemic_state :: epistemic_state
  kdd_target_iris :: "str list"
  kdd_conditions :: "str list"
  kdd_exceptions :: "str list"
  kdd_sources :: "source_ref list"
  kdd_bindings :: "document_binding list"
  kdd_profiles :: "profile_id list"
  kdd_access_scope :: access_scope
  kdd_owner_ref :: str
  kdd_authority_basis :: str
  kdd_graph_assertions :: "graph_assertion list"
  kdd_planning_briefs :: "planning_brief list"
  kdd_valid_from :: "str option"
  kdd_valid_until :: "str option"
  kdd_review_due_at :: "str option"
  kdd_sections :: profile_sections

text \<open>The derived order of \<^verbatim>\<open>KnowledgeProfileId\<close>\<close>

fun profile_rank :: "profile_id \<Rightarrow> nat" where
  "profile_rank ProfileGeneral = 0"
| "profile_rank ProfileRunbook = 1"
| "profile_rank ProfileProtocol = 2"
| "profile_rank ProfileDevops = 3"
| "profile_rank ProfileOperations = 4"
| "profile_rank ProfileProductResearch = 5"
| "profile_rank ProfileSecurity = 6"

lemma profile_rank_inj: "profile_rank a = profile_rank b \<longleftrightarrow> a = b"
  by (cases a; cases b) simp_all

instantiation profile_id :: linorder
begin

definition less_eq_profile_id :: "profile_id \<Rightarrow> profile_id \<Rightarrow> bool" where
  "less_eq_profile_id a b \<longleftrightarrow> profile_rank a \<le> profile_rank b"

definition less_profile_id :: "profile_id \<Rightarrow> profile_id \<Rightarrow> bool" where
  "less_profile_id a b \<longleftrightarrow> profile_rank a < profile_rank b"

instance
  by intro_classes (auto simp: less_eq_profile_id_def less_profile_id_def profile_rank_inj)

end

section \<open>Operations and phases\<close>

datatype lifecycle_operation = OpCreate | OpRevise | OpRevalidate | OpSupersede | OpRetract | OpErase

datatype lifecycle_state = LifeActive | LifeRetracted | LifeSuperseded | LifeErasurePending | LifeErased

datatype kc_phase =
    KcIntake
  | KcResolveBaseline
  | KcQualifyPlan
  | KcQualifyEvidence
  | KcPrepareChange
  | KcDomainChecks
  | KcImpactPlan
  | KcReviewReconcile
  | KcPublicationGate
  | KcCommit
  | KcSettleEffects
  | KcResultHandoff

section \<open>Orders and phases\<close>

text \<open>The derived order of \<^verbatim>\<open>KnowledgeLifecycleOperation\<close>\<close>

fun operation_rank :: "lifecycle_operation \<Rightarrow> nat" where
  "operation_rank OpCreate = 0"
| "operation_rank OpRevise = 1"
| "operation_rank OpRevalidate = 2"
| "operation_rank OpSupersede = 3"
| "operation_rank OpRetract = 4"
| "operation_rank OpErase = 5"

lemma operation_rank_inj: "operation_rank a = operation_rank b \<longleftrightarrow> a = b"
  by (cases a; cases b) simp_all

instantiation lifecycle_operation :: linorder
begin

definition less_eq_lifecycle_operation :: "lifecycle_operation \<Rightarrow> lifecycle_operation \<Rightarrow> bool" where
  "less_eq_lifecycle_operation a b \<longleftrightarrow> operation_rank a \<le> operation_rank b"

definition less_lifecycle_operation :: "lifecycle_operation \<Rightarrow> lifecycle_operation \<Rightarrow> bool" where
  "less_lifecycle_operation a b \<longleftrightarrow> operation_rank a < operation_rank b"

instance
  by intro_classes (auto simp: less_eq_lifecycle_operation_def less_lifecycle_operation_def operation_rank_inj)

end

text \<open>\<^verbatim>\<open>KnowledgeChangePhaseId\<close>: its phases in order, their ordinals, names and methods\<close>

definition KC_ALL :: "kc_phase list" where
  "KC_ALL = [KcIntake, KcResolveBaseline, KcQualifyPlan, KcQualifyEvidence, KcPrepareChange, KcDomainChecks, KcImpactPlan, KcReviewReconcile, KcPublicationGate, KcCommit, KcSettleEffects, KcResultHandoff]"

fun kc_ordinal :: "kc_phase \<Rightarrow> nat" where
  "kc_ordinal KcIntake = 1"
| "kc_ordinal KcResolveBaseline = 2"
| "kc_ordinal KcQualifyPlan = 3"
| "kc_ordinal KcQualifyEvidence = 4"
| "kc_ordinal KcPrepareChange = 5"
| "kc_ordinal KcDomainChecks = 6"
| "kc_ordinal KcImpactPlan = 7"
| "kc_ordinal KcReviewReconcile = 8"
| "kc_ordinal KcPublicationGate = 9"
| "kc_ordinal KcCommit = 10"
| "kc_ordinal KcSettleEffects = 11"
| "kc_ordinal KcResultHandoff = 12"

lemma kc_ordinal_inj: "kc_ordinal a = kc_ordinal b \<longleftrightarrow> a = b"
  by (cases a; cases b) simp_all

instantiation kc_phase :: linorder
begin

definition less_eq_kc_phase :: "kc_phase \<Rightarrow> kc_phase \<Rightarrow> bool" where
  "less_eq_kc_phase a b \<longleftrightarrow> kc_ordinal a \<le> kc_ordinal b"

definition less_kc_phase :: "kc_phase \<Rightarrow> kc_phase \<Rightarrow> bool" where
  "less_kc_phase a b \<longleftrightarrow> kc_ordinal a < kc_ordinal b"

instance
  by intro_classes (auto simp: less_eq_kc_phase_def less_kc_phase_def kc_ordinal_inj)

end

fun kc_as_str :: "kc_phase \<Rightarrow> str" where
  "kc_as_str KcIntake = ''kc-intake''"
| "kc_as_str KcResolveBaseline = ''kc-resolve-baseline''"
| "kc_as_str KcQualifyPlan = ''kc-qualify-plan''"
| "kc_as_str KcQualifyEvidence = ''kc-qualify-evidence''"
| "kc_as_str KcPrepareChange = ''kc-prepare-change''"
| "kc_as_str KcDomainChecks = ''kc-domain-checks''"
| "kc_as_str KcImpactPlan = ''kc-impact-plan''"
| "kc_as_str KcReviewReconcile = ''kc-review-reconcile''"
| "kc_as_str KcPublicationGate = ''kc-publication-gate''"
| "kc_as_str KcCommit = ''kc-commit''"
| "kc_as_str KcSettleEffects = ''kc-settle-effects''"
| "kc_as_str KcResultHandoff = ''kc-result-handoff''"

fun kc_agent_authored :: "kc_phase \<Rightarrow> bool" where
  "kc_agent_authored KcPublicationGate = False"
| "kc_agent_authored KcCommit = False"
| "kc_agent_authored KcSettleEffects = False"
| "kc_agent_authored _ = True"

fun kc_method_id :: "kc_phase \<Rightarrow> str option" where
  "kc_method_id KcIntake = Some ''tect:knowledge-change:kc-intake''"
| "kc_method_id KcResolveBaseline = Some ''tect:knowledge-change:kc-resolve-baseline''"
| "kc_method_id KcQualifyPlan = Some ''tect:knowledge-change:kc-qualify-plan''"
| "kc_method_id KcQualifyEvidence = Some ''tect:knowledge-change:kc-qualify-evidence''"
| "kc_method_id KcPrepareChange = Some ''tect:knowledge-change:kc-prepare-change''"
| "kc_method_id KcDomainChecks = Some ''tect:knowledge-change:kc-domain-checks''"
| "kc_method_id KcImpactPlan = Some ''tect:knowledge-change:kc-impact-plan''"
| "kc_method_id KcReviewReconcile = Some ''tect:knowledge-change:kc-review-reconcile''"
| "kc_method_id KcPublicationGate = None"
| "kc_method_id KcCommit = None"
| "kc_method_id KcSettleEffects = None"
| "kc_method_id KcResultHandoff = Some ''tect:knowledge-change:kc-result-handoff''"

fun profile_as_str :: "profile_id \<Rightarrow> str" where
  "profile_as_str ProfileGeneral = ''general''"
| "profile_as_str ProfileRunbook = ''runbook''"
| "profile_as_str ProfileProtocol = ''protocol''"
| "profile_as_str ProfileDevops = ''devops''"
| "profile_as_str ProfileOperations = ''operations''"
| "profile_as_str ProfileProductResearch = ''product_research''"
| "profile_as_str ProfileSecurity = ''security''"

fun profile_method_id :: "profile_id \<Rightarrow> str" where
  "profile_method_id ProfileGeneral = ''tect:knowledge-profile:general''"
| "profile_method_id ProfileRunbook = ''tect:knowledge-profile:runbook''"
| "profile_method_id ProfileProtocol = ''tect:knowledge-profile:protocol''"
| "profile_method_id ProfileDevops = ''tect:knowledge-profile:devops''"
| "profile_method_id ProfileOperations = ''tect:knowledge-profile:operations''"
| "profile_method_id ProfileProductResearch = ''tect:knowledge-profile:product_research''"
| "profile_method_id ProfileSecurity = ''tect:knowledge-profile:security''"

fun predicate_iri :: "graph_predicate \<Rightarrow> str" where
  "predicate_iri BroaderConcept = ''urn:tect:dk:v2:broaderConcept''"
| "predicate_iri ClassifiedAs = ''urn:tect:dk:v2:classifiedAs''"
| "predicate_iri HasEnvironment = ''urn:tect:dk:v2:hasEnvironment''"
| "predicate_iri AppliesTo = ''urn:tect:dk:v2:appliesTo''"

section \<open>Facts\<close>

text \<open>\<^verbatim>\<open>!values.windows(2).any(|pair| pair[0] >= pair[1])\<close>\<close>

fun ascending :: "'a::linorder list \<Rightarrow> bool" where
  "ascending (x # y # xs) \<longleftrightarrow> x < y \<and> ascending (y # xs)"
| "ascending _ \<longleftrightarrow> True"

lemma ascending_iff: "ascending xs \<longleftrightarrow> sorted_wrt (<) xs"
  by (induction xs rule: ascending.induct) (auto dest: order.strict_trans)

lemma ascending_unique: "ascending xs \<Longrightarrow> ascending ys \<Longrightarrow> set xs = set ys \<Longrightarrow> xs = ys"
  by (metis ascending_iff strict_sorted_equal)

lemma KC_ALL_nth: "i < 12 \<Longrightarrow> kc_ordinal (KC_ALL ! i) = Suc i"
  by (auto simp: KC_ALL_def less_Suc_eq numeral_eq_Suc)

lemma KC_ALL_length [simp]: "length KC_ALL = 12"
  by (simp add: KC_ALL_def)

lemma kc_ordinal_bounds: "1 \<le> kc_ordinal p" "kc_ordinal p \<le> 12"
  by (cases p; simp)+

lemma KC_ALL_ordinal: "KC_ALL ! (kc_ordinal p - 1) = p"
  using KC_ALL_nth [of "kc_ordinal p - 1"] kc_ordinal_bounds [of p] by (simp flip: kc_ordinal_inj)

lemma kc_agent_method: "kc_agent_authored p \<longleftrightarrow> kc_method_id p \<noteq> None"
  by (cases p) simp_all

end
