(* ===== verification/KnowledgeChangeTypes.thy ===== *)
theory KnowledgeChangeTypes
  imports KnowledgeTypes
begin

text \<open>
  The data of a knowledge change: \<^verbatim>\<open>knowledge_lifecycle.rs\<close> and \<^verbatim>\<open>knowledge_lifecycle_execution.rs\<close> with
  its \<^verbatim>\<open>api.rs\<close>. A change begins with hints, each of its phases writes one kind of data, the
  proposed changeset is committed as applied operations, and their effects are settled.
\<close>

section \<open>The change and its phase data\<close>

datatype change_owner = OwnerWorkspace | OwnerPromotionSlice uuid uuid int

datatype search_requirement = SearchNotRequired | SearchRequired

datatype erasure_requirement =
    ErasureNotRequired
  | ErasureOwnedLiveCopies
  | ErasureRestoreSafe
  | ErasureAllRetainedCopies

record completion_requirement =
  kcr_canonical_result :: bool
  kcr_exact_delivery :: bool
  kcr_impact_recorded :: bool
  kcr_search :: search_requirement
  kcr_erasure :: erasure_requirement

record operation_hint =
  koh_client_label :: str
  koh_operation :: lifecycle_operation
  koh_unit_id :: "uuid option"
  koh_expected_revision :: "int option"
  koh_expected_lifecycle :: "lifecycle_state option"
  koh_reason :: str
  koh_authority_basis :: str
  koh_depends_on_labels :: "str list"

record begin_change =
  kbk_request_id :: uuid
  kbk_intent :: str
  kbk_desired_outcome :: str
  kbk_sources :: "source_ref list"
  kbk_operation_hints :: "operation_hint list"
  kbk_owner :: change_owner
  kbk_completion :: completion_requirement
  kbk_delivery_mode :: "delivery_mode option"

record revision_guard =
  krg_unit_id :: uuid
  krg_revision :: int
  krg_lifecycle :: lifecycle_state
  krg_rdf_digest :: str
  krg_unit_iri :: str
  krg_revision_iri :: str

record identity_match =
  kim_client_label :: str
  kim_unit_id :: uuid
  kim_revision :: int
  kim_basis :: str
  kim_ambiguous :: bool

record baseline_manifest =
  kbm_workspace_generation :: int
  kbm_registry_generation :: int
  kbm_policy_generation :: int
  kbm_targets :: "revision_guard list"
  kbm_dependencies :: "revision_guard list"
  kbm_identity_matches :: "identity_match list"
  kbm_source_availability :: "str list"
  kbm_assessment_conflicts :: "str list"
  kbm_assessment_gaps :: "str list"
  kbm_conflicts :: "str list"
  kbm_missing_context :: "str list"
  kbm_digest :: str

record change_intent =
  kit_bounded_outcome :: str
  kit_operation_hints :: "operation_hint list"
  kit_authority_boundary :: str
  kit_completion :: completion_requirement

record evidence_claim =
  kec_operation_id :: uuid
  kec_claim :: str
  kec_source_indexes :: "nat list"
  kec_assumptions :: "str list"
  kec_gaps :: "str list"

record source_pin =
  ksp_source_index :: nat
  ksp_digest :: str
  ksp_evidence_kind :: knowledge_evidence_kind
  ksp_observed_at :: "str option"
  ksp_evidence_scope :: str
  ksp_source_iri :: str

record evidence_manifest =
  kem_claims :: "evidence_claim list"
  kem_source_pins :: "source_pin list"
  kem_source_pin_digest :: str
  kem_unresolved_gaps :: "str list"

record operation_qualification =
  koq_operation_id :: uuid
  koq_knowledge_kind :: knowledge_kind
  koq_profiles :: "profile_id list"
  koq_classification_basis :: str

record plan_qualification =
  kpq_operations :: "operation_qualification list"

record revalidation_draft =
  krv_sources :: "source_ref list"
  krv_evidence_basis :: str
  krv_valid_until :: "str option"
  krv_review_due_at :: "str option"

record successor_ref =
  ksu_unit_id :: "uuid option"
  ksu_operation_id :: "uuid option"

record binding_pin =
  kbp_binding_index :: nat
  kbp_definition_kind :: pipeline_kind
  kbp_definition_version :: str
  kbp_definition_digest :: str
  kbp_phase_id :: str

record planned_operation =
  kpn_operation_id :: uuid
  kpn_unit_id :: uuid
  kpn_client_label :: str
  kpn_operation :: lifecycle_operation
  kpn_expected_revision :: "int option"
  kpn_expected_lifecycle :: "lifecycle_state option"
  kpn_document :: "document_draft option"
  kpn_revalidation :: "revalidation_draft option"
  kpn_successor :: "successor_ref option"
  kpn_replacement_bindings :: "document_binding list"
  kpn_reason :: str
  kpn_authority_basis :: str
  kpn_dependency_operation_ids :: "uuid list"
  kpn_binding_pins :: "binding_pin list"

record changeset =
  kcs_revision :: int
  kcs_operations :: "planned_operation list"
  kcs_semantic_diff :: str
  kcs_evidence_digest :: str
  kcs_digest :: str

datatype obligation_disposition =
    ObligationSatisfied
  | ObligationReused
  | ObligationNotApplicable
  | ObligationUnresolved

record obligation_receipt =
  kor_operation_id :: uuid
  kor_profile_id :: profile_id
  kor_obligation_id :: str
  kor_disposition :: obligation_disposition
  kor_reason :: str
  kor_changeset_digest :: str
  kor_method_reads :: "read_receipt list"
  kor_input_digests :: "str list"
  kor_reused_receipt_id :: "uuid option"

record obligation_receipts =
  kol_receipts :: "obligation_receipt list"
  kol_unresolved_obligation_ids :: "str list"

record impact_target =
  kig_reference :: str
  kig_owner_ref :: str
  kig_effect :: str
  kig_blocking :: bool

record impact_plan =
  kip_synchronous_changes :: "str list"
  kip_affected_contexts :: "impact_target list"
  kip_derivations :: "impact_target list"
  kip_owned_copies :: "impact_target list"
  kip_followups :: "impact_target list"
  kip_blocking_conflicts :: "str list"
  kip_digest :: str

record review_finding =
  krf_id :: str
  krf_summary :: str
  krf_owner_ref :: str
  krf_revisit_phase_id :: kc_phase
  krf_closed :: bool
  krf_closure_output_digest :: "str option"

datatype review_outcome = ReviewReady | ReviewNoChange | ReviewRejected | ReviewFindings

record review_receipt =
  krr_outcome :: review_outcome
  krr_reviewed_digests :: "str list"
  krr_covered_operation_ids :: "uuid list"
  krr_covered_obligation_ids :: "str list"
  krr_findings :: "review_finding list"
  krr_summary :: str

record ready_to_commit =
  krc_seal_id :: uuid
  krc_plan_revision :: int
  krc_plan_digest :: str
  krc_changeset_digest :: str
  krc_run_revision :: int
  krc_workspace_generation :: int
  krc_operation_ids :: "uuid list"
  krc_command_digest :: str

section \<open>Execution\<close>

datatype effect_kind =
    EffectExactDelivery
  | EffectInvalidation
  | EffectImpact
  | EffectSearch
  | EffectVisibilityClosure
  | EffectOwnedCopyPurge
  | EffectBackupDisposition

datatype effect_status =
    StatusNotApplicable
  | StatusNotConfigured
  | StatusPending
  | StatusReady
  | StatusFailed

record effect_receipt =
  ker_effect_id :: uuid
  ker_kind :: effect_kind
  ker_status :: effect_status
  ker_generation :: int
  ker_owner_ref :: str
  ker_detail :: str

datatype rdf_digest_scope = RevisionPublicationPayload | LifecycleEventPayload

record applied_receipt =
  kap_operation_id :: uuid
  kap_unit_id :: uuid
  kap_operation :: lifecycle_operation
  kap_revision :: "int option"
  kap_event_id :: uuid
  kap_unit_iri :: str
  kap_revision_iri :: "str option"
  kap_event_iri :: str
  kap_rdf_digest :: str
  kap_rdf_digest_method :: str
  kap_rdf_digest_scope :: rdf_digest_scope

record publisher_receipt =
  kpr_id :: uuid
  kpr_request_id :: uuid
  kpr_change_id :: uuid
  kpr_run_id :: uuid
  kpr_sealed_command_digest :: str
  kpr_workspace_generation :: int
  kpr_applied_operations :: "applied_receipt list"
  kpr_effects :: "effect_receipt list"
  kpr_digest :: str

record erased_operation =
  keo_operation_id :: uuid
  keo_unit_id :: uuid
  keo_operation :: lifecycle_operation
  keo_event_id :: uuid
  keo_erasure_sequence :: int

datatype retained_receipt = RetainedIntact applied_receipt | RetainedPayloadErased erased_operation

record opaque_effect_receipt =
  koe_effect_id :: uuid
  koe_kind :: effect_kind
  koe_status :: effect_status
  koe_generation :: int

record erased_effects_report =
  kee_publisher_receipt_id :: uuid
  kee_effects :: "opaque_effect_receipt list"
  kee_required_complete :: bool

datatype canonical_outcome = CanonicalNotApplied | CanonicalApplied | CanonicalNoChange | CanonicalRejected

datatype user_outcome = UserAchieved | UserNotAchieved | UserPartial

record erased_result =
  kes_canonical :: canonical_outcome
  kes_user_outcome :: user_outcome
  kes_publisher_receipt_id :: "uuid option"
  kes_effects :: "opaque_effect_receipt list"

record erased_publisher_receipt =
  kep_id :: uuid
  kep_request_id :: uuid
  kep_change_id :: uuid
  kep_run_id :: uuid
  kep_completion :: completion_requirement
  kep_operations :: "retained_receipt list"
  kep_effects :: "opaque_effect_receipt list"

record effects_report =
  kef_publisher_receipt_id :: uuid
  kef_effects :: "effect_receipt list"
  kef_required_complete :: bool
  kef_remaining_work :: "str list"

record change_result =
  kch_canonical :: canonical_outcome
  kch_user_outcome :: user_outcome
  kch_summary :: str
  kch_remaining_work :: "str list"
  kch_publisher_receipt_id :: "uuid option"
  kch_effects :: "effect_receipt list"

datatype agent_data =
    DataKcIntake change_intent
  | DataKcResolveBaseline baseline_manifest
  | DataKcQualifyPlan plan_qualification
  | DataKcQualifyEvidence evidence_manifest
  | DataKcPrepareChange changeset
  | DataKcDomainChecks obligation_receipts
  | DataKcImpactPlan impact_plan
  | DataKcReviewReconcile review_receipt
  | DataKcResultHandoff change_result

record agent_output =
  kao_phase_id :: kc_phase
  kao_expected_run_revision :: int
  kao_phasewise_reason :: "str option"
  kao_plan_revision :: int
  kao_plan_digest :: str
  kao_consumed_outputs :: "consumed_output list"
  kao_consumed_inputs :: "consumed_input list"
  kao_baseline_guards :: "revision_guard list"
  kao_source_digests :: "str list"
  kao_method_reads :: "read_receipt list"
  kao_body :: str
  kao_data :: agent_data
  kao_verdict :: str
  kao_outcome :: phase_outcome
  kao_transition :: transition
  kao_findings :: "review_finding list"
  kao_dispositions :: "str list"

record target_update =
  ktu_operation_id :: uuid
  ktu_previous_expected_revision :: int
  ktu_previous_expected_lifecycle :: lifecycle_state
  ktu_replacement_guard :: revision_guard

record basis_amendment =
  kba_target_updates :: "target_update list"
  kba_replacement_sources :: "source_ref list option"

datatype lifecycle_view = ViewCurrent | ViewHistory | ViewOutput

record fragment_query =
  kfq_snapshot_digest :: "str option"
  kfq_offset :: nat
  kfq_limit :: nat

record lifecycle_query =
  klq_change_id :: "uuid option"
  klq_view :: lifecycle_view
  klq_output_id :: "uuid option"
  klq_digest :: "str option"
  klq_fragment :: "fragment_query option"

record unit_query =
  kuq_unit_id :: uuid
  kuq_revision :: "int option"
  kuq_fragment :: "fragment_query option"

record kc_complete =
  kx_request_id :: uuid
  kx_change_id :: uuid
  kx_run_id :: uuid
  kx_run_revision :: int
  kx_phase_id :: kc_phase
  kx_output :: "agent_output option"
  kx_revisit_phase_id :: "kc_phase option"

record kc_input =
  ki_request_id :: uuid
  ki_change_id :: uuid
  ki_run_id :: uuid
  ki_run_revision :: int
  ki_revisit_phase_id :: kc_phase
  ki_reason :: str
  ki_input :: str
  ki_basis_amendment :: "basis_amendment option"

record kc_commit =
  km_request_id :: uuid
  km_change_id :: uuid
  km_run_id :: uuid
  km_run_revision :: int
  km_seal_id :: uuid
  km_plan_revision :: int
  km_plan_digest :: str
  km_sealed_command_digest :: str

record kc_settle =
  kt_request_id :: uuid
  kt_change_id :: uuid
  kt_run_id :: uuid
  kt_run_revision :: int
  kt_publisher_receipt_id :: uuid
  kt_effect_ids :: "uuid list"

end
