(* ===== verification/KnowledgeDocuments.thy ===== *)
theory KnowledgeDocuments
  imports KnowledgeTypes KnowledgeTime
begin

text \<open>
  \<^verbatim>\<open>knowledge_lifecycle_validation.rs\<close>: when a knowledge document, its sources and its bindings are
  accepted. Whether a text is an absolute IRI of the \<^verbatim>\<open>oxrdf\<close> crate and how long a document is as JSON
  are parameters.
\<close>

section \<open>Limits and texts\<close>

definition DK2_MAX_DOCUMENT_BYTES :: nat where "DK2_MAX_DOCUMENT_BYTES = 512 * 1024"
definition DK2_MAX_SOURCE_BYTES :: nat where "DK2_MAX_SOURCE_BYTES = 256 * 1024"
definition DK2_MAX_LIST_ITEMS :: nat where "DK2_MAX_LIST_ITEMS = 128"
definition PLANNING_KNOWLEDGE_MAX_BRIEFS :: nat where "PLANNING_KNOWLEDGE_MAX_BRIEFS = 64"

record document_env =
  dz_named_node :: "str \<Rightarrow> bool"
  dz_json_length :: "document_draft \<Rightarrow> nat option"

definition bounded_bytes :: "str \<Rightarrow> nat \<Rightarrow> bool" where
  "bounded_bytes s limit \<longleftrightarrow> length s \<le> limit \<and> \<not> has_nul s"

definition items :: "str list \<Rightarrow> nat \<Rightarrow> bool" where
  "items xs limit \<longleftrightarrow> bounded_list xs DK2_MAX_LIST_ITEMS limit"

definition evidence_refs :: "nat list \<Rightarrow> nat \<Rightarrow> bool" where
  "evidence_refs xs source_count \<longleftrightarrow> xs \<noteq> [] \<and> length xs \<le> DK2_MAX_LIST_ITEMS \<and>
     list_all (\<lambda>i. i < source_count) xs \<and> card (set xs) = length xs"

definition timestamp :: "str \<Rightarrow> bool" where
  "timestamp s \<longleftrightarrow> parse_rfc3339 s \<noteq> None"

fun qualified_evidence :: "knowledge_evidence_kind \<Rightarrow> source_ref \<Rightarrow> bool" where
  "qualified_evidence expected (SourceSnapshot s) \<longleftrightarrow> ks_evidence_kind s = expected \<and>
     (case ks_observed_at s of None \<Rightarrow> False | Some t \<Rightarrow> timestamp t)"
| "qualified_evidence expected (SourcePipelineOutput out) \<longleftrightarrow> ko_evidence_kind out = expected \<and>
     bounded_nonblank (ko_evidence_scope out) 4096 \<and>
     (case ko_observed_at out of None \<Rightarrow> False | Some t \<Rightarrow> timestamp t)"

section \<open>Sources and bindings\<close>

fun source_ok :: "source_ref \<Rightarrow> bool" where
  "source_ok (SourceSnapshot s) \<longleftrightarrow> bounded_nonblank (ks_title s) 1024 \<and> iri (ks_uri s) \<and>
     bounded_nonblank (ks_text s) DK2_MAX_SOURCE_BYTES \<and> opt_all timestamp (ks_observed_at s)"
| "source_ok (SourcePipelineOutput out) \<longleftrightarrow> \<not> is_nil (ko_run_id out) \<and> \<not> is_nil (ko_output_id out) \<and>
     bounded_nonblank (ko_digest out) 256 \<and> bounded_nonblank (ko_evidence_scope out) 4096 \<and>
     opt_all timestamp (ko_observed_at out) \<and>
     opt_all (\<lambda>a. bounded_nonblank (ad_name a) 1024 \<and> bounded_nonblank (ad_digest a) 256) (ko_artifact out)"

definition source_validate :: "source_ref \<Rightarrow> unit result" where
  "source_validate s = refuse_if (\<not> source_ok s) InvalidArguments"

fun target_ok :: "binding_target \<Rightarrow> bool" where
  "target_ok BindWorkspace \<longleftrightarrow> True"
| "target_ok (BindProgram p) \<longleftrightarrow> \<not> is_nil p"
| "target_ok (BindScope s) \<longleftrightarrow> \<not> is_nil s"
| "target_ok (BindSlice s i) \<longleftrightarrow> \<not> is_nil s \<and> \<not> is_nil i"
| "target_ok (BindSlicePhase s i phase) \<longleftrightarrow> \<not> is_nil s \<and> \<not> is_nil i \<and> bounded_nonblank phase 256"

fun version_ok :: "binding_version \<Rightarrow> bool" where
  "version_ok CurrentAccepted \<longleftrightarrow> True"
| "version_ok (PinnedRevision r) \<longleftrightarrow> 1 \<le> r"

definition binding_validate :: "document_binding \<Rightarrow> unit result" where
  "binding_validate b = refuse_if (\<not> (target_ok (kdb_target b) \<and> version_ok (kdb_version_resolution b)))
     InvalidArguments"

fun required_profile :: "knowledge_kind \<Rightarrow> profile_id option" where
  "required_profile KindProcedure = Some ProfileRunbook"
| "required_profile KindProtocol = Some ProfileProtocol"
| "required_profile KindInfrastructure = Some ProfileDevops"
| "required_profile KindOperatingModel = Some ProfileOperations"
| "required_profile KindProductResearch = Some ProfileProductResearch"
| "required_profile KindSecurity = Some ProfileSecurity"
| "required_profile _ = None"

section \<open>Sections\<close>

definition constraint_ok :: "constraint_section \<Rightarrow> bool" where
  "constraint_ok c \<longleftrightarrow> bounded_nonblank (kct_action c) 4096 \<and> iri (kct_target_iri c)"

definition general_ok :: "general_section \<Rightarrow> bool" where
  "general_ok g \<longleftrightarrow> bounded_nonblank (kge_statement g) DK2_MAX_SOURCE_BYTES \<and>
     bounded_nonblank (kge_evidence_scope g) 4096 \<and> items (kge_assumptions g) 4096 \<and>
     bounded_bytes (kge_rationale g) DK2_MAX_SOURCE_BYTES \<and> items (kge_alternatives g) 4096 \<and>
     items (kge_negative_limits g) 4096 \<and> items (kge_unknown_limits g) 4096"

definition decision_ok :: "general_section option \<Rightarrow> bool" where
  "decision_ok general \<longleftrightarrow> (case general of None \<Rightarrow> False
     | Some g \<Rightarrow> bounded_nonblank (kge_rationale g) DK2_MAX_SOURCE_BYTES \<and> kge_alternatives g \<noteq> [])"

definition u32_or_max :: "nat \<Rightarrow> nat" where
  "u32_or_max n = (if n < 4294967296 then n else 4294967295)"

definition step_ok :: "nat \<Rightarrow> runbook_step \<Rightarrow> bool" where
  "step_ok i st \<longleftrightarrow> krt_ordinal st = u32_or_max (i + 1) \<and> bounded_nonblank (krt_action st) 4096 \<and>
     bounded_nonblank (krt_expected_result st) 4096 \<and> bounded_nonblank (krt_verification st) 4096"

definition proof_ok :: "source_ref list \<Rightarrow> knowledge_evidence_kind \<Rightarrow> nat list \<Rightarrow> bool" where
  "proof_ok sources kind refs \<longleftrightarrow> evidence_refs refs (length sources) \<and>
     list_all (\<lambda>i. qualified_evidence kind (sources ! i)) refs"

definition runbook_ok :: "source_ref list \<Rightarrow> runbook_section \<Rightarrow> bool" where
  "runbook_ok sources r \<longleftrightarrow> bounded_nonblank (krb_purpose_and_fit r) 4096 \<and>
     iris (krb_target_environment_iris r) \<and> krb_target_environment_iris r \<noteq> [] \<and>
     bounded_nonblank (krb_required_authority r) 4096 \<and>
     bounded_nonblank (krb_failure_and_recovery r) DK2_MAX_SOURCE_BYTES \<and>
     length (krb_parameters r) \<le> DK2_MAX_LIST_ITEMS \<and>
     card (set (map kp_name (krb_parameters r))) = length (krb_parameters r) \<and>
     list_all (\<lambda>p. bounded_nonblank (kp_name p) 256 \<and> bounded_nonblank (kp_description p) 4096) (krb_parameters r) \<and>
     items (krb_prerequisites r) 4096 \<and> iris (krb_dependency_iris r) \<and>
     length (krb_proof_evidence_refs r) \<le> DK2_MAX_LIST_ITEMS \<and> krb_steps r \<noteq> [] \<and>
     length (krb_steps r) \<le> DK2_MAX_LIST_ITEMS \<and>
     list_all (\<lambda>(i, st). step_ok i st) (List.enumerate 0 (krb_steps r)) \<and>
     (case krb_proof_status r of Documented \<Rightarrow> True
      | StaticVerified \<Rightarrow> proof_ok sources EvidenceStaticVerification (krb_proof_evidence_refs r)
      | RuntimeVerified \<Rightarrow> proof_ok sources EvidenceRuntimeVerification (krb_proof_evidence_refs r))"

definition protocol_ok :: "nat \<Rightarrow> protocol_section \<Rightarrow> bool" where
  "protocol_ok n p \<longleftrightarrow> iri (kpl_specification_uri p) \<and> bounded_nonblank (kpl_specification_version p) 256 \<and>
     kpl_provider_scope p \<noteq> [] \<and> kpl_network_scope p \<noteq> [] \<and> items (kpl_provider_scope p) 4096 \<and>
     items (kpl_network_scope p) 4096 \<and> kpl_assertions p \<noteq> [] \<and> length (kpl_assertions p) \<le> DK2_MAX_LIST_ITEMS \<and>
     list_all (\<lambda>a. bounded_nonblank (kpt_statement a) DK2_MAX_SOURCE_BYTES \<and> evidence_refs (kpt_evidence_refs a) n)
       (kpl_assertions p) \<and>
     items (kpl_capabilities p) 4096 \<and> items (kpl_compatibility_constraints p) 4096 \<and>
     items (kpl_negative_states_and_quirks p) 4096 \<and> bounded_nonblank (kpl_observation_bounds p) 4096"

definition devops_ok :: "nat \<Rightarrow> devops_section \<Rightarrow> bool" where
  "devops_ok n v \<longleftrightarrow> kdv_asset_iris v \<noteq> [] \<and> kdv_environment_iris v \<noteq> [] \<and> iris (kdv_asset_iris v) \<and>
     iris (kdv_environment_iris v) \<and> kdv_ownership v \<noteq> [] \<and> items (kdv_ownership v) 4096 \<and>
     items (kdv_topology_links v) 4096 \<and> items (kdv_configuration_refs v) 4096 \<and> kdv_observations v \<noteq> [] \<and>
     length (kdv_observations v) \<le> DK2_MAX_LIST_ITEMS \<and>
     list_all (\<lambda>b. timestamp (kob_observed_at b) \<and> bounded_nonblank (kob_status b) 4096 \<and>
       items (kob_limits b) 4096 \<and> evidence_refs (kob_evidence_refs b) n) (kdv_observations v) \<and>
     kdv_deployment_surfaces v \<noteq> [] \<and> items (kdv_deployment_surfaces v) 4096 \<and>
     bounded_nonblank (kdv_configuration_custody v) 4096"

definition operations_ok :: "operations_section \<Rightarrow> bool" where
  "operations_ok v \<longleftrightarrow> bounded_nonblank (kos_operating_purpose v) DK2_MAX_SOURCE_BYTES \<and> kos_roles v \<noteq> [] \<and>
     length (kos_roles v) \<le> DK2_MAX_LIST_ITEMS \<and>
     list_all (\<lambda>r. bounded_nonblank (kro_role r) 1024 \<and> kro_responsibilities r \<noteq> [] \<and>
       items (kro_responsibilities r) 4096) (kos_roles v) \<and>
     bounded_nonblank (kos_cadence v) 4096 \<and> items (kos_handoffs v) 4096 \<and> items (kos_escalation v) 4096 \<and>
     items (kos_status_semantics v) 4096 \<and> length (kos_metrics v) \<le> DK2_MAX_LIST_ITEMS \<and>
     list_all (\<lambda>m. bounded_nonblank (kme_name m) 1024 \<and> bounded_nonblank (kme_meaning m) 4096 \<and>
       bounded_nonblank (kme_objective m) 4096 \<and> bounded_nonblank (kme_signal_source m) 4096) (kos_metrics v) \<and>
     items (kos_signal_sources v) 4096 \<and> items (kos_exceptions v) 4096 \<and> items (kos_ownership_gaps v) 4096"

definition research_ok :: "nat \<Rightarrow> product_research_section \<Rightarrow> bool" where
  "research_ok n v \<longleftrightarrow> bounded_nonblank (krs_question v) DK2_MAX_SOURCE_BYTES \<and> krs_evidence_map v \<noteq> [] \<and>
     length (krs_evidence_map v) \<le> DK2_MAX_LIST_ITEMS \<and>
     list_all (\<lambda>e. bounded_nonblank (kre_claim e) DK2_MAX_SOURCE_BYTES \<and> evidence_refs (kre_source_refs e) n)
       (krs_evidence_map v) \<and>
     items (krs_assumptions v) 4096 \<and> items (krs_segments v) 4096 \<and> items (krs_alternatives v) 4096 \<and>
     krs_conclusions_and_decisions v \<noteq> [] \<and>
     bounded_list (krs_conclusions_and_decisions v) DK2_MAX_LIST_ITEMS DK2_MAX_SOURCE_BYTES \<and>
     items (krs_observation_limits v) 4096 \<and> items (krs_negative_evidence v) 4096"

definition security_ok :: "nat \<Rightarrow> access_scope \<Rightarrow> security_section \<Rightarrow> bool" where
  "security_ok n access v \<longleftrightarrow> ksc_asset_iris v \<noteq> [] \<and> iris (ksc_asset_iris v) \<and> ksc_trust_boundaries v \<noteq> [] \<and>
     ksc_threats v \<noteq> [] \<and> ksc_controls v \<noteq> [] \<and> items (ksc_trust_boundaries v) 4096 \<and>
     items (ksc_threats v) 4096 \<and> items (ksc_controls v) 4096 \<and> evidence_refs (ksc_evidence_refs v) n \<and>
     bounded_nonblank (ksc_verification_status v) 4096 \<and> bounded_nonblank (ksc_applicable_authority v) 4096 \<and>
     bounded_nonblank (ksc_finding_state v) 4096 \<and> items (ksc_exceptions v) 4096 \<and>
     length (ksc_remediation_proof_refs v) \<le> DK2_MAX_LIST_ITEMS \<and>
     (ksc_remediation_proof_refs v = [] \<or> evidence_refs (ksc_remediation_proof_refs v) n) \<and>
     (ksc_sensitivity v \<in> {Sensitive, Restricted} \<longrightarrow> access = OwnersOnly)"

text \<open>Which sections the kind and the profiles of a document ask for, and which they rule out.\<close>

definition sections_present :: "document_draft \<Rightarrow> bool" where
  "sections_present d \<longleftrightarrow> (let s = kdd_sections d; p = kdd_profiles d; kind = kdd_knowledge_kind d in
     \<not> (kind = KindConstraint \<and> kse_constraint s = None \<or>
        kind \<in> {KindClaim, KindDecision, KindHypothesis} \<and> kse_general s = None \<or>
        ProfileRunbook \<in> set p \<and> kse_runbook s = None \<or> ProfileProtocol \<in> set p \<and> kse_protocol s = None \<or>
        ProfileDevops \<in> set p \<and> kse_devops s = None \<or> ProfileOperations \<in> set p \<and> kse_operations s = None \<or>
        ProfileProductResearch \<in> set p \<and> kse_product_research s = None \<or>
        ProfileSecurity \<in> set p \<and> kse_security s = None \<or>
        kse_runbook s \<noteq> None \<and> ProfileRunbook \<notin> set p \<or> kse_constraint s \<noteq> None \<and> kind \<noteq> KindConstraint \<or>
        kse_protocol s \<noteq> None \<and> ProfileProtocol \<notin> set p \<or> kse_devops s \<noteq> None \<and> ProfileDevops \<notin> set p \<or>
        kse_operations s \<noteq> None \<and> ProfileOperations \<notin> set p \<or>
        kse_product_research s \<noteq> None \<and> ProfileProductResearch \<notin> set p \<or>
        kse_security s \<noteq> None \<and> ProfileSecurity \<notin> set p))"

definition sections_validate :: "document_draft \<Rightarrow> unit result" where
  "sections_validate d =
     (let s = kdd_sections d; n = length (kdd_sources d); bad = (\<lambda>ok. refuse_if (\<not> ok) InvalidArguments) in
      checks [bad (sections_present d), bad (opt_all constraint_ok (kse_constraint s)),
        bad (opt_all general_ok (kse_general s)),
        bad (kdd_knowledge_kind d = KindDecision \<longrightarrow> decision_ok (kse_general s)),
        bad (opt_all (runbook_ok (kdd_sources d)) (kse_runbook s)), bad (opt_all (protocol_ok n) (kse_protocol s)),
        bad (opt_all (devops_ok n) (kse_devops s)), bad (opt_all operations_ok (kse_operations s)),
        bad (opt_all (research_ok n) (kse_product_research s)),
        bad (opt_all (security_ok n (kdd_access_scope d)) (kse_security s))])"

section \<open>Documents\<close>

definition later :: "int \<times> u32 \<Rightarrow> int \<times> u32 \<Rightarrow> bool" where
  "later a b \<longleftrightarrow> fst b < fst a \<or> fst a = fst b \<and> snd b < snd a"

definition window_ok :: "document_draft \<Rightarrow> bool" where
  "window_ok d \<longleftrightarrow> opt_all timestamp (kdd_valid_from d) \<and> opt_all timestamp (kdd_valid_until d) \<and>
     (case (Option.bind (kdd_valid_from d) parse_rfc3339, Option.bind (kdd_valid_until d) parse_rfc3339) of
        (Some a, Some b) \<Rightarrow> \<not> later a b | _ \<Rightarrow> True) \<and>
     opt_all timestamp (kdd_review_due_at d)"

definition assertion_ok :: "document_env \<Rightarrow> graph_assertion \<Rightarrow> bool" where
  "assertion_ok v a \<longleftrightarrow> iri (kga_subject_iri a) \<and> iri (kga_object_iri a) \<and>
     dz_named_node v (kga_subject_iri a) \<and> dz_named_node v (kga_object_iri a)"

definition epistemics_ok :: "document_draft \<Rightarrow> bool" where
  "epistemics_ok d \<longleftrightarrow>
     \<not> (kdd_knowledge_kind d = KindHypothesis \<and>
        (kdd_epistemic_state d \<noteq> StateHypothesis \<or> kse_constraint (kdd_sections d) \<noteq> None)) \<and>
     \<not> (kdd_knowledge_kind d = KindConstraint \<and> kdd_epistemic_state d \<noteq> StateNormative)"

definition document_shape :: "document_env \<Rightarrow> document_draft \<Rightarrow> bool" where
  "document_shape v d \<longleftrightarrow> bounded_nonblank (kdd_title d) 1024 \<and>
     bounded_nonblank (kdd_canonical_text d) DK2_MAX_SOURCE_BYTES \<and> kdd_target_iris d \<noteq> [] \<and>
     iris (kdd_target_iris d) \<and> items (kdd_conditions d) 4096 \<and> items (kdd_exceptions d) 4096 \<and>
     kdd_sources d \<noteq> [] \<and> length (kdd_sources d) \<le> DK2_MAX_LIST_ITEMS \<and> kdd_bindings d \<noteq> [] \<and>
     length (kdd_bindings d) \<le> DK2_MAX_LIST_ITEMS \<and> length (kdd_graph_assertions d) \<le> DK2_MAX_LIST_ITEMS \<and>
     list_all (assertion_ok v) (kdd_graph_assertions d) \<and>
     card (set (map (\<lambda>a. (kga_subject_iri a, kga_predicate a, kga_object_iri a)) (kdd_graph_assertions d))) =
       length (kdd_graph_assertions d) \<and>
     length (kdd_planning_briefs d) \<le> PLANNING_KNOWLEDGE_MAX_BRIEFS \<and>
     card (set (map br_local_id (kdd_planning_briefs d))) = length (kdd_planning_briefs d) \<and>
     bounded_nonblank (kdd_owner_ref d) 1024 \<and> bounded_nonblank (kdd_authority_basis d) 4096 \<and> window_ok d \<and>
     card (set (kdd_profiles d)) = length (kdd_profiles d) \<and> ascending (kdd_profiles d) \<and>
     ProfileGeneral \<in> set (kdd_profiles d) \<and>
     opt_all (\<lambda>p. p \<in> set (kdd_profiles d)) (required_profile (kdd_knowledge_kind d)) \<and> epistemics_ok d"

definition document_validate :: "document_env \<Rightarrow> document_draft \<Rightarrow> unit result" where
  "document_validate v d = checks [refuse_if (\<not> document_shape v d) InvalidArguments,
     each source_validate (kdd_sources d), each binding_validate (kdd_bindings d),
     each brief_validate (kdd_planning_briefs d), sections_validate d,
     andThen (ok_or (dz_json_length v d) InvalidArguments) (\<lambda>n.
       refuse_if (DK2_MAX_DOCUMENT_BYTES < n) CapacityExceeded)]"

section \<open>Facts\<close>

lemma source_validate_Inr [check_simps]: "source_validate s = Inr u \<longleftrightarrow> source_ok s"
  by (simp add: source_validate_def check_simps)

lemma binding_validate_Inr [check_simps]:
  "binding_validate b = Inr u \<longleftrightarrow> target_ok (kdb_target b) \<and> version_ok (kdb_version_resolution b)"
  by (simp add: binding_validate_def check_simps)

lemma sections_validate_Inr:
  "sections_validate d = Inr u \<longleftrightarrow> (let s = kdd_sections d; n = length (kdd_sources d) in
     sections_present d \<and> opt_all constraint_ok (kse_constraint s) \<and> opt_all general_ok (kse_general s) \<and>
     (kdd_knowledge_kind d = KindDecision \<longrightarrow> decision_ok (kse_general s)) \<and>
     opt_all (runbook_ok (kdd_sources d)) (kse_runbook s) \<and> opt_all (protocol_ok n) (kse_protocol s) \<and>
     opt_all (devops_ok n) (kse_devops s) \<and> opt_all operations_ok (kse_operations s) \<and>
     opt_all (research_ok n) (kse_product_research s) \<and> opt_all (security_ok n (kdd_access_scope d)) (kse_security s))"
  by (simp add: sections_validate_def Let_def check_simps)

lemma document_validate_Inr:
  "document_validate v d = Inr u \<longleftrightarrow> document_shape v d \<and> list_all source_ok (kdd_sources d) \<and>
     list_all (\<lambda>b. target_ok (kdb_target b) \<and> version_ok (kdb_version_resolution b)) (kdd_bindings d) \<and>
     list_all (\<lambda>b. brief_validate b = Inr ()) (kdd_planning_briefs d) \<and> sections_validate d = Inr () \<and>
     (\<exists>n. dz_json_length v d = Some n \<and> n \<le> DK2_MAX_DOCUMENT_BYTES)"
  by (auto simp: document_validate_def check_simps list_all_iff not_less)

lemma proof_ok_cites:
  "proof_ok sources kind refs \<Longrightarrow> refs \<noteq> [] \<and> list_all (\<lambda>i. i < length sources) refs"
  by (simp add: proof_ok_def evidence_refs_def)

text \<open>
  Every index of a source in the sections of a document, and those among them that are the proof references of a
  runbook that is merely documented.
\<close>

definition of_opt :: "('a \<Rightarrow> 'b list) \<Rightarrow> 'a option \<Rightarrow> 'b list" where
  "of_opt f x = (case x of None \<Rightarrow> [] | Some y \<Rightarrow> f y)"

definition cited :: "document_draft \<Rightarrow> nat list" where
  "cited d = (let s = kdd_sections d in
     of_opt krb_proof_evidence_refs (kse_runbook s) @
     of_opt (\<lambda>p. concat (map kpt_evidence_refs (kpl_assertions p))) (kse_protocol s) @
     of_opt (\<lambda>v. concat (map kob_evidence_refs (kdv_observations v))) (kse_devops s) @
     of_opt (\<lambda>v. concat (map kre_source_refs (krs_evidence_map v))) (kse_product_research s) @
     of_opt (\<lambda>v. ksc_evidence_refs v @ ksc_remediation_proof_refs v) (kse_security s))"

definition documented_refs :: "document_draft \<Rightarrow> nat list" where
  "documented_refs d =
     of_opt (\<lambda>r. if krb_proof_status r = Documented then krb_proof_evidence_refs r else []) (kse_runbook (kdd_sections d))"

text \<open>The citations of no source\<close>

definition dangling :: "document_draft \<Rightarrow> nat list \<Rightarrow> nat list" where
  "dangling d refs = filter (\<lambda>i. length (kdd_sources d) \<le> i) refs"

lemma dangling_append: "dangling d (xs @ ys) = dangling d xs @ dangling d ys"
  by (simp add: dangling_def)

lemma dangling_none: "dangling d refs = [] \<longleftrightarrow> list_all (\<lambda>i. i < length (kdd_sources d)) refs"
  by (auto simp: dangling_def filter_empty_conv list_all_iff not_le)

lemma list_all_concat_map: "list_all (\<lambda>i. i < n) (concat (map f xs)) \<longleftrightarrow> list_all (\<lambda>x. list_all (\<lambda>i. i < n) (f x)) xs"
  by (auto simp: list_all_iff)

lemma of_opt_bound: "list_all (\<lambda>i. i < n) (of_opt f x) \<longleftrightarrow> opt_all (\<lambda>y. list_all (\<lambda>i. i < n) (f y)) x"
  by (simp add: of_opt_def split: option.split)

lemma opt_all_mono: "opt_all p x \<Longrightarrow> (\<And>y. p y \<Longrightarrow> q y) \<Longrightarrow> opt_all q x"
  by (cases x) simp_all

lemma section_cites:
  "protocol_ok n p \<Longrightarrow> list_all (\<lambda>i. i < n) (concat (map kpt_evidence_refs (kpl_assertions p)))"
  "devops_ok n v \<Longrightarrow> list_all (\<lambda>i. i < n) (concat (map kob_evidence_refs (kdv_observations v)))"
  "research_ok n w \<Longrightarrow> list_all (\<lambda>i. i < n) (concat (map kre_source_refs (krs_evidence_map w)))"
  "security_ok n access c \<Longrightarrow> list_all (\<lambda>i. i < n) (ksc_evidence_refs c @ ksc_remediation_proof_refs c)"
  by (auto simp: protocol_ok_def devops_ok_def research_ok_def security_ok_def list_all_concat_map evidence_refs_def
    list_all_iff)

lemma runbook_cites:
  assumes "opt_all (runbook_ok (kdd_sources d)) (kse_runbook (kdd_sections d))"
  shows "dangling d (of_opt krb_proof_evidence_refs (kse_runbook (kdd_sections d))) = dangling d (documented_refs d)"
    "length (documented_refs d) \<le> DK2_MAX_LIST_ITEMS"
proof (atomize (full), cases "kse_runbook (kdd_sections d)")
  case (Some r)
  with assms have r: "runbook_ok (kdd_sources d) r" by simp
  then have "krb_proof_status r \<noteq> Documented \<Longrightarrow> dangling d (krb_proof_evidence_refs r) = []"
    unfolding dangling_none by (auto simp: runbook_ok_def dest!: proof_ok_cites split: proof_status.splits)
  moreover have "length (krb_proof_evidence_refs r) \<le> DK2_MAX_LIST_ITEMS" using r by (simp add: runbook_ok_def)
  ultimately show "dangling d (of_opt krb_proof_evidence_refs (kse_runbook (kdd_sections d))) = dangling d (documented_refs d) \<and>
      length (documented_refs d) \<le> DK2_MAX_LIST_ITEMS"
    by (simp add: documented_refs_def of_opt_def Some) (simp add: dangling_def)
qed (simp add: documented_refs_def of_opt_def)

lemma sections_cite:
  assumes "sections_validate d = Inr ()"
  shows "dangling d (cited d) = dangling d (documented_refs d)"
proof -
  let ?s = "kdd_sections d" and ?n = "length (kdd_sources d)"
  have ok: "opt_all (runbook_ok (kdd_sources d)) (kse_runbook ?s)" "opt_all (protocol_ok ?n) (kse_protocol ?s)"
    "opt_all (devops_ok ?n) (kse_devops ?s)" "opt_all (research_ok ?n) (kse_product_research ?s)"
    "opt_all (security_ok ?n (kdd_access_scope d)) (kse_security ?s)"
    using assms by (simp_all add: sections_validate_Inr Let_def)
  have "dangling d (of_opt (\<lambda>p. concat (map kpt_evidence_refs (kpl_assertions p))) (kse_protocol ?s)) = []"
    "dangling d (of_opt (\<lambda>v. concat (map kob_evidence_refs (kdv_observations v))) (kse_devops ?s)) = []"
    "dangling d (of_opt (\<lambda>v. concat (map kre_source_refs (krs_evidence_map v))) (kse_product_research ?s)) = []"
    "dangling d (of_opt (\<lambda>v. ksc_evidence_refs v @ ksc_remediation_proof_refs v) (kse_security ?s)) = []"
    unfolding dangling_none of_opt_bound
    by (rule opt_all_mono [OF ok(2) section_cites(1)] opt_all_mono [OF ok(3) section_cites(2)]
      opt_all_mono [OF ok(4) section_cites(3)] opt_all_mono [OF ok(5) section_cites(4)]; assumption)+
  then show ?thesis unfolding cited_def Let_def dangling_append by (simp add: runbook_cites(1) [OF ok(1)])
qed

text \<open>
  The sections of a document: those that belong to a profile are there exactly for its profiles, that of a
  constraint exactly for a constraint, and a claim, a decision or a hypothesis has the general one, which any other
  document may have.
\<close>

definition sections_of_profiles :: "document_draft \<Rightarrow> bool" where
  "sections_of_profiles d \<longleftrightarrow> (let s = kdd_sections d; p = set (kdd_profiles d) in
     (kse_runbook s \<noteq> None \<longleftrightarrow> ProfileRunbook \<in> p) \<and> (kse_protocol s \<noteq> None \<longleftrightarrow> ProfileProtocol \<in> p) \<and>
     (kse_devops s \<noteq> None \<longleftrightarrow> ProfileDevops \<in> p) \<and> (kse_operations s \<noteq> None \<longleftrightarrow> ProfileOperations \<in> p) \<and>
     (kse_product_research s \<noteq> None \<longleftrightarrow> ProfileProductResearch \<in> p) \<and>
     (kse_security s \<noteq> None \<longleftrightarrow> ProfileSecurity \<in> p) \<and>
     (kse_constraint s \<noteq> None \<longleftrightarrow> kdd_knowledge_kind d = KindConstraint) \<and>
     (kdd_knowledge_kind d \<in> {KindClaim, KindDecision, KindHypothesis} \<longrightarrow> kse_general s \<noteq> None))"

lemma sections_present_profiles: "sections_present d \<Longrightarrow> sections_of_profiles d"
  unfolding sections_present_def sections_of_profiles_def Let_def by (intro conjI iffI impI; rule ccontr; simp)

definition claimed_evidence :: "proof_status \<Rightarrow> knowledge_evidence_kind option" where
  "claimed_evidence p = (case p of Documented \<Rightarrow> None | StaticVerified \<Rightarrow> Some EvidenceStaticVerification
     | RuntimeVerified \<Rightarrow> Some EvidenceRuntimeVerification)"

lemma runbook_proof:
  assumes "runbook_ok sources r" "claimed_evidence (krb_proof_status r) = Some kind"
  shows "krb_proof_evidence_refs r \<noteq> [] \<and>
    list_all (\<lambda>i. i < length sources \<and> qualified_evidence kind (sources ! i)) (krb_proof_evidence_refs r)"
  using assms by (auto simp: runbook_ok_def claimed_evidence_def proof_ok_def evidence_refs_def list_all_iff
      split: proof_status.splits)

lemma runbook_steps:
  assumes "runbook_ok sources r"
  shows "map krt_ordinal (krb_steps r) = [1..<Suc (length (krb_steps r))]"
proof (rule nth_equalityI)
  fix i assume "i < length (map krt_ordinal (krb_steps r))"
  then have i: "i < length (krb_steps r)" by simp
  have "list_all (\<lambda>(i, st). step_ok i st) (List.enumerate 0 (krb_steps r))" "length (krb_steps r) \<le> 128"
    using assms by (simp_all add: runbook_ok_def DK2_MAX_LIST_ITEMS_def)
  moreover have "(i, krb_steps r ! i) \<in> set (List.enumerate 0 (krb_steps r))"
    using i by (auto simp: in_set_enumerate_eq)
  ultimately have "step_ok i (krb_steps r ! i)" "i < 128" using i by (auto simp: list_all_iff)
  then have "krt_ordinal (krb_steps r ! i) = Suc i" by (simp add: step_ok_def u32_or_max_def)
  moreover have "[1..<Suc (length (krb_steps r))] ! i = Suc i" using i by (simp del: upt_Suc)
  ultimately show "map krt_ordinal (krb_steps r) ! i = [1..<Suc (length (krb_steps r))] ! i" using i by (simp del: upt_Suc)
qed (simp del: upt_Suc)

lemma runbook_sound:
  assumes "runbook_ok sources r"
  shows "map krt_ordinal (krb_steps r) = [1..<Suc (length (krb_steps r))] \<and>
    opt_all (\<lambda>kind. krb_proof_evidence_refs r \<noteq> [] \<and> list_all (\<lambda>i. i < length sources \<and>
      qualified_evidence kind (sources ! i)) (krb_proof_evidence_refs r)) (claimed_evidence (krb_proof_status r))"
  using runbook_steps [OF assms] runbook_proof [OF assms]
  by (cases "claimed_evidence (krb_proof_status r)") (simp_all del: upt_Suc)

lemma security_scope:
  "security_ok n access c \<Longrightarrow> ksc_sensitivity c \<in> {Public, Internal} \<or> access = OwnersOnly"
  by (cases "ksc_sensitivity c") (simp_all add: security_ok_def)

section \<open>An example\<close>

definition example_document :: document_draft where
  "example_document = \<lparr>kdd_title = ''t'', kdd_canonical_text = ''c'', kdd_knowledge_kind = KindProcedure,
     kdd_epistemic_state = StateDeclared, kdd_target_iris = [''urn:a''], kdd_conditions = [], kdd_exceptions = [],
     kdd_sources = [SourceSnapshot \<lparr>ks_title = ''s'', ks_uri = ''urn:s'', ks_text = ''x'', ks_observed_at = None,
       ks_evidence_kind = EvidenceDocument\<rparr>],
     kdd_bindings = [\<lparr>kdb_target = BindWorkspace, kdb_purpose = PurposeProcedure,
       kdb_version_resolution = CurrentAccepted\<rparr>],
     kdd_profiles = [ProfileGeneral, ProfileRunbook], kdd_access_scope = WorkspaceMembers, kdd_owner_ref = ''o'',
     kdd_authority_basis = ''b'', kdd_graph_assertions = [], kdd_planning_briefs = [], kdd_valid_from = None,
     kdd_valid_until = None, kdd_review_due_at = None,
     kdd_sections = \<lparr>kse_constraint = None, kse_general = None,
       kse_runbook = Some \<lparr>krb_purpose_and_fit = ''p'', krb_target_environment_iris = [''urn:e''], krb_parameters = [],
         krb_prerequisites = [], krb_required_authority = ''q'',
         krb_steps = [\<lparr>krt_ordinal = 1, krt_action = ''a'', krt_expected_result = ''r'', krt_verification = ''v''\<rparr>],
         krb_failure_and_recovery = ''f'', krb_proof_status = Documented, krb_proof_evidence_refs = [7],
         krb_dependency_iris = []\<rparr>,
       kse_protocol = None, kse_devops = None, kse_operations = None, kse_product_research = None,
       kse_security = None\<rparr>\<rparr>"

definition example_document_env :: document_env where
  "example_document_env = \<lparr>dz_named_node = (\<lambda>_. True), dz_json_length = (\<lambda>_. Some 1000)\<rparr>"

lemma graphic_text: "is_ascii_graphic c \<Longrightarrow> list_all (\<lambda>c. c \<noteq> CHR 0x00) s \<Longrightarrow> length s < n \<Longrightarrow> bounded_nonblank (c # s) n"
proof -
  assume graphic: "is_ascii_graphic c" and rest: "list_all (\<lambda>c. c \<noteq> CHR 0x00) s" "length s < n"
  have "c \<noteq> CHR 0x00" using graphic by (intro notI) (simp add: is_ascii_graphic_def byte_def)
  with rest have "\<not> has_nul (c # s)" unfolding has_nul_def list_all_iff by fastforce
  with graphic rest show ?thesis by (simp add: bounded_nonblank_def)
qed

lemma example_document_accepted: "document_validate example_document_env example_document = Inr ()"
proof -
  note texts = graphic_text is_ascii_graphic_def byte_def
  note limits = DK2_MAX_SOURCE_BYTES_def DK2_MAX_LIST_ITEMS_def DK2_MAX_DOCUMENT_BYTES_def PLANNING_KNOWLEDGE_MAX_BRIEFS_def
  have "document_shape example_document_env example_document"
    by (simp add: document_shape_def example_document_def iris_def iri_def items_def bounded_list_def texts window_ok_def
        limits epistemics_ok_def less_profile_id_def)
  moreover have "list_all source_ok (kdd_sources example_document)"
    by (simp add: example_document_def iri_def texts limits)
  moreover have "list_all (\<lambda>b. target_ok (kdb_target b) \<and> version_ok (kdb_version_resolution b)) (kdd_bindings example_document)"
    by (simp add: example_document_def)
  moreover have "sections_validate example_document = Inr ()"
    by (simp add: sections_validate_Inr sections_present_def runbook_ok_def step_ok_def u32_or_max_def Let_def
        example_document_def iris_def iri_def items_def bounded_list_def texts limits)
  ultimately show ?thesis
    by (simp add: document_validate_Inr example_document_env_def limits) (simp add: example_document_def)
qed

section \<open>Properties\<close>

text \<open>
  C37: an accepted document is consistent. Of the sections that belong to a profile it carries exactly those of its
  profiles, among them the profile of its kind; the constraint section exactly if it is a constraint; the general
  section at least if it is a claim, a decision or a hypothesis. Every source that a section cites exists, save that
  the proof references of a runbook that is merely documented may name any source: of these only the number is
  bounded. The steps of its runbook are numbered from one; a runbook that claims a verification cites evidence of
  that kind, each piece of it dated; and a document with a sensitive or restricted security section is for its owners
  only.
\<close>

theorem accepted_document_consistent:
  assumes "document_validate v d = Inr ()"
  shows "sections_of_profiles d \<and> opt_all (\<lambda>p. p \<in> set (kdd_profiles d)) (required_profile (kdd_knowledge_kind d)) \<and>
    dangling d (cited d) = dangling d (documented_refs d) \<and> length (documented_refs d) \<le> DK2_MAX_LIST_ITEMS \<and>
    opt_all (\<lambda>r. map krt_ordinal (krb_steps r) = [1..<Suc (length (krb_steps r))] \<and>
      opt_all (\<lambda>kind. krb_proof_evidence_refs r \<noteq> [] \<and> list_all (\<lambda>i. i < length (kdd_sources d) \<and>
        qualified_evidence kind (kdd_sources d ! i)) (krb_proof_evidence_refs r))
        (claimed_evidence (krb_proof_status r))) (kse_runbook (kdd_sections d)) \<and>
    opt_all (\<lambda>c. ksc_sensitivity c \<in> {Public, Internal} \<or> kdd_access_scope d = OwnersOnly)
      (kse_security (kdd_sections d))"
proof -
  have parts: "document_shape v d" "sections_validate d = Inr ()"
    using assms by (simp_all add: document_validate_Inr)
  have ok: "opt_all (runbook_ok (kdd_sources d)) (kse_runbook (kdd_sections d))" "sections_present d"
    "opt_all (security_ok (length (kdd_sources d)) (kdd_access_scope d)) (kse_security (kdd_sections d))"
    using parts(2) by (simp_all add: sections_validate_Inr Let_def)
  show ?thesis
  proof (intro conjI)
    show "opt_all (\<lambda>p. p \<in> set (kdd_profiles d)) (required_profile (kdd_knowledge_kind d))"
      using parts(1) by (simp add: document_shape_def)
    show "opt_all (\<lambda>c. ksc_sensitivity c \<in> {Public, Internal} \<or> kdd_access_scope d = OwnersOnly)
      (kse_security (kdd_sections d))"
      using ok(3) by (rule opt_all_mono) (rule security_scope)
  qed (rule sections_present_profiles [OF ok(2)] sections_cite [OF parts(2)] runbook_cites(2) [OF ok(1)] opt_all_mono [OF ok(1) runbook_sound])+
qed

theorem accepted_document_consistent_witness:
  "sections_of_profiles example_document \<and> dangling example_document (cited example_document) = documented_refs example_document \<and>
    documented_refs example_document \<noteq> []"
proof -
  have "documented_refs example_document \<noteq> []" "dangling example_document (documented_refs example_document) = documented_refs example_document"
    by (simp_all add: documented_refs_def dangling_def of_opt_def example_document_def)
  then show ?thesis using accepted_document_consistent [OF example_document_accepted] by simp
qed

text \<open>
  A runbook that claims no verification may cite sources that are not there: only the number of its proof
  references is checked.
\<close>

lemma documented_runbook_cites_unchecked:
  "\<exists>r. kse_runbook (kdd_sections example_document) = Some r \<and>
     \<not> list_all (\<lambda>i. i < length (kdd_sources example_document)) (krb_proof_evidence_refs r)"
  by (simp add: example_document_def)

end
