(* ===== verification/KnowledgeRegistry.thy ===== *)
theory KnowledgeRegistry
  imports KnowledgeDocuments
begin

text \<open>
  \<^verbatim>\<open>knowledge_profile_registry.rs\<close> and its validators in \<^verbatim>\<open>knowledge_change_validation.rs\<close>: the profiles
  with their obligations, the definition of the twelve phases, and the plan compiled from them.
\<close>

section \<open>Registry\<close>

record contract_ref =
  kcf_id :: str
  kcf_version :: str
  kcf_digest :: str
  kcf_source_ref :: str

datatype applicability =
    AppliesAlways
  | AppliesOperation lifecycle_operation
  | AppliesOperations "lifecycle_operation list"
  | AppliesKnowledgeKind knowledge_kind
  | AppliesDeclaredCondition str

record profile_obligation =
  kpo_id :: str
  kpo_requirement :: str
  kpo_phase_id :: kc_phase
  kpo_applicability :: applicability
  kpo_required :: bool
  kpo_depends_on :: "str list"
  kpo_method_refs :: "contract_ref list"
  kpo_shape_refs :: "contract_ref list"
  kpo_required_outputs :: "str list"
  kpo_reuse_rule_ref :: contract_ref
  kpo_terminal_rule_refs :: "contract_ref list"

record profile_contract =
  kpc_profile_id :: profile_id
  kpc_version :: str
  kpc_digest :: str
  kpc_applicable_kinds :: "knowledge_kind list"
  kpc_operations :: "lifecycle_operation list"
  kpc_inherits :: "profile_id list"
  kpc_compatible_profiles :: "profile_id list"
  kpc_shape_refs :: "contract_ref list"
  kpc_methods :: "instruction_snapshot list"
  kpc_obligations :: "profile_obligation list"
  kpc_evidence_rule_refs :: "contract_ref list"
  kpc_freshness_rule_refs :: "contract_ref list"
  kpc_authority_rule_refs :: "contract_ref list"
  kpc_impact_rule_refs :: "contract_ref list"
  kpc_retention_rule_refs :: "contract_ref list"
  kpc_index_rule_refs :: "contract_ref list"
  kpc_terminal_rule_refs :: "contract_ref list"
  kpc_lifecycle_complete :: bool

record profile_registry =
  kpg_version :: str
  kpg_digest :: str
  kpg_profiles :: "profile_contract list"

datatype phase_executor = ExecutorAgent | ExecutorBackend | ExecutorPublisher | ExecutorWorker

datatype phase_output_kind =
    OutputChangeIntent
  | OutputBaselineManifest
  | OutputBranchPlan
  | OutputEvidenceManifest
  | OutputProposedChangeset
  | OutputObligationReceipts
  | OutputImpactPlan
  | OutputReviewReceipt
  | OutputReadyToCommit
  | OutputPublisherReceipt
  | OutputEffectsReport
  | OutputChangeResult

record kc_phase_definition =
  kd_id :: kc_phase
  kd_ordinal :: nat
  kd_title :: str
  kd_executor :: phase_executor
  kd_output_kind :: phase_output_kind
  kd_depends_on :: "kc_phase list"
  kd_allowed_backward_to :: "kc_phase list"
  kd_instructions :: "instruction_snapshot list"
  kd_methods :: "instruction_snapshot list"
  kd_required_input_refs :: "str list"
  kd_required_output_refs :: "str list"
  kd_required_obligation_ids :: "str list"
  kd_output_contract_ref :: contract_ref

record kc_definition =
  kf_version :: str
  kf_digest :: str
  kf_registry_version :: str
  kf_registry_digest :: str
  kf_overview :: instruction_snapshot
  kf_default_mode :: delivery_mode
  kf_allowed_modes :: "delivery_mode list"
  kf_phases :: "kc_phase_definition list"
  kf_completion_contract_ref :: contract_ref
  kf_escalation_contract_ref :: contract_ref

record branch_obligation =
  kbo_operation_id :: uuid
  kbo_profile_id :: profile_id
  kbo_profile_version :: str
  kbo_profile_digest :: str
  kbo_obligation_id :: str
  kbo_requirement :: str
  kbo_phase_id :: kc_phase
  kbo_applicability :: applicability
  kbo_method_refs :: "contract_ref list"
  kbo_shape_refs :: "contract_ref list"
  kbo_dependency_obligation_ids :: "str list"
  kbo_pending_qualification :: bool

record branch_plan =
  kbl_revision :: int
  kbl_digest :: str
  kbl_definition_version :: str
  kbl_definition_digest :: str
  kbl_registry_version :: str
  kbl_registry_digest :: str
  kbl_delivery_mode :: delivery_mode
  kbl_operation_ids :: "uuid list"
  kbl_profiles :: "profile_id list"
  kbl_obligations :: "branch_obligation list"
  kbl_policy_refs :: "contract_ref list"
  kbl_shape_refs :: "contract_ref list"
  kbl_method_refs :: "contract_ref list"

section \<open>References and instructions\<close>

definition DK2_MAX_OPERATIONS :: nat where "DK2_MAX_OPERATIONS = 16"

definition contract_ref_ok :: "contract_ref \<Rightarrow> bool" where
  "contract_ref_ok c \<longleftrightarrow> bounded_nonblank (kcf_id c) 256 \<and> bounded_nonblank (kcf_version c) 128 \<and>
     bounded_nonblank (kcf_digest c) 256 \<and> bounded_nonblank (kcf_source_ref c) 4096"

definition instruction_ok :: "instruction_snapshot \<Rightarrow> bool" where
  "instruction_ok s \<longleftrightarrow> bounded_nonblank (in_id s) 256 \<and> bounded_nonblank (in_version s) 128 \<and>
     bounded_nonblank (in_digest s) 256 \<and> bounded_nonblank (in_body s) DK2_MAX_SOURCE_BYTES \<and>
     in_origin_refs s \<noteq> [] \<and> list_all (\<lambda>r. bounded_nonblank r 4096) (in_origin_refs s)"

section \<open>The registry of profiles\<close>

fun applicability_ok :: "applicability \<Rightarrow> bool" where
  "applicability_ok (AppliesOperations ops) \<longleftrightarrow> ops \<noteq> [] \<and> card (set ops) = length ops \<and> ascending ops"
| "applicability_ok (AppliesDeclaredCondition c) \<longleftrightarrow> bounded_nonblank c 256"
| "applicability_ok _ \<longleftrightarrow> True"

definition method_of :: "instruction_snapshot list \<Rightarrow> contract_ref \<Rightarrow> bool" where
  "method_of methods m \<longleftrightarrow> list_ex (\<lambda>c. in_id c = kcf_id m \<and> in_version c = kcf_version m \<and>
     in_digest c = kcf_digest m \<and> kcf_source_ref m \<in> set (in_origin_refs c)) methods"

definition obligation_ok :: "profile_contract \<Rightarrow> profile_obligation \<Rightarrow> bool" where
  "obligation_ok p x \<longleftrightarrow> bounded_nonblank (kpo_id x) 256 \<and> bounded_nonblank (kpo_requirement x) 4096 \<and> kpo_required x \<and>
     applicability_ok (kpo_applicability x) \<and> kpo_method_refs x \<noteq> [] \<and>
     list_all contract_ref_ok (kpo_method_refs x) \<and> list_all (method_of (kpc_methods p)) (kpo_method_refs x) \<and>
     list_all contract_ref_ok (kpo_shape_refs x) \<and> contract_ref_ok (kpo_reuse_rule_ref x)"

text \<open>\<^verbatim>\<open>(pair[0].phase_id, &pair[0].id) < (pair[1].phase_id, &pair[1].id)\<close>\<close>

fun obligations_ascending :: "profile_obligation list \<Rightarrow> bool" where
  "obligations_ascending (x # y # xs) \<longleftrightarrow>
     (kpo_phase_id x < kpo_phase_id y \<or> kpo_phase_id x = kpo_phase_id y \<and> kpo_id x < kpo_id y) \<and>
     obligations_ascending (y # xs)"
| "obligations_ascending _ \<longleftrightarrow> True"

definition profile_ok :: "profile_contract \<Rightarrow> bool" where
  "profile_ok p \<longleftrightarrow> bounded_nonblank (kpc_version p) 128 \<and> bounded_nonblank (kpc_digest p) 256 \<and>
     length (kpc_operations p) = 6 \<and> card (set (kpc_operations p)) = 6 \<and> ascending (kpc_operations p) \<and>
     (kpc_profile_id p = ProfileGeneral \<or> ProfileGeneral \<in> set (kpc_inherits p)) \<and> kpc_obligations p \<noteq> [] \<and>
     obligations_ascending (kpc_obligations p) \<and> list_all contract_ref_ok (kpc_shape_refs p) \<and>
     list_all instruction_ok (kpc_methods p) \<and>
     list_ex (\<lambda>m. in_id m = profile_method_id (kpc_profile_id p) \<and> in_version m = kpc_version p) (kpc_methods p)"

definition registry_validate :: "profile_registry \<Rightarrow> unit result" where
  "registry_validate g = checks
     [refuse_if (\<not> bounded_nonblank (kpg_version g) 128 \<or> \<not> bounded_nonblank (kpg_digest g) 256 \<or>
        length (kpg_profiles g) \<noteq> 7 \<or> \<not> ascending (map kpc_profile_id (kpg_profiles g)) \<or>
        card (set (map kpc_profile_id (kpg_profiles g))) \<noteq> 7) InvalidArguments,
      each (\<lambda>p. checks [refuse_if (\<not> profile_ok p) InvalidArguments,
        each (\<lambda>x. refuse_if (\<not> obligation_ok p x) InvalidArguments) (kpc_obligations p)]) (kpg_profiles g)]"

section \<open>The definition of the phases\<close>

fun expected_phase_contract :: "kc_phase \<Rightarrow> phase_executor \<times> phase_output_kind" where
  "expected_phase_contract KcIntake = (ExecutorAgent, OutputChangeIntent)"
| "expected_phase_contract KcResolveBaseline = (ExecutorAgent, OutputBaselineManifest)"
| "expected_phase_contract KcQualifyPlan = (ExecutorAgent, OutputBranchPlan)"
| "expected_phase_contract KcQualifyEvidence = (ExecutorAgent, OutputEvidenceManifest)"
| "expected_phase_contract KcPrepareChange = (ExecutorAgent, OutputProposedChangeset)"
| "expected_phase_contract KcDomainChecks = (ExecutorAgent, OutputObligationReceipts)"
| "expected_phase_contract KcImpactPlan = (ExecutorAgent, OutputImpactPlan)"
| "expected_phase_contract KcReviewReconcile = (ExecutorAgent, OutputReviewReceipt)"
| "expected_phase_contract KcPublicationGate = (ExecutorBackend, OutputReadyToCommit)"
| "expected_phase_contract KcCommit = (ExecutorPublisher, OutputPublisherReceipt)"
| "expected_phase_contract KcSettleEffects = (ExecutorBackend, OutputEffectsReport)"
| "expected_phase_contract KcResultHandoff = (ExecutorAgent, OutputChangeResult)"

definition kc_phase_ok :: "kc_definition \<Rightarrow> nat \<Rightarrow> kc_phase_definition \<Rightarrow> bool" where
  "kc_phase_ok f i ph \<longleftrightarrow> (let expected = KC_ALL ! i in
     kd_id ph = expected \<and> kd_ordinal ph = kc_ordinal expected \<and> bounded_nonblank (kd_title ph) 256 \<and>
     contract_ref_ok (kd_output_contract_ref ph) \<and>
     (kd_executor ph, kd_output_kind ph) = expected_phase_contract expected \<and>
     (kd_executor ph = ExecutorAgent \<longleftrightarrow> kd_methods ph \<noteq> []) \<and> list_all instruction_ok (kd_methods ph) \<and>
     opt_all (\<lambda>m. list_ex (\<lambda>s. in_id s = m \<and> in_version s = kf_version f) (kd_methods ph)) (kc_method_id expected))"

definition kc_definition_validate :: "kc_definition \<Rightarrow> unit result" where
  "kc_definition_validate f = checks
     [refuse_if (\<not> bounded_nonblank (kf_version f) 128 \<or> \<not> bounded_nonblank (kf_digest f) 256 \<or>
        \<not> bounded_nonblank (kf_registry_version f) 128 \<or> \<not> bounded_nonblank (kf_registry_digest f) 256 \<or>
        kf_default_mode f \<notin> set (kf_allowed_modes f) \<or> length (kf_phases f) \<noteq> length KC_ALL \<or>
        \<not> contract_ref_ok (kf_completion_contract_ref f) \<or> \<not> contract_ref_ok (kf_escalation_contract_ref f) \<or>
        \<not> instruction_ok (kf_overview f)) InvalidArguments,
      each_idx (\<lambda>i ph. refuse_if (\<not> kc_phase_ok f i ph) InvalidArguments) (kf_phases f)]"

section \<open>The plan\<close>

definition plan_validate :: "branch_plan \<Rightarrow> unit result" where
  "plan_validate b = refuse_if
     (kbl_revision b < 1 \<or> \<not> bounded_nonblank (kbl_digest b) 256 \<or> \<not> bounded_nonblank (kbl_definition_version b) 128 \<or>
      \<not> bounded_nonblank (kbl_definition_digest b) 256 \<or> \<not> bounded_nonblank (kbl_registry_version b) 128 \<or>
      \<not> bounded_nonblank (kbl_registry_digest b) 256 \<or> kbl_operation_ids b = [] \<or>
      DK2_MAX_OPERATIONS < length (kbl_operation_ids b) \<or> list_ex is_nil (kbl_operation_ids b) \<or>
      card (set (kbl_operation_ids b)) \<noteq> length (kbl_operation_ids b) \<or> ProfileGeneral \<notin> set (kbl_profiles b) \<or>
      card (set (kbl_profiles b)) \<noteq> length (kbl_profiles b) \<or> kbl_obligations b = [] \<or>
      list_ex (\<lambda>x. is_nil (kbo_operation_id x) \<or> kbo_operation_id x \<notin> set (kbl_operation_ids b) \<or>
        \<not> bounded_nonblank (kbo_obligation_id x) 256 \<or> \<not> bounded_nonblank (kbo_requirement x) 4096 \<or>
        \<not> bounded_nonblank (kbo_profile_version x) 128 \<or> \<not> bounded_nonblank (kbo_profile_digest x) 256 \<or>
        list_ex (\<lambda>c. \<not> contract_ref_ok c) (kbo_method_refs x) \<or> list_ex (\<lambda>c. \<not> contract_ref_ok c) (kbo_shape_refs x))
        (kbl_obligations b)) InvalidArguments"

section \<open>Facts\<close>

definition ALL_PROFILES :: "profile_id list" where
  "ALL_PROFILES = [ProfileGeneral, ProfileRunbook, ProfileProtocol, ProfileDevops, ProfileOperations,
     ProfileProductResearch, ProfileSecurity]"

definition ALL_OPERATIONS :: "lifecycle_operation list" where
  "ALL_OPERATIONS = [OpCreate, OpRevise, OpRevalidate, OpSupersede, OpRetract, OpErase]"

lemma all_profiles: "ascending ALL_PROFILES" "set ALL_PROFILES = UNIV" "card (UNIV :: profile_id set) = 7"
proof -
  show "ascending ALL_PROFILES" by (simp add: ALL_PROFILES_def less_profile_id_def)
  show univ: "set ALL_PROFILES = UNIV" using profile_id.exhaust by (auto simp: ALL_PROFILES_def)
  show "card (UNIV :: profile_id set) = 7" by (simp add: ALL_PROFILES_def flip: univ)
qed

lemma all_operations: "ascending ALL_OPERATIONS" "set ALL_OPERATIONS = UNIV" "card (UNIV :: lifecycle_operation set) = 6"
proof -
  show "ascending ALL_OPERATIONS" by (simp add: ALL_OPERATIONS_def less_lifecycle_operation_def)
  show univ: "set ALL_OPERATIONS = UNIV" using lifecycle_operation.exhaust by (auto simp: ALL_OPERATIONS_def)
  show "card (UNIV :: lifecycle_operation set) = 6" by (simp add: ALL_OPERATIONS_def flip: univ)
qed

lemma full_list:
  assumes "ascending xs" "card (set xs) = n" "ascending all" "set all = UNIV" "card (UNIV :: 'a set) = n" "0 < n"
  shows "xs = (all :: 'a::linorder list)"
proof -
  have "finite (UNIV :: 'a set)" using assms(4) by (metis List.finite_set)
  then have "set xs = UNIV" using assms(2,5) by (simp add: card_subset_eq)
  then have "set xs = set all" using assms(4) by simp
  then show ?thesis by (rule ascending_unique [OF assms(1,3)])
qed

lemma registry_profiles:
  assumes "registry_validate g = Inr ()"
  shows "map kpc_profile_id (kpg_profiles g) = ALL_PROFILES"
    "p \<in> set (kpg_profiles g) \<Longrightarrow> profile_ok p \<and> list_all (obligation_ok p) (kpc_obligations p)"
  using assms full_list [OF _ _ all_profiles] by (auto simp: registry_validate_def check_simps list_all_iff)

lemma profile_operations: "profile_ok p \<Longrightarrow> kpc_operations p = ALL_OPERATIONS"
  using full_list [OF _ _ all_operations] by (simp add: profile_ok_def)

lemma definition_phases:
  assumes "kc_definition_validate f = Inr ()"
  shows "map kd_id (kf_phases f) = KC_ALL" "map kd_ordinal (kf_phases f) = [1..<13]"
proof -
  have ph: "length (kf_phases f) = 12" "i < 12 \<Longrightarrow> kc_phase_ok f i (kf_phases f ! i)" for i
    using assms by (auto simp: kc_definition_validate_def check_simps)
  then show "map kd_id (kf_phases f) = KC_ALL"
    by (intro nth_equalityI) (auto simp: kc_phase_ok_def Let_def)
  show "map kd_ordinal (kf_phases f) = [1..<13]"
    using ph KC_ALL_nth by (intro nth_equalityI) (auto simp: kc_phase_ok_def Let_def simp del: upt_Suc upt_conv_Cons)
qed

lemma phase_ids_distinct: "kc_definition_validate f = Inr () \<Longrightarrow> distinct (map kd_id (kf_phases f))"
  by (simp add: definition_phases KC_ALL_def)

lemma phase_defined:
  assumes "kc_definition_validate f = Inr ()"
  shows "\<exists>ph\<in>set (kf_phases f). kd_id ph = p"
proof -
  have "p \<in> set KC_ALL" by (cases p) (simp_all add: KC_ALL_def)
  then show ?thesis using definition_phases(1) [OF assms] by (metis image_iff set_map)
qed

lemma phase_definition_ordinal:
  assumes "kc_definition_validate f = Inr ()" "ph \<in> set (kf_phases f)"
  shows "kd_ordinal ph = kc_ordinal (kd_id ph)"
  using assms by (auto simp: kc_definition_validate_def check_simps in_set_conv_nth kc_phase_ok_def Let_def)

end
