(* ===== verification/KnowledgeChanges.thy ===== *)
theory KnowledgeChanges
  imports KnowledgeChangeTypes KnowledgeRegistry "HOL-Library.Multiset"
begin

text \<open>
  The requests of a knowledge change and when they are accepted: \<^verbatim>\<open>knowledge_operation_validation.rs\<close>,
  \<^verbatim>\<open>knowledge_phase_validation.rs\<close> and the beginning of a change in \<^verbatim>\<open>knowledge_change_validation.rs\<close>, with the
  order in which the storage adapter applies the operations of a changeset
  (\<^verbatim>\<open>postgres/src/knowledge_lifecycle/commit/guard.rs\<close>). The length of a phase output as JSON is a parameter.
\<close>

record change_env =
  cz_document :: document_env
  cz_json_length :: "agent_output \<Rightarrow> nat option"

definition accept_if :: "bool \<Rightarrow> unit result" where
  "accept_if ok = refuse_if (\<not> ok) InvalidArguments"

lemma accept_if_Inr [check_simps]: "accept_if ok = Inr u \<longleftrightarrow> ok"
  by (simp add: accept_if_def check_simps)

lemma accept_if_True [simp]: "accept_if True = Inr ()"
  by (simp add: accept_if_def)

section \<open>Beginning a change\<close>

fun owner_ok :: "change_owner \<Rightarrow> bool" where
  "owner_ok OwnerWorkspace \<longleftrightarrow> True"
| "owner_ok (OwnerPromotionSlice scope i revision) \<longleftrightarrow> \<not> is_nil scope \<and> \<not> is_nil i \<and> 1 \<le> revision"

definition hint_ok :: "operation_hint \<Rightarrow> bool" where
  "hint_ok h \<longleftrightarrow> bounded_nonblank (koh_client_label h) 128 \<and> bounded_nonblank (koh_reason h) 4096 \<and>
     bounded_nonblank (koh_authority_basis h) 4096 \<and> list_all (\<lambda>l. bounded_nonblank l 128) (koh_depends_on_labels h) \<and>
     (if koh_operation h = OpCreate
      then koh_unit_id h = None \<and> koh_expected_revision h = None \<and> koh_expected_lifecycle h = None
      else (case koh_unit_id h of None \<Rightarrow> False | Some i \<Rightarrow> \<not> is_nil i) \<and>
        (case koh_expected_revision h of None \<Rightarrow> False | Some r \<Rightarrow> 1 \<le> r) \<and> koh_expected_lifecycle h \<noteq> None)"

definition kc_begin_validate :: "begin_change \<Rightarrow> unit result" where
  "kc_begin_validate b = (let hints = kbk_operation_hints b; labels = map koh_client_label hints in checks
     [accept_if (\<not> is_nil (kbk_request_id b) \<and> bounded_nonblank (kbk_intent b) DK2_MAX_SOURCE_BYTES \<and>
        bounded_nonblank (kbk_desired_outcome b) 4096 \<and> length (kbk_sources b) \<le> DK2_MAX_LIST_ITEMS \<and> hints \<noteq> [] \<and>
        length hints \<le> DK2_MAX_OPERATIONS),
      accept_if (owner_ok (kbk_owner b)), each source_validate (kbk_sources b),
      each_idx (\<lambda>i h. accept_if (\<not> seen_before koh_client_label hints i h \<and> hint_ok h)) hints,
      accept_if (\<not> list_ex (\<lambda>h. list_ex (\<lambda>l. l = koh_client_label h \<or> l \<notin> set labels) (koh_depends_on_labels h)) hints),
      accept_if (list_ex (\<lambda>h. koh_operation h = OpErase) hints \<longleftrightarrow>
        kcr_erasure (kbk_completion b) \<noteq> ErasureNotRequired)])"

section \<open>Planned operations\<close>

definition revalidation_validate :: "revalidation_draft \<Rightarrow> unit result" where
  "revalidation_validate r = checks
     [accept_if (krv_sources r \<noteq> [] \<and> length (krv_sources r) \<le> DK2_MAX_LIST_ITEMS \<and>
        bounded_nonblank (krv_evidence_basis r) DK2_MAX_SOURCE_BYTES \<and> opt_all timestamp (krv_valid_until r) \<and>
        opt_all timestamp (krv_review_due_at r)),
      each source_validate (krv_sources r)]"

definition qualification_validate :: "plan_qualification \<Rightarrow> unit result" where
  "qualification_validate q = (let ops = kpq_operations q in accept_if
     (ops \<noteq> [] \<and> length ops \<le> DK2_MAX_OPERATIONS \<and>
      list_all (\<lambda>x. \<not> is_nil (koq_operation_id x) \<and> bounded_nonblank (koq_classification_basis x) 4096 \<and>
        ProfileGeneral \<in> set (koq_profiles x) \<and> ascending (koq_profiles x)) ops \<and>
      card (set (map koq_operation_id ops)) = length ops))"

definition operation_bindings :: "planned_operation \<Rightarrow> document_binding list" where
  "operation_bindings x = (case kpn_document x of None \<Rightarrow> kpn_replacement_bindings x | Some d \<Rightarrow> kdd_bindings d)"

fun slice_phase_of :: "binding_target \<Rightarrow> str option" where
  "slice_phase_of (BindSlicePhase s i phase) = Some phase"
| "slice_phase_of _ = None"

definition slice_phase_indexes :: "document_binding list \<Rightarrow> nat list" where
  "slice_phase_indexes bs = map fst (filter (\<lambda>(i, b). slice_phase_of (kdb_target b) \<noteq> None) (List.enumerate 0 bs))"

definition pin_ok :: "document_binding list \<Rightarrow> binding_pin \<Rightarrow> bool" where
  "pin_ok bs p \<longleftrightarrow> \<not> blank (kbp_definition_version p) \<and> \<not> blank (kbp_definition_digest p) \<and> \<not> blank (kbp_phase_id p) \<and>
     kbp_binding_index p < length bs \<and> slice_phase_of (kdb_target (bs ! kbp_binding_index p)) = Some (kbp_phase_id p)"

definition pins_ok :: "bool \<Rightarrow> planned_operation \<Rightarrow> bool" where
  "pins_ok resolved x \<longleftrightarrow> (let bs = operation_bindings x; indexes = map kbp_binding_index (kpn_binding_pins x) in
     ascending indexes \<and> (if resolved then indexes = slice_phase_indexes bs else kpn_binding_pins x = []) \<and>
     list_all (pin_ok bs) (kpn_binding_pins x))"

text \<open>What each operation carries: \<^verbatim>\<open>match self.operation\<close>\<close>

definition targets_accepted :: "planned_operation \<Rightarrow> bool" where
  "targets_accepted x \<longleftrightarrow> (case kpn_expected_revision x of None \<Rightarrow> False | Some r \<Rightarrow> 1 \<le> r) \<and>
     kpn_expected_lifecycle x \<noteq> None"

definition operation_shape :: "planned_operation \<Rightarrow> bool" where
  "operation_shape x \<longleftrightarrow> (case kpn_operation x of
       OpCreate \<Rightarrow> kpn_expected_revision x = None \<and> kpn_expected_lifecycle x = None \<and> kpn_document x \<noteq> None \<and>
         kpn_revalidation x = None \<and> kpn_successor x = None
     | OpRevise \<Rightarrow> targets_accepted x \<and> kpn_document x \<noteq> None \<and> kpn_revalidation x = None \<and> kpn_successor x = None
     | OpRevalidate \<Rightarrow> targets_accepted x \<and> kpn_document x = None \<and> kpn_revalidation x \<noteq> None \<and> kpn_successor x = None
     | OpSupersede \<Rightarrow> targets_accepted x \<and> kpn_successor x \<noteq> None \<and> kpn_revalidation x = None \<and>
         kpn_replacement_bindings x \<noteq> []
     | _ \<Rightarrow> targets_accepted x \<and> kpn_document x = None \<and> kpn_revalidation x = None \<and> kpn_successor x = None)"

definition successor_ok :: "planned_operation \<Rightarrow> successor_ref \<Rightarrow> bool" where
  "successor_ok x s \<longleftrightarrow> (case (ksu_unit_id s, ksu_operation_id s) of
       (Some u, None) \<Rightarrow> \<not> is_nil u \<and> u \<noteq> kpn_unit_id x
     | (None, Some i) \<Rightarrow> \<not> is_nil i \<and> i \<noteq> kpn_operation_id x
     | _ \<Rightarrow> False)"

definition operation_validate :: "document_env \<Rightarrow> bool \<Rightarrow> planned_operation \<Rightarrow> unit result" where
  "operation_validate v resolved x = checks
     [accept_if (\<not> is_nil (kpn_operation_id x) \<and> \<not> is_nil (kpn_unit_id x) \<and> bounded_nonblank (kpn_client_label x) 128 \<and>
        bounded_nonblank (kpn_reason x) 4096 \<and> bounded_nonblank (kpn_authority_basis x) 4096 \<and>
        \<not> list_ex is_nil (kpn_dependency_operation_ids x) \<and>
        card (set (kpn_dependency_operation_ids x)) = length (kpn_dependency_operation_ids x) \<and>
        kpn_operation_id x \<notin> set (kpn_dependency_operation_ids x) \<and> pins_ok resolved x),
      accept_if (operation_shape x), each_opt (document_validate v) (kpn_document x),
      each_opt revalidation_validate (kpn_revalidation x),
      each_opt (\<lambda>s. accept_if (successor_ok x s)) (kpn_successor x),
      each binding_validate (kpn_replacement_bindings x)]"

definition successor_operation :: "planned_operation \<Rightarrow> uuid option" where
  "successor_operation x = Option.bind (kpn_successor x) ksu_operation_id"

definition changeset_validate :: "document_env \<Rightarrow> bool \<Rightarrow> changeset \<Rightarrow> unit result" where
  "changeset_validate v resolved c = (let ops = kcs_operations c; ids = set (map kpn_operation_id ops) in checks
     [accept_if (1 \<le> kcs_revision c \<and> ops \<noteq> [] \<and> length ops \<le> DK2_MAX_OPERATIONS \<and>
        bounded_nonblank (kcs_semantic_diff c) DK2_MAX_SOURCE_BYTES \<and> bounded_nonblank (kcs_evidence_digest c) 256 \<and>
        (kcs_digest c = [] \<or> bounded_nonblank (kcs_digest c) 256)),
      each_idx (\<lambda>i x. checks [operation_validate v resolved x,
        accept_if (\<not> seen_before kpn_operation_id ops i x \<and> \<not> seen_before kpn_client_label ops i x)]) ops,
      accept_if (\<not> list_ex (\<lambda>x. list_ex (\<lambda>i. i \<notin> ids) (kpn_dependency_operation_ids x) \<or>
        (case successor_operation x of None \<Rightarrow> False | Some i \<Rightarrow> i \<notin> ids)) ops)])"

section \<open>What a phase writes\<close>

definition MAX_PHASE_OUTPUT_BYTES :: nat where "MAX_PHASE_OUTPUT_BYTES = 8 * 1024 * 1024"
definition MAX_IMPACT_ITEMS :: nat where "MAX_IMPACT_ITEMS = 4096"
definition MAX_OBLIGATION_RECEIPTS :: nat where "MAX_OBLIGATION_RECEIPTS = DK2_MAX_OPERATIONS * 64"

definition texts :: "str list \<Rightarrow> nat \<Rightarrow> nat \<Rightarrow> bool" where
  "texts xs max_items max_bytes \<longleftrightarrow> length xs \<le> max_items \<and> list_all (\<lambda>s. bounded_nonblank s max_bytes) xs"

definition impact_ok :: "impact_target list \<Rightarrow> bool" where
  "impact_ok xs \<longleftrightarrow> length xs \<le> MAX_IMPACT_ITEMS \<and> list_all (\<lambda>t. bounded_nonblank (kig_reference t) 4096 \<and>
     bounded_nonblank (kig_owner_ref t) 1024 \<and> bounded_nonblank (kig_effect t) 4096) xs"

definition baseline_ok :: "baseline_manifest \<Rightarrow> bool" where
  "baseline_ok b \<longleftrightarrow> length (kbm_targets b) \<le> DK2_MAX_OPERATIONS \<and> length (kbm_dependencies b) \<le> DK2_MAX_OPERATIONS \<and>
     length (kbm_identity_matches b) \<le> DK2_MAX_OPERATIONS \<and> texts (kbm_source_availability b) DK2_MAX_LIST_ITEMS 4096 \<and>
     texts (kbm_assessment_conflicts b) DK2_MAX_LIST_ITEMS 4096 \<and> texts (kbm_assessment_gaps b) DK2_MAX_LIST_ITEMS 4096 \<and>
     texts (kbm_conflicts b) DK2_MAX_LIST_ITEMS 4096 \<and> texts (kbm_missing_context b) DK2_MAX_LIST_ITEMS 4096 \<and>
     (kbm_digest b = [] \<or> bounded_nonblank (kbm_digest b) 256) \<and>
     list_all (\<lambda>g. \<not> is_nil (krg_unit_id g) \<and> 1 \<le> krg_revision g \<and> bounded_nonblank (krg_rdf_digest g) 256 \<and>
       bounded_nonblank (krg_unit_iri g) 4096 \<and> bounded_nonblank (krg_revision_iri g) 4096)
       (kbm_targets b @ kbm_dependencies b) \<and>
     list_all (\<lambda>m. bounded_nonblank (kim_client_label m) 128 \<and> \<not> is_nil (kim_unit_id m) \<and> 1 \<le> kim_revision m \<and>
       bounded_nonblank (kim_basis m) 4096) (kbm_identity_matches b)"

definition evidence_manifest_ok :: "evidence_manifest \<Rightarrow> bool" where
  "evidence_manifest_ok e \<longleftrightarrow> length (kem_claims e) \<le> DK2_MAX_OPERATIONS \<and> length (kem_source_pins e) \<le> DK2_MAX_LIST_ITEMS \<and>
     texts (kem_unresolved_gaps e) DK2_MAX_LIST_ITEMS 4096 \<and> bounded_nonblank (kem_source_pin_digest e) 256 \<and>
     list_all (\<lambda>c. \<not> is_nil (kec_operation_id c) \<and> bounded_nonblank (kec_claim c) DK2_MAX_SOURCE_BYTES \<and>
       length (kec_source_indexes c) \<le> DK2_MAX_LIST_ITEMS \<and>
       list_all (\<lambda>i. i < length (kem_source_pins e)) (kec_source_indexes c) \<and>
       card (set (kec_source_indexes c)) = length (kec_source_indexes c) \<and>
       texts (kec_assumptions c) DK2_MAX_LIST_ITEMS 4096 \<and> texts (kec_gaps c) DK2_MAX_LIST_ITEMS 4096) (kem_claims e) \<and>
     list_all (\<lambda>(i, p). ksp_source_index p = i \<and> bounded_nonblank (ksp_digest p) 256 \<and>
       bounded_nonblank (ksp_evidence_scope p) 4096 \<and> bounded_nonblank (ksp_source_iri p) 4096 \<and>
       opt_all timestamp (ksp_observed_at p)) (List.enumerate 0 (kem_source_pins e))"

definition receipts_ok :: "obligation_receipts \<Rightarrow> bool" where
  "receipts_ok r \<longleftrightarrow> length (kol_receipts r) \<le> MAX_OBLIGATION_RECEIPTS \<and>
     texts (kol_unresolved_obligation_ids r) MAX_OBLIGATION_RECEIPTS 256 \<and>
     list_all (\<lambda>x. \<not> is_nil (kor_operation_id x) \<and> bounded_nonblank (kor_obligation_id x) 256 \<and>
       bounded_nonblank (kor_reason x) 4096 \<and> bounded_nonblank (kor_changeset_digest x) 256 \<and>
       length (kor_method_reads x) \<le> DK2_MAX_LIST_ITEMS \<and> texts (kor_input_digests x) DK2_MAX_LIST_ITEMS 256 \<and>
       opt_all (\<lambda>i. \<not> is_nil i) (kor_reused_receipt_id x)) (kol_receipts r)"

definition impact_plan_ok :: "impact_plan \<Rightarrow> bool" where
  "impact_plan_ok p \<longleftrightarrow> texts (kip_synchronous_changes p) MAX_IMPACT_ITEMS 4096 \<and> impact_ok (kip_affected_contexts p) \<and>
     impact_ok (kip_derivations p) \<and> impact_ok (kip_owned_copies p) \<and> impact_ok (kip_followups p) \<and>
     texts (kip_blocking_conflicts p) MAX_IMPACT_ITEMS 4096 \<and>
     (kip_digest p = [] \<or> bounded_nonblank (kip_digest p) 256)"

definition review_ok :: "review_receipt \<Rightarrow> bool" where
  "review_ok r \<longleftrightarrow> texts (krr_reviewed_digests r) DK2_MAX_LIST_ITEMS 256 \<and>
     length (krr_covered_operation_ids r) \<le> DK2_MAX_OPERATIONS \<and>
     texts (krr_covered_obligation_ids r) MAX_OBLIGATION_RECEIPTS 256 \<and>
     length (krr_findings r) \<le> DK2_MAX_LIST_ITEMS \<and>
     card (set (map krf_id (krr_findings r))) = length (krr_findings r) \<and>
     bounded_nonblank (krr_summary r) DK2_MAX_SOURCE_BYTES \<and>
     list_all (\<lambda>f. bounded_nonblank (krf_id f) 256 \<and> bounded_nonblank (krf_summary f) 4096 \<and>
       bounded_nonblank (krf_owner_ref f) 1024 \<and> opt_all (\<lambda>d. bounded_nonblank d 256) (krf_closure_output_digest f) \<and>
       (krf_closed f \<longleftrightarrow> krf_closure_output_digest f \<noteq> None)) (krr_findings r)"

fun data_ok :: "document_env \<Rightarrow> bool \<Rightarrow> agent_data \<Rightarrow> bool" where
  "data_ok v resolved (DataKcIntake i) \<longleftrightarrow> bounded_nonblank (kit_bounded_outcome i) DK2_MAX_SOURCE_BYTES \<and>
     length (kit_operation_hints i) \<le> DK2_MAX_OPERATIONS \<and> bounded_nonblank (kit_authority_boundary i) 4096"
| "data_ok v resolved (DataKcResolveBaseline b) \<longleftrightarrow> baseline_ok b"
| "data_ok v resolved (DataKcQualifyPlan q) \<longleftrightarrow> is_ok (qualification_validate q)"
| "data_ok v resolved (DataKcQualifyEvidence e) \<longleftrightarrow> evidence_manifest_ok e"
| "data_ok v resolved (DataKcPrepareChange c) \<longleftrightarrow> is_ok (changeset_validate v resolved c)"
| "data_ok v resolved (DataKcDomainChecks r) \<longleftrightarrow> receipts_ok r"
| "data_ok v resolved (DataKcImpactPlan p) \<longleftrightarrow> impact_plan_ok p"
| "data_ok v resolved (DataKcReviewReconcile r) \<longleftrightarrow> review_ok r"
| "data_ok v resolved (DataKcResultHandoff r) \<longleftrightarrow> bounded_nonblank (kch_summary r) DK2_MAX_SOURCE_BYTES \<and>
     texts (kch_remaining_work r) DK2_MAX_LIST_ITEMS 4096 \<and> length (kch_effects r) \<le> DK2_MAX_LIST_ITEMS"

definition output_within :: "agent_output \<Rightarrow> bool" where
  "output_within out \<longleftrightarrow> length (kao_consumed_outputs out) \<le> DK2_MAX_LIST_ITEMS \<and>
     length (kao_consumed_inputs out) \<le> DK2_MAX_LIST_ITEMS \<and>
     length (kao_baseline_guards out) \<le> DK2_MAX_OPERATIONS * 2 \<and> texts (kao_source_digests out) DK2_MAX_LIST_ITEMS 256 \<and>
     length (kao_method_reads out) \<le> DK2_MAX_LIST_ITEMS \<and> length (kao_findings out) \<le> DK2_MAX_LIST_ITEMS \<and>
     texts (kao_dispositions out) DK2_MAX_LIST_ITEMS 4096 \<and>
     opt_all (\<lambda>r. bounded_nonblank r 4096) (kao_phasewise_reason out) \<and> 0 \<le> kao_plan_revision out \<and>
     (kao_plan_digest out = [] \<or> bounded_nonblank (kao_plan_digest out) 256)"

definition output_validate :: "change_env \<Rightarrow> bool \<Rightarrow> agent_output \<Rightarrow> unit result" where
  "output_validate v resolved out =
     andThen (ok_or (cz_json_length v out) InvalidArguments) (\<lambda>n. checks
       [refuse_if (MAX_PHASE_OUTPUT_BYTES < n \<or> \<not> output_within out) CapacityExceeded,
        accept_if (data_ok (cz_document v) resolved (kao_data out))])"

section \<open>Requests\<close>

fun data_phase :: "agent_data \<Rightarrow> kc_phase" where
  "data_phase (DataKcIntake _) = KcIntake"
| "data_phase (DataKcResolveBaseline _) = KcResolveBaseline"
| "data_phase (DataKcQualifyPlan _) = KcQualifyPlan"
| "data_phase (DataKcQualifyEvidence _) = KcQualifyEvidence"
| "data_phase (DataKcPrepareChange _) = KcPrepareChange"
| "data_phase (DataKcDomainChecks _) = KcDomainChecks"
| "data_phase (DataKcImpactPlan _) = KcImpactPlan"
| "data_phase (DataKcReviewReconcile _) = KcReviewReconcile"
| "data_phase (DataKcResultHandoff _) = KcResultHandoff"

definition output_matches :: "kc_complete \<Rightarrow> agent_output \<Rightarrow> bool" where
  "output_matches x out \<longleftrightarrow> kao_phase_id out = kx_phase_id x \<and> kao_expected_run_revision out = kx_run_revision x \<and>
     bounded_nonblank (kao_body out) DK2_MAX_SOURCE_BYTES \<and> bounded_nonblank (kao_verdict out) 256 \<and>
     kao_method_reads out \<noteq> [] \<and> data_phase (kao_data out) = kx_phase_id x"

definition kc_complete_validate :: "change_env \<Rightarrow> bool \<Rightarrow> kc_complete \<Rightarrow> unit result" where
  "kc_complete_validate v resolved x = checks
     [accept_if (\<not> is_nil (kx_request_id x) \<and> \<not> is_nil (kx_change_id x) \<and> \<not> is_nil (kx_run_id x) \<and>
        1 \<le> kx_run_revision x \<and> kx_phase_id x \<noteq> KcCommit \<and>
        (kc_agent_authored (kx_phase_id x) \<longleftrightarrow> kx_output x \<noteq> None)),
      accept_if (opt_all (output_matches x) (kx_output x)), each_opt (output_validate v resolved) (kx_output x)]"

definition request_identity :: "uuid \<Rightarrow> uuid \<Rightarrow> uuid \<Rightarrow> int \<Rightarrow> unit result" where
  "request_identity request change run revision =
     accept_if (\<not> is_nil request \<and> \<not> is_nil change \<and> \<not> is_nil run \<and> 1 \<le> revision)"

definition target_update_ok :: "target_update \<Rightarrow> bool" where
  "target_update_ok u \<longleftrightarrow> (let g = ktu_replacement_guard u in \<not> is_nil (ktu_operation_id u) \<and>
     1 \<le> ktu_previous_expected_revision u \<and> \<not> is_nil (krg_unit_id g) \<and> 1 \<le> krg_revision g \<and>
     bounded_nonblank (krg_rdf_digest g) 256 \<and> iri (krg_unit_iri g) \<and> iri (krg_revision_iri g))"

definition amendment_validate :: "basis_amendment \<Rightarrow> unit result" where
  "amendment_validate a = (let us = ktu_operation_id ` set (kba_target_updates a) in checks
     [accept_if (length (kba_target_updates a) \<le> DK2_MAX_OPERATIONS \<and>
        \<not> (kba_target_updates a = [] \<and> kba_replacement_sources a = None) \<and>
        card us = length (kba_target_updates a) \<and> list_all target_update_ok (kba_target_updates a)),
      each_opt (\<lambda>ss. checks [refuse_if (DK2_MAX_LIST_ITEMS < length ss) CapacityExceeded, each source_validate ss])
        (kba_replacement_sources a)])"

definition kc_input_validate :: "kc_input \<Rightarrow> unit result" where
  "kc_input_validate x = checks
     [request_identity (ki_request_id x) (ki_change_id x) (ki_run_id x) (ki_run_revision x),
      accept_if (bounded_nonblank (ki_reason x) 4096 \<and> bounded_nonblank (ki_input x) DK2_MAX_SOURCE_BYTES),
      each_opt amendment_validate (ki_basis_amendment x)]"

definition kc_commit_validate :: "kc_commit \<Rightarrow> unit result" where
  "kc_commit_validate x = checks
     [request_identity (km_request_id x) (km_change_id x) (km_run_id x) (km_run_revision x),
      accept_if (\<not> is_nil (km_seal_id x) \<and> 1 \<le> km_plan_revision x \<and> bounded_nonblank (km_plan_digest x) 256 \<and>
        bounded_nonblank (km_sealed_command_digest x) 256)]"

definition kc_settle_validate :: "kc_settle \<Rightarrow> unit result" where
  "kc_settle_validate x = checks
     [request_identity (kt_request_id x) (kt_change_id x) (kt_run_id x) (kt_run_revision x),
      accept_if (\<not> is_nil (kt_publisher_receipt_id x) \<and> \<not> list_ex is_nil (kt_effect_ids x) \<and>
        card (set (kt_effect_ids x)) = length (kt_effect_ids x))]"

definition fragment_validate :: "fragment_query \<Rightarrow> unit result" where
  "fragment_validate q = accept_if (1 \<le> kfq_limit q \<and> kfq_limit q \<le> 262144 \<and>
     opt_all (\<lambda>d. bounded_nonblank d 256) (kfq_snapshot_digest q) \<and>
     (kfq_offset q = 0 \<or> kfq_snapshot_digest q \<noteq> None))"

definition lifecycle_query_validate :: "lifecycle_query \<Rightarrow> unit result" where
  "lifecycle_query_validate q = checks [accept_if (opt_all (\<lambda>f. is_ok (fragment_validate f)) (klq_fragment q)),
     accept_if (case (klq_change_id q, klq_view q, klq_output_id q, klq_digest q) of
       (None, ViewCurrent, None, None) \<Rightarrow> True
     | (Some i, ViewCurrent, None, None) \<Rightarrow> \<not> is_nil i
     | (Some i, ViewHistory, None, None) \<Rightarrow> \<not> is_nil i
     | (Some i, ViewOutput, Some written, Some digest) \<Rightarrow> \<not> is_nil i \<and> \<not> is_nil written \<and> bounded_nonblank digest 256
     | _ \<Rightarrow> False)]"

definition unit_query_validate :: "unit_query \<Rightarrow> unit result" where
  "unit_query_validate q = accept_if (\<not> is_nil (kuq_unit_id q) \<and> opt_all (\<lambda>r. 1 \<le> r) (kuq_revision q) \<and>
     opt_all (\<lambda>f. is_ok (fragment_validate f)) (kuq_fragment q))"

section \<open>The order of application\<close>

definition depends_within :: "uuid set \<Rightarrow> planned_operation \<Rightarrow> bool" where
  "depends_within done_ids x \<longleftrightarrow> set (kpn_dependency_operation_ids x) \<subseteq> done_ids"

text \<open>
  The loop of \<^verbatim>\<open>topo\<close>: the first operation whose dependencies are complete is removed and appended
  (\<^verbatim>\<open>values.remove(index)\<close>), until none is left.
\<close>

function topo_loop ::
    "planned_operation list \<Rightarrow> uuid set \<Rightarrow> planned_operation list \<Rightarrow> planned_operation list result" where
  "topo_loop vs complete ordered =
     (if vs = [] then Inr ordered
      else case position (depends_within complete) vs of
          None \<Rightarrow> Inl InvalidArguments
        | Some i \<Rightarrow> topo_loop (take i vs @ drop (Suc i) vs) (insert (kpn_operation_id (vs ! i)) complete)
            (ordered @ [vs ! i]))"
  by pat_completeness auto
termination
  by (relation "measure (\<lambda>(vs, complete, ordered). length vs)") (auto dest: position_Some)

definition topo :: "planned_operation list \<Rightarrow> planned_operation list result" where
  "topo vs = (let ids = set (map kpn_operation_id vs) in
     if list_ex (\<lambda>x. list_ex (\<lambda>i. i \<notin> ids) (kpn_dependency_operation_ids x)) vs then Inl InvalidArguments
     else topo_loop vs {} [])"

declare topo_loop.simps [simp del]

section \<open>Facts\<close>

lemma is_ok_Inr [check_simps]: "is_ok (r :: unit result) \<longleftrightarrow> r = Inr ()"
  by (simp add: is_ok_unit)

lemma each_opt_opt_all: "each_opt f x = Inr u \<longleftrightarrow> opt_all (\<lambda>v. f v = Inr ()) x"
  by (cases x) simp_all

subsection \<open>Accepted changesets\<close>

definition changeset_wf :: "planned_operation list \<Rightarrow> bool" where
  "changeset_wf ops \<longleftrightarrow> distinct (map kpn_operation_id ops) \<and> distinct (map kpn_client_label ops) \<and>
     list_all (\<lambda>x. operation_shape x \<and> distinct (kpn_dependency_operation_ids x) \<and>
       set (kpn_dependency_operation_ids x) \<subseteq> set (map kpn_operation_id ops) - {kpn_operation_id x} \<and>
       opt_all (\<lambda>i. i \<in> set (map kpn_operation_id ops) \<and> i \<noteq> kpn_operation_id x) (successor_operation x)) ops"

lemma operation_validate_Inr:
  "operation_validate v resolved x = Inr u \<longleftrightarrow> \<not> is_nil (kpn_operation_id x) \<and> \<not> is_nil (kpn_unit_id x) \<and>
     bounded_nonblank (kpn_client_label x) 128 \<and> bounded_nonblank (kpn_reason x) 4096 \<and>
     bounded_nonblank (kpn_authority_basis x) 4096 \<and> \<not> list_ex is_nil (kpn_dependency_operation_ids x) \<and>
     distinct (kpn_dependency_operation_ids x) \<and> kpn_operation_id x \<notin> set (kpn_dependency_operation_ids x) \<and>
     pins_ok resolved x \<and> operation_shape x \<and> opt_all (\<lambda>d. document_validate v d = Inr ()) (kpn_document x) \<and>
     opt_all (\<lambda>r. revalidation_validate r = Inr ()) (kpn_revalidation x) \<and>
     opt_all (successor_ok x) (kpn_successor x) \<and>
     list_all (\<lambda>b. binding_validate b = Inr ()) (kpn_replacement_bindings x)"
  unfolding operation_validate_def checks_Inr_Cons accept_if_Inr each_opt_opt_all each_Inr list_all_iff card_set_length
  by simp

lemma references_known:
  "\<not> list_ex (\<lambda>x. list_ex (\<lambda>i. i \<notin> ids) (kpn_dependency_operation_ids x) \<or>
     (case successor_operation x of None \<Rightarrow> False | Some i \<Rightarrow> i \<notin> ids)) ops \<longleftrightarrow>
   (\<forall>x\<in>set ops. set (kpn_dependency_operation_ids x) \<subseteq> ids \<and> opt_all (\<lambda>i. i \<in> ids) (successor_operation x))"
  by (simp add: list_ex_iff opt_all_def subset_iff split: option.split) blast

lemma changeset_validate_Inr:
  "changeset_validate v resolved c = Inr u \<longleftrightarrow> (let ops = kcs_operations c; ids = set (map kpn_operation_id ops) in
     1 \<le> kcs_revision c \<and> ops \<noteq> [] \<and> length ops \<le> DK2_MAX_OPERATIONS \<and>
     bounded_nonblank (kcs_semantic_diff c) DK2_MAX_SOURCE_BYTES \<and> bounded_nonblank (kcs_evidence_digest c) 256 \<and>
     (kcs_digest c = [] \<or> bounded_nonblank (kcs_digest c) 256) \<and>
     (\<forall>x\<in>set ops. operation_validate v resolved x = Inr ()) \<and> distinct (map kpn_operation_id ops) \<and>
     distinct (map kpn_client_label ops) \<and>
     (\<forall>x\<in>set ops. set (kpn_dependency_operation_ids x) \<subseteq> ids \<and> opt_all (\<lambda>i. i \<in> ids) (successor_operation x)))"
  unfolding changeset_validate_def Let_def checks_Inr_Cons accept_if_Inr each_idx_Inr seen_before_distinct [symmetric]
    all_set_conv_all_nth [of "kcs_operations c" "\<lambda>x. operation_validate v resolved x = Inr ()"] references_known
  by auto

lemma successor_not_self:
  "operation_validate v resolved x = Inr () \<Longrightarrow> opt_all (\<lambda>i. i \<noteq> kpn_operation_id x) (successor_operation x)"
  by (cases "kpn_successor x")
    (auto simp: operation_validate_Inr successor_operation_def successor_ok_def split: option.splits)

lemma changeset_validate_wf:
  assumes "changeset_validate v resolved c = Inr ()"
  shows "changeset_wf (kcs_operations c)"
proof -
  let ?ops = "kcs_operations c"
  have ops: "operation_validate v resolved x = Inr ()" "set (kpn_dependency_operation_ids x) \<subseteq> set (map kpn_operation_id ?ops)"
    "opt_all (\<lambda>i. i \<in> set (map kpn_operation_id ?ops)) (successor_operation x)" if "x \<in> set ?ops" for x
    using assms that by (simp_all add: changeset_validate_Inr Let_def)
  have "operation_shape x \<and> distinct (kpn_dependency_operation_ids x) \<and>
      set (kpn_dependency_operation_ids x) \<subseteq> set (map kpn_operation_id ?ops) - {kpn_operation_id x} \<and>
      opt_all (\<lambda>i. i \<in> set (map kpn_operation_id ?ops) \<and> i \<noteq> kpn_operation_id x) (successor_operation x)"
    if "x \<in> set ?ops" for x
    using ops [OF that] successor_not_self [OF ops(1) [OF that]]
    by (cases "successor_operation x") (auto simp: operation_validate_Inr)
  then show ?thesis using assms by (simp add: changeset_validate_Inr changeset_wf_def Let_def list_all_iff)
qed

subsection \<open>The order of application\<close>

fun deps_met :: "uuid set \<Rightarrow> planned_operation list \<Rightarrow> bool" where
  "deps_met done_ids [] = True"
| "deps_met done_ids (x # xs) \<longleftrightarrow> depends_within done_ids x \<and> deps_met (insert (kpn_operation_id x) done_ids) xs"

lemma deps_met_append:
  "deps_met done_ids (xs @ ys) \<longleftrightarrow> deps_met done_ids xs \<and> deps_met (done_ids \<union> kpn_operation_id ` set xs) ys"
  by (induction xs arbitrary: done_ids) simp_all

lemma mset_remove_at: "i < length vs \<Longrightarrow> mset (take i vs @ drop (Suc i) vs) + {#vs ! i#} = mset vs"
  by (metis id_take_nth_drop add.assoc add.commute mset.simps(2) mset_append add_mset_add_single)

lemma topo_loop_sound:
  assumes "topo_loop vs complete ordered = Inr ys" "deps_met {} ordered" "complete = kpn_operation_id ` set ordered"
  shows "mset ys = mset ordered + mset vs \<and> deps_met {} ys"
  using assms
proof (induction vs complete ordered rule: topo_loop.induct)
  case (1 vs complete ordered)
  show ?case
  proof (cases "vs = []")
    case True
    with "1.prems" show ?thesis by (simp add: topo_loop.simps)
  next
    case False
    with "1.prems"(1) obtain i where i: "position (depends_within complete) vs = Some i"
      and rest: "topo_loop (take i vs @ drop (Suc i) vs) (insert (kpn_operation_id (vs ! i)) complete)
        (ordered @ [vs ! i]) = Inr ys"
      by (subst (asm) topo_loop.simps) (auto split: option.splits)
    note at = position_Some [OF i]
    have "deps_met {} (ordered @ [vs ! i])" using "1.prems"(2,3) at by (simp add: deps_met_append)
    then have "mset ys = mset (ordered @ [vs ! i]) + mset (take i vs @ drop (Suc i) vs) \<and> deps_met {} ys"
      using "1.IH" [OF False i rest] "1.prems"(3) by simp
    then show ?thesis using mset_remove_at [of i vs] at by simp
  qed
qed

text \<open>The graph of the dependencies.\<close>

definition dependency :: "planned_operation list \<Rightarrow> (uuid \<times> uuid) set" where
  "dependency ops = {(i, kpn_operation_id x) |i x. x \<in> set ops \<and> i \<in> set (kpn_dependency_operation_ids x)}"

lemma dependency_mono: "set vs \<subseteq> set ws \<Longrightarrow> dependency vs \<subseteq> dependency ws"
  by (auto simp: dependency_def)

lemma finite_dependency: "finite (dependency ops)"
proof -
  have "dependency ops \<subseteq> (\<Union>x\<in>set ops. set (kpn_dependency_operation_ids x)) \<times> kpn_operation_id ` set ops"
    by (auto simp: dependency_def)
  then show ?thesis by (rule finite_subset) simp
qed

lemma ready_operation:
  assumes "acyclic (dependency vs)" "vs \<noteq> []"
    "\<And>x. x \<in> set vs \<Longrightarrow> set (kpn_dependency_operation_ids x) \<subseteq> complete \<union> kpn_operation_id ` set vs"
  shows "\<exists>x\<in>set vs. depends_within complete x"
proof -
  have "wf (dependency vs)" using assms(1) finite_dependency by (simp add: finite_acyclic_wf)
  moreover obtain k where "k \<in> kpn_operation_id ` set vs" using assms(2) by (cases vs) auto
  ultimately obtain m where m: "m \<in> kpn_operation_id ` set vs"
    "\<And>i. (i, m) \<in> dependency vs \<Longrightarrow> i \<notin> kpn_operation_id ` set vs"
    by (rule wfE_min) blast
  then obtain x where x: "x \<in> set vs" "kpn_operation_id x = m" by blast
  have "i \<in> complete" if "i \<in> set (kpn_dependency_operation_ids x)" for i
    using m(2) [of i] x that assms(3) [OF x(1)] by (auto simp: dependency_def)
  with x(1) show ?thesis by (auto simp: depends_within_def)
qed

lemma set_remove_at: "i < length vs \<Longrightarrow> set vs = insert (vs ! i) (set (take i vs @ drop (Suc i) vs))"
  by (metis id_take_nth_drop list.simps(15) set_append Un_insert_right)

lemma topo_loop_complete:
  assumes "acyclic (dependency vs)"
    "\<And>x. x \<in> set vs \<Longrightarrow> set (kpn_dependency_operation_ids x) \<subseteq> complete \<union> kpn_operation_id ` set vs"
  shows "\<exists>ys. topo_loop vs complete ordered = Inr ys"
  using assms
proof (induction vs complete ordered rule: topo_loop.induct)
  case (1 vs complete ordered)
  show ?case
  proof (cases "vs = []")
    case True
    then show ?thesis by (simp add: topo_loop.simps)
  next
    case False
    have "\<exists>x\<in>set vs. depends_within complete x" by (rule ready_operation [OF "1.prems"(1) False "1.prems"(2)])
    then obtain i where i: "position (depends_within complete) vs = Some i"
      by (cases "position (depends_within complete) vs") auto
    let ?rest = "take i vs @ drop (Suc i) vs"
    have vs: "set vs = insert (vs ! i) (set ?rest)" using position_Some [OF i] by (intro set_remove_at) simp
    have "acyclic (dependency ?rest)"
      using "1.prems"(1) by (rule acyclic_subset) (intro dependency_mono, use vs in blast)
    moreover have "set (kpn_dependency_operation_ids x) \<subseteq>
        insert (kpn_operation_id (vs ! i)) complete \<union> kpn_operation_id ` set ?rest" if "x \<in> set ?rest" for x
      using "1.prems"(2) [of x] that vs by auto
    ultimately obtain ys where "topo_loop ?rest (insert (kpn_operation_id (vs ! i)) complete) (ordered @ [vs ! i]) = Inr ys"
      using "1.IH" [OF False i] by blast
    then show ?thesis using False i by (subst topo_loop.simps) simp
  qed
qed

text \<open>An order that meets every dependency has no cycle: an operation comes after those it depends on.\<close>

definition place :: "planned_operation list \<Rightarrow> uuid \<Rightarrow> nat" where
  "place ys i = (case position (\<lambda>x. kpn_operation_id x = i) ys of None \<Rightarrow> 0 | Some k \<Rightarrow> k)"

lemma place_nth: "distinct (map kpn_operation_id ys) \<Longrightarrow> k < length ys \<Longrightarrow> place ys (kpn_operation_id (ys ! k)) = k"
proof -
  assume "distinct (map kpn_operation_id ys)" and k: "k < length ys"
  then have only: "j = k" if "kpn_operation_id (ys ! j) = kpn_operation_id (ys ! k)" "j < length ys" for j
    using that by (metis length_map nth_eq_iff_index_eq nth_map)
  show ?thesis
  proof (cases "position (\<lambda>x. kpn_operation_id x = kpn_operation_id (ys ! k)) ys")
    case None
    then show ?thesis using k by auto
  next
    case (Some j)
    with position_Some [OF Some] only show ?thesis by (simp add: place_def)
  qed
qed

lemma deps_met_earlier:
  assumes "deps_met {} ys" "k < length ys" "i \<in> set (kpn_dependency_operation_ids (ys ! k))"
  shows "\<exists>j<k. kpn_operation_id (ys ! j) = i"
proof -
  have "deps_met {} (take k ys @ ys ! k # drop (Suc k) ys)" using assms(1,2) by (simp add: id_take_nth_drop [symmetric])
  then have "i \<in> kpn_operation_id ` set (take k ys)"
    using assms(3) by (auto simp: deps_met_append depends_within_def)
  then obtain x where "x \<in> set (take k ys)" "kpn_operation_id x = i" by blast
  then show ?thesis using assms(2) by (fastforce simp: in_set_conv_nth)
qed

lemma deps_met_acyclic:
  assumes "deps_met {} ys" "distinct (map kpn_operation_id ys)"
  shows "acyclic (dependency ys)"
proof -
  have "(i, m) \<in> measure (place ys)" if dep: "(i, m) \<in> dependency ys" for i m
  proof -
    obtain x where x: "x \<in> set ys" "m = kpn_operation_id x" "i \<in> set (kpn_dependency_operation_ids x)"
      using dep by (auto simp: dependency_def)
    then obtain k where k: "k < length ys" "m = kpn_operation_id (ys ! k)" "i \<in> set (kpn_dependency_operation_ids (ys ! k))"
      by (metis in_set_conv_nth)
    obtain j where "j < k" "i = kpn_operation_id (ys ! j)" using deps_met_earlier [OF assms(1) k(1,3)] by blast
    with k place_nth [OF assms(2)] show ?thesis by simp
  qed
  then have "dependency ys \<subseteq> measure (place ys)" by auto
  then show ?thesis using wf_acyclic wf_measure wf_subset by metis
qed

lemma dependency_cong: "set vs = set ws \<Longrightarrow> dependency vs = dependency ws"
  by (simp add: dependency_def)

lemma topo_sound:
  assumes "topo ops = Inr ys"
  shows "mset ys = mset ops" "deps_met {} ys" "\<forall>x\<in>set ops. set (kpn_dependency_operation_ids x) \<subseteq> kpn_operation_id ` set ops"
proof -
  have loop: "topo_loop ops {} [] = Inr ys"
    and closed: "\<not> list_ex (\<lambda>x. list_ex (\<lambda>i. i \<notin> set (map kpn_operation_id ops)) (kpn_dependency_operation_ids x)) ops"
    using assms by (simp_all add: topo_def Let_def split: if_splits)
  show "mset ys = mset ops" "deps_met {} ys" using topo_loop_sound [OF loop] by simp_all
  show "\<forall>x\<in>set ops. set (kpn_dependency_operation_ids x) \<subseteq> kpn_operation_id ` set ops"
    using closed by (auto simp: list_ex_iff)
qed

lemma topo_loop_refusal: "topo_loop vs complete ordered = Inl e \<Longrightarrow> e = InvalidArguments"
  by (induction vs complete ordered rule: topo_loop.induct)
    (subst (asm) (2) topo_loop.simps, auto split: if_splits option.splits)

lemma topo_refusal: "topo ops = Inl e \<Longrightarrow> e = InvalidArguments"
  by (auto simp: topo_def Let_def dest: topo_loop_refusal split: if_splits)

lemma topo_Inr_iff:
  assumes "distinct (map kpn_operation_id ops)"
  shows "(\<exists>ys. topo ops = Inr ys) \<longleftrightarrow> acyclic (dependency ops) \<and>
    (\<forall>x\<in>set ops. set (kpn_dependency_operation_ids x) \<subseteq> kpn_operation_id ` set ops)"
proof
  assume "\<exists>ys. topo ops = Inr ys"
  then obtain ys where ys: "topo ops = Inr ys" by blast
  note sound = topo_sound [OF ys]
  have "set ys = set ops" "distinct (map kpn_operation_id ys)"
    using sound(1) assms by (metis set_mset_mset, metis distinct_count_atmost_1 mset_map set_mset_mset)
  then show "acyclic (dependency ops) \<and> (\<forall>x\<in>set ops. set (kpn_dependency_operation_ids x) \<subseteq> kpn_operation_id ` set ops)"
    using deps_met_acyclic [OF sound(2)] dependency_cong sound(3) by metis
next
  assume ok: "acyclic (dependency ops) \<and> (\<forall>x\<in>set ops. set (kpn_dependency_operation_ids x) \<subseteq> kpn_operation_id ` set ops)"
  then have "\<not> list_ex (\<lambda>x. list_ex (\<lambda>i. i \<notin> set (map kpn_operation_id ops)) (kpn_dependency_operation_ids x)) ops"
    by (auto simp: list_ex_iff)
  moreover have "\<exists>ys. topo_loop ops {} [] = Inr ys" using ok by (intro topo_loop_complete) auto
  ultimately show "\<exists>ys. topo ops = Inr ys" by (simp add: topo_def)
qed

section \<open>Examples\<close>

definition example_create :: "uuid \<Rightarrow> str \<Rightarrow> uuid list \<Rightarrow> planned_operation" where
  "example_create i label deps = \<lparr>kpn_operation_id = i, kpn_unit_id = i, kpn_client_label = label,
     kpn_operation = OpCreate, kpn_expected_revision = None, kpn_expected_lifecycle = None,
     kpn_document = Some example_document, kpn_revalidation = None, kpn_successor = None, kpn_replacement_bindings = [],
     kpn_reason = ''r'', kpn_authority_basis = ''b'', kpn_dependency_operation_ids = deps, kpn_binding_pins = []\<rparr>"

definition example_changeset :: "uuid list \<Rightarrow> uuid list \<Rightarrow> changeset" where
  "example_changeset first_deps second_deps = \<lparr>kcs_revision = 1,
     kcs_operations = [example_create 1 ''x'' first_deps, example_create 2 ''y'' second_deps],
     kcs_semantic_diff = ''s'', kcs_evidence_digest = ''e'', kcs_digest = []\<rparr>"

lemma example_create_accepted:
  assumes "i \<noteq> 0" "is_ascii_graphic c" "distinct deps" "i \<notin> set deps" "0 \<notin> set deps"
  shows "operation_validate example_document_env False (example_create i [c] deps) = Inr ()"
proof -
  have "pins_ok False (example_create i [c] deps)" by (simp add: pins_ok_def example_create_def)
  moreover have "\<not> list_ex is_nil deps" using assms(5) by (auto simp: list_ex_iff)
  ultimately show ?thesis using assms
    by (simp add: operation_validate_Inr example_create_def operation_shape_def graphic_text
        example_document_accepted is_ascii_graphic_def byte_def)
qed

lemma example_changeset_accepted:
  assumes "distinct first_deps" "set first_deps \<subseteq> {2}" "distinct second_deps" "set second_deps \<subseteq> {1}"
  shows "changeset_validate example_document_env False (example_changeset first_deps second_deps) = Inr ()"
proof -
  have "operation_validate example_document_env False (example_create 1 ''x'' first_deps) = Inr ()"
    "operation_validate example_document_env False (example_create 2 ''y'' second_deps) = Inr ()"
    using assms by (auto intro!: example_create_accepted simp: is_ascii_graphic_def byte_def)
  moreover have "kpn_operation_id (example_create i l ds) = i" "kpn_client_label (example_create i l ds) = l"
    "kpn_dependency_operation_ids (example_create i l ds) = ds" "successor_operation (example_create i l ds) = None" for i l ds
    by (simp_all add: example_create_def successor_operation_def)
  ultimately show ?thesis using assms
    by (auto simp: changeset_validate_Inr Let_def example_changeset_def DK2_MAX_OPERATIONS_def DK2_MAX_SOURCE_BYTES_def
        graphic_text is_ascii_graphic_def byte_def)
qed

section \<open>Properties\<close>

text \<open>
  C36: the operations of an accepted changeset can be put in an order in which every operation comes after those
  it depends on exactly when their dependencies have no cycle; the order found applies each operation once. The
  search for the order always ends.
\<close>

theorem commit_order_iff_acyclic:
  assumes "changeset_validate v resolved c = Inr ()"
  shows "((\<exists>ys. topo (kcs_operations c) = Inr ys) \<longleftrightarrow> acyclic (dependency (kcs_operations c))) \<and>
    (case topo (kcs_operations c) of Inl e \<Rightarrow> e = InvalidArguments
     | Inr ys \<Rightarrow> mset ys = mset (kcs_operations c) \<and> deps_met {} ys)"
proof
  have wf: "distinct (map kpn_operation_id (kcs_operations c))" "\<forall>x\<in>set (kcs_operations c).
      set (kpn_dependency_operation_ids x) \<subseteq> kpn_operation_id ` set (kcs_operations c)"
    using changeset_validate_wf [OF assms] by (auto simp: changeset_wf_def list_all_iff)
  show "(\<exists>ys. topo (kcs_operations c) = Inr ys) \<longleftrightarrow> acyclic (dependency (kcs_operations c))"
    using topo_Inr_iff [OF wf(1)] wf(2) by blast
  show "case topo (kcs_operations c) of Inl e \<Rightarrow> e = InvalidArguments
     | Inr ys \<Rightarrow> mset ys = mset (kcs_operations c) \<and> deps_met {} ys"
    using topo_sound topo_refusal by (auto split: sum.split)
qed

theorem commit_order_iff_acyclic_witness:
  "acyclic (dependency (kcs_operations (example_changeset [2] [])))"
proof -
  have "topo (kcs_operations (example_changeset [2] [])) = Inr [example_create 2 ''y'' [], example_create 1 ''x'' [2]]"
    by (simp add: topo_def topo_loop.simps example_changeset_def example_create_def depends_within_def)
  then show ?thesis
    using commit_order_iff_acyclic [OF example_changeset_accepted [of "[2]" "[]"]] by simp
qed

text \<open>A changeset whose operations depend on each other is accepted, and cannot be applied.\<close>

lemma cyclic_changeset_accepted:
  "changeset_validate example_document_env False (example_changeset [2] [1]) = Inr () \<and>
   topo (kcs_operations (example_changeset [2] [1])) = Inl InvalidArguments"
  by (simp add: example_changeset_accepted)
    (simp add: topo_def topo_loop.simps example_changeset_def example_create_def depends_within_def)

end
