(* ===== verification/KnowledgePlan.thy ===== *)
theory KnowledgePlan
  imports KnowledgeChanges "HOL-Library.Product_Lexorder"
begin

text \<open>
  Compiling the plan of a knowledge change: \<^verbatim>\<open>postgres/src/knowledge_lifecycle/plan.rs\<close>. The qualification
  of phase \<^verbatim>\<open>kc-qualify-plan\<close> selects profiles for every operation of the change, and the plan lists every
  obligation of these profiles that applies. The SHA-256 digest of the plan is a parameter; the rows of
  \<^verbatim>\<open>knowledge_change_operations\<close>, whose key is the operation, are a list, and the profiles of the accepted revisions a function.
\<close>

record operation_row =
  kow_id :: uuid
  kow_unit_id :: uuid
  kow_client_label :: str
  kow_operation :: lifecycle_operation
  kow_expected_revision :: "int option"
  kow_expected_lifecycle :: "lifecycle_state option"
  kow_reason :: str
  kow_authority_basis :: str
  kow_dependency_ids :: "uuid list"
  kow_knowledge_kind :: "knowledge_kind option"
  kow_profile_ids :: "profile_id list"
  kow_qualification_basis :: "str option"

record plan_run =
  kpw_definition :: kc_definition
  kpw_registry :: profile_registry
  kpw_delivery_mode :: delivery_mode
  kpw_next_revision :: int

fun applicability_holds :: "applicability \<Rightarrow> lifecycle_operation \<Rightarrow> knowledge_kind \<Rightarrow> bool result" where
  "applicability_holds AppliesAlways operation kind = Inr True"
| "applicability_holds (AppliesOperation expected) operation kind = Inr (expected = operation)"
| "applicability_holds (AppliesOperations operations) operation kind = Inr (operation \<in> set operations)"
| "applicability_holds (AppliesKnowledgeKind expected) operation kind = Inr (expected = kind)"
| "applicability_holds (AppliesDeclaredCondition condition) operation kind = Inl InvalidConfiguration"

fun primary_profile :: "knowledge_kind \<Rightarrow> profile_id" where
  "primary_profile KindProcedure = ProfileRunbook"
| "primary_profile KindProtocol = ProfileProtocol"
| "primary_profile KindInfrastructure = ProfileDevops"
| "primary_profile KindOperatingModel = ProfileOperations"
| "primary_profile KindProductResearch = ProfileProductResearch"
| "primary_profile KindSecurity = ProfileSecurity"
| "primary_profile _ = ProfileGeneral"

definition registry_profile :: "profile_registry \<Rightarrow> profile_id \<Rightarrow> profile_contract option" where
  "registry_profile g i = find (\<lambda>p. kpc_profile_id p = i) (kpg_profiles g)"

text \<open>A \<^verbatim>\<open>BTreeSet\<close> of contract references, by the derived order\<close>

definition ref_set :: "contract_ref list \<Rightarrow> contract_ref list" where
  "ref_set xs = sort_key (\<lambda>c. (kcf_id c, kcf_version c, kcf_digest c, kcf_source_ref c)) (remdups xs)"

text \<open>The sets and the vector that the loop over the operations fills\<close>

record plan_parts =
  kpp_obligations :: "branch_obligation list"
  kpp_profiles :: "profile_id list"
  kpp_policy_refs :: "contract_ref list"
  kpp_shape_refs :: "contract_ref list"
  kpp_method_refs :: "contract_ref list"

fun fold_m :: "('a \<Rightarrow> 's \<Rightarrow> 's result) \<Rightarrow> 'a list \<Rightarrow> 's \<Rightarrow> 's result" where
  "fold_m f [] s = Inr s"
| "fold_m f (x # xs) s = andThen (f x s) (fold_m f xs)"

definition branch_of :: "uuid \<Rightarrow> profile_contract \<Rightarrow> profile_obligation \<Rightarrow> branch_obligation" where
  "branch_of i p x = \<lparr>kbo_operation_id = i, kbo_profile_id = kpc_profile_id p, kbo_profile_version = kpc_version p,
     kbo_profile_digest = kpc_digest p, kbo_obligation_id = kpo_id x, kbo_requirement = kpo_requirement x,
     kbo_phase_id = kpo_phase_id x, kbo_applicability = kpo_applicability x, kbo_method_refs = kpo_method_refs x,
     kbo_shape_refs = kpo_shape_refs x, kbo_dependency_obligation_ids = kpo_depends_on x,
     kbo_pending_qualification = False\<rparr>"

definition add_obligation ::
    "operation_row \<Rightarrow> operation_qualification \<Rightarrow> profile_contract \<Rightarrow> profile_obligation \<Rightarrow> plan_parts \<Rightarrow> plan_parts result" where
  "add_obligation r s p x parts =
     andThen (applicability_holds (kpo_applicability x) (kow_operation r) (koq_knowledge_kind s)) (\<lambda>applicable. Inr
       (if applicable
        then parts\<lparr>kpp_method_refs := kpp_method_refs parts @ kpo_method_refs x,
          kpp_shape_refs := kpp_shape_refs parts @ kpo_shape_refs x,
          kpp_obligations := kpp_obligations parts @ [branch_of (kow_id r) p x]\<rparr>
        else parts))"

definition compatible_profile :: "profile_contract \<Rightarrow> profile_contract \<Rightarrow> bool" where
  "compatible_profile primary p \<longleftrightarrow> kpc_profile_id p = ProfileGeneral \<or> kpc_profile_id p = kpc_profile_id primary \<or>
     kpc_profile_id p \<in> set (kpc_compatible_profiles primary) \<or>
     kpc_profile_id primary \<in> set (kpc_compatible_profiles p)"

definition policy_refs_of :: "profile_contract \<Rightarrow> contract_ref list" where
  "policy_refs_of p = kpc_evidence_rule_refs p @ kpc_freshness_rule_refs p @ kpc_authority_rule_refs p @
     kpc_impact_rule_refs p @ kpc_retention_rule_refs p @ kpc_index_rule_refs p @ kpc_terminal_rule_refs p"

definition add_profile ::
    "profile_registry \<Rightarrow> operation_row \<Rightarrow> operation_qualification \<Rightarrow> profile_contract \<Rightarrow> profile_id \<Rightarrow> plan_parts \<Rightarrow>
      plan_parts result" where
  "add_profile g r s primary i parts = andThen (ok_or (registry_profile g i) InvalidArguments) (\<lambda>p.
     if kow_operation r \<notin> set (kpc_operations p) \<or> \<not> compatible_profile primary p \<or>
       kpc_profile_id p = kpc_profile_id primary \<and> koq_knowledge_kind s \<notin> set (kpc_applicable_kinds p)
     then Inl InvalidArguments
     else fold_m (add_obligation r s p) (kpc_obligations p)
       (parts\<lparr>kpp_profiles := kpp_profiles parts @ [i], kpp_shape_refs := kpp_shape_refs parts @ kpc_shape_refs p,
          kpp_policy_refs := kpp_policy_refs parts @ policy_refs_of p\<rparr>))"

text \<open>The last qualification of an operation is the one a \<^verbatim>\<open>BTreeMap\<close> keeps.\<close>

definition qualification_of :: "plan_qualification \<Rightarrow> uuid \<Rightarrow> operation_qualification option" where
  "qualification_of q i = find (\<lambda>s. koq_operation_id s = i) (rev (kpq_operations q))"

definition add_operation ::
    "profile_registry \<Rightarrow> (uuid \<Rightarrow> str list option) \<Rightarrow> plan_qualification \<Rightarrow> operation_row \<Rightarrow> plan_parts \<Rightarrow> plan_parts result" where
  "add_operation g retained q r parts = andThen (ok_or (qualification_of q (kow_id r)) InvalidArguments) (\<lambda>s.
     let primary_id = primary_profile (koq_knowledge_kind s) in
     if primary_id \<notin> set (koq_profiles s) then Inl InvalidArguments
     else andThen (ok_or (registry_profile g primary_id) InvalidConfiguration) (\<lambda>primary.
       if \<not> set (case retained (kow_id r) of None \<Rightarrow> [] | Some ps \<Rightarrow> ps) \<subseteq> set (map profile_as_str (koq_profiles s))
       then Inl InvalidArguments
       else fold_m (add_profile g r s primary) (koq_profiles s) parts))"

definition branch_key :: "branch_obligation \<Rightarrow> uuid \<times> profile_id \<times> str" where
  "branch_key x = (kbo_operation_id x, kbo_profile_id x, kbo_obligation_id x)"

definition qualified_row :: "plan_qualification \<Rightarrow> operation_row \<Rightarrow> operation_row" where
  "qualified_row q r = (case qualification_of q (kow_id r) of
       None \<Rightarrow> r
     | Some s \<Rightarrow> r\<lparr>kow_knowledge_kind := Some (koq_knowledge_kind s), kow_profile_ids := koq_profiles s,
         kow_qualification_basis := Some (koq_classification_basis s)\<rparr>)"

definition plan_of :: "plan_run \<Rightarrow> uuid list \<Rightarrow> plan_parts \<Rightarrow> branch_plan" where
  "plan_of w ids parts = \<lparr>kbl_revision = kpw_next_revision w, kbl_digest = [],
     kbl_definition_version = kf_version (kpw_definition w), kbl_definition_digest = kf_digest (kpw_definition w),
     kbl_registry_version = kpg_version (kpw_registry w), kbl_registry_digest = kpg_digest (kpw_registry w),
     kbl_delivery_mode = kpw_delivery_mode w, kbl_operation_ids = ids,
     kbl_profiles = btree_list (kpp_profiles parts), kbl_obligations = sort_key branch_key (kpp_obligations parts),
     kbl_policy_refs = ref_set (kpp_policy_refs parts), kbl_shape_refs = ref_set (kpp_shape_refs parts),
     kbl_method_refs = ref_set (kpp_method_refs parts)\<rparr>"

definition no_parts :: plan_parts where
  "no_parts = \<lparr>kpp_obligations = [], kpp_profiles = [], kpp_policy_refs = [], kpp_shape_refs = [], kpp_method_refs = []\<rparr>"

definition compile_plan ::
    "(branch_plan \<Rightarrow> str) \<Rightarrow> plan_run \<Rightarrow> (uuid \<Rightarrow> str list option) \<Rightarrow> operation_row list \<Rightarrow> plan_qualification \<Rightarrow>
      (branch_plan \<times> operation_row list) result" where
  "compile_plan digest w retained rows q = andThen (qualification_validate q) (\<lambda>_.
     let ordered = sort_key kow_id rows; qualified = set (map koq_operation_id (kpq_operations q)) in
     if length rows \<noteq> card qualified \<or> \<not> set (map kow_id rows) \<subseteq> qualified then Inl InvalidArguments
     else andThen (fold_m (add_operation (kpw_registry w) retained q) ordered no_parts) (\<lambda>parts.
       let plan = plan_of w (map kow_id ordered) parts; sealed = plan\<lparr>kbl_digest := digest plan\<rparr> in
       andThen (plan_validate sealed) (\<lambda>_. Inr (sealed, map (qualified_row q) rows))))"

section \<open>Facts\<close>

lemma fold_m_Inr_Cons:
  "fold_m f (x # xs) s = Inr s' \<longleftrightarrow> (\<exists>t. f x s = Inr t \<and> fold_m f xs t = Inr s')"
  by (simp add: andThen_Inr)

lemma fold_m_appends:
  assumes "\<And>x s s'. f x s = Inr s' \<Longrightarrow> g s' = g s @ h x"
  shows "fold_m f xs s = Inr s' \<Longrightarrow> g s' = g s @ concat (map h xs)"
proof (induction xs arbitrary: s)
  case Nil
  then show ?case by simp
next
  case (Cons x xs)
  then obtain t where t: "f x s = Inr t" "fold_m f xs t = Inr s'" by (auto simp only: fold_m_Inr_Cons)
  with Cons.IH [OF t(2)] assms [OF t(1)] show ?case by simp
qed

lemma fold_m_each:
  assumes "\<And>x s s'. f x s = Inr s' \<Longrightarrow> P x"
  shows "fold_m f xs s = Inr s' \<Longrightarrow> list_all P xs"
proof (induction xs arbitrary: s)
  case Nil
  then show ?case by simp
next
  case (Cons x xs)
  then obtain t where t: "f x s = Inr t" "fold_m f xs t = Inr s'" by (auto simp only: fold_m_Inr_Cons)
  with Cons.IH [OF t(2)] assms [OF t(1)] show ?case by simp
qed

definition applicable :: "operation_row \<Rightarrow> operation_qualification \<Rightarrow> profile_obligation \<Rightarrow> bool" where
  "applicable r s x \<longleftrightarrow> applicability_holds (kpo_applicability x) (kow_operation r) (koq_knowledge_kind s) = Inr True"

definition profile_branches :: "operation_row \<Rightarrow> operation_qualification \<Rightarrow> profile_contract \<Rightarrow> branch_obligation list" where
  "profile_branches r s p = map (branch_of (kow_id r) p) (filter (applicable r s) (kpc_obligations p))"

definition operation_branches ::
    "profile_registry \<Rightarrow> operation_row \<Rightarrow> operation_qualification \<Rightarrow> branch_obligation list" where
  "operation_branches g r s = concat (map (\<lambda>i. case registry_profile g i of
     None \<Rightarrow> [] | Some p \<Rightarrow> profile_branches r s p) (koq_profiles s))"

definition row_branches :: "profile_registry \<Rightarrow> plan_qualification \<Rightarrow> operation_row \<Rightarrow> branch_obligation list" where
  "row_branches g q r = (case qualification_of q (kow_id r) of None \<Rightarrow> [] | Some s \<Rightarrow> operation_branches g r s)"

definition row_profiles :: "plan_qualification \<Rightarrow> operation_row \<Rightarrow> profile_id list" where
  "row_profiles q r = (case qualification_of q (kow_id r) of None \<Rightarrow> [] | Some s \<Rightarrow> koq_profiles s)"

lemma add_obligation_branches:
  assumes "add_obligation r s p x parts = Inr parts'"
  shows "kpp_obligations parts' = kpp_obligations parts @ (if applicable r s x then [branch_of (kow_id r) p x] else [])"
    "kpp_profiles parts' = kpp_profiles parts @ []"
  using assms by (cases "applicability_holds (kpo_applicability x) (kow_operation r) (koq_knowledge_kind s)";
    auto simp: add_obligation_def applicable_def)+

lemma concat_if: "concat (map (\<lambda>x. if P x then [f x] else []) xs) = map f (filter P xs)"
  by (induction xs) simp_all

lemma add_profile_branches:
  assumes "add_profile g r s primary i parts = Inr parts'"
  shows "kpp_obligations parts' = kpp_obligations parts @ (case registry_profile g i of
      None \<Rightarrow> [] | Some p \<Rightarrow> profile_branches r s p)"
    "kpp_profiles parts' = kpp_profiles parts @ [i]" "registry_profile g i \<noteq> None"
proof -
  let ?parts0 = "\<lambda>p. parts\<lparr>kpp_profiles := kpp_profiles parts @ [i], kpp_shape_refs := kpp_shape_refs parts @ kpc_shape_refs p,
          kpp_policy_refs := kpp_policy_refs parts @ policy_refs_of p\<rparr>"
  obtain p where p: "registry_profile g i = Some p"
    and folded: "fold_m (add_obligation r s p) (kpc_obligations p) (?parts0 p) = Inr parts'"
    using assms by (cases "registry_profile g i") (simp_all add: add_profile_def split: if_splits)
  note fold_m_appends [where g = kpp_obligations, OF add_obligation_branches(1) folded]
    fold_m_appends [where g = kpp_profiles, OF add_obligation_branches(2) folded]
  then show "kpp_obligations parts' = kpp_obligations parts @ (case registry_profile g i of
      None \<Rightarrow> [] | Some p \<Rightarrow> profile_branches r s p)" "kpp_profiles parts' = kpp_profiles parts @ [i]"
    using p by (simp_all add: profile_branches_def concat_if)
  show "registry_profile g i \<noteq> None" using p by simp
qed

lemma add_operation_branches:
  assumes "add_operation g retained q r parts = Inr parts'"
  shows "kpp_obligations parts' = kpp_obligations parts @ row_branches g q r"
    "kpp_profiles parts' = kpp_profiles parts @ row_profiles q r"
    "\<exists>s. qualification_of q (kow_id r) = Some s \<and> primary_profile (koq_knowledge_kind s) \<in> set (koq_profiles s)"
proof -
  obtain s where s: "qualification_of q (kow_id r) = Some s"
    using assms by (cases "qualification_of q (kow_id r)") (simp_all add: add_operation_def)
  obtain primary where primary: "primary_profile (koq_knowledge_kind s) \<in> set (koq_profiles s)"
    "fold_m (add_profile g r s primary) (koq_profiles s) parts = Inr parts'"
    using assms s by (cases "registry_profile g (primary_profile (koq_knowledge_kind s))")
      (simp_all add: add_operation_def Let_def split: if_splits)
  note fold_m_appends [where g = kpp_obligations, OF add_profile_branches(1) primary(2)]
    fold_m_appends [where g = kpp_profiles, OF add_profile_branches(2) primary(2)]
  then show "kpp_obligations parts' = kpp_obligations parts @ row_branches g q r"
    "kpp_profiles parts' = kpp_profiles parts @ row_profiles q r"
    using s by (simp_all add: row_branches_def operation_branches_def row_profiles_def)
  show "\<exists>s. qualification_of q (kow_id r) = Some s \<and> primary_profile (koq_knowledge_kind s) \<in> set (koq_profiles s)"
    using s primary by blast
qed

lemma compile_plan_Inr:
  assumes "compile_plan digest w retained rows q = Inr (b, rows')"
  obtains parts where "qualification_validate q = Inr ()"
    "length rows = card (set (map koq_operation_id (kpq_operations q)))"
    "set (map kow_id rows) \<subseteq> set (map koq_operation_id (kpq_operations q))"
    "kpp_obligations parts = concat (map (row_branches (kpw_registry w) q) (sort_key kow_id rows))"
    "kpp_profiles parts = concat (map (row_profiles q) (sort_key kow_id rows))"
    "list_all (\<lambda>r. \<exists>s. qualification_of q (kow_id r) = Some s \<and>
       primary_profile (koq_knowledge_kind s) \<in> set (koq_profiles s)) rows"
    "b = (plan_of w (map kow_id (sort_key kow_id rows)) parts)\<lparr>kbl_digest := digest
       (plan_of w (map kow_id (sort_key kow_id rows)) parts)\<rparr>"
    "plan_validate b = Inr ()" "rows' = map (qualified_row q) rows"
proof -
  obtain parts where parts: "fold_m (add_operation (kpw_registry w) retained q) (sort_key kow_id rows) no_parts = Inr parts"
    and rest: "qualification_validate q = Inr ()" "length rows = card (set (map koq_operation_id (kpq_operations q)))"
    "set (map kow_id rows) \<subseteq> set (map koq_operation_id (kpq_operations q))"
    "b = (plan_of w (map kow_id (sort_key kow_id rows)) parts)\<lparr>kbl_digest := digest
       (plan_of w (map kow_id (sort_key kow_id rows)) parts)\<rparr>"
    "plan_validate b = Inr ()" "rows' = map (qualified_row q) rows"
    using assms by (auto simp: compile_plan_def andThen_Inr Let_def split: if_splits)
  have "kpp_obligations parts = kpp_obligations no_parts @ concat (map (row_branches (kpw_registry w) q) (sort_key kow_id rows))"
    by (rule fold_m_appends [OF _ parts]) (erule add_operation_branches(1))
  moreover have "kpp_profiles parts = kpp_profiles no_parts @ concat (map (row_profiles q) (sort_key kow_id rows))"
    by (rule fold_m_appends [OF _ parts]) (erule add_operation_branches(2))
  moreover have "list_all (\<lambda>r. \<exists>s. qualification_of q (kow_id r) = Some s \<and>
       primary_profile (koq_knowledge_kind s) \<in> set (koq_profiles s)) (sort_key kow_id rows)"
    by (rule fold_m_each [OF _ parts]) (erule add_operation_branches(3))
  ultimately show ?thesis using that rest by (simp add: no_parts_def list_all_iff)
qed

lemma qualification_found:
  assumes "distinct (map koq_operation_id (kpq_operations q))"
  shows "qualification_of q i = Some s \<longleftrightarrow> s \<in> set (kpq_operations q) \<and> koq_operation_id s = i"
proof
  show "qualification_of q i = Some s \<Longrightarrow> s \<in> set (kpq_operations q) \<and> koq_operation_id s = i"
    by (auto simp: qualification_of_def find_Some_iff) (metis length_rev nth_mem set_rev)
next
  assume s: "s \<in> set (kpq_operations q) \<and> koq_operation_id s = i"
  then obtain t where t: "qualification_of q i = Some t"
    by (cases "qualification_of q i") (auto simp: qualification_of_def find_None_iff)
  then have "t \<in> set (kpq_operations q)" "koq_operation_id t = i"
    by (auto simp: qualification_of_def find_Some_iff) (metis length_rev nth_mem set_rev)
  then show "qualification_of q i = Some s" using s t assms by (metis inj_on_def distinct_map)
qed

lemma registry_found:
  assumes "registry_validate g = Inr ()"
  shows "registry_profile g i = Some p \<longleftrightarrow> p \<in> set (kpg_profiles g) \<and> kpc_profile_id p = i"
proof -
  have distinct: "distinct (map kpc_profile_id (kpg_profiles g))"
    using registry_profiles(1) [OF assms] by (simp add: ALL_PROFILES_def)
  have "find P xs = Some p \<Longrightarrow> p \<in> set xs \<and> P p" for P and xs :: "profile_contract list"
    by (auto simp: find_Some_iff)
  moreover have "find (\<lambda>p. kpc_profile_id p = i) xs = Some p"
    if "p \<in> set xs" "kpc_profile_id p = i" "distinct (map kpc_profile_id xs)" for xs
    using that by (induction xs) auto
  ultimately show ?thesis using distinct by (auto simp: registry_profile_def)
qed

lemma row_branch_keys:
  assumes "registry_validate g = Inr ()" "distinct (map koq_operation_id (kpq_operations q))"
  shows "branch_key ` set (row_branches g q r) = {(kow_id r, kpc_profile_id p, kpo_id x) | s p x.
    s \<in> set (kpq_operations q) \<and> koq_operation_id s = kow_id r \<and> p \<in> set (kpg_profiles g) \<and>
    kpc_profile_id p \<in> set (koq_profiles s) \<and> x \<in> set (kpc_obligations p) \<and> applicable r s x}"
    (is "_ = ?keys")
proof -
  have row: "y \<in> set (row_branches g q r) \<longleftrightarrow>
      (\<exists>s. qualification_of q (kow_id r) = Some s \<and> y \<in> set (operation_branches g r s))" for y
    by (cases "qualification_of q (kow_id r)") (simp_all add: row_branches_def)
  have "y \<in> set (operation_branches g r s) \<longleftrightarrow> (\<exists>i p. registry_profile g i = Some p \<and> i \<in> set (koq_profiles s) \<and>
      y \<in> set (profile_branches r s p))" for y s
    unfolding operation_branches_def set_concat set_map UN_iff Bex_def image_iff
    by (auto split: option.splits; metis option.distinct(1) option.inject)
  then have operation: "y \<in> set (operation_branches g r s) \<longleftrightarrow> (\<exists>p. p \<in> set (kpg_profiles g) \<and>
      kpc_profile_id p \<in> set (koq_profiles s) \<and> y \<in> set (profile_branches r s p))" for y s
    unfolding registry_found [OF assms(1)] by blast
  have branches: "y \<in> set (row_branches g q r) \<longleftrightarrow> (\<exists>s p x. s \<in> set (kpq_operations q) \<and> koq_operation_id s = kow_id r \<and>
      p \<in> set (kpg_profiles g) \<and> kpc_profile_id p \<in> set (koq_profiles s) \<and> x \<in> set (kpc_obligations p) \<and>
      applicable r s x \<and> y = branch_of (kow_id r) p x)" for y
    unfolding row operation qualification_found [OF assms(2)] profile_branches_def by auto
  have keyed: "branch_key (branch_of i p x) = (i, kpc_profile_id p, kpo_id x)" for i p x
    by (simp add: branch_key_def branch_of_def)
  show ?thesis
  proof (rule set_eqI, rule iffI)
    fix k assume "k \<in> branch_key ` set (row_branches g q r)"
    then show "k \<in> ?keys" unfolding image_iff Bex_def branches using keyed by blast
  next
    fix k assume "k \<in> ?keys"
    then show "k \<in> branch_key ` set (row_branches g q r)" unfolding image_iff Bex_def branches mem_Collect_eq
      using keyed by metis
  qed
qed

text \<open>
  C11: The compiled plan holds exactly the obligations that apply: those of the profiles that the
  qualification selects for an operation of the change, whose applicability covers the operation and the
  kind of knowledge. They are listed in order, and the plan names every operation and every selected
  profile.
\<close>

theorem compiled_plan_exact:
  assumes "registry_validate (kpw_registry w) = Inr ()" "compile_plan digest w retained rows q = Inr (b, rows')"
  shows "set (map branch_key (kbl_obligations b)) = {(kow_id r, kpc_profile_id p, kpo_id x) | r s p x.
      r \<in> set rows \<and> s \<in> set (kpq_operations q) \<and> koq_operation_id s = kow_id r \<and>
      p \<in> set (kpg_profiles (kpw_registry w)) \<and> kpc_profile_id p \<in> set (koq_profiles s) \<and> x \<in> set (kpc_obligations p) \<and>
      applicability_holds (kpo_applicability x) (kow_operation r) (koq_knowledge_kind s) = Inr True} \<and>
    sorted (map branch_key (kbl_obligations b)) \<and> kbl_operation_ids b = sort (map kow_id rows) \<and>
    set (kbl_profiles b) = (\<Union>s\<in>set (kpq_operations q). set (koq_profiles s))"
proof -
  obtain parts where parts: "qualification_validate q = Inr ()"
    "length rows = card (set (map koq_operation_id (kpq_operations q)))"
    "set (map kow_id rows) \<subseteq> set (map koq_operation_id (kpq_operations q))"
    "kpp_obligations parts = concat (map (row_branches (kpw_registry w) q) (sort_key kow_id rows))"
    "kpp_profiles parts = concat (map (row_profiles q) (sort_key kow_id rows))"
    "b = (plan_of w (map kow_id (sort_key kow_id rows)) parts)\<lparr>kbl_digest := digest
       (plan_of w (map kow_id (sort_key kow_id rows)) parts)\<rparr>" "plan_validate b = Inr ()"
    by (rule compile_plan_Inr [OF assms(2)])
  have distinct: "distinct (map koq_operation_id (kpq_operations q))"
    using parts(1) card_distinct [of "map koq_operation_id (kpq_operations q)"]
    by (simp add: qualification_validate_def Let_def accept_if_Inr)
  have ids: "map kow_id (sort_key kow_id rows) = sort (map kow_id rows)" 
    by (rule sym, rule properties_for_sort) simp_all
  have branches: "kbl_obligations b = sort_key branch_key (kpp_obligations parts)"
    and profiles: "kbl_profiles b = btree_list (kpp_profiles parts)"
    and ops: "kbl_operation_ids b = sort (map kow_id rows)" using parts(6) ids by (simp_all add: plan_of_def)
  have "distinct (map kow_id rows)"
    using parts(7) ops card_distinct [of "map kow_id rows"] by (simp add: plan_validate_def refuse_if_Inr)
  then have covered: "set (map koq_operation_id (kpq_operations q)) = set (map kow_id rows)"
    using parts(2,3) by (metis card_subset_eq distinct_card length_map List.finite_set)
  have keys: "set (map branch_key (kbl_obligations b)) = (\<Union>r\<in>set rows. branch_key ` set (row_branches (kpw_registry w) q r))"
    using parts(4) branches by auto
  have profs: "set (kbl_profiles b) = (\<Union>r\<in>set rows. set (row_profiles q r))" using parts(5) profiles by simp
  have row: "set (row_profiles q r) = (\<Union>s\<in>{s \<in> set (kpq_operations q). koq_operation_id s = kow_id r}. set (koq_profiles s))" for r
  proof -
    have "{s \<in> set (kpq_operations q). koq_operation_id s = kow_id r} = {s. qualification_of q (kow_id r) = Some s}"
      unfolding qualification_found [OF distinct] by simp
    then show ?thesis by (cases "qualification_of q (kow_id r)") (auto simp: row_profiles_def)
  qed
  have "set (kbl_profiles b) = (\<Union>s\<in>set (kpq_operations q). set (koq_profiles s))"
    using covered unfolding profs row by (auto simp: set_eq_iff) (metis image_iff set_map)
  moreover have "sorted (map branch_key (kbl_obligations b))" using branches by simp
  ultimately show ?thesis
    using ops unfolding keys row_branch_keys [OF assms(1) distinct] applicable_def by blast
qed

section \<open>A registry and its plan\<close>

definition example_ref :: "str \<Rightarrow> contract_ref" where
  "example_ref i = \<lparr>kcf_id = i, kcf_version = ''1'', kcf_digest = ''d'', kcf_source_ref = ''o''\<rparr>"

definition example_obligation :: "applicability \<Rightarrow> profile_id \<Rightarrow> profile_obligation" where
  "example_obligation a i = \<lparr>kpo_id = ''check'', kpo_requirement = ''checked'', kpo_phase_id = KcDomainChecks,
     kpo_applicability = a, kpo_required = True, kpo_depends_on = [], kpo_method_refs = [example_ref (profile_method_id i)],
     kpo_shape_refs = [], kpo_required_outputs = [], kpo_reuse_rule_ref = example_ref ''reuse'',
     kpo_terminal_rule_refs = []\<rparr>"

definition example_profile :: "applicability \<Rightarrow> profile_id \<Rightarrow> profile_contract" where
  "example_profile a i = \<lparr>kpc_profile_id = i, kpc_version = ''1'', kpc_digest = ''d'', kpc_applicable_kinds = [KindClaim],
     kpc_operations = ALL_OPERATIONS, kpc_inherits = (if i = ProfileGeneral then [] else [ProfileGeneral]),
     kpc_compatible_profiles = [], kpc_shape_refs = [],
     kpc_methods = [\<lparr>in_id = profile_method_id i, in_version = ''1'', in_digest = ''d'', in_body = ''b'',
       in_origin_refs = [''o'']\<rparr>],
     kpc_obligations = [example_obligation a i], kpc_evidence_rule_refs = [], kpc_freshness_rule_refs = [],
     kpc_authority_rule_refs = [], kpc_impact_rule_refs = [], kpc_retention_rule_refs = [], kpc_index_rule_refs = [],
     kpc_terminal_rule_refs = [], kpc_lifecycle_complete = True\<rparr>"

definition example_registry :: "applicability \<Rightarrow> profile_registry" where
  "example_registry a = \<lparr>kpg_version = ''1'', kpg_digest = ''d'', kpg_profiles = map (example_profile a) ALL_PROFILES\<rparr>"

lemma bounded_graphic: "bounded_nonblank (c # s) n" if "is_ascii_graphic c" "list_all (\<lambda>c. c \<noteq> CHR 0x00) s" "length s < n"
  using that by (rule graphic_text)

lemma bounded_method: "bounded_nonblank (profile_method_id i) 256"
  by (cases i) (simp_all add: bounded_graphic is_ascii_graphic_def byte_def)

lemma example_ref_ok: "bounded_nonblank i 256 \<Longrightarrow> contract_ref_ok (example_ref i)"
  by (simp add: contract_ref_ok_def example_ref_def bounded_graphic is_ascii_graphic_def byte_def)

lemma example_profile_ok: "profile_ok (example_profile a i)"
  unfolding profile_ok_def instruction_ok_def
  by (cases i) (simp_all add: example_profile_def all_operations bounded_method bounded_graphic is_ascii_graphic_def byte_def
      DK2_MAX_SOURCE_BYTES_def, simp_all add: ALL_OPERATIONS_def)

lemma example_registry_valid:
  assumes "applicability_ok a"
  shows "registry_validate (example_registry a) = Inr ()"
proof -
  have "obligation_ok (example_profile a i) (example_obligation a i)" for i
    using assms example_ref_ok [OF bounded_method [of i]]
    by (simp add: obligation_ok_def example_obligation_def method_of_def)
      (simp add: example_profile_def example_ref_def example_ref_ok bounded_graphic is_ascii_graphic_def byte_def contract_ref_ok_def)
  moreover have "kpc_obligations (example_profile a i) = [example_obligation a i]" "kpc_profile_id (example_profile a i) = i" for i
    by (simp_all add: example_profile_def)
  moreover have "map (kpc_profile_id \<circ> example_profile a) ALL_PROFILES = ALL_PROFILES" by (simp add: example_profile_def comp_def)
  ultimately show ?thesis
    using all_profiles example_profile_ok
    by (simp add: registry_validate_def example_registry_def check_simps bounded_graphic is_ascii_graphic_def byte_def ALL_PROFILES_def)
qed

definition example_method :: "str \<Rightarrow> instruction_snapshot" where
  "example_method i = \<lparr>in_id = i, in_version = ''1'', in_digest = ''d'', in_body = ''b'', in_origin_refs = [''o'']\<rparr>"

definition example_kc_phase :: "kc_phase \<Rightarrow> kc_phase_definition" where
  "example_kc_phase p = \<lparr>kd_id = p, kd_ordinal = kc_ordinal p, kd_title = ''phase'',
     kd_executor = fst (expected_phase_contract p), kd_output_kind = snd (expected_phase_contract p), kd_depends_on = [],
     kd_allowed_backward_to = take (kc_ordinal p - 1) KC_ALL, kd_instructions = [],
     kd_methods = (case kc_method_id p of None \<Rightarrow> [] | Some m \<Rightarrow> [example_method m]), kd_required_input_refs = [],
     kd_required_output_refs = [], kd_required_obligation_ids = [], kd_output_contract_ref = example_ref ''out''\<rparr>"

definition example_kc_definition :: kc_definition where
  "example_kc_definition = \<lparr>kf_version = ''1'', kf_digest = ''d'', kf_registry_version = ''1'', kf_registry_digest = ''d'',
     kf_overview = example_method ''overview'', kf_default_mode = Phasewise, kf_allowed_modes = [Phasewise],
     kf_phases = map example_kc_phase KC_ALL, kf_completion_contract_ref = example_ref ''done'',
     kf_escalation_contract_ref = example_ref ''up''\<rparr>"

definition example_plan_run :: "applicability \<Rightarrow> plan_run" where
  "example_plan_run a = \<lparr>kpw_definition = example_kc_definition, kpw_registry = example_registry a,
     kpw_delivery_mode = Phasewise, kpw_next_revision = 1\<rparr>"

definition example_row :: operation_row where
  "example_row = \<lparr>kow_id = 7, kow_unit_id = 9, kow_client_label = ''unit'', kow_operation = OpCreate,
     kow_expected_revision = None, kow_expected_lifecycle = None, kow_reason = ''why'', kow_authority_basis = ''who'',
     kow_dependency_ids = [], kow_knowledge_kind = None, kow_profile_ids = [], kow_qualification_basis = None\<rparr>"

definition example_qualification :: plan_qualification where
  "example_qualification = \<lparr>kpq_operations = [\<lparr>koq_operation_id = 7, koq_knowledge_kind = KindClaim,
     koq_profiles = [ProfileGeneral], koq_classification_basis = ''claim''\<rparr>]\<rparr>"

lemma example_kc_definition_valid: "kc_definition_validate example_kc_definition = Inr ()"
proof -
  have "kc_phase_ok example_kc_definition i (example_kc_phase (KC_ALL ! i))" for i
    by (cases "KC_ALL ! i") (simp_all add: kc_phase_ok_def example_kc_phase_def Let_def example_ref_def contract_ref_ok_def
        example_kc_definition_def example_method_def instruction_ok_def bounded_graphic is_ascii_graphic_def byte_def
        DK2_MAX_SOURCE_BYTES_def)
  then show ?thesis
    by (simp add: kc_definition_validate_def check_simps)
      (simp add: example_kc_definition_def example_method_def example_ref_def contract_ref_ok_def instruction_ok_def
        bounded_graphic is_ascii_graphic_def byte_def DK2_MAX_SOURCE_BYTES_def)
qed

definition example_branch_plan :: branch_plan where
  "example_branch_plan = \<lparr>kbl_revision = 1, kbl_digest = ''digest'', kbl_definition_version = ''1'', kbl_definition_digest = ''d'',
     kbl_registry_version = ''1'', kbl_registry_digest = ''d'', kbl_delivery_mode = Phasewise, kbl_operation_ids = [7],
     kbl_profiles = [ProfileGeneral],
     kbl_obligations = [branch_of 7 (example_profile AppliesAlways ProfileGeneral) (example_obligation AppliesAlways ProfileGeneral)],
     kbl_policy_refs = [], kbl_shape_refs = [], kbl_method_refs = [example_ref (profile_method_id ProfileGeneral)]\<rparr>"

lemma example_plan_compiled:
  assumes "kow_id r = 7"
  shows "compile_plan (\<lambda>b. ''digest'') (example_plan_run AppliesAlways) (\<lambda>i. None) [r] example_qualification =
     Inr (example_branch_plan, [r\<lparr>kow_knowledge_kind := Some KindClaim, kow_profile_ids := [ProfileGeneral],
       kow_qualification_basis := Some ''claim''\<rparr>])"
proof -
  have found: "registry_profile (example_registry AppliesAlways) ProfileGeneral = Some (example_profile AppliesAlways ProfileGeneral)"
    by (simp add: registry_profile_def example_registry_def ALL_PROFILES_def example_profile_def)
  let ?p = "example_profile AppliesAlways ProfileGeneral" and ?x = "example_obligation AppliesAlways ProfileGeneral"
  let ?parts = "\<lparr>kpp_obligations = [branch_of 7 ?p ?x], kpp_profiles = [ProfileGeneral], kpp_policy_refs = [],
    kpp_shape_refs = [], kpp_method_refs = [example_ref (profile_method_id ProfileGeneral)]\<rparr>"
  have profile: "kpc_obligations ?p = [?x]" "kpc_operations ?p = ALL_OPERATIONS" "kpc_profile_id ?p = ProfileGeneral"
    "kpc_applicable_kinds ?p = [KindClaim]" "kpc_shape_refs ?p = []" "policy_refs_of ?p = []"
    by (simp_all add: example_profile_def policy_refs_of_def)
  have obligation: "kpo_applicability ?x = AppliesAlways" "kpo_shape_refs ?x = []"
    "kpo_method_refs ?x = [example_ref (profile_method_id ProfileGeneral)]"
    by (simp_all add: example_obligation_def)
  have accepted: "qualification_validate example_qualification = Inr ()"
    by (simp add: qualification_validate_def example_qualification_def accept_if_Inr bounded_graphic is_ascii_graphic_def
        byte_def DK2_MAX_OPERATIONS_def)
  have parts: "add_operation (example_registry AppliesAlways) (\<lambda>i. None) example_qualification r no_parts = Inr ?parts"
    by (simp add: add_operation_def qualification_of_def example_qualification_def found add_profile_def profile
        compatible_profile_def add_obligation_def obligation no_parts_def all_operations assms)
  have "plan_validate example_branch_plan = Inr ()"
    by (simp add: plan_validate_def refuse_if_Inr branch_of_def example_branch_plan_def)
      (simp add: example_profile_def example_obligation_def example_ref_def contract_ref_ok_def bounded_graphic
        is_ascii_graphic_def byte_def DK2_MAX_OPERATIONS_def)
  moreover have "koq_operation_id ` set (kpq_operations example_qualification) = {7}"
    "qualified_row example_qualification r = r\<lparr>kow_knowledge_kind := Some KindClaim,
      kow_profile_ids := [ProfileGeneral], kow_qualification_basis := Some ''claim''\<rparr>"
    "kpg_version (example_registry AppliesAlways) = ''1''" "kpg_digest (example_registry AppliesAlways) = ''d''"
    by (simp_all add: assms example_qualification_def qualified_row_def qualification_of_def example_registry_def)
  ultimately show ?thesis using parts accepted assms
    by (simp add: example_branch_plan_def compile_plan_def example_plan_run_def plan_of_def ref_set_def btree_list_def example_kc_definition_def)
qed

theorem compiled_plan_exact_witness:
  "set (map branch_key (kbl_obligations (fst (projr (compile_plan (\<lambda>b. ''digest'') (example_plan_run AppliesAlways)
     (\<lambda>i. None) [example_row] example_qualification))))) = {(7, ProfileGeneral, ''check'')}"
proof -
  have registry: "registry_validate (kpw_registry (example_plan_run AppliesAlways)) = Inr ()"
    using example_registry_valid [of AppliesAlways] by (simp add: example_plan_run_def)
  have "kow_id example_row = 7" by (simp add: example_row_def)
  note compiled = example_plan_compiled [OF this]
  from compiled_plan_exact [OF registry compiled] show ?thesis
    unfolding compiled
    by (simp add: example_branch_plan_def branch_key_def branch_of_def example_profile_def example_obligation_def)
qed

text \<open>
  A registry is accepted with obligations that apply under a declared condition, but compiling refuses
  them: every selection contains the general profile, so one such obligation in it blocks every change.
\<close>

lemma fold_m_member: "fold_m f xs s = Inr s' \<Longrightarrow> x \<in> set xs \<Longrightarrow> \<exists>t t'. f x t = Inr t'"
  using fold_m_each [where f = f and P = "\<lambda>x. \<exists>t t'. f x t = Inr t'"] unfolding list_all_iff by blast

lemma add_operation_applies:
  assumes "add_operation g retained q r parts = Inr parts'" "qualification_of q (kow_id r) = Some s" "i \<in> set (koq_profiles s)"
    "registry_profile g i = Some p"
  shows "AppliesDeclaredCondition c \<notin> kpo_applicability ` set (kpc_obligations p)"
proof -
  obtain primary where "fold_m (add_profile g r s primary) (koq_profiles s) parts = Inr parts'"
    using assms(1,2) by (cases "registry_profile g (primary_profile (koq_knowledge_kind s))")
      (simp_all add: add_operation_def Let_def split: if_splits)
  with assms(3) obtain t t' where "add_profile g r s primary i t = Inr t'"
    using fold_m_member [where f = "add_profile g r s primary"] by blast
  with assms(4) obtain u where "fold_m (add_obligation r s p) (kpc_obligations p) u = Inr t'"
    by (simp add: add_profile_def split: if_splits)
  then have "\<exists>t t'. add_obligation r s p x t = Inr t'" if "x \<in> set (kpc_obligations p)" for x
    using that fold_m_member [where f = "add_obligation r s p"] by blast
  moreover have "add_obligation r s p x t \<noteq> Inr t'" if "kpo_applicability x = AppliesDeclaredCondition c" for x t t'
    using that by (simp add: add_obligation_def)
  ultimately show ?thesis unfolding image_iff by metis
qed

lemma declared_condition_blocks_every_plan:
  assumes "registry_validate (kpw_registry w) = Inr ()" "p \<in> set (kpg_profiles (kpw_registry w))"
    "kpc_profile_id p = ProfileGeneral" "AppliesDeclaredCondition c \<in> kpo_applicability ` set (kpc_obligations p)" "rows \<noteq> []"
  shows "compile_plan digest w retained rows q \<noteq> Inr compiled"
proof
  assume compiled: "compile_plan digest w retained rows q = Inr compiled"
  obtain b rows' where "compiled = (b, rows')" by (cases compiled)
  with compiled obtain parts where parts: "qualification_validate q = Inr ()"
    "fold_m (add_operation (kpw_registry w) retained q) (sort_key kow_id rows) no_parts = Inr parts"
    by (auto simp: compile_plan_def andThen_Inr Let_def split: if_splits)
  obtain r where "r \<in> set (sort_key kow_id rows)" using assms(5) unfolding set_sort by (cases rows) auto
  with parts(2) obtain t t' where added: "add_operation (kpw_registry w) retained q r t = Inr t'"
    using fold_m_member [where f = "add_operation (kpw_registry w) retained q"] by blast
  then obtain s where s: "qualification_of q (kow_id r) = Some s" using add_operation_branches(3) by blast
  then have "s \<in> set (kpq_operations q)" by (auto simp: qualification_of_def find_Some_iff) (metis length_rev nth_mem set_rev)
  then have "ProfileGeneral \<in> set (koq_profiles s)"
    using parts(1) by (auto simp: qualification_validate_def Let_def accept_if_Inr list_all_iff)
  moreover have "registry_profile (kpw_registry w) ProfileGeneral = Some p"
    using registry_found [OF assms(1)] assms(2,3) by simp
  ultimately show False using add_operation_applies [OF added s] assms(4) by blast
qed

end
