(* ===== verification/KnowledgeUnits.thy ===== *)
theory KnowledgeUnits
  imports KnowledgePlan
begin

text \<open>
  The store of knowledge units and the application of a changeset to it:
  \<^verbatim>\<open>postgres/src/knowledge_lifecycle/commit.rs\<close> with \<^verbatim>\<open>commit/guard.rs\<close>, \<^verbatim>\<open>commit/binding.rs\<close> and
  \<^verbatim>\<open>commit/apply.rs\<close>, and the eligibility of a unit in \<^verbatim>\<open>context.rs\<close>. The tables of one workspace are lists
  of rows in the order of their insertion. Parameters are what is outside this store: the pgRDF extension
  that publishes and reads triples, SHA-256, the clock, the tables of programs, scopes and slices, and fresh
  identifiers. An erased payload is a column without a value, as in the tables; the redaction of the tables
  modelled here is \<^verbatim>\<open>canonical\<close> of \<^verbatim>\<open>erase/redact.rs\<close>, and of the other copies of a unit only whether any
  is left is used.
\<close>

section \<open>The tables\<close>

datatype contract_version = Dk1 | Dk2

record unit_head =
  kh_unit :: uuid
  kh_revision :: int
  kh_active :: bool
  kh_fingerprint :: str
  kh_last_event :: uuid
  kh_validation_event :: "uuid option"
  kh_contract :: contract_version
  kh_lifecycle :: lifecycle_state
  kh_access_scope :: access_scope
  kh_payload_erased :: bool

record revision_row =
  kv_unit :: uuid
  kv_revision :: int
  kv_document :: "document_draft option"
  kv_source_digest :: "str option"
  kv_rdf_digest :: "str option"
  kv_event :: uuid
  kv_unit_iri :: str
  kv_revision_iri :: str
  kv_contract :: contract_version
  kv_access_scope :: access_scope
  kv_payload_erased :: bool

record binding_row =
  kb_id :: uuid
  kb_unit :: uuid
  kb_revision :: int
  kb_target :: binding_target
  kb_purpose :: knowledge_binding_purpose
  kb_version :: binding_version
  kb_definition :: "(pipeline_kind \<times> str \<times> str) option"
  kb_active :: bool

record supersession_row =
  kss_predecessor :: uuid
  kss_successor :: uuid
  kss_event :: uuid
  kss_bindings :: "uuid list"
  kss_full :: bool

record suppression_row =
  ksl_unit :: uuid
  ksl_change :: uuid
  ksl_event :: uuid
  ksl_sequence :: int
  ksl_lifecycle :: lifecycle_state
  ksl_copies_ready :: bool
  ksl_restore_ready :: bool

record source_payload =
  kpy_pin :: source_pin
  kpy_title :: str
  kpy_uri :: str
  kpy_text :: str

record publication_input =
  kpb_change :: uuid
  kpb_event :: uuid
  kpb_revision :: int
  kpb_planned :: planned_operation
  kpb_principal :: uuid
  kpb_session :: uuid
  kpb_sources :: "source_payload list"
  kpb_successor :: "uuid option"

record event_row =
  kev_id :: uuid
  kev_unit :: uuid
  kev_revision :: int
  kev_operation :: lifecycle_operation
  kev_rdf_digest :: "str option"
  kev_input :: "publication_input option"

record validation_row =
  kva_id :: uuid
  kva_unit :: uuid
  kva_revision :: int
  kva_revalidation :: "revalidation_draft option"
  kva_source_digest :: "str option"

record unit_store =
  ku_generation :: int
  ku_erasure_sequence :: int
  ku_heads :: "unit_head list"
  ku_revisions :: "revision_row list"
  ku_bindings :: "binding_row list"
  ku_supersessions :: "supersession_row list"
  ku_suppressions :: "suppression_row list"
  ku_events :: "event_row list"
  ku_validations :: "validation_row list"

text \<open>What the change's transaction reads from elsewhere\<close>

record store_env =
  kz_tenant :: uuid
  kz_workspace :: uuid
  kz_show_uuid :: "uuid \<Rightarrow> str"
  kz_publish :: "publication_input \<Rightarrow> str result"
  kz_event_holds :: "uuid \<Rightarrow> int \<Rightarrow> uuid \<Rightarrow> bool \<Rightarrow> unit result"
  kz_legacy_loads :: "uuid \<Rightarrow> int \<Rightarrow> bool"
  kz_document_digest :: "document_draft \<Rightarrow> str"
  kz_binding_digest :: "document_binding \<Rightarrow> str"
  kz_sources_digest :: "source_payload list \<Rightarrow> str"
  kz_program :: "uuid \<Rightarrow> bool"
  kz_scope :: "uuid \<Rightarrow> bool"
  kz_slice :: "uuid \<Rightarrow> uuid \<Rightarrow> bool"
  kz_slice_definition :: "uuid \<Rightarrow> uuid \<Rightarrow> (str \<times> (str \<times> str \<times> str) option) option"
  kz_within :: "str option \<Rightarrow> str option \<Rightarrow> bool"
  kz_sources :: "source_ref list"
  kz_payloads :: "source_payload list result"

record commit_context =
  kcx_change :: uuid
  kcx_principal :: uuid
  kcx_session :: uuid
  kcx_event :: "uuid \<Rightarrow> uuid"
  kcx_binding_id :: "uuid \<Rightarrow> nat \<Rightarrow> uuid"

section \<open>Lookups\<close>

definition head_of :: "unit_store \<Rightarrow> uuid \<Rightarrow> unit_head option" where
  "head_of st u = find (\<lambda>h. kh_unit h = u) (ku_heads st)"

definition revision_of :: "unit_store \<Rightarrow> uuid \<Rightarrow> int \<Rightarrow> revision_row option" where
  "revision_of st u n = find (\<lambda>v. kv_unit v = u \<and> kv_revision v = n) (ku_revisions st)"

definition suppressed :: "unit_store \<Rightarrow> uuid \<Rightarrow> bool" where
  "suppressed st u \<longleftrightarrow> list_ex (\<lambda>s. ksl_unit s = u) (ku_suppressions st)"

definition set_head :: "uuid \<Rightarrow> (unit_head \<Rightarrow> unit_head) \<Rightarrow> unit_store \<Rightarrow> unit_store" where
  "set_head u f st = st\<lparr>ku_heads := map (\<lambda>h. if kh_unit h = u then f h else h) (ku_heads st)\<rparr>"

definition set_bindings :: "(binding_row \<Rightarrow> bool) \<Rightarrow> unit_store \<Rightarrow> unit_store" where
  "set_bindings p st = st\<lparr>ku_bindings := map (\<lambda>b. if p b then b\<lparr>kb_active := False\<rparr> else b) (ku_bindings st)\<rparr>"

section \<open>Guards of an operation\<close>

definition lock_head :: "unit_store \<Rightarrow> planned_operation \<Rightarrow> unit_head option result" where
  "lock_head st x =
     (if suppressed st (kpn_unit_id x) then Inl KnowledgePayloadErased
      else case (kpn_operation x, head_of st (kpn_unit_id x)) of
          (OpCreate, None) \<Rightarrow> Inr None
        | (OpCreate, Some _) \<Rightarrow> Inl InputConflict
        | (_, None) \<Rightarrow> Inl NotFound
        | (operation, Some h) \<Rightarrow>
            if kpn_expected_revision x \<noteq> Some (kh_revision h) \<or> kpn_expected_lifecycle x \<noteq> Some (kh_lifecycle h)
            then Inl StaleRevision
            else if \<not> (case operation of
                OpRevise \<Rightarrow> kh_lifecycle h \<in> {LifeActive, LifeRetracted}
              | OpErase \<Rightarrow> kh_lifecycle h \<in> {LifeActive, LifeRetracted, LifeSuperseded}
              | _ \<Rightarrow> kh_lifecycle h = LifeActive) then Inl NeedsContext
            else Inr (Some h))"

definition operation_sources :: "planned_operation \<Rightarrow> source_ref list result" where
  "operation_sources x = (case kpn_operation x of
       OpRevalidate \<Rightarrow> map_sum id krv_sources (ok_or (kpn_revalidation x) InvalidArguments)
     | _ \<Rightarrow> if kpn_operation x \<in> {OpCreate, OpRevise}
         then map_sum id kdd_sources (ok_or (kpn_document x) InvalidArguments) else Inr [])"

definition source_payload_at :: "store_env \<Rightarrow> source_payload list \<Rightarrow> nat \<Rightarrow> source_ref \<Rightarrow> source_payload result" where
  "source_payload_at z payloads i s = (case filter (\<lambda>k. kz_sources z ! k = s) [0..<length (kz_sources z)] of
       [k] \<Rightarrow> Inr ((payloads ! k)\<lparr>kpy_pin := (kpy_pin (payloads ! k))\<lparr>ksp_source_index := i\<rparr>\<rparr>)
     | _ \<Rightarrow> Inl InvalidSource)"

fun payloads_from :: "store_env \<Rightarrow> source_payload list \<Rightarrow> nat \<Rightarrow> source_ref list \<Rightarrow> source_payload list result" where
  "payloads_from z payloads i [] = Inr []"
| "payloads_from z payloads i (s # ss) = andThen (source_payload_at z payloads i s) (\<lambda>p.
     andThen (payloads_from z payloads (Suc i) ss) (\<lambda>ps. Inr (p # ps)))"

definition resolved_sources :: "store_env \<Rightarrow> planned_operation \<Rightarrow> source_payload list result" where
  "resolved_sources z x =
     (if kpn_operation x \<in> {OpCreate, OpRevise, OpRevalidate}
      then andThen (operation_sources x) (\<lambda>ss. andThen (kz_payloads z) (\<lambda>payloads. payloads_from z payloads 0 ss))
      else Inr [])"

definition require_new_revalidation_evidence ::
    "unit_store \<Rightarrow> uuid \<Rightarrow> int \<Rightarrow> source_payload list \<Rightarrow> unit result" where
  "require_new_revalidation_evidence st u n sources =
     (let published = filter (\<lambda>e. kev_unit e = u \<and> kev_revision e = n \<and>
        kev_operation e \<in> {OpCreate, OpRevise, OpRevalidate}) (ku_events st);
        accepted = set (map (ksp_digest \<circ> kpy_pin) (concat (map kpb_sources (List.map_filter kev_input published)))) in
      refuse_if (list_all (\<lambda>s. ksp_digest (kpy_pin s) \<in> accepted) sources) NeedsContext)"

section \<open>Eligible units and successors\<close>

text \<open>The latest validation of a revision: \<^verbatim>\<open>ORDER BY created_at DESC LIMIT 1\<close>\<close>

definition latest_validation :: "unit_store \<Rightarrow> uuid \<Rightarrow> int \<Rightarrow> validation_row option" where
  "latest_validation st u n =
     find (\<lambda>v. kva_unit v = u \<and> kva_revision v = n \<and> kva_revalidation v \<noteq> None) (rev (ku_validations st))"

definition effective_until :: "store_env \<Rightarrow> unit_store \<Rightarrow> uuid \<Rightarrow> int \<Rightarrow> document_draft \<Rightarrow> str option result" where
  "effective_until z st u n d = (case latest_validation st u n of
       None \<Rightarrow> Inr (kdd_valid_until d)
     | Some v \<Rightarrow> andThen (kz_event_holds z u n (kva_id v) False) (\<lambda>_.
         andThen (ok_or (Option.bind (find (\<lambda>e. kev_id e = kva_id v) (ku_events st)) kev_input) InternalInvariant) (\<lambda>i.
         andThen (refuse_if (kpn_operation (kpb_planned i) \<noteq> OpRevalidate) InternalInvariant) (\<lambda>_.
         andThen (ok_or (kpn_revalidation (kpb_planned i)) InternalInvariant) (\<lambda>r.
         if kva_revalidation v \<noteq> Some r \<or> kva_source_digest v \<noteq> Some (kz_sources_digest z (kpb_sources i))
         then Inl InternalInvariant
         else Inr (case krv_valid_until r of None \<Rightarrow> kdd_valid_until d | Some t \<Rightarrow> Some t))))))"

definition eligible_unit :: "store_env \<Rightarrow> unit_store \<Rightarrow> uuid \<Rightarrow> document_draft result" where
  "eligible_unit z st u =
     andThen (ok_or (head_of st u) NotFound) (\<lambda>h. andThen (ok_or (revision_of st u (kh_revision h)) NotFound) (\<lambda>v.
     if kh_lifecycle h \<in> {LifeErased, LifeErasurePending} \<or> kv_payload_erased v then Inl NeedsContext
     else if kv_contract v = Dk1 then Inl (if kz_legacy_loads z u (kv_revision v) then NeedsContext else NotFound)
     else andThen (kz_event_holds z u (kv_revision v) (kv_event v) True) (\<lambda>_.
       andThen (ok_or (kv_document v) InternalInvariant) (\<lambda>d.
       if kh_lifecycle h \<noteq> LifeActive then Inl NeedsContext
       else andThen (effective_until z st u (kv_revision v) d) (\<lambda>until.
         if kz_within z (kdd_valid_from d) until then Inr d else Inl NeedsContext)))))"

definition succession :: "unit_store \<Rightarrow> (uuid \<times> uuid) set" where
  "succession st = set (map (\<lambda>s. (kss_predecessor s, kss_successor s)) (ku_supersessions st))"

text \<open>\<^verbatim>\<open>WITH RECURSIVE successors\<close>: is \<open>target\<close> among \<open>u\<close> and its transitive successors?\<close>

definition succeeds_to :: "unit_store \<Rightarrow> uuid \<Rightarrow> uuid \<Rightarrow> bool" where
  "succeeds_to st u target \<longleftrightarrow> u = target \<or> (u, target) \<in> (succession st)\<^sup>+"

text \<open>A successor of the same change has just been created: its head is read directly.\<close>

definition same_change_successor :: "store_env \<Rightarrow> unit_store \<Rightarrow> uuid \<Rightarrow> unit result" where
  "same_change_successor z st u = (case head_of st u of
       None \<Rightarrow> Inl NeedsContext
     | Some h \<Rightarrow> if kh_lifecycle h \<noteq> LifeActive \<or> kh_contract h \<noteq> Dk2 \<or> kh_payload_erased h then Inl NeedsContext
         else case revision_of st u (kh_revision h) of
             None \<Rightarrow> Inl NeedsContext
           | Some v \<Rightarrow> if kv_payload_erased v then Inl NeedsContext
               else andThen (ok_or (kv_document v) StorageUnavailable) (\<lambda>d.
                 andThen (kz_event_holds z u (kh_revision h) (kh_last_event h) True) (\<lambda>_.
                 refuse_if (\<not> kz_within z (kdd_valid_from d) (kdd_valid_until d)) NeedsContext)))"

definition successor :: "store_env \<Rightarrow> unit_store \<Rightarrow> (uuid \<times> uuid) list \<Rightarrow> planned_operation \<Rightarrow> uuid option result" where
  "successor z st created x = (case kpn_successor x of
       None \<Rightarrow> Inr None
     | Some s \<Rightarrow> andThen (case (ksu_unit_id s, ksu_operation_id s) of
           (Some u, None) \<Rightarrow> Inr (u, False)
         | (None, Some i) \<Rightarrow> map_sum id (\<lambda>u. (u, True)) (ok_or (map_of created i) InvalidArguments)
         | _ \<Rightarrow> Inl InvalidArguments) (\<lambda>(u, same_change).
         if u = kpn_unit_id x then Inl InvalidArguments
         else if succeeds_to st u (kpn_unit_id x) then Inl InputConflict
         else andThen (if same_change then same_change_successor z st u
             else map_sum id (\<lambda>_. ()) (eligible_unit z st u)) (\<lambda>_. Inr (Some u))))"

section \<open>Bindings\<close>

fun is_pinned :: "binding_version \<Rightarrow> bool" where
  "is_pinned CurrentAccepted = False"
| "is_pinned (PinnedRevision n) = True"

definition pin_at :: "binding_pin list \<Rightarrow> nat \<Rightarrow> binding_pin option" where
  "pin_at pins i = find (\<lambda>p. kbp_binding_index p = i) pins"

definition target_exists :: "store_env \<Rightarrow> document_binding \<Rightarrow> binding_pin option \<Rightarrow> bool result" where
  "target_exists z b pin = (case kdb_target b of
       BindWorkspace \<Rightarrow> Inr True
     | BindProgram p \<Rightarrow> Inr (kz_program z p)
     | BindScope s \<Rightarrow> Inr (kz_scope z s)
     | BindSlice s i \<Rightarrow> Inr (kz_slice z s i)
     | BindSlicePhase s i phase \<Rightarrow> andThen (ok_or pin InvalidArguments) (\<lambda>p.
         andThen (ok_or (kz_slice_definition z s i) InvalidArguments) (\<lambda>(pipeline, run). Inr
           (if pipeline \<noteq> kind_as_str (kbp_definition_kind p) \<or> kbp_phase_id p \<noteq> phase then False
            else case run of None \<Rightarrow> True
              | Some (kind, version, digest) \<Rightarrow> kind = kind_as_str (kbp_definition_kind p) \<and>
                  version = kbp_definition_version p \<and> digest = kbp_definition_digest p))))"

definition validate_binding_target ::
    "store_env \<Rightarrow> unit_store \<Rightarrow> uuid \<Rightarrow> int \<Rightarrow> document_binding \<Rightarrow> binding_pin option \<Rightarrow> unit result" where
  "validate_binding_target z st u n b pin = andThen (target_exists z b pin) (\<lambda>found.
     if \<not> found then Inl InvalidArguments
     else case kdb_version_resolution b of
         CurrentAccepted \<Rightarrow> Inr ()
       | PinnedRevision pinned \<Rightarrow> refuse_if (\<not> (pinned = n \<or>
           list_ex (\<lambda>v. kv_unit v = u \<and> kv_revision v = pinned \<and> \<not> kv_payload_erased v) (ku_revisions st)))
           InvalidArguments)"

text \<open>
  The unique index \<^verbatim>\<open>knowledge_bindings_exact_unique\<close> and the primary key, at which
  \<^verbatim>\<open>ON CONFLICT DO NOTHING\<close> leaves the table as it is
\<close>

definition same_binding :: "binding_row \<Rightarrow> uuid \<Rightarrow> int \<Rightarrow> document_binding \<Rightarrow> bool" where
  "same_binding r u n b \<longleftrightarrow> kb_unit r = u \<and> kb_revision r = n \<and> kb_target r = kdb_target b \<and>
     kb_purpose r = kdb_purpose b \<and> is_pinned (kb_version r) = is_pinned (kdb_version_resolution b)"

definition binding_row_of :: "uuid \<Rightarrow> uuid \<Rightarrow> int \<Rightarrow> document_binding \<Rightarrow> binding_pin option \<Rightarrow> binding_row" where
  "binding_row_of i u n b pin = \<lparr>kb_id = i, kb_unit = u, kb_revision = n, kb_target = kdb_target b,
     kb_purpose = kdb_purpose b, kb_version = kdb_version_resolution b,
     kb_definition = map_option (\<lambda>p. (kbp_definition_kind p, kbp_definition_version p, kbp_definition_digest p)) pin,
     kb_active = True\<rparr>"

fun insert_bindings ::
    "store_env \<Rightarrow> (nat \<Rightarrow> uuid) \<Rightarrow> binding_pin list \<Rightarrow> uuid \<Rightarrow> int \<Rightarrow> nat \<Rightarrow> document_binding list \<Rightarrow> unit_store \<Rightarrow>
      unit_store result" where
  "insert_bindings z ids pins u n i [] st = Inr st"
| "insert_bindings z ids pins u n i (b # bs) st =
     andThen (validate_binding_target z st u n b (pin_at pins i)) (\<lambda>_.
       insert_bindings z ids pins u n (Suc i) bs
         (if list_ex (\<lambda>r. same_binding r u n b \<or> kb_id r = ids i) (ku_bindings st) then st
          else st\<lparr>ku_bindings := ku_bindings st @ [binding_row_of (ids i) u n b (pin_at pins i)]\<rparr>))"

section \<open>Applying an operation\<close>

definition unit_iri :: "store_env \<Rightarrow> uuid \<Rightarrow> str" where
  "unit_iri z u = ''urn:tect:dk:unit:'' @ kz_show_uuid z (kz_tenant z) @ '':'' @ kz_show_uuid z (kz_workspace z) @ '':'' @
     kz_show_uuid z u"

definition event_iri :: "store_env \<Rightarrow> uuid \<Rightarrow> str" where
  "event_iri z e = ''urn:tect:dk:event:'' @ kz_show_uuid z (kz_tenant z) @ '':'' @ kz_show_uuid z (kz_workspace z) @ '':'' @
     kz_show_uuid z e"

definition revision_iri :: "store_env \<Rightarrow> uuid \<Rightarrow> int \<Rightarrow> str" where
  "revision_iri z u n = unit_iri z u @ '':revision:'' @ show_int n"

definition apply_erase :: "store_env \<Rightarrow> commit_context \<Rightarrow> planned_operation \<Rightarrow> unit_store \<Rightarrow> unit_store \<times> applied_receipt" where
  "apply_erase z c x st = (let u = kpn_unit_id x; event = kcx_event c (kpn_operation_id x);
       sequence = ku_erasure_sequence st + 1;
       st = st\<lparr>ku_erasure_sequence := sequence\<rparr>;
       st = set_head u (\<lambda>h. h\<lparr>kh_active := False, kh_lifecycle := LifeErasurePending, kh_last_event := event\<rparr>) st;
       st = set_bindings (\<lambda>b. kb_unit b = u) st;
       st = st\<lparr>ku_suppressions := ku_suppressions st @ [\<lparr>ksl_unit = u, ksl_change = kcx_change c, ksl_event = event,
         ksl_sequence = sequence, ksl_lifecycle = LifeErasurePending, ksl_copies_ready = False,
         ksl_restore_ready = False\<rparr>]\<rparr> in
     (st, \<lparr>kap_operation_id = kpn_operation_id x, kap_unit_id = u, kap_operation = kpn_operation x, kap_revision = None,
       kap_event_id = event, kap_unit_iri = unit_iri z u, kap_revision_iri = None, kap_event_iri = event_iri z event,
       kap_rdf_digest = [], kap_rdf_digest_method = ''none-erasure'', kap_rdf_digest_scope = LifecycleEventPayload\<rparr>))"

text \<open>The accepted revision of a unit: inserted, or updated in place (\<^verbatim>\<open>ON CONFLICT DO UPDATE\<close>)\<close>

definition accept_revision :: "uuid \<Rightarrow> int \<Rightarrow> str \<Rightarrow> uuid \<Rightarrow> access_scope \<Rightarrow> unit_store \<Rightarrow> unit_store" where
  "accept_revision u n fingerprint event scope st = (if head_of st u = None
     then st\<lparr>ku_heads := ku_heads st @ [\<lparr>kh_unit = u, kh_revision = n, kh_active = True, kh_fingerprint = fingerprint,
       kh_last_event = event, kh_validation_event = None, kh_contract = Dk2, kh_lifecycle = LifeActive,
       kh_access_scope = scope, kh_payload_erased = False\<rparr>]\<rparr>
     else set_head u (\<lambda>h. h\<lparr>kh_revision := n, kh_active := True, kh_fingerprint := fingerprint, kh_last_event := event,
       kh_contract := Dk2, kh_lifecycle := LifeActive, kh_access_scope := scope\<rparr>) st)"

definition apply_content ::
    "store_env \<Rightarrow> commit_context \<Rightarrow> planned_operation \<Rightarrow> int \<Rightarrow> source_payload list \<Rightarrow> str \<Rightarrow> unit_store \<Rightarrow> unit_store result" where
  "apply_content z c x n sources rdf st = andThen (ok_or (kpn_document x) InvalidArguments) (\<lambda>d.
     let u = kpn_unit_id x; event = kcx_event c (kpn_operation_id x); fingerprint = kz_document_digest z d in
     if list_ex (\<lambda>h. kh_lifecycle h = LifeActive \<and> kh_fingerprint h = fingerprint \<and> kh_unit h \<noteq> u) (ku_heads st)
     then Inl InputConflict
     else if revision_of st u n \<noteq> None then Inl StorageUnavailable
     else let st = (if kpn_operation x = OpRevise then set_bindings (\<lambda>b. kb_unit b = u) st else st);
         st = st\<lparr>ku_revisions := ku_revisions st @ [\<lparr>kv_unit = u, kv_revision = n, kv_document = Some d,
           kv_source_digest = Some (kz_sources_digest z sources), kv_rdf_digest = Some rdf, kv_event = event, kv_unit_iri = unit_iri z u,
           kv_revision_iri = revision_iri z u n, kv_contract = Dk2, kv_access_scope = kdd_access_scope d,
           kv_payload_erased = False\<rparr>]\<rparr> in
       andThen (insert_bindings z (kcx_binding_id c (kpn_operation_id x)) (kpn_binding_pins x) u n 0 (kdd_bindings d) st)
         (\<lambda>st. Inr (accept_revision u n fingerprint event (kdd_access_scope d) st)))"

definition apply_revalidation ::
    "store_env \<Rightarrow> commit_context \<Rightarrow> planned_operation \<Rightarrow> int \<Rightarrow> source_payload list \<Rightarrow> unit_store \<Rightarrow> unit_store result" where
  "apply_revalidation z c x n sources st = andThen (ok_or (kpn_revalidation x) InvalidArguments) (\<lambda>r.
     let u = kpn_unit_id x; event = kcx_event c (kpn_operation_id x) in
     Inr (set_head u (\<lambda>h. h\<lparr>kh_validation_event := Some event, kh_last_event := event\<rparr>)
       (st\<lparr>ku_validations := ku_validations st @ [\<lparr>kva_id = event, kva_unit = u, kva_revision = n, kva_revalidation = Some r,
         kva_source_digest = Some (kz_sources_digest z sources)\<rparr>]\<rparr>)))"

text \<open>The active bindings that a supersession replaces, each matched by its own row\<close>

definition matching_binding :: "unit_store \<Rightarrow> uuid \<Rightarrow> document_binding \<Rightarrow> uuid option" where
  "matching_binding st u b = map_option kb_id (find (\<lambda>r. kb_unit r = u \<and> kb_active r \<and> kb_target r = kdb_target b \<and>
     kb_purpose r = kdb_purpose b \<and> kb_version r = kdb_version_resolution b) (ku_bindings st))"

fun replaced_bindings ::
    "store_env \<Rightarrow> unit_store \<Rightarrow> uuid \<Rightarrow> str set \<Rightarrow> document_binding list \<Rightarrow> uuid list result" where
  "replaced_bindings z st u unique [] = Inr []"
| "replaced_bindings z st u unique (b # bs) =
     (if kdb_version_resolution b \<noteq> CurrentAccepted then Inl InvalidArguments
      else if kz_binding_digest z b \<in> unique then Inl InvalidArguments
      else andThen (ok_or (matching_binding st u b) InputConflict) (\<lambda>i.
        andThen (replaced_bindings z st u (insert (kz_binding_digest z b) unique) bs) (\<lambda>is. Inr (i # is))))"

definition apply_supersession ::
    "store_env \<Rightarrow> commit_context \<Rightarrow> planned_operation \<Rightarrow> uuid \<Rightarrow> unit_store \<Rightarrow> unit_store result" where
  "apply_supersession z c x s st = (let u = kpn_unit_id x; event = kcx_event c (kpn_operation_id x);
       current = length (filter (\<lambda>b. kb_unit b = u \<and> kb_active b) (ku_bindings st)) in
     andThen (replaced_bindings z st u {} (kpn_replacement_bindings x)) (\<lambda>ids.
     let st = set_bindings (\<lambda>b. kb_id b \<in> set ids) st in
     andThen (ok_or (head_of st s) StorageUnavailable) (\<lambda>h.
     andThen (insert_bindings z (kcx_binding_id c (kpn_operation_id x)) (kpn_binding_pins x) s (kh_revision h) 0
       (kpn_replacement_bindings x) st) (\<lambda>st.
     let full = current = length ids;
         st = st\<lparr>ku_supersessions := ku_supersessions st @ [\<lparr>kss_predecessor = u, kss_successor = s, kss_event = event,
           kss_bindings = ids, kss_full = full\<rparr>]\<rparr> in
     Inr (set_head u (\<lambda>h. h\<lparr>kh_lifecycle := (if full then LifeSuperseded else LifeActive), kh_active := \<not> full,
       kh_last_event := event\<rparr>) st)))))"

definition apply_retraction :: "commit_context \<Rightarrow> planned_operation \<Rightarrow> unit_store \<Rightarrow> unit_store" where
  "apply_retraction c x st = (let u = kpn_unit_id x; event = kcx_event c (kpn_operation_id x) in
     set_bindings (\<lambda>b. kb_unit b = u)
       (set_head u (\<lambda>h. h\<lparr>kh_active := False, kh_lifecycle := LifeRetracted, kh_last_event := event\<rparr>) st))"

definition apply_operation ::
    "store_env \<Rightarrow> commit_context \<Rightarrow> (uuid \<times> uuid) list \<Rightarrow> planned_operation \<Rightarrow> unit_store \<Rightarrow>
      (unit_store \<times> applied_receipt) result" where
  "apply_operation z c created x st = andThen (lock_head st x) (\<lambda>head.
     andThen (case kpn_operation x of
         OpCreate \<Rightarrow> Inr 1
       | OpRevise \<Rightarrow> map_sum id (\<lambda>h. kh_revision h + 1) (ok_or head NotFound)
       | _ \<Rightarrow> map_sum id kh_revision (ok_or head NotFound)) (\<lambda>n.
     andThen (successor z st created x) (\<lambda>s.
     if kpn_operation x = OpErase then Inr (apply_erase z c x st)
     else let u = kpn_unit_id x; event = kcx_event c (kpn_operation_id x) in
       andThen (resolved_sources z x) (\<lambda>sources.
       andThen (if kpn_operation x = OpRevalidate then require_new_revalidation_evidence st u n sources else Inr ()) (\<lambda>_.
       let publication = \<lparr>kpb_change = kcx_change c, kpb_event = event, kpb_revision = n, kpb_planned = x,
         kpb_principal = kcx_principal c, kpb_session = kcx_session c, kpb_sources = sources, kpb_successor = s\<rparr> in
       andThen (kz_publish z publication) (\<lambda>rdf.
       let st = st\<lparr>ku_events := ku_events st @ [\<lparr>kev_id = event, kev_unit = u, kev_revision = n,
           kev_operation = kpn_operation x, kev_rdf_digest = Some rdf, kev_input = Some publication\<rparr>]\<rparr>;
         content = kpn_operation x \<in> {OpCreate, OpRevise} in
       andThen (case kpn_operation x of
           OpRevalidate \<Rightarrow> apply_revalidation z c x n sources st
         | OpSupersede \<Rightarrow> andThen (ok_or s InvalidArguments) (\<lambda>s. apply_supersession z c x s st)
         | OpRetract \<Rightarrow> Inr (apply_retraction c x st)
         | _ \<Rightarrow> apply_content z c x n sources rdf st) (\<lambda>st.
       Inr (st, \<lparr>kap_operation_id = kpn_operation_id x, kap_unit_id = u, kap_operation = kpn_operation x,
         kap_revision = Some n, kap_event_id = event, kap_unit_iri = unit_iri z u,
         kap_revision_iri = (if content then Some (revision_iri z u n) else None), kap_event_iri = event_iri z event,
         kap_rdf_digest = rdf, kap_rdf_digest_method = ''rdfc-1.0-sha256'',
         kap_rdf_digest_scope = (if content then RevisionPublicationPayload else LifecycleEventPayload)\<rparr>))))))))"

text \<open>The loop of \<^verbatim>\<open>commit\<close> over the ordered operations, with the map of the units it creates\<close>

fun apply_operations ::
    "store_env \<Rightarrow> commit_context \<Rightarrow> (uuid \<times> uuid) list \<Rightarrow> planned_operation list \<Rightarrow> unit_store \<Rightarrow>
      (unit_store \<times> applied_receipt list) result" where
  "apply_operations z c created [] st = Inr (st, [])"
| "apply_operations z c created (x # xs) st = andThen (apply_operation z c created x st) (\<lambda>(st, r).
     andThen (apply_operations z c (if kpn_operation x = OpCreate then (kpn_operation_id x, kpn_unit_id x) # created
       else created) xs st) (\<lambda>(st, rs). Inr (st, r # rs)))"

definition apply_changeset ::
    "store_env \<Rightarrow> commit_context \<Rightarrow> planned_operation list \<Rightarrow> unit_store \<Rightarrow> (unit_store \<times> applied_receipt list) result" where
  "apply_changeset z c ops st = andThen (topo ops) (\<lambda>ordered. andThen (apply_operations z c [] ordered st) (\<lambda>(st, rs).
     andThen (ok_or (checked_add_i64 (ku_generation st) 1) StorageUnavailable) (\<lambda>next.
     Inr (st\<lparr>ku_generation := next\<rparr>, rs))))"

section \<open>Erasure\<close>

text \<open>
  The rows of a unit that still hold its payload (\<^verbatim>\<open>residual.rs\<close>), and their redaction (\<^verbatim>\<open>redact.rs\<close>). A row of
  \<^verbatim>\<open>knowledge_revisions\<close> is marked by \<^verbatim>\<open>payload_erased\<close>; events and validations have no payload once erased.
\<close>

definition head_readable :: "uuid \<Rightarrow> unit_head \<Rightarrow> bool" where
  "head_readable u h \<longleftrightarrow> kh_unit h = u \<and> (\<not> kh_payload_erased h \<or> kh_fingerprint h \<noteq> ''[erased]'')"

definition revision_readable :: "uuid \<Rightarrow> revision_row \<Rightarrow> bool" where
  "revision_readable u v \<longleftrightarrow> kv_unit v = u \<and> (\<not> kv_payload_erased v \<or> kv_document v \<noteq> None \<or>
     kv_source_digest v \<noteq> None \<or> kv_rdf_digest v \<noteq> None)"

definition event_readable :: "uuid \<Rightarrow> event_row \<Rightarrow> bool" where
  "event_readable u e \<longleftrightarrow> kev_unit e = u \<and> (kev_input e \<noteq> None \<or> kev_rdf_digest e \<noteq> None)"

definition validation_readable :: "uuid \<Rightarrow> validation_row \<Rightarrow> bool" where
  "validation_readable u v \<longleftrightarrow> kva_unit v = u \<and> (kva_revalidation v \<noteq> None \<or> kva_source_digest v \<noteq> None)"

definition readable_rows :: "uuid \<Rightarrow> unit_store \<Rightarrow> nat" where
  "readable_rows u st = length (filter (head_readable u) (ku_heads st)) + length (filter (revision_readable u) (ku_revisions st)) +
     length (filter (event_readable u) (ku_events st)) + length (filter (validation_readable u) (ku_validations st))"

definition redact_canonical :: "uuid \<Rightarrow> unit_store \<Rightarrow> unit_store" where
  "redact_canonical u st = st\<lparr>
     ku_heads := map (\<lambda>h. if head_readable u h then h\<lparr>kh_fingerprint := ''[erased]'', kh_payload_erased := True\<rparr> else h) (ku_heads st),
     ku_revisions := map (\<lambda>v. if revision_readable u v then v\<lparr>kv_document := None, kv_source_digest := None,
       kv_rdf_digest := None, kv_payload_erased := True\<rparr> else v) (ku_revisions st),
     ku_events := map (\<lambda>e. if event_readable u e then e\<lparr>kev_rdf_digest := None, kev_input := None\<rparr> else e) (ku_events st),
     ku_validations := map (\<lambda>v. if validation_readable u v then v\<lparr>kva_revalidation := None, kva_source_digest := None\<rparr> else v)
       (ku_validations st)\<rparr>"

text \<open>
  \<^verbatim>\<open>suppress_owned_unit\<close> on these tables, with what is left of the unit's other copies and triples before and
  after. The result says whether nothing readable remains.
\<close>

definition suppress_owned_unit :: "(uuid \<Rightarrow> nat) \<Rightarrow> (uuid \<Rightarrow> nat) \<Rightarrow> uuid \<Rightarrow> unit_store \<Rightarrow> unit_store \<times> bool" where
  "suppress_owned_unit before after u st = (if readable_rows u st + before u = 0 then (st, True)
     else let st = redact_canonical u st in (st, readable_rows u st + after u = 0))"

text \<open>After the operations, every erased unit is marked by whether its owned copies are gone.\<close>

definition finish_erasure :: "(uuid \<Rightarrow> nat) \<Rightarrow> (uuid \<Rightarrow> nat) \<Rightarrow> uuid \<Rightarrow> unit_store \<Rightarrow> unit_store" where
  "finish_erasure before after u st = (case suppress_owned_unit before after u st of (st, complete) \<Rightarrow>
     let life = (if complete then LifeErased else LifeErasurePending);
         st = set_head u (\<lambda>h. h\<lparr>kh_lifecycle := life\<rparr>) st in
     st\<lparr>ku_suppressions := map (\<lambda>s. if ksl_unit s = u then s\<lparr>ksl_lifecycle := life, ksl_copies_ready := complete\<rparr> else s)
       (ku_suppressions st)\<rparr>)"

text \<open>The part of \<^verbatim>\<open>commit\<close> that changes the store\<close>

definition commit_units ::
    "store_env \<Rightarrow> commit_context \<Rightarrow> (uuid \<Rightarrow> nat) \<Rightarrow> (uuid \<Rightarrow> nat) \<Rightarrow> planned_operation list \<Rightarrow> unit_store \<Rightarrow>
      (unit_store \<times> applied_receipt list) result" where
  "commit_units z c before after ops st = andThen (apply_changeset z c ops st) (\<lambda>(st, rs).
     Inr (fold (finish_erasure before after) (map kap_unit_id (filter (\<lambda>r. kap_operation r = OpErase) rs)) st, rs))"

end
