(* ===== verification/UnitLifecycle.thy ===== *)
theory UnitLifecycle
  imports KnowledgeUnits
begin

text \<open>
  What a commit does to the store of knowledge units: the invariant of the store, the lifecycle of a unit
  as an abstract machine that every commit refines, and the bindings that a supersession moves.
\<close>

section \<open>Frames\<close>

lemma head_of_unit: "head_of st u = Some h \<Longrightarrow> kh_unit h = u \<and> h \<in> set (ku_heads st)"
  by (auto simp: head_of_def find_Some_iff)

lemma head_of_None: "head_of st u = None \<longleftrightarrow> u \<notin> kh_unit ` set (ku_heads st)"
  by (auto simp: head_of_def find_None_iff)

lemma head_of_mem: "distinct (map kh_unit (ku_heads st)) \<Longrightarrow> h \<in> set (ku_heads st) \<Longrightarrow> head_of st (kh_unit h) = Some h"
proof -
  have "distinct (map kh_unit hs) \<Longrightarrow> h \<in> set hs \<Longrightarrow> find (\<lambda>g. kh_unit g = kh_unit h) hs = Some h" for hs
    by (induction hs) auto
  then show "distinct (map kh_unit (ku_heads st)) \<Longrightarrow> h \<in> set (ku_heads st) \<Longrightarrow> head_of st (kh_unit h) = Some h"
    by (simp add: head_of_def)
qed

lemma head_of_set_head:
  assumes "\<And>h. kh_unit (f h) = kh_unit h"
  shows "head_of (set_head u f st) v = (if v = u then map_option f (head_of st u) else head_of st v)"
proof -
  have "find (\<lambda>h. kh_unit h = v) (map (\<lambda>h. if kh_unit h = u then f h else h) hs) =
      (if v = u then map_option f (find (\<lambda>h. kh_unit h = u) hs) else find (\<lambda>h. kh_unit h = v) hs)" for hs
    using assms by (induction hs) auto
  then show ?thesis by (simp add: head_of_def set_head_def)
qed

lemma set_head_fields [simp]:
  "ku_generation (set_head u f st) = ku_generation st" "ku_erasure_sequence (set_head u f st) = ku_erasure_sequence st"
  "ku_revisions (set_head u f st) = ku_revisions st" "ku_bindings (set_head u f st) = ku_bindings st"
  "ku_supersessions (set_head u f st) = ku_supersessions st" "ku_suppressions (set_head u f st) = ku_suppressions st"
  "ku_events (set_head u f st) = ku_events st" "ku_validations (set_head u f st) = ku_validations st"
  by (simp_all add: set_head_def)

lemma set_head_units:
  assumes "\<And>h. kh_unit (f h) = kh_unit h"
  shows "map kh_unit (ku_heads (set_head u f st)) = map kh_unit (ku_heads st)"
  using assms by (auto simp: set_head_def)

lemma set_bindings_fields [simp]:
  "ku_generation (set_bindings p st) = ku_generation st" "ku_erasure_sequence (set_bindings p st) = ku_erasure_sequence st"
  "ku_revisions (set_bindings p st) = ku_revisions st" "ku_heads (set_bindings p st) = ku_heads st"
  "ku_supersessions (set_bindings p st) = ku_supersessions st" "ku_suppressions (set_bindings p st) = ku_suppressions st"
  "ku_events (set_bindings p st) = ku_events st" "ku_validations (set_bindings p st) = ku_validations st"
  "head_of (set_bindings p st) = head_of st"
  by (simp_all add: set_bindings_def head_of_def fun_eq_iff)

lemma set_bindings_ids [simp]: "map kb_id (ku_bindings (set_bindings p st)) = map kb_id (ku_bindings st)"
  by (simp add: set_bindings_def)

text \<open>The projections of a unit that the invariant speaks about\<close>

definition revisions_of :: "unit_store \<Rightarrow> uuid \<Rightarrow> int list" where
  "revisions_of st u = map kv_revision (filter (\<lambda>v. kv_unit v = u) (ku_revisions st))"

definition bound :: "unit_store \<Rightarrow> uuid \<Rightarrow> bool" where
  "bound st u \<longleftrightarrow> list_ex (\<lambda>b. kb_unit b = u \<and> kb_active b) (ku_bindings st)"

lemma bound_set_bindings: "bound (set_bindings p st) u \<longleftrightarrow> list_ex (\<lambda>b. kb_unit b = u \<and> kb_active b \<and> \<not> p b) (ku_bindings st)"
  by (auto simp: bound_def set_bindings_def list_ex_iff)

definition inserted :: "uuid \<Rightarrow> int \<Rightarrow> unit_store \<Rightarrow> unit_store \<Rightarrow> bool" where
  "inserted u n st st' \<longleftrightarrow> (\<exists>new. st' = st\<lparr>ku_bindings := ku_bindings st @ new\<rparr> \<and>
     list_all (\<lambda>b. kb_unit b = u \<and> kb_revision b = n \<and> kb_active b) new \<and>
     (distinct (map kb_id (ku_bindings st)) \<longrightarrow> distinct (map kb_id (ku_bindings st @ new))))"

lemma inserted_refl: "inserted u n st st"
  by (simp add: inserted_def exI [of _ "[]"])

lemma insert_bindings_inserted: "insert_bindings z ids pins u n i bs st = Inr st' \<Longrightarrow> inserted u n st st'"
proof (induction bs arbitrary: i st)
  case Nil
  then show ?case by (simp add: inserted_refl)
next
  case (Cons b bs)
  let ?clash = "list_ex (\<lambda>r. same_binding r u n b \<or> kb_id r = ids i) (ku_bindings st)"
  let ?row = "binding_row_of (ids i) u n b (pin_at pins i)"
  let ?st = "if ?clash then st else st\<lparr>ku_bindings := ku_bindings st @ [?row]\<rparr>"
  have "insert_bindings z ids pins u n (Suc i) bs ?st = Inr st'"
    using Cons.prems by (auto simp: andThen_Inr split: if_splits)
  then have rest: "inserted u n ?st st'" by (rule Cons.IH)
  show ?case
  proof (cases ?clash)
    case True
    with rest show ?thesis by simp
  next
    case False
    then have row: "kb_unit ?row = u \<and> kb_revision ?row = n \<and> kb_active ?row" "kb_id ?row \<notin> kb_id ` set (ku_bindings st)"
      by (auto simp: binding_row_of_def list_ex_iff)
    obtain new where new: "st' = st\<lparr>ku_bindings := (ku_bindings st @ [?row]) @ new\<rparr>"
      "list_all (\<lambda>b. kb_unit b = u \<and> kb_revision b = n \<and> kb_active b) new"
      "distinct (map kb_id (ku_bindings st @ [?row])) \<longrightarrow> distinct (map kb_id ((ku_bindings st @ [?row]) @ new))"
      using rest False by (auto simp: inserted_def)
    have "distinct (map kb_id (ku_bindings st)) \<longrightarrow> distinct (map kb_id (ku_bindings st @ [?row]))" using row(2) by simp
    with new row(1) show ?thesis unfolding inserted_def by (intro exI [of _ "?row # new"]) simp
  qed
qed

lemma inserted_frame:
  assumes "inserted u n st st'"
  shows "ku_heads st' = ku_heads st" "ku_revisions st' = ku_revisions st" "ku_supersessions st' = ku_supersessions st"
    "ku_suppressions st' = ku_suppressions st" "ku_generation st' = ku_generation st" "head_of st' = head_of st"
    "v \<noteq> u \<Longrightarrow> bound st' v = bound st v" "bound st v \<Longrightarrow> bound st' v"
    "distinct (map kb_id (ku_bindings st)) \<Longrightarrow> distinct (map kb_id (ku_bindings st'))"
  using assms by (auto simp: inserted_def head_of_def fun_eq_iff bound_def list_all_iff list_ex_iff)

section \<open>The invariant of the store\<close>

definition unit_ok :: "unit_store \<Rightarrow> uuid \<Rightarrow> bool" where
  "unit_ok st u \<longleftrightarrow> (case head_of st u of
       None \<Rightarrow> revisions_of st u = [] \<and> \<not> bound st u \<and> \<not> suppressed st u
     | Some h \<Rightarrow> 1 \<le> kh_revision h \<and> revisions_of st u = [1..kh_revision h] \<and>
         (kh_active h \<longleftrightarrow> kh_lifecycle h = LifeActive) \<and>
         (suppressed st u \<longleftrightarrow> kh_lifecycle h \<in> {LifeErasurePending, LifeErased}) \<and>
         (bound st u \<longrightarrow> kh_lifecycle h = LifeActive))"

definition live_fingerprint :: "unit_store \<Rightarrow> uuid \<Rightarrow> str option" where
  "live_fingerprint st u = (case head_of st u of
     None \<Rightarrow> None | Some h \<Rightarrow> if kh_lifecycle h = LifeActive then Some (kh_fingerprint h) else None)"

definition unique_active :: "unit_store \<Rightarrow> bool" where
  "unique_active st \<longleftrightarrow> (\<forall>u v f. live_fingerprint st u = Some f \<and> live_fingerprint st v = Some f \<longrightarrow> u = v)"

definition units_wf :: "unit_store \<Rightarrow> bool" where
  "units_wf st \<longleftrightarrow> distinct (map kh_unit (ku_heads st)) \<and> distinct (map kb_id (ku_bindings st)) \<and>
     acyclic (succession st) \<and> (\<forall>u. unit_ok st u) \<and> unique_active st"

lemma unit_ok_frame:
  assumes "unit_ok st v" "head_of st' v = head_of st v" "revisions_of st' v = revisions_of st v"
    "suppressed st' v = suppressed st v" "bound st' v \<Longrightarrow> bound st v"
  shows "unit_ok st' v"
  using assms by (auto simp: unit_ok_def split: option.splits)

lemma unique_active_mono:
  assumes "unique_active st" "\<And>v f. live_fingerprint st' v = Some f \<Longrightarrow> live_fingerprint st v = Some f"
  shows "unique_active st'"
  using assms unfolding unique_active_def by blast

lemma update_frames [simp]:
  "head_of (st\<lparr>ku_events := es\<rparr>) = head_of st" "head_of (st\<lparr>ku_validations := vs\<rparr>) = head_of st"
  "head_of (st\<lparr>ku_supersessions := ss\<rparr>) = head_of st" "head_of (st\<lparr>ku_suppressions := us\<rparr>) = head_of st"
  "head_of (st\<lparr>ku_revisions := rs\<rparr>) = head_of st" "head_of (st\<lparr>ku_erasure_sequence := n\<rparr>) = head_of st"
  "head_of (st\<lparr>ku_generation := n\<rparr>) = head_of st" "head_of (st\<lparr>ku_bindings := bs\<rparr>) = head_of st"
  by (simp_all add: head_of_def fun_eq_iff)

lemma observed:
  "ku_revisions st' = ku_revisions st \<Longrightarrow> revisions_of st' = revisions_of st"
  "ku_bindings st' = ku_bindings st \<Longrightarrow> bound st' = bound st"
  "ku_suppressions st' = ku_suppressions st \<Longrightarrow> suppressed st' = suppressed st"
  "ku_supersessions st' = ku_supersessions st \<Longrightarrow> succession st' = succession st"
  by (simp_all add: revisions_of_def bound_def suppressed_def succession_def fun_eq_iff)

lemma event_frames [simp]:
  "revisions_of (st\<lparr>ku_events := es\<rparr>) = revisions_of st" "bound (st\<lparr>ku_events := es\<rparr>) = bound st"
  "suppressed (st\<lparr>ku_events := es\<rparr>) = suppressed st" "succession (st\<lparr>ku_events := es\<rparr>) = succession st"
  by (simp_all add: revisions_of_def bound_def suppressed_def succession_def fun_eq_iff)

lemma lock_head_events [simp]: "lock_head (st\<lparr>ku_events := es\<rparr>) x = lock_head st x"
  by (simp add: lock_head_def)

lemma units_wf_events [simp]: "units_wf (st\<lparr>ku_events := es\<rparr>) = units_wf st"
proof -
  have "unit_ok (st\<lparr>ku_events := es\<rparr>) u = unit_ok st u" for u by (cases "head_of st u") (simp_all add: unit_ok_def)
  then show ?thesis by (simp add: units_wf_def unique_active_def live_fingerprint_def)
qed

section \<open>What the guards establish\<close>

lemma lock_head_Inr:
  assumes "lock_head st x = Inr head"
  shows "\<not> suppressed st (kpn_unit_id x)" "head = head_of st (kpn_unit_id x)"
    "kpn_operation x = OpCreate \<Longrightarrow> head_of st (kpn_unit_id x) = None"
    "kpn_operation x \<noteq> OpCreate \<Longrightarrow> \<exists>h. head_of st (kpn_unit_id x) = Some h \<and>
       kpn_expected_revision x = Some (kh_revision h) \<and> kpn_expected_lifecycle x = Some (kh_lifecycle h) \<and>
       (case kpn_operation x of
          OpRevise \<Rightarrow> kh_lifecycle h \<in> {LifeActive, LifeRetracted}
        | OpErase \<Rightarrow> kh_lifecycle h \<in> {LifeActive, LifeRetracted, LifeSuperseded}
        | _ \<Rightarrow> kh_lifecycle h = LifeActive)"
proof -
  show fresh: "\<not> suppressed st (kpn_unit_id x)" using assms by (simp add: lock_head_def split: if_splits)
  have all: "head = head_of st (kpn_unit_id x) \<and> (if kpn_operation x = OpCreate then head_of st (kpn_unit_id x) = None
     else \<exists>h. head_of st (kpn_unit_id x) = Some h \<and> kpn_expected_revision x = Some (kh_revision h) \<and>
       kpn_expected_lifecycle x = Some (kh_lifecycle h) \<and> (case kpn_operation x of
          OpRevise \<Rightarrow> kh_lifecycle h \<in> {LifeActive, LifeRetracted}
        | OpErase \<Rightarrow> kh_lifecycle h \<in> {LifeActive, LifeRetracted, LifeSuperseded}
        | _ \<Rightarrow> kh_lifecycle h = LifeActive))"
    using assms fresh unfolding lock_head_def if_not_P [OF fresh]
    by (cases "kpn_operation x"; cases "head_of st (kpn_unit_id x)"; simp split: if_splits)
  then show "head = head_of st (kpn_unit_id x)" by blast
  show "kpn_operation x = OpCreate \<Longrightarrow> head_of st (kpn_unit_id x) = None" using all by simp
  show "kpn_operation x \<noteq> OpCreate \<Longrightarrow> \<exists>h. head_of st (kpn_unit_id x) = Some h \<and>
       kpn_expected_revision x = Some (kh_revision h) \<and> kpn_expected_lifecycle x = Some (kh_lifecycle h) \<and>
       (case kpn_operation x of
          OpRevise \<Rightarrow> kh_lifecycle h \<in> {LifeActive, LifeRetracted}
        | OpErase \<Rightarrow> kh_lifecycle h \<in> {LifeActive, LifeRetracted, LifeSuperseded}
        | _ \<Rightarrow> kh_lifecycle h = LifeActive)" using all by presburger
qed

lemma eligible_active: "eligible_unit z st u = Inr d \<Longrightarrow> \<exists>h. head_of st u = Some h \<and> kh_lifecycle h = LifeActive"
  by (cases "head_of st u") (auto simp: eligible_unit_def andThen_Inr ok_or_Inr split: if_splits)

lemma same_change_active: "same_change_successor z st u = Inr () \<Longrightarrow> \<exists>h. head_of st u = Some h \<and> kh_lifecycle h = LifeActive"
  by (auto simp: same_change_successor_def split: option.splits if_splits)

lemma map_sum_Inr: "map_sum id f r = Inr y \<longleftrightarrow> (\<exists>x. r = Inr x \<and> y = f x)"
  by (cases r) auto

lemma successor_Inr:
  assumes "successor z st created x = Inr (Some s)"
  shows "s \<noteq> kpn_unit_id x" "\<not> succeeds_to st s (kpn_unit_id x)" "\<exists>h. head_of st s = Some h \<and> kh_lifecycle h = LifeActive"
proof -
  have "s \<noteq> kpn_unit_id x \<and> \<not> succeeds_to st s (kpn_unit_id x) \<and>
      (same_change_successor z st s = Inr () \<or> map_sum id (\<lambda>_. ()) (eligible_unit z st s) = Inr ())"
    using assms by (cases "kpn_successor x") (auto simp: successor_def andThen_Inr split: if_splits)
  then show "s \<noteq> kpn_unit_id x" "\<not> succeeds_to st s (kpn_unit_id x)"
    "\<exists>h. head_of st s = Some h \<and> kh_lifecycle h = LifeActive"
    using eligible_active same_change_active by (auto simp: map_sum_Inr split: if_splits)
qed

lemma find_member: "find P xs = Some x \<Longrightarrow> x \<in> set xs \<and> P x"
  by (auto simp: find_Some_iff)

lemma matching_binding_row:
  assumes "matching_binding st u b = Some i"
  obtains r where "r \<in> set (ku_bindings st)" "kb_id r = i" "kb_unit r = u" "kb_active r" "kb_target r = kdb_target b"
    "kb_purpose r = kdb_purpose b" "kb_version r = kdb_version_resolution b"
  using assms unfolding matching_binding_def by (auto dest: find_member)

lemma replaced_bindings_active:
  assumes "replaced_bindings z st u unique bs = Inr ids"
  shows "list_all (\<lambda>i. \<exists>r\<in>set (ku_bindings st). kb_id r = i \<and> kb_unit r = u \<and> kb_active r) ids"
  using assms
proof (induction bs arbitrary: unique ids)
  case Nil
  then show ?case by simp
next
  case (Cons b bs)
  then obtain i "is" where i: "matching_binding st u b = Some i" "ids = i # is"
    "replaced_bindings z st u (insert (kz_binding_digest z b) unique) bs = Inr is"
    by (auto simp: andThen_Inr ok_or_Inr split: if_splits)
  from i(1) have "\<exists>r\<in>set (ku_bindings st). kb_id r = i \<and> kb_unit r = u \<and> kb_active r"
    by (rule matching_binding_row) blast
  with i(2) Cons.IH [OF i(3)] show ?case by simp
qed

lemma matching_binding_value:
  assumes "matching_binding st u b = Some i" "distinct (map kb_id (ku_bindings st))" "r \<in> set (ku_bindings st)" "kb_id r = i"
  shows "kb_target r = kdb_target b \<and> kb_purpose r = kdb_purpose b \<and> kb_version r = kdb_version_resolution b"
proof -
  obtain r' where r': "r' \<in> set (ku_bindings st)" "kb_id r' = i" "kb_target r' = kdb_target b" "kb_purpose r' = kdb_purpose b"
    "kb_version r' = kdb_version_resolution b"
    using assms(1) by (rule matching_binding_row)
  with assms(2-4) have "r = r'" by (metis inj_on_def distinct_map)
  with r' show ?thesis by simp
qed

lemma binding_eqI:
  "kdb_target b = kdb_target (c :: document_binding) \<Longrightarrow> kdb_purpose b = kdb_purpose c \<Longrightarrow>
   kdb_version_resolution b = kdb_version_resolution c \<Longrightarrow> b = c"
  by simp

lemma replaced_bindings_distinct:
  assumes "replaced_bindings z st u unique bs = Inr ids" "distinct (map kb_id (ku_bindings st))"
  shows "distinct ids \<and> list_all (\<lambda>b. kz_binding_digest z b \<notin> unique) bs \<and>
    (\<forall>i\<in>set ids. \<exists>b\<in>set bs. matching_binding st u b = Some i)"
  using assms(1)
proof (induction bs arbitrary: unique ids)
  case Nil
  then show ?case by simp
next
  case (Cons b bs)
  then obtain i "is" where i: "matching_binding st u b = Some i" "ids = i # is" "kz_binding_digest z b \<notin> unique"
    "replaced_bindings z st u (insert (kz_binding_digest z b) unique) bs = Inr is"
    by (auto simp: andThen_Inr ok_or_Inr split: if_splits)
  note rest = Cons.IH [OF i(4)]
  have "i \<notin> set is"
  proof
    assume "i \<in> set is"
    with rest obtain c where c: "c \<in> set bs" "matching_binding st u c = Some i" by blast
    obtain r where r: "r \<in> set (ku_bindings st)" "kb_id r = i"
      using i(1) by (rule matching_binding_row)
    have "b = c" using matching_binding_value [OF i(1) assms(2) r] matching_binding_value [OF c(2) assms(2) r] by simp
    with rest c(1) show False by (auto simp: list_all_iff)
  qed
  with i rest show ?case by (auto simp: list_all_iff)
qed

lemma full_replacement_unbinds:
  assumes "replaced_bindings z st u unique bs = Inr ids" "distinct (map kb_id (ku_bindings st))"
    "length (filter (\<lambda>b. kb_unit b = u \<and> kb_active b) (ku_bindings st)) = length ids"
  shows "\<not> bound (set_bindings (\<lambda>b. kb_id b \<in> set ids) st) u"
proof -
  let ?active = "filter (\<lambda>b. kb_unit b = u \<and> kb_active b) (ku_bindings st)"
  have "set ids \<subseteq> kb_id ` set ?active"
  proof
    fix i assume "i \<in> set ids"
    then obtain r where "r \<in> set (ku_bindings st)" "kb_id r = i" "kb_unit r = u" "kb_active r"
      using replaced_bindings_active [OF assms(1)] unfolding list_all_iff by blast
    then have "r \<in> set ?active" "i = kb_id r" by simp_all
    then show "i \<in> kb_id ` set ?active" by blast
  qed
  moreover have "card (kb_id ` set ?active) = card (set ids)"
  proof -
    have "distinct (map kb_id ?active)" using assms(2) by (rule distinct_map_filter)
    from distinct_card [OF this] have "card (kb_id ` set ?active) = length ?active" unfolding set_map length_map .
    moreover have "card (set ids) = length ids" using replaced_bindings_distinct [OF assms(1,2)] by (intro distinct_card) simp
    ultimately show ?thesis unfolding assms(3) by (rule trans [OF _ sym])
  qed
  ultimately have ids: "set ids = kb_id ` set ?active" 
    by (intro card_subset_eq) simp_all
  have "kb_id r \<in> set ids" if "r \<in> set (ku_bindings st)" "kb_unit r = u" "kb_active r" for r
    unfolding ids using that by (intro imageI) simp
  then show ?thesis unfolding bound_set_bindings list_ex_iff by blast
qed

lemma acyclic_succession:
  assumes "acyclic (succession st)" "\<not> succeeds_to st s u" "succession st' = insert (u, s) (succession st)"
  shows "acyclic (succession st')"
  using assms by (simp add: succeeds_to_def acyclic_insert rtrancl_eq_or_trancl)

section \<open>The lifecycle of a unit\<close>

type_synonym unit_state = "(int \<times> lifecycle_state) option"

inductive lifecycle_step :: "lifecycle_operation \<Rightarrow> unit_state \<Rightarrow> unit_state \<Rightarrow> bool" where
  created: "lifecycle_step OpCreate None (Some (1, LifeActive))"
| revised: "life \<in> {LifeActive, LifeRetracted} \<Longrightarrow> lifecycle_step OpRevise (Some (n, life)) (Some (n + 1, LifeActive))"
| revalidated: "lifecycle_step OpRevalidate (Some (n, LifeActive)) (Some (n, LifeActive))"
| superseded: "life \<in> {LifeActive, LifeSuperseded} \<Longrightarrow> lifecycle_step OpSupersede (Some (n, LifeActive)) (Some (n, life))"
| retracted: "lifecycle_step OpRetract (Some (n, LifeActive)) (Some (n, LifeRetracted))"
| erasing: "life \<in> {LifeActive, LifeRetracted, LifeSuperseded} \<Longrightarrow>
    lifecycle_step OpErase (Some (n, life)) (Some (n, LifeErasurePending))"

inductive_simps lifecycle_step_simps:
  "lifecycle_step OpCreate a b" "lifecycle_step OpRevise a b" "lifecycle_step OpRevalidate a b"
  "lifecycle_step OpSupersede a b" "lifecycle_step OpRetract a b" "lifecycle_step OpErase a b"

definition unit_state :: "unit_store \<Rightarrow> uuid \<Rightarrow> unit_state" where
  "unit_state st u = map_option (\<lambda>h. (kh_revision h, kh_lifecycle h)) (head_of st u)"

definition moves :: "planned_operation \<Rightarrow> unit_store \<Rightarrow> unit_store \<Rightarrow> bool" where
  "moves x st st' \<longleftrightarrow> lifecycle_step (kpn_operation x) (unit_state st (kpn_unit_id x)) (unit_state st' (kpn_unit_id x)) \<and>
     (\<forall>v. v \<noteq> kpn_unit_id x \<longrightarrow> unit_state st' v = unit_state st v) \<and> ku_generation st' = ku_generation st \<and>
     prefix (ku_revisions st) (ku_revisions st') \<and> prefix (ku_supersessions st) (ku_supersessions st')"

section \<open>Every operation keeps the store and follows the lifecycle\<close>

text \<open>A change of one head, with the tables as they are otherwise, keeps the invariant of every other unit.\<close>

lemma units_wf_head:
  assumes wf: "units_wf st"
    and heads: "distinct (map kh_unit (ku_heads st'))" "\<And>v. v \<noteq> u \<Longrightarrow> head_of st' v = head_of st v"
    and bindings: "distinct (map kb_id (ku_bindings st'))"
    and others: "\<And>v. v \<noteq> u \<Longrightarrow> unit_ok st' v"
    and changed: "unit_ok st' u" "acyclic (succession st')"
    and live: "live_fingerprint st' u \<in> {None, live_fingerprint st u}"
  shows "units_wf st'"
proof -
  have "live_fingerprint st' v = Some f \<Longrightarrow> live_fingerprint st v = Some f" for v f
    using live heads(2) by (cases "v = u") (auto simp: live_fingerprint_def)
  then have "unique_active st'" using wf unfolding units_wf_def by (blast intro: unique_active_mono)
  moreover have "unit_ok st' v" for v using others changed(1) by (cases "v = u") auto
  ultimately show ?thesis using heads(1) bindings changed(2) by (simp add: units_wf_def)
qed

lemma head_change_ok:
  assumes wf: "units_wf st" and h: "head_of st (kpn_unit_id x) = Some h" "\<not> suppressed st (kpn_unit_id x)"
    and st': "map kh_unit (ku_heads st') = map kh_unit (ku_heads st)"
      "\<And>v. head_of st' v = (if v = kpn_unit_id x then map_option f (head_of st (kpn_unit_id x)) else head_of st v)"
      "ku_revisions st' = ku_revisions st" "ku_generation st' = ku_generation st"
      "distinct (map kb_id (ku_bindings st'))" "acyclic (succession st')" "prefix (ku_supersessions st) (ku_supersessions st')"
      "\<And>v. suppressed st' v \<longleftrightarrow> suppressed st v \<or> v = kpn_unit_id x \<and> erased"
      "\<And>v. v \<noteq> kpn_unit_id x \<Longrightarrow> bound st' v \<Longrightarrow> bound st v \<or> (\<exists>g. head_of st v = Some g \<and> kh_lifecycle g = LifeActive)"
    and new: "kh_revision (f h) = kh_revision h" "kh_active (f h) \<longleftrightarrow> kh_lifecycle (f h) = LifeActive"
      "kh_lifecycle (f h) = LifeActive \<Longrightarrow> kh_lifecycle h = LifeActive \<and> kh_fingerprint (f h) = kh_fingerprint h"
      "erased \<longleftrightarrow> kh_lifecycle (f h) \<in> {LifeErasurePending, LifeErased}"
      "bound st' (kpn_unit_id x) \<Longrightarrow> kh_lifecycle (f h) = LifeActive"
    and step: "lifecycle_step (kpn_operation x) (Some (kh_revision h, kh_lifecycle h)) (Some (kh_revision h, kh_lifecycle (f h)))"
  shows "units_wf st' \<and> moves x st st'"
proof -
  note revisions = observed(1) [OF st'(3)]
  have ok: "unit_ok st v" for v using wf by (simp add: units_wf_def)
  have "units_wf st'"
  proof (rule units_wf_head [OF wf, where u = "kpn_unit_id x"])
    fix v assume v: "v \<noteq> kpn_unit_id x"
    have "bound st' v \<longrightarrow> (\<exists>g. head_of st v = Some g \<and> kh_lifecycle g = LifeActive)"
      using st'(9) [OF v] ok [of v] by (auto simp: unit_ok_def split: option.splits)
    then show "unit_ok st' v" using ok [of v] v by (auto simp: unit_ok_def revisions st'(2,8) split: option.splits)
  next
    show "unit_ok st' (kpn_unit_id x)"
      using ok [of "kpn_unit_id x"] h new by (simp add: unit_ok_def revisions st'(2,8))
    show "live_fingerprint st' (kpn_unit_id x) \<in> {None, live_fingerprint st (kpn_unit_id x)}"
      using h(1) new(3) by (auto simp: live_fingerprint_def st'(2))
  qed (use wf st' in \<open>auto simp: units_wf_def\<close>)
  moreover have "moves x st st'" using h(1) step new(1) st'(7) by (simp add: moves_def unit_state_def st'(2,3,4))
  ultimately show ?thesis by blast
qed

lemma apply_erase_ok:
  assumes "units_wf st" "lock_head st x = Inr head" "kpn_operation x = OpErase" "st' = fst (apply_erase z c x st)"
  shows "units_wf st' \<and> moves x st st'"
proof -
  let ?f = "\<lambda>h. h\<lparr>kh_active := False, kh_lifecycle := LifeErasurePending, kh_last_event := kcx_event c (kpn_operation_id x)\<rparr>"
  obtain h where h: "head_of st (kpn_unit_id x) = Some h" "kh_lifecycle h \<in> {LifeActive, LifeRetracted, LifeSuperseded}"
    using lock_head_Inr(4) [OF assms(2)] assms(3) by auto
  have bound': "bound st' v \<longleftrightarrow> bound st v \<and> v \<noteq> kpn_unit_id x" for v
    using assms(4) by (auto simp: apply_erase_def Let_def bound_def set_bindings_def list_ex_iff)
  show ?thesis
  proof (rule head_change_ok [OF assms(1) h(1) lock_head_Inr(1) [OF assms(2)], where f = ?f and erased = True])
    show "map kh_unit (ku_heads st') = map kh_unit (ku_heads st)"
      using assms(4) set_head_units [of ?f "kpn_unit_id x"] by (simp add: apply_erase_def Let_def set_head_def)
    show "acyclic (succession st')"
      using assms(1) by (simp add: assms(4) apply_erase_def Let_def units_wf_def succession_def)
  qed (use assms(1,3,4) h bound' in \<open>auto simp: apply_erase_def Let_def head_of_set_head units_wf_def suppressed_def
        lifecycle_step_simps\<close>)
qed

lemma apply_retraction_ok:
  assumes "units_wf st" "lock_head st x = Inr head" "kpn_operation x = OpRetract" "st' = apply_retraction c x st"
  shows "units_wf st' \<and> moves x st st'"
proof -
  let ?f = "\<lambda>h. h\<lparr>kh_active := False, kh_lifecycle := LifeRetracted, kh_last_event := kcx_event c (kpn_operation_id x)\<rparr>"
  obtain h where h: "head_of st (kpn_unit_id x) = Some h" "kh_lifecycle h = LifeActive"
    using lock_head_Inr(4) [OF assms(2)] assms(3) by auto
  have bound': "bound st' v \<longleftrightarrow> bound st v \<and> v \<noteq> kpn_unit_id x" for v
    using assms(4) by (auto simp: apply_retraction_def Let_def bound_def set_bindings_def list_ex_iff)
  show ?thesis
  proof (rule head_change_ok [OF assms(1) h(1) lock_head_Inr(1) [OF assms(2)], where f = ?f and erased = False])
    show "map kh_unit (ku_heads st') = map kh_unit (ku_heads st)"
      using assms(4) set_head_units [of ?f "kpn_unit_id x"] by (simp add: apply_retraction_def Let_def)
    show "acyclic (succession st')"
      using assms(1) by (simp add: assms(4) apply_retraction_def Let_def units_wf_def succession_def)
  qed (use assms(1,3,4) h bound' in \<open>auto simp: apply_retraction_def Let_def head_of_set_head units_wf_def suppressed_def
        lifecycle_step_simps\<close>)
qed

lemma apply_revalidation_ok:
  assumes "units_wf st" "lock_head st x = Inr head" "kpn_operation x = OpRevalidate"
    "apply_revalidation z c x n sources st = Inr st'"
  shows "units_wf st' \<and> moves x st st'"
proof -
  let ?event = "kcx_event c (kpn_operation_id x)"
  let ?f = "\<lambda>h. h\<lparr>kh_validation_event := Some ?event, kh_last_event := ?event\<rparr>"
  obtain h where h: "head_of st (kpn_unit_id x) = Some h" "kh_lifecycle h = LifeActive"
    using lock_head_Inr(4) [OF assms(2)] assms(3) by auto
  obtain vs where st': "st' = set_head (kpn_unit_id x) ?f (st\<lparr>ku_validations := vs\<rparr>)"
    using assms(4) by (auto simp: apply_revalidation_def andThen_Inr Let_def)
  have "unit_ok st (kpn_unit_id x)" using assms(1) by (simp add: units_wf_def)
  then have active: "kh_active h" using h by (simp add: unit_ok_def)
  show ?thesis
  proof (rule head_change_ok [OF assms(1) h(1) lock_head_Inr(1) [OF assms(2)], where f = ?f and erased = False])
    show "map kh_unit (ku_heads st') = map kh_unit (ku_heads st)" unfolding st' by (simp add: set_head_units)
    show "acyclic (succession st')" using assms(1) by (simp add: st' units_wf_def succession_def)
  qed (use assms(1,3) h active in \<open>auto simp: st' head_of_set_head units_wf_def suppressed_def bound_def lifecycle_step_simps\<close>)
qed

lemma apply_supersession_ok:
  assumes "units_wf st" "lock_head st x = Inr head" "kpn_operation x = OpSupersede" "successor z st created x = Inr (Some s)"
    and same: "ku_heads st1 = ku_heads st" "ku_revisions st1 = ku_revisions st" "ku_generation st1 = ku_generation st"
      "ku_bindings st1 = ku_bindings st" "ku_supersessions st1 = ku_supersessions st" "ku_suppressions st1 = ku_suppressions st"
    and "apply_supersession z c x s st1 = Inr st'"
  shows "units_wf st' \<and> moves x st st'"
proof -
  let ?u = "kpn_unit_id x" and ?event = "kcx_event c (kpn_operation_id x)"
  have same_head: "head_of st1 = head_of st" using same(1) by (simp add: head_of_def fun_eq_iff)
  obtain h where h: "head_of st ?u = Some h" "kh_lifecycle h = LifeActive"
    using lock_head_Inr(4) [OF assms(2)] assms(3) by auto
  obtain ids hs st2 full where ids: "replaced_bindings z st1 ?u {} (kpn_replacement_bindings x) = Inr ids"
    and st2: "inserted s hs (set_bindings (\<lambda>b. kb_id b \<in> set ids) st1) st2"
    and full: "full \<longleftrightarrow> length (filter (\<lambda>b. kb_unit b = ?u \<and> kb_active b) (ku_bindings st1)) = length ids"
    and st': "st' = set_head ?u (\<lambda>h. h\<lparr>kh_lifecycle := (if full then LifeSuperseded else LifeActive), kh_active := \<not> full,
       kh_last_event := ?event\<rparr>) (st2\<lparr>ku_supersessions := ku_supersessions st2 @ [\<lparr>kss_predecessor = ?u, kss_successor = s,
         kss_event = ?event, kss_bindings = ids, kss_full = full\<rparr>]\<rparr>)"
    using assms(11) insert_bindings_inserted by (fastforce simp: apply_supersession_def Let_def andThen_Inr)
  let ?f = "\<lambda>h. h\<lparr>kh_lifecycle := (if full then LifeSuperseded else LifeActive), kh_active := \<not> full, kh_last_event := ?event\<rparr>"
  note frame = inserted_frame [OF st2]
  have distinct_ids: "distinct (map kb_id (ku_bindings st1))" using assms(1) same(4) by (simp add: units_wf_def)
  have bound2: "bound st' = bound st2" by (simp add: st' bound_def fun_eq_iff)
  have bound1: "bound (set_bindings (\<lambda>b. kb_id b \<in> set ids) st1) v \<Longrightarrow> bound st v" for v
    unfolding bound_set_bindings unfolding bound_def list_ex_iff same(4) by blast
  show ?thesis
  proof (rule head_change_ok [OF assms(1) h(1) lock_head_Inr(1) [OF assms(2)], where f = ?f and erased = False])
    show "map kh_unit (ku_heads st') = map kh_unit (ku_heads st)" unfolding st' by (simp add: set_head_units frame same)
    have "succession st' = insert (?u, s) (succession st)" by (simp add: st' succession_def frame same)
    moreover have "acyclic (succession st)" using assms(1) by (simp add: units_wf_def)
    ultimately show "acyclic (succession st')" using successor_Inr(2) [OF assms(4)] by (blast intro: acyclic_succession)
    show "distinct (map kb_id (ku_bindings st'))" using frame(9) distinct_ids by (simp add: st')
    show "bound st' v \<Longrightarrow> bound st v \<or> (\<exists>g. head_of st v = Some g \<and> kh_lifecycle g = LifeActive)" for v
      using frame(7) [of v] bound1 [of v] successor_Inr(3) [OF assms(4)] unfolding bound2 by (cases "v = s") auto
    show "bound st' ?u \<Longrightarrow> kh_lifecycle (?f h) = LifeActive"
      using frame(7) [of ?u] successor_Inr(1) [OF assms(4)] full_replacement_unbinds [OF ids distinct_ids] full
      unfolding bound2 by auto
  qed (use assms(3) h in \<open>auto simp: st' head_of_set_head frame same same_head suppressed_def lifecycle_step_simps\<close>)
qed

lemma revisions_append:
  "revisions_of (st\<lparr>ku_revisions := ku_revisions st @ [v]\<rparr>) u =
     revisions_of st u @ (if kv_unit v = u then [kv_revision v] else [])"
  by (simp add: revisions_of_def)

lemma head_of_accept:
  "head_of (accept_revision u n fingerprint event scope st) v =
     (if v = u then (case head_of st u of
         None \<Rightarrow> Some \<lparr>kh_unit = u, kh_revision = n, kh_active = True, kh_fingerprint = fingerprint, kh_last_event = event,
           kh_validation_event = None, kh_contract = Dk2, kh_lifecycle = LifeActive, kh_access_scope = scope,
           kh_payload_erased = False\<rparr>
       | Some h \<Rightarrow> Some (h\<lparr>kh_revision := n, kh_active := True, kh_fingerprint := fingerprint, kh_last_event := event,
           kh_contract := Dk2, kh_lifecycle := LifeActive, kh_access_scope := scope\<rparr>))
      else head_of st v)"
proof -
  have "find P (xs @ [y]) = (case find P xs of None \<Rightarrow> if P y then Some y else None | Some x \<Rightarrow> Some x)" for P and xs :: "unit_head list" and y
    by (induction xs) auto
  note snoc = this
  show ?thesis
  proof (cases "head_of st u")
    case None
    then show ?thesis by (auto simp: accept_revision_def) (auto simp: head_of_def snoc split: option.splits)
  next
    case (Some h)
    then show ?thesis by (simp add: accept_revision_def head_of_set_head)
  qed
qed

lemma accept_revision_fields [simp]:
  "ku_revisions (accept_revision u n f e a st) = ku_revisions st" "ku_bindings (accept_revision u n f e a st) = ku_bindings st"
  "ku_supersessions (accept_revision u n f e a st) = ku_supersessions st"
  "ku_suppressions (accept_revision u n f e a st) = ku_suppressions st"
  "ku_generation (accept_revision u n f e a st) = ku_generation st"
  by (simp_all add: accept_revision_def)

lemma accept_revision_units:
  "distinct (map kh_unit (ku_heads st)) \<Longrightarrow> distinct (map kh_unit (ku_heads (accept_revision u n f e a st)))"
  by (auto simp: accept_revision_def set_head_units head_of_None)

lemma apply_content_ok:
  assumes wf: "units_wf st" and lock: "lock_head st x = Inr head" and content: "kpn_operation x \<in> {OpCreate, OpRevise}"
    and n: "n = (case head of None \<Rightarrow> 1 | Some h \<Rightarrow> kh_revision h + 1)"
    and same: "ku_heads st1 = ku_heads st" "ku_revisions st1 = ku_revisions st" "ku_generation st1 = ku_generation st"
      "ku_bindings st1 = ku_bindings st" "ku_supersessions st1 = ku_supersessions st" "ku_suppressions st1 = ku_suppressions st"
    and applied: "apply_content z c x n sources rdf st1 = Inr st'"
  shows "units_wf st' \<and> moves x st st'"
proof -
  let ?u = "kpn_unit_id x" and ?event = "kcx_event c (kpn_operation_id x)"
  have same_head: "head_of st1 = head_of st" using same(1) by (simp add: head_of_def fun_eq_iff)
  define st2 where "st2 = (if kpn_operation x = OpRevise then set_bindings (\<lambda>b. kb_unit b = ?u) st1 else st1)"
  obtain d where d: "kpn_document x = Some d"
    using applied by (cases "kpn_document x") (simp_all add: apply_content_def)
  define v where "v = \<lparr>kv_unit = ?u, kv_revision = n, kv_document = Some d, kv_source_digest = Some (kz_sources_digest z sources),
    kv_rdf_digest = Some rdf, kv_event = ?event, kv_unit_iri = unit_iri z ?u, kv_revision_iri = revision_iri z ?u n,
    kv_contract = Dk2, kv_access_scope = kdd_access_scope d, kv_payload_erased = False\<rparr>"
  have v: "kv_unit v = ?u" "kv_revision v = n" by (simp_all add: v_def)
  have fresh: "\<not> list_ex (\<lambda>h. kh_lifecycle h = LifeActive \<and> kh_fingerprint h = kz_document_digest z d \<and> kh_unit h \<noteq> ?u) (ku_heads st1)"
    and "revision_of st1 ?u n = None"
    using applied by (simp_all add: apply_content_def d Let_def split: if_splits)
  then have "andThen (insert_bindings z (kcx_binding_id c (kpn_operation_id x)) (kpn_binding_pins x) ?u n 0 (kdd_bindings d)
      (st2\<lparr>ku_revisions := ku_revisions st2 @ [v]\<rparr>))
      (\<lambda>st. Inr (accept_revision ?u n (kz_document_digest z d) ?event (kdd_access_scope d) st)) = Inr st'"
    using applied by (simp add: apply_content_def d Let_def st2_def v_def)
  then obtain st3 where st3: "inserted ?u n (st2\<lparr>ku_revisions := ku_revisions st2 @ [v]\<rparr>) st3"
    and st': "st' = accept_revision ?u n (kz_document_digest z d) ?event (kdd_access_scope d) st3"
    unfolding andThen_Inr using insert_bindings_inserted by blast
  note frame = inserted_frame [OF st3]
  have st2: "ku_heads st2 = ku_heads st" "ku_revisions st2 = ku_revisions st" "ku_generation st2 = ku_generation st"
    "ku_supersessions st2 = ku_supersessions st" "ku_suppressions st2 = ku_suppressions st"
    "map kb_id (ku_bindings st2) = map kb_id (ku_bindings st)" "head_of st2 = head_of st"
    using same same_head by (simp_all add: st2_def)
  have ok: "unit_ok st w" for w using wf by (simp add: units_wf_def)
  have heads: "head_of st' w = (if w = ?u then head_of st' ?u else head_of st w)" for w
    by (simp add: st' head_of_accept frame st2)
  obtain g where g: "head_of st' ?u = Some g" "kh_revision g = n" "kh_active g" "kh_lifecycle g = LifeActive"
    "kh_fingerprint g = kz_document_digest z d"
    by (cases "head_of st ?u") (simp_all add: st' head_of_accept frame st2)
  have life: "head = head_of st ?u" "\<not> suppressed st ?u"
    "lifecycle_step (kpn_operation x) (unit_state st ?u) (Some (n, LifeActive))"
    using lock_head_Inr [OF lock] content n by (auto simp: unit_state_def lifecycle_step_simps)
  have suppressed': "suppressed st' = suppressed st" by (rule observed(3)) (simp add: st' frame st2)
  have revs: "revisions_of st' w = revisions_of st w @ (if w = ?u then [n] else [])" for w
    using v by (simp add: revisions_of_def st' frame st2)
  have bound': "bound st' w \<Longrightarrow> bound st w" if "w \<noteq> ?u" for w
  proof -
    assume "bound st' w"
    then have "bound st2 w" using frame(7) [OF that] by (simp add: st' bound_def)
    then show "bound st w" using same(4) unfolding st2_def bound_def set_bindings_def list_ex_iff by (auto split: if_splits)
  qed
  have distinct: "distinct (map kh_unit (ku_heads st'))" "distinct (map kb_id (ku_bindings st'))" "acyclic (succession st')"
    using wf frame(9) by (auto simp: st' units_wf_def accept_revision_units frame st2 succession_def)
  have others: "unit_ok st' w" if "w \<noteq> ?u" for w
    using that bound' by (intro unit_ok_frame [OF ok]) (simp_all add: heads revs suppressed')
  have "1 \<le> n \<and> revisions_of st ?u @ [n] = [1..n]"
  proof (cases "head_of st ?u")
    case None
    then show ?thesis using ok [of ?u] n life(1) by (simp add: unit_ok_def)
  next
    case (Some h)
    then have "1 \<le> kh_revision h" "revisions_of st ?u = [1..kh_revision h]" "n = kh_revision h + 1"
      using ok [of ?u] n life(1) by (simp_all add: unit_ok_def)
    then show ?thesis by (simp add: upto_rec2)
  qed
  then have changed: "unit_ok st' ?u" using g life(2) by (simp add: unit_ok_def revs suppressed')
  have "unique_active st'"
  proof -
    have live: "live_fingerprint st' w = (if w = ?u then Some (kz_document_digest z d) else live_fingerprint st w)" for w
      using g heads [of w] by (auto simp: live_fingerprint_def)
    have "live_fingerprint st w \<noteq> Some (kz_document_digest z d)" if "w \<noteq> ?u" for w
      using fresh that same(1) head_of_unit [of st w]
      by (auto simp: live_fingerprint_def list_ex_iff split: option.splits if_splits)
    then show ?thesis using wf unfolding units_wf_def unique_active_def live by (auto split: if_splits)
  qed
  moreover have "unit_ok st' w" for w using others changed by (cases "w = ?u") simp_all
  ultimately have "units_wf st'" using distinct unfolding units_wf_def by blast
  moreover have "unit_state st' ?u = Some (n, LifeActive)" using g by (simp add: unit_state_def)
  moreover have "unit_state st' w = unit_state st w" if "w \<noteq> ?u" for w
    using heads [of w] that by (simp add: unit_state_def)
  moreover have "ku_generation st' = ku_generation st" by (simp add: st' frame st2)
  moreover have "prefix (ku_revisions st) (ku_revisions st')" "prefix (ku_supersessions st) (ku_supersessions st')"
    by (simp_all add: st' frame st2)
  ultimately have "units_wf st'" "moves x st st'" using life(3) by (simp_all add: moves_def)
  then show ?thesis by blast
qed

lemma apply_operation_ok:
  assumes wf: "units_wf st" and applied: "apply_operation z c created x st = Inr (st', r)"
  shows "units_wf st' \<and> moves x st st'" "kap_operation r = kpn_operation x" "kap_unit_id r = kpn_unit_id x"
    "kap_operation_id r = kpn_operation_id x"
proof -
  obtain head s where lock: "lock_head st x = Inr head" and s: "successor z st created x = Inr s"
    using applied by (cases "lock_head st x"; cases "successor z st created x") (auto simp: apply_operation_def andThen_Inr)
  have head: "head = head_of st (kpn_unit_id x)" "kpn_operation x = OpCreate \<Longrightarrow> head = None"
    "kpn_operation x \<noteq> OpCreate \<Longrightarrow> \<exists>h. head = Some h"
    using lock_head_Inr [OF lock] by auto
  have "(units_wf st' \<and> moves x st st') \<and> kap_operation r = kpn_operation x \<and> kap_unit_id r = kpn_unit_id x \<and>
    kap_operation_id r = kpn_operation_id x"
  proof (cases "kpn_operation x = OpErase")
    case True
    then have "(st', r) = apply_erase z c x st"
      using applied lock s head by (auto simp: apply_operation_def)
    then have "st' = fst (apply_erase z c x st)" "r = snd (apply_erase z c x st)" by (metis fst_conv, metis snd_conv)
    with apply_erase_ok [OF wf lock True] show ?thesis by (simp add: apply_erase_def Let_def)
  next
    case False
    define n where "n = (case head of None \<Rightarrow> 1 | Some h \<Rightarrow> if kpn_operation x = OpRevise then kh_revision h + 1 else kh_revision h)"
    have numbered: "(case kpn_operation x of OpCreate \<Rightarrow> Inr 1
       | OpRevise \<Rightarrow> map_sum id (\<lambda>h. kh_revision h + 1) (ok_or head NotFound)
       | _ \<Rightarrow> map_sum id kh_revision (ok_or head NotFound)) = Inr n"
      using head by (cases "kpn_operation x") (auto simp: n_def)
    define effect where "effect es sources rdf = (case kpn_operation x of
           OpRevalidate \<Rightarrow> apply_revalidation z c x n sources (st\<lparr>ku_events := es\<rparr>)
         | OpSupersede \<Rightarrow> andThen (ok_or s InvalidArguments) (\<lambda>s. apply_supersession z c x s (st\<lparr>ku_events := es\<rparr>))
         | OpRetract \<Rightarrow> Inr (apply_retraction c x (st\<lparr>ku_events := es\<rparr>))
         | _ \<Rightarrow> apply_content z c x n sources rdf (st\<lparr>ku_events := es\<rparr>))" for es sources rdf
    obtain es sources rdf where effect: "effect es sources rdf = Inr st'"
      and r: "kap_operation r = kpn_operation x" "kap_unit_id r = kpn_unit_id x" "kap_operation_id r = kpn_operation_id x"
      using applied False unfolding apply_operation_def lock andThen_simps numbered s Let_def if_not_P [OF False]
        effect_def [symmetric] andThen_Inr
      by (elim exE conjE) (simp only: sum.inject prod.inject, elim conjE, hypsubst, rule that, assumption, simp_all)
    note effect = effect [unfolded effect_def]
    let ?st1 = "st\<lparr>ku_events := es\<rparr>"
    have wf1: "units_wf ?st1" using wf by simp
    have lock1: "lock_head ?st1 x = Inr head" using lock by simp
    have moves1: "moves x ?st1 st' = moves x st st'" by (simp add: moves_def unit_state_def)
    consider (content) "kpn_operation x \<in> {OpCreate, OpRevise}" | (revalidate) "kpn_operation x = OpRevalidate"
      | (supersede) "kpn_operation x = OpSupersede" | (retract) "kpn_operation x = OpRetract"
      using False by (cases "kpn_operation x") auto
    then have "units_wf st' \<and> moves x st st'"
    proof cases
      case content
      then have "apply_content z c x n sources rdf ?st1 = Inr st'" "n = (case head of None \<Rightarrow> 1 | Some h \<Rightarrow> kh_revision h + 1)"
        using effect head(2) by (auto simp: n_def split: option.splits)
      then show ?thesis by (intro apply_content_ok [OF wf lock content]) simp_all
    next
      case revalidate
      then show ?thesis using apply_revalidation_ok [OF wf1 lock1 revalidate] effect moves1 by simp
    next
      case supersede
      then obtain t where "s = Some t" "apply_supersession z c x t ?st1 = Inr st'"
        using effect by (cases s) auto
      then show ?thesis using s by (intro apply_supersession_ok [OF wf lock supersede]) simp_all
    next
      case retract
      then show ?thesis using apply_retraction_ok [OF wf1 lock1 retract, of st' c] effect moves1 by simp
    qed
    with r show ?thesis by blast
  qed
  then show "units_wf st' \<and> moves x st st'" "kap_operation r = kpn_operation x" "kap_unit_id r = kpn_unit_id x"
    "kap_operation_id r = kpn_operation_id x" by blast+
qed

text \<open>A list of operations, each a step of its unit's lifecycle\<close>

inductive lifecycle_run :: "planned_operation list \<Rightarrow> (uuid \<Rightarrow> unit_state) \<Rightarrow> (uuid \<Rightarrow> unit_state) \<Rightarrow> bool" where
  finished: "lifecycle_run [] a a"
| stepped: "lifecycle_step (kpn_operation x) (a (kpn_unit_id x)) b \<Longrightarrow> lifecycle_run xs (a(kpn_unit_id x := b)) c \<Longrightarrow>
    lifecycle_run (x # xs) a c"

inductive_cases lifecycle_run_ConsE: "lifecycle_run (x # xs) a c"
inductive_cases lifecycle_run_NilE: "lifecycle_run [] a c"

lemma apply_operations_ok:
  assumes "units_wf st" "apply_operations z c created xs st = Inr (st', rs)"
  shows "units_wf st' \<and> lifecycle_run xs (unit_state st) (unit_state st') \<and> ku_generation st' = ku_generation st \<and>
    prefix (ku_revisions st) (ku_revisions st') \<and> prefix (ku_supersessions st) (ku_supersessions st') \<and>
    map kap_operation rs = map kpn_operation xs \<and> map kap_unit_id rs = map kpn_unit_id xs"
  using assms
proof (induction xs arbitrary: st created rs)
  case Nil
  then show ?case by (simp add: lifecycle_run.intros)
next
  case (Cons x xs)
  obtain st1 r created' rs' where first: "apply_operation z c created x st = Inr (st1, r)"
    and rest: "apply_operations z c created' xs st1 = Inr (st', rs')" and rs: "rs = r # rs'"
    using Cons.prems(2) by (auto simp: andThen_Inr split: prod.splits)
  note one = apply_operation_ok [OF Cons.prems(1) first]
  note others = Cons.IH [OF conjunct1 [OF one(1)] rest]
  have "unit_state st1 = (unit_state st)(kpn_unit_id x := unit_state st1 (kpn_unit_id x))"
    using one(1) by (auto simp: moves_def)
  with one(1) others have "lifecycle_run (x # xs) (unit_state st) (unit_state st')"
    by (metis lifecycle_run.stepped moves_def)
  with one others rs show ?case by (simp add: moves_def) (meson prefix_order.trans)
qed

section \<open>A commit\<close>

definition erased_units :: "planned_operation list \<Rightarrow> uuid set" where
  "erased_units ops = kpn_unit_id ` set (filter (\<lambda>x. kpn_operation x = OpErase) ops)"

definition marked :: "bool \<Rightarrow> unit_state \<Rightarrow> unit_state" where
  "marked gone = map_option (\<lambda>(n, life). (n, if gone then LifeErased else LifeErasurePending))"

lemma marked_simps [simp]: "marked gone (marked gone' s) = marked gone s" "marked gone None = None"
  "marked gone (Some (n, life)) = Some (n, if gone then LifeErased else LifeErasurePending)"
  by (cases s; auto simp: marked_def)+

definition settled_state :: "(uuid \<Rightarrow> bool) \<Rightarrow> planned_operation list \<Rightarrow> (uuid \<Rightarrow> unit_state) \<Rightarrow> uuid \<Rightarrow> unit_state" where
  "settled_state gone ops a u = (if u \<in> erased_units ops then marked (gone u) (a u) else a u)"

abbreviation erasing :: "lifecycle_state set" where "erasing \<equiv> {LifeErasurePending, LifeErased}"

lemma suppressed_state:
  assumes "units_wf st"
  shows "suppressed st u \<longleftrightarrow> (\<exists>n life. unit_state st u = Some (n, life) \<and> life \<in> erasing)"
proof -
  have "unit_ok st u" using assms by (simp add: units_wf_def)
  then show ?thesis by (cases "head_of st u") (auto simp: unit_ok_def unit_state_def)
qed

lemma suppressed_map: "suppressed st u \<longleftrightarrow> u \<in> set (map ksl_unit (ku_suppressions st))"
  by (auto simp: suppressed_def list_ex_iff)

lemma lifecycle_step_final: "lifecycle_step operation (Some (n, life)) b \<Longrightarrow> life \<notin> erasing"
  by (cases operation) (auto simp: lifecycle_step_simps)

lemma lifecycle_run_keeps_erased:
  "lifecycle_run xs a b \<Longrightarrow> a u = Some (n, life) \<Longrightarrow> life \<in> erasing \<Longrightarrow> b u = a u \<and> u \<notin> kpn_unit_id ` set xs"
proof (induction xs a b rule: lifecycle_run.induct)
  case (finished a)
  then show ?case by simp
next
  case (stepped x a b xs c)
  then have "u \<noteq> kpn_unit_id x" using lifecycle_step_final by metis
  with stepped show ?case by auto
qed

lemma lifecycle_run_erases:
  "lifecycle_run xs a b \<Longrightarrow> u \<in> erased_units xs \<Longrightarrow> \<exists>n. b u = Some (n, LifeErasurePending)"
proof (induction xs a b rule: lifecycle_run.induct)
  case (finished a)
  then show ?case by (simp add: erased_units_def)
next
  case (stepped x a b xs c)
  show ?case
  proof (cases "kpn_operation x = OpErase \<and> u = kpn_unit_id x")
    case True
    then obtain n where "b = Some (n, LifeErasurePending)" using stepped.hyps(1) by (auto simp: lifecycle_step_simps)
    with True lifecycle_run_keeps_erased [OF stepped.hyps(2), of u] show ?thesis by simp
  next
    case False
    then have "u \<in> erased_units xs" using stepped.prems by (auto simp: erased_units_def split: if_splits)
    then show ?thesis by (rule stepped.IH)
  qed
qed

lemma lifecycle_run_revisions:
  "lifecycle_run xs a b \<Longrightarrow> a u = Some (n, life) \<Longrightarrow> \<exists>m life'. b u = Some (m, life') \<and> n \<le> m"
proof (induction xs a b arbitrary: n life rule: lifecycle_run.induct)
  case (finished a)
  then show ?case by simp
next
  case (stepped x a b xs c)
  have "\<exists>m life'. (a(kpn_unit_id x := b)) u = Some (m, life') \<and> n \<le> m"
    using stepped.hyps(1) stepped.prems by (cases "kpn_operation x") (auto simp: lifecycle_step_simps)
  then show ?case using stepped.IH by (meson order.trans)
qed

text \<open>Redaction: nothing readable is left of the unit, and nothing else changes.\<close>

definition redacted_head :: "uuid \<Rightarrow> unit_head \<Rightarrow> unit_head" where
  "redacted_head u h = (if head_readable u h then h\<lparr>kh_fingerprint := ''[erased]'', kh_payload_erased := True\<rparr> else h)"

lemma redacted_head_fields [simp]: "kh_unit (redacted_head u h) = kh_unit h" "kh_revision (redacted_head u h) = kh_revision h"
  "kh_active (redacted_head u h) = kh_active h" "kh_lifecycle (redacted_head u h) = kh_lifecycle h"
  by (simp_all add: redacted_head_def)

lemma redact_heads: "ku_heads (redact_canonical u st) = ku_heads (set_head u (redacted_head u) st)"
  by (auto simp: redact_canonical_def set_head_def redacted_head_def head_readable_def)

lemma redact_frame [simp]:
  "ku_generation (redact_canonical u st) = ku_generation st" "ku_erasure_sequence (redact_canonical u st) = ku_erasure_sequence st"
  "ku_bindings (redact_canonical u st) = ku_bindings st" "ku_supersessions (redact_canonical u st) = ku_supersessions st"
  "ku_suppressions (redact_canonical u st) = ku_suppressions st"
  "map (\<lambda>v. (kv_unit v, kv_revision v)) (ku_revisions (redact_canonical u st)) = map (\<lambda>v. (kv_unit v, kv_revision v)) (ku_revisions st)"
  by (simp_all add: redact_canonical_def)

lemma filter_map_cleared: "(\<And>x. P x \<Longrightarrow> \<not> P (f x)) \<Longrightarrow> filter P (map (\<lambda>x. if P x then f x else x) xs) = []"
  by (induction xs) auto

lemma redact_unreadable: "readable_rows u (redact_canonical u st) = 0"
  by (simp add: readable_rows_def redact_canonical_def filter_map_cleared head_readable_def revision_readable_def
      event_readable_def validation_readable_def)

lemma map_unless: "filter P xs = [] \<Longrightarrow> map (\<lambda>x. if P x then f x else x) xs = xs"
  by (induction xs) (auto split: if_splits)

lemma redact_none: "readable_rows u st = 0 \<Longrightarrow> redact_canonical u st = st"
  by (simp add: readable_rows_def redact_canonical_def map_unless)

lemma suppress_owned_unit_eq:
  "suppress_owned_unit before after u st = (redact_canonical u st, readable_rows u st + before u = 0 \<or> after u = 0)"
  by (simp add: suppress_owned_unit_def redact_none redact_unreadable Let_def)

abbreviation keys :: "unit_store \<Rightarrow> (uuid \<times> int) list" where
  "keys st \<equiv> map (\<lambda>v. (kv_unit v, kv_revision v)) (ku_revisions st)"

lemma revisions_of_keys: "revisions_of st u = map snd (filter (\<lambda>k. fst k = u) (keys st))"
  by (simp add: revisions_of_def filter_map comp_def)

lemma finish_erasure_ok:
  assumes wf: "units_wf st" and u: "suppressed st u"
  shows "units_wf (finish_erasure before after u st)" "suppressed (finish_erasure before after u st) = suppressed st"
    "unit_state (finish_erasure before after u st) =
      (unit_state st)(u := marked (readable_rows u st + before u = 0 \<or> after u = 0) (unit_state st u))"
    "ku_generation (finish_erasure before after u st) = ku_generation st" "keys (finish_erasure before after u st) = keys st"
    "ku_supersessions (finish_erasure before after u st) = ku_supersessions st"
proof -
  let ?st' = "finish_erasure before after u st"
  define gone where "gone = (readable_rows u st + before u = 0 \<or> after u = 0)"
  let ?life = "if gone then LifeErased else LifeErasurePending"
  have shape: "?st' = (let st = set_head u (\<lambda>h. h\<lparr>kh_lifecycle := ?life\<rparr>) (redact_canonical u st) in
     st\<lparr>ku_suppressions := map (\<lambda>s. if ksl_unit s = u then s\<lparr>ksl_lifecycle := ?life, ksl_copies_ready := gone\<rparr> else s)
       (ku_suppressions st)\<rparr>)"
    by (simp add: finish_erasure_def suppress_owned_unit_eq gone_def Let_def)
  have "head_of (redact_canonical u st) v = (if v = u then map_option (redacted_head u) (head_of st u) else head_of st v)" for v
    using head_of_set_head [of "redacted_head u" u st v] redact_heads [of u st] by (simp add: head_of_def)
  then have heads: "head_of ?st' v = (if v = u then map_option (\<lambda>h. (redacted_head u h)\<lparr>kh_lifecycle := ?life\<rparr>) (head_of st u)
      else head_of st v)" for v
    by (simp add: shape Let_def head_of_set_head option.map_comp comp_def)
  show tables: "ku_generation ?st' = ku_generation st" "keys ?st' = keys st"
    "ku_supersessions ?st' = ku_supersessions st" by (simp_all add: shape Let_def)
  have bindings: "ku_bindings ?st' = ku_bindings st" by (simp add: shape Let_def)
  have "map ksl_unit (ku_suppressions ?st') = map ksl_unit (ku_suppressions st)" by (simp add: shape Let_def)
  then show suppressed': "suppressed ?st' = suppressed st"
    by (simp add: suppressed_map fun_eq_iff del: set_map)
  show "unit_state ?st' = (unit_state st)(u := marked (readable_rows u st + before u = 0 \<or> after u = 0) (unit_state st u))"
    unfolding gone_def [symmetric] by (auto simp: fun_eq_iff unit_state_def heads marked_def option.map_comp comp_def)
  have revisions: "revisions_of ?st' = revisions_of st" by (simp add: revisions_of_keys tables(2) fun_eq_iff)
  note same = revisions observed(2) [OF bindings] observed(4) [OF tables(3)] suppressed'
  have ok: "unit_ok st v" for v using wf by (simp add: units_wf_def)
  obtain h where h: "head_of st u = Some h" "kh_lifecycle h \<in> erasing" "\<not> kh_active h" "\<not> bound st u"
    using ok [of u] u by (cases "head_of st u") (auto simp: unit_ok_def)
  have units: "map kh_unit (ku_heads ?st') = map kh_unit (ku_heads st)"
    by (simp add: shape Let_def set_head_units redact_heads)
  show "units_wf ?st'"
  proof (rule units_wf_head [OF wf, where u = u])
    show "distinct (map kh_unit (ku_heads ?st'))" using wf units by (simp add: units_wf_def)
    show "unit_ok ?st' v" if "v \<noteq> u" for v using that by (intro unit_ok_frame [OF ok]) (simp_all add: heads same)
    show "unit_ok ?st' u" using ok [of u] h u by (simp add: unit_ok_def heads same)
    show "live_fingerprint ?st' u \<in> {None, live_fingerprint st u}" using h by (simp add: live_fingerprint_def heads)
  qed (use wf heads in \<open>simp_all add: units_wf_def bindings same\<close>)
qed

text \<open>What is readable of the other units is left alone.\<close>

lemma readable_set_head:
  assumes "\<And>h. kh_unit (f h) = kh_unit h" "v \<noteq> u"
  shows "filter (head_readable v) (ku_heads (set_head u f st)) = filter (head_readable v) (ku_heads st)"
proof -
  have "filter (head_readable v) (map (\<lambda>h. if kh_unit h = u then f h else h) hs) = filter (head_readable v) hs" for hs
    using assms by (induction hs) (auto simp: head_readable_def)
  then show ?thesis by (simp add: set_head_def)
qed

lemma filter_map_other: "(\<And>x. P x \<Longrightarrow> Q x \<Longrightarrow> False) \<Longrightarrow> (\<And>x. Q x \<Longrightarrow> \<not> P (f x)) \<Longrightarrow>
    filter P (map (\<lambda>x. if Q x then f x else x) xs) = filter P xs"
  by (induction xs) auto

lemma finish_erasure_readable:
  "readable_rows v (finish_erasure before after u st) = (if v = u then 0 else readable_rows v st)"
proof (cases "v = u")
  case True
  have "filter (head_readable u) (map (\<lambda>h. if kh_unit h = u then f h else h) hs) = [] \<longleftrightarrow> filter (head_readable u) hs = []"
    if "\<And>h. head_readable u (f h) = head_readable u h" for f hs using that by (induction hs) auto
  then have "filter (head_readable u) (ku_heads (set_head u (\<lambda>h. h\<lparr>kh_lifecycle := life\<rparr>) (redact_canonical u st))) = []" for life
    using redact_unreadable [of u st] by (simp add: set_head_def head_readable_def readable_rows_def)
  with True redact_unreadable [of u st] show ?thesis
    by (simp add: finish_erasure_def suppress_owned_unit_eq Let_def readable_rows_def)
next
  case False
  have "filter (head_readable v) (ku_heads (redact_canonical u st)) = filter (head_readable v) (ku_heads st)"
    "filter (revision_readable v) (ku_revisions (redact_canonical u st)) = filter (revision_readable v) (ku_revisions st)"
    "filter (event_readable v) (ku_events (redact_canonical u st)) = filter (event_readable v) (ku_events st)"
    "filter (validation_readable v) (ku_validations (redact_canonical u st)) = filter (validation_readable v) (ku_validations st)"
    using False
    by (simp_all add: redact_canonical_def)
      (rule filter_map_other;
        auto simp: head_readable_def revision_readable_def event_readable_def validation_readable_def)+
  then have "readable_rows v (redact_canonical u st) = readable_rows v st" by (simp add: readable_rows_def)
  with False show ?thesis
    by (simp add: finish_erasure_def suppress_owned_unit_eq Let_def readable_rows_def readable_set_head)
qed

lemma finish_erasures_ok:
  assumes "units_wf st" "list_all (suppressed st) us"
  shows "\<exists>gone. units_wf (fold (finish_erasure before after) us st) \<and>
    ku_generation (fold (finish_erasure before after) us st) = ku_generation st \<and>
    keys (fold (finish_erasure before after) us st) = keys st \<and>
    ku_supersessions (fold (finish_erasure before after) us st) = ku_supersessions st \<and>
    unit_state (fold (finish_erasure before after) us st) =
      (\<lambda>u. if u \<in> set us then marked (gone u) (unit_state st u) else unit_state st u) \<and>
    (\<forall>u. after u \<le> before u \<longrightarrow> gone u = (after u = 0)) \<and>
    (\<forall>u. readable_rows u (fold (finish_erasure before after) us st) = (if u \<in> set us then 0 else readable_rows u st))"
  using assms
proof (induction us arbitrary: st)
  case Nil
  then show ?case by (auto intro: exI [of _ "\<lambda>u. after u = 0"])
next
  case (Cons u us)
  have "suppressed st u" using Cons.prems(2) by simp
  note first = finish_erasure_ok [OF Cons.prems(1) this, of before after]
  have "list_all (suppressed (finish_erasure before after u st)) us" using Cons.prems(2) first(2) by simp
  from Cons.IH [OF first(1) this] obtain gone where rest:
    "units_wf (fold (finish_erasure before after) us (finish_erasure before after u st))"
    "ku_generation (fold (finish_erasure before after) us (finish_erasure before after u st)) = ku_generation st"
    "keys (fold (finish_erasure before after) us (finish_erasure before after u st)) = keys st"
    "ku_supersessions (fold (finish_erasure before after) us (finish_erasure before after u st)) = ku_supersessions st"
    "unit_state (fold (finish_erasure before after) us (finish_erasure before after u st)) = (\<lambda>v. if v \<in> set us
      then marked (gone v) (unit_state (finish_erasure before after u st) v) else unit_state (finish_erasure before after u st) v)"
    "\<forall>u. after u \<le> before u \<longrightarrow> gone u = (after u = 0)"
    "\<forall>v. readable_rows v (fold (finish_erasure before after) us (finish_erasure before after u st)) =
      (if v \<in> set us then 0 else readable_rows v (finish_erasure before after u st))"
    by (auto simp: first)
  let ?gone = "\<lambda>v. if v \<in> set us then gone v else readable_rows v st + before v = 0 \<or> after v = 0"
  show ?case
    by (rule exI [of _ ?gone]) (use rest in \<open>auto simp: first(3) finish_erasure_readable fun_eq_iff\<close>)
qed

lemma receipts_erased:
  assumes "map kap_operation rs = map kpn_operation xs" "map kap_unit_id rs = map kpn_unit_id xs"
  shows "set (map kap_unit_id (filter (\<lambda>r. kap_operation r = OpErase) rs)) = erased_units xs"
proof -
  have "map kap_unit_id (filter (\<lambda>r. kap_operation r = OpErase) rs) = map kpn_unit_id (filter (\<lambda>x. kpn_operation x = OpErase) xs)"
    using assms
  proof (induction rs arbitrary: xs)
    case (Cons r rs)
    then show ?case by (cases xs) auto
  qed auto
  then show ?thesis by (simp only: erased_units_def set_map)
qed

lemma units_wf_generation [simp]: "units_wf (st\<lparr>ku_generation := n\<rparr>) = units_wf st"
  "unit_state (st\<lparr>ku_generation := n\<rparr>) = unit_state st" "suppressed (st\<lparr>ku_generation := n\<rparr>) = suppressed st"
proof -
  have same: "revisions_of (st\<lparr>ku_generation := n\<rparr>) = revisions_of st" "bound (st\<lparr>ku_generation := n\<rparr>) = bound st"
    "succession (st\<lparr>ku_generation := n\<rparr>) = succession st"
    by (simp_all add: revisions_of_def bound_def succession_def fun_eq_iff)
  show fresh: "suppressed (st\<lparr>ku_generation := n\<rparr>) = suppressed st" by (simp add: suppressed_def fun_eq_iff)
  show "unit_state (st\<lparr>ku_generation := n\<rparr>) = unit_state st" by (simp add: unit_state_def fun_eq_iff)
  have "unit_ok (st\<lparr>ku_generation := n\<rparr>) u = unit_ok st u" for u
    by (cases "head_of st u") (simp_all add: unit_ok_def same fresh)
  then show "units_wf (st\<lparr>ku_generation := n\<rparr>) = units_wf st"
    by (simp add: units_wf_def unique_active_def live_fingerprint_def same)
qed

text \<open>An operation leaves what is readable of other units alone.\<close>

lemma insert_bindings_readable: "inserted u n st st' \<Longrightarrow> readable_rows v st' = readable_rows v st"
  by (auto simp: inserted_def readable_rows_def)

lemma readable_set_bindings [simp]: "readable_rows v (set_bindings p st) = readable_rows v st"
  by (simp add: readable_rows_def set_bindings_def)

lemma readable_append:
  "kh_unit h \<noteq> v \<Longrightarrow> \<not> head_readable v h" "kv_unit r \<noteq> v \<Longrightarrow> \<not> revision_readable v r"
  "kev_unit e \<noteq> v \<Longrightarrow> \<not> event_readable v e" "kva_unit a \<noteq> v \<Longrightarrow> \<not> validation_readable v a"
  by (simp_all add: head_readable_def revision_readable_def event_readable_def validation_readable_def)

lemma accept_revision_readable:
  "v \<noteq> u \<Longrightarrow> readable_rows v (accept_revision u n f e a st) = readable_rows v st"
  by (simp add: accept_revision_def readable_rows_def readable_set_head readable_append)

lemma apply_content_readable:
  assumes "apply_content z c x n sources rdf st = Inr st'" "v \<noteq> kpn_unit_id x"
  shows "readable_rows v st' = readable_rows v st"
  using assms
  by (auto simp: apply_content_def andThen_Inr ok_or_Inr Let_def accept_revision_readable
      dest!: insert_bindings_inserted [THEN insert_bindings_readable, where v = v] split: if_splits)
    (simp_all add: readable_rows_def readable_append)

lemma apply_supersession_readable:
  assumes "apply_supersession z c x s st = Inr st'" "v \<noteq> kpn_unit_id x"
  shows "readable_rows v st' = readable_rows v st"
  using assms
  by (auto simp: apply_supersession_def andThen_Inr ok_or_Inr Let_def
      dest!: insert_bindings_inserted [THEN insert_bindings_readable, where v = v])
    (simp_all add: readable_rows_def readable_set_head set_bindings_def)

lemma apply_operation_readable:
  assumes "apply_operation z c created x st = Inr (st', r)" "v \<noteq> kpn_unit_id x"
  shows "readable_rows v st' = readable_rows v st"
proof -
  have event: "kev_unit e = kpn_unit_id x \<Longrightarrow> readable_rows v (st\<lparr>ku_events := ku_events st @ [e]\<rparr>) = readable_rows v st" for e
    using assms(2) by (simp add: readable_rows_def readable_append)
  show ?thesis
  proof (cases "kpn_operation x = OpErase")
    case True
    then have "st' = fst (apply_erase z c x st)"
      using assms(1) by (auto simp: apply_operation_def andThen_Inr split: if_splits)
    then show ?thesis using assms(2) by (simp add: apply_erase_def Let_def readable_rows_def readable_set_head)
  next
    case False
    then obtain e n sources rdf s where e: "kev_unit e = kpn_unit_id x"
      and effect: "(case kpn_operation x of
           OpRevalidate \<Rightarrow> apply_revalidation z c x n sources (st\<lparr>ku_events := ku_events st @ [e]\<rparr>)
         | OpSupersede \<Rightarrow> andThen (ok_or s InvalidArguments) (\<lambda>s. apply_supersession z c x s (st\<lparr>ku_events := ku_events st @ [e]\<rparr>))
         | OpRetract \<Rightarrow> Inr (apply_retraction c x (st\<lparr>ku_events := ku_events st @ [e]\<rparr>))
         | _ \<Rightarrow> apply_content z c x n sources rdf (st\<lparr>ku_events := ku_events st @ [e]\<rparr>)) = Inr st'"
      using assms(1) unfolding apply_operation_def if_not_P [OF False] Let_def andThen_Inr
      by (elim exE conjE) (simp only: sum.inject prod.inject, elim conjE, hypsubst, rule that [rotated], assumption, simp)
    let ?st = "st\<lparr>ku_events := ku_events st @ [e]\<rparr>"
    have "readable_rows v st' = readable_rows v ?st"
    proof (cases "kpn_operation x")
      case OpRevalidate
      then show ?thesis using effect assms(2)
        by (auto simp: apply_revalidation_def andThen_Inr ok_or_Inr Let_def readable_rows_def readable_set_head readable_append)
    next
      case OpRetract
      then show ?thesis using effect assms(2)
        by (auto simp: apply_retraction_def Let_def readable_rows_def readable_set_head set_bindings_def)
    next
      case OpSupersede
      then show ?thesis using effect assms(2) by (auto simp: andThen_Inr ok_or_Inr dest: apply_supersession_readable)
    qed (use effect assms(2) False in \<open>auto dest: apply_content_readable\<close>)
    with event [OF e] show ?thesis by simp
  qed
qed

lemma apply_operations_readable:
  "apply_operations z c created xs st = Inr (st', rs) \<Longrightarrow> v \<notin> kpn_unit_id ` set xs \<Longrightarrow>
    readable_rows v st' = readable_rows v st"
proof (induction xs arbitrary: created st rs)
  case (Cons x xs)
  then obtain st1 r created' rs' where "apply_operation z c created x st = Inr (st1, r)"
    "apply_operations z c created' xs st1 = Inr (st', rs')"
    by (auto simp: andThen_Inr split: prod.splits)
  with Cons show ?case by (metis apply_operation_readable image_insert insertCI list.simps(15))
qed simp

lemma commit_units_ok:
  assumes wf: "units_wf st" and commit: "commit_units z c before after ops st = Inr (st', rs)"
  obtains ordered mid gone where "topo ops = Inr ordered" "lifecycle_run ordered (unit_state st) mid"
    "unit_state st' = settled_state gone ordered mid" "\<forall>u. after u \<le> before u \<longrightarrow> gone u = (after u = 0)"
    "units_wf st'" "ku_generation st' = ku_generation st + 1"
    "prefix (keys st) (keys st')" "prefix (ku_supersessions st) (ku_supersessions st')"
    "\<forall>u. u \<in> erased_units ordered \<longrightarrow> readable_rows u st' = 0"
    "\<forall>u. u \<notin> kpn_unit_id ` set ordered \<longrightarrow> readable_rows u st' = readable_rows u st"
    "map kap_unit_id rs = map kpn_unit_id ordered" "map kap_operation rs = map kpn_operation ordered"
proof -
  obtain ordered st1 where topo: "topo ops = Inr ordered" and run: "apply_operations z c [] ordered st = Inr (st1, rs)"
    and next_gen: "in_i64 (ku_generation st1 + 1)"
    and st': "st' = fold (finish_erasure before after) (map kap_unit_id (filter (\<lambda>r. kap_operation r = OpErase) rs))
      (st1\<lparr>ku_generation := ku_generation st1 + 1\<rparr>)"
    using commit by (auto simp: commit_units_def apply_changeset_def andThen_Inr ok_or_Inr checked_add_i64_Some)
  define us where "us = map kap_unit_id (filter (\<lambda>r. kap_operation r = OpErase) rs)"
  let ?st1 = "st1\<lparr>ku_generation := ku_generation st1 + 1\<rparr>"
  have applied: "units_wf st1" "lifecycle_run ordered (unit_state st) (unit_state st1)" "ku_generation st1 = ku_generation st"
    "prefix (ku_revisions st) (ku_revisions st1)" "prefix (ku_supersessions st) (ku_supersessions st1)"
    "map kap_operation rs = map kpn_operation ordered" "map kap_unit_id rs = map kpn_unit_id ordered"
    using apply_operations_ok [OF wf run] by auto
  have erased: "set us = erased_units ordered" unfolding us_def by (rule receipts_erased [OF applied(6,7)])
  have "list_all (suppressed ?st1) us"
    using lifecycle_run_erases [OF applied(2)] suppressed_state [OF applied(1)] by (fastforce simp: list_all_iff erased)
  have generation: "unit_state ?st1 = unit_state st1" "readable_rows u ?st1 = readable_rows u st1" "keys ?st1 = keys st1"
    "ku_supersessions ?st1 = ku_supersessions st1" "units_wf ?st1" "ku_generation ?st1 = ku_generation st1 + 1" for u
    using applied(1) by (simp_all add: readable_rows_def)
  from finish_erasures_ok [OF generation(5) \<open>list_all (suppressed ?st1) us\<close>, of before after, unfolded generation]
  obtain gone where finished: "units_wf st'"
    "ku_generation st' = ku_generation st1 + 1" "keys st' = keys st1" "ku_supersessions st' = ku_supersessions st1"
    "unit_state st' = (\<lambda>u. if u \<in> set us then marked (gone u) (unit_state st1 u) else unit_state st1 u)"
    "\<forall>u. after u \<le> before u \<longrightarrow> gone u = (after u = 0)"
    "\<forall>u. readable_rows u st' = (if u \<in> set us then 0 else readable_rows u st1)"
    unfolding st' us_def [symmetric] by blast
  show thesis
  proof (rule that [OF topo applied(2) _ finished(6,1)])
    show "unit_state st' = settled_state gone ordered (unit_state st1)"
      by (simp add: finished(5) erased settled_state_def fun_eq_iff)
    show "prefix (keys st) (keys st')" using applied(4) by (auto simp: finished(3) intro: map_mono_prefix)
    show "\<forall>u. u \<notin> kpn_unit_id ` set ordered \<longrightarrow> readable_rows u st' = readable_rows u st"
      using apply_operations_readable [OF run] erased by (auto simp: finished(7) erased_units_def)
  qed (use finished applied erased in simp_all)
qed

end
