(* ===== verification/UnitHistory.thy ===== *)
theory UnitHistory
  imports UnitLifecycle
begin

text \<open>
  Histories of commits to the store of knowledge units: every store that commits reach is well formed, a commit
  is a run of the lifecycle, and an erased unit stays erased. One binding that a supersession loses.
\<close>

section \<open>Histories of commits\<close>

inductive store_reaches :: "unit_store \<Rightarrow> unit_store \<Rightarrow> bool" where
  here: "store_reaches st st"
| committed: "store_reaches st st1 \<Longrightarrow> commit_units z c before after ops st1 = Inr (st2, rs) \<Longrightarrow> store_reaches st st2"

definition empty_store :: unit_store where
  "empty_store = \<lparr>ku_generation = 0, ku_erasure_sequence = 0, ku_heads = [], ku_revisions = [], ku_bindings = [],
     ku_supersessions = [], ku_suppressions = [], ku_events = [], ku_validations = []\<rparr>"

lemma empty_store_wf: "units_wf empty_store"
  by (auto simp: units_wf_def unit_ok_def empty_store_def head_of_def revisions_of_def bound_def suppressed_def
      succession_def unique_active_def live_fingerprint_def acyclic_def)

lemma reaches_wf: "store_reaches st st' \<Longrightarrow> units_wf st \<Longrightarrow> units_wf st'"
  by (induction rule: store_reaches.induct) (auto elim: commit_units_ok)

lemma commit_keeps_erased:
  assumes "units_wf st" "commit_units z c before after ops st = Inr (st', rs)" "unit_state st u = Some (n, life)" "life \<in> erasing"
  shows "unit_state st' u = Some (n, life)" "u \<notin> kpn_unit_id ` set ops" "readable_rows u st' = readable_rows u st"
proof -
  obtain ordered mid gone where c: "topo ops = Inr ordered" "lifecycle_run ordered (unit_state st) mid"
    "unit_state st' = settled_state gone ordered mid"
    and readable: "\<forall>u. u \<notin> kpn_unit_id ` set ordered \<longrightarrow> readable_rows u st' = readable_rows u st"
    using commit_units_ok [OF assms(1,2)] by metis
  have kept: "mid u = Some (n, life)" "u \<notin> kpn_unit_id ` set ordered"
    using lifecycle_run_keeps_erased [OF c(2) assms(3,4)] assms(3) by auto
  then have "u \<notin> erased_units ordered" by (auto simp: erased_units_def)
  with kept c(3) show "unit_state st' u = Some (n, life)" by (simp add: settled_state_def)
  show "u \<notin> kpn_unit_id ` set ops" using kept(2) topo_sound(1) [OF c(1)] by (metis set_mset_mset)
  show "readable_rows u st' = readable_rows u st" using readable kept(2) by blast
qed

lemma reaches_keeps_erased:
  assumes "store_reaches st st'" "units_wf st" "unit_state st u = Some (n, life)" "life \<in> erasing"
  shows "unit_state st' u = Some (n, life) \<and> readable_rows u st' = readable_rows u st"
  using assms
proof (induction rule: store_reaches.induct)
  case (committed st st1 z c before after ops st2 rs)
  then have "unit_state st1 u = Some (n, life)" "readable_rows u st1 = readable_rows u st" by auto
  with commit_keeps_erased [OF reaches_wf [OF committed.hyps(1) committed.prems(1)] committed.hyps(2)] committed.prems(3)
  show ?case by simp
qed simp


section \<open>Examples\<close>

definition example_store_env :: store_env where
  "example_store_env = \<lparr>kz_tenant = 100, kz_workspace = 101, kz_show_uuid = (\<lambda>_. ''u''), kz_publish = (\<lambda>_. Inr ''d''),
     kz_event_holds = (\<lambda>_ _ _ _. Inr ()), kz_legacy_loads = (\<lambda>_ _. False), kz_document_digest = kdd_title,
     kz_binding_digest = (\<lambda>_. ''b''), kz_sources_digest = (\<lambda>_. ''s''), kz_program = (\<lambda>_. True), kz_scope = (\<lambda>_. True),
     kz_slice = (\<lambda>_ _. True), kz_slice_definition = (\<lambda>_ _. None), kz_within = (\<lambda>_ _. True),
     kz_sources = kdd_sources example_document,
     kz_payloads = Inr [\<lparr>kpy_pin = \<lparr>ksp_source_index = 0, ksp_digest = ''p'', ksp_evidence_kind = EvidenceDocument,
       ksp_observed_at = None, ksp_evidence_scope = ''e'', ksp_source_iri = ''urn:s''\<rparr>, kpy_title = ''s'',
       kpy_uri = ''urn:s'', kpy_text = ''x''\<rparr>]\<rparr>"

definition example_context :: commit_context where
  "example_context = \<lparr>kcx_change = 50, kcx_principal = 51, kcx_session = 52, kcx_event = (\<lambda>i. i + 1000),
     kcx_binding_id = (\<lambda>i n. i + 2000 + of_nat n)\<rparr>"

definition example_erase :: "uuid \<Rightarrow> int \<Rightarrow> planned_operation" where
  "example_erase u n = (example_create u ''e'' [])\<lparr>kpn_operation := OpErase, kpn_expected_revision := Some n,
     kpn_expected_lifecycle := Some LifeActive, kpn_document := None\<rparr>"

definition example_unit_store :: unit_store where
  "example_unit_store = (case commit_units example_store_env example_context (\<lambda>_. 0) (\<lambda>_. 0)
     [example_create 1 ''x'' []] empty_store of Inr (st, _) \<Rightarrow> st | Inl _ \<Rightarrow> empty_store)"

lemma example_unit_created:
  "\<exists>rs. commit_units example_store_env example_context (\<lambda>_. 0) (\<lambda>_. 0) [example_create 1 ''x'' []] empty_store =
     Inr (example_unit_store, rs)"
  "head_of example_unit_store 1 = Some \<lparr>kh_unit = 1, kh_revision = 1, kh_active = True, kh_fingerprint = ''t'',
     kh_last_event = 1001, kh_validation_event = None, kh_contract = Dk2, kh_lifecycle = LifeActive,
     kh_access_scope = WorkspaceMembers, kh_payload_erased = False\<rparr>"
  "\<not> suppressed example_unit_store 1" "ku_generation example_unit_store = 1"
  unfolding example_unit_store_def
  by (simp_all add: commit_units_def apply_changeset_def topo_def topo_loop.simps example_create_def depends_within_def
      apply_operation_def lock_head_def suppressed_def empty_store_def head_of_def successor_def resolved_sources_def
      operation_sources_def example_store_env_def example_document_def source_payload_at_def upt_rec apply_content_def
      revision_of_def validate_binding_target_def target_exists_def example_context_def accept_revision_def
      binding_row_of_def checked_add_i64_def in_i64_def i64_min_def i64_max_def Let_def)

lemma example_unit_reached: "store_reaches empty_store example_unit_store"
proof -
  obtain rs where "commit_units example_store_env example_context (\<lambda>_. 0) (\<lambda>_. 0) [example_create 1 ''x'' []] empty_store =
      Inr (example_unit_store, rs)" using example_unit_created(1) by blast
  with store_reaches.here show ?thesis by (rule store_reaches.committed)
qed

lemma example_erase_accepted:
  assumes "in_i64 (ku_generation st + 1)" "\<not> suppressed st u" "head_of st u = Some h" "kh_lifecycle h = LifeActive"
  shows "\<exists>st' rs. commit_units z c before after [example_erase u (kh_revision h)] st = Inr (st', rs)"
proof -
  have "lock_head st (example_erase u (kh_revision h)) = Inr (Some h)"
    using assms by (simp add: lock_head_def example_erase_def example_create_def)
  then have "\<exists>st' r. apply_operation z c [] (example_erase u (kh_revision h)) st = Inr (st', r) \<and> ku_generation st' = ku_generation st"
    by (simp add: apply_operation_def successor_def example_erase_def example_create_def apply_erase_def Let_def)
  moreover have "topo [example_erase u (kh_revision h)] = Inr [example_erase u (kh_revision h)]"
    by (simp add: topo_def topo_loop.simps depends_within_def example_erase_def example_create_def)
  ultimately show ?thesis using assms(1) by (auto simp: commit_units_def apply_changeset_def checked_add_i64_def)
qed

section \<open>Properties\<close>

text \<open>
  C8: a commit is a run of the lifecycle. Its operations are ordered by their dependencies, none is left out, and
  each moves its unit, and no other, as the lifecycle allows: a unit is created at revision 1, a revision adds
  one and makes a retracted unit active again, and an erased unit is left alone. At the end an erased unit is
  marked as erased where no copy of its payload is left elsewhere, and as pending otherwise; the generation of
  the workspace has grown by one, and no revision number and no supersession has disappeared.
\<close>

theorem commit_refines_lifecycle:
  assumes "units_wf st" "after \<le> before" "commit_units z c before after ops st = Inr (st', rs)"
  shows "\<exists>ordered mid. topo ops = Inr ordered \<and> mset ordered = mset ops \<and> lifecycle_run ordered (unit_state st) mid \<and>
    unit_state st' = settled_state (\<lambda>u. after u = 0) ordered mid \<and> map kap_unit_id rs = map kpn_unit_id ordered \<and>
    ku_generation st' = ku_generation st + 1 \<and> prefix (keys st) (keys st') \<and>
    prefix (ku_supersessions st) (ku_supersessions st')"
proof -
  obtain ordered mid gone where c: "topo ops = Inr ordered" "lifecycle_run ordered (unit_state st) mid"
    "unit_state st' = settled_state gone ordered mid" "\<forall>u. after u \<le> before u \<longrightarrow> gone u = (after u = 0)"
    "ku_generation st' = ku_generation st + 1" "prefix (keys st) (keys st')"
    "prefix (ku_supersessions st) (ku_supersessions st')" "map kap_unit_id rs = map kpn_unit_id ordered"
    by (rule commit_units_ok [OF assms(1,3)])
  have "gone = (\<lambda>u. after u = 0)" using c(4) assms(2) by (auto simp: le_fun_def)
  with c topo_sound(1) [OF c(1)] show ?thesis by blast
qed

lemma commit_refines_lifecycle_witness:
  "\<exists>st'. unit_state st' 1 = Some (1, LifeErased) \<and> ku_generation st' = 2"
proof -
  have wf: "units_wf example_unit_store" using reaches_wf [OF example_unit_reached empty_store_wf] .
  obtain st' rs where commit: "commit_units example_store_env example_context (\<lambda>_. 0) (\<lambda>_. 0) [example_erase 1 1] example_unit_store =
      Inr (st', rs)"
    using example_erase_accepted [OF _ example_unit_created(3,2)] example_unit_created(4)
    by (fastforce simp: in_i64_def i64_min_def i64_max_def)
  have topo: "topo [example_erase 1 1] = Inr [example_erase 1 1]"
    by (simp add: topo_def topo_loop.simps depends_within_def example_erase_def example_create_def)
  from commit_refines_lifecycle [OF wf _ commit] obtain mid where mid: "lifecycle_run [example_erase 1 1] (unit_state example_unit_store) mid"
    "unit_state st' = settled_state (\<lambda>u. True) [example_erase 1 1] mid" "ku_generation st' = 2"
    by (auto simp: topo example_unit_created(4))
  have "mid 1 = Some (1, LifeErasurePending)"
    using mid(1) by (auto elim!: lifecycle_run_ConsE lifecycle_run_NilE
        simp: unit_state_def example_unit_created(2) example_erase_def example_create_def lifecycle_step_simps)
  then have "unit_state st' 1 = Some (1, LifeErased)"
    by (simp add: mid(2) settled_state_def erased_units_def example_erase_def example_create_def)
  with mid(3) show ?thesis by blast
qed

text \<open>
  C9: every store that commits reach from an empty one is well formed. The revisions of a unit are numbered from
  1 without a gap up to the accepted one, a unit is active exactly when its lifecycle says so, only an active
  unit has active bindings, the suppression ledger lists exactly the erased units, no two active units carry the
  same document, and the successions of units have no cycle.
\<close>

theorem units_reachable_wf:
  assumes "store_reaches empty_store st"
  shows "units_wf st"
  using reaches_wf [OF assms empty_store_wf] .

lemma units_reachable_wf_witness: "units_wf example_unit_store"
  by (rule units_reachable_wf [OF example_unit_reached])

text \<open>
  C10: once a commit has erased a unit, nothing readable of it is left in the tables of heads, revisions, events
  and validations, nothing is bound to it and its state is final: no later history of commits changes this, and
  every operation on it is refused.
\<close>

theorem erased_unit_never_returns:
  assumes "store_reaches empty_store st" "commit_units z c before after ops st = Inr (st1, rs)"
    and "x \<in> set ops" "kpn_operation x = OpErase" "store_reaches st1 st2"
  shows "suppressed st2 (kpn_unit_id x) \<and> readable_rows (kpn_unit_id x) st2 = 0 \<and> \<not> bound st2 (kpn_unit_id x) \<and>
    unit_state st2 (kpn_unit_id x) = unit_state st1 (kpn_unit_id x) \<and>
    lock_head st2 (y\<lparr>kpn_unit_id := kpn_unit_id x\<rparr>) = Inl KnowledgePayloadErased"
proof -
  let ?u = "kpn_unit_id x"
  obtain ordered mid gone where c: "topo ops = Inr ordered" "lifecycle_run ordered (unit_state st) mid"
    "unit_state st1 = settled_state gone ordered mid" "units_wf st1"
    and clean: "\<forall>u. u \<in> erased_units ordered \<longrightarrow> readable_rows u st1 = 0"
    using commit_units_ok [OF reaches_wf [OF assms(1) empty_store_wf] assms(2)] by metis
  have "set ordered = set ops" using topo_sound(1) [OF c(1)] by (metis set_mset_mset)
  then have erased: "?u \<in> erased_units ordered" using assms(3,4) by (auto simp: erased_units_def)
  then obtain n where "mid ?u = Some (n, LifeErasurePending)" using lifecycle_run_erases [OF c(2)] by blast
  then have "unit_state st1 ?u = Some (n, if gone ?u then LifeErased else LifeErasurePending)"
    using erased by (simp add: c(3) settled_state_def)
  then obtain life where state: "unit_state st1 ?u = Some (n, life)" "life \<in> erasing" by auto
  have later: "unit_state st2 ?u = Some (n, life)" "readable_rows ?u st2 = 0"
    using reaches_keeps_erased [OF assms(5) c(4) state] clean erased by auto
  have wf: "units_wf st2" by (rule reaches_wf [OF assms(5) c(4)])
  then have "suppressed st2 ?u" using later(1) state(2) suppressed_state by blast
  moreover have "\<not> bound st2 ?u"
    using wf later(1) state(2) by (auto simp: units_wf_def unit_ok_def unit_state_def dest!: spec [where x = ?u])
  ultimately show ?thesis using later state(1) by (simp add: lock_head_def)
qed

lemma erased_unit_never_returns_witness:
  "\<exists>st. suppressed st 1 \<and> readable_rows 1 st = 0 \<and>
    lock_head st ((example_create 9 ''y'' [])\<lparr>kpn_unit_id := 1\<rparr>) = Inl KnowledgePayloadErased"
proof -
  obtain st' rs where commit: "commit_units example_store_env example_context (\<lambda>_. 0) (\<lambda>_. 3) [example_erase 1 1] example_unit_store =
      Inr (st', rs)"
    using example_erase_accepted [OF _ example_unit_created(3,2)] example_unit_created(4)
    by (fastforce simp: in_i64_def i64_min_def i64_max_def)
  have x: "kpn_operation (example_erase 1 1) = OpErase" "kpn_unit_id (example_erase 1 1) = 1"
    by (simp_all add: example_erase_def example_create_def)
  show ?thesis
    using erased_unit_never_returns [OF example_unit_reached commit _ x(1) store_reaches.here, of "example_create 9 ''y'' []"]
    by (auto simp: x)
qed

section \<open>A binding that a supersession loses\<close>

text \<open>
  Unit 2 was bound to program 7 at its accepted revision, and this binding has been superseded away: its row is
  inactive. When unit 1, which is bound to the program since, is superseded by unit 2, the insertion of the moved
  binding meets the unique index, which ignores whether a row is active, and does nothing. Unit 1 is superseded
  and nothing is bound to the program any more.
\<close>

definition example_head :: "uuid \<Rightarrow> str \<Rightarrow> unit_head" where
  "example_head u f = \<lparr>kh_unit = u, kh_revision = 1, kh_active = True, kh_fingerprint = f, kh_last_event = 0,
     kh_validation_event = None, kh_contract = Dk2, kh_lifecycle = LifeActive, kh_access_scope = WorkspaceMembers,
     kh_payload_erased = False\<rparr>"

definition example_revision :: "uuid \<Rightarrow> revision_row" where
  "example_revision u = \<lparr>kv_unit = u, kv_revision = 1, kv_document = Some example_document, kv_source_digest = Some ''s'',
     kv_rdf_digest = Some ''d'', kv_event = 0, kv_unit_iri = [], kv_revision_iri = [], kv_contract = Dk2,
     kv_access_scope = WorkspaceMembers, kv_payload_erased = False\<rparr>"

definition program_binding :: document_binding where
  "program_binding = \<lparr>kdb_target = BindProgram 7, kdb_purpose = PurposeRequired, kdb_version_resolution = CurrentAccepted\<rparr>"

definition moving_store :: unit_store where
  "moving_store = empty_store\<lparr>ku_heads := [example_head 1 ''a'', example_head 2 ''b''],
     ku_revisions := [example_revision 1, example_revision 2],
     ku_bindings := [binding_row_of 11 1 1 program_binding None,
       (binding_row_of 12 2 1 program_binding None)\<lparr>kb_active := False\<rparr>]\<rparr>"

definition moving_operation :: planned_operation where
  "moving_operation = (example_create 5 ''s'' [])\<lparr>kpn_unit_id := 1, kpn_operation := OpSupersede, kpn_expected_revision := Some 1,
     kpn_expected_lifecycle := Some LifeActive, kpn_document := None,
     kpn_successor := Some \<lparr>ksu_unit_id = Some 2, ksu_operation_id = None\<rparr>, kpn_replacement_bindings := [program_binding]\<rparr>"

lemma moving_store_wf: "units_wf moving_store"
proof -
  have "unit_ok moving_store u" for u
    by (simp add: unit_ok_def moving_store_def empty_store_def head_of_def example_head_def revisions_of_def example_revision_def
        suppressed_def bound_def binding_row_of_def)
  moreover have "live_fingerprint moving_store u = (if u = 1 then Some ''a'' else if u = 2 then Some ''b'' else None)" for u
    by (simp add: live_fingerprint_def moving_store_def empty_store_def head_of_def example_head_def)
  then have "unique_active moving_store" by (simp add: unique_active_def)
  ultimately show ?thesis
    by (simp add: units_wf_def moving_store_def empty_store_def example_head_def binding_row_of_def succession_def acyclic_def)
qed

lemma moved_binding_lost:
  "case apply_operation example_store_env example_context [] moving_operation moving_store of
     Inl e \<Rightarrow> False
   | Inr (st', r) \<Rightarrow> bound moving_store 1 \<and> \<not> bound st' 1 \<and> \<not> bound st' 2 \<and>
       unit_state st' 1 = Some (1, LifeSuperseded) \<and> list_ex (\<lambda>s. kss_full s) (ku_supersessions st')"
  by (simp add: apply_operation_def lock_head_def suppressed_def moving_operation_def example_create_def moving_store_def
      empty_store_def head_of_def example_head_def successor_def succeeds_to_def succession_def eligible_unit_def revision_of_def
      example_revision_def example_store_env_def example_document_def effective_until_def latest_validation_def resolved_sources_def
      apply_supersession_def matching_binding_def binding_row_of_def program_binding_def validate_binding_target_def
      target_exists_def same_binding_def set_bindings_def set_head_def bound_def unit_state_def Let_def)

end
