(* ===== verification/KnowledgeRuns.thy ===== *)
theory KnowledgeRuns
  imports UnitLifecycle
begin

text \<open>
  The rows of a knowledge change and of its run (\<^verbatim>\<open>postgres/src/knowledge_lifecycle\<close>), and what is read from
  them when a phase writes: the envelope of an output (\<^verbatim>\<open>phase/guard.rs\<close>), the baseline and
  the receipts of the obligations (\<^verbatim>\<open>phase_data/baseline.rs\<close>) and the impact
  (\<^verbatim>\<open>phase_data/impact.rs\<close>). The store of units is shared with other changes. Not modelled here: the replay of a
  stored receipt, the owner check, the capability of the workspace, the registration of payload copies, and the
  special run that confirms an earlier erasure. SHA-256 of the JSON of a value, the resolution of sources, the
  rows of pipeline manifests and payload copies, and the maintenance tasks are parameters.
\<close>

section \<open>Rows\<close>

record change_output =
  kou_id :: uuid
  kou_phase :: kc_phase
  kou_revision :: int
  kou_content :: "(str \<times> agent_output) option"

record output_binding =
  kob_phase :: kc_phase
  kob_output :: uuid
  kob_revision :: int
  kob_stale :: bool

record change_attempt =
  kat_phase :: kc_phase
  kat_attempt :: nat
  kat_outcome :: phase_outcome
  kat_transition :: transition
  kat_output :: "uuid option"

record change_input =
  kin_id :: uuid
  kin_sequence :: int
  kin_revisit :: kc_phase
  kin_digest :: "str option"

record change_run =
  kr_definition :: kc_definition
  kr_registry :: profile_registry
  kr_revision :: int
  kr_mode :: delivery_mode
  kr_status :: run_status
  kr_current :: "kc_phase option"
  kr_baseline :: "baseline_manifest option"
  kr_plan :: "branch_plan option"
  kr_ready :: "ready_to_commit option"
  kr_review :: "review_outcome option"
  kr_receipt :: "publisher_receipt option"
  kr_erased_receipt :: "erased_publisher_receipt option"
  kr_effects :: "effects_report option"
  kr_erased_effects :: "erased_effects_report option"
  kr_result :: "change_result option"
  kr_erased_result :: "erased_result option"
  kr_erased :: bool
  kr_effect_rows :: "effect_receipt list"
  kr_outputs :: "change_output list"
  kr_bindings :: "output_binding list"
  kr_attempts :: "change_attempt list"
  kr_inputs :: "change_input list"

record change_payload =
  kcy_outcome :: str
  kcy_hints :: "operation_hint list"
  kcy_completion :: completion_requirement
  kcy_sources :: "source_ref list"
  kcy_pins :: "source_pin list"

record change_row =
  kcg_id :: uuid
  kcg_run :: uuid
  kcg_payload :: "change_payload option"
  kcg_source_revision :: int

record change_world =
  kwd_units :: unit_store
  kwd_change :: change_row
  kwd_rows :: "operation_row list"
  kwd_run :: change_run

text \<open>The payload of an output, absent once erased; a column without a value is not decoded\<close>

abbreviation kou_output :: "change_output \<Rightarrow> agent_output option" where
  "kou_output x \<equiv> map_option snd (kou_content x)"

definition payload_of :: "change_row \<Rightarrow> change_payload result" where
  "payload_of c = ok_or (kcg_payload c) StorageUnavailable"

text \<open>What the transaction reads from elsewhere, and the digests\<close>

record run_env =
  kn_store :: store_env
  kn_commit :: commit_context
  kn_resolve :: "source_ref list \<Rightarrow> int \<Rightarrow> source_payload list result"
  kn_output_digest :: "agent_output \<Rightarrow> str"
  kn_plan_digest :: "branch_plan \<Rightarrow> str"
  kn_changeset_digest :: "changeset \<Rightarrow> str"
  kn_baseline_digest :: "baseline_manifest \<Rightarrow> str"
  kn_pins_digest :: "source_pin list \<Rightarrow> str"
  kn_impact_digest :: "impact_plan \<Rightarrow> str"
  kn_input_digest :: "str \<times> str \<times> kc_phase \<times> basis_amendment option \<Rightarrow> str"
  kn_command_digest :: "branch_plan \<times> changeset \<times> evidence_manifest \<times> obligation_receipts \<times> impact_plan \<times>
    review_receipt \<times> baseline_manifest \<times> int \<times> int \<Rightarrow> str"
  kn_retained :: "uuid \<Rightarrow> str list option"
  kn_manifests :: "uuid list"
  kn_copies :: "uuid list"
  kn_linked :: "str list"
  kn_guard :: "revision_guard \<Rightarrow> unit result"
  kn_eligible :: "uuid \<Rightarrow> int \<Rightarrow> document_draft result"
  kn_published :: "uuid \<Rightarrow> int \<Rightarrow> uuid \<Rightarrow> bool \<Rightarrow> str result"
  kn_native :: "uuid \<Rightarrow> int \<Rightarrow> uuid \<Rightarrow> bool \<Rightarrow> str result"
  kn_search :: "uuid list \<Rightarrow> bool \<Rightarrow> effect_status"
  kn_before :: "uuid \<Rightarrow> nat"
  kn_rest :: "uuid \<Rightarrow> nat"
  kn_exported :: "int \<Rightarrow> bool"
  kn_covered :: "int \<Rightarrow> bool"
  kn_effect_id :: "effect_kind \<Rightarrow> uuid"
  kn_fresh :: uuid
  kn_receipt_digest :: "publisher_receipt \<Rightarrow> str"
  kn_promote :: "change_result \<Rightarrow> unit result"
  kn_document :: document_env
  kn_outputs :: "change_output list"

section \<open>Reading the outputs of a run\<close>

definition bound_output :: "change_run \<Rightarrow> kc_phase \<Rightarrow> change_output option" where
  "bound_output r p = Option.bind (find (\<lambda>b. kob_phase b = p \<and> \<not> kob_stale b) (kr_bindings r))
     (\<lambda>b. find (\<lambda>x. kou_id x = kob_output b) (kr_outputs r))"

definition load_phase_data :: "(agent_data \<Rightarrow> 'a option) \<Rightarrow> change_run \<Rightarrow> kc_phase \<Rightarrow> 'a result" where
  "load_phase_data f r p = andThen (ok_or (Option.bind (bound_output r p) kou_output) NeedsContext)
     (\<lambda>out. ok_or (f (kao_data out)) StorageUnavailable)"

definition phase_digest :: "change_run \<Rightarrow> kc_phase \<Rightarrow> str result" where
  "phase_digest r p = andThen (ok_or (bound_output r p) NeedsContext)
     (\<lambda>x. map_sum id fst (ok_or (kou_content x) NeedsContext))"

fun as_changeset :: "agent_data \<Rightarrow> changeset option" where
  "as_changeset (DataKcPrepareChange c) = Some c" | "as_changeset _ = None"

fun as_evidence :: "agent_data \<Rightarrow> evidence_manifest option" where
  "as_evidence (DataKcQualifyEvidence c) = Some c" | "as_evidence _ = None"

fun as_checks :: "agent_data \<Rightarrow> obligation_receipts option" where
  "as_checks (DataKcDomainChecks c) = Some c" | "as_checks _ = None"

fun as_impact :: "agent_data \<Rightarrow> impact_plan option" where
  "as_impact (DataKcImpactPlan c) = Some c" | "as_impact _ = None"

fun as_review :: "agent_data \<Rightarrow> review_receipt option" where
  "as_review (DataKcReviewReconcile c) = Some c" | "as_review _ = None"

abbreviation loaded_changeset :: "change_run \<Rightarrow> changeset result" where
  "loaded_changeset r \<equiv> load_phase_data as_changeset r KcPrepareChange"

abbreviation loaded_evidence :: "change_run \<Rightarrow> evidence_manifest result" where
  "loaded_evidence r \<equiv> load_phase_data as_evidence r KcQualifyEvidence"

abbreviation loaded_checks :: "change_run \<Rightarrow> obligation_receipts result" where
  "loaded_checks r \<equiv> load_phase_data as_checks r KcDomainChecks"

abbreviation loaded_impact :: "change_run \<Rightarrow> impact_plan result" where
  "loaded_impact r \<equiv> load_phase_data as_impact r KcImpactPlan"

abbreviation loaded_review :: "change_run \<Rightarrow> review_receipt result" where
  "loaded_review r \<equiv> load_phase_data as_review r KcReviewReconcile"

fun map_result :: "('a \<Rightarrow> 'b result) \<Rightarrow> 'a list \<Rightarrow> 'b list result" where
  "map_result f [] = Inr []"
| "map_result f (x # xs) = andThen (f x) (\<lambda>y. andThen (map_result f xs) (\<lambda>ys. Inr (y # ys)))"

section \<open>The envelope of an output\<close>

definition plan_named :: "change_run \<Rightarrow> kc_phase \<Rightarrow> agent_output \<Rightarrow> unit result" where
  "plan_named r p out =
     (if kr_erased r
      then refuse_if (p \<noteq> KcResultHandoff \<or> kao_plan_revision out \<noteq> 0 \<or> kao_plan_digest out \<noteq> []) StaleContext
      else if kc_ordinal p \<le> kc_ordinal KcQualifyPlan
      then refuse_if (kao_plan_revision out \<noteq> 0 \<or> kao_plan_digest out \<noteq> []) InputConflict
      else andThen (ok_or (kr_plan r) NeedsContext) (\<lambda>plan.
        refuse_if (kao_plan_revision out \<noteq> kbl_revision plan \<or> kao_plan_digest out \<noteq> kbl_digest plan) StaleContext))"

definition outputs_to_consume :: "change_run \<Rightarrow> kc_phase \<Rightarrow> consumed_output set" where
  "outputs_to_consume r p = set (List.map_filter (\<lambda>b.
     if kc_ordinal (kob_phase b) < kc_ordinal p \<and> \<not> kob_stale b
     then Option.bind (find (\<lambda>x. kou_id x = kob_output b) (kr_outputs r)) (\<lambda>x. map_option (\<lambda>(digest, _).
       \<lparr>co_phase_id = kc_as_str (kob_phase b), co_output_revision = kob_revision b, co_digest = digest\<rparr>) (kou_content x))
     else None) (kr_bindings r))"

definition inputs_to_consume :: "change_run \<Rightarrow> consumed_input set" where
  "inputs_to_consume r = set (List.map_filter (\<lambda>i. map_option (\<lambda>digest.
     \<lparr>ci_input_id = kin_id i, ci_sequence = kin_sequence i, ci_digest = digest\<rparr>) (kin_digest i)) (kr_inputs r))"

definition expected_guards :: "change_run \<Rightarrow> revision_guard list" where
  "expected_guards r = (case kr_baseline r of None \<Rightarrow> [] | Some b \<Rightarrow> kbm_targets b @ kbm_dependencies b)"

definition ref_key :: "contract_ref \<Rightarrow> str \<times> str \<times> str" where
  "ref_key c = (kcf_id c, kcf_version c, kcf_digest c)"

definition instruction_key :: "instruction_snapshot \<Rightarrow> str \<times> str \<times> str" where
  "instruction_key i = (in_id i, in_version i, in_digest i)"

definition KNOWLEDGE_MAINTENANCE_METHOD_ID :: str where
  "KNOWLEDGE_MAINTENANCE_METHOD_ID = ''tect:knowledge-maintenance:method''"

definition own_methods :: "run_env \<Rightarrow> kc_phase \<Rightarrow> kc_phase_definition \<Rightarrow> (str \<times> str \<times> str) set result" where
  "own_methods z p current = (case kc_method_id p of
       None \<Rightarrow> Inr {}
     | Some i \<Rightarrow> andThen (ok_or (find (\<lambda>m. in_id m = i) (kd_methods current)) InvalidConfiguration) (\<lambda>own.
         Inr (insert (instruction_key own)
           (case find (\<lambda>m. in_id m = KNOWLEDGE_MAINTENANCE_METHOD_ID) (kd_methods current) of
              None \<Rightarrow> {} | Some m \<Rightarrow> if kn_linked z \<noteq> [] then {instruction_key m} else {}))))"

definition plan_methods :: "change_run \<Rightarrow> kc_phase \<Rightarrow> (str \<times> str \<times> str) set result" where
  "plan_methods r p = (case kr_plan r of
       None \<Rightarrow> Inr {}
     | Some plan \<Rightarrow> let named = ref_key ` set (concat (map kbo_method_refs (filter (\<lambda>x. kbo_phase_id x = p) (kbl_obligations plan)))) in
         if kc_ordinal KcQualifyEvidence \<le> kc_ordinal p \<and> kc_ordinal p \<le> kc_ordinal KcReviewReconcile
         then andThen (map_result (\<lambda>i. ok_or (registry_profile (kr_registry r) i) InvalidConfiguration) (kbl_profiles plan)) (\<lambda>ps.
           Inr (named \<union> instruction_key ` set (concat (map kpc_methods ps))))
         else Inr named)"

definition verify_envelope :: "run_env \<Rightarrow> change_run \<Rightarrow> kc_phase \<Rightarrow> agent_output \<Rightarrow> unit result" where
  "verify_envelope z r p out = checks
     [plan_named r p out,
      refuse_if (set (kao_consumed_outputs out) \<noteq> outputs_to_consume r p) StaleContext,
      refuse_if (set (kao_consumed_inputs out) \<noteq> inputs_to_consume r) StaleContext,
      refuse_if (kc_ordinal KcResolveBaseline < kc_ordinal p \<and> kao_baseline_guards out \<noteq> expected_guards r) StaleContext,
      andThen (ok_or (find (\<lambda>d. kd_id d = p) (kf_phases (kr_definition r))) InternalInvariant) (\<lambda>current.
        andThen (own_methods z p current) (\<lambda>own. andThen (plan_methods r p) (\<lambda>planned.
        refuse_if (own \<union> planned \<noteq> (\<lambda>m. (rr_instruction_id m, rr_version m, rr_digest m)) ` set (kao_method_reads out))
          StaleContext))),
      if kc_ordinal KcPrepareChange \<le> kc_ordinal p
      then refuse_if (kao_source_digests out \<noteq> (case Option.bind (bound_output r KcQualifyEvidence) kou_output of
          None \<Rightarrow> [] | Some e \<Rightarrow> (case as_evidence (kao_data e) of None \<Rightarrow> [] | Some m \<Rightarrow> map ksp_digest (kem_source_pins m))))
        StaleContext
      else Inr ()]"

section \<open>The baseline\<close>

definition source_iri :: "store_env \<Rightarrow> change_row \<Rightarrow> nat \<Rightarrow> str" where
  "source_iri z c i = (let base = ''urn:tect:dk:source:'' @ kz_show_uuid z (kz_tenant z) @ '':'' @
       kz_show_uuid z (kz_workspace z) @ '':'' @ kz_show_uuid z (kcg_id c) in
     if kcg_source_revision c = 0 then base @ '':'' @ show_nat i
     else base @ '':set:'' @ show_int (kcg_source_revision c) @ '':'' @ show_nat i)"

definition guard_at :: "unit_store \<Rightarrow> uuid \<Rightarrow> (unit_head \<times> revision_row) option" where
  "guard_at st u = Option.bind (head_of st u) (\<lambda>h. map_option (Pair h) (revision_of st u (kh_revision h)))"

definition guard_of :: "uuid \<Rightarrow> unit_head \<Rightarrow> revision_row \<Rightarrow> str \<Rightarrow> revision_guard" where
  "guard_of u h v digest = \<lparr>krg_unit_id = u, krg_revision = kh_revision h, krg_lifecycle = kh_lifecycle h,
     krg_rdf_digest = digest, krg_unit_iri = kv_unit_iri v, krg_revision_iri = kv_revision_iri v\<rparr>"

definition target_guard :: "unit_store \<Rightarrow> operation_row \<Rightarrow> revision_guard option" where
  "target_guard st r = Option.bind (guard_at st (kow_unit_id r)) (\<lambda>(h, v). map_option (guard_of (kow_unit_id r) h v) (kv_rdf_digest v))"

definition target_conflicts :: "store_env \<Rightarrow> unit_store \<Rightarrow> operation_row \<Rightarrow> str list" where
  "target_conflicts z st r = (case target_guard st r of
       None \<Rightarrow> [''target_missing:'' @ kz_show_uuid z (kow_unit_id r)]
     | Some g \<Rightarrow> if kow_expected_revision r \<noteq> Some (krg_revision g) \<or> kow_expected_lifecycle r \<noteq> Some (krg_lifecycle g)
         then [''target_guard_changed:'' @ kz_show_uuid z (kow_unit_id r)] else [])"

definition identity_conflicts :: "store_env \<Rightarrow> unit_store \<Rightarrow> identity_match \<Rightarrow> str list" where
  "identity_conflicts z st m = (if map_option kh_revision (head_of st (kim_unit_id m)) \<noteq> Some (kim_revision m)
     then [''identity_match_changed:'' @ kim_client_label m @ '':'' @ kz_show_uuid z (kim_unit_id m)] else [])"

definition dependency_guard :: "unit_store \<Rightarrow> revision_guard \<Rightarrow> revision_guard option result" where
  "dependency_guard st g = (case guard_at st (krg_unit_id g) of
       None \<Rightarrow> Inr None
     | Some (h, v) \<Rightarrow> map_sum id (\<lambda>d. Some (guard_of (krg_unit_id g) h v d)) (ok_or (kv_rdf_digest v) StorageUnavailable))"

definition availability :: "run_env \<Rightarrow> change_row \<Rightarrow> str list result" where
  "availability z c = andThen (payload_of c) (\<lambda>payload. case kn_resolve z (kcy_sources payload) (kcg_source_revision c) of
       Inr ps \<Rightarrow> Inr (map (\<lambda>p. ksp_source_iri (kpy_pin p) @ '':available'') ps)
     | Inl e \<Rightarrow> if e = InvalidSource
         then Inr (map (\<lambda>i. source_iri (kn_store z) c i @ '':unavailable'') [0..<length (kcy_sources payload)]) else Inl e)"

definition current_baseline :: "run_env \<Rightarrow> change_world \<Rightarrow> baseline_manifest \<Rightarrow> baseline_manifest result" where
  "current_baseline z w given = (let st = kwd_units w; rows = filter (\<lambda>r. kow_operation r \<noteq> OpCreate) (kwd_rows w) in
     andThen (map_result (dependency_guard st) (kbm_dependencies given)) (\<lambda>found.
     andThen (availability z (kwd_change w)) (\<lambda>available.
     let missing = List.map_filter (\<lambda>(g, f). if f = None
           then Some (''dependency_missing:'' @ kz_show_uuid (kn_store z) (krg_unit_id g)) else None)
           (zip (kbm_dependencies given) found);
         conflicts = btree_list (concat (map (target_conflicts (kn_store z) st) rows) @
           concat (map (identity_conflicts (kn_store z) st) (kbm_identity_matches given)) @ missing @
           kbm_assessment_conflicts given);
         gaps = btree_list (filter (suffix '':unavailable'') available @ kbm_assessment_gaps given) in
     if btree_list (kbm_conflicts given) \<noteq> conflicts \<or> btree_list (kbm_missing_context given) \<noteq> gaps
     then Inl InvalidArguments
     else let b = \<lparr>kbm_workspace_generation = ku_generation st, kbm_registry_generation = 0, kbm_policy_generation = 0,
         kbm_targets = List.map_filter (target_guard st) (sort_key kow_id rows), kbm_dependencies = List.map_filter id found,
         kbm_identity_matches = kbm_identity_matches given, kbm_source_availability = available,
         kbm_assessment_conflicts = kbm_assessment_conflicts given, kbm_assessment_gaps = kbm_assessment_gaps given,
         kbm_conflicts = conflicts, kbm_missing_context = gaps, kbm_digest = []\<rparr> in
       Inr (b\<lparr>kbm_digest := kn_baseline_digest z b\<rparr>))))"

section \<open>The receipts of the obligations\<close>

definition same_obligation :: "obligation_receipt \<Rightarrow> obligation_receipt \<Rightarrow> bool" where
  "same_obligation r q \<longleftrightarrow> kor_operation_id q = kor_operation_id r \<and> kor_profile_id q = kor_profile_id r \<and>
     kor_obligation_id q = kor_obligation_id r \<and> kor_changeset_digest q = kor_changeset_digest r \<and>
     kor_method_reads q = kor_method_reads r \<and> kor_input_digests q = kor_input_digests r"

text \<open>
  The chain of reused receipts: each link is an output not seen before, and the chain ends at a receipt that is
  satisfied by itself.
\<close>

function reuse_chain :: "change_output list \<Rightarrow> obligation_receipt \<Rightarrow> uuid set \<Rightarrow> uuid \<Rightarrow> unit result" where
  "reuse_chain rows r visited prior =
     (if prior \<in> visited then Inl InvalidArguments
      else case find (\<lambda>x. kou_id x = prior \<and> kou_output x \<noteq> None) rows of
          None \<Rightarrow> Inl InvalidArguments
        | Some x \<Rightarrow> (case Option.bind (kou_output x) (as_checks \<circ> kao_data) of
              None \<Rightarrow> Inl StorageUnavailable
            | Some rs \<Rightarrow> (case find (same_obligation r) (kol_receipts rs) of
                  None \<Rightarrow> Inl InvalidArguments
                | Some q \<Rightarrow> (case (kor_disposition q, kor_reused_receipt_id q) of
                      (ObligationSatisfied, None) \<Rightarrow> Inr ()
                    | (ObligationReused, Some before) \<Rightarrow> reuse_chain rows r (insert prior visited) before
                    | _ \<Rightarrow> Inl InvalidArguments))))"
  by pat_completeness auto

termination
proof (relation "measure (\<lambda>(rows, _, visited, _). card (kou_id ` set rows - visited))", goal_cases)
  case (2 rows r visited prior x rs q d o1 before)
  then have "prior \<in> kou_id ` set rows - visited" by (auto simp: find_Some_iff)
  moreover have "kou_id ` set rows - insert prior visited = (kou_id ` set rows - visited) - {prior}" by blast
  ultimately show ?case by (simp add: card_Diff1_less del: card_Diff_insert)
qed simp

declare reuse_chain.simps [simp del]

definition obligation_receipt_key :: "obligation_receipt \<Rightarrow> uuid \<times> profile_id \<times> str" where
  "obligation_receipt_key r = (kor_operation_id r, kor_profile_id r, kor_obligation_id r)"

definition obligation_receipt_check ::
    "change_output list \<Rightarrow> str list \<Rightarrow> branch_plan \<Rightarrow> changeset \<Rightarrow> bool \<Rightarrow> obligation_receipt \<Rightarrow> unit result" where
  "obligation_receipt_check rows inputs plan c advancing r =
     andThen (ok_or (find (\<lambda>x. branch_key x = obligation_receipt_key r) (kbl_obligations plan)) InvalidArguments) (\<lambda>x.
     if kor_changeset_digest r \<noteq> kcs_digest c \<or> kor_input_digests r \<noteq> inputs \<or>
       (\<lambda>m. (rr_instruction_id m, rr_version m, rr_digest m)) ` set (kor_method_reads r) \<noteq> ref_key ` set (kbo_method_refs x)
     then Inl StaleContext
     else case kor_disposition r of
         ObligationSatisfied \<Rightarrow> refuse_if (kor_reused_receipt_id r \<noteq> None) NeedsContext
       | ObligationReused \<Rightarrow> andThen (ok_or (kor_reused_receipt_id r) InvalidArguments) (reuse_chain rows r {})
       | ObligationUnresolved \<Rightarrow> refuse_if (advancing \<or> kor_reused_receipt_id r \<noteq> None) NeedsContext
       | ObligationNotApplicable \<Rightarrow> Inl NeedsContext)"

definition validate_receipts ::
    "change_output list \<Rightarrow> str list \<Rightarrow> branch_plan \<Rightarrow> changeset \<Rightarrow> bool \<Rightarrow> obligation_receipts \<Rightarrow> unit result" where
  "validate_receipts rows inputs plan c advancing v = (let expected = branch_key ` set (kbl_obligations plan);
       unresolved = kor_obligation_id ` set (filter (\<lambda>r. kor_disposition r = ObligationUnresolved) (kol_receipts v));
       declared = set (kol_unresolved_obligation_ids v) in checks
     [refuse_if (expected \<noteq> obligation_receipt_key ` set (kol_receipts v) \<or> length (kol_receipts v) \<noteq> card expected \<or>
        card declared \<noteq> length (kol_unresolved_obligation_ids v) \<or> unresolved \<noteq> declared \<or>
        advancing \<and> unresolved \<noteq> {}) NeedsContext,
      each (obligation_receipt_check rows inputs plan c advancing) (kol_receipts v)])"

section \<open>The impact\<close>

definition impact_at :: "str \<Rightarrow> str \<Rightarrow> bool \<Rightarrow> impact_target" where
  "impact_at reference effect blocking =
     \<lparr>kig_reference = reference, kig_owner_ref = ''backend'', kig_effect = effect, kig_blocking = blocking\<rparr>"

definition current_impact :: "run_env \<Rightarrow> change_world \<Rightarrow> impact_plan" where
  "current_impact z w = (let show_id = kz_show_uuid (kn_store z);
       bindings = filter (\<lambda>b. kb_active b \<and> kb_unit b \<in> kow_unit_id ` set (kwd_rows w)) (ku_bindings (kwd_units w));
       i = \<lparr>kip_synchronous_changes = [],
         kip_affected_contexts = map (\<lambda>b. impact_at (''knowledge-binding:'' @ show_id (kb_id b)) ''binding_selection_change''
             (kb_purpose b = PurposeRequired)) (sort_key kb_id bindings) @
           map (\<lambda>m. impact_at (''pipeline-manifest:'' @ show_id m) ''context_invalidation'' True) (kn_manifests z) @
           [impact_at (''workspace-knowledge-state:'' @ show_id (kz_workspace (kn_store z))) ''invalidate_manifest_generation'' True],
         kip_derivations = [],
         kip_owned_copies = map (\<lambda>c. impact_at (''owned-copy:'' @ show_id c) ''owned_copy_review'' True) (kn_copies z) @
           (if list_ex (\<lambda>r. kow_operation r = OpErase) (kwd_rows w)
            then [impact_at (''knowledge-change-control:'' @ show_id (kcg_id (kwd_change w))) ''redact_change_control_payloads'' True]
            else []),
         kip_followups = [], kip_blocking_conflicts = [], kip_digest = []\<rparr> in
     i\<lparr>kip_digest := kn_impact_digest z i\<rparr>)"

definition machine_target :: "impact_target \<Rightarrow> bool" where
  "machine_target t \<longleftrightarrow> list_ex (\<lambda>p. prefix p (kig_reference t))
     [''knowledge-binding:'', ''pipeline-manifest:'', ''owned-copy:'', ''knowledge-change-control:'', ''workspace-knowledge-state:'']"

definition machine_impact_matches :: "impact_plan \<Rightarrow> impact_plan \<Rightarrow> bool" where
  "machine_impact_matches candidate reviewed \<longleftrightarrow>
     set (filter machine_target (kip_affected_contexts candidate)) = set (filter machine_target (kip_affected_contexts reviewed)) \<and>
     set (filter machine_target (kip_owned_copies candidate)) = set (filter machine_target (kip_owned_copies reviewed))"

definition reconcile_impact :: "run_env \<Rightarrow> change_world \<Rightarrow> impact_plan \<Rightarrow> impact_plan result" where
  "reconcile_impact z w i = (if machine_impact_matches (current_impact z w) i
     then Inr (i\<lparr>kip_digest := kn_impact_digest z (i\<lparr>kip_digest := []\<rparr>)\<rparr>) else Inl NeedsContext)"

end
