(* ===== verification/KnowledgePhases.thy ===== *)
theory KnowledgePhases
  imports KnowledgeRuns
begin

text \<open>
  The steps of the run of a knowledge change: what a phase output must satisfy (\<^verbatim>\<open>phase_data/process.rs\<close>,
  \<^verbatim>\<open>phase_data/review.rs\<close>), the completion of a phase (\<^verbatim>\<open>phase.rs\<close>), a new input with the amendment of its
  basis (\<^verbatim>\<open>input.rs\<close>, \<^verbatim>\<open>basis.rs\<close>) and the erasure of what a change keeps of a unit (\<^verbatim>\<open>erase/redact.rs\<close>).
  Fresh identifiers, the time of a row being that of its place in its list, and the search index are parameters.
\<close>

section \<open>Numbers and words\<close>

definition next_revision :: "change_run \<Rightarrow> kc_phase \<Rightarrow> int" where
  "next_revision r p = fold max (map kou_revision (filter (\<lambda>x. kou_phase x = p) (kr_outputs r))) 0 + 1"

fun effect_word :: "effect_kind \<Rightarrow> str" where
  "effect_word EffectExactDelivery = ''exactdelivery''"
| "effect_word EffectInvalidation = ''invalidation''"
| "effect_word EffectImpact = ''impact''"
| "effect_word EffectSearch = ''search''"
| "effect_word EffectVisibilityClosure = ''visibilityclosure''"
| "effect_word EffectOwnedCopyPurge = ''ownedcopypurge''"
| "effect_word EffectBackupDisposition = ''backupdisposition''"

section \<open>Findings of earlier reviews\<close>

record finding_state =
  kfs_owner_ref :: str
  kfs_revisit :: kc_phase
  kfs_unresolved :: "uuid option"

definition note_finding ::
    "uuid \<Rightarrow> review_finding \<Rightarrow> (str \<times> finding_state) list \<Rightarrow> (str \<times> finding_state) list result" where
  "note_finding i f states = (let unresolved = (if krf_closed f then None else Some i) in
     case map_of states (krf_id f) of
       None \<Rightarrow> Inr ((krf_id f, \<lparr>kfs_owner_ref = krf_owner_ref f, kfs_revisit = krf_revisit_phase_id f,
           kfs_unresolved = unresolved\<rparr>) # states)
     | Some s \<Rightarrow>
         if kfs_owner_ref s \<noteq> krf_owner_ref f \<or> kfs_revisit s \<noteq> krf_revisit_phase_id f \<or>
           \<not> krf_closed f \<and> kfs_unresolved s = None then Inl InternalInvariant
         else Inr ((krf_id f, s\<lparr>kfs_unresolved := unresolved\<rparr>) # filter (\<lambda>e. fst e \<noteq> krf_id f) states))"

definition finding_states :: "change_run \<Rightarrow> (str \<times> finding_state) list result" where
  "finding_states r = fold_m (\<lambda>(i, d) states. andThen (ok_or (as_review d) StorageUnavailable) (\<lambda>v.
       fold_m (note_finding i) (krr_findings v) states))
     (List.map_filter (\<lambda>x. if kou_phase x = KcReviewReconcile
        then map_option (\<lambda>out. (kou_id x, kao_data out)) (kou_output x) else None) (kr_outputs r)) []"

definition same_finding :: "finding_state \<Rightarrow> review_finding \<Rightarrow> bool" where
  "same_finding s f \<longleftrightarrow> kfs_owner_ref s = krf_owner_ref f \<and> kfs_revisit s = krf_revisit_phase_id f"

definition recorded_after :: "change_run \<Rightarrow> uuid \<Rightarrow> uuid \<Rightarrow> bool" where
  "recorded_after r i j \<longleftrightarrow> j \<in> set (tl (dropWhile (\<lambda>k. k \<noteq> i) (map kou_id (kr_outputs r))))"

definition closure_holds :: "change_run \<Rightarrow> uuid option \<Rightarrow> review_finding \<Rightarrow> str \<Rightarrow> bool" where
  "closure_holds r after f digest = list_ex (\<lambda>b. kob_phase b = krf_revisit_phase_id f \<and> \<not> kob_stale b \<and>
     (case Option.bind (find (\<lambda>x. kou_id x = kob_output b) (kr_outputs r)) kou_content of
        None \<Rightarrow> False
      | Some (d, _) \<Rightarrow> d = digest \<and> (case after of None \<Rightarrow> True | Some i \<Rightarrow> recorded_after r i (kob_output b)))) (kr_bindings r)"

definition closure_check :: "change_run \<Rightarrow> (str \<times> finding_state) list \<Rightarrow> review_finding \<Rightarrow> unit result" where
  "closure_check r states f = (let s = map_of states (krf_id f) in checks
     [refuse_if (case s of None \<Rightarrow> False | Some s \<Rightarrow> \<not> same_finding s f) NeedsContext,
      andThen (ok_or (krf_closure_output_digest f) NeedsContext) (\<lambda>digest.
        refuse_if (\<not> closure_holds r (Option.bind s kfs_unresolved) f digest) NeedsContext)])"

definition require_prior_findings :: "change_run \<Rightarrow> review_receipt \<Rightarrow> unit result" where
  "require_prior_findings r v = andThen (finding_states r) (\<lambda>states. checks
     [each (\<lambda>(i, s). andThen (ok_or (find (\<lambda>f. krf_id f = i) (krr_findings v)) NeedsContext) (\<lambda>f.
        refuse_if (\<not> same_finding s f) NeedsContext)) (filter (\<lambda>(i, s). kfs_unresolved s \<noteq> None) states),
      refuse_if (krr_outcome v \<in> {ReviewReady, ReviewNoChange} \<and> list_ex (\<lambda>f. \<not> krf_closed f) (krr_findings v)) NeedsContext,
      each (closure_check r states) (filter krf_closed (krr_findings v))])"

section \<open>A change that is already in effect\<close>

definition unchanged_operation ::
    "run_env \<Rightarrow> unit_store \<Rightarrow> completion_requirement \<Rightarrow> baseline_manifest \<Rightarrow> planned_operation \<Rightarrow> unit result" where
  "unchanged_operation z st completion b x = (let u = kpn_unit_id x in
     if kpn_operation x \<in> {OpCreate, OpRevise}
     then andThen (ok_or (find (\<lambda>m. kim_client_label m = kpn_client_label x \<and> \<not> kim_ambiguous m) (kbm_identity_matches b))
         NeedsContext) (\<lambda>m.
       andThen (kn_eligible z (kim_unit_id m) (kim_revision m)) (\<lambda>d. refuse_if (Some d \<noteq> kpn_document x) NeedsContext))
     else if kpn_operation x = OpRetract
     then andThen (ok_or (head_of st u) NeedsContext) (\<lambda>h.
       if kh_lifecycle h \<noteq> LifeRetracted \<or> kh_payload_erased h \<or>
         list_ex (\<lambda>r. kb_unit r = u \<and> kb_active r) (ku_bindings st) then Inl NeedsContext
       else andThen (kz_event_holds (kn_store z) u (kh_revision h) (kh_last_event h) False) (\<lambda>_.
         andThen (ok_or (Option.bind (find (\<lambda>e. kev_id e = kh_last_event h) (ku_events st)) kev_input) InternalInvariant) (\<lambda>i.
         refuse_if (kpn_operation (kpb_planned i) \<noteq> OpRetract) NeedsContext)))
     else if kpn_operation x = OpErase
     then andThen (ok_or (find (\<lambda>s. ksl_unit s = u \<and> ksl_lifecycle s = LifeErased) (ku_suppressions st)) NeedsContext) (\<lambda>s.
       checks [refuse_if (\<not> ksl_copies_ready s \<or> kcr_erasure completion = ErasureRestoreSafe \<and> \<not> ksl_restore_ready s) NeedsContext,
         refuse_if (readable_rows u st + kn_rest z u \<noteq> 0) NeedsContext,
         refuse_if (kcr_erasure completion = ErasureRestoreSafe \<and> \<not> kn_exported z (ksl_sequence s)) NeedsContext])
     else Inl InvalidArguments)"

definition validate_no_change :: "run_env \<Rightarrow> change_world \<Rightarrow> unit result" where
  "validate_no_change z w = andThen (loaded_changeset (kwd_run w)) (\<lambda>c.
     andThen (ok_or (kr_baseline (kwd_run w)) NeedsContext) (\<lambda>b.
     andThen (payload_of (kwd_change w)) (\<lambda>payload.
     if ku_generation (kwd_units w) \<noteq> kbm_workspace_generation b then Inl ContextChanged
     else each (unchanged_operation z (kwd_units w) (kcy_completion payload) b) (kcs_operations c))))"

section \<open>The data of a phase\<close>

record phase_updates =
  kpu_baseline :: "baseline_manifest option"
  kpu_plan :: "branch_plan option"
  kpu_ready :: "ready_to_commit option"
  kpu_result :: "change_result option"

definition no_updates :: phase_updates where
  "no_updates = \<lparr>kpu_baseline = None, kpu_plan = None, kpu_ready = None, kpu_result = None\<rparr>"

definition intake_check :: "change_payload \<Rightarrow> change_intent \<Rightarrow> unit result" where
  "intake_check c i = refuse_if (kit_bounded_outcome i \<noteq> kcy_outcome c \<or> kit_operation_hints i \<noteq> kcy_hints c \<or>
     kit_completion i \<noteq> kcy_completion c) InputConflict"

definition evidence_check :: "run_env \<Rightarrow> change_row \<Rightarrow> change_payload \<Rightarrow> bool \<Rightarrow> evidence_manifest \<Rightarrow> unit result" where
  "evidence_check z c payload advancing e = andThen (kn_resolve z (kcy_sources payload) (kcg_source_revision c)) (\<lambda>ps.
     let pins = map kpy_pin ps in checks
       [refuse_if (kem_source_pins e \<noteq> pins) InvalidSource,
        refuse_if (kem_source_pin_digest e \<noteq> kn_pins_digest z pins) StaleContext,
        refuse_if (advancing \<and> kem_unresolved_gaps e \<noteq> []) NeedsContext])"

text \<open>A successor created by another operation is a dependency.\<close>

definition with_successor :: "planned_operation \<Rightarrow> uuid list \<Rightarrow> uuid list" where
  "with_successor x deps = (case successor_operation x of
       None \<Rightarrow> deps
     | Some i \<Rightarrow> if i \<in> set deps then deps else sort (deps @ [i]))"

definition operation_source_refs :: "planned_operation \<Rightarrow> source_ref list" where
  "operation_source_refs x = (case kpn_document x of
       Some d \<Rightarrow> kdd_sources d
     | None \<Rightarrow> (case kpn_revalidation x of Some v \<Rightarrow> krv_sources v | None \<Rightarrow> []))"

definition origin_index :: "source_ref list \<Rightarrow> source_ref \<Rightarrow> nat result" where
  "origin_index origin s = (case filter (\<lambda>k. origin ! k = s) [0..<length origin] of [k] \<Rightarrow> Inr k | _ \<Rightarrow> Inl InvalidSource)"

definition reviewed_sources_check :: "source_ref list \<Rightarrow> evidence_manifest \<Rightarrow> planned_operation \<Rightarrow> unit result" where
  "reviewed_sources_check origin e x = andThen (map_result (origin_index origin) (operation_source_refs x)) (\<lambda>ks.
     refuse_if (set ks \<noteq> set (concat (map kec_source_indexes
       (filter (\<lambda>c. kec_operation_id c = kpn_operation_id x) (kem_claims e))))) InvalidSource)"

definition matches_row :: "operation_row \<Rightarrow> planned_operation \<Rightarrow> bool" where
  "matches_row r x \<longleftrightarrow> kpn_unit_id x = kow_unit_id r \<and> kpn_client_label x = kow_client_label r \<and>
     kpn_operation x = kow_operation r \<and> kpn_expected_revision x = kow_expected_revision r \<and>
     kpn_expected_lifecycle x = kow_expected_lifecycle r \<and> kpn_reason x = kow_reason r \<and>
     kpn_authority_basis x = kow_authority_basis r \<and>
     kpn_dependency_operation_ids x = with_successor x (kow_dependency_ids r) \<and>
     opt_all (\<lambda>d. Some (kdd_knowledge_kind d) = kow_knowledge_kind r \<and> kdd_profiles d = kow_profile_ids r) (kpn_document x)"

definition qualified_operation :: "planned_operation list \<Rightarrow> operation_row \<Rightarrow> operation_row result" where
  "qualified_operation ops r = andThen (ok_or (find (\<lambda>x. kpn_operation_id x = kow_id r) (rev ops)) InputConflict) (\<lambda>x.
     if matches_row r x then Inr (r\<lparr>kow_dependency_ids := kpn_dependency_operation_ids x\<rparr>) else Inl InputConflict)"

definition prepare_changeset ::
    "run_env \<Rightarrow> change_world \<Rightarrow> change_payload \<Rightarrow> changeset \<Rightarrow> (changeset \<times> operation_row list) result" where
  "prepare_changeset z w payload given = (let ops = map (\<lambda>x. x\<lparr>kpn_dependency_operation_ids :=
         with_successor x (kpn_dependency_operation_ids x)\<rparr>) (kcs_operations given);
       c = given\<lparr>kcs_operations := ops\<rparr>; rows = kwd_rows w in
     andThen (loaded_evidence (kwd_run w)) (\<lambda>e.
     andThen (each (reviewed_sources_check (kcy_sources payload) e) ops) (\<lambda>_.
     andThen (changeset_validate (kn_document z) True c) (\<lambda>_.
     andThen (ok_or (kr_plan (kwd_run w)) NeedsContext) (\<lambda>plan.
     if kcs_evidence_digest c \<noteq> kem_source_pin_digest e \<or> length ops \<noteq> length (kbl_operation_ids plan)
     then Inl InputConflict
     else if list_ex (\<lambda>x. case successor_operation x of None \<Rightarrow> False | Some i \<Rightarrow>
         \<not> list_ex (\<lambda>r. kow_id r = i \<and> kow_operation r = OpCreate) rows) ops
     then Inl InvalidArguments
     else andThen (map_result (qualified_operation ops) rows) (\<lambda>rows.
       Inr (c\<lparr>kcs_digest := kn_changeset_digest z (c\<lparr>kcs_digest := []\<rparr>)\<rparr>, rows)))))))"

definition domain_checks :: "run_env \<Rightarrow> change_run \<Rightarrow> bool \<Rightarrow> obligation_receipts \<Rightarrow> unit result" where
  "domain_checks z r advancing v = andThen (ok_or (kr_plan r) NeedsContext) (\<lambda>plan.
     andThen (loaded_changeset r) (\<lambda>c. validate_receipts (kr_outputs r @ kn_outputs z)
       (List.map_filter kin_digest (kr_inputs r)) plan c advancing v))"

definition review_covers ::
    "branch_plan \<Rightarrow> changeset \<Rightarrow> evidence_manifest \<Rightarrow> impact_plan \<Rightarrow> str \<Rightarrow> review_receipt \<Rightarrow> bool" where
  "review_covers plan c e i checks_digest v \<longleftrightarrow> set (krr_covered_operation_ids v) = set (kbl_operation_ids plan) \<and>
     set (krr_covered_obligation_ids v) = kbo_obligation_id ` set (kbl_obligations plan) \<and>
     {kbl_digest plan, kcs_digest c, kem_source_pin_digest e, kip_digest i, checks_digest} \<subseteq> set (krr_reviewed_digests v)"

definition review_check :: "run_env \<Rightarrow> change_world \<Rightarrow> review_receipt \<Rightarrow> unit result" where
  "review_check z w v = (let r = kwd_run w in checks
     [require_prior_findings r v,
      refuse_if (krr_outcome v \<in> {ReviewReady, ReviewNoChange} \<and> \<not> set (kn_linked z) \<subseteq> set (krr_reviewed_digests v)) NeedsContext,
      if krr_outcome v = ReviewNoChange then validate_no_change z w else Inr (),
      if krr_outcome v = ReviewReady
      then andThen (ok_or (kr_plan r) NeedsContext) (\<lambda>plan. andThen (loaded_changeset r) (\<lambda>c.
        andThen (loaded_evidence r) (\<lambda>e. andThen (loaded_impact r) (\<lambda>i. andThen (phase_digest r KcDomainChecks) (\<lambda>d.
        refuse_if (\<not> review_covers plan c e i d v) NeedsContext)))))
      else Inr ()])"

text \<open>The report of the effects; once erased, it is put together from the rows of the effects.\<close>

definition pending_work :: "effect_receipt list \<Rightarrow> str list" where
  "pending_work es = map (\<lambda>e. effect_word (ker_kind e)) (filter (\<lambda>e. ker_status e \<in> {StatusPending, StatusFailed}) es)"

definition opaque_effect_of :: "effect_receipt list \<Rightarrow> opaque_effect_receipt \<Rightarrow> effect_receipt result" where
  "opaque_effect_of rows x = andThen (ok_or (find (\<lambda>e. ker_effect_id e = koe_effect_id x) rows) InternalInvariant) (\<lambda>e.
     if ker_kind e \<noteq> koe_kind x \<or> ker_status e \<noteq> koe_status x \<or> ker_generation e \<noteq> koe_generation x
     then Inl InternalInvariant else Inr e)"

definition load_erased_report :: "effect_receipt list \<Rightarrow> erased_effects_report \<Rightarrow> effects_report result" where
  "load_erased_report rows p = (if length rows \<noteq> length (kee_effects p) then Inl InternalInvariant
     else andThen (map_result (opaque_effect_of rows) (kee_effects p)) (\<lambda>es.
       Inr \<lparr>kef_publisher_receipt_id = kee_publisher_receipt_id p, kef_effects = es,
         kef_required_complete = kee_required_complete p, kef_remaining_work = pending_work es\<rparr>))"

definition load_effects_report :: "change_run \<Rightarrow> effects_report option result" where
  "load_effects_report r = (case (kr_erased r, kr_effects r, kr_erased_effects r) of
       (_, None, None) \<Rightarrow> Inr None
     | (False, Some report, None) \<Rightarrow> Inr (Some report)
     | (True, None, Some p) \<Rightarrow> map_sum id Some (load_erased_report (kr_effect_rows r) p)
     | _ \<Rightarrow> Inl InternalInvariant)"

definition publication_id :: "change_run \<Rightarrow> uuid option" where
  "publication_id r = (case (kr_receipt r, kr_erased_receipt r) of
       (Some p, None) \<Rightarrow> Some (kpr_id p) | (None, Some p) \<Rightarrow> Some (kep_id p) | _ \<Rightarrow> None)"

definition result_check :: "run_env \<Rightarrow> change_world \<Rightarrow> change_result \<Rightarrow> unit result" where
  "result_check z w v = (let r = kwd_run w in checks
     [if kch_canonical v = CanonicalNoChange then validate_no_change z w else Inr (),
      case kr_review r of
        Some ReviewReady \<Rightarrow> andThen (ok_or (publication_id r) InternalInvariant) (\<lambda>i.
          andThen (load_effects_report r) (\<lambda>report. andThen (ok_or report NeedsContext) (\<lambda>report.
          refuse_if (kch_canonical v \<noteq> CanonicalApplied \<or> kch_publisher_receipt_id v \<noteq> Some i \<or>
            \<not> kef_required_complete report \<or> kch_effects v \<noteq> kef_effects report \<or>
            kch_user_outcome v = UserAchieved \<and> kef_remaining_work report \<noteq> []) InputConflict)))
      | Some ReviewNoChange \<Rightarrow> refuse_if (kch_canonical v \<noteq> CanonicalNoChange \<or> kch_user_outcome v \<noteq> UserAchieved \<or>
          kch_publisher_receipt_id v \<noteq> None \<or> kch_effects v \<noteq> []) InputConflict
      | Some ReviewRejected \<Rightarrow> refuse_if (kch_canonical v \<noteq> CanonicalRejected \<or> kch_user_outcome v \<noteq> UserNotAchieved \<or>
          kch_publisher_receipt_id v \<noteq> None \<or> kch_effects v \<noteq> [] \<or> kch_remaining_work v = []) InputConflict
      | _ \<Rightarrow> Inl NeedsContext])"

fun phase_data_step ::
    "run_env \<Rightarrow> change_world \<Rightarrow> bool \<Rightarrow> agent_data \<Rightarrow> (agent_data \<times> phase_updates \<times> operation_row list) result" where
  "phase_data_step z w advancing (DataKcIntake i) = andThen (payload_of (kwd_change w)) (\<lambda>c.
     andThen (intake_check c i) (\<lambda>_. Inr (DataKcIntake i, no_updates, kwd_rows w)))"
| "phase_data_step z w advancing (DataKcResolveBaseline given) = andThen (current_baseline z w given) (\<lambda>b.
     if advancing \<and> (kbm_conflicts b \<noteq> [] \<or> kbm_missing_context b \<noteq> []) then Inl NeedsContext
     else Inr (DataKcResolveBaseline b, no_updates\<lparr>kpu_baseline := Some b\<rparr>, kwd_rows w))"
| "phase_data_step z w advancing (DataKcQualifyPlan q) = andThen (compile_plan (kn_plan_digest z)
     \<lparr>kpw_definition = kr_definition (kwd_run w), kpw_registry = kr_registry (kwd_run w), kpw_delivery_mode = kr_mode (kwd_run w),
       kpw_next_revision = next_revision (kwd_run w) KcQualifyPlan\<rparr> (kn_retained z) (kwd_rows w) q) (\<lambda>(plan, rows).
     Inr (DataKcQualifyPlan q, no_updates\<lparr>kpu_plan := Some plan\<rparr>, rows))"
| "phase_data_step z w advancing (DataKcQualifyEvidence e) = andThen (payload_of (kwd_change w)) (\<lambda>c.
     andThen (evidence_check z (kwd_change w) c advancing e) (\<lambda>_. Inr (DataKcQualifyEvidence e, no_updates, kwd_rows w)))"
| "phase_data_step z w advancing (DataKcPrepareChange given) = andThen (payload_of (kwd_change w)) (\<lambda>p.
     andThen (prepare_changeset z w p given) (\<lambda>(c, rows). Inr (DataKcPrepareChange c, no_updates, rows)))"
| "phase_data_step z w advancing (DataKcDomainChecks v) = andThen (domain_checks z (kwd_run w) advancing v) (\<lambda>_.
     Inr (DataKcDomainChecks v, no_updates, kwd_rows w))"
| "phase_data_step z w advancing (DataKcImpactPlan given) = andThen (reconcile_impact z w given) (\<lambda>i.
     if advancing \<and> kip_blocking_conflicts i \<noteq> [] then Inl NeedsContext
     else Inr (DataKcImpactPlan i, no_updates, kwd_rows w))"
| "phase_data_step z w advancing (DataKcReviewReconcile v) = andThen (review_check z w v) (\<lambda>_.
     Inr (DataKcReviewReconcile v, no_updates, kwd_rows w))"
| "phase_data_step z w advancing (DataKcResultHandoff v) = andThen (result_check z w v) (\<lambda>_.
     Inr (DataKcResultHandoff v, no_updates\<lparr>kpu_result := Some v\<rparr>, kwd_rows w))"

section \<open>Completing a phase\<close>

definition next_kc_phase :: "kc_definition \<Rightarrow> kc_phase \<Rightarrow> kc_phase option" where
  "next_kc_phase d p = map_option kd_id (find (\<lambda>x. kd_ordinal x = kc_ordinal p + 1) (kf_phases d))"

definition revisit_target :: "kc_definition \<Rightarrow> kc_phase \<Rightarrow> transition \<Rightarrow> kc_phase option \<Rightarrow> kc_phase option result" where
  "revisit_target d p t requested = (if t = Escalate
     then (if requested = None then Inr None else Inl InvalidArguments)
     else andThen (ok_or requested InvalidArguments) (\<lambda>target.
       andThen (ok_or (find (\<lambda>x. kd_id x = p) (kf_phases d)) InvalidConfiguration) (\<lambda>x.
       if target \<noteq> p \<and> target \<notin> set (kd_allowed_backward_to x) then Inl InvalidArguments else Inr (Some target))))"

definition requested_revisit ::
    "kc_definition \<Rightarrow> kc_phase \<Rightarrow> agent_output \<Rightarrow> kc_phase option \<Rightarrow> kc_phase option result" where
  "requested_revisit d p out requested = (let advances = kao_outcome out = PhaseCompleted \<and> kao_transition out = Continue \<and>
         requested = None in
     if p = KcResultHandoff
     then (if kao_outcome out = PhaseCompleted \<and> kao_transition out = Complete \<and> requested = None then Inr None
       else Inl InvalidArguments)
     else if p = KcReviewReconcile
     then (case as_review (kao_data out) of
         None \<Rightarrow> Inl InvalidArguments
       | Some v \<Rightarrow>
           if krr_outcome v \<noteq> ReviewFindings then (if advances then Inr None else Inl InvalidArguments)
           else if kao_outcome out = PhaseWaitingInput \<and> kao_transition out = Block
           then revisit_target d p (kao_transition out) requested else Inl InvalidArguments)
     else if advances then Inr None
     else if kao_outcome out \<notin> {PhaseWaitingInput, PhaseBlocked} \<or> kao_transition out \<notin> {Block, Escalate} \<or>
       kao_findings out = [] \<and> kao_dispositions out = [] then Inl InvalidArguments
     else revisit_target d p (kao_transition out) requested)"

text \<open>The status and the phase after an attempt\<close>

definition after_attempt ::
    "kc_definition \<Rightarrow> kc_phase \<Rightarrow> phase_outcome \<Rightarrow> transition \<Rightarrow> review_outcome option \<Rightarrow> kc_phase option \<Rightarrow>
      (run_status \<times> kc_phase option) result" where
  "after_attempt d p outcome t review revisit =
     (if outcome = PhaseCompleted \<and> t = Continue
      then Inr (RunActive, if review \<in> {Some ReviewNoChange, Some ReviewRejected} then Some KcResultHandoff else next_kc_phase d p)
      else if outcome = PhaseCompleted \<and> t = Complete \<and> p = KcResultHandoff then Inr (RunCompleted, None)
      else if outcome = PhaseWaitingInput then Inr (RunWaitingInput, revisit)
      else if outcome = PhaseBlocked then Inr (if t = Escalate then (RunEscalated, None) else (RunBlocked, revisit))
      else Inl InvalidArguments)"

definition is_published :: "change_run \<Rightarrow> bool" where
  "is_published r \<longleftrightarrow> kr_receipt r \<noteq> None \<or> kr_erased_receipt r \<noteq> None"

definition is_live :: "change_run \<Rightarrow> bool" where
  "is_live r \<longleftrightarrow> kr_status r \<in> {RunActive, RunWaitingInput, RunBlocked}"

definition seal_gate :: "run_env \<Rightarrow> change_world \<Rightarrow> ready_to_commit result" where
  "seal_gate z w = (let r = kwd_run w; generation = ku_generation (kwd_units w) in
     andThen (payload_of (kwd_change w)) (\<lambda>payload.
     if kcr_erasure (kcy_completion payload) = ErasureAllRetainedCopies then Inl UnsupportedCompletionRequirement
     else andThen (ok_or (kr_plan r) NeedsContext) (\<lambda>plan. andThen (loaded_changeset r) (\<lambda>c.
       andThen (loaded_evidence r) (\<lambda>e. andThen (loaded_checks r) (\<lambda>k. andThen (loaded_impact r) (\<lambda>i.
       andThen (loaded_review r) (\<lambda>v.
       if kem_unresolved_gaps e \<noteq> [] \<or> kol_unresolved_obligation_ids k \<noteq> [] \<or> kip_blocking_conflicts i \<noteq> [] \<or>
         krr_outcome v \<noteq> ReviewReady then Inl NeedsContext
       else andThen (ok_or (kr_baseline r) NeedsContext) (\<lambda>b.
         if kbm_workspace_generation b \<noteq> generation then Inl ContextChanged
         else Inr \<lparr>krc_seal_id = kn_fresh z, krc_plan_revision = kbl_revision plan, krc_plan_digest = kbl_digest plan,
           krc_changeset_digest = kcs_digest c, krc_run_revision = kr_revision r + 1, krc_workspace_generation = generation,
           krc_operation_ids = kbl_operation_ids plan,
           krc_command_digest = kn_command_digest z (plan, c, e, k, i, v, b, generation, kr_revision r)\<rparr>)))))))))"

definition stale_bindings :: "nat \<Rightarrow> change_run \<Rightarrow> change_run" where
  "stale_bindings n r = r\<lparr>kr_bindings := map (\<lambda>b. if n \<le> kc_ordinal (kob_phase b) then b\<lparr>kob_stale := True\<rparr> else b) (kr_bindings r)\<rparr>"

text \<open>An output becomes the one of its phase (\<^verbatim>\<open>ON CONFLICT DO UPDATE\<close>).\<close>

definition bind_output :: "kc_phase \<Rightarrow> uuid \<Rightarrow> int \<Rightarrow> str \<times> agent_output \<Rightarrow> change_run \<Rightarrow> change_run" where
  "bind_output p i n content r = r\<lparr>
     kr_outputs := kr_outputs r @ [\<lparr>kou_id = i, kou_phase = p, kou_revision = n, kou_content = Some content\<rparr>],
     kr_bindings := filter (\<lambda>b. kob_phase b \<noteq> p) (kr_bindings r) @
       [\<lparr>kob_phase = p, kob_output = i, kob_revision = n, kob_stale = False\<rparr>]\<rparr>"

text \<open>What is asked of an output, and what it changes\<close>

definition submit_output ::
    "run_env \<Rightarrow> change_world \<Rightarrow> kc_phase \<Rightarrow> agent_output \<Rightarrow> (change_world \<times> phase_updates) result" where
  "submit_output z w p out = andThen (verify_envelope z (kwd_run w) p out) (\<lambda>_.
     let phasewise = kao_phasewise_reason out \<noteq> None \<or> kao_outcome out \<in> {PhaseWaitingInput, PhaseBlocked} \<or>
           (case as_review (kao_data out) of None \<Rightarrow> False | Some v \<Rightarrow> krr_outcome v = ReviewFindings);
         r = (if phasewise then (kwd_run w)\<lparr>kr_mode := Phasewise\<rparr> else kwd_run w);
         w = w\<lparr>kwd_run := r\<rparr> in
     andThen (phase_data_step z w (kao_outcome out = PhaseCompleted \<and> kao_transition out = Continue) (kao_data out))
       (\<lambda>(d, updates, rows). let out = out\<lparr>kao_data := d\<rparr> in
       Inr (w\<lparr>kwd_rows := rows, kwd_run := bind_output p (kn_fresh z) (next_revision r p) (kn_output_digest z out, out) r\<rparr>, updates)))"

definition attempt_number :: "change_run \<Rightarrow> kc_phase \<Rightarrow> nat" where
  "attempt_number r p = fold max (map kat_attempt (filter (\<lambda>a. kat_phase a = p) (kr_attempts r))) 0 + 1"

definition review_recorded :: "agent_output option \<Rightarrow> review_outcome option" where
  "review_recorded out = map_option krr_outcome (Option.bind out (as_review \<circ> kao_data))"

definition erased_result_of :: "change_result \<Rightarrow> erased_result" where
  "erased_result_of v = \<lparr>kes_canonical = kch_canonical v, kes_user_outcome = kch_user_outcome v,
     kes_publisher_receipt_id = kch_publisher_receipt_id v, kes_effects = map (\<lambda>e. \<lparr>koe_effect_id = ker_effect_id e,
       koe_kind = ker_kind e, koe_status = ker_status e, koe_generation = ker_generation e\<rparr>) (kch_effects v)\<rparr>"

definition keep_new :: "'a option \<Rightarrow> 'a option \<Rightarrow> 'a option" where
  "keep_new new old = (if new = None then old else new)"

definition advance_run ::
    "phase_updates \<Rightarrow> review_outcome option \<Rightarrow> kc_phase option \<Rightarrow> run_status \<Rightarrow> kc_phase option \<Rightarrow> change_run \<Rightarrow> change_run" where
  "advance_run u review revisit status next r =
     (let r = (case revisit of None \<Rightarrow> r | Some t \<Rightarrow> (stale_bindings (kc_ordinal t) r)\<lparr>kr_ready := None\<rparr>);
          r = (case review of None \<Rightarrow> r | Some v \<Rightarrow> r\<lparr>kr_review := (if v = ReviewFindings then None else Some v)\<rparr>) in
      r\<lparr>kr_revision := kr_revision r + 1, kr_status := status, kr_current := next,
        kr_baseline := keep_new (kpu_baseline u) (kr_baseline r), kr_plan := keep_new (kpu_plan u) (kr_plan r),
        kr_ready := keep_new (if revisit = None then kpu_ready u else None) (kr_ready r),
        kr_result := (if kr_erased r then kr_result r else keep_new (kpu_result u) (kr_result r)),
        kr_erased_result := (if kr_erased r then keep_new (map_option erased_result_of (kpu_result u)) (kr_erased_result r)
          else kr_erased_result r)\<rparr>)"

section \<open>Erasing what a change keeps of a unit\<close>

text \<open>
  Every row of a change is registered as a copy of each unit it touches (\<^verbatim>\<open>register_change_for_unit\<close>), so the
  erasure of one of them clears them all. The receipt of a publication survives as its projection. The row of
  the run is read before that of the change is cleared; texts without a value are empty.
\<close>

definition retain_operation :: "uuid \<Rightarrow> int \<Rightarrow> applied_receipt \<Rightarrow> retained_receipt" where
  "retain_operation u n a = (if kap_unit_id a = u
     then RetainedPayloadErased \<lparr>keo_operation_id = kap_operation_id a, keo_unit_id = kap_unit_id a,
       keo_operation = kap_operation a, keo_event_id = kap_event_id a, keo_erasure_sequence = n\<rparr>
     else RetainedIntact a)"

fun retain_again :: "uuid \<Rightarrow> int \<Rightarrow> retained_receipt \<Rightarrow> retained_receipt" where
  "retain_again u n (RetainedIntact a) = retain_operation u n a"
| "retain_again u n (RetainedPayloadErased e) = RetainedPayloadErased e"

definition opaque_effect :: "effect_receipt \<Rightarrow> opaque_effect_receipt" where
  "opaque_effect e = \<lparr>koe_effect_id = ker_effect_id e, koe_kind = ker_kind e, koe_status = ker_status e,
     koe_generation = ker_generation e\<rparr>"

definition project_receipt ::
    "completion_requirement option \<Rightarrow> uuid \<Rightarrow> int \<Rightarrow> change_run \<Rightarrow> erased_publisher_receipt option result" where
  "project_receipt completion u n r = (case kr_receipt r of
       Some p \<Rightarrow> andThen (ok_or completion InternalInvariant) (\<lambda>k. Inr (Some
         \<lparr>kep_id = kpr_id p, kep_request_id = kpr_request_id p, kep_change_id = kpr_change_id p, kep_run_id = kpr_run_id p,
          kep_completion = k, kep_operations = map (retain_operation u n) (kpr_applied_operations p),
          kep_effects = map opaque_effect (kpr_effects p)\<rparr>))
     | None \<Rightarrow> Inr (map_option (\<lambda>p. p\<lparr>kep_operations := map (retain_again u n) (kep_operations p)\<rparr>) (kr_erased_receipt r)))"

definition redacted_row :: "operation_row \<Rightarrow> operation_row" where
  "redacted_row r = r\<lparr>kow_client_label := [], kow_reason := [], kow_authority_basis := [], kow_knowledge_kind := None,
     kow_profile_ids := [], kow_qualification_basis := None\<rparr>"

definition redacted_run :: "erased_publisher_receipt option \<Rightarrow> change_run \<Rightarrow> change_run" where
  "redacted_run retained r = r\<lparr>kr_baseline := None, kr_plan := None, kr_ready := None, kr_receipt := None, kr_effects := None,
     kr_result := None, kr_erased_receipt := keep_new retained (kr_erased_receipt r), kr_erased := True,
     kr_outputs := map (\<lambda>x. x\<lparr>kou_content := None\<rparr>) (kr_outputs r),
     kr_inputs := map (\<lambda>i. i\<lparr>kin_digest := None\<rparr>) (kr_inputs r)\<rparr>"

definition erase_control :: "uuid \<Rightarrow> change_world \<Rightarrow> change_world result" where
  "erase_control u w = andThen (ok_or (find (\<lambda>s. ksl_unit s = u) (ku_suppressions (kwd_units w))) StorageUnavailable) (\<lambda>s.
     andThen (project_receipt (map_option kcy_completion (kcg_payload (kwd_change w))) u (ksl_sequence s) (kwd_run w)) (\<lambda>retained.
     Inr (w\<lparr>kwd_change := (kwd_change w)\<lparr>kcg_payload := None\<rparr>, kwd_rows := map redacted_row (kwd_rows w),
       kwd_run := redacted_run retained (kwd_run w)\<rparr>)))"

fun erased_unit :: "retained_receipt \<Rightarrow> uuid option" where
  "erased_unit (RetainedPayloadErased e) = Some (keo_unit_id e)"
| "erased_unit (RetainedIntact a) = None"

definition receipt_erased_units :: "change_run \<Rightarrow> uuid list" where
  "receipt_erased_units r = (case kr_erased_receipt r of None \<Rightarrow> [] | Some p \<Rightarrow> btree_list (List.map_filter erased_unit (kep_operations p)))"

definition suppress_change :: "run_env \<Rightarrow> uuid \<Rightarrow> change_world \<Rightarrow> change_world result" where
  "suppress_change z u w = andThen (erase_control u w) (\<lambda>w.
     case suppress_owned_unit (\<lambda>_. 1) (kn_rest z) u (kwd_units w) of (st, complete) \<Rightarrow>
       if complete then Inr (w\<lparr>kwd_units := st\<rparr>) else Inl KnowledgeUnavailable)"

section \<open>The completion of a phase\<close>

definition found_run :: "change_world \<Rightarrow> uuid \<Rightarrow> uuid \<Rightarrow> bool" where
  "found_run w change run \<longleftrightarrow> kcg_id (kwd_change w) = change \<and> kcg_run (kwd_change w) = run"

definition attempt_of :: "change_run \<Rightarrow> kc_phase \<Rightarrow> phase_outcome \<Rightarrow> transition \<Rightarrow> uuid option \<Rightarrow> change_attempt" where
  "attempt_of r p outcome t i = \<lparr>kat_phase = p, kat_attempt = attempt_number r p, kat_outcome = outcome,
     kat_transition = t, kat_output = i\<rparr>"

definition phase_guard :: "change_world \<Rightarrow> kc_complete \<Rightarrow> unit result" where
  "phase_guard w x = (let r = kwd_run w; p = kx_phase_id x in checks
     [refuse_if (\<not> found_run w (kx_change_id x) (kx_run_id x)) NotFound,
      refuse_if (kr_revision r \<noteq> kx_run_revision x) StaleRevision,
      refuse_if (\<not> is_live r \<or> kr_current r \<noteq> Some p) StaleContext,
      refuse_if (p \<in> {KcCommit, KcSettleEffects}) InvalidArguments,
      refuse_if (is_published r \<and> p \<noteq> KcResultHandoff) Forbidden])"

definition phase_submission :: "run_env \<Rightarrow> kc_complete \<Rightarrow> change_world \<Rightarrow> (change_world \<times> phase_updates) result" where
  "phase_submission z x w = (case kx_output x of
       Some out \<Rightarrow> submit_output z w (kx_phase_id x) out
     | None \<Rightarrow> if kx_phase_id x = KcPublicationGate
         then map_sum id (\<lambda>s. (w, no_updates\<lparr>kpu_ready := Some s\<rparr>)) (seal_gate z w) else Inr (w, no_updates))"

definition phase_revisit :: "kc_definition \<Rightarrow> kc_complete \<Rightarrow> kc_phase option result" where
  "phase_revisit d x = (case kx_output x of
       Some out \<Rightarrow> requested_revisit d (kx_phase_id x) out (kx_revisit_phase_id x)
     | None \<Rightarrow> if kx_phase_id x = KcPublicationGate \<and> kx_revisit_phase_id x = None then Inr None else Inl InvalidArguments)"

definition phase_outcome_of :: "kc_complete \<Rightarrow> phase_outcome \<times> transition" where
  "phase_outcome_of x = (case kx_output x of
       Some out \<Rightarrow> (kao_outcome out, kao_transition out) | None \<Rightarrow> (PhaseCompleted, Continue))"

definition record_change_attempt :: "run_env \<Rightarrow> kc_complete \<Rightarrow> change_run \<Rightarrow> change_run" where
  "record_change_attempt z x r = r\<lparr>kr_attempts := kr_attempts r @ [attempt_of r (kx_phase_id x) (fst (phase_outcome_of x))
     (snd (phase_outcome_of x)) (if kx_output x = None then None else Some (kn_fresh z))]\<rparr>"

definition promoted :: "run_env \<Rightarrow> phase_updates \<Rightarrow> run_status \<Rightarrow> unit result" where
  "promoted z u status = (if status = RunCompleted
     then andThen (ok_or (kpu_result u) InternalInvariant) (kn_promote z) else Inr ())"

definition complete_change_phase :: "run_env \<Rightarrow> kc_complete \<Rightarrow> change_world \<Rightarrow> change_world result" where
  "complete_change_phase z x w = (let d = kr_definition (kwd_run w); review = review_recorded (kx_output x) in
     andThen (phase_guard w x) (\<lambda>_. andThen (phase_submission z x w) (\<lambda>(w1, u). andThen (phase_revisit d x) (\<lambda>revisit.
     andThen (after_attempt d (kx_phase_id x) (fst (phase_outcome_of x)) (snd (phase_outcome_of x)) review revisit) (\<lambda>(status, p).
     let w2 = w1\<lparr>kwd_run := advance_run u review revisit status p (record_change_attempt z x (kwd_run w1))\<rparr> in
     andThen (promoted z u status) (\<lambda>_. fold_m (suppress_change z) (receipt_erased_units (kwd_run w2)) w2))))))"

section \<open>A new input\<close>

definition target_assignment :: "run_env \<Rightarrow> change_world \<Rightarrow> target_update \<Rightarrow> unit result" where
  "target_assignment z w u = (let g = ktu_replacement_guard u in
     andThen (ok_or (if kcg_payload (kwd_change w) = None then None
       else find (\<lambda>r. kow_id r = ktu_operation_id u) (kwd_rows w)) InvalidArguments) (\<lambda>r. checks
     [refuse_if (kow_operation r = OpCreate \<or> kow_unit_id r \<noteq> krg_unit_id g \<or>
        kow_expected_revision r \<noteq> Some (ktu_previous_expected_revision u) \<or>
        kow_expected_lifecycle r \<noteq> Some (ktu_previous_expected_lifecycle u)) ContextChanged,
      refuse_if (krg_revision g = ktu_previous_expected_revision u \<and> krg_lifecycle g = ktu_previous_expected_lifecycle u)
        InvalidArguments,
      kn_guard z g]))"

definition replaced_sources :: "run_env \<Rightarrow> change_row \<Rightarrow> source_ref list \<Rightarrow> change_row result" where
  "replaced_sources z c ss = andThen (ok_or (kcg_payload c) KnowledgePayloadErased) (\<lambda>p.
     if kcy_sources p = ss then Inl InvalidArguments
     else andThen (ok_or (checked_add_i64 (kcg_source_revision c) 1) CapacityExceeded) (\<lambda>n.
       andThen (kn_resolve z ss n) (\<lambda>payloads.
       Inr (c\<lparr>kcg_payload := Some (p\<lparr>kcy_sources := ss, kcy_pins := map kpy_pin payloads\<rparr>), kcg_source_revision := n\<rparr>))))"

definition retarget :: "target_update \<Rightarrow> operation_row list \<Rightarrow> operation_row list" where
  "retarget u = map (\<lambda>r. if kow_id r = ktu_operation_id u
     then r\<lparr>kow_expected_revision := Some (krg_revision (ktu_replacement_guard u)),
       kow_expected_lifecycle := Some (krg_lifecycle (ktu_replacement_guard u))\<rparr> else r)"

definition amend_basis :: "run_env \<Rightarrow> basis_amendment \<Rightarrow> change_world \<Rightarrow> change_world result" where
  "amend_basis z a w = andThen (each (target_assignment z w) (kba_target_updates a)) (\<lambda>_.
     andThen (case kba_replacement_sources a of None \<Rightarrow> Inr (kwd_change w) | Some ss \<Rightarrow> replaced_sources z (kwd_change w) ss) (\<lambda>c.
     if kba_target_updates a = [] \<and> kba_replacement_sources a = None then Inl InvalidArguments
     else Inr (w\<lparr>kwd_rows := fold retarget (kba_target_updates a) (kwd_rows w), kwd_change := c\<rparr>)))"

definition terminal_rework :: "change_run \<Rightarrow> kc_phase \<Rightarrow> bool" where
  "terminal_rework r target \<longleftrightarrow> kr_review r \<in> {Some ReviewNoChange, Some ReviewRejected} \<and>
     kc_ordinal KcResolveBaseline \<le> kc_ordinal target \<and> kc_ordinal target \<le> kc_ordinal KcImpactPlan"

definition input_guard :: "change_run \<Rightarrow> kc_input \<Rightarrow> unit result" where
  "input_guard r x = (let target = ki_revisit_phase_id x in checks
     [refuse_if (kr_revision r \<noteq> ki_run_revision x) StaleRevision,
      refuse_if (\<not> is_live r) Forbidden,
      refuse_if (is_published r \<or> kr_erased r \<or> kr_result r \<noteq> None \<or> kr_erased_result r \<noteq> None) Forbidden,
      andThen (ok_or (kr_current r) InternalInvariant) (\<lambda>current.
        andThen (ok_or (find (\<lambda>p. kd_id p = current) (kf_phases (kr_definition r))) InternalInvariant) (\<lambda>here. checks
        [refuse_if (current = KcResultHandoff \<and> \<not> terminal_rework r target) Forbidden,
         refuse_if (ki_basis_amendment x \<noteq> None \<and>
           (target \<noteq> KcResolveBaseline \<or> kc_ordinal current < kc_ordinal KcResolveBaseline)) InvalidArguments,
         refuse_if (target \<noteq> current \<and> target \<notin> set (kd_allowed_backward_to here)) InvalidArguments]))])"

definition input_row_of :: "change_run \<Rightarrow> uuid \<Rightarrow> kc_phase \<Rightarrow> str \<Rightarrow> change_input" where
  "input_row_of r i target digest = \<lparr>kin_id = i, kin_sequence = fold max (map kin_sequence (kr_inputs r)) 0 + 1,
     kin_revisit = target, kin_digest = Some digest\<rparr>"

definition record_change_input :: "run_env \<Rightarrow> kc_input \<Rightarrow> change_world \<Rightarrow> change_world result" where
  "record_change_input z x w = (let r = kwd_run w; target = ki_revisit_phase_id x;
       digest = kn_input_digest z (ki_reason x, ki_input x, target, ki_basis_amendment x) in
     if \<not> found_run w (ki_change_id x) (ki_run_id x) then Inl NotFound
     else andThen (input_guard r x) (\<lambda>_.
       andThen (case ki_basis_amendment x of None \<Rightarrow> Inr w | Some a \<Rightarrow> amend_basis z a w) (\<lambda>w.
       if list_ex (\<lambda>i. kin_digest i = Some digest) (kr_inputs r) then Inl InputConflict
       else let r = (stale_bindings (kc_ordinal target) r)\<lparr>kr_inputs := kr_inputs r @ [input_row_of r (kn_fresh z) target digest]\<rparr> in
         Inr (w\<lparr>kwd_run := r\<lparr>kr_revision := kr_revision r + 1, kr_status := RunActive, kr_current := Some target,
           kr_mode := Phasewise, kr_baseline := (if ki_basis_amendment x = None then kr_baseline r else None),
           kr_plan := (if ki_basis_amendment x = None then kr_plan r else None), kr_ready := None, kr_review := None\<rparr>\<rparr>))))"

end
