(* ===== verification/KnowledgePublish.thy ===== *)
theory KnowledgePublish
  imports KnowledgePhases
begin

text \<open>
  The publication of a knowledge change: the guard of a commit (\<^verbatim>\<open>commit_guard.rs\<close>) and the commit with the
  effects it records (\<^verbatim>\<open>commit.rs\<close>). The publication of triples, their reading back, the search index and the
  maintenance tasks are parameters.
\<close>

section \<open>The guard of a commit\<close>

definition current_pin_digest :: "run_env \<Rightarrow> change_row \<Rightarrow> str result" where
  "current_pin_digest z c = andThen (payload_of c) (\<lambda>p. case kn_resolve z (kcy_sources p) (kcg_source_revision c) of
       Inr ps \<Rightarrow> Inr (kn_pins_digest z (map kpy_pin ps))
     | Inl e \<Rightarrow> if e = InvalidSource then Inr [] else Inl e)"

definition sealed_for :: "ready_to_commit \<Rightarrow> int \<Rightarrow> int \<Rightarrow> branch_plan \<Rightarrow> changeset \<Rightarrow> baseline_manifest \<Rightarrow> bool" where
  "sealed_for ready revision generation plan c b \<longleftrightarrow> krc_run_revision ready = revision \<and>
     krc_workspace_generation ready = generation \<and> krc_plan_revision ready = kbl_revision plan \<and>
     krc_plan_digest ready = kbl_digest plan \<and> krc_changeset_digest ready = kcs_digest c \<and>
     krc_operation_ids ready = kbl_operation_ids plan \<and>
     kpn_operation_id ` set (kcs_operations c) = set (kbl_operation_ids plan) \<and> kbm_workspace_generation b = generation"

definition nothing_open :: "evidence_manifest \<Rightarrow> obligation_receipts \<Rightarrow> impact_plan \<Rightarrow> review_receipt \<Rightarrow> bool" where
  "nothing_open e k i v \<longleftrightarrow> kem_unresolved_gaps e = [] \<and> kol_unresolved_obligation_ids k = [] \<and>
     kip_blocking_conflicts i = [] \<and> krr_outcome v = ReviewReady"

definition verify_commit :: "run_env \<Rightarrow> change_world \<Rightarrow> ready_to_commit \<Rightarrow> changeset result" where
  "verify_commit z w ready = (let r = kwd_run w; generation = ku_generation (kwd_units w) in
     andThen (ok_or (kr_plan r) NeedsContext) (\<lambda>plan. andThen (loaded_changeset r) (\<lambda>c.
     andThen (loaded_evidence r) (\<lambda>e. andThen (loaded_checks r) (\<lambda>k. andThen (loaded_impact r) (\<lambda>i.
     andThen (loaded_review r) (\<lambda>v. andThen (ok_or (kr_baseline r) NeedsContext) (\<lambda>b.
     if \<not> sealed_for ready (kr_revision r) generation plan c b \<or> \<not> nothing_open e k i v then Inl StaleContext
     else andThen (current_pin_digest z (kwd_change w)) (\<lambda>d.
       if d \<noteq> kem_source_pin_digest e then Inl InvalidSource
       else andThen (each (kn_guard z) (kbm_targets b @ kbm_dependencies b)) (\<lambda>_.
       if \<not> machine_impact_matches (current_impact z w) i then Inl NeedsContext
       else if kn_command_digest z (plan, c, e, k, i, v, b, generation, kr_revision r - 1) \<noteq> krc_command_digest ready
       then Inl StaleContext else Inr c))))))))))"

section \<open>The commit\<close>

definition EFFECT_KINDS :: "effect_kind list" where
  "EFFECT_KINDS = [EffectExactDelivery, EffectInvalidation, EffectImpact, EffectSearch, EffectVisibilityClosure,
     EffectOwnedCopyPurge, EffectBackupDisposition]"

definition ready_if :: "bool \<Rightarrow> effect_status" where
  "ready_if ok = (if ok then StatusReady else StatusPending)"

fun effect_at_commit :: "completion_requirement \<Rightarrow> bool \<Rightarrow> bool \<Rightarrow> bool \<Rightarrow> bool \<Rightarrow> effect_kind \<Rightarrow> effect_status" where
  "effect_at_commit k exact closes visible erases EffectExactDelivery = ready_if exact"
| "effect_at_commit k exact closes visible erases EffectInvalidation = StatusReady"
| "effect_at_commit k exact closes visible erases EffectImpact = StatusReady"
| "effect_at_commit k exact closes visible erases EffectSearch =
     (if kcr_search k = SearchNotRequired then StatusNotApplicable else StatusPending)"
| "effect_at_commit k exact closes visible erases EffectVisibilityClosure =
     (if visible then StatusReady else if closes then StatusPending else StatusNotApplicable)"
| "effect_at_commit k exact closes visible erases EffectOwnedCopyPurge = (if erases then StatusPending else StatusNotApplicable)"
| "effect_at_commit k exact closes visible erases EffectBackupDisposition =
     (if kcr_erasure k = ErasureRestoreSafe then StatusPending else StatusNotApplicable)"

fun all_m :: "('a \<Rightarrow> bool result) \<Rightarrow> 'a list \<Rightarrow> bool result" where
  "all_m f [] = Inr True"
| "all_m f (x # xs) = andThen (f x) (\<lambda>ok. if ok then all_m f xs else Inr False)"

definition native_matches :: "run_env \<Rightarrow> applied_receipt \<Rightarrow> bool result" where
  "native_matches z a = (if kap_operation a = OpErase then Inr True
     else andThen (ok_or (kap_revision a) InternalInvariant) (\<lambda>n.
       andThen (kn_native z (kap_unit_id a) n (kap_event_id a) (kap_operation a \<in> {OpCreate, OpRevise})) (\<lambda>d.
       Inr (d = kap_rdf_digest a))))"

definition retraction_open :: "unit_store \<Rightarrow> operation_row \<Rightarrow> bool" where
  "retraction_open st x \<longleftrightarrow> kow_operation x = OpRetract \<and> (case head_of st (kow_unit_id x) of
       None \<Rightarrow> False
     | Some h \<Rightarrow> kh_lifecycle h \<noteq> LifeRetracted \<or> list_ex (\<lambda>b. kb_unit b = kow_unit_id x \<and> kb_active b) (ku_bindings st))"

definition effects_at_commit ::
    "run_env \<Rightarrow> completion_requirement \<Rightarrow> operation_row list \<Rightarrow> unit_store \<Rightarrow> bool \<Rightarrow> applied_receipt list \<Rightarrow> effect_receipt list" where
  "effects_at_commit z k rows st matching rs = (let
       erases = list_ex (\<lambda>a. kap_operation a = OpErase) rs;
       closes = list_ex (\<lambda>a. kap_operation a \<in> {OpRetract, OpErase}) rs;
       visible = closes \<and> \<not> erases \<and> \<not> list_ex (retraction_open st) rows;
       searched = kn_search z (map kap_unit_id rs) (kcr_search k = SearchRequired) in
     map (\<lambda>kind. \<lparr>ker_effect_id = kn_effect_id z kind, ker_kind = kind,
       ker_status = (if kind = EffectSearch then searched
         else effect_at_commit k (matching \<and> \<not> erases) closes visible erases kind),
       ker_generation = ku_generation st, ker_owner_ref = ''tect-backend'',
       ker_detail = (if kind \<noteq> EffectSearch then ''backend recorded canonical effect''
         else if searched = StatusNotApplicable then ''search completion was not required''
         else ''current canonical search projection checked'')\<rparr>) EFFECT_KINDS)"

definition commit_gate :: "change_world \<Rightarrow> kc_commit \<Rightarrow> ready_to_commit result" where
  "commit_gate w x = (let r = kwd_run w in
     if \<not> found_run w (km_change_id x) (km_run_id x) then Inl NotFound
     else if kr_revision r \<noteq> km_run_revision x \<or> kr_status r \<noteq> RunActive \<or> kr_current r \<noteq> Some KcCommit then Inl StaleRevision
     else andThen (ok_or (kr_ready r) NeedsContext) (\<lambda>ready.
       if krc_seal_id ready \<noteq> km_seal_id x \<or> krc_plan_revision ready \<noteq> km_plan_revision x \<or>
         krc_plan_digest ready \<noteq> km_plan_digest x \<or> krc_command_digest ready \<noteq> km_sealed_command_digest x \<or>
         krc_run_revision ready \<noteq> kr_revision r \<or> krc_workspace_generation ready \<noteq> ku_generation (kwd_units w)
       then Inl StaleContext else Inr ready))"

definition publication_receipt ::
    "run_env \<Rightarrow> kc_commit \<Rightarrow> int \<Rightarrow> applied_receipt list \<Rightarrow> effect_receipt list \<Rightarrow> publisher_receipt" where
  "publication_receipt z x generation rs effects = (let p = \<lparr>kpr_id = kn_fresh z, kpr_request_id = km_request_id x,
       kpr_change_id = km_change_id x, kpr_run_id = km_run_id x, kpr_sealed_command_digest = km_sealed_command_digest x,
       kpr_workspace_generation = generation, kpr_applied_operations = rs, kpr_effects = effects, kpr_digest = []\<rparr> in
     p\<lparr>kpr_digest := kn_receipt_digest z p\<rparr>)"

definition published_run :: "publisher_receipt \<Rightarrow> change_run \<Rightarrow> change_run" where
  "published_run p r = r\<lparr>kr_revision := kr_revision r + 1, kr_receipt := Some p, kr_current := Some KcSettleEffects,
     kr_effect_rows := kpr_effects p\<rparr>"

definition commit_change :: "run_env \<Rightarrow> kc_commit \<Rightarrow> change_world \<Rightarrow> change_world result" where
  "commit_change z x w = andThen (commit_gate w x) (\<lambda>ready. andThen (payload_of (kwd_change w)) (\<lambda>payload.
     let k = kcy_completion payload in
     if kcr_erasure k = ErasureAllRetainedCopies then Inl UnsupportedCompletionRequirement
     else andThen (verify_commit z w ready) (\<lambda>c.
       andThen (commit_units (kn_store z) (kn_commit z) (kn_before z) (kn_rest z) (kcs_operations c) (kwd_units w)) (\<lambda>(st, rs).
       andThen (map_result (native_matches z) rs) (\<lambda>matching.
       let p = publication_receipt z x (ku_generation st) rs
             (effects_at_commit z k (kwd_rows w) st (list_all id matching) rs);
           w = w\<lparr>kwd_units := st, kwd_run := published_run p (kwd_run w)\<rparr> in
       fold_m erase_control (map kap_unit_id (filter (\<lambda>a. kap_operation a = OpErase) rs)) w)))))"

end
