(* ===== verification/KnowledgeSettlement.thy ===== *)
theory KnowledgeSettlement
  imports KnowledgePublish
begin

text \<open>
  Settling the effects of a publication: \<^verbatim>\<open>settle.rs\<close>, with the effects of an intact receipt
  (\<^verbatim>\<open>settle/effects.rs\<close>) and those of a receipt whose payload is erased (\<^verbatim>\<open>settle/opaque.rs\<close>). The reading of a
  publication from its triples, the search index and the exports are parameters; a change has one run, so a row
  of the ledger names its run by its change.
\<close>

section \<open>What is checked in the store\<close>

definition residual_complete :: "run_env \<Rightarrow> unit_store \<Rightarrow> uuid \<Rightarrow> bool" where
  "residual_complete z st u \<longleftrightarrow> readable_rows u st + kn_rest z u = 0"

definition unit_bound :: "unit_store \<Rightarrow> uuid \<Rightarrow> bool" where
  "unit_bound st u \<longleftrightarrow> list_ex (\<lambda>b. kb_unit b = u \<and> kb_active b) (ku_bindings st)"

definition retracted :: "unit_store \<Rightarrow> uuid \<Rightarrow> bool" where
  "retracted st u \<longleftrightarrow> list_ex (\<lambda>h. kh_unit h = u \<and> kh_lifecycle h = LifeRetracted \<and> \<not> kh_active h) (ku_heads st) \<and> \<not> unit_bound st u"

definition erased_head :: "unit_store \<Rightarrow> uuid \<Rightarrow> bool" where
  "erased_head st u \<longleftrightarrow> list_ex (\<lambda>h. kh_unit h = u \<and> kh_lifecycle h = LifeErased \<and> \<not> kh_active h \<and> kh_payload_erased h)
     (ku_heads st) \<and> \<not> unit_bound st u"

definition intact_operation :: "run_env \<Rightarrow> unit_store \<Rightarrow> applied_receipt \<Rightarrow> bool result" where
  "intact_operation z st a = (let u = kap_unit_id a; event = kap_event_id a; op = kap_operation a;
       head_is = (\<lambda>p. list_ex (\<lambda>h. kh_unit h = u \<and> Some (kh_revision h) = kap_revision a \<and> kh_last_event h = event \<and>
         \<not> kh_payload_erased h \<and> p h) (ku_heads st)) in
     if op = OpErase then Inr False
     else andThen (ok_or (kap_revision a) InternalInvariant) (\<lambda>n.
       andThen (kn_published z u n event (op \<in> {OpCreate, OpRevise})) (\<lambda>d. Inr
       (if d \<noteq> kap_rdf_digest a \<or> kap_rdf_digest_method a \<noteq> ''rdfc-1.0-sha256'' then False
        else if op \<in> {OpCreate, OpRevise} then head_is (\<lambda>h. kh_lifecycle h = LifeActive \<and> kh_active h)
        else if op = OpRevalidate then head_is (\<lambda>h. kh_validation_event h = Some event)
        else if op = OpSupersede then list_ex (\<lambda>s. kss_predecessor s = u \<and> kss_event s = event) (ku_supersessions st)
        else retracted st u))))"

definition erase_targets :: "publisher_receipt \<Rightarrow> uuid list" where
  "erase_targets p = map kap_unit_id (filter (\<lambda>a. kap_operation a = OpErase) (kpr_applied_operations p))"

definition opaque_units :: "erased_publisher_receipt \<Rightarrow> uuid list" where
  "opaque_units p = btree_list (List.map_filter erased_unit (kep_operations p))"

section \<open>Checks of an intact receipt\<close>

definition exact_delivery :: "run_env \<Rightarrow> unit_store \<Rightarrow> publisher_receipt \<Rightarrow> bool result" where
  "exact_delivery z st p = andThen (all_m (\<lambda>a. if kap_operation a = OpErase
       then Inr (list_ex (\<lambda>s. ksl_unit s = kap_unit_id a \<and> ksl_change s = kpr_change_id p \<and> ksl_event s = kap_event_id a \<and>
           ksl_lifecycle s = LifeErased) (ku_suppressions st) \<and> residual_complete z st (kap_unit_id a))
       else intact_operation z st a) (kpr_applied_operations p)) (\<lambda>ok. Inr (ok \<and> kpr_applied_operations p \<noteq> []))"

definition invalidated :: "unit_store \<Rightarrow> publisher_receipt \<Rightarrow> bool" where
  "invalidated st p \<longleftrightarrow> kpr_applied_operations p \<noteq> [] \<and> 0 < kpr_workspace_generation p \<and>
     kpr_workspace_generation p \<le> ku_generation st"

definition impact_reviewed :: "change_run \<Rightarrow> publisher_receipt \<Rightarrow> bool result" where
  "impact_reviewed r p = andThen (loaded_impact r) (\<lambda>i. andThen (loaded_review r) (\<lambda>v. Inr
     (krr_outcome v = ReviewReady \<and> kap_operation_id ` set (kpr_applied_operations p) = set (krr_covered_operation_ids v) \<and>
      kip_digest i \<in> set (krr_reviewed_digests v) \<and> kip_blocking_conflicts i = [] \<and> list_all krf_closed (krr_findings v))))"

definition visibility_closed :: "run_env \<Rightarrow> unit_store \<Rightarrow> publisher_receipt \<Rightarrow> bool" where
  "visibility_closed z st p \<longleftrightarrow> list_all (\<lambda>a. let u = kap_unit_id a in
     if kap_operation a = OpRetract then retracted st u
     else if kap_operation a = OpErase then erased_head st u \<and> residual_complete z st u else True) (kpr_applied_operations p)"

text \<open>\<^verbatim>\<open>suppress_owned_unit\<close> on the store and, where something is still readable, on the rows of this change\<close>

definition suppress_copies :: "run_env \<Rightarrow> uuid \<Rightarrow> change_world \<Rightarrow> (change_world \<times> bool) result" where
  "suppress_copies z u w = (if readable_rows u (kwd_units w) + kn_before z u = 0 then Inr (w, True)
     else andThen (erase_control u w) (\<lambda>w. case suppress_owned_unit (kn_before z) (kn_rest z) u (kwd_units w) of
       (st, complete) \<Rightarrow> Inr (w\<lparr>kwd_units := st\<rparr>, complete)))"

definition ledger_erased :: "uuid \<Rightarrow> unit_store \<Rightarrow> unit_store" where
  "ledger_erased u st = st\<lparr>ku_suppressions := map (\<lambda>s. if ksl_unit s = u
     then s\<lparr>ksl_lifecycle := LifeErased, ksl_copies_ready := True\<rparr> else s) (ku_suppressions st)\<rparr>"

fun purge_units :: "run_env \<Rightarrow> uuid list \<Rightarrow> change_world \<Rightarrow> (change_world \<times> bool) result" where
  "purge_units z [] w = Inr (w, True)"
| "purge_units z (u # us) w = andThen (suppress_copies z u w) (\<lambda>(w, complete).
     if \<not> complete \<or> \<not> residual_complete z (kwd_units w) u then Inr (w, False)
     else purge_units z us (w\<lparr>kwd_units := ledger_erased u (kwd_units w)\<rparr>))"

definition purge_owned :: "run_env \<Rightarrow> uuid list \<Rightarrow> change_world \<Rightarrow> (change_world \<times> bool) result" where
  "purge_owned z us w = (if us = [] then Inr (w, False) else purge_units z us w)"

definition restore_ready :: "uuid list \<Rightarrow> int \<Rightarrow> unit_store \<Rightarrow> unit_store" where
  "restore_ready us n st = st\<lparr>ku_suppressions := map (\<lambda>s. if ksl_unit s \<in> set us \<and> ksl_sequence s \<le> n
     then s\<lparr>ksl_restore_ready := True\<rparr> else s) (ku_suppressions st)\<rparr>"

text \<open>Whether an export covers the erasures, and up to which sequence\<close>

definition required_sequence :: "unit_store \<Rightarrow> publisher_receipt \<Rightarrow> int option" where
  "required_sequence st p = (let us = erase_targets p;
       ns = map ksl_sequence (filter (\<lambda>s. ksl_change s = kpr_change_id p \<and> ksl_unit s \<in> set us) (ku_suppressions st)) in
     if us = [] \<or> length ns \<noteq> length us then None else Some (last (sort ns)))"

definition restore_safe :: "run_env \<Rightarrow> uuid list \<Rightarrow> int option \<Rightarrow> change_world \<Rightarrow> change_world \<times> bool \<times> int" where
  "restore_safe z us required w = (case required of
       None \<Rightarrow> (w, False, 0)
     | Some n \<Rightarrow> if kn_covered z n then (w\<lparr>kwd_units := restore_ready us n (kwd_units w)\<rparr>, True, n) else (w, False, n))"

definition disposition_detail :: "bool \<Rightarrow> int \<Rightarrow> str" where
  "disposition_detail covered n = (if covered then ''recorded export covers receipt erasure sequence '' @ show_int n
     else ''operator checkpoint required through erasure sequence '' @ show_int n)"

section \<open>The state of an effect\<close>

definition settled_effect :: "effect_receipt \<Rightarrow> change_world \<Rightarrow> effect_status \<Rightarrow> str \<Rightarrow> (change_world \<times> effect_receipt) result" where
  "settled_effect e w status detail = (let e = e\<lparr>ker_status := status, ker_detail := detail\<rparr> in
     Inr (w\<lparr>kwd_run := (kwd_run w)\<lparr>kr_effect_rows := map (\<lambda>x. if ker_effect_id x = ker_effect_id e then e else x)
       (kr_effect_rows (kwd_run w))\<rparr>\<rparr>, e))"

definition refresh_intact ::
    "run_env \<Rightarrow> publisher_receipt \<Rightarrow> completion_requirement \<Rightarrow> effect_receipt \<Rightarrow> change_world \<Rightarrow> (change_world \<times> effect_receipt) result" where
  "refresh_intact z p k e w = (let st = kwd_units w in case ker_kind e of
       EffectExactDelivery \<Rightarrow> if \<not> kcr_exact_delivery k
         then settled_effect e w StatusNotApplicable ''exact delivery was not required''
         else andThen (exact_delivery z st p) (\<lambda>ok.
           settled_effect e w (ready_if ok) ''typed publication or expected withdrawal checked'')
     | EffectInvalidation \<Rightarrow> settled_effect e w (ready_if (invalidated st p))
         (''workspace generation '' @ show_int (kpr_workspace_generation p) @ '' is the context basis'')
     | EffectImpact \<Rightarrow> if \<not> kcr_impact_recorded k
         then settled_effect e w StatusNotApplicable ''reviewed impact was not required''
         else andThen (impact_reviewed (kwd_run w) p) (\<lambda>ok.
           settled_effect e w (ready_if ok) ''stored impact, followups, and review coverage checked'')
     | EffectSearch \<Rightarrow> if kcr_search k = SearchNotRequired
         then settled_effect e w StatusNotApplicable ''search completion was not required''
         else settled_effect e w (kn_search z (map kap_unit_id (kpr_applied_operations p)) True)
           ''current canonical search projection checked''
     | EffectVisibilityClosure \<Rightarrow> if \<not> list_ex (\<lambda>a. kap_operation a \<in> {OpRetract, OpErase}) (kpr_applied_operations p)
         then settled_effect e w StatusNotApplicable ''no retraction or erasure visibility closure applies''
         else settled_effect e w (ready_if (visibility_closed z st p)) ''closed unit reads and active bindings checked''
     | EffectOwnedCopyPurge \<Rightarrow> if erase_targets p = []
         then settled_effect e w StatusNotApplicable ''no erasure-owned copy purge applies''
         else andThen (purge_owned z (erase_targets p) w) (\<lambda>(w, ok).
           settled_effect e w (ready_if ok) ''receipt-scoped owned live copies and residual checked'')
     | EffectBackupDisposition \<Rightarrow> if kcr_erasure k \<noteq> ErasureRestoreSafe
         then settled_effect e w StatusNotApplicable ''restore-safe disposition was not required''
         else (case restore_safe z (erase_targets p) (required_sequence st p) w of (w, covered, n) \<Rightarrow>
           settled_effect e w (ready_if covered) (disposition_detail covered n)))"

section \<open>Receipts whose payload is erased\<close>

definition erased_unit_closed :: "run_env \<Rightarrow> unit_store \<Rightarrow> uuid \<Rightarrow> erased_operation \<Rightarrow> bool" where
  "erased_unit_closed z st change x \<longleftrightarrow> (let u = keo_unit_id x in
     list_ex (\<lambda>s. ksl_unit s = u \<and> ksl_change s = change \<and> ksl_sequence s = keo_erasure_sequence x \<and>
       ksl_lifecycle s = LifeErased) (ku_suppressions st) \<and> erased_head st u \<and> residual_complete z st u)"

fun retained_delivered :: "run_env \<Rightarrow> unit_store \<Rightarrow> uuid \<Rightarrow> retained_receipt \<Rightarrow> bool result" where
  "retained_delivered z st change (RetainedPayloadErased x) = Inr (erased_unit_closed z st change x \<and>
     (keo_operation x = OpErase \<longrightarrow> list_ex (\<lambda>s. ksl_unit s = keo_unit_id x \<and> ksl_event s = keo_event_id x \<and>
       ksl_sequence s = keo_erasure_sequence x) (ku_suppressions st)))"
| "retained_delivered z st change (RetainedIntact a) = intact_operation z st a"

fun retained_closed :: "run_env \<Rightarrow> unit_store \<Rightarrow> uuid \<Rightarrow> retained_receipt \<Rightarrow> bool" where
  "retained_closed z st change (RetainedPayloadErased x) = erased_unit_closed z st change x"
| "retained_closed z st change (RetainedIntact a) = (kap_operation a = OpRetract \<longrightarrow> retracted st (kap_unit_id a))"

fun retained_retracts :: "retained_receipt \<Rightarrow> bool" where
  "retained_retracts (RetainedIntact a) = (kap_operation a = OpRetract)"
| "retained_retracts (RetainedPayloadErased x) = False"

fun retained_unit :: "retained_receipt \<Rightarrow> uuid" where
  "retained_unit (RetainedIntact a) = kap_unit_id a"
| "retained_unit (RetainedPayloadErased x) = keo_unit_id x"

fun retained_sequence :: "retained_receipt \<Rightarrow> int option" where
  "retained_sequence (RetainedIntact a) = None"
| "retained_sequence (RetainedPayloadErased x) = Some (keo_erasure_sequence x)"

definition opaque_required :: "erased_publisher_receipt \<Rightarrow> int option" where
  "opaque_required p = (case List.map_filter retained_sequence (kep_operations p) of
       [] \<Rightarrow> None | n # ns \<Rightarrow> (let m = fold max ns n in if m = 0 then None else Some m))"

definition refresh_opaque ::
    "run_env \<Rightarrow> erased_publisher_receipt \<Rightarrow> effect_receipt \<Rightarrow> change_world \<Rightarrow> (change_world \<times> effect_receipt) result" where
  "refresh_opaque z p e w = (let st = kwd_units w; k = kep_completion p; change = kep_change_id p; us = opaque_units p in
     andThen (ok_or (find (\<lambda>x. koe_effect_id x = ker_effect_id e \<and> koe_kind x = ker_kind e) (kep_effects p)) InternalInvariant)
       (\<lambda>retained. case ker_kind e of
       EffectExactDelivery \<Rightarrow> if \<not> kcr_exact_delivery k
         then settled_effect e w StatusNotApplicable ''exact delivery was not required''
         else andThen (all_m (retained_delivered z st change) (kep_operations p)) (\<lambda>ok.
           settled_effect e w (ready_if (ok \<and> kep_operations p \<noteq> [])) ''retained typed survivors and expected withdrawals checked'')
     | EffectInvalidation \<Rightarrow> settled_effect e w
         (ready_if (koe_status retained = StatusReady \<and> koe_generation retained \<le> ku_generation st))
         (''retained generation '' @ show_int (koe_generation retained) @ '' and current context basis checked'')
     | EffectImpact \<Rightarrow> if \<not> kcr_impact_recorded k
         then settled_effect e w StatusNotApplicable ''reviewed impact was not required''
         else settled_effect e w (ready_if (koe_status retained = StatusReady))
           ''transactional pre-scrub impact and followup attestation retained''
     | EffectSearch \<Rightarrow> if kcr_search k = SearchNotRequired
         then settled_effect e w StatusNotApplicable ''search completion was not required''
         else settled_effect e w (kn_search z (map retained_unit (kep_operations p)) True)
           ''current canonical search projection checked''
     | EffectVisibilityClosure \<Rightarrow> if us = [] \<and> \<not> list_ex retained_retracts (kep_operations p)
         then settled_effect e w StatusNotApplicable ''no retraction or erasure visibility closure applies''
         else settled_effect e w (ready_if (list_all (retained_closed z st change) (kep_operations p)))
           ''closed retained reads and active bindings checked''
     | EffectOwnedCopyPurge \<Rightarrow> if us = []
         then settled_effect e w StatusNotApplicable ''no erasure-owned copy purge applies''
         else andThen (purge_owned z us w) (\<lambda>(w, ok).
           settled_effect e w (ready_if ok) ''retained receipt units and residual checked'')
     | EffectBackupDisposition \<Rightarrow> if kcr_erasure k \<noteq> ErasureRestoreSafe
         then settled_effect e w StatusNotApplicable ''restore-safe disposition was not required''
         else (case restore_safe z us (opaque_required p) w of (w, covered, n) \<Rightarrow>
           settled_effect e w (ready_if covered) (disposition_detail covered n))))"

section \<open>Settling\<close>

datatype receipt_state = ReceiptIntact publisher_receipt | ReceiptErased erased_publisher_receipt

definition receipt_state_of :: "change_run \<Rightarrow> receipt_state result" where
  "receipt_state_of r = (case (kr_receipt r, kr_erased_receipt r) of
       (Some p, None) \<Rightarrow> Inr (ReceiptIntact p) | (None, Some p) \<Rightarrow> Inr (ReceiptErased p) | _ \<Rightarrow> Inl InternalInvariant)"

fun receipt_id :: "receipt_state \<Rightarrow> uuid" where
  "receipt_id (ReceiptIntact p) = kpr_id p"
| "receipt_id (ReceiptErased p) = kep_id p"

fun receipt_effects :: "receipt_state \<Rightarrow> (uuid \<times> effect_kind) set" where
  "receipt_effects (ReceiptIntact p) = (\<lambda>e. (ker_effect_id e, ker_kind e)) ` set (kpr_effects p)"
| "receipt_effects (ReceiptErased p) = (\<lambda>e. (koe_effect_id e, koe_kind e)) ` set (kep_effects p)"

fun receipt_completion :: "change_world \<Rightarrow> receipt_state \<Rightarrow> completion_requirement result" where
  "receipt_completion w (ReceiptIntact p) = map_sum id kcy_completion (payload_of (kwd_change w))"
| "receipt_completion w (ReceiptErased p) = (if kep_change_id p \<noteq> kcg_id (kwd_change w) \<or> kep_run_id p \<noteq> kcg_run (kwd_change w)
     then Inl InternalInvariant else Inr (kep_completion p))"

definition exact_effect_set :: "receipt_state \<Rightarrow> effect_receipt list \<Rightarrow> bool" where
  "exact_effect_set p rows \<longleftrightarrow> receipt_effects p = (\<lambda>e. (ker_effect_id e, ker_kind e)) ` set rows \<and>
     ker_kind ` set rows = set EFFECT_KINDS"

fun effect_rank :: "effect_kind \<Rightarrow> nat" where
  "effect_rank EffectOwnedCopyPurge = 0"
| "effect_rank EffectExactDelivery = 1"
| "effect_rank EffectInvalidation = 2"
| "effect_rank EffectImpact = 3"
| "effect_rank EffectSearch = 4"
| "effect_rank EffectVisibilityClosure = 5"
| "effect_rank EffectBackupDisposition = 6"

fun refresh_effect ::
    "run_env \<Rightarrow> completion_requirement \<Rightarrow> receipt_state \<Rightarrow> effect_receipt \<Rightarrow> change_world \<Rightarrow> (change_world \<times> effect_receipt) result" where
  "refresh_effect z k (ReceiptIntact p) e w = refresh_intact z p k e w"
| "refresh_effect z k (ReceiptErased p) e w = refresh_opaque z p e w"

fun refresh_effects ::
    "run_env \<Rightarrow> completion_requirement \<Rightarrow> receipt_state \<Rightarrow> effect_receipt list \<Rightarrow> change_world \<Rightarrow>
      (change_world \<times> effect_receipt list) result" where
  "refresh_effects z k p [] w = Inr (w, [])"
| "refresh_effects z k p (e # es) w = andThen (refresh_effect z k p e w) (\<lambda>(w, e).
     andThen (refresh_effects z k p es w) (\<lambda>(w, es). Inr (w, e # es)))"

definition effect_done :: "effect_receipt list \<Rightarrow> effect_kind \<Rightarrow> bool" where
  "effect_done es kind \<longleftrightarrow> list_ex (\<lambda>e. ker_kind e = kind \<and> ker_status e \<in> {StatusReady, StatusNotApplicable}) es"

definition required_complete :: "completion_requirement \<Rightarrow> effect_receipt list \<Rightarrow> bool" where
  "required_complete k es \<longleftrightarrow> (kcr_exact_delivery k \<longrightarrow> effect_done es EffectExactDelivery) \<and>
     effect_done es EffectInvalidation \<and> (kcr_impact_recorded k \<longrightarrow> effect_done es EffectImpact) \<and>
     (kcr_search k = SearchNotRequired \<or> effect_done es EffectSearch) \<and> effect_done es EffectVisibilityClosure \<and>
     (case kcr_erasure k of
        ErasureNotRequired \<Rightarrow> True
      | ErasureOwnedLiveCopies \<Rightarrow> effect_done es EffectOwnedCopyPurge
      | ErasureRestoreSafe \<Rightarrow> effect_done es EffectOwnedCopyPurge \<and> effect_done es EffectBackupDisposition
      | ErasureAllRetainedCopies \<Rightarrow> False)"

definition opaque_report :: "effects_report \<Rightarrow> erased_effects_report" where
  "opaque_report f = \<lparr>kee_publisher_receipt_id = kef_publisher_receipt_id f,
     kee_effects = map opaque_effect (kef_effects f), kee_required_complete = kef_required_complete f\<rparr>"

text \<open>The update of the run asks for the state of the payload that the receipt had.\<close>

fun settled_run :: "receipt_state \<Rightarrow> effects_report \<Rightarrow> kc_phase \<Rightarrow> change_run \<Rightarrow> change_run result" where
  "settled_run (ReceiptIntact p) f next r = (if kr_erased r then Inl ContextChanged
     else Inr (r\<lparr>kr_revision := kr_revision r + 1, kr_effects := Some f, kr_erased_effects := None, kr_current := Some next\<rparr>))"
| "settled_run (ReceiptErased p) f next r = (if \<not> kr_erased r then Inl ContextChanged
     else Inr (r\<lparr>kr_revision := kr_revision r + 1, kr_effects := None, kr_erased_effects := Some (opaque_report f),
       kr_current := Some next\<rparr>))"

definition settle_gate :: "change_world \<Rightarrow> kc_settle \<Rightarrow> receipt_state result" where
  "settle_gate w x = (let r = kwd_run w in
     if \<not> found_run w (kt_change_id x) (kt_run_id x) then Inl NotFound
     else if kr_revision r \<noteq> kt_run_revision x \<or> kr_status r \<noteq> RunActive \<or> kr_current r \<noteq> Some KcSettleEffects
     then Inl StaleRevision
     else andThen (receipt_state_of r) (\<lambda>p.
       if receipt_id p \<noteq> kt_publisher_receipt_id x then Inl InputConflict else Inr p))"

definition settle_effects :: "run_env \<Rightarrow> kc_settle \<Rightarrow> change_world \<Rightarrow> change_world result" where
  "settle_effects z x w = andThen (settle_gate w x) (\<lambda>p. andThen (receipt_completion w p) (\<lambda>k.
     let rows = kr_effect_rows (kwd_run w) in
     if \<not> set (kt_effect_ids x) \<subseteq> ker_effect_id ` set rows then Inl InvalidArguments
     else if \<not> exact_effect_set p rows then Inl InternalInvariant
     else andThen (refresh_effects z k p (sort_key (effect_rank \<circ> ker_kind) (sort_key ker_effect_id rows)) w) (\<lambda>(w, es).
       let complete = required_complete k es;
         f = \<lparr>kef_publisher_receipt_id = receipt_id p, kef_effects = es, kef_required_complete = complete,
           kef_remaining_work = pending_work es\<rparr> in
       andThen (settled_run p f (if complete then KcResultHandoff else KcSettleEffects) (kwd_run w)) (\<lambda>r.
       Inr (w\<lparr>kwd_run := r\<rparr>)))))"

section \<open>The beginning of a change\<close>

text \<open>
  The rows of a change that begins. The identifiers of the operations and of the units that are created are
  fresh; the owner's slice, and a change that an earlier erasure has already answered, are outside.
\<close>

record begin_ids =
  kbi_change :: uuid
  kbi_run :: uuid
  kbi_operation :: "str \<Rightarrow> uuid"
  kbi_unit :: "str \<Rightarrow> uuid"

definition hint_row :: "begin_ids \<Rightarrow> operation_hint \<Rightarrow> operation_row" where
  "hint_row ids h = \<lparr>kow_id = kbi_operation ids (koh_client_label h),
     kow_unit_id = (case koh_unit_id h of Some u \<Rightarrow> u | None \<Rightarrow> kbi_unit ids (koh_client_label h)),
     kow_client_label = koh_client_label h, kow_operation = koh_operation h,
     kow_expected_revision = koh_expected_revision h, kow_expected_lifecycle = koh_expected_lifecycle h,
     kow_reason = koh_reason h, kow_authority_basis = koh_authority_basis h,
     kow_dependency_ids = map (kbi_operation ids) (koh_depends_on_labels h),
     kow_knowledge_kind = None, kow_profile_ids = [], kow_qualification_basis = None\<rparr>"

definition begun_run :: "kc_definition \<Rightarrow> profile_registry \<Rightarrow> delivery_mode \<Rightarrow> kc_phase \<Rightarrow> change_run" where
  "begun_run d g mode first = \<lparr>kr_definition = d, kr_registry = g, kr_revision = 1, kr_mode = mode, kr_status = RunActive,
     kr_current = Some first, kr_baseline = None, kr_plan = None, kr_ready = None, kr_review = None, kr_receipt = None,
     kr_erased_receipt = None, kr_effects = None, kr_erased_effects = None, kr_result = None, kr_erased_result = None,
     kr_erased = False, kr_effect_rows = [], kr_outputs = [], kr_bindings = [], kr_attempts = [], kr_inputs = []\<rparr>"

definition begin_change_run ::
    "run_env \<Rightarrow> begin_ids \<Rightarrow> kc_definition \<Rightarrow> profile_registry \<Rightarrow> begin_change \<Rightarrow> unit_store \<Rightarrow> change_world result" where
  "begin_change_run z ids d g b st = (let mode = (case kbk_delivery_mode b of None \<Rightarrow> kf_default_mode d | Some m \<Rightarrow> m) in
     if mode \<notin> set (kf_allowed_modes d) then Inl InvalidArguments
     else case kf_phases d of
         [] \<Rightarrow> Inl InternalInvariant
       | first # _ \<Rightarrow> if kd_id first \<noteq> KcIntake then Inl InvalidConfiguration
         else andThen (kn_resolve z (kbk_sources b) 0) (\<lambda>ps. Inr
           \<lparr>kwd_units = st, kwd_change = \<lparr>kcg_id = kbi_change ids, kcg_run = kbi_run ids, kcg_payload = Some
              \<lparr>kcy_outcome = kbk_desired_outcome b, kcy_hints = kbk_operation_hints b, kcy_completion = kbk_completion b,
               kcy_sources = kbk_sources b, kcy_pins = map kpy_pin ps\<rparr>, kcg_source_revision = 0\<rparr>,
            kwd_rows = map (hint_row ids) (kbk_operation_hints b), kwd_run = begun_run d g mode (kd_id first)\<rparr>))"

end
