(* ===== verification/KnowledgeFlow.thy ===== *)
theory KnowledgeFlow
  imports KnowledgeSettlement
begin

text \<open>
  Facts on the run of a knowledge change: which output a phase has now, how each request changes this, and the
  invariant of a run. At every phase exactly the earlier phases of the agent have an output, each of them
  completed; a ready review and the checks of the obligations are about what the run holds now; and what is
  published stays published.
\<close>

section \<open>The current output of a phase\<close>

definition current_output :: "change_run \<Rightarrow> kc_phase \<Rightarrow> (str \<times> agent_output) option" where
  "current_output r p = Option.bind (bound_output r p) kou_content"

lemma load_phase_data_current:
  "load_phase_data f r p = (case current_output r p of
     None \<Rightarrow> Inl NeedsContext | Some (_, out) \<Rightarrow> ok_or (f (kao_data out)) StorageUnavailable)"
  by (cases "bound_output r p") (auto simp: load_phase_data_def current_output_def split: option.split)

lemma phase_digest_current: "phase_digest r p = map_sum id fst (ok_or (current_output r p) NeedsContext)"
  by (cases "bound_output r p") (simp_all add: phase_digest_def current_output_def)

lemma find_in_append: "find P (xs @ ys) = (case find P xs of None \<Rightarrow> find P ys | Some x \<Rightarrow> Some x)"
  by (induction xs) auto

lemma find_filter: "(\<And>x. P x \<Longrightarrow> Q x) \<Longrightarrow> find P (filter Q xs) = find P xs"
  by (induction xs) auto

definition rows_ok :: "change_run \<Rightarrow> bool" where
  "rows_ok r \<longleftrightarrow> distinct (map kou_id (kr_outputs r)) \<and> kob_output ` set (kr_bindings r) \<subseteq> kou_id ` set (kr_outputs r)"

lemma current_output_cong:
  "kr_outputs r = kr_outputs s \<Longrightarrow> kr_bindings r = kr_bindings s \<Longrightarrow> current_output r = current_output s"
  by (simp add: current_output_def bound_output_def fun_eq_iff)

lemma rows_ok_cong: "kr_outputs r = kr_outputs s \<Longrightarrow> kr_bindings r = kr_bindings s \<Longrightarrow> rows_ok r = rows_ok s"
  by (simp add: rows_ok_def)

lemma bound_row:
  assumes "rows_ok r" "find P (kr_bindings r) = Some b"
  shows "\<exists>x. find (\<lambda>x. kou_id x = kob_output b) (kr_outputs r) = Some x"
proof -
  have "kob_output b \<in> kou_id ` set (kr_outputs r)"
    using assms find_member [OF assms(2)] by (auto simp: rows_ok_def)
  then show ?thesis by (auto simp: find_None_iff simp flip: not_None_eq)
qed

lemma current_output_bind:
  assumes "rows_ok r" "i \<notin> kou_id ` set (kr_outputs r)"
  shows "current_output (bind_output p i n content r) q = (if q = p then Some content else current_output r q)"
proof (cases "q = p")
  case True
  have "find (\<lambda>x. kou_id x = i) (kr_outputs r) = None" using assms(2) by (auto simp: find_None_iff)
  moreover have "find (\<lambda>b. kob_phase b = p \<and> \<not> kob_stale b) (filter (\<lambda>b. kob_phase b \<noteq> p) (kr_bindings r)) = None"
    by (simp add: find_None_iff)
  ultimately show ?thesis using True
    by (simp add: current_output_def bound_output_def bind_output_def find_in_append)
next
  case False
  have "find (\<lambda>b. kob_phase b = q \<and> \<not> kob_stale b) (filter (\<lambda>b. kob_phase b \<noteq> p) (kr_bindings r)) =
      find (\<lambda>b. kob_phase b = q \<and> \<not> kob_stale b) (kr_bindings r)"
    using False by (intro find_filter) auto
  then show ?thesis using False bound_row [OF assms(1)]
    by (cases "find (\<lambda>b. kob_phase b = q \<and> \<not> kob_stale b) (kr_bindings r)")
      (fastforce simp: current_output_def bound_output_def bind_output_def find_in_append)+
qed

lemma rows_ok_bind:
  assumes "rows_ok r" "i \<notin> kou_id ` set (kr_outputs r)"
  shows "rows_ok (bind_output p i n content r)"
  using assms by (auto simp: rows_ok_def bind_output_def)

lemma current_output_stale:
  "current_output (stale_bindings n r) p = (if n \<le> kc_ordinal p then None else current_output r p)"
proof -
  let ?f = "\<lambda>b. if n \<le> kc_ordinal (kob_phase b) then b\<lparr>kob_stale := True\<rparr> else b"
  have *: "find (\<lambda>b. kob_phase b = p \<and> \<not> kob_stale b) (map ?f xs) =
      (if n \<le> kc_ordinal p then None else find (\<lambda>b. kob_phase b = p \<and> \<not> kob_stale b) xs)" for xs
    by (induction xs) auto
  show ?thesis
    unfolding current_output_def bound_output_def stale_bindings_def by (simp add: *)
qed

lemma rows_ok_stale: "rows_ok r \<Longrightarrow> rows_ok (stale_bindings n r)"
proof -
  have "map kob_output (kr_bindings (stale_bindings n r)) = map kob_output (kr_bindings r)"
    by (simp add: stale_bindings_def)
  then have "kob_output ` set (kr_bindings (stale_bindings n r)) = kob_output ` set (kr_bindings r)" by (metis set_map)
  moreover have "kr_outputs (stale_bindings n r) = kr_outputs r" by (simp add: stale_bindings_def)
  ultimately show "rows_ok r \<Longrightarrow> rows_ok (stale_bindings n r)" by (simp add: rows_ok_def)
qed

lemma current_output_redacted [simp]: "current_output (redacted_run retained r) p = None"
proof -
  have "Option.bind (find P (map (\<lambda>x. x\<lparr>kou_content := None\<rparr>) xs)) kou_content = None" for P and xs :: "change_output list"
    by (induction xs) auto
  then show ?thesis
    by (cases "find (\<lambda>b. kob_phase b = p \<and> \<not> kob_stale b) (kr_bindings r)")
      (simp_all add: current_output_def bound_output_def redacted_run_def)
qed

lemma rows_ok_redacted: "rows_ok r \<Longrightarrow> rows_ok (redacted_run retained r)"
  by (simp add: rows_ok_def redacted_run_def image_image comp_def)

section \<open>The invariant\<close>

text \<open>
  What the definition of the server has beyond \<^verbatim>\<open>validate\<close>: a phase leads back to earlier phases only. The
  validation of a definition does not ask for it.
\<close>

definition orderly :: "kc_definition \<Rightarrow> bool" where
  "orderly d \<longleftrightarrow> kc_definition_validate d = Inr () \<and>
     (\<forall>ph\<in>set (kf_phases d). \<forall>t\<in>set (kd_allowed_backward_to ph). kc_ordinal t < kc_ordinal (kd_id ph))"

definition advances :: "agent_output \<Rightarrow> bool" where
  "advances out \<longleftrightarrow> kao_outcome out = PhaseCompleted \<and> kao_transition out = Continue"

definition stands_at_phase :: "change_run \<Rightarrow> kc_phase \<Rightarrow> bool" where
  "stands_at_phase r c \<longleftrightarrow> is_live r \<and> kr_current r = Some c"

definition receipts_cover :: "branch_plan \<Rightarrow> changeset \<Rightarrow> obligation_receipts \<Rightarrow> bool" where
  "receipts_cover plan c k \<longleftrightarrow> obligation_receipt_key ` set (kol_receipts k) = branch_key ` set (kbl_obligations plan) \<and>
     length (kol_receipts k) = card (branch_key ` set (kbl_obligations plan)) \<and>
     list_all (\<lambda>x. kor_disposition x \<in> {ObligationSatisfied, ObligationReused} \<and> kor_changeset_digest x = kcs_digest c) (kol_receipts k)"

definition review_stands :: "change_run \<Rightarrow> review_receipt \<Rightarrow> bool" where
  "review_stands r v \<longleftrightarrow> list_all krf_closed (krr_findings v) \<and> (\<exists>plan c e i d. kr_plan r = Some plan \<and> loaded_changeset r = Inr c \<and>
     loaded_evidence r = Inr e \<and> loaded_impact r = Inr i \<and> phase_digest r KcDomainChecks = Inr d \<and> review_covers plan c e i d v)"

definition checks_stand :: "change_run \<Rightarrow> obligation_receipts \<Rightarrow> bool" where
  "checks_stand r k \<longleftrightarrow> (\<exists>plan c. kr_plan r = Some plan \<and> loaded_changeset r = Inr c \<and> receipts_cover plan c k)"

definition in_order :: "change_run \<Rightarrow> kc_phase \<Rightarrow> bool" where
  "in_order r c \<longleftrightarrow> (\<forall>p. current_output r p \<noteq> None \<longleftrightarrow> kc_agent_authored p \<and> kc_ordinal p < kc_ordinal c) \<and>
     (\<forall>p g out. current_output r p = Some (g, out) \<longrightarrow> data_phase (kao_data out) = p \<and> advances out)"

definition reviews_ok :: "change_run \<Rightarrow> bool" where
  "reviews_ok r \<longleftrightarrow> (\<forall>v. loaded_review r = Inr v \<and> krr_outcome v = ReviewReady \<longrightarrow> review_stands r v)"

definition checks_ok :: "change_run \<Rightarrow> bool" where
  "checks_ok r \<longleftrightarrow> (\<forall>g out k. current_output r KcDomainChecks = Some (g, out) \<and> kao_data out = DataKcDomainChecks k \<and>
     advances out \<longrightarrow> checks_stand r k)"

definition flow_ok :: "change_run \<Rightarrow> bool" where
  "flow_ok r \<longleftrightarrow> rows_ok r \<and> (kr_erased r \<longrightarrow> (\<forall>p. p \<noteq> KcResultHandoff \<longrightarrow> current_output r p = None)) \<and>
     (\<not> kr_erased r \<longrightarrow> (\<forall>c. stands_at_phase r c \<longrightarrow> in_order r c)) \<and> reviews_ok r \<and> checks_ok r"

definition publication_ok :: "change_run \<Rightarrow> bool" where
  "publication_ok r \<longleftrightarrow> (kr_receipt r = None \<or> kr_erased_receipt r = None) \<and>
     (is_published r \<longrightarrow> (kr_status r = RunActive \<and> kr_current r \<in> {Some KcSettleEffects, Some KcResultHandoff} \<or>
        kr_status r = RunCompleted \<and> kr_current r = None) \<and> kr_review r \<notin> {Some ReviewNoChange, Some ReviewRejected}) \<and>
     (\<not> is_published r \<longrightarrow> kr_current r \<noteq> Some KcSettleEffects \<and>
        (\<forall>c. stands_at_phase r c \<longrightarrow> (kr_review r \<in> {Some ReviewNoChange, Some ReviewRejected} \<longleftrightarrow> c = KcResultHandoff)))"

text \<open>What the result says of the publication\<close>

definition outcome_ok :: "change_run \<Rightarrow> canonical_outcome \<Rightarrow> uuid option \<Rightarrow> bool" where
  "outcome_ok r canonical i \<longleftrightarrow> kr_status r = RunCompleted \<and> i = publication_id r \<and>
     (canonical = CanonicalApplied \<longleftrightarrow> is_published r)"

definition result_ok :: "change_run \<Rightarrow> bool" where
  "result_ok r \<longleftrightarrow> (\<forall>v. kr_result r = Some v \<longrightarrow> outcome_ok r (kch_canonical v) (kch_publisher_receipt_id v)) \<and>
     (\<forall>v. kr_erased_result r = Some v \<longrightarrow> outcome_ok r (kes_canonical v) (kes_publisher_receipt_id v)) \<and>
     (kr_status r = RunCompleted \<and> \<not> kr_erased r \<longrightarrow> kr_result r \<noteq> None)"

definition change_ok :: "change_world \<Rightarrow> bool" where
  "change_ok w \<longleftrightarrow> orderly (kr_definition (kwd_run w)) \<and> flow_ok (kwd_run w) \<and> publication_ok (kwd_run w) \<and> result_ok (kwd_run w)"

section \<open>What decides the invariant\<close>

lemma loaded_cong:
  assumes "current_output r p = current_output s p"
  shows "load_phase_data f r p = load_phase_data f s p" "phase_digest r p = phase_digest s p"
  using assms by (simp_all add: load_phase_data_current phase_digest_current)

lemma review_stands_cong:
  assumes "kr_plan r = kr_plan s" "\<And>p. kc_ordinal p < 8 \<Longrightarrow> current_output r p = current_output s p"
  shows "review_stands r v = review_stands s v"
  by (simp add: review_stands_def assms(1) loaded_cong [OF assms(2)])

lemma checks_stand_cong:
  assumes "kr_plan r = kr_plan s" "current_output r KcPrepareChange = current_output s KcPrepareChange"
  shows "checks_stand r k = checks_stand s k"
  by (simp add: checks_stand_def assms(1) loaded_cong(1) [OF assms(2)])

lemma reviews_ok_cong:
  assumes "kr_plan r = kr_plan s" "\<And>p. kc_ordinal p \<le> 8 \<Longrightarrow> current_output r p = current_output s p"
  shows "reviews_ok r = reviews_ok s"
  using assms by (simp add: reviews_ok_def review_stands_cong [of r s] loaded_cong(1) [of r KcReviewReconcile s])

lemma checks_ok_cong:
  assumes "kr_plan r = kr_plan s" "\<And>p. kc_ordinal p \<le> 8 \<Longrightarrow> current_output r p = current_output s p"
  shows "checks_ok r = checks_ok s"
  using assms by (simp add: checks_ok_def checks_stand_cong [of r s])

lemma reviews_ok_none: "current_output r KcReviewReconcile = None \<Longrightarrow> reviews_ok r"
  by (simp add: reviews_ok_def load_phase_data_current)

lemma checks_ok_none: "current_output r KcDomainChecks = None \<Longrightarrow> checks_ok r"
  by (simp add: checks_ok_def)

lemma loaded_review_iff:
  "loaded_review r = Inr v \<longleftrightarrow> (\<exists>g out. current_output r KcReviewReconcile = Some (g, out) \<and> kao_data out = DataKcReviewReconcile v)"
proof -
  have "as_review d = Some v \<longleftrightarrow> d = DataKcReviewReconcile v" for d by (cases d) auto
  then show ?thesis by (auto simp: load_phase_data_current check_simps split: option.splits)
qed

lemma loaded_checks_iff:
  "loaded_checks r = Inr k \<longleftrightarrow> (\<exists>g out. current_output r KcDomainChecks = Some (g, out) \<and> kao_data out = DataKcDomainChecks k)"
proof -
  have "as_checks d = Some k \<longleftrightarrow> d = DataKcDomainChecks k" for d by (cases d) auto
  then show ?thesis by (auto simp: load_phase_data_current check_simps split: option.splits)
qed

section \<open>Erasing\<close>

lemma publication_id_iff: "kr_receipt r = None \<or> kr_erased_receipt r = None \<Longrightarrow> publication_id r = None \<longleftrightarrow> \<not> is_published r"
  by (auto simp: publication_id_def is_published_def split: option.splits)

lemma erased_frame:
  assumes "erase_control u w = Inr w'" "publication_ok (kwd_run w)"
  obtains retained where "kwd_run w' = redacted_run retained (kwd_run w)" "publication_id (kwd_run w') = publication_id (kwd_run w)"
    "is_published (kwd_run w') = is_published (kwd_run w)" "kr_receipt (kwd_run w') = None"
proof -
  obtain k n retained where p: "project_receipt k u n (kwd_run w) = Inr retained"
      and w': "kwd_run w' = redacted_run retained (kwd_run w)"
    using assms(1) by (auto simp: erase_control_def check_simps)
  have one: "kr_receipt (kwd_run w) = None \<or> kr_erased_receipt (kwd_run w) = None" using assms(2) by (simp add: publication_ok_def)
  show ?thesis
    using p one by (intro that [of retained, OF w'])
      (auto simp: w' project_receipt_def redacted_run_def publication_id_def is_published_def keep_new_def check_simps split: option.splits)
qed

lemma change_ok_erased:
  assumes "erase_control u w = Inr w'" "change_ok w"
  shows "change_ok w'"
proof -
  obtain retained where w': "kwd_run w' = redacted_run retained (kwd_run w)"
      and i: "publication_id (kwd_run w') = publication_id (kwd_run w)" "is_published (kwd_run w') = is_published (kwd_run w)"
      and none: "kr_receipt (kwd_run w') = None"
    using assms(2) by (auto simp: change_ok_def intro: erased_frame [OF assms(1)])
  let ?r = "kwd_run w" and ?s = "redacted_run retained (kwd_run w)"
  have same: "kr_status ?s = kr_status ?r" "kr_current ?s = kr_current ?r" "kr_review ?s = kr_review ?r"
      "kr_erased_result ?s = kr_erased_result ?r" "kr_result ?s = None" "kr_erased ?s" "kr_definition ?s = kr_definition ?r"
    by (simp_all add: redacted_run_def)
  have stands: "stands_at_phase ?s c = stands_at_phase ?r c" for c by (simp add: stands_at_phase_def is_live_def same)
  have out: "outcome_ok ?s a j = outcome_ok ?r a j" for a j using i by (simp add: outcome_ok_def same w')
  show ?thesis
    using assms(2) i none
    by (simp add: change_ok_def flow_ok_def rows_ok_redacted reviews_ok_none checks_ok_none publication_ok_def stands same w'
        result_ok_def out)
qed

lemma change_ok_units [simp]: "change_ok (w\<lparr>kwd_units := st\<rparr>) = change_ok w"
  by (simp add: change_ok_def)

end
