(* ===== verification/KnowledgeSteps.thy ===== *)
theory KnowledgeSteps
  imports KnowledgeFlow
begin

text \<open>
  Every request on the run of a knowledge change keeps the invariant of \<^verbatim>\<open>KnowledgeFlow\<close>: the completion of a
  phase, a new input, the publication, the settlement of its effects, and the erasures and publications of other
  transactions between them.
\<close>

section \<open>What a phase output changes\<close>

lemma submitted:
  assumes "submit_output z w p out = Inr (w', u)"
  obtains m n g d rows where "verify_envelope z (kwd_run w) p out = Inr ()"
    "phase_data_step z (w\<lparr>kwd_run := (kwd_run w)\<lparr>kr_mode := m\<rparr>\<rparr>) (advances out) (kao_data out) = Inr (d, u, rows)"
    "kwd_run w' = bind_output p (kn_fresh z) n (g, out\<lparr>kao_data := d\<rparr>) ((kwd_run w)\<lparr>kr_mode := m\<rparr>)"
proof -
  have mode: "(if b then r\<lparr>kr_mode := Phasewise\<rparr> else r) = r\<lparr>kr_mode := (if b then Phasewise else kr_mode r)\<rparr>"
    for b and r :: change_run by simp
  show ?thesis
    using assms by (auto simp: submit_output_def Let_def check_simps mode advances_def intro: that)
qed

lemma step_keeps_phase: "phase_data_step z w adv d = Inr (d', u, rows) \<Longrightarrow> data_phase d' = data_phase d"
  by (cases d) (auto simp: check_simps split: if_splits)

lemma step_plan: "phase_data_step z w adv d = Inr (d', u, rows) \<Longrightarrow> data_phase d \<noteq> KcQualifyPlan \<Longrightarrow> kpu_plan u = None"
  by (cases d) (auto simp: check_simps no_updates_def split: if_splits)

lemma step_result:
  "phase_data_step z w adv d = Inr (d', u, rows) \<Longrightarrow> data_phase d \<noteq> KcResultHandoff \<Longrightarrow> kpu_result u = None"
  by (cases d) (auto simp: check_simps no_updates_def split: if_splits)

lemma step_review:
  "phase_data_step z w adv d = Inr (DataKcReviewReconcile v, u, rows) \<Longrightarrow> d = DataKcReviewReconcile v \<and> review_check z w v = Inr ()"
  by (cases d) (auto simp: check_simps split: if_splits)

lemma step_checks:
  "phase_data_step z w adv d = Inr (DataKcDomainChecks k, u, rows) \<Longrightarrow>
    d = DataKcDomainChecks k \<and> domain_checks z (kwd_run w) adv k = Inr ()"
  by (cases d) (auto simp: check_simps split: if_splits)

lemma step_handoff:
  "phase_data_step z w adv d = Inr (DataKcResultHandoff v, u, rows) \<Longrightarrow>
    d = DataKcResultHandoff v \<and> u = no_updates\<lparr>kpu_result := Some v\<rparr> \<and> result_check z w v = Inr ()"
  by (cases d) (auto simp: check_simps split: if_splits)

lemma checked_receipts:
  assumes "domain_checks z r True k = Inr ()"
  shows "checks_stand r k"
proof -
  obtain plan c where *: "kr_plan r = Some plan" "loaded_changeset r = Inr c"
      "validate_receipts (kr_outputs r @ kn_outputs z) (List.map_filter kin_digest (kr_inputs r)) plan c True k = Inr ()"
    using assms by (auto simp: domain_checks_def check_simps)
  have "kor_disposition x \<in> {ObligationSatisfied, ObligationReused} \<and> kor_changeset_digest x = kcs_digest c"
    if "x \<in> set (kol_receipts k)" for x
    using *(3) that
    by (cases "kor_disposition x") (auto simp: validate_receipts_def Let_def check_simps obligation_receipt_check_def
        split: if_splits)
  then have "receipts_cover plan c k"
    using *(3) by (auto simp: validate_receipts_def Let_def check_simps receipts_cover_def list_all_iff)
  then show ?thesis using *(1,2) by (auto simp: checks_stand_def)
qed

lemma checked_review:
  assumes "review_check z w v = Inr ()" "krr_outcome v = ReviewReady"
  shows "review_stands (kwd_run w) v"
  using assms by (auto simp: review_check_def require_prior_findings_def review_stands_def check_simps Let_def list_all_iff list_ex_iff)

section \<open>Where a run goes\<close>

lemma current_output_advance:
  "current_output (advance_run u v revisit status n r) p =
    (if \<exists>t. revisit = Some t \<and> kc_ordinal t \<le> kc_ordinal p then None else current_output r p)"
proof -
  have "current_output (advance_run u v revisit status n r) =
      current_output (case revisit of None \<Rightarrow> r | Some t \<Rightarrow> stale_bindings (kc_ordinal t) r)"
    by (rule current_output_cong) (auto simp: advance_run_def Let_def split: option.splits)
  then show ?thesis by (auto simp: current_output_stale split: option.splits)
qed

lemma rows_ok_advance: "rows_ok r \<Longrightarrow> rows_ok (advance_run u v revisit status n r)"
proof -
  have "rows_ok (advance_run u v revisit status n r) =
      rows_ok (case revisit of None \<Rightarrow> r | Some t \<Rightarrow> stale_bindings (kc_ordinal t) r)"
    by (rule rows_ok_cong) (auto simp: advance_run_def Let_def split: option.splits)
  then show "rows_ok r \<Longrightarrow> ?thesis" by (auto simp: rows_ok_stale split: option.splits)
qed

lemma advanced_fields:
  "kr_definition (advance_run u v revisit status n r) = kr_definition r"
  "kr_status (advance_run u v revisit status n r) = status"
  "kr_current (advance_run u v revisit status n r) = n"
  "kr_plan (advance_run u v revisit status n r) = keep_new (kpu_plan u) (kr_plan r)"
  "kr_review (advance_run u v revisit status n r) =
    (case v of None \<Rightarrow> kr_review r | Some o1 \<Rightarrow> if o1 = ReviewFindings then None else Some o1)"
  "kr_receipt (advance_run u v revisit status n r) = kr_receipt r"
  "kr_erased_receipt (advance_run u v revisit status n r) = kr_erased_receipt r"
  "kr_erased (advance_run u v revisit status n r) = kr_erased r"
  "kr_result (advance_run u v revisit status n r) =
    (if kr_erased r then kr_result r else keep_new (kpu_result u) (kr_result r))"
  "kr_erased_result (advance_run u v revisit status n r) =
    (if kr_erased r then keep_new (map_option erased_result_of (kpu_result u)) (kr_erased_result r) else kr_erased_result r)"
  by (auto simp: advance_run_def Let_def stale_bindings_def split: option.splits)

lemma next_phase_ordinal:
  "kc_definition_validate d = Inr () \<Longrightarrow> next_kc_phase d p = Some q \<Longrightarrow> kc_ordinal q = kc_ordinal p + 1"
  by (auto simp: next_kc_phase_def find_Some_iff dest!: phase_definition_ordinal [OF _ nth_mem])

lemma backward_target:
  assumes "orderly d" "find (\<lambda>x. kd_id x = p) (kf_phases d) = Some ph" "t = p \<or> t \<in> set (kd_allowed_backward_to ph)"
  shows "kc_ordinal t \<le> kc_ordinal p"
  using assms find_member [OF assms(2)] by (force simp: orderly_def)

lemma revisit_lower:
  assumes "orderly d" "requested_revisit d p out q = Inr (Some t)"
  shows "kc_ordinal t \<le> kc_ordinal p"
proof -
  have "revisit_target d p (kao_transition out) q = Inr (Some t)"
    using assms(2) by (auto simp: requested_revisit_def Let_def split: if_splits option.splits)
  then obtain ph where "find (\<lambda>x. kd_id x = p) (kf_phases d) = Some ph" "t = p \<or> t \<in> set (kd_allowed_backward_to ph)"
    by (auto simp: revisit_target_def check_simps split: if_splits)
  then show ?thesis by (rule backward_target [OF assms(1)])
qed

section \<open>Completing a phase keeps the invariant\<close>

lemma phase_completed:
  assumes "complete_change_phase z x w = Inr w'"
  obtains w1 u revisit status n where "phase_guard w x = Inr ()" "phase_submission z x w = Inr (w1, u)"
    "phase_revisit (kr_definition (kwd_run w)) x = Inr revisit"
    "after_attempt (kr_definition (kwd_run w)) (kx_phase_id x) (fst (phase_outcome_of x)) (snd (phase_outcome_of x))
      (review_recorded (kx_output x)) revisit = Inr (status, n)"
    "fold_m (suppress_change z) (receipt_erased_units (advance_run u (review_recorded (kx_output x)) revisit status n
        (record_change_attempt z x (kwd_run w1))))
      (w1\<lparr>kwd_run := advance_run u (review_recorded (kx_output x)) revisit status n (record_change_attempt z x (kwd_run w1))\<rparr>) = Inr w'"
  using assms by (auto simp: complete_change_phase_def Let_def check_simps)

lemma attempt_recorded:
  "current_output (record_change_attempt z x r) = current_output r" "rows_ok (record_change_attempt z x r) = rows_ok r"
  by (rule current_output_cong rows_ok_cong; simp add: record_change_attempt_def)+

lemma requested_cases:
  assumes "requested_revisit d p out q = Inr revisit"
  shows "p = KcResultHandoff \<and> kao_outcome out = PhaseCompleted \<and> kao_transition out = Complete \<and> revisit = None \<or>
    p \<noteq> KcResultHandoff \<and> advances out \<and> revisit = None \<and>
      (p = KcReviewReconcile \<longrightarrow> (\<exists>v. kao_data out = DataKcReviewReconcile v \<and> krr_outcome v \<noteq> ReviewFindings)) \<or>
    p \<noteq> KcResultHandoff \<and> kao_outcome out \<in> {PhaseWaitingInput, PhaseBlocked} \<and>
      (p = KcReviewReconcile \<longrightarrow> revisit \<noteq> None \<and> (\<exists>v. kao_data out = DataKcReviewReconcile v \<and> krr_outcome v = ReviewFindings))"
proof -
  have "as_review d = Some v \<longleftrightarrow> d = DataKcReviewReconcile v" for d v by (cases d) auto
  then show ?thesis using assms
    by (auto simp: requested_revisit_def revisit_target_def Let_def advances_def check_simps split: if_splits option.splits)
qed

lemma attempt_cases:
  assumes "after_attempt d p o1 t review revisit = Inr (status, n)"
  shows "o1 = PhaseCompleted \<and> t = Continue \<and> status = RunActive \<and>
      n = (if review \<in> {Some ReviewNoChange, Some ReviewRejected} then Some KcResultHandoff else next_kc_phase d p) \<or>
    o1 = PhaseCompleted \<and> t = Complete \<and> p = KcResultHandoff \<and> status = RunCompleted \<and> n = None \<or>
    o1 \<in> {PhaseWaitingInput, PhaseBlocked} \<and> status \<in> {RunWaitingInput, RunBlocked} \<and> n = revisit \<or>
    o1 \<in> {PhaseWaitingInput, PhaseBlocked} \<and> status = RunEscalated \<and> n = None"
  using assms by (auto simp: after_attempt_def split: if_splits)

lemma in_order_none: "in_order r p \<Longrightarrow> kc_ordinal p \<le> kc_ordinal q \<Longrightarrow> current_output r q = None"
  by (metis in_order_def leD)

text \<open>The outputs of a run after an agent has completed a phase before the handoff\<close>

lemma agent_reviews:
  assumes order: "in_order r p" "kc_ordinal p \<le> 8" and plan: "p \<noteq> KcQualifyPlan \<longrightarrow> kr_plan s = kr_plan r"
    and out: "\<And>q. current_output s q = (if \<exists>t. revisit = Some t \<and> kc_ordinal t \<le> kc_ordinal q then None
        else if q = p then Some (g, out) else current_output r q)"
    and lower: "\<forall>t. revisit = Some t \<longrightarrow> kc_ordinal t \<le> kc_ordinal p"
    and review: "\<And>v. p = KcReviewReconcile \<Longrightarrow> revisit = None \<Longrightarrow> kao_data out = DataKcReviewReconcile v \<Longrightarrow>
        krr_outcome v = ReviewReady \<Longrightarrow> review_stands r v"
  shows "reviews_ok s"
proof (cases "p = KcReviewReconcile \<and> revisit = None")
  case True
  have same: "current_output r q = current_output s q" if "kc_ordinal q < 8" for q
    using that True by (auto simp: out)
  have "review_stands s v" if "loaded_review s = Inr v" "krr_outcome v = ReviewReady" for v
    using that True review [of v] plan review_stands_cong [of r s v] same by (auto simp: loaded_review_iff out)
  then show ?thesis by (simp add: reviews_ok_def)
next
  case False
  have "current_output s KcReviewReconcile = None"
  proof (cases "p = KcReviewReconcile")
    case True
    then show ?thesis using False lower by (cases revisit) (auto simp: out)
  next
    case other: False
    then have "current_output r KcReviewReconcile = None" using order by (simp add: in_order_none)
    then show ?thesis using other by (simp add: out)
  qed
  then show ?thesis by (rule reviews_ok_none)
qed

lemma agent_checks:
  assumes order: "in_order r p" and plan: "p \<noteq> KcQualifyPlan \<longrightarrow> kr_plan s = kr_plan r" and ok: "checks_ok r"
    and out: "\<And>q. current_output s q = (if \<exists>t. revisit = Some t \<and> kc_ordinal t \<le> kc_ordinal q then None
        else if q = p then Some (g, out) else current_output r q)"
    and lower: "\<forall>t. revisit = Some t \<longrightarrow> kc_ordinal t \<le> kc_ordinal p"
    and checks: "\<And>k. p = KcDomainChecks \<Longrightarrow> advances out \<Longrightarrow> kao_data out = DataKcDomainChecks k \<Longrightarrow> checks_stand r k"
  shows "checks_ok s"
proof -
  have "checks_stand s k"
    if cur: "current_output s KcDomainChecks = Some (h, o1)" and o1: "kao_data o1 = DataKcDomainChecks k" "advances o1" for h o1 k
  proof -
    have late: "6 \<le> kc_ordinal p"
    proof (cases "p = KcDomainChecks")
      case False
      then have "current_output r KcDomainChecks \<noteq> None" using cur by (auto simp: out split: if_splits)
      then have "kc_ordinal KcDomainChecks < kc_ordinal p" using order by (metis in_order_def)
      then show ?thesis by simp
    qed simp
    have fresh: "\<nexists>t. revisit = Some t \<and> kc_ordinal t \<le> 6" using cur by (auto simp: out split: if_splits)
    have "current_output r KcPrepareChange = current_output s KcPrepareChange" using late fresh by (auto simp: out)
    moreover have "kr_plan r = kr_plan s" using plan late by auto
    moreover have "checks_stand r k"
    proof (cases "p = KcDomainChecks")
      case True
      then show ?thesis using cur o1 fresh checks by (auto simp: out split: if_splits)
    next
      case False
      then show ?thesis using cur o1 fresh ok unfolding checks_ok_def by (auto simp: out split: if_splits)
    qed
    ultimately show ?thesis using checks_stand_cong [of r s k] by simp
  qed
  then show ?thesis by (auto simp: checks_ok_def)
qed

lemma in_order_after:
  assumes order: "in_order r p" and agent: "kc_agent_authored p"
    and out: "\<And>q. current_output s q = (if \<exists>t. revisit = Some t \<and> kc_ordinal t \<le> kc_ordinal q then None
        else if q = p then Some (g, out) else current_output r q)"
    and data: "data_phase (kao_data out) = p"
    and c: "revisit = None \<and> advances out \<and> (kc_ordinal c = kc_ordinal p + 1 \<or> p = KcReviewReconcile \<and> c = KcResultHandoff) \<or>
      revisit = Some c \<and> kc_ordinal c \<le> kc_ordinal p"
  shows "in_order s c"
proof -
  have "current_output s q \<noteq> None \<longleftrightarrow> kc_agent_authored q \<and> kc_ordinal q < kc_ordinal c" for q
  proof -
    have "current_output r q \<noteq> None \<longleftrightarrow> kc_agent_authored q \<and> kc_ordinal q < kc_ordinal p"
      using order unfolding in_order_def by blast
    moreover have "kc_ordinal q < kc_ordinal p + 1 \<longleftrightarrow> q = p \<or> kc_ordinal q < kc_ordinal p"
      using kc_ordinal_inj [of q p] by auto
    moreover have "kc_agent_authored q \<Longrightarrow> kc_ordinal q < 12 \<longleftrightarrow> q = KcReviewReconcile \<or> kc_ordinal q < 8" by (cases q) simp_all
    ultimately show ?thesis using c agent by (elim disjE conjE) (auto simp: out)
  qed
  moreover have "data_phase (kao_data o1) = q \<and> advances o1" if "current_output s q = Some (h, o1)" for q h o1
  proof (cases "q = p")
    case True
    then show ?thesis using that c data by (auto simp: out split: if_splits)
  next
    case False
    then have "current_output r q = Some (h, o1)" using that by (auto simp: out split: if_splits)
    then show ?thesis using order unfolding in_order_def by blast
  qed
  ultimately show ?thesis unfolding in_order_def by blast
qed

lemma erased_envelope: "verify_envelope z r p out = Inr () \<Longrightarrow> kr_erased r \<Longrightarrow> p = KcResultHandoff"
  by (auto simp: verify_envelope_def plan_named_def check_simps)

lemma review_recorded_data:
  "review_recorded (Some out) = Some v \<longleftrightarrow> (\<exists>c. kao_data out = DataKcReviewReconcile c \<and> krr_outcome c = v)"
  by (cases "kao_data out") (auto simp: review_recorded_def)

lemma review_recorded_none: "data_phase (kao_data out) \<noteq> KcReviewReconcile \<Longrightarrow> review_recorded (Some out) = None"
  by (cases "kao_data out") (auto simp: review_recorded_def)

lemma after_agent:
  assumes valid: "kc_definition_validate d = Inr ()"
    and revisit: "requested_revisit d p out asked = Inr revisit" and p: "p \<noteq> KcResultHandoff" and data: "data_phase (kao_data out) = p"
    and after: "after_attempt d p (kao_outcome out) (kao_transition out) (review_recorded (Some out)) revisit = Inr (status, Some c)"
  shows "revisit = None \<and> advances out \<and> status = RunActive \<and>
      (kc_ordinal c = kc_ordinal p + 1 \<and> review_recorded (Some out) \<notin> {Some ReviewNoChange, Some ReviewRejected} \<or>
       p = KcReviewReconcile \<and> c = KcResultHandoff \<and> review_recorded (Some out) \<in> {Some ReviewNoChange, Some ReviewRejected}) \<or>
    revisit = Some c \<and> review_recorded (Some out) \<in> {None, Some ReviewFindings} \<and> status \<in> {RunWaitingInput, RunBlocked}"
proof -
  have rec: "p = KcReviewReconcile \<or> review_recorded (Some out) = None" using review_recorded_none data by metis
  have stop: "review_recorded (Some out) \<in> {None, Some ReviewFindings}" if "kao_outcome out \<in> {PhaseWaitingInput, PhaseBlocked}"
    using requested_cases [OF revisit] p that rec by (auto simp: advances_def review_recorded_data)
  have go: "revisit = None \<and> advances out" if "kao_outcome out = PhaseCompleted"
    using requested_cases [OF revisit] p that by auto
  from attempt_cases [OF after] consider
      (on) "kao_outcome out = PhaseCompleted" "status = RunActive"
        "Some c = (if review_recorded (Some out) \<in> {Some ReviewNoChange, Some ReviewRejected} then Some KcResultHandoff else next_kc_phase d p)"
    | (halt) "kao_outcome out \<in> {PhaseWaitingInput, PhaseBlocked}" "status \<in> {RunWaitingInput, RunBlocked}" "Some c = revisit"
    by blast
  then show ?thesis
  proof cases
    case on
    then show ?thesis using go rec next_phase_ordinal [OF valid, of p c] by (auto split: if_splits)
  next
    case halt
    then show ?thesis using stop by auto
  qed
qed

lemma step_outputs:
  assumes sub: "submit_output z w p out = Inr (w1, u)" and rows: "rows_ok (kwd_run w)"
    and fresh: "kn_fresh z \<notin> kou_id ` set (kr_outputs (kwd_run w))"
  obtains m n g d rws where "verify_envelope z (kwd_run w) p out = Inr ()"
    "phase_data_step z (w\<lparr>kwd_run := (kwd_run w)\<lparr>kr_mode := m\<rparr>\<rparr>) (advances out) (kao_data out) = Inr (d, u, rws)"
    "kwd_run w1 = bind_output p (kn_fresh z) n (g, out\<lparr>kao_data := d\<rparr>) ((kwd_run w)\<lparr>kr_mode := m\<rparr>)" "rows_ok (kwd_run w1)"
    "\<And>q. current_output (kwd_run w1) q = (if q = p then Some (g, out\<lparr>kao_data := d\<rparr>) else current_output (kwd_run w) q)"
proof -
  obtain m n g d rws where *: "verify_envelope z (kwd_run w) p out = Inr ()"
      "phase_data_step z (w\<lparr>kwd_run := (kwd_run w)\<lparr>kr_mode := m\<rparr>\<rparr>) (advances out) (kao_data out) = Inr (d, u, rws)"
      "kwd_run w1 = bind_output p (kn_fresh z) n (g, out\<lparr>kao_data := d\<rparr>) ((kwd_run w)\<lparr>kr_mode := m\<rparr>)"
    by (rule submitted [OF sub])
  let ?r = "(kwd_run w)\<lparr>kr_mode := m\<rparr>"
  have r: "rows_ok ?r" "kn_fresh z \<notin> kou_id ` set (kr_outputs ?r)"
    using rows fresh rows_ok_cong [of ?r "kwd_run w"] by simp_all
  have "current_output ?r = current_output (kwd_run w)" by (rule current_output_cong) simp_all
  then show ?thesis
    using current_output_bind [OF r] rows_ok_bind [OF r] by (intro that [OF *]) (simp_all add: *(3))
qed

lemma bound_fields:
  assumes "kwd_run w1 = bind_output p i n c ((kwd_run w)\<lparr>kr_mode := m\<rparr>)"
  shows "kr_definition (kwd_run w1) = kr_definition (kwd_run w)" "kr_status (kwd_run w1) = kr_status (kwd_run w)"
    "kr_plan (kwd_run w1) = kr_plan (kwd_run w)" "kr_review (kwd_run w1) = kr_review (kwd_run w)"
    "kr_receipt (kwd_run w1) = kr_receipt (kwd_run w)" "kr_erased_receipt (kwd_run w1) = kr_erased_receipt (kwd_run w)"
    "kr_erased (kwd_run w1) = kr_erased (kwd_run w)" "kr_result (kwd_run w1) = kr_result (kwd_run w)"
    "kr_erased_result (kwd_run w1) = kr_erased_result (kwd_run w)"
  by (simp_all add: assms bind_output_def)

lemma attempt_fields:
  "kr_definition (record_change_attempt z x r) = kr_definition r" "kr_status (record_change_attempt z x r) = kr_status r"
  "kr_plan (record_change_attempt z x r) = kr_plan r" "kr_review (record_change_attempt z x r) = kr_review r"
  "kr_receipt (record_change_attempt z x r) = kr_receipt r" "kr_erased_receipt (record_change_attempt z x r) = kr_erased_receipt r"
  "kr_erased (record_change_attempt z x r) = kr_erased r" "kr_result (record_change_attempt z x r) = kr_result r"
  "kr_erased_result (record_change_attempt z x r) = kr_erased_result r"
  by (simp_all add: record_change_attempt_def)

lemma flow_agent:
  assumes ok: "flow_ok r" "orderly (kr_definition r)" and here: "stands_at_phase r p" "\<not> kr_erased r" "kc_agent_authored p" "p \<noteq> KcResultHandoff"
    and rows: "rows_ok s"
    and out: "\<And>q. current_output s q = (if \<exists>t. revisit = Some t \<and> kc_ordinal t \<le> kc_ordinal q then None
        else if q = p then Some (g, out\<lparr>kao_data := d\<rparr>) else current_output r q)"
    and step: "phase_data_step z (w\<lparr>kwd_run := r\<lparr>kr_mode := m\<rparr>\<rparr>) (advances out) (kao_data out) = Inr (d, u, rws)"
    and data: "data_phase (kao_data out) = p" and plan: "kr_plan s = keep_new (kpu_plan u) (kr_plan r)"
    and fields: "kr_erased s = kr_erased r"
    and revisit: "requested_revisit (kr_definition r) p out asked = Inr revisit"
    and after: "after_attempt (kr_definition r) p (kao_outcome out) (kao_transition out) (review_recorded (Some out)) revisit =
        Inr (kr_status s, kr_current s)"
  shows "flow_ok s"
proof -
  have order: "in_order r p" using ok(1) here by (auto simp: flow_ok_def)
  have p8: "kc_ordinal p \<le> 8" using here by (cases p) simp_all
  have lower: "\<forall>t. revisit = Some t \<longrightarrow> kc_ordinal t \<le> kc_ordinal p" using revisit_lower [OF ok(2)] revisit by auto
  have keeps: "p \<noteq> KcQualifyPlan \<longrightarrow> kr_plan s = kr_plan r"
    using step_plan [OF step] data plan by (auto simp: keep_new_def)
  have d: "data_phase d = p" using step_keeps_phase [OF step] data by simp
  have world: "kwd_run (w\<lparr>kwd_run := r\<lparr>kr_mode := m\<rparr>\<rparr>) = r\<lparr>kr_mode := m\<rparr>" by simp
  have mode: "review_stands (r\<lparr>kr_mode := m\<rparr>) v = review_stands r v" "checks_stand (r\<lparr>kr_mode := m\<rparr>) k = checks_stand r k" for v k
    using current_output_cong [of "r\<lparr>kr_mode := m\<rparr>" r] review_stands_cong [of "r\<lparr>kr_mode := m\<rparr>" r v]
      checks_stand_cong [of "r\<lparr>kr_mode := m\<rparr>" r k] by simp_all
  have "reviews_ok s"
  proof (rule agent_reviews [OF order p8 keeps out lower])
    fix v assume "kao_data (out\<lparr>kao_data := d\<rparr>) = DataKcReviewReconcile v" "krr_outcome v = ReviewReady"
    then show "review_stands r v" using step_review [of z _ "advances out" "kao_data out" v u rws] step checked_review mode by fastforce
  qed
  moreover have "checks_ok s"
  proof (rule agent_checks [OF order keeps _ out lower])
    show "checks_ok r" using ok(1) by (simp add: flow_ok_def)
    fix k assume "advances (out\<lparr>kao_data := d\<rparr>)" "kao_data (out\<lparr>kao_data := d\<rparr>) = DataKcDomainChecks k"
    then have "advances out" "d = DataKcDomainChecks k" by (simp_all add: advances_def)
    then have "domain_checks z (r\<lparr>kr_mode := m\<rparr>) True k = Inr ()" using step_checks [of z _ "advances out"] step world by metis
    then show "checks_stand r k" using checked_receipts mode by blast
  qed
  moreover have "in_order s c" if "stands_at_phase s c" for c
  proof (rule in_order_after [OF order here(3) out])
    show "data_phase (kao_data (out\<lparr>kao_data := d\<rparr>)) = p" using d by simp
    have "advances (out\<lparr>kao_data := d\<rparr>) = advances out" by (simp add: advances_def)
    moreover have "kr_current s = Some c" "is_live s" using that by (simp_all add: stands_at_phase_def)
    moreover have "kc_definition_validate (kr_definition r) = Inr ()" using ok(2) by (simp add: orderly_def)
    ultimately show "revisit = None \<and> advances (out\<lparr>kao_data := d\<rparr>) \<and>
        (kc_ordinal c = kc_ordinal p + 1 \<or> p = KcReviewReconcile \<and> c = KcResultHandoff) \<or>
      revisit = Some c \<and> kc_ordinal c \<le> kc_ordinal p"
      using after_agent [OF _ revisit here(4) data] after lower by auto
  qed
  ultimately show ?thesis using rows here(2) by (simp add: flow_ok_def fields)
qed

lemma live_result: "result_ok r \<Longrightarrow> is_live r \<Longrightarrow> kr_result r = None \<and> kr_erased_result r = None"
proof -
  assume r: "result_ok r" "is_live r"
  then have "kr_status r \<noteq> RunCompleted" by (auto simp: is_live_def)
  then show ?thesis using r(1) unfolding result_ok_def outcome_ok_def by (meson not_Some_eq)
qed

lemma publication_agent:
  assumes ok: "publication_ok r" "result_ok r" "orderly (kr_definition r)" and here: "stands_at_phase r p" "\<not> kr_erased r"
      "kc_agent_authored p" "p \<noteq> KcResultHandoff" "\<not> is_published r"
    and data: "data_phase (kao_data out) = p"
    and revisit: "requested_revisit (kr_definition r) p out asked = Inr revisit"
    and after: "after_attempt (kr_definition r) p (kao_outcome out) (kao_transition out) (review_recorded (Some out)) revisit =
        Inr (status, n)"
    and s: "s = advance_run u (review_recorded (Some out)) revisit status n r'"
    and r': "kr_receipt r' = kr_receipt r" "kr_erased_receipt r' = kr_erased_receipt r" "kr_review r' = kr_review r"
      "kr_erased r' = kr_erased r" "kr_result r' = kr_result r" "kr_erased_result r' = kr_erased_result r"
    and u: "kpu_result u = None"
  shows "publication_ok s \<and> result_ok s"
proof -
  have p8: "kc_ordinal p \<le> 8" using here by (cases p) simp_all
  have lower: "\<forall>t. revisit = Some t \<longrightarrow> kc_ordinal t \<le> kc_ordinal p" using revisit_lower [OF ok(3)] revisit by auto
  have valid: "kc_definition_validate (kr_definition r) = Inr ()" using ok(3) by (simp add: orderly_def)
  have old: "kr_review r \<notin> {Some ReviewNoChange, Some ReviewRejected}" using ok(1) here by (auto simp: publication_ok_def)
  have none: "kr_receipt s = None" "kr_erased_receipt s = None" "\<not> is_published s"
    using here(5) by (simp_all add: s advanced_fields r' is_published_def)
  have now: "kc_ordinal c \<le> 9 \<and> kr_review s \<notin> {Some ReviewNoChange, Some ReviewRejected} \<or>
      c = KcResultHandoff \<and> kr_review s \<in> {Some ReviewNoChange, Some ReviewRejected}" if "n = Some c" for c
    using after_agent [OF valid revisit here(4) data] after that old p8 lower
    by (auto simp: s advanced_fields r' split: option.splits)
  have "kr_current s \<noteq> Some KcSettleEffects" using now by (auto simp: s advanced_fields)
  moreover have "kr_review s \<in> {Some ReviewNoChange, Some ReviewRejected} \<longleftrightarrow> c = KcResultHandoff" if "stands_at_phase s c" for c
    using that now by (auto simp: stands_at_phase_def s advanced_fields)
  ultimately have "publication_ok s" using none by (auto simp: publication_ok_def)
  moreover have "kr_result r = None \<and> kr_erased_result r = None"
    using live_result ok(2) here(1) by (simp add: stands_at_phase_def)
  moreover have "status \<noteq> RunCompleted" using attempt_cases [OF after] here(4) by auto
  ultimately show ?thesis using here(2) by (simp add: result_ok_def s advanced_fields r' u keep_new_def)
qed

text \<open>The result handoff ends the run.\<close>

lemma handed_over:
  assumes ok: "flow_ok r" "publication_ok r" "result_ok r" and here: "stands_at_phase r KcResultHandoff"
    and s: "s = advance_run (no_updates\<lparr>kpu_result := Some v\<rparr>) None None RunCompleted None r'"
    and r': "kr_receipt r' = kr_receipt r" "kr_erased_receipt r' = kr_erased_receipt r" "kr_review r' = kr_review r"
      "kr_erased r' = kr_erased r" "kr_result r' = kr_result r" "kr_erased_result r' = kr_erased_result r" "kr_plan r' = kr_plan r"
    and rows: "rows_ok r'" and out: "\<And>q. q \<noteq> KcResultHandoff \<Longrightarrow> current_output r' q = current_output r q"
    and checked: "result_check z w v = Inr ()" and w: "kwd_run w = r\<lparr>kr_mode := m\<rparr>"
  shows "flow_ok s \<and> publication_ok s \<and> result_ok s"
proof -
  have same: "current_output s q = current_output r q" if "q \<noteq> KcResultHandoff" for q
    using that by (simp add: s current_output_advance out)
  have low: "current_output s q = current_output r q" if "kc_ordinal q \<le> 8" for q using same [of q] that by (cases q) simp_all
  have plan: "kr_plan s = kr_plan r" by (simp add: s advanced_fields r' no_updates_def keep_new_def)
  have "flow_ok s"
    using ok(1) reviews_ok_cong [OF plan low] checks_ok_cong [OF plan low] same rows
    by (simp add: flow_ok_def stands_at_phase_def is_live_def s advanced_fields r' rows_ok_advance)
  moreover have pub: "is_published s = is_published r" "publication_id s = publication_id r"
    by (simp_all add: is_published_def publication_id_def s advanced_fields r')
  moreover have "publication_ok s"
    using ok(2) pub by (auto simp: publication_ok_def stands_at_phase_def is_live_def s advanced_fields r')
  moreover have "kch_publisher_receipt_id v = publication_id r \<and> (kch_canonical v = CanonicalApplied \<longleftrightarrow> is_published r)"
  proof -
    have pid: "publication_id (r\<lparr>kr_mode := m\<rparr>) = publication_id r" by (simp add: publication_id_def)
    have one: "publication_id r = None \<longleftrightarrow> \<not> is_published r" using ok(2) publication_id_iff by (simp add: publication_ok_def)
    have "is_published r \<Longrightarrow> kr_review r \<notin> {Some ReviewNoChange, Some ReviewRejected}" using ok(2) by (simp add: publication_ok_def)
    then show ?thesis
      using checked one by (auto simp: result_check_def w check_simps Let_def pid split: option.splits review_outcome.splits)
  qed
  moreover have "kr_result r = None \<and> kr_erased_result r = None"
    using live_result ok(3) here by (simp add: stands_at_phase_def)
  ultimately show ?thesis
    by (auto simp: result_ok_def outcome_ok_def s advanced_fields r' keep_new_def no_updates_def erased_result_of_def)
qed

text \<open>The gate records the seal only.\<close>

lemma gate_passed:
  assumes ok: "flow_ok r" "publication_ok r" "result_ok r" "orderly (kr_definition r)"
    and here: "stands_at_phase r KcPublicationGate" "\<not> is_published r" "\<not> kr_erased r"
    and s: "s = advance_run u None None RunActive (next_kc_phase (kr_definition r) KcPublicationGate) (record_change_attempt z x r)"
    and u: "kpu_plan u = None" "kpu_result u = None"
  shows "flow_ok s \<and> publication_ok s \<and> result_ok s"
proof -
  have valid: "kc_definition_validate (kr_definition r) = Inr ()" using ok(4) by (simp add: orderly_def)
  have same: "current_output s = current_output r"
    by (simp add: fun_eq_iff s current_output_advance attempt_recorded)
  have rows: "rows_ok s" using ok(1) by (simp add: s rows_ok_advance attempt_recorded flow_ok_def)
  have plan: "kr_plan s = kr_plan r" by (simp add: s advanced_fields attempt_fields u keep_new_def)
  have next_is: "c = KcCommit" if "kr_current s = Some c" for c
    using that next_phase_ordinal [OF valid, of KcPublicationGate c] by (simp add: s advanced_fields flip: kc_ordinal_inj)
  have "in_order r KcPublicationGate" using ok(1) here by (simp add: flow_ok_def)
  moreover have "kc_agent_authored p \<Longrightarrow> kc_ordinal p < 9 \<longleftrightarrow> kc_ordinal p < 10" for p by (cases p) simp_all
  ultimately have "in_order s KcCommit" by (auto simp: in_order_def same)
  then have "flow_ok s"
    using ok(1) rows here(3) next_is reviews_ok_cong [of s r, OF plan] checks_ok_cong [of s r, OF plan]
    by (auto simp: flow_ok_def same stands_at_phase_def) (simp add: s advanced_fields attempt_fields)
  moreover have "kr_review r \<notin> {Some ReviewNoChange, Some ReviewRejected}" using ok(2) here by (auto simp: publication_ok_def)
  then have "publication_ok s"
    using ok(2) here(2) next_is unfolding publication_ok_def
    by (auto simp: stands_at_phase_def is_published_def s advanced_fields attempt_fields)
  moreover have "kr_result r = None \<and> kr_erased_result r = None"
    using live_result ok(3) here(1) by (simp add: stands_at_phase_def)
  then have "result_ok s" using here(3) by (simp add: result_ok_def s advanced_fields attempt_fields u keep_new_def)
  ultimately show ?thesis by simp
qed

lemma fold_m_keeps:
  assumes "fold_m f xs w = Inr w'" "P w" "\<And>x w w'. f x w = Inr w' \<Longrightarrow> P w \<Longrightarrow> P w'"
  shows "P w'"
  using assms(1,2)
proof (induction xs arbitrary: w)
  case (Cons x xs)
  then obtain w1 where "f x w = Inr w1" "fold_m f xs w1 = Inr w'" by (auto simp: check_simps)
  then show ?case using Cons assms(3) by blast
qed simp

lemma suppress_keeps:
  assumes "suppress_change z u w = Inr w'" "change_ok w"
  shows "change_ok w'"
proof -
  obtain w1 where e: "erase_control u w = Inr w1" and
      w': "(case suppress_owned_unit (\<lambda>_. 1) (kn_rest z) u (kwd_units w1) of (st, complete) \<Rightarrow>
        if complete then Inr (w1\<lparr>kwd_units := st\<rparr>) else Inl KnowledgeUnavailable) = Inr w'"
    using assms(1) by (auto simp: suppress_change_def check_simps)
  have "\<exists>st. w' = w1\<lparr>kwd_units := st\<rparr>" using w' by (auto split: prod.splits if_splits)
  then show ?thesis using change_ok_erased [OF e assms(2)] by auto
qed

lemma guarded:
  assumes "phase_guard w x = Inr ()"
  shows "stands_at_phase (kwd_run w) (kx_phase_id x)"
    "is_published (kwd_run w) \<Longrightarrow> kx_phase_id x = KcResultHandoff"
  using assms by (auto simp: phase_guard_def Let_def check_simps stands_at_phase_def)

lemma sealed_gate:
  assumes "seal_gate z w = Inr ready" "flow_ok (kwd_run w)"
  shows "\<not> kr_erased (kwd_run w)"
proof
  assume "kr_erased (kwd_run w)"
  then have "current_output (kwd_run w) KcPrepareChange = None" using assms(2) by (simp add: flow_ok_def)
  then show False using assms(1) by (auto simp: seal_gate_def Let_def check_simps load_phase_data_current split: if_splits)
qed

lemma agent_completed:
  assumes ok: "change_ok w" and guard: "phase_guard w x = Inr ()" and out: "kx_output x = Some out"
    and agent: "kc_agent_authored (kx_phase_id x)" and data: "data_phase (kao_data out) = kx_phase_id x"
    and fresh: "kn_fresh z \<notin> kou_id ` set (kr_outputs (kwd_run w))"
    and sub: "submit_output z w (kx_phase_id x) out = Inr (w1, u)"
    and revisit: "requested_revisit (kr_definition (kwd_run w)) (kx_phase_id x) out (kx_revisit_phase_id x) = Inr revisit"
    and after: "after_attempt (kr_definition (kwd_run w)) (kx_phase_id x) (kao_outcome out) (kao_transition out)
        (review_recorded (Some out)) revisit = Inr (status, n)"
  defines "s \<equiv> advance_run u (review_recorded (Some out)) revisit status n (record_change_attempt z x (kwd_run w1))"
  shows "orderly (kr_definition s) \<and> flow_ok s \<and> publication_ok s \<and> result_ok s"
proof -
  let ?r = "kwd_run w" and ?p = "kx_phase_id x"
  have okr: "orderly (kr_definition ?r)" "flow_ok ?r" "publication_ok ?r" "result_ok ?r" using ok by (simp_all add: change_ok_def)
  then have rows: "rows_ok ?r" by (simp add: flow_ok_def)
  obtain m i g d rws where env: "verify_envelope z ?r ?p out = Inr ()"
      and step: "phase_data_step z (w\<lparr>kwd_run := ?r\<lparr>kr_mode := m\<rparr>\<rparr>) (advances out) (kao_data out) = Inr (d, u, rws)"
      and w1: "kwd_run w1 = bind_output ?p (kn_fresh z) i (g, out\<lparr>kao_data := d\<rparr>) (?r\<lparr>kr_mode := m\<rparr>)" and rows1: "rows_ok (kwd_run w1)"
      and outs: "\<And>q. current_output (kwd_run w1) q = (if q = ?p then Some (g, out\<lparr>kao_data := d\<rparr>) else current_output ?r q)"
    by (rule step_outputs [OF sub rows fresh], rule that)
  let ?r1 = "record_change_attempt z x (kwd_run w1)"
  note same = bound_fields [OF w1] attempt_fields
  have rows2: "rows_ok ?r1" using rows1 by (simp add: attempt_recorded)
  have here: "stands_at_phase ?r ?p" using guarded(1) guard by blast
  have outs2: "current_output s q = (if \<exists>t. revisit = Some t \<and> kc_ordinal t \<le> kc_ordinal q then None
      else if q = ?p then Some (g, out\<lparr>kao_data := d\<rparr>) else current_output ?r q)" for q
    by (auto simp: s_def current_output_advance attempt_recorded outs)
  have def: "kr_definition s = kr_definition ?r" by (simp add: s_def advanced_fields same)
  show ?thesis
  proof (cases "?p = KcResultHandoff")
    case True
    then obtain v where v: "kao_data out = DataKcResultHandoff v" using data by (cases "kao_data out") auto
    then have "d = DataKcResultHandoff v" using step_keeps_phase [OF step] step by (auto simp: check_simps)
    then have u: "u = no_updates\<lparr>kpu_result := Some v\<rparr>" and checked: "result_check z (w\<lparr>kwd_run := ?r\<lparr>kr_mode := m\<rparr>\<rparr>) v = Inr ()"
      using step_handoff step by blast+
    have ended: "kao_outcome out = PhaseCompleted \<and> kao_transition out = Complete \<and> revisit = None"
      using requested_cases [OF revisit] True by blast
    then have "status = RunCompleted" "n = None" "review_recorded (Some out) = None"
      using attempt_cases [OF after] True review_recorded_none data by auto
    then have s: "s = advance_run (no_updates\<lparr>kpu_result := Some v\<rparr>) None None RunCompleted None ?r1"
      using ended by (simp add: s_def u)
    have "flow_ok s \<and> publication_ok s \<and> result_ok s"
      by (rule handed_over [OF okr(2-4) here [unfolded True] s _ _ _ _ _ _ _ rows2 _ checked])
        (simp_all add: same attempt_recorded outs True)
    then show ?thesis using okr(1) def by simp
  next
    case False
    have live: "\<not> kr_erased ?r" using erased_envelope [OF env] False by blast
    have "\<not> is_published ?r" using guarded(2) [OF guard] False by blast
    moreover have "kpu_result u = None" using step_result [OF step] data False by simp
    ultimately have "publication_ok s \<and> result_ok s"
      by (intro publication_agent [OF okr(3,4,1) here live agent False _ data revisit after s_def [THEN meta_eq_to_obj_eq]]) (simp_all add: same)
    moreover have "flow_ok s"
      by (rule flow_agent [OF okr(2,1) here live agent False _ outs2 step data _ _ revisit])
        (simp_all add: s_def advanced_fields same after rows_ok_advance rows2)
    ultimately show ?thesis using okr(1) def by simp
  qed
qed

lemma completion_split:
  assumes step: "complete_change_phase z x w = Inr w'" and ok: "change_ok w" and valid: "kc_complete_validate v resolved x = Inr ()"
    and fresh: "kn_fresh z \<notin> kou_id ` set (kr_outputs (kwd_run w))"
  obtains w1 u revisit status n w2 where "phase_submission z x w = Inr (w1, u)"
    "w2 = w1\<lparr>kwd_run := advance_run u (review_recorded (kx_output x)) revisit status n (record_change_attempt z x (kwd_run w1))\<rparr>"
    "change_ok w2" "fold_m (suppress_change z) (receipt_erased_units (kwd_run w2)) w2 = Inr w'"
proof -
  obtain w1 u revisit status n where guard: "phase_guard w x = Inr ()" and sub: "phase_submission z x w = Inr (w1, u)"
      and revisit: "phase_revisit (kr_definition (kwd_run w)) x = Inr revisit"
      and after: "after_attempt (kr_definition (kwd_run w)) (kx_phase_id x) (fst (phase_outcome_of x)) (snd (phase_outcome_of x))
        (review_recorded (kx_output x)) revisit = Inr (status, n)"
      and fold: "fold_m (suppress_change z) (receipt_erased_units (advance_run u (review_recorded (kx_output x)) revisit status n
          (record_change_attempt z x (kwd_run w1))))
        (w1\<lparr>kwd_run := advance_run u (review_recorded (kx_output x)) revisit status n (record_change_attempt z x (kwd_run w1))\<rparr>) = Inr w'"
    by (rule phase_completed [OF step])
  let ?s = "advance_run u (review_recorded (kx_output x)) revisit status n (record_change_attempt z x (kwd_run w1))"
  have "orderly (kr_definition ?s) \<and> flow_ok ?s \<and> publication_ok ?s \<and> result_ok ?s"
  proof (cases "kx_output x")
    case (Some out)
    have "kc_agent_authored (kx_phase_id x)" "data_phase (kao_data out) = kx_phase_id x"
      using valid Some by (auto simp: kc_complete_validate_def check_simps output_matches_def)
    then show ?thesis
      using agent_completed [OF ok guard Some _ _ fresh, of w1 u revisit status n] sub revisit after Some
      by (simp add: phase_submission_def phase_revisit_def phase_outcome_of_def)
  next
    case None
    then have gate: "kx_phase_id x = KcPublicationGate" "revisit = None"
      using revisit by (auto simp: phase_revisit_def split: if_splits)
    obtain ready where seal: "seal_gate z w = Inr ready" "w1 = w" "u = no_updates\<lparr>kpu_ready := Some ready\<rparr>"
      using sub None gate(1) by (auto simp: phase_submission_def map_sum_def split: sum.splits)
    have live: "\<not> kr_erased (kwd_run w)" using sealed_gate [OF seal(1)] ok by (simp add: change_ok_def)
    have "flow_ok ?s \<and> publication_ok ?s \<and> result_ok ?s"
    proof (rule gate_passed [OF _ _ _ _ _ _ live])
      show "?s = advance_run u None None RunActive (next_kc_phase (kr_definition (kwd_run w)) KcPublicationGate)
          (record_change_attempt z x (kwd_run w))"
        using after None gate seal(2) by (simp add: phase_outcome_of_def after_attempt_def review_recorded_def)
      show "stands_at_phase (kwd_run w) KcPublicationGate" "\<not> is_published (kwd_run w)" using guarded [OF guard] gate(1) by auto
    qed (use ok seal(3) in \<open>simp_all add: change_ok_def no_updates_def\<close>)
    then show ?thesis using ok by (simp add: change_ok_def advanced_fields attempt_fields seal(2))
  qed
  then have "change_ok (w1\<lparr>kwd_run := ?s\<rparr>)" by (simp add: change_ok_def)
  then show ?thesis using sub fold by (intro that [of w1 u "w1\<lparr>kwd_run := ?s\<rparr>" revisit status n]) simp_all
qed

theorem completion_keeps:
  assumes step: "complete_change_phase z x w = Inr w'" and ok: "change_ok w" and valid: "kc_complete_validate v resolved x = Inr ()"
    and fresh: "kn_fresh z \<notin> kou_id ` set (kr_outputs (kwd_run w))"
  shows "change_ok w'"
proof -
  obtain w2 where "change_ok w2" "fold_m (suppress_change z) (receipt_erased_units (kwd_run w2)) w2 = Inr w'"
    by (rule completion_split [OF step ok valid fresh], rule that)
  then show ?thesis using fold_m_keeps [where P = change_ok] suppress_keeps by metis
qed

section \<open>A new input\<close>

lemma input_accepted:
  assumes "record_change_input z x w = Inr w'"
  obtains row where "input_guard (kwd_run w) x = Inr ()"
    "kwd_run w' = (stale_bindings (kc_ordinal (ki_revisit_phase_id x)) (kwd_run w))\<lparr>kr_inputs := kr_inputs (kwd_run w) @ [row],
      kr_revision := kr_revision (kwd_run w) + 1, kr_status := RunActive, kr_current := Some (ki_revisit_phase_id x),
      kr_mode := Phasewise, kr_baseline := (if ki_basis_amendment x = None then kr_baseline (kwd_run w) else None),
      kr_plan := (if ki_basis_amendment x = None then kr_plan (kwd_run w) else None), kr_ready := None, kr_review := None\<rparr>"
  using assms by (auto simp: record_change_input_def Let_def check_simps stale_bindings_def split: if_splits)

lemma in_order_back:
  assumes "in_order r c" "kc_ordinal t \<le> kc_ordinal c"
    and "\<And>q. current_output s q = (if kc_ordinal t \<le> kc_ordinal q then None else current_output r q)"
  shows "in_order s t"
proof -
  have order: "\<And>q. current_output r q \<noteq> None \<longleftrightarrow> kc_agent_authored q \<and> kc_ordinal q < kc_ordinal c"
      "\<And>q g out. current_output r q = Some (g, out) \<Longrightarrow> data_phase (kao_data out) = q \<and> advances out"
    using assms(1) unfolding in_order_def by blast+
  have "current_output s q \<noteq> None \<longleftrightarrow> kc_agent_authored q \<and> kc_ordinal q < kc_ordinal t" for q
    using order(1) [of q] assms(2) by (auto simp: assms(3))
  moreover have "data_phase (kao_data out) = q \<and> advances out" if "current_output s q = Some (g, out)" for q g out
    using that order(2) [of q g out] by (auto simp: assms(3) split: if_splits)
  ultimately show ?thesis unfolding in_order_def by blast
qed

text \<open>What no change of the plan or of an earlier phase can take back\<close>

lemma back_keeps:
  assumes s: "\<And>q. current_output s q = (if kc_ordinal t \<le> kc_ordinal q then None else current_output r q)"
    and plan: "kr_plan s = kr_plan r \<or> kc_ordinal t \<le> 6" and ok: "reviews_ok r" "checks_ok r"
  shows "reviews_ok s \<and> checks_ok s"
proof -
  consider "kc_ordinal t \<le> 6" | "6 < kc_ordinal t" "kc_ordinal t \<le> 8" "kr_plan s = kr_plan r" | "8 < kc_ordinal t" "kr_plan s = kr_plan r"
    using plan by linarith
  then show ?thesis
  proof cases
    case 1
    then show ?thesis by (intro conjI reviews_ok_none checks_ok_none) (simp_all add: s)
  next
    case 2
    have "current_output s KcPrepareChange = current_output r KcPrepareChange"
        "current_output s KcDomainChecks = current_output r KcDomainChecks" using 2 by (simp_all add: s)
    then have "checks_ok s" using ok(2) checks_stand_cong [OF 2(3)] by (simp add: checks_ok_def)
    then show ?thesis using 2 by (simp add: reviews_ok_none s)
  next
    case 3
    then show ?thesis using ok reviews_ok_cong [of s r] checks_ok_cong [of s r] by (simp add: s)
  qed
qed

theorem input_keeps:
  assumes step: "record_change_input z x w = Inr w'" and ok: "change_ok w"
  shows "change_ok w'"
proof -
  let ?r = "kwd_run w" and ?t = "ki_revisit_phase_id x"
  obtain row where guard: "input_guard ?r x = Inr ()"
      and w': "kwd_run w' = (stale_bindings (kc_ordinal ?t) ?r)\<lparr>kr_inputs := kr_inputs ?r @ [row], kr_revision := kr_revision ?r + 1,
        kr_status := RunActive, kr_current := Some ?t, kr_mode := Phasewise,
        kr_baseline := (if ki_basis_amendment x = None then kr_baseline ?r else None),
        kr_plan := (if ki_basis_amendment x = None then kr_plan ?r else None), kr_ready := None, kr_review := None\<rparr>"
    by (rule input_accepted [OF step], rule that)
  have okr: "orderly (kr_definition ?r)" "flow_ok ?r" "publication_ok ?r" "result_ok ?r" using ok by (simp_all add: change_ok_def)
  obtain c ph where cur: "kr_current ?r = Some c" and ph: "find (\<lambda>p. kd_id p = c) (kf_phases (kr_definition ?r)) = Some ph"
    using guard unfolding input_guard_def Let_def check_simps by blast
  then have here: "stands_at_phase ?r c" "\<not> is_published ?r" "\<not> kr_erased ?r"
      and lead: "?t = c \<or> ?t \<in> set (kd_allowed_backward_to ph)" and rework: "c = KcResultHandoff \<longrightarrow> terminal_rework ?r ?t"
      and amend: "ki_basis_amendment x \<noteq> None \<longrightarrow> ?t = KcResolveBaseline"
    using guard by (auto simp: input_guard_def Let_def check_simps stands_at_phase_def)
  have low: "kc_ordinal ?t \<le> kc_ordinal c" by (rule backward_target [OF okr(1) ph lead])
  have t: "?t \<notin> {KcResultHandoff, KcSettleEffects}"
  proof (cases "c = KcResultHandoff")
    case False
    moreover have "c \<noteq> KcSettleEffects" using okr(3) here by (auto simp: publication_ok_def stands_at_phase_def)
    ultimately have "kc_ordinal c < 11" by (cases c) simp_all
    then show ?thesis using low by auto
  qed (use rework in \<open>auto simp: terminal_rework_def\<close>)
  let ?s = "kwd_run w'"
  have outs: "current_output ?s q = (if kc_ordinal ?t \<le> kc_ordinal q then None else current_output ?r q)" for q
  proof -
    have "current_output ?s = current_output (stale_bindings (kc_ordinal ?t) ?r)" by (rule current_output_cong) (simp_all add: w')
    then show ?thesis by (simp add: current_output_stale)
  qed
  have "rows_ok ?s" using rows_ok_stale [of ?r] okr(2) rows_ok_cong [of ?s "stale_bindings (kc_ordinal ?t) ?r"] by (simp add: w' flow_ok_def)
  moreover have "in_order ?s ?t" using in_order_back [OF _ low outs] okr(2) here by (simp add: flow_ok_def)
  moreover have "reviews_ok ?s \<and> checks_ok ?s"
    by (rule back_keeps [OF outs]) (use okr(2) amend in \<open>auto simp: w' flow_ok_def\<close>)
  moreover have same: "kr_erased ?s = kr_erased ?r" "kr_definition ?s = kr_definition ?r" "kr_receipt ?s = kr_receipt ?r"
      "kr_erased_receipt ?s = kr_erased_receipt ?r" "kr_result ?s = kr_result ?r" "kr_erased_result ?s = kr_erased_result ?r"
      "kr_current ?s = Some ?t" "kr_review ?s = None" "kr_status ?s = RunActive"
    by (simp_all add: w' stale_bindings_def)
  ultimately have "flow_ok ?s" using here(3) by (auto simp: flow_ok_def stands_at_phase_def)
  moreover have "publication_ok ?s" using here(2) t by (auto simp: publication_ok_def is_published_def same stands_at_phase_def)
  moreover have "kr_result ?r = None \<and> kr_erased_result ?r = None" using live_result okr(4) here(1) by (simp add: stands_at_phase_def)
  then have "result_ok ?s" by (simp add: result_ok_def same)
  ultimately show ?thesis using okr(1) by (simp add: change_ok_def same)
qed

section \<open>The publication\<close>

lemma published_now:
  assumes "commit_change z x w = Inr w'"
  obtains ready c st p us where "commit_gate w x = Inr ready" "verify_commit z w ready = Inr c"
    "fold_m erase_control us (w\<lparr>kwd_units := st, kwd_run := published_run p (kwd_run w)\<rparr>) = Inr w'"
    "st = fst (case commit_units (kn_store z) (kn_commit z) (kn_before z) (kn_rest z) (kcs_operations c) (kwd_units w) of
       Inl e \<Rightarrow> (kwd_units w, []) | Inr y \<Rightarrow> y)"
    "kpr_id p = kn_fresh z" "kpr_workspace_generation p = ku_generation st"
  using assms by (auto simp: commit_change_def Let_def check_simps publication_receipt_def split: if_splits intro!: that)

lemma gate_open:
  assumes "commit_gate w x = Inr ready" "publication_ok (kwd_run w)"
  shows "kr_current (kwd_run w) = Some KcCommit" "kr_status (kwd_run w) = RunActive" "\<not> is_published (kwd_run w)"
    "kr_ready (kwd_run w) = Some ready"
  using assms by (auto simp: commit_gate_def Let_def check_simps publication_ok_def split: if_splits)

lemma committed_live:
  assumes "verify_commit z w ready = Inr c" "flow_ok (kwd_run w)"
  shows "\<not> kr_erased (kwd_run w)"
proof
  assume "kr_erased (kwd_run w)"
  then have "current_output (kwd_run w) KcPrepareChange = None" using assms(2) by (simp add: flow_ok_def)
  then show False using assms(1) by (auto simp: verify_commit_def Let_def check_simps load_phase_data_current split: if_splits)
qed

lemma published_fields:
  "kr_definition (published_run p r) = kr_definition r" "kr_status (published_run p r) = kr_status r"
  "kr_current (published_run p r) = Some KcSettleEffects" "kr_plan (published_run p r) = kr_plan r"
  "kr_review (published_run p r) = kr_review r" "kr_receipt (published_run p r) = Some p"
  "kr_erased_receipt (published_run p r) = kr_erased_receipt r" "kr_erased (published_run p r) = kr_erased r"
  "kr_result (published_run p r) = kr_result r" "kr_erased_result (published_run p r) = kr_erased_result r"
  "current_output (published_run p r) = current_output r" "rows_ok (published_run p r) = rows_ok r"
  "is_published (published_run p r)"
  by (simp_all add: published_run_def is_published_def current_output_def bound_output_def rows_ok_def fun_eq_iff)

lemma published_ok:
  assumes gate: "commit_gate w x = Inr ready" and verified: "verify_commit z w ready = Inr c" and ok: "change_ok w"
  shows "change_ok (w\<lparr>kwd_units := st, kwd_run := published_run p (kwd_run w)\<rparr>)"
proof -
  let ?r = "kwd_run w" and ?s = "published_run p (kwd_run w)"
  have okr: "orderly (kr_definition ?r)" "flow_ok ?r" "publication_ok ?r" "result_ok ?r" using ok by (simp_all add: change_ok_def)
  note here = gate_open [OF gate okr(3)]
  have live: "\<not> kr_erased ?r" by (rule committed_live [OF verified okr(2)])
  have stands: "stands_at_phase ?r KcCommit" using here by (simp add: stands_at_phase_def is_live_def)
  have "in_order ?r KcCommit" using okr(2) live stands by (simp add: flow_ok_def)
  moreover have "kc_agent_authored q \<Longrightarrow> kc_ordinal q < 10 \<longleftrightarrow> kc_ordinal q < 11" for q by (cases q) simp_all
  ultimately have "in_order ?s KcSettleEffects" by (auto simp: in_order_def published_fields)
  moreover have "reviews_ok ?s" "checks_ok ?s"
    using okr(2) reviews_ok_cong [of ?s ?r] checks_ok_cong [of ?s ?r] by (simp_all add: flow_ok_def published_fields)
  ultimately have "flow_ok ?s" using okr(2) live by (auto simp: flow_ok_def stands_at_phase_def published_fields)
  moreover have "kr_review ?r \<notin> {Some ReviewNoChange, Some ReviewRejected}" using okr(3) here(3) stands by (auto simp: publication_ok_def)
  then have "publication_ok ?s" using here by (auto simp: publication_ok_def published_fields is_published_def)
  moreover have "kr_result ?r = None \<and> kr_erased_result ?r = None" using live_result okr(4) here(2) by (simp add: is_live_def)
  then have "result_ok ?s" using here(2) by (simp add: result_ok_def published_fields)
  ultimately show ?thesis using okr(1) by (simp add: change_ok_def published_fields)
qed

theorem commit_keeps:
  assumes step: "commit_change z x w = Inr w'" and ok: "change_ok w"
  shows "change_ok w'"
proof -
  obtain ready c st p us where gate: "commit_gate w x = Inr ready" and verified: "verify_commit z w ready = Inr c"
      and fold: "fold_m erase_control us (w\<lparr>kwd_units := st, kwd_run := published_run p (kwd_run w)\<rparr>) = Inr w'"
    by (rule published_now [OF step], rule that)
  show ?thesis by (rule fold_m_keeps [where P = change_ok, OF fold published_ok [OF gate verified ok]]) (rule change_ok_erased)
qed

section \<open>The settlement of the effects\<close>

text \<open>
  What holds of a change and survives new units, the erasure of its rows and new states of its effects survives
  the refresh of its effects.
\<close>

locale survives_refresh =
  fixes P :: "change_world \<Rightarrow> bool"
  assumes units: "P w \<Longrightarrow> P (w\<lparr>kwd_units := st\<rparr>)"
    and erasure: "P w \<Longrightarrow> erase_control u w = Inr w' \<Longrightarrow> P w'"
    and effects: "P w \<Longrightarrow> P (w\<lparr>kwd_run := (kwd_run w)\<lparr>kr_effect_rows := es\<rparr>\<rparr>)"
begin

lemma copies: "suppress_copies z u w = Inr (w', b) \<Longrightarrow> P w \<Longrightarrow> P w'"
proof (cases "readable_rows u (kwd_units w) + kn_before z u = 0")
  case False
  assume w: "suppress_copies z u w = Inr (w', b)" "P w"
  obtain w1 where 1: "erase_control u w = Inr w1" and
      2: "(case suppress_owned_unit (kn_before z) (kn_rest z) u (kwd_units w1) of (st, complete) \<Rightarrow> Inr (w1\<lparr>kwd_units := st\<rparr>, complete)) =
        (Inr (w', b) :: (change_world \<times> bool) result)"
    using w(1) False by (auto simp: suppress_copies_def check_simps)
  have "\<exists>st. w' = w1\<lparr>kwd_units := st\<rparr>" using 2 by (auto split: prod.splits)
  then show "P w'" using units erasure [OF w(2) 1] by auto
qed (simp add: suppress_copies_def)

lemma purge: "purge_units z us w = Inr (w', b) \<Longrightarrow> P w \<Longrightarrow> P w'"
proof (induction us arbitrary: w)
  case (Cons u us)
  then obtain w1 complete where 1: "suppress_copies z u w = Inr (w1, complete)"
      and 2: "(if \<not> complete \<or> \<not> residual_complete z (kwd_units w1) u then Inr (w1, False)
        else purge_units z us (w1\<lparr>kwd_units := ledger_erased u (kwd_units w1)\<rparr>)) = Inr (w', b)"
    by (auto simp: check_simps)
  have "P w1" by (rule copies [OF 1 Cons.prems(2)])
  then show ?case using 2 Cons.IH units by (auto split: if_splits)
qed simp

lemma purge_all: "purge_owned z us w = Inr (w', b) \<Longrightarrow> P w \<Longrightarrow> P w'"
  by (auto simp: purge_owned_def purge split: if_splits)

lemma restored: "P w \<Longrightarrow> P (fst (restore_safe z us n w))"
  by (auto simp: restore_safe_def units split: option.splits)

lemma settled: "settled_effect e w status detail = Inr (w', e') \<Longrightarrow> P w \<Longrightarrow> P w'"
  by (auto simp: settled_effect_def Let_def effects)

lemma settled_after: "P (fst t) \<Longrightarrow> (case t of (w, c, n) \<Rightarrow> settled_effect e w (f c n) (g c n)) = Inr (w', e') \<Longrightarrow> P w'"
  by (cases t) (auto intro: settled)

lemma purged: "purge_owned z us w = Inr (w1, b) \<Longrightarrow> settled_effect e w1 status d = Inr (w', e') \<Longrightarrow> P w \<Longrightarrow> P w'"
  by (rule settled, assumption, rule purge_all)

lemma intact: "refresh_intact z p k e w = Inr (w', e') \<Longrightarrow> P w \<Longrightarrow> P w'"
  by (cases "ker_kind e")
    (auto simp: refresh_intact_def Let_def check_simps dest: settled purged
      settled_after [OF restored] split: if_splits)

lemma opaque: "refresh_opaque z p e w = Inr (w', e') \<Longrightarrow> P w \<Longrightarrow> P w'"
  by (cases "ker_kind e")
    (auto simp: refresh_opaque_def Let_def check_simps dest: settled purged
      settled_after [OF restored] split: if_splits)

lemma refresh_survives: "refresh_effects z k p es w = Inr (w', es') \<Longrightarrow> P w \<Longrightarrow> P w'"
proof (induction es arbitrary: w es')
  case (Cons e es)
  then obtain w1 e1 es1 where 1: "refresh_effect z k p e w = Inr (w1, e1)" and 2: "refresh_effects z k p es w1 = Inr (w', es1)"
    by (auto simp: check_simps)
  have "P w1" using 1 Cons.prems(2) by (cases p) (auto dest: intact opaque)
  then show ?case using 2 Cons.IH by blast
qed simp

end

definition settling :: "uuid option \<Rightarrow> change_world \<Rightarrow> bool" where
  "settling i w \<longleftrightarrow> change_ok w \<and> publication_id (kwd_run w) = i \<and> is_published (kwd_run w) \<and> kr_status (kwd_run w) = RunActive \<and>
     kr_current (kwd_run w) = Some KcSettleEffects"

lemma same_run_ok:
  assumes "kr_outputs s = kr_outputs r" "kr_bindings s = kr_bindings r" "kr_plan s = kr_plan r" "kr_definition s = kr_definition r"
    "kr_status s = kr_status r" "kr_current s = kr_current r" "kr_review s = kr_review r" "kr_receipt s = kr_receipt r"
    "kr_erased_receipt s = kr_erased_receipt r" "kr_erased s = kr_erased r" "kr_result s = kr_result r"
    "kr_erased_result s = kr_erased_result r" "change_ok (w\<lparr>kwd_run := r\<rparr>)"
  shows "change_ok (w\<lparr>kwd_run := s\<rparr>)"
proof -
  have out: "current_output s = current_output r" "rows_ok s = rows_ok r"
    using current_output_cong rows_ok_cong assms by blast+
  have "reviews_ok s = reviews_ok r" "checks_ok s = checks_ok r"
    by (rule reviews_ok_cong checks_ok_cong; simp add: assms out)+
  moreover have "in_order s c = in_order r c" for c by (simp add: in_order_def out)
  moreover have pub: "is_published s = is_published r" "publication_id s = publication_id r" by (simp_all add: is_published_def publication_id_def assms)
  ultimately show ?thesis
    using assms(13) by (simp add: change_ok_def flow_ok_def publication_ok_def result_ok_def outcome_ok_def stands_at_phase_def
        is_live_def assms(1-12) out)
qed

interpretation settling_world: survives_refresh "settling i" for i
proof
  fix w u w' st es
  assume w: "settling i w"
  then have ok: "change_ok w" "publication_ok (kwd_run w)" by (simp_all add: settling_def change_ok_def)
  show "settling i (w\<lparr>kwd_units := st\<rparr>)" using w by (simp add: settling_def)
  show "settling i w'" if e: "erase_control u w = Inr w'"
  proof (rule erased_frame [OF e ok(2)])
    fix retained assume "kwd_run w' = redacted_run retained (kwd_run w)"
      "publication_id (kwd_run w') = publication_id (kwd_run w)" "is_published (kwd_run w') = is_published (kwd_run w)"
    then show ?thesis using w change_ok_erased [OF e ok(1)] by (simp add: settling_def redacted_run_def)
  qed
  let ?s = "(kwd_run w)\<lparr>kr_effect_rows := es\<rparr>"
  have "change_ok (w\<lparr>kwd_run := ?s\<rparr>)" by (rule same_run_ok [of _ "kwd_run w"]) (use ok(1) in simp_all)
  moreover have "publication_id ?s = publication_id (kwd_run w)" "is_published ?s = is_published (kwd_run w)"
    by (simp_all add: publication_id_def is_published_def)
  ultimately show "settling i (w\<lparr>kwd_run := ?s\<rparr>)" using w by (simp add: settling_def)
qed

lemma settled_moves:
  assumes w: "settling i w" and r: "settled_run p f c (kwd_run w) = Inr r" and c: "c \<in> {KcSettleEffects, KcResultHandoff}"
  shows "change_ok (w\<lparr>kwd_run := r\<rparr>) \<and> publication_id r = i"
proof -
  let ?r = "kwd_run w"
  have okr: "orderly (kr_definition ?r)" "flow_ok ?r" "publication_ok ?r" "result_ok ?r"
    using w by (simp_all add: settling_def change_ok_def)
  have here: "kr_status ?r = RunActive" "kr_current ?r = Some KcSettleEffects" "is_published ?r" using w by (simp_all add: settling_def)
  have none: "kr_result ?r = None \<and> kr_erased_result ?r = None" using live_result okr(4) here(1) by (simp add: is_live_def)
  have r: "kr_outputs r = kr_outputs ?r" "kr_bindings r = kr_bindings ?r" "kr_plan r = kr_plan ?r"
      "kr_definition r = kr_definition ?r" "kr_status r = kr_status ?r" "kr_current r = Some c" "kr_review r = kr_review ?r"
      "kr_receipt r = kr_receipt ?r" "kr_erased_receipt r = kr_erased_receipt ?r" "kr_erased r = kr_erased ?r"
      "kr_result r = kr_result ?r" "kr_erased_result r = kr_erased_result ?r"
    using r by (cases p; auto split: if_splits)+
  have out: "current_output r = current_output ?r" "rows_ok r = rows_ok ?r"
    using current_output_cong rows_ok_cong r(1,2) by blast+
  have rc: "reviews_ok r = reviews_ok ?r" "checks_ok r = checks_ok ?r" by (rule reviews_ok_cong checks_ok_cong; simp add: r out)+
  have pub: "is_published r" "publication_id r = publication_id ?r" using here(3) by (simp_all add: is_published_def publication_id_def r)
  have "in_order r c" if "\<not> kr_erased ?r"
  proof -
    have "in_order ?r KcSettleEffects" using okr(2) here that by (simp add: flow_ok_def stands_at_phase_def is_live_def)
    moreover have "kc_agent_authored q \<Longrightarrow> kc_ordinal q < kc_ordinal c \<longleftrightarrow> kc_ordinal q < 11" for q using c by (cases q) auto
    ultimately show ?thesis by (auto simp: in_order_def out)
  qed
  then have "flow_ok r" using okr(2) rc by (auto simp: flow_ok_def stands_at_phase_def r out)
  moreover have "publication_ok r" using okr(3) here c pub by (auto simp: publication_ok_def r)
  moreover have "result_ok r" using none here(1) by (simp add: result_ok_def r)
  ultimately show ?thesis using okr(1) w pub by (simp add: change_ok_def settling_def r)
qed

lemma settle_keeps:
  assumes step: "settle_effects z x w = Inr w'" and ok: "change_ok w"
  shows "change_ok w' \<and> publication_id (kwd_run w') = publication_id (kwd_run w)"
proof -
  obtain p k w1 es f c r where gate: "settle_gate w x = Inr p"
      and refresh_survives: "refresh_effects z k p (sort_key (effect_rank \<circ> ker_kind) (sort_key ker_effect_id (kr_effect_rows (kwd_run w)))) w = Inr (w1, es)"
      and r: "settled_run p f c (kwd_run w1) = Inr r" "w' = w1\<lparr>kwd_run := r\<rparr>" and c: "c \<in> {KcSettleEffects, KcResultHandoff}"
    using step by (auto simp: settle_effects_def Let_def check_simps split: if_splits)
  have "settling (publication_id (kwd_run w)) w"
    using gate ok by (auto simp: settle_gate_def Let_def check_simps settling_def receipt_state_of_def is_published_def
        split: if_splits option.splits)
  then have "settling (publication_id (kwd_run w)) w1" by (rule settling_world.refresh_survives [OF refresh_survives])
  then show ?thesis using settled_moves [OF _ r(1) c] r(2) by simp
qed

end
