(* ===== verification/KnowledgeHistory.thy ===== *)
theory KnowledgeHistory
  imports KnowledgeSteps
begin

text \<open>
  The histories of a knowledge change: it begins, then its requests, the changes of the shared store by other
  transactions and the erasure of its rows by another change follow in any order. What holds after every history,
  and what a publication and a result therefore say.
\<close>

section \<open>Histories\<close>

inductive change_step :: "change_world \<Rightarrow> change_world \<Rightarrow> bool" where
  phase_step: "complete_change_phase z x w = Inr w' \<Longrightarrow> kc_complete_validate v resolved x = Inr () \<Longrightarrow>
    kn_fresh z \<notin> kou_id ` set (kr_outputs (kwd_run w)) \<Longrightarrow> change_step w w'"
| input_step: "record_change_input z y w = Inr w' \<Longrightarrow> change_step w w'"
| commit_step: "commit_change z c w = Inr w' \<Longrightarrow> change_step w w'"
| settle_step: "settle_effects z s w = Inr w' \<Longrightarrow> change_step w w'"
| store_step: "change_step w (w\<lparr>kwd_units := st\<rparr>)"
| erasure_step: "erase_control u w = Inr w' \<Longrightarrow> change_step w w'"

inductive change_history :: "change_world \<Rightarrow> change_world \<Rightarrow> bool" where
  same: "change_history w w"
| more: "change_history w w1 \<Longrightarrow> change_step w1 w2 \<Longrightarrow> change_history w w2"

inductive change_reachable :: "change_world \<Rightarrow> bool" where
  begun: "begin_change_run z ids d g b st = Inr w \<Longrightarrow> orderly d \<Longrightarrow> change_reachable w"
| moved: "change_reachable w \<Longrightarrow> change_step w w' \<Longrightarrow> change_reachable w'"

inductive_cases change_stepE: "change_step w w'"

lemma history_reachable: "change_history w w' \<Longrightarrow> change_reachable w \<Longrightarrow> change_reachable w'"
  by (induction rule: change_history.induct) (auto intro: moved)

lemma begun_ok:
  assumes "begin_change_run z ids d g b st = Inr w" "orderly d"
  shows "change_ok w"
proof -
  obtain m where r: "kwd_run w = begun_run d g m KcIntake"
    using assms(1) by (auto simp: begin_change_run_def Let_def check_simps split: if_splits list.splits)
  have none: "current_output (kwd_run w) p = None" for p by (simp add: r begun_run_def current_output_def bound_output_def)
  have "in_order (kwd_run w) KcIntake" using kc_ordinal_bounds(1) by (auto simp: in_order_def none not_less Suc_le_eq)
  then show ?thesis
    using assms(2) none by (auto simp: change_ok_def flow_ok_def reviews_ok_none checks_ok_none rows_ok_def publication_ok_def
        result_ok_def stands_at_phase_def is_published_def r begun_run_def)
qed

lemma step_keeps: "change_step w w' \<Longrightarrow> change_ok w \<Longrightarrow> change_ok w'"
  by (erule change_stepE) (auto intro: completion_keeps input_keeps commit_keeps change_ok_erased dest: settle_keeps)

lemma reachable_ok: "change_reachable w \<Longrightarrow> change_ok w"
  by (induction rule: change_reachable.induct) (auto intro: begun_ok step_keeps)

section \<open>A publication stays\<close>

lemma unpublished_iff: "change_ok w \<Longrightarrow> publication_id (kwd_run w) = None \<longleftrightarrow> \<not> is_published (kwd_run w)"
  by (rule publication_id_iff) (simp add: change_ok_def publication_ok_def)

lemma erasure_keeps_publication:
  assumes "erase_control u w = Inr w'" "change_ok w"
  shows "publication_id (kwd_run w') = publication_id (kwd_run w)"
proof -
  have "publication_ok (kwd_run w)" using assms(2) by (simp add: change_ok_def)
  then show ?thesis by (rule erased_frame [OF assms(1)])
qed

lemma suppress_keeps_publication:
  assumes "suppress_change z u w = Inr w'" "change_ok w"
  shows "publication_id (kwd_run w') = publication_id (kwd_run w)"
proof -
  obtain w1 where e: "erase_control u w = Inr w1" and
      w': "(case suppress_owned_unit (\<lambda>_. 1) (kn_rest z) u (kwd_units w1) of (st, complete) \<Rightarrow>
        if complete then Inr (w1\<lparr>kwd_units := st\<rparr>) else Inl KnowledgeUnavailable) = Inr w'"
    using assms(1) by (auto simp: suppress_change_def check_simps)
  have "kwd_run w' = kwd_run w1" using w' by (auto split: prod.splits if_splits)
  then show ?thesis using erasure_keeps_publication [OF e assms(2)] by simp
qed

lemma completion_keeps_publication:
  assumes step: "complete_change_phase z x w = Inr w'" and ok: "change_ok w" and valid: "kc_complete_validate v resolved x = Inr ()"
    and fresh: "kn_fresh z \<notin> kou_id ` set (kr_outputs (kwd_run w))"
  shows "publication_id (kwd_run w') = publication_id (kwd_run w)"
proof -
  obtain w1 u revisit status n w2 where sub: "phase_submission z x w = Inr (w1, u)"
      and w2: "w2 = w1\<lparr>kwd_run := advance_run u (review_recorded (kx_output x)) revisit status n (record_change_attempt z x (kwd_run w1))\<rparr>"
      and ok2: "change_ok w2" and fold: "fold_m (suppress_change z) (receipt_erased_units (kwd_run w2)) w2 = Inr w'"
    by (rule completion_split [OF step ok valid fresh])
  have "kr_receipt (kwd_run w1) = kr_receipt (kwd_run w) \<and> kr_erased_receipt (kwd_run w1) = kr_erased_receipt (kwd_run w)"
    using sub by (auto simp: phase_submission_def map_sum_def bind_output_def elim!: submitted split: option.splits if_splits sum.splits)
  then have "publication_id (kwd_run w2) = publication_id (kwd_run w)"
    by (simp add: w2 publication_id_def advanced_fields attempt_fields)
  moreover have "change_ok w' \<and> publication_id (kwd_run w') = publication_id (kwd_run w2)"
    by (rule fold_m_keeps [where P = "\<lambda>w'. change_ok w' \<and> publication_id (kwd_run w') = publication_id (kwd_run w2)", OF fold])
      (use ok2 suppress_keeps suppress_keeps_publication in auto)
  ultimately show ?thesis by simp
qed

lemma published_refuses:
  assumes "is_published (kwd_run w)" "change_ok w"
  shows "record_change_input z y w \<noteq> Inr w'" "commit_change z c w \<noteq> Inr w'"
proof -
  show "record_change_input z y w \<noteq> Inr w'"
    using assms(1) by (auto simp: record_change_input_def input_guard_def Let_def check_simps)
  show "commit_change z c w \<noteq> Inr w'"
  proof
    assume "commit_change z c w = Inr w'"
    then obtain ready where "commit_gate w c = Inr ready" by (auto simp: commit_change_def check_simps)
    then show False using gate_open(3) assms by (auto simp: change_ok_def)
  qed
qed

lemma step_keeps_publication:
  assumes "change_step w w'" "change_ok w" "publication_id (kwd_run w) = Some i"
  shows "publication_id (kwd_run w') = Some i"
  using assms(1)
proof cases
  case phase_step
  then show ?thesis using completion_keeps_publication assms(2,3) by metis
next
  case settle_step
  then show ?thesis using settle_keeps assms(2,3) by metis
next
  case erasure_step
  then show ?thesis using erasure_keeps_publication assms(2,3) by metis
qed (use published_refuses unpublished_iff assms(2,3) in \<open>fastforce+\<close>)

lemma history_keeps_publication:
  "change_history w w' \<Longrightarrow> change_reachable w \<Longrightarrow> publication_id (kwd_run w) = Some i \<Longrightarrow> publication_id (kwd_run w') = Some i"
proof (induction rule: change_history.induct)
  case (more w w1 w2)
  then show ?case using step_keeps_publication reachable_ok history_reachable by blast
qed

end
