(* ===== verification/KnowledgeExample.thy ===== *)
theory KnowledgeExample
  imports KnowledgeHistory UnitHistory
begin

text \<open>
  A change that retracts a unit, from its beginning to its result, step by step: what the properties of the
  histories say is said of this one.
\<close>

section \<open>The change\<close>

definition retract_store :: unit_store where
  "retract_store = empty_store\<lparr>ku_generation := 1, ku_heads := [example_head 1 ''a''],
     ku_revisions := [(example_revision 1)\<lparr>kv_unit_iri := ''urn:u'', kv_revision_iri := ''urn:r''\<rparr>]\<rparr>"

definition retract_completion :: completion_requirement where
  "retract_completion = \<lparr>kcr_canonical_result = True, kcr_exact_delivery = False, kcr_impact_recorded = False,
     kcr_search = SearchNotRequired, kcr_erasure = ErasureNotRequired\<rparr>"

definition retract_hint :: operation_hint where
  "retract_hint = \<lparr>koh_client_label = ''unit'', koh_operation = OpRetract, koh_unit_id = Some 1, koh_expected_revision = Some 1,
     koh_expected_lifecycle = Some LifeActive, koh_reason = ''why'', koh_authority_basis = ''who'', koh_depends_on_labels = []\<rparr>"

definition retract_begin :: begin_change where
  "retract_begin = \<lparr>kbk_request_id = 60, kbk_intent = ''i'', kbk_desired_outcome = ''o'', kbk_sources = [],
     kbk_operation_hints = [retract_hint], kbk_owner = OwnerWorkspace, kbk_completion = retract_completion, kbk_delivery_mode = None\<rparr>"

definition retract_ids :: begin_ids where
  "retract_ids = \<lparr>kbi_change = 50, kbi_run = 51, kbi_operation = (\<lambda>_. 7), kbi_unit = (\<lambda>_. 1)\<rparr>"

definition retract_env :: "uuid \<Rightarrow> run_env" where
  "retract_env i = \<lparr>kn_store = example_store_env, kn_commit = example_context, kn_resolve = (\<lambda>_ _. Inr []),
     kn_output_digest = (\<lambda>_. ''d''), kn_plan_digest = (\<lambda>_. ''digest''), kn_changeset_digest = (\<lambda>_. ''d''),
     kn_baseline_digest = (\<lambda>_. ''d''), kn_pins_digest = (\<lambda>_. ''d''), kn_impact_digest = (\<lambda>_. ''d''), kn_input_digest = (\<lambda>_. ''d''),
     kn_command_digest = (\<lambda>_. ''d''), kn_retained = (\<lambda>_. None), kn_manifests = [], kn_copies = [], kn_linked = [],
     kn_guard = (\<lambda>_. Inr ()), kn_eligible = (\<lambda>_ _. Inl NotFound), kn_published = (\<lambda>_ _ _ _. Inr ''d''),
     kn_native = (\<lambda>_ _ _ _. Inr ''d''), kn_search = (\<lambda>_ _. StatusNotApplicable), kn_before = (\<lambda>_. 0), kn_rest = (\<lambda>_. 0),
     kn_exported = (\<lambda>_. False), kn_covered = (\<lambda>_. False), kn_effect_id = (\<lambda>k. of_nat (effect_rank k) + 70), kn_fresh = i,
     kn_receipt_digest = (\<lambda>_. ''d''), kn_promote = (\<lambda>_. Inr ()), kn_document = example_document_env, kn_outputs = []\<rparr>"

definition retract_row :: operation_row where
  "retract_row = \<lparr>kow_id = 7, kow_unit_id = 1, kow_client_label = ''unit'', kow_operation = OpRetract,
     kow_expected_revision = Some 1, kow_expected_lifecycle = Some LifeActive, kow_reason = ''why'', kow_authority_basis = ''who'',
     kow_dependency_ids = [], kow_knowledge_kind = None, kow_profile_ids = [], kow_qualification_basis = None\<rparr>"

definition qualified_retract_row :: operation_row where
  "qualified_retract_row = retract_row\<lparr>kow_knowledge_kind := Some KindClaim, kow_profile_ids := [ProfileGeneral],
     kow_qualification_basis := Some ''claim''\<rparr>"

section \<open>What its phases write\<close>

definition retract_guard :: revision_guard where
  "retract_guard = \<lparr>krg_unit_id = 1, krg_revision = 1, krg_lifecycle = LifeActive, krg_rdf_digest = ''d'',
     krg_unit_iri = ''urn:u'', krg_revision_iri = ''urn:r''\<rparr>"

definition retract_baseline :: baseline_manifest where
  "retract_baseline = \<lparr>kbm_workspace_generation = 1, kbm_registry_generation = 0, kbm_policy_generation = 0,
     kbm_targets = [retract_guard], kbm_dependencies = [], kbm_identity_matches = [], kbm_source_availability = [],
     kbm_assessment_conflicts = [], kbm_assessment_gaps = [], kbm_conflicts = [], kbm_missing_context = [], kbm_digest = ''d''\<rparr>"

definition read_of :: "str \<Rightarrow> read_receipt" where
  "read_of i = \<lparr>rr_instruction_id = i, rr_version = ''1'', rr_digest = ''d''\<rparr>"

definition retract_operation :: planned_operation where
  "retract_operation = \<lparr>kpn_operation_id = 7, kpn_unit_id = 1, kpn_client_label = ''unit'', kpn_operation = OpRetract,
     kpn_expected_revision = Some 1, kpn_expected_lifecycle = Some LifeActive, kpn_document = None, kpn_revalidation = None,
     kpn_successor = None, kpn_replacement_bindings = [], kpn_reason = ''why'', kpn_authority_basis = ''who'',
     kpn_dependency_operation_ids = [], kpn_binding_pins = []\<rparr>"

definition retract_changeset :: changeset where
  "retract_changeset = \<lparr>kcs_revision = 1, kcs_operations = [retract_operation], kcs_semantic_diff = ''s'',
     kcs_evidence_digest = ''d'', kcs_digest = ''d''\<rparr>"

definition retract_impact :: impact_plan where
  "retract_impact = \<lparr>kip_synchronous_changes = [], kip_affected_contexts =
       [impact_at ''workspace-knowledge-state:u'' ''invalidate_manifest_generation'' True],
     kip_derivations = [], kip_owned_copies = [], kip_followups = [], kip_blocking_conflicts = [], kip_digest = ''d''\<rparr>"

definition retract_receipts :: obligation_receipts where
  "retract_receipts = \<lparr>kol_receipts = [\<lparr>kor_operation_id = 7, kor_profile_id = ProfileGeneral, kor_obligation_id = ''check'',
       kor_disposition = ObligationSatisfied, kor_reason = ''r'', kor_changeset_digest = ''d'',
       kor_method_reads = [read_of (profile_method_id ProfileGeneral)], kor_input_digests = [], kor_reused_receipt_id = None\<rparr>],
     kol_unresolved_obligation_ids = []\<rparr>"

definition retract_review :: review_receipt where
  "retract_review = \<lparr>krr_outcome = ReviewReady, krr_reviewed_digests = [''d'', ''digest''], krr_covered_operation_ids = [7],
     krr_covered_obligation_ids = [''check''], krr_findings = [], krr_summary = ''s''\<rparr>"

definition retract_effect :: "effect_kind \<Rightarrow> effect_status \<Rightarrow> str \<Rightarrow> effect_receipt" where
  "retract_effect k status detail = \<lparr>ker_effect_id = of_nat (effect_rank k) + 70, ker_kind = k, ker_status = status,
     ker_generation = 2, ker_owner_ref = ''tect-backend'', ker_detail = detail\<rparr>"

definition settled_effects :: "effect_receipt list" where
  "settled_effects =
    [retract_effect EffectOwnedCopyPurge StatusNotApplicable ''no erasure-owned copy purge applies'',
     retract_effect EffectExactDelivery StatusNotApplicable ''exact delivery was not required'',
     retract_effect EffectInvalidation StatusReady ''workspace generation 2 is the context basis'',
     retract_effect EffectImpact StatusNotApplicable ''reviewed impact was not required'',
     retract_effect EffectSearch StatusNotApplicable ''search completion was not required'',
     retract_effect EffectVisibilityClosure StatusReady ''closed unit reads and active bindings checked'',
     retract_effect EffectBackupDisposition StatusNotApplicable ''restore-safe disposition was not required'']"

definition retract_result :: change_result where
  "retract_result = \<lparr>kch_canonical = CanonicalApplied, kch_user_outcome = UserAchieved, kch_summary = ''s'',
     kch_remaining_work = [], kch_publisher_receipt_id = Some 20, kch_effects = settled_effects\<rparr>"

fun retract_data :: "kc_phase \<Rightarrow> agent_data" where
  "retract_data KcIntake = DataKcIntake \<lparr>kit_bounded_outcome = ''o'', kit_operation_hints = [retract_hint],
     kit_authority_boundary = ''a'', kit_completion = retract_completion\<rparr>"
| "retract_data KcResolveBaseline = DataKcResolveBaseline retract_baseline"
| "retract_data KcQualifyPlan = DataKcQualifyPlan example_qualification"
| "retract_data KcQualifyEvidence = DataKcQualifyEvidence \<lparr>kem_claims = [], kem_source_pins = [], kem_source_pin_digest = ''d'',
     kem_unresolved_gaps = []\<rparr>"
| "retract_data KcPrepareChange = DataKcPrepareChange retract_changeset"
| "retract_data KcDomainChecks = DataKcDomainChecks retract_receipts"
| "retract_data KcImpactPlan = DataKcImpactPlan retract_impact"
| "retract_data KcReviewReconcile = DataKcReviewReconcile retract_review"
| "retract_data p = DataKcResultHandoff retract_result"

definition retract_output :: "kc_phase \<Rightarrow> int \<Rightarrow> agent_output" where
  "retract_output p n = \<lparr>kao_phase_id = p, kao_expected_run_revision = n, kao_phasewise_reason = None,
     kao_plan_revision = (if kc_ordinal p \<le> 3 then 0 else 1), kao_plan_digest = (if kc_ordinal p \<le> 3 then [] else ''digest''),
     kao_consumed_outputs = map (\<lambda>q. \<lparr>co_phase_id = kc_as_str q, co_output_revision = 1, co_digest = ''d''\<rparr>)
       (take (min 8 (kc_ordinal p - 1)) KC_ALL),
     kao_consumed_inputs = [], kao_baseline_guards = (if kc_ordinal p \<le> 2 then [] else [retract_guard]), kao_source_digests = [],
     kao_method_reads = map read_of ((case kc_method_id p of None \<Rightarrow> [] | Some i \<Rightarrow> [i]) @
       (if kc_ordinal p \<in> {4..8} then [profile_method_id ProfileGeneral] else [])),
     kao_body = ''b'', kao_data = retract_data p, kao_verdict = ''v'', kao_outcome = PhaseCompleted,
     kao_transition = (if p = KcResultHandoff then Complete else Continue), kao_findings = [], kao_dispositions = []\<rparr>"

definition retract_request :: "kc_phase \<Rightarrow> int \<Rightarrow> kc_complete" where
  "retract_request p n = \<lparr>kx_request_id = 61, kx_change_id = 50, kx_run_id = 51, kx_run_revision = n, kx_phase_id = p,
     kx_output = (if kc_agent_authored p then Some (retract_output p n) else None), kx_revisit_phase_id = None\<rparr>"

section \<open>Its states\<close>

definition retract_change :: change_row where
  "retract_change = \<lparr>kcg_id = 50, kcg_run = 51, kcg_payload = Some \<lparr>kcy_outcome = ''o'', kcy_hints = [retract_hint],
     kcy_completion = retract_completion, kcy_sources = [], kcy_pins = []\<rparr>, kcg_source_revision = 0\<rparr>"

definition phase_row :: "kc_phase \<Rightarrow> change_output" where
  "phase_row p = \<lparr>kou_id = of_nat (kc_ordinal p), kou_phase = p, kou_revision = 1,
     kou_content = Some (''d'', retract_output p (int (kc_ordinal p)))\<rparr>"

definition phase_binding :: "kc_phase \<Rightarrow> output_binding" where
  "phase_binding p = \<lparr>kob_phase = p, kob_output = of_nat (kc_ordinal p), kob_revision = 1, kob_stale = False\<rparr>"

definition phase_attempt :: "kc_phase \<Rightarrow> change_attempt" where
  "phase_attempt p = \<lparr>kat_phase = p, kat_attempt = 1, kat_outcome = PhaseCompleted, kat_transition = Continue,
     kat_output = (if kc_agent_authored p then Some (of_nat (kc_ordinal p)) else None)\<rparr>"

text \<open>The run after its first \<^verbatim>\<open>n\<close> phases\<close>

definition retract_run :: "nat \<Rightarrow> change_run" where
  "retract_run n = (begun_run example_kc_definition (example_registry AppliesAlways) Phasewise KcIntake)\<lparr>kr_revision := int n + 1,
     kr_current := Some (KC_ALL ! n), kr_baseline := (if 2 \<le> n then Some retract_baseline else None),
     kr_plan := (if 3 \<le> n then Some example_branch_plan else None), kr_review := (if 8 \<le> n then Some ReviewReady else None),
     kr_outputs := map phase_row (take (min 8 n) KC_ALL), kr_bindings := map phase_binding (take (min 8 n) KC_ALL),
     kr_attempts := map phase_attempt (take n KC_ALL)\<rparr>"

definition retract_world :: "nat \<Rightarrow> change_world" where
  "retract_world n = \<lparr>kwd_units = retract_store, kwd_change = retract_change,
     kwd_rows = [if 3 \<le> n then qualified_retract_row else retract_row], kwd_run = retract_run n\<rparr>"

lemma retract_begun:
  "begin_change_run (retract_env 0) retract_ids example_kc_definition (example_registry AppliesAlways) retract_begin retract_store =
    Inr (retract_world 0)"
  by (simp add: begin_change_run_def retract_env_def retract_ids_def retract_begin_def example_kc_definition_def KC_ALL_def
      example_kc_phase_def retract_world_def retract_change_def retract_run_def begun_run_def hint_row_def retract_hint_def
      retract_row_def)

lemma example_definition_orderly: "orderly example_kc_definition"
proof -
  have "kc_ordinal t < kc_ordinal p" if "t \<in> set (take (kc_ordinal p - 1) KC_ALL)" for t p
    using that by (cases p) (auto simp: KC_ALL_def)
  then show ?thesis
    using example_kc_definition_valid by (auto simp: orderly_def example_kc_definition_def example_kc_phase_def)
qed

lemma retract_env_simps [simp]:
  "kn_store (retract_env i) = example_store_env" "kn_commit (retract_env i) = example_context" "kn_resolve (retract_env i) ss n = Inr []"
  "kn_output_digest (retract_env i) out = ''d''" "kn_plan_digest (retract_env i) = (\<lambda>_. ''digest'')"
  "kn_changeset_digest (retract_env i) c = ''d''" "kn_baseline_digest (retract_env i) b = ''d''"
  "kn_pins_digest (retract_env i) ps = ''d''" "kn_impact_digest (retract_env i) t = ''d''"
  "kn_command_digest (retract_env i) q = ''d''" "kn_retained (retract_env i) = (\<lambda>_. None)" "kn_manifests (retract_env i) = []"
  "kn_copies (retract_env i) = []" "kn_linked (retract_env i) = []" "kn_guard (retract_env i) g = Inr ()"
  "kn_native (retract_env i) u n event flag = Inr ''d''" "kn_search (retract_env i) us req = StatusNotApplicable"
  "kn_before (retract_env i) = (\<lambda>_. 0)" "kn_rest (retract_env i) = (\<lambda>_. 0)"
  "kn_effect_id (retract_env i) k = of_nat (effect_rank k) + 70" "kn_fresh (retract_env i) = i"
  "kn_receipt_digest (retract_env i) p = ''d''" "kn_promote (retract_env i) v = Inr ()"
  "kn_document (retract_env i) = example_document_env" "kn_outputs (retract_env i) = []"
  by (simp_all add: retract_env_def)

lemma retract_run_simps [simp]:
  "kr_definition (retract_run n) = example_kc_definition" "kr_registry (retract_run n) = example_registry AppliesAlways"
  "kr_revision (retract_run n) = int n + 1" "kr_status (retract_run n) = RunActive" "kr_current (retract_run n) = Some (KC_ALL ! n)"
  "kr_mode (retract_run n) = Phasewise"
  "kr_baseline (retract_run n) = (if 2 \<le> n then Some retract_baseline else None)"
  "kr_plan (retract_run n) = (if 3 \<le> n then Some example_branch_plan else None)"
  "kr_review (retract_run n) = (if 8 \<le> n then Some ReviewReady else None)"
  "kr_outputs (retract_run n) = map phase_row (take (min 8 n) KC_ALL)"
  "kr_bindings (retract_run n) = map phase_binding (take (min 8 n) KC_ALL)"
  "kr_attempts (retract_run n) = map phase_attempt (take n KC_ALL)" "kr_inputs (retract_run n) = []" "kr_erased (retract_run n) = False"
  "kr_receipt (retract_run n) = None" "kr_erased_receipt (retract_run n) = None" "kr_ready (retract_run n) = None"
  "kr_effects (retract_run n) = None" "kr_erased_effects (retract_run n) = None" "kr_result (retract_run n) = None"
  "kr_erased_result (retract_run n) = None" "kr_effect_rows (retract_run n) = []"
  by (simp_all add: retract_run_def begun_run_def)

lemma example_phase_found: "find (\<lambda>d. kd_id d = p) (kf_phases example_kc_definition) = Some (example_kc_phase p)"
  by (cases p) (simp_all add: example_kc_definition_def KC_ALL_def example_kc_phase_def)

lemma example_own_methods:
  "own_methods (retract_env i) p (example_kc_phase p) = Inr (case kc_method_id p of None \<Rightarrow> {} | Some m \<Rightarrow> {(m, ''1'', ''d'')})"
  by (cases p) (simp_all add: own_methods_def example_kc_phase_def example_method_def instruction_key_def
    KNOWLEDGE_MAINTENANCE_METHOD_ID_def)

lemma example_plan_methods:
  "plan_methods (retract_run n) p = Inr (if 3 \<le> n \<and> kc_ordinal p \<in> {4..8} then {(profile_method_id ProfileGeneral, ''1'', ''d'')} else {})"
proof -
  have found: "registry_profile (example_registry AppliesAlways) ProfileGeneral = Some (example_profile AppliesAlways ProfileGeneral)"
    by (simp add: registry_profile_def example_registry_def ALL_PROFILES_def example_profile_def)
  show ?thesis
    by (cases p) (simp_all add: plan_methods_def example_branch_plan_def Let_def branch_of_def found example_obligation_def
      example_profile_def ref_key_def example_ref_def instruction_key_def)
qed

lemma example_consumed:
  assumes "n \<le> 8" "n < kc_ordinal p"
  shows "outputs_to_consume (retract_run n) p = (\<lambda>q. \<lparr>co_phase_id = kc_as_str q, co_output_revision = 1, co_digest = ''d''\<rparr>) ` set (take n KC_ALL)"
proof -
  have "n \<in> {0, 1, 2, 3, 4, 5, 6, 7, 8}" using assms(1) by auto
  then show ?thesis using assms(2)
    by (elim insertE emptyE) (simp_all add: outputs_to_consume_def map_filter_simps KC_ALL_def phase_row_def phase_binding_def)
qed

lemma retract_bound:
  assumes "n \<le> 8" "p \<in> set (take n KC_ALL)"
  shows "bound_output (retract_run n) p = Some (phase_row p)"
proof -
  have "n \<in> {0, 1, 2, 3, 4, 5, 6, 7, 8}" using assms(1) by auto
  then show ?thesis using assms(2)
    by (elim insertE emptyE) (auto simp: bound_output_def KC_ALL_def phase_row_def phase_binding_def)
qed


lemma retract_envelope:
  assumes "kc_ordinal p = Suc n" "n < 8"
  shows "verify_envelope (retract_env i) (retract_run n) p (retract_output p k) = Inr ()"
proof -
  have named: "plan_named (retract_run n) p (retract_output p k) = Inr ()"
    using assms by (auto simp: plan_named_def retract_output_def example_branch_plan_def)
  have consumed: "set (kao_consumed_outputs (retract_output p k)) = outputs_to_consume (retract_run n) p"
    using assms by (simp add: example_consumed retract_output_def)
  have guards: "kc_ordinal KcResolveBaseline < kc_ordinal p \<Longrightarrow> kao_baseline_guards (retract_output p k) = expected_guards (retract_run n)"
    using assms by (simp add: expected_guards_def retract_output_def retract_baseline_def)
  have methods: "(case kc_method_id p of None \<Rightarrow> {} | Some m \<Rightarrow> {(m, ''1'', ''d'')}) \<union>
      (if 3 \<le> n \<and> kc_ordinal p \<in> {4..8} then {(profile_method_id ProfileGeneral, ''1'', ''d'')} else {}) =
      (\<lambda>m. (rr_instruction_id m, rr_version m, rr_digest m)) ` set (kao_method_reads (retract_output p k))"
    using assms by (cases p) (simp_all add: retract_output_def read_of_def insert_commute)
  have sources: "(case Option.bind (bound_output (retract_run n) KcQualifyEvidence) kou_output of
      None \<Rightarrow> [] | Some e \<Rightarrow> (case as_evidence (kao_data e) of None \<Rightarrow> [] | Some m \<Rightarrow> map ksp_digest (kem_source_pins m))) = []"
    if "5 \<le> kc_ordinal p"
  proof -
    have "KcQualifyEvidence \<in> set (take n KC_ALL)" using that assms by (auto simp: KC_ALL_def take_Cons' split: if_splits)
    then show ?thesis using assms by (simp add: retract_bound phase_row_def retract_output_def)
  qed
  show ?thesis
    using named consumed guards methods sources assms
    by (simp add: verify_envelope_def inputs_to_consume_def map_filter_simps example_phase_found example_own_methods
        example_plan_methods retract_output_def [of p k])
qed


lemma retract_world_simps [simp]:
  "kwd_units (retract_world n) = retract_store" "kwd_change (retract_world n) = retract_change"
  "kwd_rows (retract_world n) = [if 3 \<le> n then qualified_retract_row else retract_row]"
  "kwd_run (retract_world n) = retract_run n"
  by (simp_all add: retract_world_def)

lemma retract_same:
  "(retract_world n)\<lparr>kwd_run := retract_run n\<rparr> = retract_world n"
  "(retract_output p k)\<lparr>kao_data := retract_data p\<rparr> = retract_output p k"
  by (simp_all add: retract_world_def retract_output_def)

lemma retract_request_simps [simp]:
  "kx_change_id (retract_request p n) = 50" "kx_run_id (retract_request p n) = 51" "kx_run_revision (retract_request p n) = n"
  "kx_phase_id (retract_request p n) = p" "kx_revisit_phase_id (retract_request p n) = None"
  "kc_agent_authored p \<Longrightarrow> kx_output (retract_request p n) = Some (retract_output p n)"
  by (simp_all add: retract_request_def)

lemma retract_output_simps [simp]:
  "kao_data (retract_output p n) = retract_data p" "kao_outcome (retract_output p n) = PhaseCompleted"
  "kao_phasewise_reason (retract_output p n) = None"
  "kao_transition (retract_output p n) = (if p = KcResultHandoff then Complete else Continue)"
  by (simp_all add: retract_output_def)

lemma phases_next: "n < 9 \<Longrightarrow> next_kc_phase example_kc_definition (KC_ALL ! n) = Some (KC_ALL ! Suc n)"
proof -
  assume "n < 9"
  then have "n \<in> {0, 1, 2, 3, 4, 5, 6, 7, 8}" by auto
  then show ?thesis
    by (elim insertE emptyE) (simp_all add: KC_ALL_def next_kc_phase_def example_kc_definition_def example_kc_phase_def)
qed

lemma keep_new_simps: "keep_new None x = x" "keep_new (Some y) x = Some y"
  by (simp_all add: keep_new_def)

lemma retract_step:
  assumes n: "n < 8" "p = KC_ALL ! n"
    and step: "phase_data_step (retract_env (of_nat (Suc n))) (retract_world n) True (retract_data p) =
      Inr (retract_data p, no_updates\<lparr>kpu_baseline := b, kpu_plan := q\<rparr>, kwd_rows (retract_world (Suc n)))"
    and kept: "keep_new b (kr_baseline (retract_run n)) = kr_baseline (retract_run (Suc n))"
      "keep_new q (kr_plan (retract_run n)) = kr_plan (retract_run (Suc n))"
  shows "complete_change_phase (retract_env (of_nat (Suc n))) (retract_request p (int (Suc n))) (retract_world n) =
    Inr (retract_world (Suc n))"
proof -
  have all: "n \<in> {0, 1, 2, 3, 4, 5, 6, 7}" using n by auto
  have p: "kc_ordinal p = Suc n" "kc_agent_authored p" "p \<noteq> KcResultHandoff" "p \<noteq> KcCommit" "p \<noteq> KcSettleEffects"
      "p = KcReviewReconcile \<longleftrightarrow> n = 7"
    using all n(2) by (elim insertE emptyE; simp add: KC_ALL_def)+
  have guard: "phase_guard (retract_world n) (retract_request p (int (Suc n))) = Inr ()"
    using n p by (simp add: phase_guard_def found_run_def retract_change_def is_live_def is_published_def Let_def)
  have findings: "(case as_review (retract_data p) of None \<Rightarrow> False | Some v \<Rightarrow> krr_outcome v = ReviewFindings) = False"
    by (cases p) (simp_all add: retract_review_def)
  have review: "review_recorded (Some (retract_output p k)) = (if n = 7 then Some ReviewReady else None)" for k
    using p by (cases p) (simp_all add: review_recorded_def retract_review_def)
  have numbers: "next_revision (retract_run n) p = 1" 
      "\<And>r. kr_attempts r = kr_attempts (retract_run n) \<Longrightarrow> attempt_number r p = 1"
    using all n(2) by (elim insertE emptyE; simp add: KC_ALL_def next_revision_def attempt_number_def phase_row_def phase_attempt_def)+
  have take: "take (min 8 (Suc n)) KC_ALL = take n KC_ALL @ [p]" "take (Suc n) KC_ALL = take n KC_ALL @ [p]"
    using n by (simp_all add: take_Suc_conv_app_nth min_absorb2)
  have unbound: "filter (\<lambda>b. kob_phase b \<noteq> p) (kr_bindings (retract_run n)) = kr_bindings (retract_run n)"
    using all n(2) by (elim insertE emptyE; simp add: KC_ALL_def phase_binding_def)
  have next_is: "next_kc_phase example_kc_definition p = Some (KC_ALL ! Suc n)" using phases_next n by simp
  have submitted: "submit_output (retract_env (of_nat (Suc n))) (retract_world n) p (retract_output p (int (Suc n))) = Inr
      ((retract_world n)\<lparr>kwd_rows := kwd_rows (retract_world (Suc n)),
        kwd_run := bind_output p (of_nat (Suc n)) 1 (''d'', retract_output p (int (Suc n))) (retract_run n)\<rparr>,
       no_updates\<lparr>kpu_baseline := b, kpu_plan := q\<rparr>)"
    using p step findings numbers retract_envelope [OF p(1) n(1)]
    by (simp add: submit_output_def Let_def retract_same)
  let ?r = "record_change_attempt (retract_env (of_nat (Suc n))) (retract_request p (int (Suc n)))
      (bind_output p (of_nat (Suc n)) 1 (''d'', retract_output p (int (Suc n))) (retract_run n))"
  let ?s = "advance_run (no_updates\<lparr>kpu_baseline := b, kpu_plan := q\<rparr>) (if n = 7 then Some ReviewReady else None) None RunActive
      (Some (KC_ALL ! Suc n)) ?r"
  have run: "?s = retract_run (Suc n)"
    by (rule change_run.equality)
      (use n(1) p numbers take unbound in \<open>simp_all add: advance_run_def record_change_attempt_def bind_output_def attempt_of_def
        phase_row_def phase_binding_def phase_attempt_def phase_outcome_of_def no_updates_def keep_new_simps kept [symmetric] Let_def
        del: retract_run_simps(7,8)\<close>)
  let ?z = "retract_env (of_nat (Suc n))" and ?x = "retract_request p (int (Suc n))" and ?w = "retract_world n"
  let ?w1 = "(retract_world n)\<lparr>kwd_rows := kwd_rows (retract_world (Suc n)),
      kwd_run := bind_output p (of_nat (Suc n)) 1 (''d'', retract_output p (int (Suc n))) (retract_run n)\<rparr>"
  have x: "kx_output ?x = Some (retract_output p (int (Suc n)))" "kx_phase_id ?x = p" using p by simp_all
  have sub: "phase_submission ?z ?x ?w = Inr (?w1, no_updates\<lparr>kpu_baseline := b, kpu_plan := q\<rparr>)"
    by (simp only: phase_submission_def x option.case submitted)
  have revisit: "phase_revisit (kr_definition (kwd_run ?w)) ?x = Inr None"
    using p by (cases p) (simp_all add: phase_revisit_def requested_revisit_def Let_def retract_review_def)
  have after: "after_attempt (kr_definition (kwd_run ?w)) (kx_phase_id ?x) (fst (phase_outcome_of ?x)) (snd (phase_outcome_of ?x))
      (review_recorded (kx_output ?x)) None = Inr (RunActive, Some (KC_ALL ! Suc n))"
    using next_is p review by (simp add: after_attempt_def phase_outcome_of_def)
  have final: "?w1\<lparr>kwd_run := retract_run (Suc n)\<rparr> = retract_world (Suc n)" by (simp add: retract_world_def)
  have clean: "receipt_erased_units (retract_run (Suc n)) = []" by (simp add: receipt_erased_units_def)
  have run1: "kwd_run ?w1 = bind_output p (of_nat (Suc n)) 1 (''d'', retract_output p (int (Suc n))) (retract_run n)"
    "review_recorded (kx_output ?x) = (if n = 7 then Some ReviewReady else None)" using x review by simp_all
  show ?thesis
    unfolding complete_change_phase_def Let_def guard sub revisit after [unfolded run1(2)] andThen_simps prod.case run1 run final clean
    by (simp add: promoted_def clean)
qed


lemma checks_steps:
  "checks [] = Inr ()" "checks (Inr u # cs) = checks cs" "each f [] = Inr ()"
  "f x = Inr u \<Longrightarrow> each f (x # xs) = each f xs"
  by (simp_all add: each_def)

lemma retract_plan_step:
  "phase_data_step (retract_env i) (retract_world 2) True (retract_data KcQualifyPlan) =
    Inr (retract_data KcQualifyPlan, no_updates\<lparr>kpu_baseline := None, kpu_plan := Some example_branch_plan\<rparr>, kwd_rows (retract_world 3))"
proof -
  have "\<lparr>kpw_definition = example_kc_definition, kpw_registry = example_registry AppliesAlways, kpw_delivery_mode = Phasewise,
      kpw_next_revision = next_revision (retract_run 2) KcQualifyPlan\<rparr> = example_plan_run AppliesAlways"
    by (simp add: example_plan_run_def next_revision_def KC_ALL_def phase_row_def)
  then show ?thesis
    using example_plan_compiled [of retract_row]
    by (simp add: retract_row_def qualified_retract_row_def no_updates_def)
qed

lemma retract_intake_step:
  "phase_data_step (retract_env i) (retract_world 0) True (retract_data KcIntake) =
    Inr (retract_data KcIntake, no_updates\<lparr>kpu_baseline := None, kpu_plan := None\<rparr>, kwd_rows (retract_world 1))"
  by (simp add: payload_of_def retract_change_def intake_check_def no_updates_def)

lemma retract_baseline_step:
  "phase_data_step (retract_env i) (retract_world 1) True (retract_data KcResolveBaseline) =
    Inr (retract_data KcResolveBaseline, no_updates\<lparr>kpu_baseline := Some retract_baseline, kpu_plan := None\<rparr>, kwd_rows (retract_world 2))"
proof -
  have "target_guard retract_store retract_row = Some retract_guard"
    by (simp add: target_guard_def guard_at_def head_of_def revision_of_def retract_store_def example_head_def example_revision_def
        retract_row_def guard_of_def retract_guard_def)
  then have "current_baseline (retract_env i) (retract_world 1) retract_baseline = Inr retract_baseline"
    by (simp add: current_baseline_def retract_row_def retract_baseline_def availability_def payload_of_def retract_change_def
        map_filter_simps target_conflicts_def retract_guard_def retract_store_def btree_list_def empty_store_def Let_def)
  then show ?thesis by (simp add: no_updates_def) (simp add: retract_baseline_def)
qed

lemma retract_evidence_step:
  "phase_data_step (retract_env i) (retract_world 3) True (retract_data KcQualifyEvidence) =
    Inr (retract_data KcQualifyEvidence, no_updates\<lparr>kpu_baseline := None, kpu_plan := None\<rparr>, kwd_rows (retract_world 4))"
  by (simp add: payload_of_def retract_change_def evidence_check_def no_updates_def Let_def)

lemma retract_loaded:
  assumes "n \<le> 8"
  shows "5 \<le> n \<Longrightarrow> loaded_changeset (retract_run n) = Inr retract_changeset"
    "4 \<le> n \<Longrightarrow> loaded_evidence (retract_run n) =
      Inr \<lparr>kem_claims = [], kem_source_pins = [], kem_source_pin_digest = ''d'', kem_unresolved_gaps = []\<rparr>"
    "6 \<le> n \<Longrightarrow> loaded_checks (retract_run n) = Inr retract_receipts"
    "7 \<le> n \<Longrightarrow> loaded_impact (retract_run n) = Inr retract_impact"
    "8 \<le> n \<Longrightarrow> loaded_review (retract_run n) = Inr retract_review"
    "6 \<le> n \<Longrightarrow> phase_digest (retract_run n) KcDomainChecks = Inr ''d''"
proof -
  have "p \<in> set (take n KC_ALL)" if "kc_ordinal p \<le> n" for p
    using that by (cases p) (auto simp: KC_ALL_def take_Cons' split: if_splits)
  then have "bound_output (retract_run n) p = Some (phase_row p)" if "kc_ordinal p \<le> n" for p
    using that assms by (simp add: retract_bound)
  then show "5 \<le> n \<Longrightarrow> loaded_changeset (retract_run n) = Inr retract_changeset"
    "4 \<le> n \<Longrightarrow> loaded_evidence (retract_run n) =
      Inr \<lparr>kem_claims = [], kem_source_pins = [], kem_source_pin_digest = ''d'', kem_unresolved_gaps = []\<rparr>"
    "6 \<le> n \<Longrightarrow> loaded_checks (retract_run n) = Inr retract_receipts"
    "7 \<le> n \<Longrightarrow> loaded_impact (retract_run n) = Inr retract_impact"
    "8 \<le> n \<Longrightarrow> loaded_review (retract_run n) = Inr retract_review"
    "6 \<le> n \<Longrightarrow> phase_digest (retract_run n) KcDomainChecks = Inr ''d''"
    by (simp_all add: load_phase_data_def phase_digest_def phase_row_def)
qed

lemma retract_changeset_accepted:
  assumes "g \<in> {[], ''d''}"
  shows "changeset_validate example_document_env resolved (retract_changeset\<lparr>kcs_digest := g\<rparr>) = Inr ()"
proof -
  have "pins_ok resolved retract_operation"
    by (simp add: pins_ok_def retract_operation_def operation_bindings_def slice_phase_indexes_def)
  then have "operation_validate example_document_env resolved retract_operation = Inr ()"
    by (simp add: operation_validate_Inr operation_shape_def targets_accepted_def) (simp add: retract_operation_def graphic_text
        is_ascii_graphic_def byte_def targets_accepted_def)
  then show ?thesis using assms
    by (auto simp: changeset_validate_Inr retract_changeset_def DK2_MAX_OPERATIONS_def DK2_MAX_SOURCE_BYTES_def graphic_text
        is_ascii_graphic_def byte_def successor_operation_def Let_def) (simp_all add: retract_operation_def)
qed

lemma retract_prepare_step:
  "phase_data_step (retract_env i) (retract_world 4) True (retract_data KcPrepareChange) =
    Inr (retract_data KcPrepareChange, no_updates\<lparr>kpu_baseline := None, kpu_plan := None\<rparr>, kwd_rows (retract_world 5))"
proof -
  have same: "retract_operation\<lparr>kpn_dependency_operation_ids := []\<rparr> = retract_operation" "retract_changeset\<lparr>kcs_operations := [retract_operation]\<rparr> = retract_changeset"
      "retract_changeset\<lparr>kcs_digest := ''d''\<rparr> = retract_changeset"
    by (simp_all add: retract_operation_def retract_changeset_def)
  have op: "kcs_operations retract_changeset = [retract_operation]" "successor_operation retract_operation = None"
      "kpn_dependency_operation_ids retract_operation = []" "operation_source_refs retract_operation = []"
      "kcs_evidence_digest retract_changeset = ''d''" "kpn_operation_id retract_operation = 7"
    by (simp_all add: retract_changeset_def retract_operation_def successor_operation_def operation_source_refs_def)
  have row: "qualified_operation [retract_operation] qualified_retract_row = Inr qualified_retract_row"
    by (simp add: qualified_operation_def matches_row_def qualified_retract_row_def retract_row_def retract_operation_def with_successor_def
        successor_operation_def)
  have "prepare_changeset (retract_env i) (retract_world 4)
      \<lparr>kcy_outcome = ''o'', kcy_hints = [retract_hint], kcy_completion = retract_completion, kcy_sources = [], kcy_pins = []\<rparr>
      retract_changeset = Inr (retract_changeset, [qualified_retract_row])"
    using retract_changeset_accepted [of "''d''" True]
    by (simp add: prepare_changeset_def op with_successor_def same retract_loaded reviewed_sources_check_def checks_steps row Let_def)
      (simp add: example_branch_plan_def same)
  then show ?thesis by (simp add: payload_of_def retract_change_def no_updates_def)
qed

lemma retract_checks_step:
  "phase_data_step (retract_env i) (retract_world 5) True (retract_data KcDomainChecks) =
    Inr (retract_data KcDomainChecks, no_updates\<lparr>kpu_baseline := None, kpu_plan := None\<rparr>, kwd_rows (retract_world 6))"
  by (simp add: domain_checks_def retract_loaded validate_receipts_def retract_receipts_def example_branch_plan_def branch_key_def branch_of_def
      obligation_receipt_key_def obligation_receipt_check_def example_obligation_def example_profile_def retract_changeset_def
      read_of_def ref_key_def example_ref_def map_filter_simps no_updates_def checks_steps refuse_if_def Let_def)

lemma retract_impact_is:
  "current_impact (retract_env i) w = retract_impact" if "kwd_units w = retract_store" "kwd_rows w = [qualified_retract_row]"
  using that by (simp add: current_impact_def retract_impact_def retract_store_def empty_store_def qualified_retract_row_def retract_row_def
      example_store_env_def impact_at_def Let_def)

lemma retract_impact_step:
  "phase_data_step (retract_env i) (retract_world 6) True (retract_data KcImpactPlan) =
    Inr (retract_data KcImpactPlan, no_updates\<lparr>kpu_baseline := None, kpu_plan := None\<rparr>, kwd_rows (retract_world 7))"
proof -
  have "reconcile_impact (retract_env i) (retract_world 6) retract_impact = Inr retract_impact"
    by (simp add: reconcile_impact_def retract_impact_is machine_impact_matches_def) (simp add: retract_impact_def)
  then show ?thesis by (simp add: no_updates_def) (simp add: retract_impact_def)
qed

lemma retract_review_step:
  "phase_data_step (retract_env i) (retract_world 7) True (retract_data KcReviewReconcile) =
    Inr (retract_data KcReviewReconcile, no_updates\<lparr>kpu_baseline := None, kpu_plan := None\<rparr>, kwd_rows (retract_world 8))"
proof -
  have "finding_states (retract_run 7) = Inr []"
    by (simp add: finding_states_def KC_ALL_def phase_row_def map_filter_simps)
  then have "require_prior_findings (retract_run 7) retract_review = Inr ()"
    by (simp add: require_prior_findings_def retract_review_def checks_steps)
  then have "review_check (retract_env i) (retract_world 7) retract_review = Inr ()"
    by (simp add: review_check_def retract_loaded review_covers_def Let_def) (simp add: retract_review_def example_branch_plan_def
        branch_of_def example_obligation_def retract_changeset_def retract_impact_def)
  then show ?thesis by (simp add: no_updates_def)
qed

lemma retract_phases:
  "n < 8 \<Longrightarrow> complete_change_phase (retract_env (of_nat (Suc n))) (retract_request (KC_ALL ! n) (int (Suc n))) (retract_world n) =
    Inr (retract_world (Suc n))"
proof -
  assume n: "n < 8"
  then have "n \<in> {0, 1, 2, 3, 4, 5, 6, 7}" by auto
  then show ?thesis
  proof (elim insertE emptyE)
    assume "n = 0" with n show ?thesis
      using retract_step [where n = 0 and p = KcIntake and b = None and q = None] retract_intake_step by (simp add: keep_new_simps KC_ALL_def)
  next
    assume "n = 1" with n show ?thesis
      using retract_step [where n = 1 and p = KcResolveBaseline and b = "Some retract_baseline" and q = None] retract_baseline_step by (simp add: keep_new_simps KC_ALL_def)
  next
    assume "n = 2" with n show ?thesis
      using retract_step [where n = 2 and p = KcQualifyPlan and b = None and q = "Some example_branch_plan"] retract_plan_step by (simp add: keep_new_simps KC_ALL_def)
  next
    assume "n = 3" with n show ?thesis
      using retract_step [where n = 3 and p = KcQualifyEvidence and b = None and q = None] retract_evidence_step by (simp add: keep_new_simps KC_ALL_def)
  next
    assume "n = 4" with n show ?thesis
      using retract_step [where n = 4 and p = KcPrepareChange and b = None and q = None] retract_prepare_step by (simp add: keep_new_simps KC_ALL_def)
  next
    assume "n = 5" with n show ?thesis
      using retract_step [where n = 5 and p = KcDomainChecks and b = None and q = None] retract_checks_step by (simp add: keep_new_simps KC_ALL_def)
  next
    assume "n = 6" with n show ?thesis
      using retract_step [where n = 6 and p = KcImpactPlan and b = None and q = None] retract_impact_step by (simp add: keep_new_simps KC_ALL_def)
  next
    assume "n = 7" with n show ?thesis
      using retract_step [where n = 7 and p = KcReviewReconcile and b = None and q = None] retract_review_step by (simp add: keep_new_simps KC_ALL_def)
  qed
qed


section \<open>The requests are accepted\<close>

definition retract_change_env :: change_env where
  "retract_change_env = \<lparr>cz_document = example_document_env, cz_json_length = (\<lambda>_. Some 0)\<rparr>"

lemma graphic_texts: "bounded_nonblank (CHR ''d'' # s) n" "bounded_nonblank (CHR ''s'' # s) n" 
  if "list_all (\<lambda>c. c \<noteq> CHR 0x00) s" "length s < n"
  using that by (simp_all add: graphic_text is_ascii_graphic_def byte_def)

lemma retract_data_accepted:
  assumes "p \<notin> {KcPublicationGate, KcCommit, KcSettleEffects}"
  shows "data_ok example_document_env True (retract_data p)"
  using assms retract_changeset_accepted [of "''d''" True]
  by (cases p) (simp_all add: is_ok_def retract_baseline_def retract_guard_def retract_receipts_def retract_impact_def retract_review_def
      retract_result_def settled_effects_def impact_at_def baseline_ok_def evidence_manifest_ok_def receipts_ok_def impact_plan_ok_def impact_ok_def
      review_ok_def texts_def qualification_validate_def example_qualification_def graphic_text is_ascii_graphic_def byte_def
      DK2_MAX_SOURCE_BYTES_def DK2_MAX_OPERATIONS_def DK2_MAX_LIST_ITEMS_def MAX_IMPACT_ITEMS_def MAX_OBLIGATION_RECEIPTS_def
      read_of_def  Let_def retract_changeset_def)

lemma retract_output_within:
  assumes "p \<notin> {KcPublicationGate, KcCommit, KcSettleEffects}"
  shows "output_within (retract_output p n)"
  using assms
  by (cases p) (simp_all add: output_within_def retract_output_def KC_ALL_def texts_def graphic_text is_ascii_graphic_def byte_def
      DK2_MAX_OPERATIONS_def DK2_MAX_LIST_ITEMS_def read_of_def)

lemma retract_request_accepted:
  assumes "p \<notin> {KcCommit, KcSettleEffects}" "1 \<le> n"
  shows "kc_complete_validate retract_change_env True (retract_request p n) = Inr ()"
proof (cases "p = KcPublicationGate")
  case True
  then show ?thesis using assms by (simp add: kc_complete_validate_def retract_request_def  each_opt_def)
next
  case False
  then have p: "p \<notin> {KcPublicationGate, KcCommit, KcSettleEffects}" using assms by simp
  then have "kc_agent_authored p" "kao_method_reads (retract_output p n) \<noteq> []" "data_phase (retract_data p) = p"
    by (cases p; simp add: retract_output_def)+
  then have "output_matches (retract_request p n) (retract_output p n)"
    by (simp add: output_matches_def retract_output_def graphic_text is_ascii_graphic_def byte_def DK2_MAX_SOURCE_BYTES_def)
  moreover have "output_validate retract_change_env True (retract_output p n) = Inr ()"
    using retract_data_accepted [OF p] retract_output_within [OF p, of n]
    by (simp add: output_validate_def retract_change_env_def refuse_if_def)
  ultimately show ?thesis
    using assms \<open>kc_agent_authored p\<close> by (simp add: kc_complete_validate_def retract_request_def  each_opt_def)
qed

lemma retract_reachable: "n \<le> 8 \<Longrightarrow> change_reachable (retract_world n)"
proof (induction n)
  case 0
  show ?case by (rule begun [OF retract_begun example_definition_orderly])
next
  case (Suc n)
  have "KC_ALL ! n \<notin> {KcCommit, KcSettleEffects}"
    using Suc.prems by (cases "n \<in> {0, 1, 2, 3, 4, 5, 6, 7}") (auto simp: KC_ALL_def)
  moreover have "kn_fresh (retract_env (of_nat (Suc n))) \<notin> kou_id ` set (kr_outputs (kwd_run (retract_world n)))"
  proof -
    have "n \<in> {0, 1, 2, 3, 4, 5, 6, 7}" using Suc.prems by auto
    then show ?thesis by (elim insertE emptyE) (simp_all add: KC_ALL_def phase_row_def)
  qed
  ultimately have "change_step (retract_world n) (retract_world (Suc n))"
    using Suc.prems by (intro phase_step [OF retract_phases retract_request_accepted]) auto
  then show ?case using Suc by (simp add: moved)
qed


section \<open>The gate, the publication and the settlement\<close>

definition retract_seal :: ready_to_commit where
  "retract_seal = \<lparr>krc_seal_id = 9, krc_plan_revision = 1, krc_plan_digest = ''digest'', krc_changeset_digest = ''d'',
     krc_run_revision = 10, krc_workspace_generation = 1, krc_operation_ids = [7], krc_command_digest = ''d''\<rparr>"

definition sealed_run :: change_run where
  "sealed_run = (retract_run 8)\<lparr>kr_revision := 10, kr_current := Some KcCommit, kr_ready := Some retract_seal,
     kr_attempts := map phase_attempt (take 9 KC_ALL)\<rparr>"

definition sealed_world :: change_world where
  "sealed_world = (retract_world 8)\<lparr>kwd_run := sealed_run\<rparr>"

definition retract_commit :: kc_commit where
  "retract_commit = \<lparr>km_request_id = 62, km_change_id = 50, km_run_id = 51, km_run_revision = 10, km_seal_id = 9,
     km_plan_revision = 1, km_plan_digest = ''digest'', km_sealed_command_digest = ''d''\<rparr>"

definition retract_applied :: applied_receipt where
  "retract_applied = \<lparr>kap_operation_id = 7, kap_unit_id = 1, kap_operation = OpRetract, kap_revision = Some 1,
     kap_event_id = 1007, kap_unit_iri = unit_iri example_store_env 1, kap_revision_iri = None,
     kap_event_iri = event_iri example_store_env 1007, kap_rdf_digest = ''d'',
     kap_rdf_digest_method = ''rdfc-1.0-sha256'', kap_rdf_digest_scope = LifecycleEventPayload\<rparr>"

definition retracted_store :: unit_store where
  "retracted_store = retract_store\<lparr>ku_generation := 2, ku_heads := [(example_head 1 ''a'')\<lparr>kh_active := False,
       kh_lifecycle := LifeRetracted, kh_last_event := 1007\<rparr>],
     ku_events := [\<lparr>kev_id = 1007, kev_unit = 1, kev_revision = 1, kev_operation = OpRetract, kev_rdf_digest = Some ''d'',
       kev_input = Some \<lparr>kpb_change = 50, kpb_event = 1007, kpb_revision = 1, kpb_planned = retract_operation,
         kpb_principal = 51, kpb_session = 52, kpb_sources = [], kpb_successor = None\<rparr>\<rparr>]\<rparr>"

definition effects_then :: "effect_receipt list" where
  "effects_then = map (\<lambda>k. retract_effect k
      (if k \<in> {EffectSearch, EffectOwnedCopyPurge, EffectBackupDisposition} then StatusNotApplicable else StatusReady)
      (if k = EffectSearch then ''search completion was not required'' else ''backend recorded canonical effect'')) EFFECT_KINDS"

definition retract_receipt :: publisher_receipt where
  "retract_receipt = \<lparr>kpr_id = 20, kpr_request_id = 62, kpr_change_id = 50, kpr_run_id = 51, kpr_sealed_command_digest = ''d'',
     kpr_workspace_generation = 2, kpr_applied_operations = [retract_applied], kpr_effects = effects_then, kpr_digest = ''d''\<rparr>"

definition published_world :: change_world where
  "published_world = (retract_world 8)\<lparr>kwd_units := retracted_store, kwd_run := published_run retract_receipt sealed_run\<rparr>"

lemma retract_sealed:
  "complete_change_phase (retract_env 9) (retract_request KcPublicationGate 9) (retract_world 8) = Inr sealed_world"
proof -
  have here: "KC_ALL ! 8 = KcPublicationGate" by (simp add: KC_ALL_def)
  have "next_kc_phase example_kc_definition KcPublicationGate = Some KcCommit" using phases_next [of 8] by (simp add: KC_ALL_def)
  moreover have "attempt_number (retract_run 8) KcPublicationGate = 1" by (simp add: attempt_number_def KC_ALL_def phase_attempt_def)
  moreover have "take 9 KC_ALL = take 8 KC_ALL @ [KcPublicationGate]" by (simp add: KC_ALL_def)
  moreover have "seal_gate (retract_env 9) (retract_world 8) = Inr retract_seal"
    by (simp add: seal_gate_def payload_of_def retract_change_def retract_completion_def retract_loaded Let_def)
      (simp add: retract_seal_def retract_receipts_def retract_impact_def retract_review_def retract_baseline_def retract_store_def
        example_branch_plan_def retract_changeset_def)
  ultimately show ?thesis
    by (simp add: complete_change_phase_def phase_guard_def found_run_def retract_change_def is_live_def is_published_def here
        phase_submission_def retract_request_def phase_revisit_def after_attempt_def phase_outcome_of_def review_recorded_def
        promoted_def receipt_erased_units_def advance_run_def record_change_attempt_def attempt_of_def no_updates_def keep_new_simps
        Let_def)
      (simp add: sealed_world_def sealed_run_def phase_attempt_def retract_run_def begun_run_def)
qed

lemma retract_committed_units:
  "commit_units example_store_env example_context (\<lambda>_. 0) (\<lambda>_. 0) [retract_operation] retract_store =
    Inr (retracted_store, [retract_applied])"
  by (simp add: commit_units_def apply_changeset_def topo_def topo_loop.simps depends_within_def retract_operation_def
      apply_operation_def lock_head_def suppressed_def retract_store_def empty_store_def head_of_def example_head_def successor_def
      resolved_sources_def example_store_env_def example_context_def apply_retraction_def set_head_def set_bindings_def
      retracted_store_def retract_applied_def checked_add_i64_def in_i64_def i64_min_def i64_max_def unit_iri_def event_iri_def Let_def)


lemma sealed_run_simps [simp]:
  "kr_revision sealed_run = 10" "kr_status sealed_run = RunActive" "kr_current sealed_run = Some KcCommit"
  "kr_ready sealed_run = Some retract_seal" "kr_plan sealed_run = Some example_branch_plan" "kr_baseline sealed_run = Some retract_baseline"
  "kr_review sealed_run = Some ReviewReady" "kr_definition sealed_run = example_kc_definition" "kr_erased sealed_run = False"
  "kr_receipt sealed_run = None" "kr_erased_receipt sealed_run = None" "kr_result sealed_run = None" "kr_erased_result sealed_run = None"
  "bound_output sealed_run = bound_output (retract_run 8)" "kr_outputs sealed_run = kr_outputs (retract_run 8)"
  by (simp_all add: sealed_run_def bound_output_def fun_eq_iff)

lemma sealed_world_simps [simp]:
  "kwd_units sealed_world = retract_store" "kwd_change sealed_world = retract_change" "kwd_rows sealed_world = [qualified_retract_row]"
  "kwd_run sealed_world = sealed_run"
  by (simp_all add: sealed_world_def)

lemma sealed_loaded:
  "loaded_changeset sealed_run = Inr retract_changeset"
  "loaded_evidence sealed_run = Inr \<lparr>kem_claims = [], kem_source_pins = [], kem_source_pin_digest = ''d'', kem_unresolved_gaps = []\<rparr>"
  "loaded_checks sealed_run = Inr retract_receipts" "loaded_impact sealed_run = Inr retract_impact"
  "loaded_review sealed_run = Inr retract_review" "phase_digest sealed_run KcDomainChecks = Inr ''d''"
  using retract_loaded [of 8] by (simp_all add: load_phase_data_def phase_digest_def)

lemma retract_published: "commit_change (retract_env 20) retract_commit sealed_world = Inr published_world"
proof -
  have gate: "commit_gate sealed_world retract_commit = Inr retract_seal"
    by (simp add: commit_gate_def found_run_def retract_change_def retract_commit_def retract_seal_def retract_store_def)
  have pins: "current_pin_digest (retract_env 20) retract_change = Inr ''d''"
    by (simp add: current_pin_digest_def payload_of_def retract_change_def)
  have sealed: "sealed_for retract_seal 10 1 example_branch_plan retract_changeset retract_baseline"
    by (simp add: sealed_for_def retract_seal_def example_branch_plan_def retract_changeset_def retract_operation_def retract_baseline_def)
  have impact: "machine_impact_matches (current_impact (retract_env 20) sealed_world) retract_impact"
    by (simp add: retract_impact_is) (simp add: machine_impact_matches_def)
  have verified: "verify_commit (retract_env 20) sealed_world retract_seal = Inr retract_changeset"
    using pins sealed impact
    by (simp add: verify_commit_def sealed_loaded nothing_open_def retract_store_def Let_def)
      (simp add: retract_receipts_def retract_impact_def retract_review_def each_def retract_baseline_def retract_seal_def)
  have effects: "effects_at_commit (retract_env 20) retract_completion [qualified_retract_row] retracted_store True [retract_applied] = effects_then"
    by (simp add: effects_at_commit_def EFFECT_KINDS_def effects_then_def retract_effect_def retract_applied_def qualified_retract_row_def
        retract_row_def retraction_open_def retracted_store_def retract_store_def empty_store_def head_of_def example_head_def
        retract_completion_def ready_if_def Let_def)
  have "publication_receipt (retract_env 20) retract_commit 2 [retract_applied] effects_then = retract_receipt"
    by (simp add: publication_receipt_def retract_commit_def retract_receipt_def)
  moreover have "native_matches (retract_env 20) retract_applied = Inr True"
    by (simp add: native_matches_def retract_applied_def)
  moreover have "filter (\<lambda>a. kap_operation a = OpErase) [retract_applied] = []" by (simp add: retract_applied_def)
  moreover have "kcs_operations retract_changeset = [retract_operation]" "ku_generation retracted_store = 2"
    by (simp_all add: retract_changeset_def retracted_store_def)
  moreover have "payload_of retract_change = Inr \<lparr>kcy_outcome = ''o'', kcy_hints = [retract_hint],
      kcy_completion = retract_completion, kcy_sources = [], kcy_pins = []\<rparr>" by (simp add: payload_of_def retract_change_def)
  moreover have "kcr_erasure retract_completion = ErasureNotRequired" by (simp add: retract_completion_def)
  ultimately show ?thesis
    using gate verified effects retract_committed_units
    by (simp add: commit_change_def Let_def) (simp add: published_world_def sealed_world_def)
qed


definition retract_settle :: kc_settle where
  "retract_settle = \<lparr>kt_request_id = 63, kt_change_id = 50, kt_run_id = 51, kt_run_revision = 11, kt_publisher_receipt_id = 20,
     kt_effect_ids = []\<rparr>"

definition retract_report :: effects_report where
  "retract_report = \<lparr>kef_publisher_receipt_id = 20, kef_effects = settled_effects, kef_required_complete = True, kef_remaining_work = []\<rparr>"

definition settled_change :: change_run where
  "settled_change = (published_run retract_receipt sealed_run)\<lparr>kr_revision := 12, kr_current := Some KcResultHandoff,
     kr_effects := Some retract_report, kr_erased_effects := None,
     kr_effect_rows := map (\<lambda>i. settled_effects ! i) [1, 2, 3, 4, 5, 0, 6]\<rparr>"

definition settled_world :: change_world where
  "settled_world = published_world\<lparr>kwd_run := settled_change\<rparr>"

definition handed_world :: change_world where
  "handed_world = settled_world\<lparr>kwd_run := settled_change\<lparr>kr_revision := 13, kr_status := RunCompleted, kr_current := None,
     kr_outputs := kr_outputs sealed_run @ [\<lparr>kou_id = 21, kou_phase = KcResultHandoff, kou_revision = 1,
       kou_content = Some (''d'', retract_output KcResultHandoff 12)\<rparr>],
     kr_bindings := kr_bindings sealed_run @ [\<lparr>kob_phase = KcResultHandoff, kob_output = 21, kob_revision = 1, kob_stale = False\<rparr>],
     kr_attempts := kr_attempts sealed_run @ [\<lparr>kat_phase = KcResultHandoff, kat_attempt = 1, kat_outcome = PhaseCompleted,
       kat_transition = Complete, kat_output = Some 21\<rparr>], kr_result := Some retract_result\<rparr>\<rparr>"

lemma effects_then_is:
  "effects_then = [retract_effect EffectExactDelivery StatusReady ''backend recorded canonical effect'',
     retract_effect EffectInvalidation StatusReady ''backend recorded canonical effect'',
     retract_effect EffectImpact StatusReady ''backend recorded canonical effect'',
     retract_effect EffectSearch StatusNotApplicable ''search completion was not required'',
     retract_effect EffectVisibilityClosure StatusReady ''backend recorded canonical effect'',
     retract_effect EffectOwnedCopyPurge StatusNotApplicable ''backend recorded canonical effect'',
     retract_effect EffectBackupDisposition StatusNotApplicable ''backend recorded canonical effect'']"
  by (simp add: effects_then_def EFFECT_KINDS_def)

lemma retract_effect_simps [simp]:
  "ker_effect_id (retract_effect k s d) = of_nat (effect_rank k) + 70" "ker_kind (retract_effect k s d) = k"
  "ker_status (retract_effect k s d) = s" "ker_generation (retract_effect k s d) = 2"
  "(retract_effect k s d)\<lparr>ker_status := s', ker_detail := d'\<rparr> = retract_effect k s' d'"
  by (simp_all add: retract_effect_def)

lemma two_shown: "show_int 2 = ''2''"
  by code_simp

lemma retract_visible: "visibility_closed z retracted_store retract_receipt"
  by (simp add: visibility_closed_def retract_receipt_def retract_applied_def retracted_def retracted_store_def retract_store_def
      empty_store_def example_head_def unit_bound_def Let_def)

definition world_with :: "effect_receipt list \<Rightarrow> change_world" where
  "world_with es = published_world\<lparr>kwd_run := (published_run retract_receipt sealed_run)\<lparr>kr_effect_rows := es\<rparr>\<rparr>"

lemma retract_refresh:
  "refresh_effect (retract_env 20) retract_completion (ReceiptIntact retract_receipt) (retract_effect k s d) (world_with es) =
    Inr (world_with (map (\<lambda>x. if ker_effect_id x = of_nat (effect_rank k) + 70 then settled_effects ! effect_rank k else x) es),
      settled_effects ! effect_rank k)"
proof -
  have facts: "kpr_applied_operations retract_receipt = [retract_applied]" "kpr_workspace_generation retract_receipt = 2"
      "kap_operation retract_applied = OpRetract" "kap_unit_id retract_applied = 1" "erase_targets retract_receipt = []"
      "kwd_units (world_with es) = retracted_store" "kwd_units published_world = retracted_store" "ku_generation retracted_store = 2"
      "kwd_run (world_with es) = (published_run retract_receipt sealed_run)\<lparr>kr_effect_rows := es\<rparr>"
    by (simp_all add: retract_receipt_def retract_applied_def erase_targets_def published_world_def retracted_store_def
        published_run_def world_with_def)
  show ?thesis
    by (cases k) (simp_all add: refresh_intact_def settled_effect_def facts retract_completion_def invalidated_def ready_if_def two_shown
        retract_visible settled_effects_def world_with_def Let_def)
qed

lemma retract_refresh_all:
  "list_all (\<lambda>e. \<exists>s d. e = retract_effect (ker_kind e) s d) es' \<Longrightarrow>
    refresh_effects (retract_env 20) retract_completion (ReceiptIntact retract_receipt) es' (world_with es) =
    Inr (world_with (fold (\<lambda>e. map (\<lambda>x. if ker_effect_id x = of_nat (effect_rank (ker_kind e)) + 70
        then settled_effects ! effect_rank (ker_kind e) else x)) es' es),
      map (\<lambda>e. settled_effects ! effect_rank (ker_kind e)) es')"
proof (induction es' arbitrary: es)
  case (Cons e es')
  then obtain s d where "e = retract_effect (ker_kind e) s d" by auto
  then have "refresh_effect (retract_env 20) retract_completion (ReceiptIntact retract_receipt) e (world_with es) =
      Inr (world_with (map (\<lambda>x. if ker_effect_id x = of_nat (effect_rank (ker_kind e)) + 70
          then settled_effects ! effect_rank (ker_kind e) else x) es), settled_effects ! effect_rank (ker_kind e))"
    using retract_refresh [of "ker_kind e" s d es] by simp
  then show ?case using Cons by (simp del: refresh_effect.simps)
qed simp

lemma effects_sorted:
  "sort_key (effect_rank \<circ> ker_kind) (sort_key ker_effect_id effects_then) =
    [retract_effect EffectOwnedCopyPurge StatusNotApplicable ''backend recorded canonical effect'',
     retract_effect EffectExactDelivery StatusReady ''backend recorded canonical effect'',
     retract_effect EffectInvalidation StatusReady ''backend recorded canonical effect'',
     retract_effect EffectImpact StatusReady ''backend recorded canonical effect'',
     retract_effect EffectSearch StatusNotApplicable ''search completion was not required'',
     retract_effect EffectVisibilityClosure StatusReady ''backend recorded canonical effect'',
     retract_effect EffectBackupDisposition StatusNotApplicable ''backend recorded canonical effect'']"
  by (simp add: effects_then_is)

lemma retract_refreshed:
  "refresh_effects (retract_env 20) retract_completion (ReceiptIntact retract_receipt)
     (sort_key (effect_rank \<circ> ker_kind) (sort_key ker_effect_id effects_then)) published_world =
   Inr (world_with (map (\<lambda>i. settled_effects ! i) [1, 2, 3, 4, 5, 0, 6]), settled_effects)"
proof -
  have "published_world = world_with effects_then"
    by (simp add: world_with_def published_world_def published_run_def retract_receipt_def)
  moreover have "list_all (\<lambda>e. \<exists>s d. e = retract_effect (ker_kind e) s d)
      (sort_key (effect_rank \<circ> ker_kind) (sort_key ker_effect_id effects_then))"
    unfolding effects_sorted by (simp add: retract_effect_def)
  ultimately show ?thesis
    using retract_refresh_all [of "sort_key (effect_rank \<circ> ker_kind) (sort_key ker_effect_id effects_then)" effects_then]
    by (simp add: effects_sorted) (simp add: effects_then_is settled_effects_def)
qed

lemma retract_settled: "settle_effects (retract_env 20) retract_settle published_world = Inr settled_world"
proof -
  have rows: "kr_effect_rows (kwd_run published_world) = effects_then" and change: "kwd_change published_world = retract_change"
    by (simp_all add: published_world_def published_run_def retract_receipt_def)
  have gate: "settle_gate published_world retract_settle = Inr (ReceiptIntact retract_receipt)"
    by (simp add: settle_gate_def found_run_def change retract_settle_def published_world_def published_run_def receipt_state_of_def
        retract_change_def) (simp add: retract_receipt_def)
  have kind: "receipt_completion published_world (ReceiptIntact retract_receipt) = Inr retract_completion"
    by (simp add: change payload_of_def retract_change_def)
  have exact: "exact_effect_set (ReceiptIntact retract_receipt) effects_then"
    by (simp add: exact_effect_set_def effects_then_is EFFECT_KINDS_def) (simp add: retract_receipt_def effects_then_is insert_commute)
  have complete: "required_complete retract_completion settled_effects"
    by (simp add: required_complete_def retract_completion_def settled_effects_def effect_done_def)
  have pending: "pending_work settled_effects = []" by (simp add: pending_work_def settled_effects_def)
  have there: "receipt_id (ReceiptIntact retract_receipt) = 20" "kt_effect_ids retract_settle = []"
    by (simp_all add: retract_receipt_def retract_settle_def)
  let ?w = "world_with (map (\<lambda>i. settled_effects ! i) [1, 2, 3, 4, 5, 0, 6])"
  have "settled_run (ReceiptIntact retract_receipt) retract_report KcResultHandoff (kwd_run ?w) = Inr settled_change"
    by (simp add: published_run_def settled_change_def world_with_def)
  moreover have "?w\<lparr>kwd_run := settled_change\<rparr> = settled_world" by (simp add: settled_world_def world_with_def)
  ultimately have run: "andThen (settled_run (ReceiptIntact retract_receipt) retract_report KcResultHandoff (kwd_run ?w))
      (\<lambda>r. Inr (?w\<lparr>kwd_run := r\<rparr>)) = Inr settled_world" by (simp only: andThen_simps)
  show ?thesis
    unfolding settle_effects_def Let_def gate kind andThen_simps rows there
    using exact complete run
    by (simp only: retract_refreshed andThen_simps prod.case pending list.set(1) empty_subsetI simp_thms if_False if_True
        retract_report_def [symmetric])
qed

lemma handoff_data_step:
  "phase_data_step (retract_env 21) settled_world False (retract_data KcResultHandoff) =
    Inr (retract_data KcResultHandoff, no_updates\<lparr>kpu_result := Some retract_result\<rparr>, [qualified_retract_row])"
proof -
  have "kr_erased_effects sealed_run = None" by (simp add: sealed_run_def)
  then show ?thesis
    by (simp add: result_check_def settled_world_def settled_change_def published_run_def published_world_def publication_id_def
        load_effects_report_def retract_report_def)
      (simp add: retract_result_def retract_receipt_def no_updates_def refuse_if_def)
qed


lemma settled_change_simps [simp]:
  "kr_revision settled_change = 12" "kr_status settled_change = RunActive" "kr_current settled_change = Some KcResultHandoff"
  "kr_plan settled_change = Some example_branch_plan" "kr_baseline settled_change = Some retract_baseline"
  "kr_review settled_change = Some ReviewReady" "kr_definition settled_change = example_kc_definition"
  "kr_erased settled_change = False" "kr_inputs settled_change = []" "kr_receipt settled_change = Some retract_receipt"
  "kr_erased_receipt settled_change = None" "kr_mode settled_change = Phasewise" "kr_ready settled_change = Some retract_seal"
  "kr_result settled_change = None" "kr_erased_result settled_change = None"
  "kr_outputs settled_change = kr_outputs sealed_run" "kr_bindings settled_change = kr_bindings sealed_run"
  "kr_attempts settled_change = kr_attempts sealed_run" "bound_output settled_change = bound_output (retract_run 8)"
  by (simp_all add: settled_change_def published_run_def bound_output_def sealed_run_def fun_eq_iff)

lemma settled_world_simps [simp]:
  "kwd_change settled_world = retract_change" "kwd_rows settled_world = [qualified_retract_row]" "kwd_run settled_world = settled_change"
  by (simp_all add: settled_world_def published_world_def)

lemma handoff_envelope: "verify_envelope (retract_env 21) settled_change KcResultHandoff (retract_output KcResultHandoff 12) = Inr ()"
proof -
  have "outputs_to_consume settled_change KcResultHandoff = outputs_to_consume (retract_run 8) KcResultHandoff"
    unfolding outputs_to_consume_def settled_change_simps sealed_run_simps by (simp add: sealed_run_def)
  moreover have "plan_methods settled_change KcResultHandoff = plan_methods (retract_run 8) KcResultHandoff"
    by (simp add: plan_methods_def)
  moreover have "KcQualifyEvidence \<in> set (take 8 KC_ALL)" by (simp add: KC_ALL_def)
  ultimately show ?thesis
    by (simp add: verify_envelope_def plan_named_def inputs_to_consume_def expected_guards_def map_filter_simps example_consumed
        example_phase_found example_own_methods example_plan_methods retract_bound phase_row_def)
      (simp add: retract_output_def example_branch_plan_def retract_baseline_def read_of_def)
qed

lemma retract_handed: "complete_change_phase (retract_env 21) (retract_request KcResultHandoff 12) settled_world = Inr handed_world"
proof -
  have numbers: "next_revision settled_change KcResultHandoff = 1" "attempt_number sealed_run KcResultHandoff = 1"
    by (simp_all add: next_revision_def attempt_number_def KC_ALL_def phase_row_def phase_attempt_def sealed_run_def)
  have unbound: "filter (\<lambda>b. kob_phase b \<noteq> KcResultHandoff) (kr_bindings sealed_run) = kr_bindings sealed_run"
    by (simp add: KC_ALL_def phase_binding_def sealed_run_def)
  have here: "settled_world\<lparr>kwd_run := settled_change\<rparr> = settled_world" by (simp add: settled_world_def)
  have submitted: "submit_output (retract_env 21) settled_world KcResultHandoff (retract_output KcResultHandoff 12) = Inr
      (settled_world\<lparr>kwd_rows := [qualified_retract_row],
        kwd_run := bind_output KcResultHandoff 21 1 (''d'', retract_output KcResultHandoff 12) settled_change\<rparr>,
       no_updates\<lparr>kpu_result := Some retract_result\<rparr>)"
    using handoff_data_step handoff_envelope numbers
    by (simp add: submit_output_def here retract_same(2) [of KcResultHandoff, unfolded retract_data.simps] Let_def)
  have "attempt_number (bind_output KcResultHandoff 21 1 c settled_change) KcResultHandoff = 1" for c
    using numbers(2) by (simp add: attempt_number_def bind_output_def)
  then show ?thesis
    using submitted
    by (simp add: complete_change_phase_def phase_guard_def found_run_def retract_change_def is_live_def is_published_def
        phase_submission_def phase_revisit_def requested_revisit_def after_attempt_def phase_outcome_of_def review_recorded_def
        promoted_def receipt_erased_units_def advance_run_def record_change_attempt_def attempt_of_def no_updates_def keep_new_simps
        bind_output_def unbound Let_def)
      (simp add: handed_world_def)
qed

section \<open>Its history\<close>

lemma sealed_reachable: "change_reachable sealed_world"
proof -
  have "kn_fresh (retract_env 9) \<notin> kou_id ` set (kr_outputs (kwd_run (retract_world 8)))" by (simp add: KC_ALL_def phase_row_def)
  then have "change_step (retract_world 8) sealed_world"
    by (rule phase_step [OF retract_sealed retract_request_accepted, rotated 2]) simp_all
  then show ?thesis using retract_reachable [of 8] by (auto intro: moved)
qed

lemma handed_history: "change_history published_world handed_world"
proof -
  have "change_step published_world settled_world" by (rule settle_step [OF retract_settled])
  moreover have "kn_fresh (retract_env 21) \<notin> kou_id ` set (kr_outputs (kwd_run settled_world))"
    by (simp add: KC_ALL_def phase_row_def)
  then have "change_step settled_world handed_world"
    by (rule phase_step [OF retract_handed retract_request_accepted, rotated 2]) simp_all
  ultimately show ?thesis by (meson change_history.intros)
qed

lemma published_reachable: "change_reachable published_world"
  by (rule moved [OF sealed_reachable commit_step [OF retract_published]])

lemma handed_reachable: "change_reachable handed_world"
  by (rule history_reachable [OF handed_history published_reachable])

end
