(* ===== verification/KnowledgeSafety.thy ===== *)
theory KnowledgeSafety
  imports KnowledgeExample
begin

text \<open>
  What the histories of a knowledge change guarantee: its run holds exactly the outputs of the phases behind it,
  what it publishes was checked and reviewed as it is, it publishes once, and its result says what happened. The
  witnesses follow the example change from its beginning to its result.
\<close>

section \<open>From the invariant\<close>

lemma reachable_parts:
  assumes "change_reachable w"
  shows "flow_ok (kwd_run w)" "publication_ok (kwd_run w)" "result_ok (kwd_run w)"
  using reachable_ok [OF assms] by (simp_all add: change_ok_def)

lemma reachable_in_order:
  assumes "change_reachable w" "\<not> kr_erased (kwd_run w)" "stands_at_phase (kwd_run w) c"
  shows "in_order (kwd_run w) c"
  using reachable_parts(1) [OF assms(1)] assms(2,3) by (simp add: flow_ok_def)

lemma erasures_keep_units:
  assumes "fold_m erase_control us w = Inr w'" "change_ok w"
  shows "kwd_units w' = kwd_units w" "publication_id (kwd_run w') = publication_id (kwd_run w)"
proof -
  let ?P = "\<lambda>w'. change_ok w' \<and> kwd_units w' = kwd_units w \<and> publication_id (kwd_run w') = publication_id (kwd_run w)"
  have "?P w'"
  proof (rule fold_m_keeps [where P = ?P, OF assms(1)])
    fix u w1 w2 assume "?P w1" "erase_control u w1 = Inr w2"
    moreover from this have "kwd_units w2 = kwd_units w1" by (auto simp: erase_control_def check_simps)
    ultimately show "?P w2" using change_ok_erased erasure_keeps_publication by metis
  qed (use assms(2) in simp)
  then show "kwd_units w' = kwd_units w" "publication_id (kwd_run w') = publication_id (kwd_run w)" by simp_all
qed

text \<open>What a commit has read when it publishes\<close>

lemma commit_read:
  assumes "commit_change z x w = Inr w'" "change_ok w"
  obtains ready plan c e k i v b st rs where "commit_gate w x = Inr ready" "kr_plan (kwd_run w) = Some plan"
    "loaded_changeset (kwd_run w) = Inr c" "loaded_evidence (kwd_run w) = Inr e" "loaded_checks (kwd_run w) = Inr k"
    "loaded_impact (kwd_run w) = Inr i" "loaded_review (kwd_run w) = Inr v" "kr_baseline (kwd_run w) = Some b"
    "nothing_open e k i v" "sealed_for ready (kr_revision (kwd_run w)) (ku_generation (kwd_units w)) plan c b"
    "machine_impact_matches (current_impact z w) i" "\<not> kr_erased (kwd_run w)"
    "commit_units (kn_store z) (kn_commit z) (kn_before z) (kn_rest z) (kcs_operations c) (kwd_units w) = Inr (st, rs)"
    "kwd_units w' = st" "publication_id (kwd_run w') = Some (kn_fresh z)"
proof -
  obtain ready p us c st rs where gate: "commit_gate w x = Inr ready" and verified: "verify_commit z w ready = Inr c"
      and applied: "commit_units (kn_store z) (kn_commit z) (kn_before z) (kn_rest z) (kcs_operations c) (kwd_units w) = Inr (st, rs)"
      and fold: "fold_m erase_control us (w\<lparr>kwd_units := st, kwd_run := published_run p (kwd_run w)\<rparr>) = Inr w'" "kpr_id p = kn_fresh z"
    using assms(1) by (auto simp: commit_change_def publication_receipt_def Let_def check_simps split: if_splits)
  have ok: "change_ok (w\<lparr>kwd_units := st, kwd_run := published_run p (kwd_run w)\<rparr>)"
    by (rule published_ok [OF gate verified assms(2)])
  have live: "\<not> kr_erased (kwd_run w)" using committed_live [OF verified] assms(2) by (simp add: change_ok_def)
  have none: "kr_erased_receipt (kwd_run w) = None"
    using gate_open(3) [OF gate] assms(2) by (simp add: change_ok_def is_published_def)
  have "publication_id (published_run p (kwd_run w)) = Some (kn_fresh z)"
    by (simp add: publication_id_def published_fields fold(2) none)
  then have w': "kwd_units w' = st" "publication_id (kwd_run w') = Some (kn_fresh z)"
    using erasures_keep_units [OF fold(1) ok] by simp_all
  show thesis
    using verified gate live applied w'
    by (auto simp: verify_commit_def Let_def check_simps split: if_splits intro!: that)
qed

section \<open>Properties\<close>

text \<open>
  C13: the run of a change is always in order. While it stands at a phase, and nothing of it was erased, the
  phases that an agent writes and that lie before it have a current output, no other phase has one, and each of
  these outputs carries the data of its phase and completed it, whatever returns, inputs and amendments came
  before.
\<close>

theorem change_run_in_order:
  assumes "change_reachable w" "\<not> kr_erased (kwd_run w)" "is_live (kwd_run w)" "kr_current (kwd_run w) = Some c"
  shows "(current_output (kwd_run w) p \<noteq> None \<longleftrightarrow> kc_agent_authored p \<and> kc_ordinal p < kc_ordinal c) \<and>
    (current_output (kwd_run w) p = Some (g, out) \<longrightarrow> data_phase (kao_data out) = p \<and> kao_outcome out = PhaseCompleted \<and>
      kao_transition out = Continue)"
  using reachable_in_order [OF assms(1,2), of c] assms(3,4) by (auto simp: in_order_def stands_at_phase_def advances_def)

lemma change_run_in_order_witness:
  "(\<exists>g out. current_output (retract_run 8) KcDomainChecks = Some (g, out) \<and> kao_outcome out = PhaseCompleted) \<and>
    current_output (retract_run 8) KcResultHandoff = None"
proof -
  have run: "is_live (retract_run 8)" "KC_ALL ! 8 = KcPublicationGate" by (simp_all add: is_live_def KC_ALL_def)
  have *: "(current_output (retract_run 8) p \<noteq> None \<longleftrightarrow> kc_agent_authored p \<and> kc_ordinal p < 9) \<and>
    (current_output (retract_run 8) p = Some (g, out) \<longrightarrow> data_phase (kao_data out) = p \<and> kao_outcome out = PhaseCompleted \<and>
      kao_transition out = Continue)" for p g out
    using change_run_in_order [OF retract_reachable [of 8], of KcPublicationGate p g out] run by simp
  obtain g out where "current_output (retract_run 8) KcDomainChecks = Some (g, out)" using * [of KcDomainChecks] by fastforce
  moreover have "current_output (retract_run 8) KcResultHandoff = None"
    using * [of KcResultHandoff] by (simp del: not_None_eq)
  ultimately show ?thesis using * [of KcDomainChecks g out] by simp
qed

text \<open>
  C12: what a commit publishes was checked and reviewed exactly as it is. The plan, the changeset, the evidence,
  the receipts, the impact, the review and the baseline of the run are there; the review is ready, leaves no
  finding open and covers the digest of each of them and every operation and obligation of the plan; every
  obligation has one receipt, satisfied or reused, for this very changeset; no gap and no conflict is open; the
  generation of the workspace is the one of the baseline, and the impact is the present one. The operations of
  this changeset, and nothing else, are what the commit does to the units.
\<close>

theorem publication_was_reviewed:
  assumes "change_reachable w" "commit_change z x w = Inr w'"
  shows "\<exists>plan c e k i v d b st rs. kr_plan (kwd_run w) = Some plan \<and> loaded_changeset (kwd_run w) = Inr c \<and>
    loaded_evidence (kwd_run w) = Inr e \<and> loaded_checks (kwd_run w) = Inr k \<and> loaded_impact (kwd_run w) = Inr i \<and>
    loaded_review (kwd_run w) = Inr v \<and> phase_digest (kwd_run w) KcDomainChecks = Inr d \<and> kr_baseline (kwd_run w) = Some b \<and>
    krr_outcome v = ReviewReady \<and> list_all krf_closed (krr_findings v) \<and> review_covers plan c e i d v \<and> receipts_cover plan c k \<and>
    kem_unresolved_gaps e = [] \<and> kol_unresolved_obligation_ids k = [] \<and> kip_blocking_conflicts i = [] \<and>
    kbm_workspace_generation b = ku_generation (kwd_units w) \<and> machine_impact_matches (current_impact z w) i \<and>
    commit_units (kn_store z) (kn_commit z) (kn_before z) (kn_rest z) (kcs_operations c) (kwd_units w) = Inr (st, rs) \<and>
    kwd_units w' = st \<and> publication_id (kwd_run w') = Some (kn_fresh z)"
proof -
  let ?r = "kwd_run w"
  obtain ready plan c e k i v b st rs where read: "commit_gate w x = Inr ready" "kr_plan ?r = Some plan" "loaded_changeset ?r = Inr c"
      "loaded_evidence ?r = Inr e" "loaded_checks ?r = Inr k" "loaded_impact ?r = Inr i" "loaded_review ?r = Inr v" "kr_baseline ?r = Some b"
      "nothing_open e k i v" "sealed_for ready (kr_revision ?r) (ku_generation (kwd_units w)) plan c b"
      "machine_impact_matches (current_impact z w) i" "\<not> kr_erased ?r"
      "commit_units (kn_store z) (kn_commit z) (kn_before z) (kn_rest z) (kcs_operations c) (kwd_units w) = Inr (st, rs)"
      "kwd_units w' = st" "publication_id (kwd_run w') = Some (kn_fresh z)"
    by (rule commit_read [OF assms(2) reachable_ok [OF assms(1)]])
  have "stands_at_phase ?r KcCommit"
    using gate_open(1,2) [OF read(1) reachable_parts(2) [OF assms(1)]] by (simp add: stands_at_phase_def is_live_def)
  then have order: "in_order ?r KcCommit" by (rule reachable_in_order [OF assms(1) read(12)])
  obtain g out where "current_output ?r KcDomainChecks = Some (g, out)" "kao_data out = DataKcDomainChecks k"
    using read(5) by (auto simp: loaded_checks_iff)
  moreover from this have "advances out" using order by (auto simp: in_order_def)
  ultimately have "checks_stand ?r k" using reachable_parts(1) [OF assms(1)] by (auto simp: flow_ok_def checks_ok_def)
  then have checks: "receipts_cover plan c k" using read(2,3) by (auto simp: checks_stand_def)
  have "review_stands ?r v"
    using reachable_parts(1) [OF assms(1)] read(7,9) by (auto simp: flow_ok_def reviews_ok_def nothing_open_def)
  then obtain d where "list_all krf_closed (krr_findings v)" "phase_digest ?r KcDomainChecks = Inr d" "review_covers plan c e i d v"
    using read(2,3,4,6) by (auto simp: review_stands_def)
  with read checks show ?thesis by (auto simp: nothing_open_def sealed_for_def)
qed

lemma publication_was_reviewed_witness:
  "\<exists>c v. loaded_changeset sealed_run = Inr c \<and> loaded_review sealed_run = Inr v \<and> krr_outcome v = ReviewReady \<and>
    (\<exists>rs. commit_units example_store_env example_context (\<lambda>_. 0) (\<lambda>_. 0) (kcs_operations c) retract_store = Inr (retracted_store, rs))"
  using publication_was_reviewed [OF sealed_reachable retract_published] by (auto simp: published_world_def)

text \<open>
  C14: a change publishes once. After a commit, whatever happens to it, its units and its rows, erasure included,
  the run keeps this publication, and every further commit and every input is refused.
\<close>

theorem change_published_once:
  assumes "change_reachable w" "commit_change z x w = Inr w1" "change_history w1 w2"
  shows "publication_id (kwd_run w2) = Some (kn_fresh z) \<and> commit_change z' x' w2 \<noteq> Inr w3 \<and> record_change_input z' y w2 \<noteq> Inr w3"
proof -
  have reached: "change_reachable w1" using assms(1,2) by (auto intro: moved commit_step)
  have "publication_id (kwd_run w1) = Some (kn_fresh z)" by (rule commit_read [OF assms(2) reachable_ok [OF assms(1)]])
  then have kept: "publication_id (kwd_run w2) = Some (kn_fresh z)" by (rule history_keeps_publication [OF assms(3) reached])
  have ok: "change_ok w2" by (rule reachable_ok [OF history_reachable [OF assms(3) reached]])
  then have "is_published (kwd_run w2)" using unpublished_iff [of w2] kept by simp
  with kept ok show ?thesis using published_refuses by blast
qed

lemma change_published_once_witness:
  "publication_id (kwd_run handed_world) = Some 20 \<and> commit_change (retract_env 30) retract_commit handed_world \<noteq> Inr handed_world"
  using change_published_once [OF sealed_reachable retract_published handed_history, of "retract_env 30" retract_commit handed_world]
  by simp

section \<open>A completed run\<close>

lemma settle_active:
  assumes step: "settle_effects z x w = Inr w'" and ok: "change_ok w"
  shows "kr_status (kwd_run w) = RunActive \<and> kr_status (kwd_run w') = RunActive"
proof -
  obtain p k w1 es f c r where gate: "settle_gate w x = Inr p"
      and survives: "refresh_effects z k p (sort_key (effect_rank \<circ> ker_kind) (sort_key ker_effect_id (kr_effect_rows (kwd_run w)))) w = Inr (w1, es)"
      and r: "settled_run p f c (kwd_run w1) = Inr r" "w' = w1\<lparr>kwd_run := r\<rparr>"
    using step by (auto simp: settle_effects_def Let_def check_simps split: if_splits)
  have now: "settling (publication_id (kwd_run w)) w"
    using gate ok by (auto simp: settle_gate_def Let_def check_simps settling_def receipt_state_of_def is_published_def
        split: if_splits option.splits)
  then have "settling (publication_id (kwd_run w)) w1" by (rule settling_world.refresh_survives [OF survives])
  with now r show ?thesis by (cases p) (auto simp: settling_def split: if_splits)
qed

lemma published_active: "commit_change z x w = Inr w' \<Longrightarrow> change_ok w \<Longrightarrow> kr_status (kwd_run w') = RunActive"
proof -
  assume step: "commit_change z x w = Inr w'" and ok: "change_ok w"
  obtain ready c st p us where gate: "commit_gate w x = Inr ready"
      and fold: "fold_m erase_control us (w\<lparr>kwd_units := st, kwd_run := published_run p (kwd_run w)\<rparr>) = Inr w'"
    by (rule published_now [OF step], rule that)
  have "kr_status (kwd_run w) = RunActive" using gate_open(2) [OF gate] ok by (simp add: change_ok_def)
  then show ?thesis
    by (intro fold_m_keeps [where P = "\<lambda>w. kr_status (kwd_run w) = RunActive", OF fold])
      (auto simp: published_fields erase_control_def redacted_run_def check_simps)
qed

lemma suppressed_run: "suppress_change z u w = Inr w' \<Longrightarrow> \<exists>retained. kwd_run w' = redacted_run retained (kwd_run w)"
proof -
  assume "suppress_change z u w = Inr w'"
  then obtain w1 where e: "erase_control u w = Inr w1" and
      w': "(case suppress_owned_unit (\<lambda>_. 1) (kn_rest z) u (kwd_units w1) of (st, complete) \<Rightarrow>
        if complete then Inr (w1\<lparr>kwd_units := st\<rparr>) else Inl KnowledgeUnavailable) = Inr w'"
    by (auto simp: suppress_change_def check_simps)
  have "kwd_run w' = kwd_run w1" using w' by (auto split: prod.splits if_splits)
  with e show ?thesis by (auto simp: erase_control_def check_simps)
qed

text \<open>A phase completed after an erasure is the result, and it is kept in its erased form\<close>

lemma erased_completion:
  assumes step: "complete_change_phase z x w = Inr w'" and ok: "change_ok w" and valid: "kc_complete_validate v resolved x = Inr ()"
    and fresh: "kn_fresh z \<notin> kou_id ` set (kr_outputs (kwd_run w))" and erased: "kr_erased (kwd_run w)"
  shows "kr_erased_result (kwd_run w') \<noteq> None"
proof -
  obtain w1 u revisit status n w2 where sub: "phase_submission z x w = Inr (w1, u)"
      and w2: "w2 = w1\<lparr>kwd_run := advance_run u (review_recorded (kx_output x)) revisit status n (record_change_attempt z x (kwd_run w1))\<rparr>"
      and fold: "fold_m (suppress_change z) (receipt_erased_units (kwd_run w2)) w2 = Inr w'"
    by (rule completion_split [OF step ok valid fresh])
  obtain target where target: "phase_revisit (kr_definition (kwd_run w)) x = Inr target" by (rule phase_completed [OF step])
  obtain out where out: "kx_output x = Some out"
    using sub sealed_gate [of z w] ok erased target
    by (auto simp: phase_submission_def phase_revisit_def map_sum_def change_ok_def split: option.splits if_splits sum.splits)
  then have sub': "submit_output z w (kx_phase_id x) out = Inr (w1, u)" using sub by (simp add: phase_submission_def)
  obtain m i g d rows where env: "verify_envelope z (kwd_run w) (kx_phase_id x) out = Inr ()"
      and data: "phase_data_step z (w\<lparr>kwd_run := (kwd_run w)\<lparr>kr_mode := m\<rparr>\<rparr>) (advances out) (kao_data out) = Inr (d, u, rows)"
      and w1: "kwd_run w1 = bind_output (kx_phase_id x) (kn_fresh z) i (g, out\<lparr>kao_data := d\<rparr>) ((kwd_run w)\<lparr>kr_mode := m\<rparr>)"
    by (rule submitted [OF sub'])
  have "data_phase (kao_data out) = KcResultHandoff"
    using valid out erased_envelope [OF env erased] by (auto simp: kc_complete_validate_def check_simps output_matches_def)
  then obtain v where "kao_data out = DataKcResultHandoff v" by (cases "kao_data out") auto
  with step_keeps_phase [OF data] data have "u = no_updates\<lparr>kpu_result := Some v\<rparr>" by (auto simp: check_simps)
  then have "kr_erased_result (kwd_run w2) \<noteq> None"
    using erased by (simp add: w2 advanced_fields attempt_fields bound_fields [OF w1] keep_new_def no_updates_def)
  then show ?thesis
    by (intro fold_m_keeps [where P = "\<lambda>w. kr_erased_result (kwd_run w) \<noteq> None", OF fold])
      (auto simp: redacted_run_def dest!: suppressed_run)
qed

lemma completing_erased:
  assumes "change_step w w1" "change_ok w" "is_live (kwd_run w)" "kr_status (kwd_run w1) = RunCompleted" "kr_erased (kwd_run w)"
  shows "kr_erased_result (kwd_run w1) \<noteq> None"
  using assms(1)
proof cases
  case (erasure_step u)
  then show ?thesis using assms(3,4) by (auto simp: erase_control_def redacted_run_def is_live_def check_simps)
next
  case (input_step z y)
  then show ?thesis using assms(4) input_accepted by fastforce
qed (use assms erased_completion published_active settle_active in \<open>fastforce simp: is_live_def\<close>)+

text \<open>After the completion only the store changes, and erasures reach the run\<close>

lemma completed_step:
  assumes "change_step w w'" "change_ok w" "kr_status (kwd_run w) = RunCompleted"
  shows "kwd_run w' = kwd_run w \<or> (\<exists>retained. kwd_run w' = redacted_run retained (kwd_run w))"
  using assms(1)
proof cases
  case (phase_step z x v resolved)
  have "phase_guard w x = Inr ()" by (rule phase_completed [OF phase_step(1)])
  then show ?thesis using guarded(1) assms(3) by (fastforce simp: stands_at_phase_def is_live_def)
next
  case (input_step z y)
  then have "input_guard (kwd_run w) y = Inr ()" using input_accepted by blast
  then show ?thesis using assms(3) by (auto simp: input_guard_def Let_def check_simps is_live_def)
next
  case (commit_step z c)
  then obtain ready where "commit_gate w c = Inr ready" by (auto simp: commit_change_def check_simps)
  then show ?thesis using gate_open(2) assms(2,3) by (fastforce simp: change_ok_def)
next
  case settle_step
  then show ?thesis using settle_active [OF _ assms(2)] assms(3) by fastforce
qed (auto simp: erase_control_def check_simps)

lemma completed_stays:
  "change_history w w' \<Longrightarrow> change_reachable w \<Longrightarrow> kr_status (kwd_run w) = RunCompleted \<Longrightarrow>
     kr_status (kwd_run w') = RunCompleted \<and> kr_erased_result (kwd_run w') = kr_erased_result (kwd_run w)"
proof (induction rule: change_history.induct)
  case (more w w1 w2)
  then have "change_ok w1" "kr_status (kwd_run w1) = RunCompleted" "kr_erased_result (kwd_run w1) = kr_erased_result (kwd_run w)"
    using reachable_ok history_reachable by blast+
  then show ?case using completed_step [OF more.hyps(2)] by (auto simp: redacted_run_def)
qed simp

text \<open>
  C15: a completed change tells what it did, and what it tells is true. Whatever happens after its completion, the run
  stays completed, and a result that is there, whole or erased, names the publication of the run, if there is one, and
  says that the change was applied exactly when there is one. A run that completes after an erasure, as a run that
  commits an erasure does, has its erased result from then on; any other run has its whole result until its rows are
  erased.
\<close>

theorem result_says_publication:
  assumes "change_reachable w" "is_live (kwd_run w)" "change_step w w1" "kr_status (kwd_run w1) = RunCompleted"
    "change_history w1 w2"
  shows "kr_status (kwd_run w2) = RunCompleted \<and>
    opt_all (\<lambda>v. kch_publisher_receipt_id v = publication_id (kwd_run w2) \<and>
      (kch_canonical v = CanonicalApplied \<longleftrightarrow> publication_id (kwd_run w2) \<noteq> None)) (kr_result (kwd_run w2)) \<and>
    opt_all (\<lambda>v. kes_publisher_receipt_id v = publication_id (kwd_run w2) \<and>
      (kes_canonical v = CanonicalApplied \<longleftrightarrow> publication_id (kwd_run w2) \<noteq> None)) (kr_erased_result (kwd_run w2)) \<and>
    (if kr_erased (kwd_run w) then kr_erased_result (kwd_run w2) \<noteq> None
     else kr_erased (kwd_run w2) \<or> kr_result (kwd_run w2) \<noteq> None)"
proof -
  have reached: "change_reachable w1" "change_reachable w2"
    using assms(1,3,5) by (auto intro: moved history_reachable)
  have stays: "kr_status (kwd_run w2) = RunCompleted" "kr_erased_result (kwd_run w2) = kr_erased_result (kwd_run w1)"
    using completed_stays [OF assms(5) reached(1) assms(4)] by simp_all
  have "kr_erased (kwd_run w) \<Longrightarrow> kr_erased_result (kwd_run w2) \<noteq> None"
    using completing_erased [OF assms(3) reachable_ok [OF assms(1)] assms(2,4)] stays(2) by simp
  with reachable_parts(3) [OF reached(2)] unpublished_iff [OF reachable_ok [OF reached(2)]] stays(1)
  show ?thesis by (auto simp: result_ok_def outcome_ok_def opt_all_def split: option.splits)
qed

lemma result_says_publication_witness:
  "\<exists>v. kr_result (kwd_run handed_world) = Some v \<and> kch_canonical v = CanonicalApplied \<and> kch_publisher_receipt_id v = Some 20"
proof -
  have "kn_fresh (retract_env 21) \<notin> kou_id ` set (kr_outputs (kwd_run settled_world))"
    by (simp add: KC_ALL_def phase_row_def)
  then have step: "change_step settled_world handed_world"
    by (rule phase_step [OF retract_handed retract_request_accepted, rotated 2]) simp_all
  have reached: "change_reachable settled_world"
    by (rule moved [OF published_reachable settle_step [OF retract_settled]])
  have "is_live (kwd_run settled_world)" "kr_status (kwd_run handed_world) = RunCompleted"
    "publication_id (kwd_run handed_world) = Some 20" "\<not> kr_erased (kwd_run settled_world)" "\<not> kr_erased (kwd_run handed_world)"
    by (simp_all add: handed_world_def settled_world_def publication_id_def retract_receipt_def is_live_def)
  with result_says_publication [OF reached _ step _ same] show ?thesis by auto
qed

end
