(* ===== verification/MaintenanceTasks.thy ===== *)
theory MaintenanceTasks
  imports KnowledgeChanges Interfaces
begin

text \<open>
  The maintenance of published knowledge: \<^verbatim>\<open>knowledge_maintenance.rs\<close> of \<^verbatim>\<open>crates/domain\<close> and of
  \<^verbatim>\<open>crates/application\<close>, and the adapters \<^verbatim>\<open>jobs.rs\<close>, \<^verbatim>\<open>signal.rs\<close>, \<^verbatim>\<open>begin.rs\<close> and
  \<^verbatim>\<open>lifecycle.rs\<close> of \<^verbatim>\<open>crates/postgres/src/knowledge_maintenance\<close>. A signal says that a revision of a unit
  has to be looked at again, and has one task. Workers claim tasks with a lease, look whether the signal still
  applies, and leave the task to a person, who links it to a knowledge change; the publication of this change
  resolves it.
\<close>

section \<open>Signals and their bases\<close>

datatype signal_reason =
  SignalReviewDue | SignalSourceChanged | SignalDependencyChanged | SignalApplicationFailed | SignalOperatorRequested

datatype maintenance_basis =
    BasisReviewDue "str option" "str option" "uuid option"
  | BasisSourceChanged str str str
  | BasisDependencyChanged uuid "uuid option" uuid
  | BasisApplicationFailed str str
  | BasisOperatorRequested str str

fun basis_reason :: "maintenance_basis \<Rightarrow> signal_reason" where
  "basis_reason (BasisReviewDue _ _ _) = SignalReviewDue"
| "basis_reason (BasisSourceChanged _ _ _) = SignalSourceChanged"
| "basis_reason (BasisDependencyChanged _ _ _) = SignalDependencyChanged"
| "basis_reason (BasisApplicationFailed _ _) = SignalApplicationFailed"
| "basis_reason (BasisOperatorRequested _ _) = SignalOperatorRequested"

definition given_and :: "('a \<Rightarrow> bool) \<Rightarrow> 'a option \<Rightarrow> bool" where
  "given_and p x = (case x of None \<Rightarrow> False | Some v \<Rightarrow> p v)"

fun basis_validate :: "maintenance_basis \<Rightarrow> unit result" where
  "basis_validate (BasisReviewDue review_due_at valid_until validation_event_id) = accept_if
     (\<not> (review_due_at = None \<and> valid_until = None \<or> given_and (\<lambda>s. parse_rfc3339 s = None) review_due_at \<or>
        given_and (\<lambda>s. parse_rfc3339 s = None) valid_until \<or> given_and is_nil validation_event_id))"
| "basis_validate (BasisSourceChanged source_iri accepted_digest observed_digest) = accept_if
     (bounded_nonblank source_iri 4096 \<and> bounded_nonblank accepted_digest 256 \<and> bounded_nonblank observed_digest 256 \<and>
      accepted_digest \<noteq> observed_digest)"
| "basis_validate (BasisDependencyChanged on_unit previous observed) = accept_if
     (\<not> is_nil on_unit \<and> \<not> given_and is_nil previous \<and> \<not> is_nil observed \<and> previous \<noteq> Some observed)"
| "basis_validate (BasisApplicationFailed consumer_ref failure_digest) = accept_if
     (bounded_nonblank consumer_ref 4096 \<and> bounded_nonblank failure_digest 256)"
| "basis_validate (BasisOperatorRequested subject_ref observation_digest) = accept_if
     (bounded_nonblank subject_ref 4096 \<and> bounded_nonblank observation_digest 256)"

section \<open>Requests\<close>

definition MAINTENANCE_MAX_BATCH :: nat where "MAINTENANCE_MAX_BATCH = 64"
definition MAINTENANCE_MAX_ATTEMPTS :: int where "MAINTENANCE_MAX_ATTEMPTS = 5"

record observe_signal =
  os_request_id :: uuid
  os_unit_id :: uuid
  os_unit_revision :: int
  os_basis :: maintenance_basis

definition observe_validate :: "observe_signal \<Rightarrow> unit result" where
  "observe_validate r = checks
     [accept_if (\<not> (is_nil (os_request_id r) \<or> is_nil (os_unit_id r) \<or> os_unit_revision r < 1)),
      basis_validate (os_basis r),
      (case os_basis r of
         BasisSourceChanged _ _ _ \<Rightarrow> Inr ()
       | BasisApplicationFailed _ _ \<Rightarrow> Inr ()
       | BasisOperatorRequested _ _ \<Rightarrow> Inr ()
       | _ \<Rightarrow> Inl InvalidArguments)]"

record begin_maintenance =
  bm_request_id :: uuid
  bm_task_id :: uuid
  bm_task_revision :: int
  bm_change :: begin_change

definition begin_maintenance_validate :: "begin_maintenance \<Rightarrow> unit result" where
  "begin_maintenance_validate r = checks
     [kc_begin_validate (bm_change r),
      accept_if (\<not> (is_nil (bm_request_id r) \<or> is_nil (bm_task_id r) \<or> bm_task_revision r < 1 \<or>
        kbk_request_id (bm_change r) \<noteq> bm_request_id r \<or> kbk_owner (bm_change r) \<noteq> OwnerWorkspace \<or>
        length (kbk_operation_hints (bm_change r)) \<noteq> 1 \<or>
        koh_operation (hd (kbk_operation_hints (bm_change r))) \<notin> {OpRevalidate, OpRevise, OpSupersede}))]"

section \<open>Rows\<close>

datatype task_state =
  TaskPending | TaskLeased | TaskNeedsReview | TaskLinked | TaskResolved | TaskObsolete | TaskExhausted

datatype failure_code =
    FailLeaseExpired | FailStorageUnavailable | FailTransportUnavailable | FailInvalidConfiguration
  | FailInternalInvariant | FailCapacityExceeded | FailNeedsContext

record review_status =
  rvs_unit_id :: uuid
  rvs_revision :: int
  rvs_lifecycle :: lifecycle_state
  rvs_access_scope :: access_scope
  rvs_publication_event_id :: uuid
  rvs_validation_event_id :: "uuid option"
  rvs_valid_from :: "str option"
  rvs_valid_until :: "str option"
  rvs_review_due_at :: "str option"
  rvs_due :: bool
  rvs_not_yet_valid :: bool
  rvs_expired :: bool
  rvs_needs_review :: bool

record maintenance_consumer =
  mc_consumer_ref :: str
  mc_required :: bool
  mc_relation_name :: str
  mc_row_id :: uuid

record terminal_evidence =
  te_change_id :: uuid
  te_publisher_receipt_id :: uuid
  te_operation_id :: uuid
  te_event_id :: uuid
  te_operation :: lifecycle_operation
  te_unit_revision :: int
  te_validation_event_id :: "uuid option"

text \<open>A signal keeps its basis and the digest of it until its payload is erased.\<close>

record signal_row =
  sg_id :: uuid
  sg_unit_id :: uuid
  sg_unit_revision :: int
  sg_reason :: signal_reason
  sg_basis :: "(maintenance_basis \<times> str) option"
  sg_erased :: bool

text \<open>Instants are microseconds, as PostgreSQL has them.\<close>

record task_row =
  mt_id :: uuid
  mt_signal_id :: uuid
  mt_revision :: int
  mt_state :: task_state
  mt_attempts :: int
  mt_failure_code :: "failure_code option"
  mt_next_retry_at :: "int option"
  mt_lease_token :: "uuid option"
  mt_lease_expires_at :: "int option"
  mt_change_id :: "uuid option"
  mt_run_id :: "uuid option"
  mt_current_review :: "review_status option"
  mt_affected_consumers :: "maintenance_consumer list option"
  mt_terminal_evidence :: "terminal_evidence option"
  mt_erased :: bool
  mt_created_at :: int

text \<open>The tables of one workspace, with the generation of its knowledge\<close>

record task_store =
  ts_signals :: "signal_row list"
  ts_tasks :: "task_row list"
  ts_generation :: int

definition seconds :: "int \<Rightarrow> int" where
  "seconds n = n * 1000000"

text \<open>\<^verbatim>\<open>UPDATE \<dots> SET \<dots>, revision=revision+1 WHERE id=\<dots>\<close>\<close>

definition update_task :: "uuid \<Rightarrow> (task_row \<Rightarrow> task_row) \<Rightarrow> task_store \<Rightarrow> task_store" where
  "update_task i f s = s\<lparr>ts_tasks := map (\<lambda>t. if mt_id t = i then (f t)\<lparr>mt_revision := mt_revision t + 1\<rparr> else t) (ts_tasks s)\<rparr>"

definition task_of :: "uuid \<Rightarrow> task_store \<Rightarrow> task_row option" where
  "task_of i s = List.find (\<lambda>t. mt_id t = i) (ts_tasks s)"

definition signal_of :: "uuid \<Rightarrow> task_store \<Rightarrow> signal_row option" where
  "signal_of i s = List.find (\<lambda>g. sg_id g = i) (ts_signals s)"

section \<open>What lies outside\<close>

text \<open>
  The rest of the workspace at the moment of a request: who owns it, the revisions of units with the erasure of
  their payload and the start of their validity, the active revision of a unit, the registration of consumers and
  their list, the review status of a revision, the address under which a revision accepted a source, the unit whose
  event an event is, the runbook dependencies of a document, the digest of a basis, the change and the run that a
  begun change has, and fresh identifiers of a signal and a task for a unit.
\<close>

datatype unit_view = ViewDocument str str | ViewLegacy str str | ViewErased

record maintenance_env =
  me_identity_ready :: bool
  me_owner :: "uuid \<Rightarrow> bool"
  me_workspace :: uuid
  me_revision :: "uuid \<Rightarrow> int \<Rightarrow> (bool \<times> int option) option"
  me_accepted :: "uuid \<Rightarrow> int option"
  me_reconcile :: "uuid \<Rightarrow> unit result"
  me_consumers :: "uuid \<Rightarrow> int \<Rightarrow> maintenance_consumer list result"
  me_review :: "uuid \<Rightarrow> int \<Rightarrow> review_status result"
  me_logical_uri :: "uuid \<Rightarrow> int \<Rightarrow> str \<Rightarrow> str \<Rightarrow> str option result"
  me_event_unit_iri :: "uuid \<Rightarrow> uuid \<Rightarrow> str option"
  me_runbook_dependencies :: "uuid \<Rightarrow> int \<Rightarrow> str list option result"
  me_unit :: "uuid \<Rightarrow> int \<Rightarrow> unit_view option result"
  me_digest :: "maintenance_basis \<Rightarrow> str"
  me_begin :: "begin_change \<Rightarrow> (uuid \<times> uuid) result"
  me_fresh :: "uuid \<Rightarrow> uuid \<times> uuid"

definition owner_gate :: "maintenance_env \<Rightarrow> uuid \<Rightarrow> unit result" where
  "owner_gate env owner = checks
     [refuse_if (\<not> me_identity_ready env) KnowledgeUnavailable, refuse_if (\<not> me_owner env owner) Forbidden]"

section \<open>Claiming a task\<close>

record job_claim =
  jc_task_id :: uuid
  jc_task_revision :: int
  jc_lease_token :: uuid
  jc_workspace_id :: uuid
  jc_principal_id :: uuid

text \<open>A lease that has run out gives the task back, or exhausts it.\<close>

definition release :: "int option \<Rightarrow> task_row \<Rightarrow> task_row" where
  "release retry_at t = t\<lparr>mt_state := (if 5 \<le> mt_attempts t then TaskExhausted else TaskPending),
     mt_next_retry_at := (if 5 \<le> mt_attempts t then None else retry_at), mt_failure_code := Some FailLeaseExpired,
     mt_lease_token := None, mt_lease_expires_at := None, mt_revision := mt_revision t + 1\<rparr>"

definition lease_over :: "int \<Rightarrow> task_row \<Rightarrow> bool" where
  "lease_over now t \<longleftrightarrow> mt_state t = TaskLeased \<and> given_and (\<lambda>e. e \<le> now) (mt_lease_expires_at t)"

definition recover_task :: "int \<Rightarrow> task_row \<Rightarrow> task_row" where
  "recover_task now t = (if lease_over now t then release (Some (now + seconds (min (mt_attempts t * 60) 300))) t else t)"

definition due_at :: "task_row \<Rightarrow> int" where
  "due_at t = (case mt_next_retry_at t of None \<Rightarrow> mt_created_at t | Some r \<Rightarrow> r)"

definition claimable :: "maintenance_env \<Rightarrow> int \<Rightarrow> task_store \<Rightarrow> task_row \<Rightarrow> bool" where
  "claimable env now s t \<longleftrightarrow> mt_state t = TaskPending \<and> mt_attempts t < 5 \<and> \<not> mt_erased t \<and>
     given_and (\<lambda>g. \<not> sg_erased g \<and> given_and (\<lambda>(erased, valid_from). \<not> erased \<and> \<not> given_and (\<lambda>v. now < v) valid_from)
       (me_revision env (sg_unit_id g) (sg_unit_revision g))) (signal_of (mt_signal_id t) s) \<and>
     \<not> given_and (\<lambda>r. now < r) (mt_next_retry_at t)"

definition first_due :: "task_row list \<Rightarrow> task_row option" where
  "first_due ts = (case sort_key due_at (sort_key mt_id ts) of [] \<Rightarrow> None | t # _ \<Rightarrow> Some t)"

definition lease_task :: "uuid \<Rightarrow> int \<Rightarrow> task_row \<Rightarrow> task_row" where
  "lease_task token now t = t\<lparr>mt_state := TaskLeased, mt_attempts := mt_attempts t + 1, mt_lease_token := Some token,
     mt_lease_expires_at := Some (now + seconds 60), mt_next_retry_at := None\<rparr>"

definition claim_task ::
    "maintenance_env \<Rightarrow> int \<Rightarrow> uuid \<Rightarrow> uuid \<Rightarrow> task_store \<Rightarrow> (task_store \<times> job_claim option \<times> nat) result" where
  "claim_task env now owner token s = andThen (owner_gate env owner) (\<lambda>_.
     let recovered = s\<lparr>ts_tasks := map (recover_task now) (ts_tasks s)\<rparr>;
       exhausted = length (filter (\<lambda>t. lease_over now t \<and> 5 \<le> mt_attempts t) (ts_tasks s)) in
     case first_due (filter (claimable env now recovered) (ts_tasks recovered)) of
       None \<Rightarrow> Inr (recovered, None, exhausted)
     | Some t \<Rightarrow> Inr (update_task (mt_id t) (lease_task token now) recovered,
         Some \<lparr>jc_task_id = mt_id t, jc_task_revision = mt_revision t + 1, jc_lease_token = token,
           jc_workspace_id = me_workspace env, jc_principal_id = owner\<rparr>, exhausted))"

section \<open>Preparing a claimed task\<close>

fun basis_applies ::
    "maintenance_env \<Rightarrow> uuid \<Rightarrow> int \<Rightarrow> maintenance_basis \<Rightarrow> review_status \<Rightarrow> maintenance_consumer list \<Rightarrow> bool result" where
  "basis_applies env u revision (BasisReviewDue review_due_at valid_until validation_event_id) status consumers =
     Inr ((rvs_due status \<or> rvs_expired status) \<and> rvs_review_due_at status = review_due_at \<and>
       rvs_valid_until status = valid_until \<and> rvs_validation_event_id status = validation_event_id)"
| "basis_applies env u revision (BasisSourceChanged source_iri accepted_digest observed_digest) status consumers =
     (if accepted_digest = observed_digest then Inr False
      else map_sum id (\<lambda>found. found \<noteq> None) (me_logical_uri env u revision source_iri accepted_digest))"
| "basis_applies env u revision (BasisDependencyChanged on_unit previous observed) status consumers =
     (case me_event_unit_iri env on_unit observed of
        None \<Rightarrow> Inr False
      | Some address \<Rightarrow> map_sum id (given_and (\<lambda>iris. address \<in> set iris)) (me_runbook_dependencies env u revision))"
| "basis_applies env u revision (BasisApplicationFailed consumer_ref failure_digest) status consumers =
     Inr (list_ex (\<lambda>c. mc_consumer_ref c = consumer_ref) consumers)"
| "basis_applies env u revision (BasisOperatorRequested subject_ref observation_digest) status consumers = Inr True"

datatype prepare_outcome = PreparedNeedsReview | PreparedObsolete | PreparedExhausted

definition lease_live :: "int \<Rightarrow> task_row \<Rightarrow> bool" where
  "lease_live now t \<longleftrightarrow> given_and (\<lambda>e. now < e) (mt_lease_expires_at t)"

definition lease_held :: "job_claim \<Rightarrow> task_row \<Rightarrow> bool" where
  "lease_held claim t \<longleftrightarrow> mt_revision t = jc_task_revision claim \<and> mt_state t = TaskLeased \<and>
     mt_lease_token t = Some (jc_lease_token claim)"

definition claim_gate :: "maintenance_env \<Rightarrow> uuid \<Rightarrow> job_claim \<Rightarrow> unit result" where
  "claim_gate env owner claim = checks [owner_gate env owner,
     refuse_if (jc_workspace_id claim \<noteq> me_workspace env \<or> jc_principal_id claim \<noteq> owner) Forbidden]"

text \<open>A review that does not exist any more counts as none.\<close>

definition review_if_any :: "review_status result \<Rightarrow> review_status option result" where
  "review_if_any r = (case r of
     Inr v \<Rightarrow> Inr (Some v) | Inl e \<Rightarrow> if e = NotFound \<or> e = KnowledgePayloadErased then Inr None else Inl e)"

definition task_needs_review :: "review_status \<Rightarrow> maintenance_consumer list \<Rightarrow> task_row \<Rightarrow> task_row" where
  "task_needs_review review consumers t = t\<lparr>mt_state := TaskNeedsReview, mt_failure_code := None, mt_lease_token := None,
     mt_lease_expires_at := None, mt_current_review := Some review, mt_affected_consumers := Some consumers\<rparr>"

definition task_superfluous :: "task_row \<Rightarrow> task_row" where
  "task_superfluous t = t\<lparr>mt_state := TaskObsolete, mt_failure_code := None, mt_lease_token := None, mt_lease_expires_at := None\<rparr>"

definition prepare_task ::
    "maintenance_env \<Rightarrow> int \<Rightarrow> uuid \<Rightarrow> job_claim \<Rightarrow> task_store \<Rightarrow> (task_store \<times> prepare_outcome) result" where
  "prepare_task env now owner claim s = andThen (claim_gate env owner claim) (\<lambda>_.
     andThen (ok_or (task_of (jc_task_id claim) s) NotFound) (\<lambda>t.
     if \<not> lease_held claim t \<or> \<not> lease_live now t then Inl ContextChanged
     else andThen (ok_or (Option.bind (signal_of (mt_signal_id t) s)
         (\<lambda>g. map_option (Pair g) (if sg_erased g then None else sg_basis g))) KnowledgePayloadErased)
       (\<lambda>(g, basis, _).
     let u = sg_unit_id g; revision = sg_unit_revision g in
     andThen (me_reconcile env u) (\<lambda>_.
     andThen (me_consumers env u revision) (\<lambda>registered.
     andThen (if me_accepted env u = Some revision \<or> registered \<noteq> [] then review_if_any (me_review env u revision) else Inr None)
       (\<lambda>current.
     let consumers = (if current = None then [] else registered) in
     andThen (case current of None \<Rightarrow> Inr False | Some status \<Rightarrow> basis_applies env u revision basis status consumers)
       (\<lambda>applicable.
     case current of
       Some review \<Rightarrow> if applicable
         then Inr (update_task (mt_id t) (task_needs_review review consumers) s, PreparedNeedsReview)
         else Inr (update_task (mt_id t) task_superfluous s, PreparedObsolete)
     | None \<Rightarrow> Inr (update_task (mt_id t) task_superfluous s, PreparedObsolete))))))))"

section \<open>Failing a claimed task\<close>

datatype failure_outcome = RetryScheduled | FailureNeedsReview | FailureExhausted

definition failure_outcome_of :: "failure_code \<Rightarrow> int \<Rightarrow> failure_outcome" where
  "failure_outcome_of code attempts = (if code = FailNeedsContext then FailureNeedsReview
     else if MAINTENANCE_MAX_ATTEMPTS \<le> attempts then FailureExhausted else RetryScheduled)"

fun failed_state :: "failure_outcome \<Rightarrow> task_state" where
  "failed_state RetryScheduled = TaskPending"
| "failed_state FailureNeedsReview = TaskNeedsReview"
| "failed_state FailureExhausted = TaskExhausted"

definition task_failed :: "failure_code \<Rightarrow> int \<Rightarrow> task_row \<Rightarrow> task_row" where
  "task_failed code now t = (let outcome = failure_outcome_of code (mt_attempts t) in
     t\<lparr>mt_state := failed_state outcome, mt_failure_code := Some code,
       mt_next_retry_at := (if outcome = RetryScheduled then Some (now + seconds (min (mt_attempts t * 60) 300)) else None),
       mt_lease_token := None, mt_lease_expires_at := None\<rparr>)"

definition fail_task ::
    "maintenance_env \<Rightarrow> int \<Rightarrow> uuid \<Rightarrow> job_claim \<Rightarrow> failure_code \<Rightarrow> task_store \<Rightarrow> (task_store \<times> failure_outcome) result" where
  "fail_task env now owner claim code s = andThen (claim_gate env owner claim) (\<lambda>_.
     andThen (ok_or (task_of (jc_task_id claim) s) NotFound) (\<lambda>t.
     if \<not> lease_held claim t then Inl ContextChanged
     else if (code = FailLeaseExpired) = lease_live now t then Inl ContextChanged
     else Inr (update_task (mt_id t) (task_failed code now) s, failure_outcome_of code (mt_attempts t))))"

section \<open>Signals\<close>

definition new_task :: "uuid \<Rightarrow> uuid \<Rightarrow> int \<Rightarrow> task_row" where
  "new_task i signal now = \<lparr>mt_id = i, mt_signal_id = signal, mt_revision = 1, mt_state = TaskPending, mt_attempts = 0,
     mt_failure_code = None, mt_next_retry_at = None, mt_lease_token = None, mt_lease_expires_at = None, mt_change_id = None,
     mt_run_id = None, mt_current_review = None, mt_affected_consumers = None, mt_terminal_evidence = None, mt_erased = False,
     mt_created_at = now\<rparr>"

text \<open>The unique index over the signals whose payload is not erased\<close>

definition same_signal :: "uuid \<Rightarrow> int \<Rightarrow> signal_reason \<Rightarrow> str \<Rightarrow> signal_row \<Rightarrow> bool" where
  "same_signal u revision reason digest g \<longleftrightarrow> \<not> sg_erased g \<and> sg_unit_id g = u \<and> sg_unit_revision g = revision \<and>
     sg_reason g = reason \<and> map_option snd (sg_basis g) = Some digest"

text \<open>What a stored task answers with\<close>

definition load_task :: "uuid \<Rightarrow> task_store \<Rightarrow> (task_row \<times> signal_row) result" where
  "load_task i s = andThen (ok_or (Option.bind (task_of i s) (\<lambda>t. map_option (Pair t) (signal_of (mt_signal_id t) s))) NotFound)
     (\<lambda>(t, g). if mt_erased t \<or> sg_erased g then Inl KnowledgePayloadErased
      else if map_option (\<lambda>(b, _). basis_reason b) (sg_basis g) \<noteq> Some (sg_reason g) then Inl InternalInvariant
      else Inr (t, g))"

text \<open>
  The identifiers are fresh ones; an insertion of a row whose key is taken fails, and so does that of a signal of no
  revision, which the table checks before it looks for a conflict. The task and whether the signal is new are the
  answer.
\<close>

definition ensure_signal_task ::
    "maintenance_env \<Rightarrow> int \<Rightarrow> uuid \<Rightarrow> uuid \<Rightarrow> uuid \<Rightarrow> int \<Rightarrow> maintenance_basis \<Rightarrow> bool \<Rightarrow> task_store \<Rightarrow>
      (task_store \<times> uuid \<times> bool) result" where
  "ensure_signal_task env now signal task u revision basis invalidate s = andThen (basis_validate basis) (\<lambda>_.
     let digest = me_digest env basis; reason = basis_reason basis;
       stored = List.find (same_signal u revision reason digest) (ts_signals s);
       signals = (if stored = None then ts_signals s @ [\<lparr>sg_id = signal, sg_unit_id = u, sg_unit_revision = revision,
         sg_reason = reason, sg_basis = Some (basis, digest), sg_erased = False\<rparr>] else ts_signals s);
       stored_signal = (case stored of None \<Rightarrow> signal | Some g \<Rightarrow> sg_id g);
       held = List.find (\<lambda>t. mt_signal_id t = stored_signal) (ts_tasks s);
       tasks = (if held = None then ts_tasks s @ [new_task task stored_signal now] else ts_tasks s);
       i = (case held of None \<Rightarrow> task | Some t \<Rightarrow> mt_id t) in
     andThen (refuse_if (revision < 1 \<or> stored = None \<and> signal \<in> sg_id ` set (ts_signals s) \<or> held = None \<and> task \<in> mt_id ` set (ts_tasks s))
       StorageUnavailable) (\<lambda>_.
     andThen (if stored = None \<and> invalidate then ok_or (checked_add_i64 (ts_generation s) 1) StorageUnavailable
       else Inr (ts_generation s)) (\<lambda>generation.
     let s' = \<lparr>ts_signals = signals, ts_tasks = tasks, ts_generation = generation\<rparr> in
     andThen (load_task i s') (\<lambda>_. Inr (s', i, stored = None)))))"

definition observation_check :: "maintenance_env \<Rightarrow> observe_signal \<Rightarrow> unit result" where
  "observation_check env r = andThen (andThen (me_unit env (os_unit_id r) (os_unit_revision r)) (\<lambda>v. ok_or v NotFound)) (\<lambda>view.
     if view = ViewErased then Inl KnowledgePayloadErased
     else case os_basis r of
       BasisSourceChanged source_iri accepted_digest observed_digest \<Rightarrow>
         andThen (me_logical_uri env (os_unit_id r) (os_unit_revision r) source_iri accepted_digest)
           (\<lambda>found. refuse_if (found = None) ContextChanged)
     | BasisApplicationFailed consumer_ref failure_digest \<Rightarrow>
         andThen (me_consumers env (os_unit_id r) (os_unit_revision r))
           (\<lambda>consumers. refuse_if (\<not> list_ex (\<lambda>c. mc_consumer_ref c = consumer_ref) consumers) ContextChanged)
     | BasisOperatorRequested subject_ref observation_digest \<Rightarrow>
         (case view of
            ViewDocument unit_iri revision_iri \<Rightarrow> refuse_if (subject_ref \<noteq> unit_iri \<and> subject_ref \<noteq> revision_iri) ContextChanged
          | ViewLegacy unit_iri revision_iri \<Rightarrow> refuse_if (subject_ref \<noteq> unit_iri \<and> subject_ref \<noteq> revision_iri) ContextChanged
          | ViewErased \<Rightarrow> Inl KnowledgePayloadErased)
     | _ \<Rightarrow> Inl ContextChanged)"

definition observe ::
    "maintenance_env \<Rightarrow> int \<Rightarrow> uuid \<Rightarrow> uuid \<Rightarrow> uuid \<Rightarrow> observe_signal \<Rightarrow> task_store \<Rightarrow> (task_store \<times> uuid \<times> bool) result" where
  "observe env now owner signal task r s = andThen (observe_validate r) (\<lambda>_. andThen (owner_gate env owner) (\<lambda>_.
     andThen (if basis_reason (os_basis r) = SignalApplicationFailed then me_reconcile env (os_unit_id r) else Inr ()) (\<lambda>_.
     andThen (observation_check env r) (\<lambda>_.
     ensure_signal_task env now signal task (os_unit_id r) (os_unit_revision r) (os_basis r) True s))))"

section \<open>The sweep of due reviews\<close>

text \<open>The active units with the instants of their accepted revision, and how a text is read as an instant\<close>

record due_row =
  dr_unit_id :: uuid
  dr_revision :: int
  dr_valid_from :: "int option"
  dr_due_at :: "int option"
  dr_valid_until :: "int option"
  dr_validation :: "uuid option"

definition review_signalled :: "(str \<Rightarrow> int option) \<Rightarrow> due_row \<Rightarrow> signal_row \<Rightarrow> bool" where
  "review_signalled instant d g \<longleftrightarrow> sg_unit_id g = dr_unit_id d \<and> sg_unit_revision g = dr_revision d \<and>
     sg_reason g = SignalReviewDue \<and> \<not> sg_erased g \<and>
     (case sg_basis g of
        Some (BasisReviewDue review_due_at valid_until validation_event_id, _) \<Rightarrow>
          Option.bind review_due_at instant = dr_due_at d \<and> Option.bind valid_until instant = dr_valid_until d \<and>
          validation_event_id = dr_validation d
      | _ \<Rightarrow> False)"

definition due_units :: "(str \<Rightarrow> int option) \<Rightarrow> due_row list \<Rightarrow> int \<Rightarrow> nat \<Rightarrow> task_store \<Rightarrow> due_row list" where
  "due_units instant rows now limit s = take limit (sort_key dr_unit_id (filter (\<lambda>d.
     \<not> given_and (\<lambda>v. now < v) (dr_valid_from d) \<and>
     (given_and (\<lambda>v. v \<le> now) (dr_due_at d) \<or> given_and (\<lambda>v. v < now) (dr_valid_until d)) \<and>
     \<not> list_ex (review_signalled instant d) (ts_signals s)) rows))"

fun sweep_rows :: "maintenance_env \<Rightarrow> int \<Rightarrow> due_row list \<Rightarrow> task_store \<Rightarrow> task_store result" where
  "sweep_rows env now [] s = Inr s"
| "sweep_rows env now (d # ds) s = andThen (me_review env (dr_unit_id d) (dr_revision d)) (\<lambda>status.
     if rvs_not_yet_valid status \<or> \<not> rvs_due status \<and> \<not> rvs_expired status then Inl InternalInvariant
     else andThen (ensure_signal_task env now (fst (me_fresh env (dr_unit_id d))) (snd (me_fresh env (dr_unit_id d)))
         (dr_unit_id d) (dr_revision d)
         (BasisReviewDue (rvs_review_due_at status) (rvs_valid_until status) (rvs_validation_event_id status)) True s)
       (\<lambda>(s', _, inserted). if inserted then sweep_rows env now ds s' else Inl InternalInvariant))"

definition sweep_due ::
    "maintenance_env \<Rightarrow> (str \<Rightarrow> int option) \<Rightarrow> due_row list \<Rightarrow> int \<Rightarrow> uuid \<Rightarrow> nat \<Rightarrow> task_store \<Rightarrow> task_store result" where
  "sweep_due env instant rows now owner limit s = andThen (owner_gate env owner)
     (\<lambda>_. sweep_rows env now (due_units instant rows now limit s) s)"

section \<open>Linking a task to a change\<close>

definition task_linked :: "uuid \<Rightarrow> uuid \<Rightarrow> review_status \<Rightarrow> maintenance_consumer list \<Rightarrow> task_row \<Rightarrow> task_row" where
  "task_linked change run review consumers t = t\<lparr>mt_state := TaskLinked, mt_failure_code := None, mt_change_id := Some change,
     mt_run_id := Some run, mt_current_review := Some review, mt_affected_consumers := Some consumers\<rparr>"

text \<open>The row is read with its basis, which the type of the query requires to be there.\<close>

definition link_task :: "maintenance_env \<Rightarrow> uuid \<Rightarrow> begin_maintenance \<Rightarrow> task_store \<Rightarrow> task_store result" where
  "link_task env owner r s = andThen (begin_maintenance_validate r) (\<lambda>_. andThen (owner_gate env owner) (\<lambda>_.
     andThen (ok_or (Option.bind (task_of (bm_task_id r) s) (\<lambda>t. map_option (Pair t) (signal_of (mt_signal_id t) s))) NotFound)
       (\<lambda>(t, g). andThen (ok_or (sg_basis g) StorageUnavailable) (\<lambda>(basis, _).
     let u = sg_unit_id g; revision = sg_unit_revision g; hint = hd (kbk_operation_hints (bm_change r)) in
     if mt_erased t then Inl KnowledgePayloadErased
     else if mt_revision t \<noteq> bm_task_revision r \<or> mt_state t \<notin> {TaskNeedsReview, TaskExhausted} then Inl StaleRevision
     else if koh_unit_id hint \<noteq> Some u \<or> koh_expected_revision hint \<noteq> Some revision \<or>
       koh_expected_lifecycle hint \<noteq> Some LifeActive \<or> me_accepted env u \<noteq> Some revision then Inl ContextChanged
     else andThen (me_review env u revision) (\<lambda>review.
     andThen (me_consumers env u revision) (\<lambda>consumers.
     andThen (basis_applies env u revision basis review consumers) (\<lambda>applies_still.
     if \<not> applies_still then Inl ContextChanged
     else andThen (me_begin env (bm_change r)) (\<lambda>(change, run).
     Inr (update_task (mt_id t) (task_linked change run review consumers) s)))))))))"

section \<open>What a publication does\<close>

text \<open>
  The verified review of a run, a verified event with its change, its operation and the addresses and digests of its
  sources, whether the event of a revalidation is stored, the event before an event, and the active units whose
  runbook depends on an address.
\<close>

record publication_env =
  pe_review :: "uuid \<Rightarrow> (review_outcome \<times> str list) result"
  pe_event :: "uuid \<Rightarrow> int \<Rightarrow> uuid \<Rightarrow> bool \<Rightarrow> (uuid \<times> uuid \<times> (str \<times> str) list) result"
  pe_validation :: "uuid \<Rightarrow> uuid \<Rightarrow> int \<Rightarrow> uuid \<Rightarrow> uuid \<Rightarrow> bool"
  pe_previous :: "uuid \<Rightarrow> uuid \<Rightarrow> uuid option"
  pe_dependents :: "uuid \<Rightarrow> str \<Rightarrow> (uuid \<times> int) list"

definition linked_rows :: "uuid \<Rightarrow> task_store \<Rightarrow> (task_row \<times> signal_row) list" where
  "linked_rows change s = List.map_filter (\<lambda>t. case signal_of (mt_signal_id t) s of
     Some g \<Rightarrow> if mt_change_id t = Some change \<and> mt_state t = TaskLinked \<and> \<not> mt_erased t \<and> \<not> sg_erased g then Some (t, g) else None
   | None \<Rightarrow> None) (ts_tasks s)"

definition task_resolved :: "terminal_evidence \<Rightarrow> task_row \<Rightarrow> task_row" where
  "task_resolved evidence t = t\<lparr>mt_state := TaskResolved, mt_terminal_evidence := Some evidence\<rparr>"

definition task_ended :: "task_row \<Rightarrow> task_row" where
  "task_ended t = t\<lparr>mt_state := TaskObsolete, mt_lease_token := None, mt_lease_expires_at := None\<rparr>"

text \<open>A source that changed has to be among the sources of the publication, with the digest that was observed.\<close>

definition source_followed ::
    "maintenance_env \<Rightarrow> signal_row \<Rightarrow> (str \<times> str) list \<Rightarrow> unit result" where
  "source_followed env g sources = (case sg_basis g of
     Some (BasisSourceChanged source_iri accepted_digest observed_digest, _) \<Rightarrow>
       andThen (andThen (me_logical_uri env (sg_unit_id g) (sg_unit_revision g) source_iri accepted_digest) (\<lambda>u. ok_or u NeedsContext))
         (\<lambda>logical_uri. refuse_if ((logical_uri, observed_digest) \<notin> set sources) NeedsContext)
   | _ \<Rightarrow> Inr ())"

definition resolve_row ::
    "maintenance_env \<Rightarrow> publication_env \<Rightarrow> publisher_receipt \<Rightarrow> task_row \<Rightarrow> signal_row \<Rightarrow> task_store \<Rightarrow> task_store result" where
  "resolve_row env pub receipt t g s = (if mt_run_id t \<noteq> Some (kpr_run_id receipt) then Inl InternalInvariant
     else andThen (pe_review pub (kpr_run_id receipt)) (\<lambda>(outcome, reviewed_digests).
     if outcome \<noteq> ReviewReady \<or> map_option snd (sg_basis g) \<notin> Some ` set reviewed_digests then Inl NeedsContext
     else andThen (ok_or (List.find (\<lambda>a. kap_unit_id a = sg_unit_id g) (kpr_applied_operations receipt)) InternalInvariant) (\<lambda>a.
     if kap_operation a = OpRetract \<or> kap_operation a = OpErase then Inr (update_task (mt_id t) task_ended s)
     else andThen (ok_or (kap_revision a) InternalInvariant) (\<lambda>revision.
     if kap_operation a \<notin> {OpRevise, OpRevalidate, OpSupersede} then Inl InternalInvariant
     else andThen (pe_event pub (sg_unit_id g) revision (kap_event_id a) (kap_operation a = OpRevise))
       (\<lambda>(change, operation, sources).
     if change \<noteq> kpr_change_id receipt \<or> operation \<noteq> kap_operation_id a then Inl InternalInvariant
     else andThen (source_followed env g sources) (\<lambda>_.
     if kap_operation a = OpRevalidate \<and> \<not> pe_validation pub (kap_event_id a) (sg_unit_id g) (sg_unit_revision g)
       (kpr_change_id receipt) (kap_operation_id a) then Inl InternalInvariant
     else Inr (update_task (mt_id t) (task_resolved \<lparr>te_change_id = kpr_change_id receipt, te_publisher_receipt_id = kpr_id receipt,
       te_operation_id = kap_operation_id a, te_event_id = kap_event_id a, te_operation = kap_operation a,
       te_unit_revision = revision,
       te_validation_event_id = (if kap_operation a = OpRevalidate then Some (kap_event_id a) else None)\<rparr>) s)))))))"

fun resolve_rows ::
    "maintenance_env \<Rightarrow> publication_env \<Rightarrow> publisher_receipt \<Rightarrow> (task_row \<times> signal_row) list \<Rightarrow> task_store \<Rightarrow> task_store result" where
  "resolve_rows env pub receipt [] s = Inr s"
| "resolve_rows env pub receipt ((t, g) # rows) s =
     andThen (resolve_row env pub receipt t g s) (resolve_rows env pub receipt rows)"

definition MAX_DEPENDENTS_PER_OPERATION :: nat where "MAX_DEPENDENTS_PER_OPERATION = 512"

fun signal_dependents :: "maintenance_env \<Rightarrow> int \<Rightarrow> maintenance_basis \<Rightarrow> (uuid \<times> int) list \<Rightarrow> task_store \<Rightarrow> task_store result" where
  "signal_dependents env now basis [] s = Inr s"
| "signal_dependents env now basis ((u, revision) # units) s = andThen (me_review env u revision) (\<lambda>_.
     andThen (ensure_signal_task env now (fst (me_fresh env u)) (snd (me_fresh env u)) u revision basis False s) (\<lambda>(s', _).
     signal_dependents env now basis units s'))"

fun signal_operations ::
    "maintenance_env \<Rightarrow> publication_env \<Rightarrow> int \<Rightarrow> applied_receipt list \<Rightarrow> task_store \<Rightarrow> task_store result" where
  "signal_operations env pub now [] s = Inr s"
| "signal_operations env pub now (a # applied) s = (let dependents = pe_dependents pub (kap_unit_id a) (kap_unit_iri a) in
     if MAX_DEPENDENTS_PER_OPERATION < length dependents then Inl CapacityExceeded
     else andThen (signal_dependents env now (BasisDependencyChanged (kap_unit_id a) (pe_previous pub (kap_unit_id a) (kap_event_id a))
         (kap_event_id a)) dependents s) (signal_operations env pub now applied))"

definition publication_applied ::
    "maintenance_env \<Rightarrow> publication_env \<Rightarrow> int \<Rightarrow> publisher_receipt \<Rightarrow> task_store \<Rightarrow> task_store result" where
  "publication_applied env pub now receipt s =
     andThen (resolve_rows env pub receipt (linked_rows (kpr_change_id receipt) s) s)
       (signal_operations env pub now (kpr_applied_operations receipt))"

section \<open>Restoring a backup, erasing a unit\<close>

definition reset_restored_leases :: "int \<Rightarrow> task_store \<Rightarrow> task_store" where
  "reset_restored_leases now s =
     s\<lparr>ts_tasks := map (\<lambda>t. if mt_state t = TaskLeased then release (Some now) t else t) (ts_tasks s)\<rparr>"

definition redact_task :: "task_row \<Rightarrow> task_row" where
  "redact_task t = t\<lparr>mt_state := TaskObsolete, mt_lease_token := None, mt_lease_expires_at := None, mt_next_retry_at := None,
     mt_failure_code := None, mt_current_review := None, mt_affected_consumers := None, mt_terminal_evidence := None,
     mt_erased := True, mt_revision := mt_revision t + 1\<rparr>"

definition redact_signal :: "signal_row \<Rightarrow> signal_row" where
  "redact_signal g = g\<lparr>sg_basis := None, sg_erased := True\<rparr>"

definition redact_maintenance :: "uuid \<Rightarrow> task_store \<Rightarrow> task_store" where
  "redact_maintenance u s = s\<lparr>ts_signals := map (\<lambda>g. if sg_unit_id g = u then redact_signal g else g) (ts_signals s),
     ts_tasks := map (\<lambda>t. if given_and (\<lambda>g. sg_unit_id g = u) (signal_of (mt_signal_id t) s) then redact_task t else t) (ts_tasks s)\<rparr>"

section \<open>A turn of the worker\<close>

text \<open>
  After a claim the worker prepares the task; an error that has a failure code is recorded, any other ends the
  batch, and the task keeps its lease until it runs out.
\<close>

fun failure_code_of :: "error \<Rightarrow> failure_code option" where
  "failure_code_of StorageUnavailable = Some FailStorageUnavailable"
| "failure_code_of TransportUnavailable = Some FailTransportUnavailable"
| "failure_code_of InvalidConfiguration = Some FailInvalidConfiguration"
| "failure_code_of InternalInvariant = Some FailInternalInvariant"
| "failure_code_of CapacityExceeded = Some FailCapacityExceeded"
| "failure_code_of NeedsContext = Some FailNeedsContext"
| "failure_code_of ContextChanged = Some FailLeaseExpired"
| "failure_code_of e = None"

definition finish_claim ::
    "maintenance_env \<Rightarrow> int \<Rightarrow> maintenance_env \<Rightarrow> int \<Rightarrow> uuid \<Rightarrow> job_claim \<Rightarrow> task_store \<Rightarrow>
      (task_store \<times> (prepare_outcome + failure_outcome)) result" where
  "finish_claim env now env' now' owner claim s = (case prepare_task env now owner claim s of
     Inr (s', outcome) \<Rightarrow> Inr (s', Inl outcome)
   | Inl e \<Rightarrow> andThen (ok_or (failure_code_of e) e) (\<lambda>code.
       map_sum id (\<lambda>(s', outcome). (s', Inr outcome)) (fail_task env' now' owner claim code s)))"

end
