(* ===== verification/MaintenanceTables.thy ===== *)
theory MaintenanceTables
  imports MaintenanceTasks
begin

text \<open>
  The constraints of the tables of maintenance signals and tasks, that every way an operation changes a row keeps
  them, and that an insertion does.
\<close>

section \<open>Requests\<close>

datatype maintenance_request =
    ClaimRequest maintenance_env int uuid uuid
  | PrepareRequest maintenance_env int uuid job_claim
  | FailRequest maintenance_env int uuid job_claim failure_code
  | ObserveRequest maintenance_env int uuid uuid uuid observe_signal
  | SweepRequest maintenance_env "str \<Rightarrow> int option" "due_row list" int uuid nat
  | LinkRequest maintenance_env uuid begin_maintenance
  | PublishRequest maintenance_env publication_env int publisher_receipt
  | RestoreRequest int
  | RedactRequest uuid

fun maintenance_run :: "maintenance_request \<Rightarrow> task_store \<Rightarrow> task_store result" where
  "maintenance_run (ClaimRequest env now owner token) s = map_sum id fst (claim_task env now owner token s)"
| "maintenance_run (PrepareRequest env now owner claim) s = map_sum id fst (prepare_task env now owner claim s)"
| "maintenance_run (FailRequest env now owner claim code) s = map_sum id fst (fail_task env now owner claim code s)"
| "maintenance_run (ObserveRequest env now owner signal task r) s = map_sum id fst (observe env now owner signal task r s)"
| "maintenance_run (SweepRequest env instant rows now owner limit) s = sweep_due env instant rows now owner limit s"
| "maintenance_run (LinkRequest env owner r) s = link_task env owner r s"
| "maintenance_run (PublishRequest env pub now receipt) s = publication_applied env pub now receipt s"
| "maintenance_run (RestoreRequest now) s = Inr (reset_restored_leases now s)"
| "maintenance_run (RedactRequest u) s = Inr (redact_maintenance u s)"

definition no_tasks :: task_store where
  "no_tasks = \<lparr>ts_signals = [], ts_tasks = [], ts_generation = 0\<rparr>"

section \<open>The constraints of the tables\<close>

text \<open>
  The \<^verbatim>\<open>CHECK\<close> constraints of migration 0029 on a task and on a signal, and that only a task with five attempts is
  exhausted and a pending one has fewer. The keys of both tables, and of the foreign keys the one between them; those to
  the tables of units, changes and runs are outside.
\<close>

definition task_ok :: "task_row \<Rightarrow> bool" where
  "task_ok t \<longleftrightarrow> 1 \<le> mt_revision t \<and> 0 \<le> mt_attempts t \<and> mt_attempts t \<le> 5 \<and>
     (mt_lease_token t \<noteq> None \<longleftrightarrow> mt_state t = TaskLeased) \<and> (mt_lease_expires_at t \<noteq> None \<longleftrightarrow> mt_state t = TaskLeased) \<and>
     (mt_state t = TaskExhausted \<longrightarrow> mt_failure_code t \<noteq> None \<and> mt_attempts t = 5) \<and>
     (mt_state t = TaskPending \<longrightarrow> mt_attempts t < 5) \<and> (mt_state t = TaskLeased \<longrightarrow> 1 \<le> mt_attempts t) \<and>
     (mt_failure_code t = Some FailNeedsContext \<longrightarrow> mt_state t = TaskNeedsReview) \<and>
     (mt_state t \<in> {TaskLinked, TaskResolved} \<longrightarrow> mt_change_id t \<noteq> None \<and> mt_run_id t \<noteq> None) \<and>
     (mt_state t = TaskResolved \<longrightarrow> mt_terminal_evidence t \<noteq> None) \<and>
     (mt_state t \<in> {TaskLinked, TaskResolved} \<longrightarrow> mt_failure_code t = None) \<and>
     (mt_erased t \<longrightarrow> mt_state t = TaskObsolete \<and> mt_current_review t = None \<and> mt_affected_consumers t = None \<and>
       mt_terminal_evidence t = None \<and> mt_failure_code t = None)"

definition signal_ok :: "signal_row \<Rightarrow> bool" where
  "signal_ok g \<longleftrightarrow> 1 \<le> sg_unit_revision g \<and> (sg_erased g \<longleftrightarrow> sg_basis g = None) \<and> (\<forall>b d. sg_basis g = Some (b, d) \<longrightarrow> basis_reason b = sg_reason g)"

definition signal_key :: "signal_row \<Rightarrow> uuid \<times> int \<times> signal_reason \<times> str option" where
  "signal_key g = (sg_unit_id g, sg_unit_revision g, sg_reason g, map_option snd (sg_basis g))"

definition tables_ok :: "task_store \<Rightarrow> bool" where
  "tables_ok s \<longleftrightarrow> distinct (map sg_id (ts_signals s)) \<and> distinct (map mt_id (ts_tasks s)) \<and>
     distinct (map mt_signal_id (ts_tasks s)) \<and> distinct (map signal_key (filter (Not \<circ> sg_erased) (ts_signals s))) \<and>
     list_all task_ok (ts_tasks s) \<and> list_all signal_ok (ts_signals s) \<and>
     list_all (\<lambda>t. list_ex (\<lambda>g. sg_id g = mt_signal_id t \<and> mt_erased t = sg_erased g) (ts_signals s)) (ts_tasks s)"

lemma given_and_simps [simp]: "given_and p None = False" "given_and p (Some x) = p x"
  by (simp_all add: given_and_def)

lemma task_of_SomeD: "task_of i s = Some t \<Longrightarrow> t \<in> set (ts_tasks s) \<and> mt_id t = i"
  by (auto simp: task_of_def find_Some_iff)

lemma signal_of_SomeD: "signal_of i s = Some g \<Longrightarrow> g \<in> set (ts_signals s) \<and> sg_id g = i"
  by (auto simp: signal_of_def find_Some_iff)

section \<open>Every update of a task\<close>

text \<open>
  A request leaves a task as it is, moves it to a new revision, or adds it. \<open>moved\<close> is what an operation may do to
  a row: a row that satisfies the constraints still does, and its identity, signal and erasure stay.
\<close>

definition keeps_row :: "(task_row \<Rightarrow> task_row) \<Rightarrow> task_row \<Rightarrow> bool" where
  "keeps_row f t \<longleftrightarrow> mt_id (f t) = mt_id t \<and> mt_signal_id (f t) = mt_signal_id t \<and> mt_erased (f t) = mt_erased t \<and>
     task_ok (f t)"

lemma signal_of_tasks [simp]: "signal_of i (s\<lparr>ts_tasks := ts\<rparr>) = signal_of i s"
  by (simp add: signal_of_def)

lemma tables_ok_map:
  assumes "tables_ok s" "\<forall>t\<in>set (ts_tasks s). keeps_row f t"
  shows "tables_ok (s\<lparr>ts_tasks := map f (ts_tasks s)\<rparr>)"
proof -
  have "map mt_id (map f (ts_tasks s)) = map mt_id (ts_tasks s)" "map mt_signal_id (map f (ts_tasks s)) = map mt_signal_id (ts_tasks s)"
    using assms(2) by (simp_all add: keeps_row_def)
  then show ?thesis using assms by (simp add: tables_ok_def list_all_iff keeps_row_def del: map_map)
qed

lemma tables_ok_update:
  assumes "tables_ok s" "\<And>t. t \<in> set (ts_tasks s) \<Longrightarrow> mt_id t = i \<Longrightarrow> keeps_row (\<lambda>t. (f t)\<lparr>mt_revision := mt_revision t + 1\<rparr>) t"
  shows "tables_ok (update_task i f s)"
  unfolding update_task_def using assms by (intro tables_ok_map) (auto simp: keeps_row_def tables_ok_def list_all_iff)

lemma release_keeps: "task_ok t \<Longrightarrow> mt_state t = TaskLeased \<Longrightarrow> keeps_row (release r) t"
  by (simp add: keeps_row_def release_def task_ok_def)

lemma recover_keeps: "task_ok t \<Longrightarrow> keeps_row (recover_task now) t"
  using release_keeps [of t] by (simp add: recover_task_def lease_over_def keeps_row_def)

abbreviation bumped :: "(task_row \<Rightarrow> task_row) \<Rightarrow> task_row \<Rightarrow> task_row" where
  "bumped f t \<equiv> (f t)\<lparr>mt_revision := mt_revision t + 1\<rparr>"

lemma lease_keeps: "task_ok t \<Longrightarrow> mt_state t = TaskPending \<Longrightarrow> keeps_row (bumped (lease_task token now)) t"
  by (simp add: keeps_row_def lease_task_def task_ok_def)

lemma needs_review_keeps: "task_ok t \<Longrightarrow> mt_state t = TaskLeased \<Longrightarrow> keeps_row (bumped (task_needs_review review consumers)) t"
  by (simp add: keeps_row_def task_needs_review_def task_ok_def)

lemma superfluous_keeps: "task_ok t \<Longrightarrow> mt_state t = TaskLeased \<Longrightarrow> keeps_row (bumped task_superfluous) t"
  by (simp add: keeps_row_def task_superfluous_def task_ok_def)

lemma failed_keeps: "task_ok t \<Longrightarrow> mt_state t = TaskLeased \<Longrightarrow> keeps_row (bumped (task_failed code now)) t"
  by (cases code) (simp_all add: keeps_row_def task_failed_def task_ok_def failure_outcome_of_def MAINTENANCE_MAX_ATTEMPTS_def Let_def)

lemma linked_keeps: "task_ok t \<Longrightarrow> mt_state t \<in> {TaskNeedsReview, TaskExhausted} \<Longrightarrow>
    keeps_row (bumped (task_linked change run review consumers)) t"
  by (cases "mt_state t") (simp_all add: keeps_row_def task_linked_def task_ok_def)

lemma resolved_keeps: "task_ok t \<Longrightarrow> mt_state t = TaskLinked \<Longrightarrow> keeps_row (bumped (task_resolved evidence)) t"
  by (simp add: keeps_row_def task_resolved_def task_ok_def)

lemma ended_keeps: "task_ok t \<Longrightarrow> mt_state t = TaskLinked \<Longrightarrow> keeps_row (bumped task_ended) t"
  by (simp add: keeps_row_def task_ended_def task_ok_def)

section \<open>Insertions\<close>

lemma find_key_iff: "distinct (map f xs) \<Longrightarrow> List.find (\<lambda>x. f x = k) xs = Some y \<longleftrightarrow> y \<in> set xs \<and> f y = k"
  by (induction xs) auto

lemma signal_of_iff: "distinct (map sg_id (ts_signals s)) \<Longrightarrow> signal_of i s = Some g \<longleftrightarrow> g \<in> set (ts_signals s) \<and> sg_id g = i"
  unfolding signal_of_def by (rule find_key_iff)

lemma task_of_iff: "distinct (map mt_id (ts_tasks s)) \<Longrightarrow> task_of i s = Some t \<longleftrightarrow> t \<in> set (ts_tasks s) \<and> mt_id t = i"
  unfolding task_of_def by (rule find_key_iff)

lemma tables_ok_signal:
  assumes "tables_ok s" "t \<in> set (ts_tasks s)"
  obtains g where "g \<in> set (ts_signals s)" "sg_id g = mt_signal_id t" "mt_erased t = sg_erased g"
  using assms by (auto simp: tables_ok_def list_all_iff list_ex_iff)

lemma tables_ok_intro:
  assumes "distinct (map sg_id (ts_signals s))" "distinct (map mt_id (ts_tasks s))" "distinct (map mt_signal_id (ts_tasks s))"
    and "distinct (map signal_key (filter (Not \<circ> sg_erased) (ts_signals s)))"
    and "\<And>t. t \<in> set (ts_tasks s) \<Longrightarrow> task_ok t" "\<And>g. g \<in> set (ts_signals s) \<Longrightarrow> signal_ok g"
    and "\<And>t. t \<in> set (ts_tasks s) \<Longrightarrow> \<exists>g. g \<in> set (ts_signals s) \<and> sg_id g = mt_signal_id t \<and> mt_erased t = sg_erased g"
  shows "tables_ok s"
  using assms by (simp add: tables_ok_def list_all_iff list_ex_iff Bex_def)

text \<open>An insertion adds at most a signal and at most a task; the task that it answers with has the signal.\<close>

definition inserted :: "maintenance_env \<Rightarrow> int \<Rightarrow> uuid \<Rightarrow> int \<Rightarrow> maintenance_basis \<Rightarrow> task_store \<Rightarrow> task_store \<Rightarrow> uuid \<Rightarrow> bool \<Rightarrow> bool" where
  "inserted env now u revision basis s s' i new \<longleftrightarrow> 1 \<le> revision \<and> (\<exists>g gs ts. ts_signals s' = ts_signals s @ gs \<and> ts_tasks s' = ts_tasks s @ ts \<and>
     same_signal u revision (basis_reason basis) (me_digest env basis) g \<and> g \<in> set (ts_signals s') \<and>
     (if new then gs = [g] \<and> sg_basis g = Some (basis, me_digest env basis) \<and> sg_id g \<notin> sg_id ` set (ts_signals s) \<and>
        list_all (Not \<circ> same_signal u revision (basis_reason basis) (me_digest env basis)) (ts_signals s)
      else gs = []) \<and>
     (ts = [] \<and> (\<exists>t\<in>set (ts_tasks s). mt_id t = i \<and> mt_signal_id t = sg_id g) \<or>
      ts = [new_task i (sg_id g) now] \<and> sg_id g \<notin> mt_signal_id ` set (ts_tasks s) \<and> i \<notin> mt_id ` set (ts_tasks s)))"

lemma ensure_inserted:
  assumes "ensure_signal_task env now signal task u revision basis invalidate s = Inr (s', i, new)"
  shows "inserted env now u revision basis s s' i new"
proof -
  let ?same = "same_signal u revision (basis_reason basis) (me_digest env basis)"
  let ?g = "\<lparr>sg_id = signal, sg_unit_id = u, sg_unit_revision = revision, sg_reason = basis_reason basis,
    sg_basis = Some (basis, me_digest env basis), sg_erased = False\<rparr>"
  have fresh: "?same ?g" by (simp add: same_signal_def)
  have revision: "1 \<le> revision" using assms by (auto simp: ensure_signal_task_def Let_def check_simps)
  show ?thesis
  proof (cases "List.find ?same (ts_signals s)")
    case None
    then have none: "list_all (Not \<circ> ?same) (ts_signals s)" by (auto simp: find_None_iff list_all_iff)
    show ?thesis
    proof (cases "List.find (\<lambda>t. mt_signal_id t = signal) (ts_tasks s)")
      case held: None
      then have "signal \<notin> mt_signal_id ` set (ts_tasks s)" by (auto simp: find_None_iff)
      then show ?thesis using assms None held none fresh unfolding inserted_def
        by (intro conjI [OF revision] exI [of _ ?g] exI [of _ "[?g]"] exI [of _ "[new_task task signal now]"])
          (auto simp: ensure_signal_task_def Let_def check_simps)
    next
      case (Some t)
      then have "t \<in> set (ts_tasks s)" "mt_signal_id t = signal" by (auto simp: find_Some_iff)
      then show ?thesis using assms None Some none fresh unfolding inserted_def
        by (intro conjI [OF revision] exI [of _ ?g] exI [of _ "[?g]"] exI [of _ "[]"])
          (auto simp: ensure_signal_task_def Let_def check_simps)
    qed
  next
    case (Some g)
    then have g: "g \<in> set (ts_signals s)" "?same g" by (auto simp: find_Some_iff)
    show ?thesis
    proof (cases "List.find (\<lambda>t. mt_signal_id t = sg_id g) (ts_tasks s)")
      case held: None
      then have "sg_id g \<notin> mt_signal_id ` set (ts_tasks s)" by (auto simp: find_None_iff)
      then show ?thesis using assms Some held g unfolding inserted_def
        by (intro conjI [OF revision] exI [of _ g] exI [of _ "[]"] exI [of _ "[new_task task (sg_id g) now]"])
          (auto simp: ensure_signal_task_def Let_def check_simps)
    next
      case held: (Some t)
      then have "t \<in> set (ts_tasks s)" "mt_signal_id t = sg_id g" by (auto simp: find_Some_iff)
      then show ?thesis using assms Some held g unfolding inserted_def
        by (intro conjI [OF revision] exI [of _ g] exI [of _ "[]"] exI [of _ "[]"])
          (auto simp: ensure_signal_task_def Let_def check_simps)
    qed
  qed
qed

lemma new_task_ok: "task_ok (new_task i g now)"
  by (simp add: new_task_def task_ok_def)

lemma inserted_ok:
  assumes ok: "tables_ok s" and ins: "inserted env now u revision basis s s' i new"
  shows "tables_ok s'"
proof -
  from ins obtain g gs ts where revision: "1 \<le> revision" and s': "ts_signals s' = ts_signals s @ gs" "ts_tasks s' = ts_tasks s @ ts"
    and same: "same_signal u revision (basis_reason basis) (me_digest env basis) g" "g \<in> set (ts_signals s')"
    and gs: "if new then gs = [g] \<and> sg_basis g = Some (basis, me_digest env basis) \<and> sg_id g \<notin> sg_id ` set (ts_signals s) \<and>
        list_all (Not \<circ> same_signal u revision (basis_reason basis) (me_digest env basis)) (ts_signals s) else gs = []"
    and ts: "ts = [] \<or> ts = [new_task i (sg_id g) now] \<and> sg_id g \<notin> mt_signal_id ` set (ts_tasks s) \<and> i \<notin> mt_id ` set (ts_tasks s)"
    by (auto simp: inserted_def)
  have live: "\<not> sg_erased g" using same(1) by (simp add: same_signal_def)
  show ?thesis
  proof (rule tables_ok_intro)
    show "distinct (map sg_id (ts_signals s'))" using ok gs s' by (cases new) (auto simp: tables_ok_def)
    show "distinct (map mt_id (ts_tasks s'))" "distinct (map mt_signal_id (ts_tasks s'))"
      using ok ts s' by (elim disjE; simp add: tables_ok_def new_task_def)+
    show "distinct (map signal_key (filter (Not \<circ> sg_erased) (ts_signals s')))"
    proof (cases new)
      case True
      have "signal_key g \<noteq> signal_key x" if "x \<in> set (ts_signals s)" "\<not> sg_erased x" for x
      proof
        assume "signal_key g = signal_key x"
        then have "same_signal u revision (basis_reason basis) (me_digest env basis) x"
          using that(2) same(1) by (simp add: signal_key_def same_signal_def)
        then show False using gs True that(1) by (simp add: list_all_iff)
      qed
      then show ?thesis using ok gs True s' live by (auto simp: tables_ok_def)
    qed (use ok gs s' in \<open>auto simp: tables_ok_def\<close>)
    show "task_ok t" if "t \<in> set (ts_tasks s')" for t
      using that ok ts s' new_task_ok by (auto simp: tables_ok_def list_all_iff)
    show "signal_ok x" if "x \<in> set (ts_signals s')" for x
      using that ok gs s' same(1) revision by (cases new) (auto simp: tables_ok_def list_all_iff signal_ok_def same_signal_def)
    show "\<exists>x. x \<in> set (ts_signals s') \<and> sg_id x = mt_signal_id t \<and> mt_erased t = sg_erased x" if "t \<in> set (ts_tasks s')" for t
    proof (cases "t \<in> set (ts_tasks s)")
      case True
      from tables_ok_signal [OF ok True] obtain x where "x \<in> set (ts_signals s)" "sg_id x = mt_signal_id t" "mt_erased t = sg_erased x" .
      then show ?thesis using s' by auto
    next
      case False
      then have "t = new_task i (sg_id g) now" using that ts s' by auto
      then show ?thesis using same(2) live by (intro exI [of _ g]) (simp add: new_task_def)
    qed
  qed
qed

end
