(* ===== verification/MaintenanceSteps.thy ===== *)
theory MaintenanceSteps
  imports MaintenanceTables
begin

text \<open>
  What every request on the maintenance tasks does to their rows: which rows it moves, that it keeps the constraints
  of the tables and lets no row go back, how often it claims a task, and when it accepts a report on a claim.
\<close>

section \<open>What a request does to the rows\<close>

text \<open>
  A row moves to a new revision, stays the task of its signal and keeps the constraints. \<open>P\<close> says which moves a
  request makes; besides them it may insert.
\<close>

definition row_move :: "task_row \<Rightarrow> task_row \<Rightarrow> bool" where
  "row_move t t' \<longleftrightarrow> mt_id t' = mt_id t \<and> mt_signal_id t' = mt_signal_id t \<and> mt_erased t' = mt_erased t \<and>
     mt_revision t' = mt_revision t + 1 \<and> task_ok t'"

inductive store_moves :: "(task_row \<Rightarrow> task_row \<Rightarrow> bool) \<Rightarrow> task_store \<Rightarrow> task_store \<Rightarrow> bool" for P where
  start: "store_moves P s s"
| rows: "store_moves P s s1 \<Longrightarrow> \<forall>t\<in>set (ts_tasks s1). f t = t \<or> row_move t (f t) \<and> P t (f t) \<Longrightarrow>
    store_moves P s (s1\<lparr>ts_tasks := map f (ts_tasks s1)\<rparr>)"
| insertion: "store_moves P s s1 \<Longrightarrow> inserted env now u revision basis s1 s2 i new \<Longrightarrow> store_moves P s s2"

lemma store_moves_trans: "store_moves P s1 s2 \<Longrightarrow> store_moves P s s1 \<Longrightarrow> store_moves P s s2"
  by (induction rule: store_moves.induct) (auto intro: store_moves.intros)

lemma store_moves_mono: "store_moves P s s' \<Longrightarrow> (\<And>t t'. P t t' \<Longrightarrow> Q t t') \<Longrightarrow> store_moves Q s s'"
proof (induction rule: store_moves.induct)
  case (rows s s1 f)
  have "\<forall>t\<in>set (ts_tasks s1). f t = t \<or> row_move t (f t) \<and> Q t (f t)" using rows.hyps(2) rows.prems by blast
  with rows.IH [OF rows.prems] show ?case by (rule store_moves.rows)
next
  case (insertion s s1 env now u revision basis s2 i new)
  from store_moves.insertion [OF insertion.IH [OF insertion.prems] insertion.hyps(2)] show ?case .
qed (rule store_moves.start)

lemma store_moves_ok: "store_moves P s s' \<Longrightarrow> tables_ok s \<Longrightarrow> tables_ok s'"
proof (induction rule: store_moves.induct)
  case (rows s s1 f)
  have ok: "tables_ok s1" by (rule rows.IH [OF rows.prems])
  have "keeps_row f t" if "t \<in> set (ts_tasks s1)" for t
  proof -
    have "task_ok t" using ok that by (simp add: tables_ok_def list_all_iff)
    moreover have "f t = t \<or> row_move t (f t)" using rows.hyps(2) that by blast
    ultimately show ?thesis by (elim disjE) (simp_all add: row_move_def keeps_row_def)
  qed
  then show ?case by (intro tables_ok_map [OF ok] ballI)
qed (auto intro: inserted_ok)

lemma update_moves:
  assumes "tables_ok s" "t \<in> set (ts_tasks s)" "keeps_row (bumped f) t" "P t (bumped f t)"
  shows "store_moves P s (update_task (mt_id t) f s)"
proof -
  have "x = t" if "x \<in> set (ts_tasks s)" "mt_id x = mt_id t" for x
    using assms(1,2) that by (auto simp: tables_ok_def distinct_map inj_on_def)
  then show ?thesis unfolding update_task_def using assms(3,4)
    by (intro store_moves.rows store_moves.start) (auto simp: row_move_def keeps_row_def)
qed

lemma ensure_moves: "ensure_signal_task env now signal task u revision basis invalidate s = Inr (s', i, new) \<Longrightarrow> store_moves P s s'"
  using ensure_inserted store_moves.insertion store_moves.start by metis

text \<open>Moves out of some states that leave the number of attempts\<close>

definition leaves :: "task_state set \<Rightarrow> task_row \<Rightarrow> task_row \<Rightarrow> bool" where
  "leaves states t t' \<longleftrightarrow> mt_state t \<in> states \<and> mt_attempts t' = mt_attempts t"

lemma task_ok_of: "tables_ok s \<Longrightarrow> t \<in> set (ts_tasks s) \<Longrightarrow> task_ok t"
  by (simp add: tables_ok_def list_all_iff)

lemma prepare_moves:
  assumes ok: "tables_ok s" and run: "prepare_task env now owner claim s = Inr (s', outcome)"
  obtains t f where "task_of (jc_task_id claim) s = Some t" "lease_held claim t" "lease_live now t"
    "s' = update_task (mt_id t) f s" "store_moves (leaves {TaskLeased}) s s'"
proof -
  from run obtain t where t: "task_of (jc_task_id claim) s = Some t" "lease_held claim t" "lease_live now t"
    and s': "(\<exists>review consumers. s' = update_task (mt_id t) (task_needs_review review consumers) s) \<or>
      s' = update_task (mt_id t) task_superfluous s"
    by (auto simp: prepare_task_def Let_def check_simps ok_or_Inr split: if_splits option.splits)
  have mem: "t \<in> set (ts_tasks s)" using t(1) by (simp add: task_of_SomeD)
  have leased: "mt_state t = TaskLeased" using t(2) by (simp add: lease_held_def)
  note t_ok = task_ok_of [OF ok mem]
  from s' show thesis
  proof (elim disjE exE)
    fix review consumers assume eq: "s' = update_task (mt_id t) (task_needs_review review consumers) s"
    show thesis
      by (rule that [OF t eq], unfold eq, rule update_moves [OF ok mem needs_review_keeps [OF t_ok leased]])
        (simp add: leaves_def leased task_needs_review_def)
  next
    assume eq: "s' = update_task (mt_id t) task_superfluous s"
    show thesis
      by (rule that [OF t eq], unfold eq, rule update_moves [OF ok mem superfluous_keeps [OF t_ok leased]])
        (simp add: leaves_def leased task_superfluous_def)
  qed
qed

lemma fail_moves:
  assumes ok: "tables_ok s" and run: "fail_task env now owner claim code s = Inr (s', outcome)"
  obtains t f where "task_of (jc_task_id claim) s = Some t" "lease_held claim t"
    "s' = update_task (mt_id t) f s" "store_moves (leaves {TaskLeased}) s s'"
proof -
  from run obtain t where t: "task_of (jc_task_id claim) s = Some t" "lease_held claim t"
    and s': "s' = update_task (mt_id t) (task_failed code now) s"
    by (auto simp: fail_task_def check_simps ok_or_Inr split: if_splits)
  have mem: "t \<in> set (ts_tasks s)" using t(1) by (simp add: task_of_SomeD)
  have leased: "mt_state t = TaskLeased" using t(2) by (simp add: lease_held_def)
  show thesis
    by (rule that [OF t s'], unfold s', rule update_moves [OF ok mem failed_keeps [OF task_ok_of [OF ok mem] leased]])
      (simp add: leaves_def leased task_failed_def Let_def)
qed

lemma restore_moves:
  assumes "tables_ok s"
  shows "store_moves (leaves {TaskLeased}) s (reset_restored_leases now s)"
  unfolding reset_restored_leases_def using release_keeps task_ok_of [OF assms]
  by (intro store_moves.rows store_moves.start) (auto simp: row_move_def keeps_row_def leaves_def release_def)

lemma recover_moves:
  assumes "tables_ok s"
  shows "store_moves (leaves {TaskLeased}) s (s\<lparr>ts_tasks := map (recover_task now) (ts_tasks s)\<rparr>)"
  using release_keeps task_ok_of [OF assms]
  by (intro store_moves.rows store_moves.start)
    (auto simp: row_move_def keeps_row_def leaves_def recover_task_def release_def lease_over_def)

lemma link_moves:
  assumes ok: "tables_ok s" and run: "link_task env owner r s = Inr s'"
  shows "store_moves (leaves {TaskNeedsReview, TaskExhausted}) s s'"
proof -
  from run obtain t change run' review consumers where t: "task_of (bm_task_id r) s = Some t"
    "mt_state t \<in> {TaskNeedsReview, TaskExhausted}" and s': "s' = update_task (mt_id t) (task_linked change run' review consumers) s"
    by (auto simp: link_task_def Let_def check_simps ok_or_Inr bind_eq_Some_conv split: if_splits)
  have mem: "t \<in> set (ts_tasks s)" using t(1) by (simp add: task_of_SomeD)
  show ?thesis unfolding s'
    by (rule update_moves [OF ok mem linked_keeps [OF task_ok_of [OF ok mem] t(2)]]) (use t(2) in \<open>simp add: leaves_def task_linked_def\<close>)
qed

lemma observe_moves: "observe env now owner signal task r s = Inr (s', i, new) \<Longrightarrow> store_moves P s s'"
  by (auto simp: observe_def check_simps intro: ensure_moves)


lemma sweep_rows_moves: "sweep_rows env now ds s = Inr s' \<Longrightarrow> store_moves P s s'"
proof (induction ds arbitrary: s)
  case (Cons d ds)
  from Cons.prems obtain s1 where s1: "store_moves P s s1" "sweep_rows env now ds s1 = Inr s'"
    by (auto simp: check_simps split: if_splits intro: ensure_moves)
  from store_moves_trans [OF Cons.IH [OF s1(2)] s1(1)] show ?case .
qed (simp add: store_moves.start)

lemma signal_dependents_moves: "signal_dependents env now basis units s = Inr s' \<Longrightarrow> store_moves P s s'"
proof (induction units arbitrary: s)
  case (Cons d units)
  from Cons.prems obtain s1 where s1: "store_moves P s s1" "signal_dependents env now basis units s1 = Inr s'"
    by (cases d) (auto simp: check_simps intro: ensure_moves)
  from store_moves_trans [OF Cons.IH [OF s1(2)] s1(1)] show ?case .
qed (simp add: store_moves.start)

lemma signal_operations_moves: "signal_operations env pub now applied s = Inr s' \<Longrightarrow> store_moves P s s'"
proof (induction applied arbitrary: s)
  case (Cons a applied)
  from Cons.prems obtain s1 where s1: "store_moves P s s1" "signal_operations env pub now applied s1 = Inr s'"
    by (auto simp: Let_def check_simps split: if_splits intro: signal_dependents_moves)
  from store_moves_trans [OF Cons.IH [OF s1(2)] s1(1)] show ?case .
qed (simp add: store_moves.start)

text \<open>A publication moves tasks that are linked to its change and run.\<close>

definition resolves :: "publisher_receipt \<Rightarrow> task_row \<Rightarrow> task_row \<Rightarrow> bool" where
  "resolves receipt t t' \<longleftrightarrow> leaves {TaskLinked} t t' \<and> mt_change_id t = Some (kpr_change_id receipt) \<and>
     mt_run_id t = Some (kpr_run_id receipt)"

lemma resolve_row_moves:
  assumes "resolve_row env pub receipt t g s = Inr s'"
  obtains f where "s' = update_task (mt_id t) f s" "f = task_ended \<or> (\<exists>evidence. f = task_resolved evidence)"
    "mt_run_id t = Some (kpr_run_id receipt)"
  using assms by (auto simp: resolve_row_def check_simps split: if_splits)

lemma resolve_rows_moves:
  "resolve_rows env pub receipt rows s = Inr s' \<Longrightarrow> tables_ok s \<Longrightarrow> distinct (map (\<lambda>x. mt_id (fst x)) rows) \<Longrightarrow>
    \<forall>(t, g)\<in>set rows. t \<in> set (ts_tasks s) \<and> mt_state t = TaskLinked \<and> mt_change_id t = Some (kpr_change_id receipt) \<Longrightarrow>
    store_moves (resolves receipt) s s'"
proof (induction rows arbitrary: s)
  case (Cons x rows)
  obtain t g where x: "x = (t, g)" by (cases x)
  from Cons.prems(1) x obtain s1 where s1: "resolve_row env pub receipt t g s = Inr s1"
    and rest: "resolve_rows env pub receipt rows s1 = Inr s'" by (auto simp: check_simps)
  from Cons.prems(4) x have t: "t \<in> set (ts_tasks s)" "mt_state t = TaskLinked" "mt_change_id t = Some (kpr_change_id receipt)"
    by auto
  from resolve_row_moves [OF s1] obtain f where f: "s1 = update_task (mt_id t) f s"
    "f = task_ended \<or> (\<exists>evidence. f = task_resolved evidence)" "mt_run_id t = Some (kpr_run_id receipt)" .
  have "keeps_row (bumped f) t"
    using f(2) ended_keeps resolved_keeps task_ok_of [OF Cons.prems(2) t(1)] t(2) by blast
  moreover have "resolves receipt t (bumped f t)"
    using f(2,3) t by (auto simp: resolves_def leaves_def task_ended_def task_resolved_def)
  ultimately have step: "store_moves (resolves receipt) s s1"
    unfolding f(1) by (rule update_moves [OF Cons.prems(2) t(1)])
  have "store_moves (resolves receipt) s1 s'"
  proof (rule Cons.IH [OF rest store_moves_ok [OF step Cons.prems(2)]])
    show "distinct (map (\<lambda>x. mt_id (fst x)) rows)" using Cons.prems(3) by simp
    have "mt_id y \<noteq> mt_id t" if "(y, z) \<in> set rows" for y z using Cons.prems(3) that x by force
    then show "\<forall>(t, g)\<in>set rows. t \<in> set (ts_tasks s1) \<and> mt_state t = TaskLinked \<and> mt_change_id t = Some (kpr_change_id receipt)"
      using Cons.prems(4) by (force simp: f(1) update_task_def)
  qed
  then show ?case using step by (rule store_moves_trans)
qed (simp add: store_moves.start)

lemma linked_rows_are:
  assumes "tables_ok s"
  shows "distinct (map (\<lambda>x. mt_id (fst x)) (linked_rows change s))"
    and "(t, g) \<in> set (linked_rows change s) \<Longrightarrow> t \<in> set (ts_tasks s) \<and> mt_state t = TaskLinked \<and> mt_change_id t = Some change"
proof -
  define sel :: "task_row \<Rightarrow> (task_row \<times> signal_row) option" where "sel = (\<lambda>t. case signal_of (mt_signal_id t) s of
    Some g \<Rightarrow> if mt_change_id t = Some change \<and> mt_state t = TaskLinked \<and> \<not> mt_erased t \<and> \<not> sg_erased g then Some (t, g) else None
  | None \<Rightarrow> None)"
  have sel: "sel t = Some (x, g) \<Longrightarrow> x = t \<and> mt_state t = TaskLinked \<and> mt_change_id t = Some change" for t x g
    by (auto simp: sel_def split: option.splits if_splits)
  have rows: "linked_rows change s = List.map_filter sel (ts_tasks s)" by (simp add: linked_rows_def sel_def)
  have sub: "set (List.map_filter sel ts) \<subseteq> {(t, g). t \<in> set ts \<and> sel t = Some (t, g)}" for ts
  proof
    fix y assume "y \<in> set (List.map_filter sel ts)"
    then obtain t where t: "t \<in> set ts" "sel t = Some y" by (auto simp: map_filter_def)
    obtain t' g where y: "y = (t', g)" by (cases y)
    then have "t' = t" using sel [of t t' g] t(2) by simp
    then show "y \<in> {(t, g). t \<in> set ts \<and> sel t = Some (t, g)}" using t y by simp
  qed
  have "distinct (map mt_id ts) \<Longrightarrow> distinct (map (\<lambda>x. mt_id (fst x)) (List.map_filter sel ts))" for ts
  proof (induction ts)
    case (Cons t ts)
    have "mt_id t \<notin> (\<lambda>x. mt_id (fst x)) ` set (List.map_filter sel ts)" using Cons.prems sub [of ts] by force
    moreover have "mt_id (fst y) = mt_id t" if "sel t = Some y" for y using sel [of t "fst y" "snd y"] that by simp
    ultimately show ?case using Cons by (cases "sel t") (simp_all add: map_filter_simps)
  qed (simp add: map_filter_simps)
  then show "distinct (map (\<lambda>x. mt_id (fst x)) (linked_rows change s))" using assms by (simp add: rows tables_ok_def)
  show "(t, g) \<in> set (linked_rows change s) \<Longrightarrow> t \<in> set (ts_tasks s) \<and> mt_state t = TaskLinked \<and> mt_change_id t = Some change"
    using sub [of "ts_tasks s"] sel [of t t g] by (auto simp: rows)
qed

lemma publication_moves:
  assumes ok: "tables_ok s" and run: "publication_applied env pub now receipt s = Inr s'"
  shows "store_moves (resolves receipt) s s'"
proof -
  from run obtain s1 where s1: "resolve_rows env pub receipt (linked_rows (kpr_change_id receipt) s) s = Inr s1"
    "signal_operations env pub now (kpr_applied_operations receipt) s1 = Inr s'" by (auto simp: publication_applied_def check_simps)
  have "store_moves (resolves receipt) s s1"
    using linked_rows_are [OF ok] by (intro resolve_rows_moves [OF s1(1) ok]) auto
  with signal_operations_moves [OF s1(2)] show ?thesis by (rule store_moves_trans)
qed

lemma first_due_mem:
  assumes "first_due ts = Some t"
  shows "t \<in> set ts"
proof -
  from assms obtain rest where "sort_key due_at (sort_key mt_id ts) = t # rest" by (auto simp: first_due_def split: list.splits)
  then have "t \<in> set (sort_key due_at (sort_key mt_id ts))" by simp
  then show ?thesis by simp
qed

lemma claim_moves:
  assumes ok: "tables_ok s" and run: "claim_task env now owner token s = Inr (s', claim, n)"
  obtains s1 where "store_moves (leaves {TaskLeased}) s s1" "claim = None" "s' = s1"
  | s1 t c where "store_moves (leaves {TaskLeased}) s s1" "claim = Some c" "t \<in> set (ts_tasks s1)"
      "jc_task_id c = mt_id t" "jc_task_revision c = mt_revision t + 1" "jc_lease_token c = token" "claimable env now s1 t"
      "s' = update_task (mt_id t) (lease_task token now) s1"
proof -
  define s1 where "s1 = s\<lparr>ts_tasks := map (recover_task now) (ts_tasks s)\<rparr>"
  have step: "store_moves (leaves {TaskLeased}) s s1" unfolding s1_def by (rule recover_moves [OF ok])
  show thesis
  proof (cases "first_due (filter (claimable env now s1) (ts_tasks s1))")
    case None
    then have "claim = None" "s' = s1" using run by (simp_all add: claim_task_def check_simps Let_def s1_def)
    then show thesis using that(1) step by blast
  next
    case (Some t)
    then have "t \<in> set (filter (claimable env now s1) (ts_tasks s1))" by (rule first_due_mem)
    then have t: "t \<in> set (ts_tasks s1)" "claimable env now s1 t" by simp_all
    from Some run have "s' = update_task (mt_id t) (lease_task token now) s1"
      "claim = Some \<lparr>jc_task_id = mt_id t, jc_task_revision = mt_revision t + 1, jc_lease_token = token,
         jc_workspace_id = me_workspace env, jc_principal_id = owner\<rparr>"
      by (simp_all add: claim_task_def check_simps Let_def s1_def [symmetric])
    then show thesis using that(2) [OF step _ t(1) _ _ _ t(2)] by simp
  qed
qed

section \<open>Every request keeps the constraints\<close>

lemma task_ok_bounds: "task_ok t \<Longrightarrow> 1 \<le> mt_revision t \<and> 0 \<le> mt_attempts t \<and> mt_attempts t \<le> 5"
  by (simp only: task_ok_def)

lemma redact_task_ok: "task_ok t \<Longrightarrow> task_ok (redact_task t)"
  by (drule task_ok_bounds) (simp add: redact_task_def task_ok_def)

lemma redact_ok:
  assumes ok: "tables_ok s"
  shows "tables_ok (redact_maintenance u s)"
proof -
  let ?g = "\<lambda>g. if sg_unit_id g = u then redact_signal g else g"
  let ?t = "\<lambda>t. if given_and (\<lambda>g. sg_unit_id g = u) (signal_of (mt_signal_id t) s) then redact_task t else t"
  have ids: "map sg_id (map ?g (ts_signals s)) = map sg_id (ts_signals s)" "map mt_id (map ?t (ts_tasks s)) = map mt_id (ts_tasks s)"
    "map mt_signal_id (map ?t (ts_tasks s)) = map mt_signal_id (ts_tasks s)"
    by (simp_all add: redact_signal_def redact_task_def)
  have live: "filter (Not \<circ> sg_erased) (map ?g gs) = filter (\<lambda>g. sg_unit_id g \<noteq> u) (filter (Not \<circ> sg_erased) gs)" for gs
    by (induction gs) (auto simp: redact_signal_def)
  have keys: "distinct (map signal_key (filter (\<lambda>g. sg_unit_id g \<noteq> u) (filter (Not \<circ> sg_erased) (ts_signals s))))"
    by (rule distinct_map_filter) (use ok in \<open>simp add: tables_ok_def\<close>)
  have "distinct (map sg_id (ts_signals s))" using ok by (simp add: tables_ok_def)
  note signal_iff = signal_of_iff [OF this]
  have sigs: "signal_ok (?g g)" if "signal_ok g" for g using that by (simp add: signal_ok_def redact_signal_def)
  show ?thesis
  proof (rule tables_ok_intro)
    show "\<exists>g. g \<in> set (ts_signals (redact_maintenance u s)) \<and> sg_id g = mt_signal_id t \<and> mt_erased t = sg_erased g"
      if t: "t \<in> set (ts_tasks (redact_maintenance u s))" for t
    proof -
      from t obtain x where x: "x \<in> set (ts_tasks s)" "t = ?t x" by (auto simp: redact_maintenance_def)
      from tables_ok_signal [OF ok x(1)] obtain g where g: "g \<in> set (ts_signals s)" "sg_id g = mt_signal_id x" "mt_erased x = sg_erased g" .
      then have "signal_of (mt_signal_id x) s = Some g" by (simp add: signal_iff)
      then have "sg_id (?g g) = mt_signal_id t" "mt_erased t = sg_erased (?g g)"
        using x(2) g by (simp_all add: redact_task_def redact_signal_def)
      moreover have "?g g \<in> set (ts_signals (redact_maintenance u s))" using g(1) unfolding redact_maintenance_def by simp
      ultimately show ?thesis by blast
    qed
    show "task_ok t" if "t \<in> set (ts_tasks (redact_maintenance u s))" for t
      using that task_ok_of [OF ok] redact_task_ok by (auto simp: redact_maintenance_def)
    show "signal_ok g" if "g \<in> set (ts_signals (redact_maintenance u s))" for g
    proof -
      from that obtain x where x: "x \<in> set (ts_signals s)" "g = ?g x" by (auto simp: redact_maintenance_def)
      then have "signal_ok x" using ok by (simp add: tables_ok_def list_all_iff)
      then show ?thesis unfolding x(2) by (rule sigs)
    qed
  qed (use ok ids keys live in \<open>simp_all add: redact_maintenance_def tables_ok_def del: map_map\<close>)
qed

lemma claim_step:
  assumes ok: "tables_ok s" and run: "claim_task env now owner token s = Inr (s', claim, n)"
  shows "store_moves (\<lambda>t _. mt_state t \<in> {TaskLeased, TaskPending}) s s'"
  using claim_moves [OF ok run]
proof cases
  case (1 s1)
  show ?thesis unfolding 1(3) by (rule store_moves_mono [OF 1(1)]) (simp add: leaves_def)
next
  case (2 s1 t c)
  note ok1 = store_moves_ok [OF 2(1) ok]
  have pending: "mt_state t = TaskPending" using 2(7) by (simp add: claimable_def)
  have step: "store_moves (\<lambda>t _. mt_state t \<in> {TaskLeased, TaskPending}) s1 s'" unfolding 2(8)
    by (rule update_moves [OF ok1 2(3) lease_keeps [OF task_ok_of [OF ok1 2(3)] pending]]) (simp add: pending)
  have "store_moves (\<lambda>t _. mt_state t \<in> {TaskLeased, TaskPending}) s s1"
    by (rule store_moves_mono [OF 2(1)]) (simp add: leaves_def)
  with step show ?thesis by (rule store_moves_trans)
qed

text \<open>The moves of each request\<close>

fun moves_of :: "maintenance_request \<Rightarrow> task_row \<Rightarrow> task_row \<Rightarrow> bool" where
  "moves_of (ClaimRequest env now owner token) = (\<lambda>t _. mt_state t \<in> {TaskLeased, TaskPending})"
| "moves_of (PrepareRequest env now owner claim) = leaves {TaskLeased}"
| "moves_of (FailRequest env now owner claim code) = leaves {TaskLeased}"
| "moves_of (RestoreRequest now) = leaves {TaskLeased}"
| "moves_of (LinkRequest env owner r) = leaves {TaskNeedsReview, TaskExhausted}"
| "moves_of (PublishRequest env pub now receipt) = resolves receipt"
| "moves_of _ = (\<lambda>_ _. False)"

lemma run_moves:
  assumes ok: "tables_ok s" and run: "maintenance_run r s = Inr s'" and "\<And>u. r \<noteq> RedactRequest u"
  shows "store_moves (moves_of r) s s'"
proof (cases r)
  case (ClaimRequest env now owner token)
  then obtain c n where "claim_task env now owner token s = Inr (s', c, n)"
    using run by (cases "claim_task env now owner token s") auto
  from claim_step [OF ok this] ClaimRequest show ?thesis by simp
next
  case (PrepareRequest env now owner claim)
  then obtain out where "prepare_task env now owner claim s = Inr (s', out)"
    using run by (cases "prepare_task env now owner claim s") auto
  from prepare_moves [OF ok this] PrepareRequest show ?thesis by auto
next
  case (FailRequest env now owner claim code)
  then obtain out where "fail_task env now owner claim code s = Inr (s', out)"
    using run by (cases "fail_task env now owner claim code s") auto
  from fail_moves [OF ok this] FailRequest show ?thesis by auto
next
  case (ObserveRequest env now owner signal task x)
  then obtain i new where "observe env now owner signal task x s = Inr (s', i, new)"
    using run by (cases "observe env now owner signal task x s") auto
  from observe_moves [OF this] ObserveRequest show ?thesis by simp
next
  case (SweepRequest env instant rows now owner limit)
  then show ?thesis using run sweep_rows_moves by (auto simp: sweep_due_def check_simps)
next
  case (PublishRequest env pub now receipt)
  then show ?thesis using run publication_moves [OF ok] by simp
qed (use run link_moves [OF ok] restore_moves [OF ok] assms(3) in auto)

lemma run_ok: "tables_ok s \<Longrightarrow> maintenance_run r s = Inr s' \<Longrightarrow> tables_ok s'"
proof (cases "\<exists>u. r = RedactRequest u")
  case False
  then show "tables_ok s \<Longrightarrow> maintenance_run r s = Inr s' \<Longrightarrow> tables_ok s'" using run_moves store_moves_ok by blast
qed (auto simp: redact_ok)

interpretation maintenance: invariant_machine maintenance_run tables_ok
  by unfold_locales (rule run_ok)

lemma no_tasks_ok: "tables_ok no_tasks"
  by (simp add: tables_ok_def no_tasks_def)

lemmas reachable_ok = maintenance.history_inv [OF no_tasks_ok]

section \<open>Rows over time\<close>

text \<open>No row disappears, and a row that changes gets a later revision.\<close>

definition later_rows :: "task_store \<Rightarrow> task_store \<Rightarrow> bool" where
  "later_rows s s' \<longleftrightarrow> (\<forall>t\<in>set (ts_tasks s). \<exists>t'\<in>set (ts_tasks s'). mt_id t' = mt_id t \<and>
     (t' = t \<or> mt_revision t < mt_revision t'))"

lemma later_rows_refl: "later_rows s s"
  by (auto simp: later_rows_def)

lemma later_rows_trans: "later_rows s s1 \<Longrightarrow> later_rows s1 s2 \<Longrightarrow> later_rows s s2"
proof (unfold later_rows_def, intro ballI)
  fix t assume r: "\<forall>t\<in>set (ts_tasks s). \<exists>t'\<in>set (ts_tasks s1). mt_id t' = mt_id t \<and> (t' = t \<or> mt_revision t < mt_revision t')"
    "\<forall>t\<in>set (ts_tasks s1). \<exists>t'\<in>set (ts_tasks s2). mt_id t' = mt_id t \<and> (t' = t \<or> mt_revision t < mt_revision t')"
    and t: "t \<in> set (ts_tasks s)"
  from r(1) t obtain t1 where t1: "t1 \<in> set (ts_tasks s1)" "mt_id t1 = mt_id t" "t1 = t \<or> mt_revision t < mt_revision t1" by blast
  from r(2) t1(1) obtain t2 where "t2 \<in> set (ts_tasks s2)" "mt_id t2 = mt_id t1" "t2 = t1 \<or> mt_revision t1 < mt_revision t2" by blast
  with t1 show "\<exists>t'\<in>set (ts_tasks s2). mt_id t' = mt_id t \<and> (t' = t \<or> mt_revision t < mt_revision t')"
    by (intro bexI [of _ t2]) auto
qed

lemma store_moves_later: "store_moves P s s' \<Longrightarrow> later_rows s s'"
proof (induction rule: store_moves.induct)
  case (rows s s1 f)
  have "later_rows s1 (s1\<lparr>ts_tasks := map f (ts_tasks s1)\<rparr>)"
    unfolding later_rows_def
  proof
    fix t assume t: "t \<in> set (ts_tasks s1)"
    then have "f t = t \<or> row_move t (f t)" using rows.hyps(2) by blast
    then have "mt_id (f t) = mt_id t \<and> (f t = t \<or> mt_revision t < mt_revision (f t))"
      by (elim disjE) (simp_all add: row_move_def)
    then show "\<exists>t'\<in>set (ts_tasks (s1\<lparr>ts_tasks := map f (ts_tasks s1)\<rparr>)). mt_id t' = mt_id t \<and> (t' = t \<or> mt_revision t < mt_revision t')"
      using t by (intro bexI [of _ "f t"]) simp_all
  qed
  with rows.IH show ?case by (rule later_rows_trans)
next
  case (insertion s s1 env now u revision basis s2 i new)
  have "later_rows s1 s2" using insertion.hyps(2) by (auto simp: inserted_def later_rows_def)
  with insertion.IH show ?case by (rule later_rows_trans)
qed (rule later_rows_refl)

lemma run_later: "tables_ok s \<Longrightarrow> maintenance_run r s = Inr s' \<Longrightarrow> later_rows s s'"
proof (cases "\<exists>u. r = RedactRequest u")
  case True
  then obtain u where u: "r = RedactRequest u" by blast
  have "\<exists>t'\<in>set (ts_tasks (redact_maintenance u s)). mt_id t' = mt_id t \<and> (t' = t \<or> mt_revision t < mt_revision t')"
    if "t \<in> set (ts_tasks s)" for t
    using that by (intro bexI [of _ "if given_and (\<lambda>g. sg_unit_id g = u) (signal_of (mt_signal_id t) s) then redact_task t else t"])
      (simp_all add: redact_maintenance_def redact_task_def)
  then show "maintenance_run r s = Inr s' \<Longrightarrow> later_rows s s'" using u by (auto simp: later_rows_def)
qed (use run_moves store_moves_later in blast)

lemma history_later: "tables_ok s \<Longrightarrow> later_rows s (history maintenance_run s rs)"
  by (rule maintenance.history_preserves [where R = later_rows]) (auto intro: later_rows_refl later_rows_trans run_later)

section \<open>Attempts\<close>

definition attempts_of :: "uuid \<Rightarrow> task_store \<Rightarrow> int" where
  "attempts_of i s = (case task_of i s of None \<Rightarrow> 0 | Some t \<Rightarrow> mt_attempts t)"

lemma task_of_map:
  assumes "\<And>t. t \<in> set ts \<Longrightarrow> mt_id (f t) = mt_id t"
  shows "List.find (\<lambda>t. mt_id t = i) (map f ts) = map_option f (List.find (\<lambda>t. mt_id t = i) ts)"
  using assms by (induction ts) auto

lemma find_snoc: "List.find p (xs @ [x]) = (case List.find p xs of None \<Rightarrow> if p x then Some x else None | Some y \<Rightarrow> Some y)"
  by (induction xs) auto

lemma inserted_task_of:
  assumes "inserted env now u revision basis s s' i new"
  shows "task_of j s \<noteq> None \<Longrightarrow> task_of j s' = task_of j s"
    and "task_of j s = None \<Longrightarrow> task_of j s' = None \<or> (\<exists>g. task_of j s' = Some (new_task j g now))"
proof -
  from assms obtain g ts where ts: "ts_tasks s' = ts_tasks s @ ts" "ts = [] \<or> ts = [new_task i g now]"
    by (auto simp: inserted_def)
  show "task_of j s \<noteq> None \<Longrightarrow> task_of j s' = task_of j s"
    using ts by (auto simp: task_of_def find_snoc)
  show "task_of j s = None \<Longrightarrow> task_of j s' = None \<or> (\<exists>g. task_of j s' = Some (new_task j g now))"
    using ts by (auto simp: task_of_def find_snoc new_task_def)
qed

text \<open>A property of a row that no move concerns and no insertion gives\<close>

lemma store_moves_attempts:
  assumes "store_moves P s s'" "\<And>t t'. P t t' \<Longrightarrow> mt_attempts t' = mt_attempts t"
  shows "attempts_of i s' = attempts_of i s"
  using assms(1)
proof (induction rule: store_moves.induct)
  case (rows s s1 f)
  have same: "mt_id (f t) = mt_id t \<and> mt_attempts (f t) = mt_attempts t" if "t \<in> set (ts_tasks s1)" for t
  proof -
    have "f t = t \<or> row_move t (f t) \<and> P t (f t)" using rows.hyps(2) that by blast
    then show ?thesis using assms(2) by (elim disjE) (simp_all add: row_move_def)
  qed
  then have "task_of i (s1\<lparr>ts_tasks := map f (ts_tasks s1)\<rparr>) = map_option f (task_of i s1)"
    unfolding task_of_def by (simp add: task_of_map)
  moreover have "mt_attempts (f t) = mt_attempts t" if "task_of i s1 = Some t" for t
    using same task_of_SomeD [OF that] by blast
  ultimately have "attempts_of i (s1\<lparr>ts_tasks := map f (ts_tasks s1)\<rparr>) = attempts_of i s1"
    by (simp add: attempts_of_def split: option.splits)
  with rows.IH show ?case by simp
next
  case (insertion s s1 env now u revision basis s2 j new)
  have "attempts_of i s2 = attempts_of i s1"
  proof (cases "task_of i s1")
    case None
    with inserted_task_of(2) [OF insertion.hyps(2), of i] show ?thesis by (auto simp: attempts_of_def new_task_def)
  next
    case (Some t)
    with inserted_task_of(1) [OF insertion.hyps(2), of i] show ?thesis by (simp add: attempts_of_def)
  qed
  with insertion.IH show ?case by simp
qed simp

text \<open>The task that a request claims\<close>

fun claimed_task :: "maintenance_request \<Rightarrow> task_store \<Rightarrow> uuid option" where
  "claimed_task (ClaimRequest env now owner token) s = (case claim_task env now owner token s of
     Inr (_, Some c, _) \<Rightarrow> Some (jc_task_id c) | _ \<Rightarrow> None)"
| "claimed_task _ s = None"

lemma run_attempts_same:
  assumes ok: "tables_ok s" and run: "maintenance_run r s = Inr s'"
    and r: "\<And>env now owner token. r \<noteq> ClaimRequest env now owner token" "\<And>u. r \<noteq> RedactRequest u"
  shows "attempts_of i s' = attempts_of i s + (if claimed_task r s = Some i then 1 else 0)"
proof -
  have "mt_attempts t' = mt_attempts t" if "moves_of r t t'" for t t'
  proof (cases r)
    case (ClaimRequest env now owner token)
    then show ?thesis using r(1) by blast
  qed (use that in \<open>simp_all add: leaves_def resolves_def\<close>)
  with run_moves [OF ok run r(2)] have "attempts_of i s' = attempts_of i s" by (rule store_moves_attempts)
  moreover have "claimed_task r s = None"
  proof (cases r)
    case (ClaimRequest env now owner token)
    then show ?thesis using r(1) by blast
  qed simp_all
  ultimately show ?thesis by simp
qed

lemma run_attempts:
  assumes ok: "tables_ok s" and run: "maintenance_run r s = Inr s'"
  shows "attempts_of i s' = attempts_of i s + (if claimed_task r s = Some i then 1 else 0)"
proof (cases r)
  case (ClaimRequest env now owner token)
  then obtain claim n where c: "claim_task env now owner token s = Inr (s', claim, n)"
    using run by (cases "claim_task env now owner token s") auto
  have quiet: "attempts_of i s1 = attempts_of i s" if "store_moves (leaves {TaskLeased}) s s1" for s1
    by (rule store_moves_attempts [OF that]) (simp add: leaves_def)
  show ?thesis using claim_moves [OF ok c]
  proof cases
    case (1 s1)
    then show ?thesis using quiet ClaimRequest c by simp
  next
    case (2 s1 t cl)
    have ok1: "tables_ok s1" by (rule store_moves_ok [OF 2(1) ok])
    then have dist: "distinct (map mt_id (ts_tasks s1))" by (simp add: tables_ok_def)
    let ?f = "\<lambda>x. if mt_id x = mt_id t then bumped (lease_task token now) x else x"
    have after: "task_of i s' = map_option ?f (task_of i s1)"
      unfolding 2(8) update_task_def task_of_def by (simp add: task_of_map lease_task_def)
    have held: "task_of (mt_id t) s1 = Some t" using 2(3) dist by (simp add: task_of_iff)
    have "attempts_of i s' = attempts_of i s1 + (if mt_id t = i then 1 else 0)"
    proof (cases "mt_id t = i")
      case True
      then have "task_of i s1 = Some t" using held by simp
      then show ?thesis using True after by (simp add: attempts_of_def lease_task_def)
    next
      case False
      then have "?f x = x" if "task_of i s1 = Some x" for x using task_of_SomeD [OF that] by simp
      then have "task_of i s' = task_of i s1" using after by (cases "task_of i s1") simp_all
      then show ?thesis using False by (simp add: attempts_of_def)
    qed
    then show ?thesis using quiet [OF 2(1)] ClaimRequest c 2(2,4) by simp
  qed
next
  case (RedactRequest u)
  let ?f = "\<lambda>t. if given_and (\<lambda>g. sg_unit_id g = u) (signal_of (mt_signal_id t) s) then redact_task t else t"
  have s_eq: "s' = redact_maintenance u s" using run RedactRequest by simp
  have "task_of i s' = map_option ?f (task_of i s)"
    unfolding s_eq by (simp add: redact_maintenance_def task_of_def task_of_map redact_task_def)
  then have "attempts_of i s' = attempts_of i s" by (cases "task_of i s") (simp_all add: attempts_of_def redact_task_def)
  then show ?thesis using RedactRequest by simp
qed (use run_attempts_same [OF ok run] in simp_all)

fun claims_of :: "uuid \<Rightarrow> task_store \<Rightarrow> maintenance_request list \<Rightarrow> nat" where
  "claims_of i s [] = 0"
| "claims_of i s (r # rs) = (if claimed_task r s = Some i then 1 else 0) + claims_of i (attempt maintenance_run s r) rs"

lemma claims_attempts:
  "tables_ok s \<Longrightarrow> attempts_of i (history maintenance_run s rs) = attempts_of i s + int (claims_of i s rs)"
proof (induction rs arbitrary: s)
  case (Cons r rs)
  show ?case
  proof (cases "maintenance_run r s")
    case (Inl e)
    then have "claimed_task r s = None" by (cases r) (auto split: sum.splits)
    then show ?thesis using Cons Inl by simp
  next
    case (Inr s')
    then show ?thesis using Cons.IH [OF run_ok [OF Cons.prems Inr]] run_attempts [OF Cons.prems Inr, of i] by simp
  qed
qed simp

section \<open>Reports on a claim\<close>

fun reports :: "job_claim \<Rightarrow> maintenance_request \<Rightarrow> bool" where
  "reports c (PrepareRequest env now owner claim) \<longleftrightarrow> claim = c"
| "reports c (FailRequest env now owner claim code) \<longleftrightarrow> claim = c"
| "reports c r \<longleftrightarrow> False"

lemma report_held:
  assumes ok: "tables_ok s" and run: "maintenance_run r s = Inr s'" and r: "reports c r"
  obtains t where "t \<in> set (ts_tasks s)" "mt_id t = jc_task_id c" "mt_revision t = jc_task_revision c"
    "\<forall>t'\<in>set (ts_tasks s'). mt_id t' = mt_id t \<longrightarrow> mt_revision t' = mt_revision t + 1"
proof -
  from run r obtain t f where t: "task_of (jc_task_id c) s = Some t" "lease_held c t" and s': "s' = update_task (mt_id t) f s"
    and moves: "store_moves (leaves {TaskLeased}) s s'"
  proof (cases r)
    case (PrepareRequest env now owner claim)
    then obtain out where "prepare_task env now owner c s = Inr (s', out)"
      using run r by (cases "prepare_task env now owner c s") auto
    from prepare_moves [OF ok this] that show thesis by metis
  next
    case (FailRequest env now owner claim code)
    then obtain out where "fail_task env now owner c code s = Inr (s', out)"
      using run r by (cases "fail_task env now owner c code s") auto
    from fail_moves [OF ok this] that show thesis by metis
  qed (use r in simp_all)
  have mem: "t \<in> set (ts_tasks s)" "mt_id t = jc_task_id c" using task_of_SomeD [OF t(1)] by simp_all
  have dist: "distinct (map mt_id (ts_tasks s))" "distinct (map mt_id (ts_tasks s'))"
    using ok store_moves_ok [OF moves ok] by (simp_all add: tables_ok_def)
  from store_moves_later [OF moves] mem(1) obtain y where y: "y \<in> set (ts_tasks s')" "mt_id y = mt_id t"
    "y = t \<or> mt_revision t < mt_revision y" by (auto simp: later_rows_def)
  have bump: "bumped f t \<in> set (ts_tasks s')" using mem(1) unfolding s' update_task_def by force
  show thesis
  proof (rule that [OF mem])
    show "mt_revision t = jc_task_revision c" using t(2) by (simp add: lease_held_def)
    show "\<forall>t'\<in>set (ts_tasks s'). mt_id t' = mt_id t \<longrightarrow> mt_revision t' = mt_revision t + 1"
    proof (intro ballI impI)
      fix t' assume t': "t' \<in> set (ts_tasks s')" "mt_id t' = mt_id t"
      then obtain x where x: "x \<in> set (ts_tasks s)" "t' = (if mt_id x = mt_id t then bumped f x else x)"
        by (auto simp: s' update_task_def)
      show "mt_revision t' = mt_revision t + 1"
      proof (cases "mt_id x = mt_id t")
        case True
        then have "x = t" using dist(1) x(1) mem(1) by (auto simp: distinct_map inj_on_def)
        then show ?thesis using x(2) by simp
      qed (use x t' in simp)
    qed
  qed
qed

lemma claim_issues:
  assumes ok: "tables_ok s" and run: "claim_task env now owner token s = Inr (s', Some c, n)"
  obtains t where "task_of (jc_task_id c) s' = Some t" "mt_revision t = jc_task_revision c" "mt_state t = TaskLeased"
proof -
  have dist: "distinct (map mt_id (ts_tasks s'))"
    using store_moves_ok [OF claim_step [OF ok run] ok] by (simp add: tables_ok_def)
  obtain s1 t where t: "t \<in> set (ts_tasks s1)" "jc_task_id c = mt_id t"
    "jc_task_revision c = mt_revision t + 1" "s' = update_task (mt_id t) (lease_task token now) s1"
    by (rule claim_moves [OF ok run]) auto
  have "bumped (lease_task token now) t \<in> set (ts_tasks s')" using t(1) unfolding t(4) update_task_def by force
  then have "task_of (jc_task_id c) s' = Some (bumped (lease_task token now) t)"
    using dist t(2) by (simp add: task_of_iff lease_task_def)
  then show thesis by (rule that) (simp_all add: t(3) lease_task_def)
qed

section \<open>A task that is linked to a change\<close>

lemma inserted_signal_of: "inserted env now u revision basis s s' i new \<Longrightarrow> signal_of j s = Some g \<Longrightarrow> signal_of j s' = Some g"
  by (auto simp: inserted_def signal_of_def find_snoc split: if_splits)

text \<open>What ends it: the publication of its change, and the erasure of its unit\<close>

fun ends_link :: "uuid \<Rightarrow> uuid \<Rightarrow> maintenance_request \<Rightarrow> bool" where
  "ends_link change u (PublishRequest env pub now receipt) \<longleftrightarrow> kpr_change_id receipt = change"
| "ends_link change u (RedactRequest u') \<longleftrightarrow> u' = u"
| "ends_link change u r \<longleftrightarrow> False"

lemma store_moves_stays:
  assumes "store_moves P s s'" "\<And>t'. \<not> P t t'" "task_of i s = Some t" "signal_of j s = Some g"
  shows "task_of i s' = Some t \<and> signal_of j s' = Some g"
  using assms(1,3,4)
proof (induction rule: store_moves.induct)
  case (rows s s1 f)
  then have IH: "task_of i s1 = Some t" "signal_of j s1 = Some g" by simp_all
  have "f x = x \<or> row_move x (f x) \<and> P x (f x)" if "x \<in> set (ts_tasks s1)" for x using rows.hyps(2) that by blast
  then have ids: "mt_id (f x) = mt_id x" and stays: "x = t \<Longrightarrow> f x = x" if "x \<in> set (ts_tasks s1)" for x
    using assms(2) that by (metis row_move_def)+
  have "task_of i (s1\<lparr>ts_tasks := map f (ts_tasks s1)\<rparr>) = map_option f (task_of i s1)"
    unfolding task_of_def by (simp add: task_of_map ids)
  then show ?case using IH stays task_of_SomeD [OF IH(1)] by simp
next
  case (insertion s s1 env now u revision basis s2 k new)
  then have IH: "task_of i s1 = Some t" "signal_of j s1 = Some g" by simp_all
  show ?case using inserted_task_of(1) [OF insertion.hyps(2), of i] inserted_signal_of [OF insertion.hyps(2) IH(2)] IH(1) by simp
qed simp

lemma redact_others:
  assumes "task_of i s = Some t" "signal_of (mt_signal_id t) s = Some g" "sg_unit_id g \<noteq> u"
  shows "task_of i (redact_maintenance u s) = Some t \<and> signal_of (mt_signal_id t) (redact_maintenance u s) = Some g"
proof -
  let ?t = "\<lambda>t. if given_and (\<lambda>g. sg_unit_id g = u) (signal_of (mt_signal_id t) s) then redact_task t else t"
  have "task_of i (redact_maintenance u s) = map_option ?t (task_of i s)"
    by (simp add: redact_maintenance_def task_of_def task_of_map redact_task_def)
  moreover have "List.find (\<lambda>g. sg_id g = k) (map (\<lambda>g. if sg_unit_id g = u then redact_signal g else g) gs) =
      map_option (\<lambda>g. if sg_unit_id g = u then redact_signal g else g) (List.find (\<lambda>g. sg_id g = k) gs)" for k gs
    by (induction gs) (auto simp: redact_signal_def)
  ultimately show ?thesis using assms by (simp add: redact_maintenance_def signal_of_def)
qed

lemma linked_stays:
  assumes ok: "tables_ok s" and run: "maintenance_run r s = Inr s'"
    and t: "task_of i s = Some t" "mt_state t = TaskLinked" "mt_change_id t = Some change"
    and g: "signal_of (mt_signal_id t) s = Some g" and r: "\<not> ends_link change (sg_unit_id g) r"
  shows "task_of i s' = Some t \<and> signal_of (mt_signal_id t) s' = Some g"
proof (cases r)
  case (RedactRequest u)
  then have "u \<noteq> sg_unit_id g" using r by simp
  with redact_others [OF t(1) g] RedactRequest run show ?thesis by auto
next
  case (PublishRequest env pub now receipt)
  then have "\<not> moves_of r t t'" for t' using r t(3) by (auto simp: resolves_def)
  moreover have "store_moves (moves_of r) s s'" by (rule run_moves [OF ok run]) (simp add: PublishRequest)
  ultimately show ?thesis using store_moves_stays [OF _ _ t(1) g] by blast
qed (use store_moves_stays [OF run_moves [OF ok run] _ t(1) g] t(2) in \<open>auto simp: leaves_def\<close>)

end
