(* ===== verification/MaintenanceExample.thy ===== *)
theory MaintenanceExample
  imports MaintenanceSteps
begin

text \<open>A signal that an operator requests, its task claimed, prepared and linked to a change\<close>

definition example_status :: review_status where
  "example_status = \<lparr>rvs_unit_id = 2, rvs_revision = 1, rvs_lifecycle = LifeActive, rvs_access_scope = WorkspaceMembers,
     rvs_publication_event_id = 8, rvs_validation_event_id = None, rvs_valid_from = None, rvs_valid_until = None,
     rvs_review_due_at = None, rvs_due = False, rvs_not_yet_valid = False, rvs_expired = False, rvs_needs_review = True\<rparr>"

definition example_maintenance :: maintenance_env where
  "example_maintenance = \<lparr>me_identity_ready = True, me_owner = (\<lambda>_. True), me_workspace = 1,
     me_revision = (\<lambda>_ _. Some (False, None)), me_accepted = (\<lambda>_. Some 1), me_reconcile = (\<lambda>_. Inr ()),
     me_consumers = (\<lambda>_ _. Inr []), me_review = (\<lambda>_ _. Inr example_status), me_logical_uri = (\<lambda>_ _ _ _. Inr None),
     me_event_unit_iri = (\<lambda>_ _. None), me_runbook_dependencies = (\<lambda>_ _. Inr None),
     me_unit = (\<lambda>_ _. Inr (Some (ViewDocument ''u'' ''r''))), me_digest = (\<lambda>_. ''d''), me_begin = (\<lambda>_. Inr (50, 60)),
     me_fresh = (\<lambda>u. (u + 100, u + 200))\<rparr>"

definition example_observation :: observe_signal where
  "example_observation = \<lparr>os_request_id = 1, os_unit_id = 2, os_unit_revision = 1, os_basis = BasisOperatorRequested ''u'' ''o''\<rparr>"

definition example_signal :: signal_row where
  "example_signal = \<lparr>sg_id = 3, sg_unit_id = 2, sg_unit_revision = 1, sg_reason = SignalOperatorRequested,
     sg_basis = Some (BasisOperatorRequested ''u'' ''o'', ''d''), sg_erased = False\<rparr>"

definition with_task :: "task_row \<Rightarrow> task_store" where
  "with_task t = \<lparr>ts_signals = [example_signal], ts_tasks = [t], ts_generation = 1\<rparr>"

definition example_claim :: job_claim where
  "example_claim = \<lparr>jc_task_id = 4, jc_task_revision = 2, jc_lease_token = 5, jc_workspace_id = 1, jc_principal_id = 9\<rparr>"

definition claimed_row :: task_row where
  "claimed_row = (lease_task 5 10 (new_task 4 3 0))\<lparr>mt_revision := 2\<rparr>"

definition prepared_row :: task_row where
  "prepared_row = (task_needs_review example_status [] claimed_row)\<lparr>mt_revision := 3\<rparr>"

definition linked_row :: task_row where
  "linked_row = (task_linked 50 60 example_status [] prepared_row)\<lparr>mt_revision := 4\<rparr>"

definition example_link :: begin_maintenance where
  "example_link = \<lparr>bm_request_id = 6, bm_task_id = 4, bm_task_revision = 3, bm_change =
     \<lparr>kbk_request_id = 6, kbk_intent = ''i'', kbk_desired_outcome = ''o'', kbk_sources = [],
       kbk_operation_hints = [\<lparr>koh_client_label = ''a'', koh_operation = OpRevise, koh_unit_id = Some 2, koh_expected_revision = Some 1,
         koh_expected_lifecycle = Some LifeActive, koh_reason = ''r'', koh_authority_basis = ''b'', koh_depends_on_labels = []\<rparr>],
       kbk_owner = OwnerWorkspace, kbk_completion = \<lparr>kcr_canonical_result = True, kcr_exact_delivery = True,
         kcr_impact_recorded = True, kcr_search = SearchNotRequired, kcr_erasure = ErasureNotRequired\<rparr>,
       kbk_delivery_mode = None\<rparr>\<rparr>"

lemmas example_rows = example_maintenance_def example_signal_def with_task_def example_claim_def claimed_row_def
  prepared_row_def linked_row_def new_task_def lease_task_def task_needs_review_def task_linked_def

lemma example_observed:
  "maintenance_run (ObserveRequest example_maintenance 0 9 3 4 example_observation) no_tasks = Inr (with_task (new_task 4 3 0))"
proof -
  have "observe_validate example_observation = Inr ()" "basis_validate (BasisOperatorRequested ''u'' ''o'') = Inr ()"
    by code_simp+
  then show ?thesis
    by (simp add: observe_def owner_gate_def observation_check_def ensure_signal_task_def load_task_def task_of_def signal_of_def
        example_observation_def no_tasks_def example_rows checked_add_i64_def in_i64_def i64_min_def i64_max_def ok_or_def
        del: basis_validate.simps)
qed

lemma example_claimed:
  "claim_task example_maintenance 10 9 5 (with_task (new_task 4 3 0)) = Inr (with_task claimed_row, Some example_claim, 0)"
  by (simp add: claim_task_def owner_gate_def recover_task_def lease_over_def claimable_def signal_of_def first_due_def
      update_task_def example_rows)

lemma example_prepared:
  "maintenance_run (PrepareRequest example_maintenance 20 9 example_claim) (with_task claimed_row) = Inr (with_task prepared_row)"
  by (simp add: prepare_task_def claim_gate_def owner_gate_def task_of_def signal_of_def lease_held_def lease_live_def
      review_if_any_def update_task_def seconds_def ok_or_def example_rows)

lemma example_linked:
  "maintenance_run (LinkRequest example_maintenance 9 example_link) (with_task prepared_row) = Inr (with_task linked_row)"
proof -
  have "list_all (\<lambda>s. \<not> blank s \<and> \<not> has_nul s) [''i'', ''o'', ''a'', ''r'', ''b'']" by code_simp
  then have "begin_maintenance_validate example_link = Inr ()"
    by (simp add: begin_maintenance_validate_def kc_begin_validate_def example_link_def accept_if_def each_def each_idx_def
        seen_before_def hint_ok_def bounded_nonblank_def DK2_MAX_SOURCE_BYTES_def DK2_MAX_OPERATIONS_def DK2_MAX_LIST_ITEMS_def)
  then show ?thesis
    by (simp add: link_task_def owner_gate_def task_of_def signal_of_def update_task_def ok_or_def example_link_def example_rows)
qed

definition example_requests :: "maintenance_request list" where
  "example_requests = [ObserveRequest example_maintenance 0 9 3 4 example_observation, ClaimRequest example_maintenance 10 9 5,
     PrepareRequest example_maintenance 20 9 example_claim, LinkRequest example_maintenance 9 example_link]"

lemma example_history: "history maintenance_run no_tasks example_requests = with_task linked_row"
proof -
  have "maintenance_run (ClaimRequest example_maintenance 10 9 5) (with_task (new_task 4 3 0)) = Inr (with_task claimed_row)"
    using example_claimed by simp
  then show ?thesis using example_observed example_prepared example_linked
    by (simp add: example_requests_def del: maintenance_run.simps)
qed

end
