(* ===== verification/MaintenanceSafety.thy ===== *)
theory MaintenanceSafety
  imports MaintenanceExample
begin

text \<open>
  What holds of the maintenance tasks after every sequence of requests: the constraints of their tables, at most five
  claims of a task, leases that fence each other off, and what alone ends a task that is linked to a change.
\<close>

text \<open>
  C18: After every sequence of requests the constraints of the task table hold, so none of them ever refuses an update:
  identifiers are unique, a signal has one task, a basis is signalled once for a revision as long as it is not erased,
  a lease is held exactly while a task is leased, an exhausted task has used its five attempts, and a task is erased
  together with its signal.
\<close>

theorem maintenance_tables_hold: "tables_ok (history maintenance_run no_tasks requests)"
  by (rule reachable_ok)

text \<open>
  C17: No task is claimed more than five times, whatever workers crash, leases run out or backups are restored in
  between.
\<close>

theorem task_claimed_five_times: "claims_of i no_tasks requests \<le> 5"
proof -
  let ?s = "history maintenance_run no_tasks requests"
  have "attempts_of i ?s \<le> 5"
  proof (cases "task_of i ?s")
    case (Some t)
    then have "task_ok t" using task_ok_of [OF reachable_ok] task_of_SomeD by blast
    then show ?thesis using Some by (simp add: attempts_of_def task_ok_bounds)
  qed (simp add: attempts_of_def)
  then show ?thesis using claims_attempts [OF no_tasks_ok, of i requests] by (simp add: attempts_of_def task_of_def no_tasks_def)
qed

text \<open>
  C16: Leases fence each other off. A report on a claim, its preparation or its failure, is accepted only while the task
  is exactly as the claim left it: no other worker has claimed it, no restored backup has reset it, no erasure has
  cleared it. After it no report on this claim is accepted any more.
\<close>

theorem lease_fences:
  assumes "claim_task env now owner token (history maintenance_run no_tasks before) = Inr (s, Some c, n)"
    and "reports c r" and "maintenance_run r (history maintenance_run s between) = Inr s'" and "reports c r'"
  shows "task_of (jc_task_id c) (history maintenance_run s between) = task_of (jc_task_id c) s \<and>
    (\<exists>e. maintenance_run r' (history maintenance_run s' afterwards) = Inl e)"
proof -
  let ?s2 = "history maintenance_run s between" and ?s4 = "history maintenance_run s' afterwards"
  have ok: "tables_ok s" by (rule store_moves_ok [OF claim_step [OF reachable_ok assms(1)] reachable_ok])
  then have ok2: "tables_ok ?s2" by (rule maintenance.history_inv)
  then have ok3: "tables_ok s'" using assms(3) by (rule run_ok)
  then have ok4: "tables_ok ?s4" by (rule maintenance.history_inv)
  from claim_issues [OF reachable_ok assms(1)] obtain t where t: "task_of (jc_task_id c) s = Some t"
    "mt_revision t = jc_task_revision c" by metis
  from report_held [OF ok2 assms(3,2)] obtain t2 where t2: "t2 \<in> set (ts_tasks ?s2)" "mt_id t2 = jc_task_id c"
    "mt_revision t2 = jc_task_revision c"
    "\<forall>t'\<in>set (ts_tasks s'). mt_id t' = mt_id t2 \<longrightarrow> mt_revision t' = mt_revision t2 + 1" by metis
  have held: "task_of (jc_task_id c) ?s2 = Some t2" using t2(1,2) ok2 by (simp add: task_of_iff tables_ok_def)
  from history_later [OF ok] task_of_SomeD [OF t(1)] obtain x where x: "x \<in> set (ts_tasks ?s2)" "mt_id x = jc_task_id c"
    "x = t \<or> mt_revision t < mt_revision x" unfolding later_rows_def by metis
  have "x = t2" using x(1,2) t2(1,2) ok2 by (auto simp: tables_ok_def distinct_map inj_on_def)
  then have same: "t2 = t" using x(3) t(2) t2(3) by auto
  have "\<exists>e. maintenance_run r' ?s4 = Inl e"
  proof (rule ccontr)
    assume "\<nexists>e. maintenance_run r' ?s4 = Inl e"
    then obtain s5 where s5: "maintenance_run r' ?s4 = Inr s5" by (cases "maintenance_run r' ?s4") auto
    from report_held [OF ok4 s5 assms(4)] obtain t4 where t4: "t4 \<in> set (ts_tasks ?s4)" "mt_id t4 = jc_task_id c"
      "mt_revision t4 = jc_task_revision c" by metis
    from run_later [OF ok2 assms(3)] t2(1,2) obtain t3 where t3: "t3 \<in> set (ts_tasks s')" "mt_id t3 = mt_id t2"
      unfolding later_rows_def by metis
    from history_later [OF ok3] t3(1) obtain y where y: "y \<in> set (ts_tasks ?s4)" "mt_id y = mt_id t3"
      "y = t3 \<or> mt_revision t3 < mt_revision y" unfolding later_rows_def by metis
    have "y = t4" using y(1,2) t4(1,2) t3(2) t2(2) ok4 by (auto simp: tables_ok_def distinct_map inj_on_def)
    moreover have "mt_revision t3 = mt_revision t2 + 1" using t2(4) t3 by simp
    ultimately show False using y(3) t2(3) t4(3) by auto
  qed
  then show ?thesis using held t(1) same by simp
qed

theorem lease_fences_witness:
  "task_of 4 (with_task claimed_row) = Some claimed_row \<and>
    (\<exists>e. maintenance_run (FailRequest example_maintenance 30 9 example_claim FailInternalInvariant) (with_task linked_row) = Inl e)"
proof -
  let ?observe = "ObserveRequest example_maintenance 0 9 3 4 example_observation"
  have start: "history maintenance_run no_tasks [?observe] = with_task (new_task 4 3 0)"
    using example_observed by simp
  have "history maintenance_run (with_task prepared_row) [LinkRequest example_maintenance 9 example_link] = with_task linked_row"
    using example_linked by simp
  moreover have "task_of 4 (with_task claimed_row) = Some claimed_row" by (simp add: task_of_def example_rows)
  ultimately show ?thesis
    using lease_fences [of example_maintenance 10 9 5 "[?observe]" "with_task claimed_row" example_claim 0
        "PrepareRequest example_maintenance 20 9 example_claim" "[]" "with_task prepared_row"
        "FailRequest example_maintenance 30 9 example_claim FailInternalInvariant" "[LinkRequest example_maintenance 9 example_link]"]
      example_claimed example_prepared unfolding start
    by (simp del: maintenance_run.simps)
qed

text \<open>
  C19: A task that is linked to a change leaves this state only when its own change is published or its unit is erased:
  through every other sequence of requests its row stays as it is. So where the change ends without a publication,
  because its review found no change or rejected it, the task stays linked for good and no other change can be begun
  for it.
\<close>

theorem linked_task_waits:
  assumes "task_of i (history maintenance_run no_tasks before) = Some t" "mt_state t = TaskLinked"
    and "mt_change_id t = Some change" "signal_of (mt_signal_id t) (history maintenance_run no_tasks before) = Some g"
    and "list_all (\<lambda>r. \<not> ends_link change (sg_unit_id g) r) requests"
  shows "task_of i (history maintenance_run (history maintenance_run no_tasks before) requests) = Some t"
proof -
  have "tables_ok s \<Longrightarrow> task_of i s = Some t \<Longrightarrow> signal_of (mt_signal_id t) s = Some g \<Longrightarrow>
      list_all (\<lambda>r. \<not> ends_link change (sg_unit_id g) r) requests \<Longrightarrow> task_of i (history maintenance_run s requests) = Some t" for s
  proof (induction requests arbitrary: s)
    case (Cons r requests)
    show ?case
    proof (cases "maintenance_run r s")
      case (Inr s')
      from linked_stays [OF Cons.prems(1) Inr Cons.prems(2) assms(2,3) Cons.prems(3)] Cons.prems(4)
      have "task_of i s' = Some t" "signal_of (mt_signal_id t) s' = Some g" by simp_all
      with Cons.IH [OF run_ok [OF Cons.prems(1) Inr]] Cons.prems(4) Inr show ?thesis by simp
    qed (use Cons in simp)
  qed simp
  then show ?thesis using reachable_ok assms(1,4,5) by blast
qed

theorem linked_task_waits_witness:
  "task_of 4 (history maintenance_run (history maintenance_run no_tasks example_requests)
      [RestoreRequest 40, ClaimRequest example_maintenance 50 9 6, RedactRequest 7]) = Some linked_row"
proof (rule linked_task_waits)
  show "task_of 4 (history maintenance_run no_tasks example_requests) = Some linked_row"
    "signal_of (mt_signal_id linked_row) (history maintenance_run no_tasks example_requests) = Some example_signal"
    by (simp_all add: example_history task_of_def signal_of_def example_rows)
qed (simp_all add: example_rows)

end
