(* ===== verification/Spec2Isabelle.thy ===== *)
theory Spec2Isabelle
  imports Prelude RustStr Errors JsonFragments Identity KnowledgeTime Interfaces PlanningKnowledge Programs Setups
    CandidateDelta CandidateDraft Pipelines SliceGraph PipelineTypes PipelineArtifacts PipelineFollowups PipelineConstraints
    PipelineDefinition PipelineMigration PipelineReview RequirementsLedger PipelineInputs PipelineRuns
    RunInvariant RunExample RunSafety RunFlow EngineeringReview NativeContract PipelineCompletion KnowledgeChanges
    KnowledgePlan KnowledgeUnits UnitLifecycle UnitHistory KnowledgeRuns KnowledgePhases
    KnowledgePublish KnowledgeSettlement KnowledgeFlow KnowledgeSteps KnowledgeHistory
    KnowledgeExample KnowledgeSafety MaintenanceTasks MaintenanceTables MaintenanceSteps MaintenanceExample
    MaintenanceSafety
begin

text \<open>
  A verification library of tectd, a daemon that keeps the programs, the pipeline runs and the durable knowledge of a
  workspace for software agents. An agent prepares requests against a revision it has read; the daemon
  validates them (\<^verbatim>\<open>crates/domain\<close>), applies them in one database transaction each (\<^verbatim>\<open>crates/postgres\<close>), and
  answers through its host (\<^verbatim>\<open>crates/host\<close>). What makes the daemon correct is therefore: which requests its
  validators accept, what an accepted request does to the stored rows, and what holds of the rows after
  every sequence of requests of any number of agents. The theories follow this order.

  \<^bold>\<open>Foundations.\<close> \<^verbatim>\<open>Prelude\<close> has the result type (\<^verbatim>\<open>Result\<close> as a sum, \<^verbatim>\<open>?\<close> as \<open>andThen\<close>, a
  validator as \<open>checks\<close>), Rust's checked arithmetic, and the lemmas and simplification rules
  (\<open>check_simps\<close>) that turn an accepted validator into the facts it checked. \<^verbatim>\<open>RustStr\<close> has strings as
  the lists of their UTF-8 bytes, with the operations of the standard library that the code uses. \<^verbatim>\<open>Errors\<close> has the
  public errors, refusals and diagnostics (\<^verbatim>\<open>error.rs\<close>, \<^verbatim>\<open>refusal.rs\<close>, \<^verbatim>\<open>error/diagnostic.rs\<close>), \<^verbatim>\<open>JsonFragments\<close>
  the byte windows through which a client reads an answer that is too large (\<^verbatim>\<open>crates/host/src/json_fragment.rs\<close>).
  \<^verbatim>\<open>Interfaces\<close> has
  the contracts that components share, as locales: a machine with an invariant, a resource whose revision guards its
  requests, one that moves to a new revision with each of them, an inbox of numbered inputs. \<^verbatim>\<open>Programs\<close>,
  \<^verbatim>\<open>Setups\<close> and the runs interpret them, so a lost update or a rewound cursor is excluded once for all of them.

  \<^bold>\<open>Identity and planning.\<close> \<^verbatim>\<open>Identity\<close> (\<^verbatim>\<open>identity.rs\<close>, \<^verbatim>\<open>sources.rs\<close>, \<^verbatim>\<open>setup_file.rs\<close> and the cursors of
  paged collections), \<^verbatim>\<open>KnowledgeTime\<close> (the RFC 3339 parser of \<^verbatim>\<open>knowledge_time.rs\<close>, on 32-bit words),
  \<^verbatim>\<open>PlanningKnowledge\<close> (\<^verbatim>\<open>planning_knowledge.rs\<close>), \<^verbatim>\<open>Programs\<close> (\<^verbatim>\<open>program.rs\<close>), \<^verbatim>\<open>Setups\<close> (\<^verbatim>\<open>setup.rs\<close>),
  \<^verbatim>\<open>CandidateDelta\<close> and \<^verbatim>\<open>CandidateDraft\<close> (\<^verbatim>\<open>candidate_delta.rs\<close>, \<^verbatim>\<open>scope_candidate_draft.rs\<close>,
  \<^verbatim>\<open>scope_candidate_validation.rs\<close>), \<^verbatim>\<open>SliceGraph\<close> (\<^verbatim>\<open>native_planning.rs\<close> with its validation).

  \<^bold>\<open>Pipelines.\<close> A run follows a pinned definition, phase by phase. \<^verbatim>\<open>Pipelines\<close> has the catalogue,
  \<^verbatim>\<open>PipelineTypes\<close> the data of definitions, runs and commands, \<^verbatim>\<open>PipelineDefinition\<close> the acceptance of a definition,
  and \<^verbatim>\<open>PipelineArtifacts\<close>, \<^verbatim>\<open>PipelineFollowups\<close>, \<^verbatim>\<open>PipelineConstraints\<close>, \<^verbatim>\<open>EngineeringReview\<close>, \<^verbatim>\<open>NativeContract\<close>,
  \<^verbatim>\<open>RequirementsLedger\<close>, \<^verbatim>\<open>PipelineInputs\<close>, \<^verbatim>\<open>PipelineReview\<close> and \<^verbatim>\<open>PipelineMigration\<close> the rules that a phase output,
  an input or a migration must meet (the files of the same names in \<^verbatim>\<open>crates/domain\<close>, and
  \<^verbatim>\<open>crates/postgres/src/pipeline_execution/phase/helpers\<close>). \<^verbatim>\<open>PipelineCompletion\<close> is the validation of the completion
  of a phase as a whole. \<^verbatim>\<open>PipelineRuns\<close> has the stored run with every operation that changes it
  (\<^verbatim>\<open>run.rs\<close>, \<^verbatim>\<open>phase.rs\<close>, \<^verbatim>\<open>input.rs\<close>, \<^verbatim>\<open>checkpoint_resolution.rs\<close>, \<^verbatim>\<open>migration.rs\<close> of
  \<^verbatim>\<open>crates/postgres/src/pipeline_execution\<close>, and the refresh of its knowledge in
  \<^verbatim>\<open>durable_knowledge/manifest.rs\<close>), and the clearing of its rows when the commit of a knowledge change erases what
  they copy (\<^verbatim>\<open>knowledge_lifecycle/erase/redact.rs\<close>). \<^verbatim>\<open>RunInvariant\<close> shows what every operation and erasure keeps,
  \<^verbatim>\<open>RunSafety\<close> what holds of a run after every sequence of requests and erasures, and \<^verbatim>\<open>RunFlow\<close> that each accepted
  request is one step of an abstract flow over the phases, that a run completes only after all of them, and that a
  live run completes with outputs that the validation of its definition and the checks on it accept.

  \<^bold>\<open>Knowledge.\<close> A unit of knowledge has revisions, each a document; a \<^emph>\<open>change\<close> moves units
  through twelve phases to one publication. \<^verbatim>\<open>KnowledgeTypes\<close> and \<^verbatim>\<open>KnowledgeDocuments\<close> have documents and their
  validation, \<^verbatim>\<open>KnowledgeRegistry\<close> the profiles with their obligations and the definition of the phases,
  \<^verbatim>\<open>KnowledgeChangeTypes\<close> and \<^verbatim>\<open>KnowledgeChanges\<close> the data and the requests of a change, \<^verbatim>\<open>KnowledgePlan\<close> the compilation
  of its plan. \<^verbatim>\<open>KnowledgeUnits\<close> is the store of units and the application of a changeset to it; \<^verbatim>\<open>UnitLifecycle\<close>
  refines it to an abstract lifecycle of units, and \<^verbatim>\<open>UnitHistory\<close> follows sequences of commits. \<^verbatim>\<open>KnowledgeRuns\<close>,
  \<^verbatim>\<open>KnowledgePhases\<close>, \<^verbatim>\<open>KnowledgePublish\<close> and \<^verbatim>\<open>KnowledgeSettlement\<close> are the run of a change over this store: its
  rows, the data of each phase, its gate, its commit and the settlement of its effects
  (\<^verbatim>\<open>crates/postgres/src/knowledge_lifecycle\<close>). \<^verbatim>\<open>KnowledgeFlow\<close> states the invariant of a run, \<^verbatim>\<open>KnowledgeSteps\<close>
  shows that every request keeps it, \<^verbatim>\<open>KnowledgeHistory\<close> follows histories in which the requests of a change and
  the commits and erasures of other changes come in any order, and \<^verbatim>\<open>KnowledgeSafety\<close> states what they
  guarantee, with the change of \<^verbatim>\<open>KnowledgeExample\<close> as their witness, from its beginning to its result.
  \<^verbatim>\<open>MaintenanceTasks\<close> has the tasks that ask for a published unit to be looked at again, with their leases and their
  link to a change (\<^verbatim>\<open>crates/postgres/src/knowledge_maintenance\<close>; a restore is the reset of the leases, the
  return of all tables to a backup is not modelled); \<^verbatim>\<open>MaintenanceTables\<close> and \<^verbatim>\<open>MaintenanceSteps\<close> show what
  each request does to their rows, and \<^verbatim>\<open>MaintenanceSafety\<close> what holds after every sequence of them, with the task of
  \<^verbatim>\<open>MaintenanceExample\<close> as its witness.

  \<^bold>\<open>How state and operations correspond to the code.\<close> A struct is a record and an enum a datatype with the
  names of the source; a table is the list of its rows in the order of insertion, and \<^verbatim>\<open>ORDER BY\<close> a sort or the end
  of this list; an operation takes the rows it reads and returns the rows as the transaction leaves them, or
  the error with which the transaction is rolled back. \<^verbatim>\<open>i64\<close> revisions and counters that the code
  increments with \<^verbatim>\<open>checked_add\<close> are integers with this check; revisions that SQL increments are unbounded, since
  \<^verbatim>\<open>bigint\<close> would refuse the overflow. Fresh identifiers, clock readings, SHA-256, the serializers, the
  \<^verbatim>\<open>uuid\<close>, \<^verbatim>\<open>oxrdf\<close> and pgRDF libraries and the tables of components outside a theory are parameters, collected in
  a record per theory (\<open>codec\<close>, \<open>store_env\<close>, \<open>run_env\<close>, \<open>outside_checks\<close>, \<open>maintenance_env\<close>); nothing is assumed
  of them unless a property says so. Concurrent agents are sequences of whole requests: every operation locks its
  run, its head or its workspace row first.

  \<^bold>\<open>Termination and bounds.\<close> Only the depth-first search of \<^verbatim>\<open>SliceGraph\<close> has fuel, since its code recurses on a
  graph that may have cycles: the number of nodes bounds its depth, and that this is enough is part of its property.
  Kahn's algorithm of \<^verbatim>\<open>PipelineFollowups\<close>, the loop of \<^verbatim>\<open>topo\<close>, the walk over reused receipts and the search for a
  window are total by their measures. A client that reads fragments has the number of pages it reads as its fuel: one
  more than the text has bytes is enough.

  \<^bold>\<open>Hypotheses.\<close> The histories of a change assume of the server's definition of the phases, besides its
  validation, that a phase leads back to earlier phases only (\<open>orderly\<close>), and that identifiers of outputs are
  fresh. Histories of the store of units start from an empty one.

  \<^bold>\<open>Not modelled.\<close> The transport and the rendering of answers (\<^verbatim>\<open>crates/host\<close>, except for what is named
  above), command line tools (\<^verbatim>\<open>crates/cli\<close>), which only forward, and configuration; the writing and reading of RDF
  triples and their shapes (\<^verbatim>\<open>rdf\<close>, \<^verbatim>\<open>event\<close>), whose content is a serialization; the retrieval of stored rows for
  display (\<^verbatim>\<open>context\<close> modules), search and its embeddings, the review status and the consumers that maintenance reads, backup and recovery, and
  migrations of the database, which are SQL; the authorization of a session and the replay of receipts in the
  adapters of knowledge changes, and the run that only confirms an earlier erasure (\<^verbatim>\<open>begin_erased_no_change\<close>); the
  replay of requests on a pipeline run other than the completion of a phase; the registry of copies through which an erasure reaches other tables, of which
  only whether something is left is used; the scope-candidate, program and setup adapters, whose state
  changes are those of the domain types above.
\<close>

end
